(* ===== verification/Prelude.thy ===== *)
theory Prelude
  imports Main "HOL-Library.Word" "HOL-Library.Char_ord" "HOL-Library.List_Lexorder"
begin

text \<open>
  Shared vocabulary of the development: names for the program's scalar types, the
  collections of facts the component proofs draw on, the result type of fallible calls,
  decimal rendering (fmt verb d), and the generic lemmas on lists, maps and words that
  more than one component uses.

  A database identifier (uuid.UUID) is its canonical text, because the code compares, sorts
  and stores identifiers by that text. A nullable column (pgtype.X with Valid) is an option.
  A point in time is an int (nanoseconds since the epoch); a duration is an int of the same
  unit.
\<close>

type_synonym uuid = string
type_synonym time = int

named_theorems step_simps \<open>unfolding of one operation of a component\<close>
named_theorems keeps \<open>operations that preserve a component's invariant\<close>
named_theorems frame \<open>parts of the state an operation leaves alone\<close>

definition nil_uuid :: uuid where
  "nil_uuid = ''00000000-0000-0000-0000-000000000000''"

definition second :: time where "second = 1000000000"
definition minute :: time where "minute = 60 * second"
definition hour :: time where "hour = 60 * minute"
definition day :: time where "day = 24 * hour"

lemmas time_units = second_def minute_def hour_def day_def

text \<open>Reading a nullable column the way the Go code does: the zero value when it is NULL.\<close>

primrec text_or :: "string \<Rightarrow> string option \<Rightarrow> string" where
  "text_or d None = d"
| "text_or d (Some s) = s"

primrec int_or :: "int \<Rightarrow> int option \<Rightarrow> int" where
  "int_or d None = d"
| "int_or d (Some i) = i"

primrec bool_or :: "bool \<Rightarrow> bool option \<Rightarrow> bool" where
  "bool_or d None = d"
| "bool_or d (Some b) = b"

section \<open>Results\<close>

fun is_ok :: "'e + 'a \<Rightarrow> bool" where
  "is_ok (Inl e) = False"
| "is_ok (Inr x) = True"

lemma is_ok_iff: "is_ok r \<longleftrightarrow> (\<exists>x. r = Inr x)"
  by (cases r) auto

section \<open>Machine integers\<close>

text \<open>int64 arithmetic wraps around; Go's integer division truncates toward zero.\<close>

definition wrap64 :: "int \<Rightarrow> int" where
  "wrap64 i = (i + 9223372036854775808) mod 18446744073709551616 - 9223372036854775808"

definition wrap32 :: "int \<Rightarrow> int" where
  "wrap32 i = (i + 2147483648) mod 4294967296 - 2147483648"

lemma wrap64_id [simp]: "- 9223372036854775808 \<le> i \<Longrightarrow> i < 9223372036854775808 \<Longrightarrow> wrap64 i = i"
  by (simp add: wrap64_def)

lemma wrap32_id [simp]: "- 2147483648 \<le> i \<Longrightarrow> i < 2147483648 \<Longrightarrow> wrap32 i = i"
  by (simp add: wrap32_def)

definition quot :: "int \<Rightarrow> int \<Rightarrow> int" where
  "quot a b = sgn a * sgn b * (\<bar>a\<bar> div \<bar>b\<bar>)"

lemma quot_nonneg [simp]: "0 \<le> a \<Longrightarrow> 0 < b \<Longrightarrow> quot a b = a div b"
  by (cases "a = 0") (simp_all add: quot_def)

section \<open>Decimal rendering\<close>

definition digit :: "nat \<Rightarrow> char" where
  "digit n = char_of (48 + n)"

fun nat_str :: "nat \<Rightarrow> string" where
  "nat_str n = (if n < 10 then [digit n] else nat_str (n div 10) @ [digit (n mod 10)])"

declare nat_str.simps [simp del]

definition str_nat :: "string \<Rightarrow> nat" where
  "str_nat s = foldl (\<lambda>a c. a * 10 + (of_char c - 48)) 0 s"

definition int_str :: "int \<Rightarrow> string" where
  "int_str i = (if i < 0 then CHR ''-'' # nat_str (nat (- i)) else nat_str (nat i))"

lemma of_char_digit [simp]: "n < 10 \<Longrightarrow> of_char (digit n) = 48 + n"
  by (simp add: digit_def)

lemma str_nat_snoc [simp]: "str_nat (s @ [c]) = str_nat s * 10 + (of_char c - 48)"
  by (simp add: str_nat_def)

lemma str_nat_nat_str [simp]: "str_nat (nat_str n) = n"
proof (induction n rule: nat_str.induct)
  case (1 n)
  show ?case
  proof (cases "n < 10")
    case True
    then show ?thesis by (simp add: nat_str.simps[of n] str_nat_def)
  next
    case False
    then show ?thesis using 1 by (simp add: nat_str.simps[of n])
  qed
qed

lemma nat_str_inj [simp]: "nat_str m = nat_str n \<longleftrightarrow> m = n"
  by (metis str_nat_nat_str)

lemma nat_str_chars: "c \<in> set (nat_str n) \<Longrightarrow> 48 \<le> (of_char c :: nat) \<and> (of_char c :: nat) < 58"
proof (induction n rule: nat_str.induct)
  case (1 n)
  show ?case
  proof (cases "n < 10")
    case True
    then show ?thesis using 1 by (simp add: nat_str.simps[of n])
  next
    case False
    then show ?thesis using 1 by (auto simp: nat_str.simps[of n])
  qed
qed

lemma dot_not_in_nat_str [simp]: "CHR ''.'' \<notin> set (nat_str n)"
  using nat_str_chars[of "CHR ''.''" n] by auto

lemma split_at_sep:
  assumes "a @ s # x = b @ s # y" "s \<notin> set a" "s \<notin> set b"
  shows "a = b \<and> x = y"
  using assms
proof (induction a arbitrary: b)
  case Nil
  then show ?case by (cases b) auto
next
  case (Cons c a)
  then show ?case by (cases b) auto
qed

section \<open>Lists and maps\<close>

lemma distinct_map_filter_key: "distinct (List.map f xs) \<Longrightarrow> distinct (List.map f (List.filter P xs))"
  by (induction xs) auto

lemma distinct_map_unique:
  "distinct (List.map f xs) \<Longrightarrow> x \<in> set xs \<Longrightarrow> y \<in> set xs \<Longrightarrow> f x = f y \<Longrightarrow> x = y"
  by (metis distinct_map inj_on_eq_iff)

lemma find_Some_in: "List.find P xs = Some x \<Longrightarrow> x \<in> set xs \<and> P x"
  by (induction xs) (auto split: if_splits)

lemma find_None: "List.find P xs = None \<longleftrightarrow> (\<forall>x\<in>set xs. \<not> P x)"
  by (induction xs) auto

lemma find_unique:
  assumes "x \<in> set xs" "P x" "\<And>y. y \<in> set xs \<Longrightarrow> P y \<Longrightarrow> y = x"
  shows "List.find P xs = Some x"
proof (cases "List.find P xs")
  case None
  then show ?thesis using assms(1,2) by (simp add: find_None)
next
  case (Some y)
  then show ?thesis using assms(3) find_Some_in[OF Some] by simp
qed

definition take_last :: "nat \<Rightarrow> 'a list \<Rightarrow> 'a list" where
  "take_last n xs = drop (length xs - n) xs"

lemma length_take_last [simp]: "length (take_last n xs) = min n (length xs)"
  by (simp add: take_last_def)

lemma take_last_all [simp]: "length xs \<le> n \<Longrightarrow> take_last n xs = xs"
  by (simp add: take_last_def)

lemma take_last_snoc:
  "0 < n \<Longrightarrow> take_last n (take_last n xs @ [x]) = take_last n (xs @ [x])"
  by (cases "length xs \<le> n") (auto simp: take_last_def Suc_diff_le)

lemma take_last_append: "0 < n \<Longrightarrow> take_last n (take_last n xs @ ys) = take_last n (xs @ ys)"
proof (induction ys rule: rev_induct)
  case Nil
  then show ?case by (simp add: take_last_def)
next
  case (snoc y ys)
  then show ?case by (metis append_assoc take_last_snoc)
qed

lemma dom_fold_upd: "dom (fold (\<lambda>x m. m(k x \<mapsto> v x)) xs m0) = dom m0 \<union> k ` set xs"
  by (induction xs arbitrary: m0) auto

section \<open>Strings\<close>

text \<open>strings.Split at a one-character separator, and strings.TrimSpace on ASCII text.\<close>

fun split_on :: "char \<Rightarrow> string \<Rightarrow> string list" where
  "split_on sep [] = [[]]"
| "split_on sep (c # cs) =
     (if c = sep then [] # split_on sep cs
      else case split_on sep cs of [] \<Rightarrow> [[c]] | w # ws \<Rightarrow> (c # w) # ws)"

definition is_space :: "char \<Rightarrow> bool" where
  "is_space c \<longleftrightarrow> (of_char c :: nat) \<in> {9, 10, 11, 12, 13, 32}"

definition trim_space :: "string \<Rightarrow> string" where
  "trim_space s = rev (dropWhile is_space (rev (dropWhile is_space s)))"

lemma split_on_nonempty [simp]: "split_on sep s \<noteq> []"
  by (cases s) (auto split: list.splits)

lemma split_on_plain: "sep \<notin> set s \<Longrightarrow> split_on sep s = [s]"
  by (induction s) auto

lemma split_on_append: "sep \<notin> set s \<Longrightarrow> split_on sep (s @ sep # t) = s # split_on sep t"
  by (induction s) auto

lemma dropWhile_id: "(\<And>c. c \<in> set s \<Longrightarrow> \<not> P c) \<Longrightarrow> dropWhile P s = s"
  by (cases s) auto

lemma trim_space_id:
  assumes "\<And>c. c \<in> set s \<Longrightarrow> \<not> is_space c"
  shows "trim_space s = s"
proof -
  have "dropWhile is_space s = s" "dropWhile is_space (rev s) = rev s"
    using assms by (auto intro!: dropWhile_id)
  then show ?thesis by (simp add: trim_space_def)
qed

fun to_lower_char :: "char \<Rightarrow> char" where
  "to_lower_char c = (let n = of_char c :: nat in if 65 \<le> n \<and> n \<le> 90 then char_of (n + 32) else c)"

definition to_lower :: "string \<Rightarrow> string" where
  "to_lower s = List.map to_lower_char s"

end
