(* ===== verification/Interfaces.thy ===== *)
theory Interfaces
  imports Prelude
begin

text \<open>
  The contracts the components rely on, each a locale over the operations a client calls,
  with the client lemmas proved once: a pool that hands out fresh items, bounded buffers with
  the two overflow policies the code uses, and operations that succeed at most once per key.
  Every locale is interpreted in the theory of the component that provides it.
\<close>

section \<open>Pools of fresh items\<close>

fun draw_n :: "('s \<Rightarrow> ('a \<times> 's) option) \<Rightarrow> nat \<Rightarrow> 's \<Rightarrow> ('a list \<times> 's) option" where
  "draw_n alloc 0 s = Some ([], s)"
| "draw_n alloc (Suc n) s = (case alloc s of None \<Rightarrow> None
     | Some (a, s') \<Rightarrow> (case draw_n alloc n s' of None \<Rightarrow> None
         | Some (xs, s'') \<Rightarrow> Some (a # xs, s'')))"

locale fresh_pool =
  fixes alloc :: "'s \<Rightarrow> ('a \<times> 's) option"
    and taken :: "'s \<Rightarrow> 'a set"
    and wf :: "'s \<Rightarrow> bool"
  assumes alloc_fresh: "wf s \<Longrightarrow> alloc s = Some (a, s') \<Longrightarrow> a \<notin> taken s"
    and alloc_takes: "wf s \<Longrightarrow> alloc s = Some (a, s') \<Longrightarrow> taken s' = insert a (taken s)"
    and alloc_wf: "wf s \<Longrightarrow> alloc s = Some (a, s') \<Longrightarrow> wf s'"
begin

lemma draw_n_fresh:
  "wf s \<Longrightarrow> draw_n alloc n s = Some (xs, s') \<Longrightarrow>
   distinct xs \<and> length xs = n \<and> set xs \<inter> taken s = {} \<and> taken s' = set xs \<union> taken s \<and> wf s'"
proof (induction n arbitrary: s xs)
  case (Suc n)
  then obtain a s1 ys where a: "alloc s = Some (a, s1)" "draw_n alloc n s1 = Some (ys, s')"
    "xs = a # ys" by (auto split: option.splits)
  note f = alloc_fresh[OF Suc.prems(1) a(1)] alloc_takes[OF Suc.prems(1) a(1)]
    alloc_wf[OF Suc.prems(1) a(1)]
  from Suc.IH[OF f(3) a(2)] f(1,2) a(3) show ?case by auto
qed simp

end

section \<open>Bounded buffers\<close>

locale bounded_buffer =
  fixes push :: "'x \<Rightarrow> 'q \<Rightarrow> 'q"
    and items :: "'q \<Rightarrow> 'x list"
    and cap :: nat
    and wf :: "'q \<Rightarrow> bool"
  assumes push_wf: "wf q \<Longrightarrow> wf (push x q)"
    and wf_bound: "wf q \<Longrightarrow> length (items q) \<le> cap"
begin

lemma fold_push_wf: "wf q \<Longrightarrow> wf (fold push xs q)"
  by (induction xs arbitrary: q) (auto intro: push_wf)

lemma fold_push_bound: "wf q \<Longrightarrow> length (items (fold push xs q)) \<le> cap"
  by (intro wf_bound fold_push_wf)

end

locale drop_oldest = bounded_buffer +
  assumes cap_pos: "0 < cap"
    and push_last: "wf q \<Longrightarrow> items (push x q) = take_last cap (items q @ [x])"
begin

lemma fold_push_last: "wf q \<Longrightarrow> items (fold push xs q) = take_last cap (items q @ xs)"
proof (induction xs arbitrary: q)
  case Nil
  then show ?case using wf_bound by simp
next
  case (Cons x xs)
  then have "items (fold push (x # xs) q) = take_last cap (take_last cap (items q @ [x]) @ xs)"
    by (simp add: push_wf push_last)
  also have "\<dots> = take_last cap ((items q @ [x]) @ xs)"
    by (rule take_last_append[OF cap_pos])
  finally show ?case by simp
qed

end

locale drop_newest = bounded_buffer +
  assumes push_first: "wf q \<Longrightarrow> items (push x q) = (if length (items q) < cap then items q @ [x] else items q)"
begin

lemma fold_push_first: "wf q \<Longrightarrow> items (fold push xs q) = take cap (items q @ xs)"
proof (induction xs arbitrary: q)
  case Nil
  then show ?case using wf_bound by simp
next
  case (Cons x xs)
  have "length (items q) \<le> cap" using Cons.prems by (rule wf_bound)
  then show ?case using Cons by (auto simp: push_wf push_first take_Cons' Suc_diff_Suc)
qed

end

section \<open>Operations that succeed at most once per key\<close>

fun accepted :: "('i \<Rightarrow> 's \<Rightarrow> bool \<times> 's) \<Rightarrow> ('i \<Rightarrow> 'k) \<Rightarrow> 'i list \<Rightarrow> 's \<Rightarrow> 'k list" where
  "accepted use key [] s = []"
| "accepted use key (i # is) s =
     (if fst (use i s) then key i # accepted use key is (snd (use i s))
      else accepted use key is (snd (use i s)))"

fun admissible :: "('i \<Rightarrow> 's \<Rightarrow> bool \<times> 's) \<Rightarrow> ('i \<Rightarrow> 's \<Rightarrow> bool) \<Rightarrow> 'i list \<Rightarrow> 's \<Rightarrow> bool" where
  "admissible use ok [] s = True"
| "admissible use ok (i # is) s = (ok i s \<and> admissible use ok is (snd (use i s)))"

locale single_use =
  fixes use :: "'i \<Rightarrow> 's \<Rightarrow> bool \<times> 's"
    and key :: "'i \<Rightarrow> 'k"
    and spent :: "'s \<Rightarrow> 'k set"
    and ok :: "'i \<Rightarrow> 's \<Rightarrow> bool"
  assumes use_refuses: "ok i s \<Longrightarrow> key i \<in> spent s \<Longrightarrow> \<not> fst (use i s)"
    and use_spends: "ok i s \<Longrightarrow> fst (use i s) \<Longrightarrow> key i \<in> spent (snd (use i s))"
    and use_keeps: "ok i s \<Longrightarrow> spent s \<subseteq> spent (snd (use i s))"
begin

lemma accepted_not_spent:
  "admissible use ok is s \<Longrightarrow> k \<in> spent s \<Longrightarrow> k \<notin> set (accepted use key is s)"
proof (induction "is" arbitrary: s)
  case (Cons i "is")
  have "k \<in> spent (snd (use i s))" using Cons.prems use_keeps[of i s] by auto
  then show ?case using Cons use_refuses[of i s] by auto
qed simp

lemma accepted_distinct: "admissible use ok is s \<Longrightarrow> distinct (accepted use key is s)"
proof (induction "is" arbitrary: s)
  case (Cons i "is")
  show ?case
  proof (cases "fst (use i s)")
    case True
    have "key i \<in> spent (snd (use i s))" using Cons.prems True by (simp add: use_spends)
    then show ?thesis using Cons True accepted_not_spent by simp
  qed (use Cons in simp)
qed simp

end

end
