(* ===== verification/Store.thy ===== *)
theory Store
  imports Interfaces
begin

text \<open>
  The database of the control plane: the rows of users, nodes and credentials
  (src/internal/controlplane/store/models.go) and the statements of
  src/internal/controlplane/store/*.sql.go on them, with the constraints of migrations/.
  A table is a list, newest row first (the order of ORDER BY created_at DESC). db_down holds
  the names of the statements that fail in the modelled request, so every error branch of a
  caller can be reached. The record is extensible: later components add their tables.
\<close>

section \<open>Rows\<close>

record user =
  u_id :: uuid
  u_email :: "string option"
  u_username :: string
  u_password_hash :: "string option"
  u_status :: "string option"
  u_plan :: "uuid option"
  u_limit :: "int option"
  u_used :: "int option"
  u_expires :: "time option"
  u_token :: uuid
  u_note :: "string option"
  u_tg :: "int option"
  u_tg_name :: "string option"
  u_trial_used :: "bool option"
  u_referrer :: "uuid option"
  u_refcode :: "string option"
  u_banned :: "bool option"
  u_ban_reason :: "string option"
  u_first :: "string option"
  u_last :: "string option"
  u_lang :: "string option"

record node =
  n_id :: uuid
  n_name :: string
  n_endpoint :: string
  n_grpc :: string
  n_region :: "string option"
  n_capacity :: "int option"
  n_status :: "string option"
  n_tags :: "string list option option"
  n_public_key :: string
  n_sni :: "string option"
  n_pbk :: "string option"
  n_sid :: "string option"
  n_heartbeat :: "time option"
  n_version :: int

record credential =
  c_id :: uuid
  c_user :: uuid
  c_node :: uuid
  c_protocol :: string
  c_private :: "string option"
  c_public :: "string option"
  c_psk :: "string option"
  c_uuid :: "uuid option"
  c_flow :: "string option"
  c_ipv4 :: "string option"
  c_ipv6 :: "string option"
  c_dns :: "string option"
  c_mtu :: "int option"
  c_status :: "string option"
  c_expires :: "time option"
  c_jc :: "int option"
  c_jmin :: "int option"
  c_jmax :: "int option"
  c_s1 :: "int option"
  c_s2 :: "int option"
  c_h1 :: "int option"
  c_h2 :: "int option"
  c_h3 :: "int option"
  c_h4 :: "int option"

record db =
  db_users :: "user list"
  db_nodes :: "node list"
  db_creds :: "credential list"
  db_down :: "string set"

datatype db_error = NoRows | UniqueViolation | ForeignKeyViolation | NumericRange | InvalidJson | StatementFailed

section \<open>Users\<close>

definition GetUserByID :: "uuid \<Rightarrow> 'a db_scheme \<Rightarrow> db_error + user" where
  "GetUserByID uid d =
     (if ''GetUserByID'' \<in> db_down d then Inl StatementFailed
      else case List.find (\<lambda>u. u_id u = uid) (db_users d) of
        None \<Rightarrow> Inl NoRows | Some u \<Rightarrow> Inr u)"

definition GetUsersByIDs :: "uuid list \<Rightarrow> 'a db_scheme \<Rightarrow> db_error + user list" where
  "GetUsersByIDs ids d =
     (if ids = [] then Inr []
      else if ''GetByIDs'' \<in> db_down d then Inl StatementFailed
      else Inr (List.filter (\<lambda>u. u_id u \<in> set ids) (db_users d)))"

definition update_users :: "(user \<Rightarrow> bool) \<Rightarrow> (user \<Rightarrow> user) \<Rightarrow> 'a db_scheme \<Rightarrow> 'a db_scheme" where
  "update_users P f d = d\<lparr>db_users := List.map (\<lambda>u. if P u then f u else u) (db_users d)\<rparr>"

text \<open>traffic_used is a BIGINT: NULL stays NULL and a sum out of range fails the statement.\<close>

definition int8_fits :: "int \<Rightarrow> bool" where
  "int8_fits i \<longleftrightarrow> - 9223372036854775808 \<le> i \<and> i \<le> 9223372036854775807"

definition UpdateUserTraffic :: "uuid \<Rightarrow> int \<Rightarrow> 'a db_scheme \<Rightarrow> db_error + 'a db_scheme" where
  "UpdateUserTraffic uid bytes d =
     (if ''UpdateUserTraffic'' \<in> db_down d then Inl StatementFailed
      else if (\<exists>u\<in>set (db_users d). u_id u = uid \<and> \<not> int8_fits (int_or 0 (u_used u) + bytes))
      then Inl NumericRange
      else Inr (update_users (\<lambda>u. u_id u = uid)
                  (\<lambda>u. u\<lparr>u_used := map_option (\<lambda>n. n + bytes) (u_used u)\<rparr>) d))"

definition ResetUserTraffic :: "uuid \<Rightarrow> 'a db_scheme \<Rightarrow> db_error + 'a db_scheme" where
  "ResetUserTraffic uid d =
     (if ''ResetUserTraffic'' \<in> db_down d then Inl StatementFailed
      else Inr (update_users (\<lambda>u. u_id u = uid) (\<lambda>u. u\<lparr>u_used := Some 0\<rparr>) d))"

definition SetUserBanStatus :: "uuid \<Rightarrow> bool \<Rightarrow> string option \<Rightarrow> 'a db_scheme \<Rightarrow> db_error + 'a db_scheme" where
  "SetUserBanStatus uid b reason d =
     (if ''SetUserBanStatus'' \<in> db_down d then Inl StatementFailed
      else Inr (update_users (\<lambda>u. u_id u = uid)
        (\<lambda>u. u\<lparr>u_banned := Some b, u_ban_reason := reason,
               u_status := Some (if b then ''banned'' else ''active'')\<rparr>) d))"

text \<open>The new token is gen_random_uuid(): an argument. The column is UNIQUE.\<close>

definition RotateUserSubscriptionToken ::
    "uuid \<Rightarrow> uuid \<Rightarrow> 'a db_scheme \<Rightarrow> db_error + (user \<times> 'a db_scheme)" where
  "RotateUserSubscriptionToken uid tok d =
     (if ''RotateUserSubscriptionToken'' \<in> db_down d then Inl StatementFailed
      else case List.find (\<lambda>u. u_id u = uid) (db_users d) of
        None \<Rightarrow> Inl NoRows
      | Some u \<Rightarrow>
          if (\<exists>v\<in>set (db_users d). u_id v \<noteq> uid \<and> u_token v = tok) then Inl UniqueViolation
          else Inr (u\<lparr>u_token := tok\<rparr>, update_users (\<lambda>v. u_id v = uid) (\<lambda>v. v\<lparr>u_token := tok\<rparr>) d))"

definition DeleteUser :: "uuid \<Rightarrow> 'a db_scheme \<Rightarrow> db_error + 'a db_scheme" where
  "DeleteUser uid d =
     (if ''DeleteUser'' \<in> db_down d then Inl StatementFailed
      else Inr (d\<lparr>db_users := List.map (\<lambda>u. if u_referrer u = Some uid then u\<lparr>u_referrer := None\<rparr> else u)
                    (List.filter (\<lambda>u. u_id u \<noteq> uid) (db_users d)),
                  db_creds := List.filter (\<lambda>c. c_user c \<noteq> uid) (db_creds d)\<rparr>))"

section \<open>Nodes\<close>

definition GetNodeByID :: "uuid \<Rightarrow> 'a db_scheme \<Rightarrow> db_error + node" where
  "GetNodeByID nid d =
     (if ''GetNodeByID'' \<in> db_down d then Inl StatementFailed
      else case List.find (\<lambda>n. n_id n = nid) (db_nodes d) of
        None \<Rightarrow> Inl NoRows | Some n \<Rightarrow> Inr n)"

definition GetNodeByName :: "string \<Rightarrow> 'a db_scheme \<Rightarrow> db_error + node" where
  "GetNodeByName name d =
     (if ''GetNodeByName'' \<in> db_down d then Inl StatementFailed
      else case List.find (\<lambda>n. n_name n = name) (db_nodes d) of
        None \<Rightarrow> Inl NoRows | Some n \<Rightarrow> Inr n)"

definition ListActiveNodes :: "'a db_scheme \<Rightarrow> db_error + node list" where
  "ListActiveNodes d =
     (if ''ListActiveNodes'' \<in> db_down d then Inl StatementFailed
      else Inr (sort_key n_name (List.filter (\<lambda>n. n_status n = Some ''online'') (db_nodes d))))"

definition CreateNode :: "node \<Rightarrow> 'a db_scheme \<Rightarrow> db_error + (node \<times> 'a db_scheme)" where
  "CreateNode n d =
     (if ''CreateNode'' \<in> db_down d then Inl StatementFailed
      else if (\<exists>m\<in>set (db_nodes d). n_id m = n_id n \<or> n_name m = n_name n) then Inl UniqueViolation
      else Inr (n, d\<lparr>db_nodes := n # db_nodes d\<rparr>))"

definition update_nodes :: "(node \<Rightarrow> bool) \<Rightarrow> (node \<Rightarrow> node) \<Rightarrow> 'a db_scheme \<Rightarrow> 'a db_scheme" where
  "update_nodes P f d = d\<lparr>db_nodes := List.map (\<lambda>n. if P n then f n else n) (db_nodes d)\<rparr>"

text \<open>UpdateHeartbeat passes the status with Valid set to status != "".\<close>

definition UpdateHeartbeat :: "uuid \<Rightarrow> string \<Rightarrow> time \<Rightarrow> 'a db_scheme \<Rightarrow> db_error + 'a db_scheme" where
  "UpdateHeartbeat nid st now d =
     (if ''UpdateNodeHeartbeat'' \<in> db_down d then Inl StatementFailed
      else Inr (update_nodes (\<lambda>n. n_id n = nid)
        (\<lambda>n. n\<lparr>n_heartbeat := Some now, n_status := (if st = [] then None else Some st)\<rparr>) d))"

definition GetConfigVersion :: "uuid \<Rightarrow> 'a db_scheme \<Rightarrow> db_error + int" where
  "GetConfigVersion nid d =
     (if ''GetConfigVersion'' \<in> db_down d then Inl StatementFailed
      else case List.find (\<lambda>n. n_id n = nid) (db_nodes d) of
        None \<Rightarrow> Inl NoRows | Some n \<Rightarrow> Inr (n_version n))"

definition GetAndBumpConfigVersion :: "uuid \<Rightarrow> 'a db_scheme \<Rightarrow> db_error + (int \<times> 'a db_scheme)" where
  "GetAndBumpConfigVersion nid d =
     (if ''GetAndBumpConfigVersion'' \<in> db_down d then Inl StatementFailed
      else case List.find (\<lambda>n. n_id n = nid) (db_nodes d) of
        None \<Rightarrow> Inl NoRows
      | Some n \<Rightarrow>
          if \<not> int8_fits (n_version n + 1) then Inl NumericRange
          else Inr (n_version n + 1,
                    update_nodes (\<lambda>m. n_id m = nid) (\<lambda>m. m\<lparr>n_version := n_version m + 1\<rparr>) d))"

section \<open>Credentials\<close>

definition CreateCredential :: "credential \<Rightarrow> 'a db_scheme \<Rightarrow> db_error + (credential \<times> 'a db_scheme)" where
  "CreateCredential c d =
     (if ''CreateCredential'' \<in> db_down d then Inl StatementFailed
      else if (\<exists>e\<in>set (db_creds d). c_id e = c_id c \<or>
                 c_user e = c_user c \<and> c_node e = c_node c \<and> c_protocol e = c_protocol c \<or>
                 c_node e = c_node c \<and> c_ipv4 c \<noteq> None \<and> c_ipv4 e = c_ipv4 c)
      then Inl UniqueViolation
      else if c_user c \<notin> u_id ` set (db_users d) \<or> c_node c \<notin> n_id ` set (db_nodes d)
      then Inl ForeignKeyViolation
      else Inr (c, d\<lparr>db_creds := c # db_creds d\<rparr>))"

definition GetCredentialByID :: "uuid \<Rightarrow> 'a db_scheme \<Rightarrow> db_error + credential" where
  "GetCredentialByID cid d =
     (if ''GetCredentialByID'' \<in> db_down d then Inl StatementFailed
      else case List.find (\<lambda>c. c_id c = cid) (db_creds d) of
        None \<Rightarrow> Inl NoRows | Some c \<Rightarrow> Inr c)"

definition ListCredentialsByUser :: "uuid \<Rightarrow> 'a db_scheme \<Rightarrow> db_error + credential list" where
  "ListCredentialsByUser uid d =
     (if ''ListCredentialsByUser'' \<in> db_down d then Inl StatementFailed
      else Inr (List.filter (\<lambda>c. c_user c = uid) (db_creds d)))"

definition cred_active :: "time \<Rightarrow> credential \<Rightarrow> bool" where
  "cred_active now c \<longleftrightarrow> c_status c = Some ''active'' \<and>
     (case c_expires c of None \<Rightarrow> True | Some t \<Rightarrow> t > now)"

definition ListActiveCredentialsByNode :: "uuid \<Rightarrow> time \<Rightarrow> 'a db_scheme \<Rightarrow> db_error + credential list" where
  "ListActiveCredentialsByNode nid now d =
     (if ''ListActiveCredentialsByNode'' \<in> db_down d then Inl StatementFailed
      else Inr (List.filter (\<lambda>c. c_node c = nid \<and> cred_active now c) (db_creds d)))"

definition DeleteCredential :: "uuid \<Rightarrow> 'a db_scheme \<Rightarrow> db_error + 'a db_scheme" where
  "DeleteCredential cid d =
     (if ''DeleteCredential'' \<in> db_down d then Inl StatementFailed
      else Inr (d\<lparr>db_creds := List.filter (\<lambda>c. c_id c \<noteq> cid) (db_creds d)\<rparr>))"

definition DeleteCredentialsByUser :: "uuid \<Rightarrow> 'a db_scheme \<Rightarrow> db_error + 'a db_scheme" where
  "DeleteCredentialsByUser uid d =
     (if ''DeleteCredentialsByUser'' \<in> db_down d then Inl StatementFailed
      else Inr (d\<lparr>db_creds := List.filter (\<lambda>c. c_user c \<noteq> uid) (db_creds d)\<rparr>))"

section \<open>Transactions\<close>

text \<open>WithTx and WithAdvisoryLock: the body runs on a snapshot that is dropped when it fails.
  Beginning and committing can fail too. The lock serializes the transactions of one key, which
  is what makes the body one step here.\<close>

definition WithAdvisoryLock ::
    "string \<Rightarrow> ('a db_scheme \<Rightarrow> 'e + 'a db_scheme) \<Rightarrow> (db_error \<Rightarrow> 'e) \<Rightarrow> 'a db_scheme \<Rightarrow> 'e + 'a db_scheme" where
  "WithAdvisoryLock key body wrap d =
     (if ''begin'' \<in> db_down d then Inl (wrap StatementFailed)
      else if ''pg_advisory_xact_lock'' \<in> db_down d then Inl (wrap StatementFailed)
      else case body d of
        Inl e \<Rightarrow> Inl e
      | Inr d' \<Rightarrow> if ''commit'' \<in> db_down d then Inl (wrap StatementFailed) else Inr d')"

section \<open>Integrity\<close>

text \<open>The constraints of the schema: primary keys, the UNIQUE constraints of users and
  credentials, the partial unique index on (node_id, ipv4), and the foreign keys.\<close>

definition cred_key :: "credential \<Rightarrow> uuid \<times> uuid \<times> string" where
  "cred_key c = (c_user c, c_node c, c_protocol c)"

definition cred_addr :: "credential \<Rightarrow> uuid \<times> string option" where
  "cred_addr c = (c_node c, c_ipv4 c)"

definition with_addr :: "credential list \<Rightarrow> credential list" where
  "with_addr cs = List.filter (\<lambda>c. c_ipv4 c \<noteq> None) cs"

definition creds_ok :: "credential list \<Rightarrow> bool" where
  "creds_ok cs \<longleftrightarrow> distinct (List.map c_id cs) \<and> distinct (List.map cred_key cs) \<and>
     distinct (List.map cred_addr (with_addr cs))"

definition db_ok :: "'a db_scheme \<Rightarrow> bool" where
  "db_ok d \<longleftrightarrow> distinct (List.map u_id (db_users d)) \<and> distinct (List.map n_id (db_nodes d)) \<and>
     distinct (List.map n_name (db_nodes d)) \<and> creds_ok (db_creds d) \<and>
     (\<forall>c\<in>set (db_creds d). c_user c \<in> u_id ` set (db_users d) \<and> c_node c \<in> n_id ` set (db_nodes d))"

lemma creds_ok_Nil [simp]: "creds_ok []"
  by (simp add: creds_ok_def with_addr_def)

lemma creds_ok_Cons:
  "creds_ok (c # cs) \<longleftrightarrow> creds_ok cs \<and> c_id c \<notin> c_id ` set cs \<and> cred_key c \<notin> cred_key ` set cs \<and>
     (c_ipv4 c \<noteq> None \<longrightarrow> cred_addr c \<notin> cred_addr ` set cs)"
  by (auto simp: creds_ok_def with_addr_def cred_addr_def image_iff)

lemma creds_ok_filter: "creds_ok cs \<Longrightarrow> creds_ok (List.filter P cs)"
  by (induction cs) (auto simp: creds_ok_Cons)

lemma creds_ok_same_addr:
  "creds_ok cs \<Longrightarrow> a \<in> set cs \<Longrightarrow> b \<in> set cs \<Longrightarrow> c_node a = c_node b \<Longrightarrow> c_ipv4 a = c_ipv4 b \<Longrightarrow>
   c_ipv4 a \<noteq> None \<Longrightarrow> a = b"
  by (induction cs) (auto simp: creds_ok_Cons cred_addr_def image_iff)

lemma creds_ok_same_id:
  "creds_ok cs \<Longrightarrow> a \<in> set cs \<Longrightarrow> b \<in> set cs \<Longrightarrow> c_id a = c_id b \<Longrightarrow> a = b"
  by (auto simp: creds_ok_def dest: distinct_map_unique)

lemma map_if_same:
  "(\<And>x. g (f x) = g x) \<Longrightarrow> List.map g (List.map (\<lambda>x. if P x then f x else x) xs) = List.map g xs"
  by (induction xs) auto

lemma image_if_same:
  "(\<And>x. g (f x) = g x) \<Longrightarrow> g ` set (List.map (\<lambda>x. if P x then f x else x) xs) = g ` set xs"
  by (metis map_if_same list.set_map)

lemma update_users_frame [simp, frame]:
  "db_nodes (update_users P f d) = db_nodes d" "db_creds (update_users P f d) = db_creds d"
  "db_down (update_users P f d) = db_down d" "db.more (update_users P f d) = db.more d"
  by (simp_all add: update_users_def)

lemma update_nodes_frame [simp, frame]:
  "db_users (update_nodes P f d) = db_users d" "db_creds (update_nodes P f d) = db_creds d"
  "db_down (update_nodes P f d) = db_down d" "db.more (update_nodes P f d) = db.more d"
  by (simp_all add: update_nodes_def)

lemma db_users_update: "db_users (update_users P f d) = List.map (\<lambda>u. if P u then f u else u) (db_users d)"
  by (simp add: update_users_def)

lemma db_nodes_update: "db_nodes (update_nodes P f d) = List.map (\<lambda>n. if P n then f n else n) (db_nodes d)"
  by (simp add: update_nodes_def)

lemma update_users_ids:
  "(\<And>u. u_id (f u) = u_id u) \<Longrightarrow> List.map u_id (db_users (update_users P f d)) = List.map u_id (db_users d)"
  "(\<And>u. u_id (f u) = u_id u) \<Longrightarrow> u_id ` set (db_users (update_users P f d)) = u_id ` set (db_users d)"
  by (simp_all only: db_users_update map_if_same image_if_same)

lemma update_nodes_ids:
  "(\<And>n. g (f n) = g n) \<Longrightarrow> List.map g (db_nodes (update_nodes P f d)) = List.map g (db_nodes d)"
  "(\<And>n. g (f n) = g n) \<Longrightarrow> g ` set (db_nodes (update_nodes P f d)) = g ` set (db_nodes d)"
  by (simp_all only: db_nodes_update map_if_same image_if_same)

lemma update_users_ok [keeps]:
  "(\<And>u. u_id (f u) = u_id u) \<Longrightarrow> db_ok d \<Longrightarrow> db_ok (update_users P f d)"
  by (simp add: db_ok_def update_users_ids)

lemma update_nodes_ok [keeps]:
  "(\<And>n. n_id (f n) = n_id n) \<Longrightarrow> (\<And>n. n_name (f n) = n_name n) \<Longrightarrow> db_ok d \<Longrightarrow>
   db_ok (update_nodes P f d)"
  by (simp add: db_ok_def update_nodes_ids)

lemma UpdateUserTraffic_ok [keeps]: "UpdateUserTraffic uid b d = Inr d' \<Longrightarrow> db_ok d \<Longrightarrow> db_ok d'"
  by (auto simp: UpdateUserTraffic_def split: if_splits intro!: update_users_ok)

lemma ResetUserTraffic_ok [keeps]: "ResetUserTraffic uid d = Inr d' \<Longrightarrow> db_ok d \<Longrightarrow> db_ok d'"
  by (auto simp: ResetUserTraffic_def split: if_splits intro!: update_users_ok)

lemma SetUserBanStatus_ok [keeps]: "SetUserBanStatus uid b r d = Inr d' \<Longrightarrow> db_ok d \<Longrightarrow> db_ok d'"
  by (auto simp: SetUserBanStatus_def split: if_splits intro!: update_users_ok)

lemma RotateUserSubscriptionToken_ok [keeps]:
  "RotateUserSubscriptionToken uid t d = Inr (u, d') \<Longrightarrow> db_ok d \<Longrightarrow> db_ok d'"
  by (auto simp: RotateUserSubscriptionToken_def split: if_splits option.splits intro!: update_users_ok)

lemma UpdateHeartbeat_ok [keeps]: "UpdateHeartbeat nid st now d = Inr d' \<Longrightarrow> db_ok d \<Longrightarrow> db_ok d'"
  by (auto simp: UpdateHeartbeat_def split: if_splits intro!: update_nodes_ok)

lemma GetAndBumpConfigVersion_ok [keeps]:
  "GetAndBumpConfigVersion nid d = Inr (v, d') \<Longrightarrow> db_ok d \<Longrightarrow> db_ok d'"
  by (auto simp: GetAndBumpConfigVersion_def split: if_splits option.splits intro!: update_nodes_ok)

lemma CreateNode_ok [keeps]: "CreateNode n d = Inr (m, d') \<Longrightarrow> db_ok d \<Longrightarrow> db_ok d'"
  by (fastforce simp: CreateNode_def db_ok_def split: if_splits)

lemma CreateCredential_InrD:
  "CreateCredential c d = Inr (c', d') \<Longrightarrow> c' = c \<and> d' = d\<lparr>db_creds := c # db_creds d\<rparr>"
  by (auto simp: CreateCredential_def split: if_splits)

lemma CreateCredential_ok [keeps]: "CreateCredential c d = Inr (c', d') \<Longrightarrow> db_ok d \<Longrightarrow> db_ok d'"
  by (fastforce simp: CreateCredential_def db_ok_def creds_ok_Cons cred_key_def cred_addr_def split: if_splits)

lemma filter_creds_ok: "db_ok d \<Longrightarrow> db_ok (d\<lparr>db_creds := List.filter P (db_creds d)\<rparr>)"
  by (auto simp: db_ok_def creds_ok_filter)

lemma DeleteCredential_ok [keeps]: "DeleteCredential cid d = Inr d' \<Longrightarrow> db_ok d \<Longrightarrow> db_ok d'"
  by (auto simp: DeleteCredential_def filter_creds_ok split: if_splits)

lemma DeleteCredentialsByUser_ok [keeps]:
  "DeleteCredentialsByUser uid d = Inr d' \<Longrightarrow> db_ok d \<Longrightarrow> db_ok d'"
  by (auto simp: DeleteCredentialsByUser_def filter_creds_ok split: if_splits)

lemma DeleteUser_ok [keeps]: "DeleteUser uid d = Inr d' \<Longrightarrow> db_ok d \<Longrightarrow> db_ok d'"
proof -
  assume del: "DeleteUser uid d = Inr d'" and ok: "db_ok d"
  let ?us = "List.filter (\<lambda>u. u_id u \<noteq> uid) (db_users d)"
  have d': "d' = d\<lparr>db_users := List.map (\<lambda>u. if u_referrer u = Some uid then u\<lparr>u_referrer := None\<rparr> else u) ?us,
      db_creds := List.filter (\<lambda>c. c_user c \<noteq> uid) (db_creds d)\<rparr>"
    using del by (simp add: DeleteUser_def split: if_splits)
  have us: "db_users d' = List.map (\<lambda>u. if u_referrer u = Some uid then u\<lparr>u_referrer := None\<rparr> else u) ?us"
    by (simp add: d')
  have same: "\<And>u. u_id (u\<lparr>u_referrer := None\<rparr>) = u_id u" by simp
  have "List.map u_id (db_users d') = List.map u_id ?us" "u_id ` set (db_users d') = u_id ` set ?us"
    unfolding us by (rule map_if_same[of u_id, OF same], rule image_if_same[of u_id, OF same])
  moreover have r: "db_nodes d' = db_nodes d" "db_creds d' = List.filter (\<lambda>c. c_user c \<noteq> uid) (db_creds d)"
    by (simp_all add: d')
  moreover have "\<forall>c\<in>set (db_creds d'). c_user c \<in> u_id ` set ?us"
    using ok by (auto simp: r db_ok_def image_iff)
  ultimately show "db_ok d'"
    using ok unfolding db_ok_def
    by (simp only: r creds_ok_filter distinct_map_filter_key simp_thms) auto
qed

lemma WithAdvisoryLock_InrD: "WithAdvisoryLock k body w d = Inr d' \<Longrightarrow> body d = Inr d'"
  by (auto simp: WithAdvisoryLock_def split: if_splits sum.splits)

section \<open>Example rows\<close>

text \<open>Rows the witnesses of the properties evaluate on.\<close>

definition demo_user :: user where
  "demo_user = \<lparr>u_id = ''u1'', u_email = None, u_username = ''ann'', u_password_hash = None,
     u_status = Some ''active'', u_plan = None, u_limit = Some 0, u_used = Some 0, u_expires = None,
     u_token = ''t1'', u_note = None, u_tg = None, u_tg_name = None, u_trial_used = Some False,
     u_referrer = None, u_refcode = None, u_banned = Some False, u_ban_reason = None,
     u_first = None, u_last = None, u_lang = Some ''en''\<rparr>"

definition demo_node :: node where
  "demo_node = \<lparr>n_id = ''n1'', n_name = ''node'', n_endpoint = ''e:443'', n_grpc = ''g'',
     n_region = None, n_capacity = Some 1, n_status = Some ''online'', n_tags = None, n_public_key = ''k'', n_sni = None, n_pbk = None, n_sid = None,
     n_heartbeat = None, n_version = 1\<rparr>"

end
