(* ===== verification/IP_Pool.thy ===== *)
theory IP_Pool
  imports Interfaces
begin

text \<open>
  The control plane's client address pool (allocateNextClientIP in
  src/internal/controlplane/service/provisioner.go): the nested scan over 10.8.b2.b3 as two
  recursive functions, with the addresses as the canonical text the code compares. The pool
  is also given as a list, and the scan is shown to be the search of that list.
\<close>

section \<open>The scan\<close>

definition client_addr :: "nat \<Rightarrow> nat \<Rightarrow> string" where
  "client_addr b2 b3 = ''10.8.'' @ nat_str b2 @ ''.'' @ nat_str b3"

function scan_b3 :: "string set \<Rightarrow> nat \<Rightarrow> nat \<Rightarrow> (string \<times> string set) option" where
  "scan_b3 occupied b2 b3 =
     (if b3 > 254 then None
      else let candidate = client_addr b2 b3 in
        if candidate \<notin> occupied then Some (candidate, insert candidate occupied)
        else scan_b3 occupied b2 (b3 + 1))"
  by pat_completeness auto
termination by (relation "measure (\<lambda>(_, _, b3). 255 - b3)") auto

definition scan_start :: "nat \<Rightarrow> nat" where
  "scan_start b2 = (if b2 = 0 then 2 else 1)"

function scan_b2 :: "string set \<Rightarrow> nat \<Rightarrow> (string \<times> string set) option" where
  "scan_b2 occupied b2 =
     (if b2 > 255 then None
      else case scan_b3 occupied b2 (scan_start b2) of
        Some r \<Rightarrow> Some r
      | None \<Rightarrow> scan_b2 occupied (b2 + 1))"
  by pat_completeness auto
termination by (relation "measure (\<lambda>(_, b2). 256 - b2)") auto

declare scan_b3.simps [simp del] scan_b2.simps [simp del]

datatype alloc_error = IpPoolExhausted

definition allocateNextClientIP :: "string set \<Rightarrow> alloc_error + (string \<times> string set)" where
  "allocateNextClientIP occupied =
     (case scan_b2 occupied 0 of Some r \<Rightarrow> Inr r | None \<Rightarrow> Inl IpPoolExhausted)"

section \<open>The pool as a list\<close>

definition pool_row :: "nat \<Rightarrow> nat \<Rightarrow> string list" where
  "pool_row b2 b3 = List.map (client_addr b2) [b3..<255]"

definition pool_from :: "nat \<Rightarrow> string list" where
  "pool_from b2 = concat (List.map (\<lambda>i. pool_row i (scan_start i)) [b2..<256])"

definition client_pool :: "string list" where
  "client_pool = pool_from 0"

definition take_first_free :: "string set \<Rightarrow> string list \<Rightarrow> (string \<times> string set) option" where
  "take_first_free occ xs = map_option (\<lambda>a. (a, insert a occ)) (List.find (\<lambda>a. a \<notin> occ) xs)"

lemma take_first_free_Nil [simp]: "take_first_free occ [] = None"
  by (simp add: take_first_free_def)

lemma take_first_free_Cons [simp]:
  "take_first_free occ (a # xs) = (if a \<notin> occ then Some (a, insert a occ) else take_first_free occ xs)"
  by (simp add: take_first_free_def)

lemma take_first_free_append:
  "take_first_free occ (xs @ ys) =
     (case take_first_free occ xs of Some r \<Rightarrow> Some r | None \<Rightarrow> take_first_free occ ys)"
  by (induction xs) auto

lemma take_first_free_SomeD:
  "take_first_free occ xs = Some (a, occ') \<Longrightarrow> a \<in> set xs \<and> a \<notin> occ \<and> occ' = insert a occ"
  by (auto simp: take_first_free_def dest: find_Some_in)

lemma take_first_free_None: "take_first_free occ xs = None \<longleftrightarrow> set xs \<subseteq> occ"
  by (auto simp: take_first_free_def find_None)

lemma pool_row_unfold:
  "pool_row b2 b3 = (if b3 > 254 then [] else client_addr b2 b3 # pool_row b2 (b3 + 1))"
  by (simp add: pool_row_def upt_conv_Cons)

lemma pool_from_unfold:
  "pool_from b2 = (if b2 > 255 then [] else pool_row b2 (scan_start b2) @ pool_from (b2 + 1))"
  by (simp add: pool_from_def upt_conv_Cons)

lemma scan_b3_is_search: "scan_b3 occ b2 b3 = take_first_free occ (pool_row b2 b3)"
proof (induction occ b2 b3 rule: scan_b3.induct)
  case (1 occ b2 b3)
  then show ?case
    by (subst scan_b3.simps, subst pool_row_unfold) (simp add: Let_def)
qed

lemma scan_b2_is_search: "scan_b2 occ b2 = take_first_free occ (pool_from b2)"
proof (induction occ b2 rule: scan_b2.induct)
  case (1 occ b2)
  then show ?case
    by (subst scan_b2.simps, subst pool_from_unfold)
      (auto simp: scan_b3_is_search take_first_free_append split: option.splits)
qed

lemma allocate_is_search:
  "allocateNextClientIP occ =
     (case take_first_free occ client_pool of Some r \<Rightarrow> Inr r | None \<Rightarrow> Inl IpPoolExhausted)"
  by (simp add: allocateNextClientIP_def scan_b2_is_search client_pool_def)

section \<open>The size of the pool\<close>

lemma client_addr_inj [simp]: "client_addr a b = client_addr c d \<longleftrightarrow> a = c \<and> b = d"
  using split_at_sep[of "nat_str a" "CHR ''.''" "nat_str b" "nat_str c" "nat_str d"]
  by (auto simp: client_addr_def)

lemma set_pool_row: "set (pool_row b2 b3) = {client_addr b2 i |i. b3 \<le> i \<and> i < 255}"
  by (auto simp: pool_row_def)

lemma set_client_pool:
  "set client_pool = {client_addr b2 b3 |b2 b3. b2 \<le> 255 \<and> scan_start b2 \<le> b3 \<and> b3 \<le> 254}"
  by (fastforce simp: client_pool_def pool_from_def set_pool_row)

lemma client_pool_image:
  "set client_pool = (\<lambda>(b2, b3). client_addr b2 b3) ` (SIGMA b2:{0..<256}. {scan_start b2..<255})"
  by (fastforce simp: set_client_pool)

lemma sum_row_sizes: "(\<Sum>b2\<in>{0..<256}. 255 - scan_start b2) = 65023"
proof -
  have "{0..<256::nat} = insert 0 {1..<256}" by auto
  moreover have "(\<Sum>b2\<in>{1..<256}. 255 - scan_start b2) = (\<Sum>b2\<in>{1..<256::nat}. 254)"
    by (rule sum.cong) (auto simp: scan_start_def)
  ultimately show ?thesis by (simp add: scan_start_def)
qed

lemma card_client_pool: "card (set client_pool) = 65023"
proof -
  let ?I = "SIGMA b2:{0..<256::nat}. {scan_start b2..<255}"
  have "inj_on (\<lambda>(b2, b3). client_addr b2 b3) ?I" by (auto simp: inj_on_def)
  then have "card (set client_pool) = card ?I"
    unfolding client_pool_image by (rule card_image)
  also have "card ?I = (\<Sum>b2\<in>{0..<256}. card {scan_start b2..<255})"
    by (subst card_SigmaI) auto
  finally show ?thesis using sum_row_sizes by simp
qed

section \<open>Properties\<close>

definition pool_alloc :: "string set \<Rightarrow> (string \<times> string set) option" where
  "pool_alloc occ = (case allocateNextClientIP occ of Inl _ \<Rightarrow> None | Inr r \<Rightarrow> Some r)"

lemma pool_alloc_search: "pool_alloc occ = take_first_free occ client_pool"
  by (simp add: pool_alloc_def allocate_is_search split: option.splits)

interpretation client_pool: fresh_pool pool_alloc "\<lambda>occ. occ" "\<lambda>_. True"
  by unfold_locales (auto simp: pool_alloc_search dest: take_first_free_SomeD)

lemma allocate_ok:
  "allocateNextClientIP occ = Inr (a, occ') \<Longrightarrow> a \<in> set client_pool \<and> a \<notin> occ \<and> occ' = insert a occ"
  by (auto simp: allocate_is_search split: option.splits dest: take_first_free_SomeD)

lemma allocate_error: "allocateNextClientIP occ = Inl e \<longleftrightarrow> set client_pool \<subseteq> occ"
  by (cases e) (auto simp: allocate_is_search take_first_free_None split: option.splits
      dest: take_first_free_SomeD)

lemma pool_alloc_None: "pool_alloc occ = None \<longleftrightarrow> set client_pool - occ = {}"
  by (auto simp: pool_alloc_search take_first_free_None)

lemma pool_alloc_card:
  assumes "pool_alloc occ = Some (a, occ')"
  shows "card (set client_pool - occ) = Suc (card (set client_pool - occ'))"
proof -
  have a: "a \<in> set client_pool - occ" and "occ' = insert a occ"
    using assms by (auto simp: pool_alloc_search dest: take_first_free_SomeD)
  then have "set client_pool - occ' = (set client_pool - occ) - {a}" by auto
  then show ?thesis using card_Suc_Diff1[OF _ a] by simp
qed

lemma draw_n_possible: "draw_n pool_alloc n occ \<noteq> None \<longleftrightarrow> n \<le> card (set client_pool - occ)"
proof (induction n arbitrary: occ)
  case (Suc n)
  show ?case
  proof (cases "pool_alloc occ")
    case None
    then have "card (set client_pool - occ) = 0" by (simp only: pool_alloc_None card.empty)
    then have "\<not> Suc n \<le> card (set client_pool - occ)" by linarith
    then show ?thesis using None by simp
  next
    case (Some r)
    obtain a occ' where r: "r = (a, occ')" by (cases r)
    then show ?thesis using Suc[of occ'] Some pool_alloc_card[of occ a occ']
      by (auto split: option.splits)
  qed
qed simp

lemma draw_n_from_pool: "draw_n pool_alloc n occ = Some (xs, occ') \<Longrightarrow> set xs \<subseteq> set client_pool"
proof (induction n arbitrary: occ xs)
  case (Suc n)
  then obtain a s1 ys where a: "pool_alloc occ = Some (a, s1)" "draw_n pool_alloc n s1 = Some (ys, occ')"
    "xs = a # ys" by (auto split: option.splits)
  then show ?case using Suc.IH[OF a(2)] take_first_free_SomeD by (force simp: pool_alloc_search)
qed simp


end
