(* ===== verification/Json.thy ===== *)
theory Json
  imports Prelude
begin

text \<open>
  What the program uses of encoding/json: flat objects of string and number fields, written
  from structs with or without omitempty and read back into structs. A field that is absent
  keeps the value the target had, a field of the wrong type (or a number outside the width of
  the target) keeps it too and makes Unmarshal return an error. The payload of a credential
  (a byte slice) is empty, not a JSON object, or an object.
\<close>

datatype jval = JStr string | JNum int

type_synonym json = "(string \<times> jval) list"

datatype bytes = NoBytes | NotJson | Obj json

definition j_str :: "string \<Rightarrow> string \<Rightarrow> json" where
  "j_str name s = [(name, JStr s)]"

definition j_str_omit :: "string \<Rightarrow> string \<Rightarrow> json" where
  "j_str_omit name s = (if s = [] then [] else [(name, JStr s)])"

definition j_int_omit :: "string \<Rightarrow> int \<Rightarrow> json" where
  "j_int_omit name i = (if i = 0 then [] else [(name, JNum i)])"

definition get_str :: "string \<Rightarrow> string \<Rightarrow> json \<Rightarrow> string" where
  "get_str name d j = (case map_of j name of Some (JStr s) \<Rightarrow> s | _ \<Rightarrow> d)"

definition str_ok :: "string \<Rightarrow> json \<Rightarrow> bool" where
  "str_ok name j = (case map_of j name of Some (JNum _) \<Rightarrow> False | _ \<Rightarrow> True)"

definition get_int :: "int \<Rightarrow> int \<Rightarrow> string \<Rightarrow> int \<Rightarrow> json \<Rightarrow> int" where
  "get_int lo hi name d j =
     (case map_of j name of Some (JNum i) \<Rightarrow> if lo \<le> i \<and> i \<le> hi then i else d | _ \<Rightarrow> d)"

definition int_ok :: "int \<Rightarrow> int \<Rightarrow> string \<Rightarrow> json \<Rightarrow> bool" where
  "int_ok lo hi name j =
     (case map_of j name of None \<Rightarrow> True | Some (JNum i) \<Rightarrow> lo \<le> i \<and> i \<le> hi | _ \<Rightarrow> False)"

definition int32_min :: int where "int32_min = - 2147483648"
definition int32_max :: int where "int32_max = 2147483647"
definition uint32_max :: int where "uint32_max = 4294967295"
definition int64_min :: int where "int64_min = - 9223372036854775808"
definition int64_max :: int where "int64_max = 9223372036854775807"

lemmas int_widths = int32_min_def int32_max_def uint32_max_def int64_min_def int64_max_def
lemmas json_write = j_str_def j_str_omit_def j_int_omit_def
lemmas json_read = get_str_def str_ok_def get_int_def int_ok_def

text \<open>The lookup of a field in an object written as a sequence of fields.\<close>

lemma map_of_j_str [simp]: "map_of (j_str n s @ j) k = (if k = n then Some (JStr s) else map_of j k)"
  by (simp add: j_str_def)

lemma map_of_j_str_last [simp]: "map_of (j_str n s) k = (if k = n then Some (JStr s) else None)"
  by (simp add: j_str_def)

lemma map_of_j_str_omit [simp]:
  "map_of (j_str_omit n s @ j) k = (if k = n \<and> s \<noteq> [] then Some (JStr s) else map_of j k)"
  by (simp add: j_str_omit_def)

lemma map_of_j_int_omit [simp]:
  "map_of (j_int_omit n i @ j) k = (if k = n \<and> i \<noteq> 0 then Some (JNum i) else map_of j k)"
  by (simp add: j_int_omit_def)

lemma map_of_j_int_omit_last [simp]:
  "map_of (j_int_omit n i) k = (if k = n \<and> i \<noteq> 0 then Some (JNum i) else None)"
  by (simp add: j_int_omit_def)

end
