(* ===== verification/Awg_Params.thy ===== *)
theory Awg_Params
  imports Json
begin

text \<open>
  The AmneziaWG obfuscation parameters: their generation on the control plane (randRange and
  generateRandomAWGParams in src/internal/controlplane/service/provisioner.go) and their
  validation and rendering on the agent (src/internal/agent/manager/amneziawg.go).

  The entropy source crypto/rand is a list of draws: None is a read error, Some n a number
  that rand.Int reduces to the requested range. A run that outlasts the list is None: the
  code would still be drawing.
\<close>

type_synonym entropy = "int option list"

definition to_int32 :: "int \<Rightarrow> int" where
  "to_int32 i = sint (word_of_int i :: 32 word)"

lemma to_int32_id [simp]: "0 \<le> i \<Longrightarrow> i < 2147483648 \<Longrightarrow> to_int32 i = i"
  by (simp add: to_int32_def int_word_sint)

fun randRange :: "int \<Rightarrow> entropy \<Rightarrow> (int \<times> entropy) option" where
  "randRange mx src =
     (if mx \<le> 0 then Some (0, src)
      else case src of
        [] \<Rightarrow> None
      | None # rest \<Rightarrow> Some (0, rest)
      | Some n # rest \<Rightarrow> Some (to_int32 (n mod mx), rest))"

definition genHeader :: "entropy \<Rightarrow> (int \<times> entropy) option" where
  "genHeader src = map_option (\<lambda>(r, src'). (10000 + r, src')) (randRange 2147400000 src)"

text \<open>The retry loops: draw until the header differs from the ones chosen before.\<close>

fun genFreshHeader :: "int list \<Rightarrow> entropy \<Rightarrow> (int \<times> entropy) option" where
  "genFreshHeader seen [] = None"
| "genFreshHeader seen (d # src) =
     (case genHeader (d # src) of
        None \<Rightarrow> None
      | Some (h, _) \<Rightarrow> if h \<in> set seen then genFreshHeader seen src else Some (h, src))"

record awg_params =
  awg_jc :: int
  awg_jmin :: int
  awg_jmax :: int
  awg_s1 :: int
  awg_s2 :: int
  awg_h1 :: int
  awg_h2 :: int
  awg_h3 :: int
  awg_h4 :: int

definition generateRandomAWGParams :: "entropy \<Rightarrow> (awg_params \<times> entropy) option" where
  "generateRandomAWGParams src0 =
     (case randRange 6 src0 of None \<Rightarrow> None | Some (a, src1) \<Rightarrow>
      (case randRange 41 src1 of None \<Rightarrow> None | Some (b, src2) \<Rightarrow>
      (case randRange 651 src2 of None \<Rightarrow> None | Some (c, src3) \<Rightarrow>
      (case randRange 131 src3 of None \<Rightarrow> None | Some (d, src4) \<Rightarrow>
      (case randRange 131 src4 of None \<Rightarrow> None | Some (e, src5) \<Rightarrow>
      (case genHeader src5 of None \<Rightarrow> None | Some (x1, src6) \<Rightarrow>
      (case genFreshHeader [x1] src6 of None \<Rightarrow> None | Some (x2, src7) \<Rightarrow>
      (case genFreshHeader [x1, x2] src7 of None \<Rightarrow> None | Some (x3, src8) \<Rightarrow>
      (case genFreshHeader [x1, x2, x3] src8 of None \<Rightarrow> None | Some (x4, src9) \<Rightarrow>
        Some (\<lparr>awg_jc = 3 + a, awg_jmin = 40 + b, awg_jmax = 400 + c, awg_s1 = 20 + d, awg_s2 = 20 + e,
               awg_h1 = x1, awg_h2 = x2, awg_h3 = x3, awg_h4 = x4\<rparr>, src9))))))))))"

section \<open>The agent's validation\<close>

datatype awg_error = JminAboveJmax | JcOutOfRange | HeadersCollide

definition validateAwg :: "awg_params \<Rightarrow> awg_error + unit" where
  "validateAwg p =
     (if awg_jmin p > awg_jmax p then Inl JminAboveJmax
      else if awg_jc p < 0 \<or> awg_jc p > 128 then Inl JcOutOfRange
      else if length (remdups [awg_h1 p, awg_h2 p, awg_h3 p, awg_h4 p]) < 4 then Inl HeadersCollide
      else Inr ())"

definition DefaultAmneziaWGParams :: awg_params where
  "DefaultAmneziaWGParams = \<lparr>awg_jc = 4, awg_jmin = 40, awg_jmax = 70, awg_s1 = 64, awg_s2 = 64,
     awg_h1 = 1, awg_h2 = 2, awg_h3 = 3, awg_h4 = 4\<rparr>"

lemma validateAwg_ok:
  "validateAwg p = Inr () \<longleftrightarrow> awg_jmin p \<le> awg_jmax p \<and> 0 \<le> awg_jc p \<and> awg_jc p \<le> 128 \<and> distinct [awg_h1 p, awg_h2 p, awg_h3 p, awg_h4 p]"
  by (auto simp: validateAwg_def)

text \<open>ParseAmneziaWGPayload: the defaults overwritten by the payload's fields, then validated.\<close>

datatype awg_parse_error = AwgUnmarshal | AwgInvalid awg_error

definition awg_fields_ok :: "json \<Rightarrow> bool" where
  "awg_fields_ok j \<longleftrightarrow>
     int_ok int32_min int32_max ''awg_jc'' j \<and> int_ok int32_min int32_max ''awg_jmin'' j \<and>
     int_ok int32_min int32_max ''awg_jmax'' j \<and> int_ok int32_min int32_max ''awg_s1'' j \<and>
     int_ok int32_min int32_max ''awg_s2'' j \<and> int_ok 0 uint32_max ''awg_h1'' j \<and>
     int_ok 0 uint32_max ''awg_h2'' j \<and> int_ok 0 uint32_max ''awg_h3'' j \<and>
     int_ok 0 uint32_max ''awg_h4'' j"

definition awg_fields :: "awg_params \<Rightarrow> json \<Rightarrow> awg_params" where
  "awg_fields d j = \<lparr>
     awg_jc = get_int int32_min int32_max ''awg_jc'' (awg_jc d) j,
     awg_jmin = get_int int32_min int32_max ''awg_jmin'' (awg_jmin d) j,
     awg_jmax = get_int int32_min int32_max ''awg_jmax'' (awg_jmax d) j,
     awg_s1 = get_int int32_min int32_max ''awg_s1'' (awg_s1 d) j,
     awg_s2 = get_int int32_min int32_max ''awg_s2'' (awg_s2 d) j,
     awg_h1 = get_int 0 uint32_max ''awg_h1'' (awg_h1 d) j,
     awg_h2 = get_int 0 uint32_max ''awg_h2'' (awg_h2 d) j,
     awg_h3 = get_int 0 uint32_max ''awg_h3'' (awg_h3 d) j,
     awg_h4 = get_int 0 uint32_max ''awg_h4'' (awg_h4 d) j\<rparr>"

fun ParseAmneziaWGPayload :: "bytes \<Rightarrow> awg_parse_error + awg_params" where
  "ParseAmneziaWGPayload NoBytes = Inr DefaultAmneziaWGParams"
| "ParseAmneziaWGPayload NotJson = Inl AwgUnmarshal"
| "ParseAmneziaWGPayload (Obj j) =
     (if awg_fields_ok j then
        (case validateAwg (awg_fields DefaultAmneziaWGParams j) of
           Inl e \<Rightarrow> Inl (AwgInvalid e)
         | Inr _ \<Rightarrow> Inr (awg_fields DefaultAmneziaWGParams j))
      else Inl AwgUnmarshal)"

section \<open>What the draws give\<close>

definition draw_in :: "int \<Rightarrow> int option \<Rightarrow> int" where
  "draw_in mx d = (case d of None \<Rightarrow> 0 | Some n \<Rightarrow> n mod mx)"

definition header_of :: "int option \<Rightarrow> int" where
  "header_of d = 10000 + draw_in 2147400000 d"

lemma draw_in_range: "0 < mx \<Longrightarrow> 0 \<le> draw_in mx d \<and> draw_in mx d < mx"
  by (auto simp: draw_in_def split: option.splits)

lemma randRange_Nil [simp]: "0 < mx \<Longrightarrow> randRange mx [] = None"
  by simp

lemma randRange_Cons [simp]:
  assumes "0 < mx" "mx \<le> 2147483648"
  shows "randRange mx (d # src) = Some (draw_in mx d, src)"
proof (cases d)
  case (Some n)
  have "0 \<le> n mod mx" "n mod mx < 2147483648"
    using assms pos_mod_bound[of mx n] by (simp, linarith)
  then show ?thesis using assms Some by (simp add: draw_in_def)
qed (use assms in \<open>simp add: draw_in_def\<close>)

lemma genHeader_Nil [simp]: "genHeader [] = None"
  by (simp add: genHeader_def)

lemma genHeader_Cons [simp]: "genHeader (d # src) = Some (header_of d, src)"
  using randRange_Cons[of 2147400000 d src] by (simp add: genHeader_def header_of_def del: randRange.simps)

lemma header_range: "10000 \<le> header_of d \<and> header_of d < 2147483648"
  using draw_in_range[of 2147400000 d] by (simp add: header_of_def)

lemma fresh_header_None: "genFreshHeader seen src = None \<longleftrightarrow> header_of ` set src \<subseteq> set seen"
  by (induction src) auto

lemma fresh_header_Some:
  "genFreshHeader seen src = Some (h, rest) \<Longrightarrow>
   h \<notin> set seen \<and> h \<in> header_of ` set src \<and>
   header_of ` set src - set seen = insert h (header_of ` set rest - set (h # seen))"
  by (induction src) (auto split: if_splits)

lemma fresh_header_card:
  assumes "genFreshHeader seen src = Some (h, rest)"
  shows "card (header_of ` set src - set seen) = Suc (card (header_of ` set rest - set (h # seen)))"
  using fresh_header_Some[OF assms] by (simp add: card_insert_if)

declare randRange.simps [simp del] genFreshHeader.simps [simp del]

section \<open>The run of the generator\<close>

lemma generate_short: "length src < 6 \<Longrightarrow> generateRandomAWGParams src = None"
  by (auto simp: generateRandomAWGParams_def less_Suc_eq_0_disj length_Suc_conv numeral_eq_Suc)

lemma generate_long:
  "generateRandomAWGParams (a # b # c # d # e # f # src) =
     (case genFreshHeader [header_of f] src of None \<Rightarrow> None | Some (x2, src7) \<Rightarrow>
      (case genFreshHeader [header_of f, x2] src7 of None \<Rightarrow> None | Some (x3, src8) \<Rightarrow>
      (case genFreshHeader [header_of f, x2, x3] src8 of None \<Rightarrow> None | Some (x4, src9) \<Rightarrow>
        Some (\<lparr>awg_jc = 3 + draw_in 6 a, awg_jmin = 40 + draw_in 41 b, awg_jmax = 400 + draw_in 651 c,
               awg_s1 = 20 + draw_in 131 d, awg_s2 = 20 + draw_in 131 e,
               awg_h1 = header_of f, awg_h2 = x2, awg_h3 = x3, awg_h4 = x4\<rparr>, src9))))"
  by (simp add: generateRandomAWGParams_def)

lemma list_six: "6 \<le> length xs \<Longrightarrow> \<exists>a b c d e f ys. xs = a # b # c # d # e # f # ys"
  by (auto simp: Suc_le_length_iff numeral_eq_Suc)

lemma headers_possible:
  "generateRandomAWGParams src \<noteq> None \<longleftrightarrow> 4 \<le> card (header_of ` set (drop 5 src))"
proof (cases "length src < 6")
  case True
  have "card (header_of ` set (drop 5 src)) \<le> length (drop 5 src)"
    using card_image_le[OF finite_set, of header_of "drop 5 src"] card_length[of "drop 5 src"] by linarith
  then show ?thesis using True generate_short[OF True] by auto
next
  case False
  then obtain a b c d e f r where src: "src = a # b # c # d # e # f # r"
    using list_six[of src] by auto
  let ?x = "header_of f"
  have 0: "card (header_of ` set (drop 5 src)) = Suc (card (header_of ` set r - set [?x]))"
    by (simp add: src card.insert_remove)
  show ?thesis
  proof (cases "genFreshHeader [?x] r")
    case None
    then have "header_of ` set r - set [?x] = {}" using fresh_header_None[of "[?x]" r] by auto
    then have "card (header_of ` set r - set [?x]) = 0" by (simp only: card.empty)
    then have "\<not> 4 \<le> card (header_of ` set (drop 5 src))" using 0 by linarith
    then show ?thesis using None by (simp add: src generate_long)
  next
    case (Some p)
    then obtain x2 r2 where p: "genFreshHeader [?x] r = Some (x2, r2)" by (cases p) auto
    note c1 = fresh_header_card[OF p]
    show ?thesis
    proof (cases "genFreshHeader [?x, x2] r2")
      case None
      then have "header_of ` set r2 - set [x2, ?x] = {}"
        using fresh_header_None[of "[?x, x2]" r2] by auto
      then have "card (header_of ` set r2 - set [x2, ?x]) = 0" by (simp only: card.empty)
      then have "\<not> 4 \<le> card (header_of ` set (drop 5 src))" using 0 c1 by linarith
      then show ?thesis using None p by (simp add: src generate_long)
    next
      case (Some q)
      then obtain x3 r3 where q: "genFreshHeader [?x, x2] r2 = Some (x3, r3)" by (cases q) auto
      note c2 = fresh_header_card[OF q]
      let ?R = "header_of ` set r3 - set [x3, ?x, x2]"
      have "card (header_of ` set (drop 5 src)) = 3 + card ?R" 
        using 0 c1 c2 insert_commute[of x2 ?x "{}"] by simp
      moreover have "genFreshHeader [?x, x2, x3] r3 = None \<longleftrightarrow> ?R = {}"
        using fresh_header_None[of "[?x, x2, x3]" r3] by auto
      then have "genFreshHeader [?x, x2, x3] r3 = None \<longleftrightarrow> card ?R = 0"
        using card_0_eq[of ?R] by blast
      moreover have "generateRandomAWGParams src = None \<longleftrightarrow> genFreshHeader [?x, x2, x3] r3 = None"
        using p q by (simp add: src generate_long split: option.splits)
      ultimately show ?thesis by linarith
    qed
  qed
qed

lemma generated_fields:
  assumes "generateRandomAWGParams src = Some (p, rest)"
  shows "3 \<le> awg_jc p \<and> awg_jc p \<le> 8 \<and> 40 \<le> awg_jmin p \<and> awg_jmin p \<le> 80 \<and> 400 \<le> awg_jmax p \<and> awg_jmax p \<le> 1050 \<and>
    20 \<le> awg_s1 p \<and> awg_s1 p \<le> 150 \<and> 20 \<le> awg_s2 p \<and> awg_s2 p \<le> 150 \<and>
    distinct [awg_h1 p, awg_h2 p, awg_h3 p, awg_h4 p] \<and> set [awg_h1 p, awg_h2 p, awg_h3 p, awg_h4 p] \<subseteq> {10000..<2147483648}"
proof -
  have "\<not> length src < 6" using assms generate_short by force
  then obtain a b c d e f r where src: "src = a # b # c # d # e # f # r"
    using list_six[of src] by auto
  show ?thesis
    using assms draw_in_range[of 6 a] draw_in_range[of 41 b] draw_in_range[of 651 c]
      draw_in_range[of 131 d] draw_in_range[of 131 e] header_range
    by (auto simp: src generate_long split: option.splits dest!: fresh_header_Some)
qed

text \<open>
  C35. Obfuscation parameters. generateRandomAWGParams returns exactly when the entropy source
  holds, after its first five draws, four different header values (so with a source that only
  fails it never returns); the parameters it returns lie in the documented ranges, with four
  different 32-bit headers, and pass the agent's Validate.
\<close>
theorem generated_awg_params:
  "(generateRandomAWGParams src \<noteq> None \<longleftrightarrow> 4 \<le> card (header_of ` set (drop 5 src))) \<and>
   generateRandomAWGParams (replicate n None) = None \<and>
   (case generateRandomAWGParams src of None \<Rightarrow> True
    | Some (p, _) \<Rightarrow> validateAwg p = Inr () \<and>
        awg_jc p \<in> {3..8} \<and> awg_jmin p \<in> {40..80} \<and> awg_jmax p \<in> {400..1050} \<and>
        awg_s1 p \<in> {20..150} \<and> awg_s2 p \<in> {20..150} \<and>
        distinct [awg_h1 p, awg_h2 p, awg_h3 p, awg_h4 p] \<and> set [awg_h1 p, awg_h2 p, awg_h3 p, awg_h4 p] \<subseteq> {10000..int32_max})"
proof -
  have "header_of ` set (drop 5 (replicate n None)) \<subseteq> {header_of None}"
    by (auto dest: in_set_dropD)
  then have "card (header_of ` set (drop 5 (replicate n None))) \<le> 1"
    using card_mono[of "{header_of None}"] by fastforce
  then have "generateRandomAWGParams (replicate n None) = None"
    using headers_possible[of "replicate n None"] by linarith
  then show ?thesis
    using headers_possible[of src] generated_fields[of src]
    by (auto simp: validateAwg_ok int_widths split: option.splits)
qed

end
