(* ===== verification/Provisioner.thy ===== *)
theory Provisioner
  imports Store IP_Pool Awg_Params
begin

text \<open>
  CredentialProvisioner (src/internal/controlplane/service/provisioner.go): credentials of a
  user on every online node, their revocation and rotation. What the code draws at random for
  one node (key pair, entropy, row identifiers, the client UUID) is an argument; the key pair
  is None when wgtypes.GeneratePrivateKey fails. The pusher callback is the list of the nodes
  it is called for, in order; its own errors are ignored by the code.
\<close>

section \<open>One node\<close>

record draws =
  dr_key :: "(string \<times> string) option"
  dr_entropy :: entropy
  dr_awg_row :: uuid
  dr_vless_row :: uuid
  dr_client :: uuid

datatype prov_error =
    ListNodesFailed db_error
  | ListCredsFailed db_error
  | DeleteCredsFailed db_error
  | AllocFailed uuid alloc_error
  | CreateFailed string uuid db_error
  | TxFailed db_error
  | StillDrawing
  | CredLookupFailed db_error
  | RotateTokenFailed db_error
  | ReProvisionFailed prov_error

definition blank_cred :: "uuid \<Rightarrow> uuid \<Rightarrow> uuid \<Rightarrow> string \<Rightarrow> credential" where
  "blank_cred cid uid nid proto = \<lparr>c_id = cid, c_user = uid, c_node = nid, c_protocol = proto,
     c_private = None, c_public = None, c_psk = None, c_uuid = None, c_flow = None,
     c_ipv4 = None, c_ipv6 = None, c_dns = None, c_mtu = None, c_status = Some ''active'',
     c_expires = None, c_jc = None, c_jmin = None, c_jmax = None, c_s1 = None, c_s2 = None,
     c_h1 = None, c_h2 = None, c_h3 = None, c_h4 = None\<rparr>"

definition awg_cred :: "uuid \<Rightarrow> uuid \<Rightarrow> uuid \<Rightarrow> string \<Rightarrow> string \<Rightarrow> string \<Rightarrow> awg_params \<Rightarrow> credential" where
  "awg_cred cid uid nid priv pub ip p = (blank_cred cid uid nid ''amneziawg'')
     \<lparr>c_private := Some priv, c_public := Some pub, c_ipv4 := Some ip,
      c_jc := Some (awg_jc p), c_jmin := Some (awg_jmin p), c_jmax := Some (awg_jmax p),
      c_s1 := Some (awg_s1 p), c_s2 := Some (awg_s2 p), c_h1 := Some (awg_h1 p),
      c_h2 := Some (awg_h2 p), c_h3 := Some (awg_h3 p), c_h4 := Some (awg_h4 p)\<rparr>"

definition vless_cred :: "uuid \<Rightarrow> uuid \<Rightarrow> uuid \<Rightarrow> uuid \<Rightarrow> credential" where
  "vless_cred cid uid nid client = (blank_cred cid uid nid ''vless'')
     \<lparr>c_uuid := Some client, c_flow := Some ''xtls-rprx-vision''\<rparr>"

definition occupied_by :: "credential list \<Rightarrow> string set" where
  "occupied_by cs = set (List.map_filter c_ipv4 cs)"

text \<open>Inside a transaction a failed statement aborts it, so the ignored error of the listing
  makes the next statement fail.\<close>

definition provisionNodeTx :: "uuid \<Rightarrow> uuid \<Rightarrow> draws \<Rightarrow> time \<Rightarrow> 'a db_scheme \<Rightarrow> prov_error + 'a db_scheme" where
  "provisionNodeTx nid uid dr now d =
     (case (case dr_key dr of
        None \<Rightarrow> Inr d
      | Some (priv, pub) \<Rightarrow>
          (case allocateNextClientIP (occupied_by
                  (case ListActiveCredentialsByNode nid now d of Inl _ \<Rightarrow> [] | Inr cs \<Rightarrow> cs)) of
             Inl e \<Rightarrow> Inl (AllocFailed nid e)
           | Inr (ip, _) \<Rightarrow>
               (case generateRandomAWGParams (dr_entropy dr) of
                  None \<Rightarrow> Inl StillDrawing
                | Some (p, _) \<Rightarrow>
                    if \<not> is_ok (ListActiveCredentialsByNode nid now d)
                    then Inl (CreateFailed ''amneziawg'' nid StatementFailed)
                    else (case CreateCredential (awg_cred (dr_awg_row dr) uid nid priv pub ip p) d of
                        Inl e \<Rightarrow> Inl (CreateFailed ''amneziawg'' nid e)
                      | Inr (_, d1) \<Rightarrow> Inr d1)))) of
        Inl e \<Rightarrow> Inl e
      | Inr d1 \<Rightarrow>
          (case CreateCredential (vless_cred (dr_vless_row dr) uid nid (dr_client dr)) d1 of
             Inl e \<Rightarrow> Inl (CreateFailed ''vless'' nid e)
           | Inr (_, d2) \<Rightarrow> Inr d2))"

text \<open>The path without a Transactor ignores the errors of both inserts.\<close>

definition try_create :: "credential \<Rightarrow> 'a db_scheme \<Rightarrow> 'a db_scheme" where
  "try_create c d = (case CreateCredential c d of Inl _ \<Rightarrow> d | Inr (_, d') \<Rightarrow> d')"

definition provisionNodeLegacy ::
    "uuid \<Rightarrow> uuid \<Rightarrow> draws \<Rightarrow> time \<Rightarrow> 'a db_scheme \<Rightarrow> prov_error + 'a db_scheme" where
  "provisionNodeLegacy nid uid dr now d =
     (case (case dr_key dr of
        None \<Rightarrow> Inr d
      | Some (priv, pub) \<Rightarrow>
          (case allocateNextClientIP (occupied_by
                  (case ListActiveCredentialsByNode nid now d of Inl _ \<Rightarrow> [] | Inr cs \<Rightarrow> cs)) of
             Inl e \<Rightarrow> Inl (AllocFailed nid e)
           | Inr (ip, _) \<Rightarrow>
               (case generateRandomAWGParams (dr_entropy dr) of
                  None \<Rightarrow> Inl StillDrawing
                | Some (p, _) \<Rightarrow>
                    Inr (try_create (awg_cred (dr_awg_row dr) uid nid priv pub ip p) d)))) of
        Inl e \<Rightarrow> Inl e
      | Inr d1 \<Rightarrow> Inr (try_create (vless_cred (dr_vless_row dr) uid nid (dr_client dr)) d1))"

section \<open>All nodes\<close>

fun pushNodes :: "uuid set \<Rightarrow> uuid list \<Rightarrow> uuid list" where
  "pushNodes seen [] = []"
| "pushNodes seen (i # is) =
     (if i \<in> seen then pushNodes seen is else i # pushNodes (insert i seen) is)"

definition lock_key :: "node \<Rightarrow> string" where
  "lock_key n = ''credential_ip_alloc:'' @ n_id n"

definition provisionNode ::
    "bool \<Rightarrow> uuid \<Rightarrow> (uuid \<Rightarrow> draws) \<Rightarrow> time \<Rightarrow> node \<Rightarrow> 'a db_scheme \<Rightarrow> prov_error + 'a db_scheme" where
  "provisionNode tx uid dr now n d =
     (if tx then WithAdvisoryLock (lock_key n) (provisionNodeTx (n_id n) uid (dr (n_id n)) now) TxFailed d
      else provisionNodeLegacy (n_id n) uid (dr (n_id n)) now d)"

fun provisionNodes ::
    "bool \<Rightarrow> uuid \<Rightarrow> (uuid \<Rightarrow> draws) \<Rightarrow> time \<Rightarrow> node list \<Rightarrow> 'a db_scheme \<Rightarrow> prov_error option \<times> 'a db_scheme" where
  "provisionNodes tx uid dr now [] d = (None, d)"
| "provisionNodes tx uid dr now (n # ns) d =
     (case provisionNode tx uid dr now n d of
        Inl e \<Rightarrow> (Some e, d)
      | Inr d' \<Rightarrow> provisionNodes tx uid dr now ns d')"

definition ProvisionUser ::
    "bool \<Rightarrow> uuid \<Rightarrow> (uuid \<Rightarrow> draws) \<Rightarrow> time \<Rightarrow> 'a db_scheme \<Rightarrow> prov_error option \<times> 'a db_scheme \<times> uuid list" where
  "ProvisionUser tx uid dr now d =
     (case ListActiveNodes d of
        Inl e \<Rightarrow> (Some (ListNodesFailed e), d, [])
      | Inr nodes \<Rightarrow>
          (case provisionNodes tx uid dr now nodes d of
             (Some e, d') \<Rightarrow> (Some e, d', [])
           | (None, d') \<Rightarrow> (None, d', pushNodes {} (List.map n_id nodes))))"

definition PushUserNodes :: "uuid \<Rightarrow> 'a db_scheme \<Rightarrow> uuid list" where
  "PushUserNodes uid d =
     (case ListCredentialsByUser uid d of Inl _ \<Rightarrow> [] | Inr cs \<Rightarrow> pushNodes {} (List.map c_node cs))"

definition RevokeUser :: "uuid \<Rightarrow> 'a db_scheme \<Rightarrow> prov_error option \<times> 'a db_scheme \<times> uuid list" where
  "RevokeUser uid d =
     (case ListCredentialsByUser uid d of
        Inl e \<Rightarrow> (Some (ListCredsFailed e), d, [])
      | Inr cs \<Rightarrow>
          (case DeleteCredentialsByUser uid d of
             Inl e \<Rightarrow> (Some (DeleteCredsFailed e), d, [])
           | Inr d' \<Rightarrow> (None, d', pushNodes {} (List.map c_node cs))))"

definition RevokeCredential :: "uuid \<Rightarrow> 'a db_scheme \<Rightarrow> prov_error option \<times> 'a db_scheme \<times> uuid list" where
  "RevokeCredential cid d =
     (case GetCredentialByID cid d of
        Inl e \<Rightarrow> (Some (CredLookupFailed e), d, [])
      | Inr c \<Rightarrow>
          (case DeleteCredential cid d of
             Inl e \<Rightarrow> (Some (DeleteCredsFailed e), d, [])
           | Inr d' \<Rightarrow> (None, d', pushNodes {} [c_node c])))"

definition RotateUserCredentials ::
    "bool \<Rightarrow> uuid \<Rightarrow> uuid \<Rightarrow> (uuid \<Rightarrow> draws) \<Rightarrow> time \<Rightarrow> 'a db_scheme \<Rightarrow>
     (prov_error + user) \<times> 'a db_scheme \<times> uuid list" where
  "RotateUserCredentials tx uid tok dr now d =
     (case RotateUserSubscriptionToken uid tok d of
        Inl e \<Rightarrow> (Inl (RotateTokenFailed e), d, [])
      | Inr (u, d1) \<Rightarrow>
          (let d2 = (case DeleteCredentialsByUser uid d1 of Inl _ \<Rightarrow> d1 | Inr d' \<Rightarrow> d') in
           case ProvisionUser tx uid dr now d2 of
             (Some e, d3, pushed) \<Rightarrow> (Inl (ReProvisionFailed e), d3, pushed)
           | (None, d3, pushed) \<Rightarrow> (Inr u, d3, pushed)))"

section \<open>Lemmas\<close>

lemma set_pushNodes: "set (pushNodes seen is) = set is - seen"
  by (induction seen "is" rule: pushNodes.induct) auto

lemma distinct_pushNodes: "distinct (pushNodes seen is)"
  by (induction seen "is" rule: pushNodes.induct) (auto simp: set_pushNodes)

lemma try_create_ok [keeps]: "db_ok d \<Longrightarrow> db_ok (try_create c d)"
  by (auto simp: try_create_def dest: CreateCredential_ok split: sum.splits)

lemma provisionNodeTx_ok [keeps]: "provisionNodeTx nid uid dr now d = Inr d' \<Longrightarrow> db_ok d \<Longrightarrow> db_ok d'"
  by (auto simp: provisionNodeTx_def split: sum.splits option.splits if_splits prod.splits
      dest!: CreateCredential_ok)

lemma provisionNodeLegacy_ok [keeps]:
  "provisionNodeLegacy nid uid dr now d = Inr d' \<Longrightarrow> db_ok d \<Longrightarrow> db_ok d'"
  by (auto simp: provisionNodeLegacy_def keeps split: sum.splits option.splits)

lemma provisionNode_ok [keeps]: "provisionNode tx uid dr now n d = Inr d' \<Longrightarrow> db_ok d \<Longrightarrow> db_ok d'"
  by (cases tx) (auto simp: provisionNode_def dest!: WithAdvisoryLock_InrD
      intro: provisionNodeTx_ok provisionNodeLegacy_ok)

lemma provisionNodes_ok [keeps]:
  "provisionNodes tx uid dr now ns d = (e, d') \<Longrightarrow> db_ok d \<Longrightarrow> db_ok d'"
  by (induction tx uid dr now ns d rule: provisionNodes.induct)
    (auto split: sum.splits dest: provisionNode_ok)

lemma ProvisionUser_ok [keeps]:
  "ProvisionUser tx uid dr now d = (e, d', ps) \<Longrightarrow> db_ok d \<Longrightarrow> db_ok d'"
  by (auto simp: ProvisionUser_def split: sum.splits prod.splits option.splits dest: provisionNodes_ok)

lemma RevokeUser_ok [keeps]: "RevokeUser uid d = (e, d', ps) \<Longrightarrow> db_ok d \<Longrightarrow> db_ok d'"
  by (auto simp: RevokeUser_def split: sum.splits dest: DeleteCredentialsByUser_ok)

lemma RevokeCredential_ok [keeps]: "RevokeCredential cid d = (e, d', ps) \<Longrightarrow> db_ok d \<Longrightarrow> db_ok d'"
  by (auto simp: RevokeCredential_def split: sum.splits dest: DeleteCredential_ok)

lemma RotateUserCredentials_ok [keeps]:
  "RotateUserCredentials tx uid tok dr now d = (r, d', ps) \<Longrightarrow> db_ok d \<Longrightarrow> db_ok d'"
  by (auto simp: RotateUserCredentials_def Let_def split: sum.splits prod.splits option.splits
      dest!: RotateUserSubscriptionToken_ok ProvisionUser_ok dest: DeleteCredentialsByUser_ok)

text \<open>What provisioning leaves alone: the tables of users and nodes, and the credentials that
  were there before.\<close>

definition adds_creds :: "uuid \<Rightarrow> 'a db_scheme \<Rightarrow> 'a db_scheme \<Rightarrow> bool" where
  "adds_creds uid d d' \<longleftrightarrow> (\<exists>new. d' = d\<lparr>db_creds := new @ db_creds d\<rparr> \<and> (\<forall>c\<in>set new. c_user c = uid))"

lemma adds_creds_refl [simp]: "adds_creds uid d d"
  unfolding adds_creds_def by (rule exI[of _ "[]"]) simp

lemma adds_creds_trans:
  assumes "adds_creds uid d1 d2" "adds_creds uid d2 d3"
  shows "adds_creds uid d1 d3"
proof -
  from assms obtain a b where "d2 = d1\<lparr>db_creds := a @ db_creds d1\<rparr>" "\<forall>c\<in>set a. c_user c = uid"
    "d3 = d2\<lparr>db_creds := b @ db_creds d2\<rparr>" "\<forall>c\<in>set b. c_user c = uid"
    unfolding adds_creds_def by blast
  then have "d3 = d1\<lparr>db_creds := (b @ a) @ db_creds d1\<rparr>" "\<forall>c\<in>set (b @ a). c_user c = uid" by auto
  then show ?thesis unfolding adds_creds_def by blast
qed

lemma CreateCredential_adds: "CreateCredential c d = Inr (c', d') \<Longrightarrow> adds_creds (c_user c) d d'"
  unfolding adds_creds_def by (drule CreateCredential_InrD, rule exI[of _ "[c]"]) simp

lemma awg_cred_simps [simp]:
  "c_user (awg_cred cid uid nid priv pub ip p) = uid" "c_node (awg_cred cid uid nid priv pub ip p) = nid"
  "c_id (awg_cred cid uid nid priv pub ip p) = cid" "c_protocol (awg_cred cid uid nid priv pub ip p) = ''amneziawg''"
  "c_ipv4 (awg_cred cid uid nid priv pub ip p) = Some ip"
  by (simp_all add: awg_cred_def blank_cred_def)

lemma vless_cred_simps [simp]:
  "c_user (vless_cred cid uid nid cl) = uid" "c_node (vless_cred cid uid nid cl) = nid"
  "c_id (vless_cred cid uid nid cl) = cid" "c_protocol (vless_cred cid uid nid cl) = ''vless''"
  "c_ipv4 (vless_cred cid uid nid cl) = None"
  by (simp_all add: vless_cred_def blank_cred_def)

lemma try_create_adds: "adds_creds (c_user c) d (try_create c d)"
  by (auto simp: try_create_def CreateCredential_adds split: sum.splits)

lemma provisionNodeTx_adds: "provisionNodeTx nid uid dr now d = Inr d' \<Longrightarrow> adds_creds uid d d'"
  by (auto simp: provisionNodeTx_def split: sum.splits option.splits if_splits prod.splits
      dest!: CreateCredential_adds intro: adds_creds_trans)

lemma try_create_awg: "adds_creds uid d (try_create (awg_cred cid uid nid priv pub ip p) d)"
  using try_create_adds[of "awg_cred cid uid nid priv pub ip p" d] by simp

lemma try_create_vless: "adds_creds uid d (try_create (vless_cred cid uid nid cl) d)"
  using try_create_adds[of "vless_cred cid uid nid cl" d] by simp

lemma try_create_both:
  "adds_creds uid d (try_create (vless_cred i uid nid cl) (try_create (awg_cred j uid nid priv pub ip p) d))"
  by (rule adds_creds_trans[OF try_create_awg try_create_vless])

lemma provisionNodeLegacy_adds: "provisionNodeLegacy nid uid dr now d = Inr d' \<Longrightarrow> adds_creds uid d d'"
  by (auto simp: provisionNodeLegacy_def try_create_vless try_create_both split: sum.splits option.splits)

lemma provisionNode_adds: "provisionNode tx uid dr now n d = Inr d' \<Longrightarrow> adds_creds uid d d'"
  by (cases tx) (auto simp: provisionNode_def dest!: WithAdvisoryLock_InrD
      intro: provisionNodeTx_adds provisionNodeLegacy_adds)

lemma provisionNodes_adds: "provisionNodes tx uid dr now ns d = (e, d') \<Longrightarrow> adds_creds uid d d'"
proof (induction tx uid dr now ns d rule: provisionNodes.induct)
  case (2 tx uid dr now n ns d)
  show ?case
  proof (cases "provisionNode tx uid dr now n d")
    case (Inr d1)
    then show ?thesis using 2 provisionNode_adds[OF Inr] by (auto intro: adds_creds_trans)
  qed (use 2 in simp)
qed simp

lemma ProvisionUser_adds: "ProvisionUser tx uid dr now d = (e, d', ps) \<Longrightarrow> adds_creds uid d d'"
  by (auto simp: ProvisionUser_def split: sum.splits prod.splits option.splits dest: provisionNodes_adds)

section \<open>A node that can be provisioned\<close>

text \<open>What a successful run needs: the key pair, working statements, free row identifiers, no
  credential of the user on the node, and a free address that no inactive credential of the
  node still holds in the unique index.\<close>

definition provisionable :: "uuid \<Rightarrow> uuid \<Rightarrow> draws \<Rightarrow> time \<Rightarrow> 'a db_scheme \<Rightarrow> bool" where
  "provisionable nid uid dr now d \<longleftrightarrow>
     dr_key dr \<noteq> None \<and> generateRandomAWGParams (dr_entropy dr) \<noteq> None \<and>
     db_down d \<inter> {''ListActiveCredentialsByNode'', ''CreateCredential''} = {} \<and>
     dr_awg_row dr \<noteq> dr_vless_row dr \<and>
     {dr_awg_row dr, dr_vless_row dr} \<inter> c_id ` set (db_creds d) = {} \<and>
     uid \<in> u_id ` set (db_users d) \<and> nid \<in> n_id ` set (db_nodes d) \<and>
     (\<forall>c\<in>set (db_creds d). c_user c = uid \<and> c_node c = nid \<longrightarrow> c_protocol c \<notin> {''amneziawg'', ''vless''}) \<and>
     (\<forall>c\<in>set (db_creds d). c_node c = nid \<and> c_ipv4 c \<noteq> None \<longrightarrow> cred_active now c) \<and>
     \<not> set client_pool \<subseteq> occupied_by (List.filter (\<lambda>c. c_node c = nid) (db_creds d))"

lemma in_occupied_by: "a \<in> occupied_by cs \<longleftrightarrow> (\<exists>c\<in>set cs. c_ipv4 c = Some a)"
  by (force simp: occupied_by_def map_filter_def)

lemma occupied_active:
  assumes "\<forall>c\<in>set cs. c_node c = nid \<and> c_ipv4 c \<noteq> None \<longrightarrow> cred_active now c"
  shows "occupied_by (List.filter (\<lambda>c. c_node c = nid \<and> cred_active now c) cs) =
    occupied_by (List.filter (\<lambda>c. c_node c = nid) cs)"
  using assms by (fastforce simp: in_occupied_by set_eq_iff)

lemma CreateCredential_fresh:
  assumes "''CreateCredential'' \<notin> db_down d" "c_user c \<in> u_id ` set (db_users d)"
    "c_node c \<in> n_id ` set (db_nodes d)" "c_id c \<notin> c_id ` set (db_creds d)"
    "\<forall>e\<in>set (db_creds d). c_user e = c_user c \<and> c_node e = c_node c \<longrightarrow> c_protocol e \<noteq> c_protocol c"
    "\<forall>e\<in>set (db_creds d). c_node e = c_node c \<and> c_ipv4 c \<noteq> None \<longrightarrow> c_ipv4 e \<noteq> c_ipv4 c"
  shows "CreateCredential c d = Inr (c, d\<lparr>db_creds := c # db_creds d\<rparr>)"
proof -
  have "\<not> (\<exists>e\<in>set (db_creds d). c_id e = c_id c \<or>
                 c_user e = c_user c \<and> c_node e = c_node c \<and> c_protocol e = c_protocol c \<or>
                 c_node e = c_node c \<and> c_ipv4 c \<noteq> None \<and> c_ipv4 e = c_ipv4 c)"
    using assms(4,5,6) by (metis imageI)
  then show ?thesis unfolding CreateCredential_def using assms(1,2,3) by (simp only: if_False) simp
qed

section \<open>Properties\<close>


definition demo_draws :: draws where
  "demo_draws = \<lparr>dr_key = Some (''priv'', ''pub''),
     dr_entropy = [Some 1, Some 2, Some 3, Some 4, Some 5, Some 6, Some 7, Some 8, Some 9],
     dr_awg_row = ''r1'', dr_vless_row = ''r2'', dr_client = ''cu''\<rparr>"

definition demo_db :: db where
  "demo_db = \<lparr>db_users = [demo_user], db_nodes = [demo_node], db_creds = [], db_down = {}\<rparr>"

lemma demo_generates: "generateRandomAWGParams (dr_entropy demo_draws) \<noteq> None"
  by code_simp

lemma demo_provisionable: "provisionable ''n1'' ''u1'' demo_draws 0 demo_db"
proof -
  have "occupied_by [] = {}" by (simp add: occupied_by_def map_filter_def)
  moreover have "client_addr 0 2 \<in> set client_pool" by (auto simp: set_client_pool scan_start_def)
  ultimately show ?thesis using demo_generates
    by (auto simp: provisionable_def demo_db_def demo_draws_def demo_user_def demo_node_def)
qed


text \<open>
  A stale address blocks a node. Occupied addresses are read from the active credentials
  only, while the unique index covers every row. If the address the scan chooses is held by an
  expired or disabled credential of the node, the insert violates the index, the transaction
  fails, and the user gets no credential on the node; the next attempt meets the same row.
\<close>
theorem stale_address_blocks:
  assumes "dr_key dr = Some (priv, pub)" "generateRandomAWGParams (dr_entropy dr) \<noteq> None"
    "''ListActiveCredentialsByNode'' \<notin> db_down d" "''CreateCredential'' \<notin> db_down d"
    "allocateNextClientIP (occupied_by (List.filter (\<lambda>c. c_node c = nid \<and> cred_active now c) (db_creds d))) =
       Inr (a, occ')"
    "e \<in> set (db_creds d)" "c_node e = nid" "c_ipv4 e = Some a"
  shows "\<not> cred_active now e \<and>
    provisionNodeTx nid uid dr now d = Inl (CreateFailed ''amneziawg'' nid UniqueViolation)"
proof -
  obtain p rest where g: "generateRandomAWGParams (dr_entropy dr) = Some (p, rest)" using assms(2) by auto
  let ?c = "awg_cred (dr_awg_row dr) uid nid priv pub a p"
  have "\<exists>e\<in>set (db_creds d). c_id e = c_id ?c \<or>
         c_user e = c_user ?c \<and> c_node e = c_node ?c \<and> c_protocol e = c_protocol ?c \<or>
         c_node e = c_node ?c \<and> c_ipv4 ?c \<noteq> None \<and> c_ipv4 e = c_ipv4 ?c"
    using assms(6,7,8) by (intro bexI[of _ e]) auto
  then have "CreateCredential ?c d = Inl UniqueViolation"
    unfolding CreateCredential_def using assms(4) by (simp only: if_False if_True)
  then have "provisionNodeTx nid uid dr now d = Inl (CreateFailed ''amneziawg'' nid UniqueViolation)"
    using assms(1,3,5) g by (simp add: provisionNodeTx_def ListActiveCredentialsByNode_def)
  moreover have "a \<notin> occupied_by (List.filter (\<lambda>c. c_node c = nid \<and> cred_active now c) (db_creds d))"
    using allocate_ok[OF assms(5)] by blast
  then have "\<not> cred_active now e" using assms(6,7,8) by (auto simp: in_occupied_by)
  ultimately show ?thesis by blast
qed

definition stale_db :: db where
  "stale_db = demo_db\<lparr>db_creds :=
     [(awg_cred ''r0'' ''u0'' ''n1'' ''p'' ''k'' (client_addr 0 2) DefaultAmneziaWGParams)\<lparr>c_expires := Some 5\<rparr>]\<rparr>"

lemma first_client_addr: "allocateNextClientIP {} = Inr (client_addr 0 2, {client_addr 0 2})"
  by (simp add: allocateNextClientIP_def scan_b2.simps[of "{}" 0] scan_b3.simps[of "{}" 0 2] scan_start_def Let_def)

lemma stale_address_blocks_witness:
  "provisionNodeTx ''n1'' ''u1'' demo_draws 7 stale_db =
     Inl (CreateFailed ''amneziawg'' ''n1'' UniqueViolation)"
proof -
  let ?e = "(awg_cred ''r0'' ''u0'' ''n1'' ''p'' ''k'' (client_addr 0 2) DefaultAmneziaWGParams)\<lparr>c_expires := Some 5\<rparr>"
  have "occupied_by (List.filter (\<lambda>c. c_node c = ''n1'' \<and> cred_active 7 c) (db_creds stale_db)) = {}"
    by (simp add: stale_db_def cred_active_def occupied_by_def map_filter_def)
  then show ?thesis
    using stale_address_blocks[of demo_draws "''priv''" "''pub''" stale_db "''n1''" 7 "client_addr 0 2"
        "{client_addr 0 2}" ?e "''u1''"] demo_generates first_client_addr
    by (simp add: stale_db_def demo_db_def demo_draws_def)
qed


lemma demo_db_ok: "db_ok demo_db"
  by (simp add: db_ok_def demo_db_def)


lemma rotated_token:
  assumes "v \<in> set (db_users (update_users (\<lambda>v. u_id v = uid) (\<lambda>v. v\<lparr>u_token := tok\<rparr>) d))" "u_id v = uid"
  shows "u_token v = tok"
proof -
  obtain w where "v = (if u_id w = uid then w\<lparr>u_token := tok\<rparr> else w)"
    using assms(1) unfolding db_users_update set_map by (rule imageE)
  then show ?thesis using assms(2) by (cases "u_id w = uid") simp_all
qed

text \<open>
  Rotation replaces. Once the token rotation has committed and the deletion works, no
  credential the user had survives, whatever the outcome of re-provisioning: the rows of the
  result are those of the other users, unchanged, and new rows of this user. Every row of the
  user carries the new subscription token. If the deletion fails, its error is ignored and the
  old credentials stay while the token has changed.
\<close>
theorem rotation_replaces_credentials:
  assumes "RotateUserSubscriptionToken uid tok d = Inr (u, d1)"
    and "RotateUserCredentials tx uid tok dr now d = (r, d', ps)"
  shows "(\<exists>new. (\<forall>c\<in>set new. c_user c = uid) \<and>
      db_creds d' = new @ (if ''DeleteCredentialsByUser'' \<in> db_down d then db_creds d
                           else List.filter (\<lambda>c. c_user c \<noteq> uid) (db_creds d))) \<and>
    (\<forall>v\<in>set (db_users d'). u_id v = uid \<longrightarrow> u_token v = tok) \<and> (is_ok r \<longrightarrow> r = Inr u)"
proof -
  have d1: "d1 = update_users (\<lambda>v. u_id v = uid) (\<lambda>v. v\<lparr>u_token := tok\<rparr>) d"
    using assms(1) by (auto simp: RotateUserSubscriptionToken_def split: if_splits option.splits)
  define d2 where "d2 = (case DeleteCredentialsByUser uid d1 of Inl _ \<Rightarrow> d1 | Inr x \<Rightarrow> x)"
  have d2: "db_creds d2 = (if ''DeleteCredentialsByUser'' \<in> db_down d then db_creds d
       else List.filter (\<lambda>c. c_user c \<noteq> uid) (db_creds d))" "db_users d2 = db_users d1"
    by (auto simp: DeleteCredentialsByUser_def d1 d2_def)
  obtain e where p: "ProvisionUser tx uid dr now d2 = (e, d', ps)" and r: "is_ok r \<longrightarrow> r = Inr u"
    using assms unfolding RotateUserCredentials_def Let_def d2_def
    by (auto split: option.splits prod.splits)
  obtain new where n: "d' = d2\<lparr>db_creds := new @ db_creds d2\<rparr>" "\<forall>c\<in>set new. c_user c = uid"
    using ProvisionUser_adds[OF p] unfolding adds_creds_def by blast
  have c: "db_creds d' = new @ db_creds d2" and "db_users d' = db_users d2"
    unfolding n(1) by simp_all
  then have "\<forall>v\<in>set (db_users d'). u_id v = uid \<longrightarrow> u_token v = tok"
    using rotated_token[of _ uid tok d] unfolding d2(2) d1 by metis
  then show ?thesis using c n(2) r unfolding d2(1) by blast
qed

lemma rotation_replaces_credentials_witness:
  "{v \<in> set (db_users (fst (snd (RotateUserCredentials True ''u1'' ''t9'' (\<lambda>_. demo_draws) 0 demo_db)))).
     u_id v = ''u1'' \<and> u_token v \<noteq> ''t9''} = {}"
proof -
  have "RotateUserSubscriptionToken ''u1'' ''t9'' demo_db =
      Inr (demo_user\<lparr>u_token := ''t9''\<rparr>, update_users (\<lambda>v. u_id v = ''u1'') (\<lambda>v. v\<lparr>u_token := ''t9''\<rparr>) demo_db)"
    by (simp add: RotateUserSubscriptionToken_def demo_db_def demo_user_def)
  from rotation_replaces_credentials[OF this, of True "\<lambda>_. demo_draws" 0]
  have "\<forall>v\<in>set (db_users (fst (snd (RotateUserCredentials True ''u1'' ''t9'' (\<lambda>_. demo_draws) 0 demo_db)))).
      u_id v = ''u1'' \<longrightarrow> u_token v = ''t9''"
    by (metis prod.collapse)
  then show ?thesis by blast
qed

end
