(* ===== verification/Config_Builder.thy ===== *)
theory Config_Builder
  imports Store Awg_Params
begin

text \<open>
  ConfigBuilder (src/internal/controlplane/service/config_builder.go): the configuration of one
  exit node, computed from the node's status, its active credentials and their owners. The
  protobuf message is a record; a credential's payload is the JSON object the code marshals.
\<close>

section \<open>Messages\<close>

record cred_config =
  cc_id :: uuid
  cc_protocol :: string
  cc_bytes :: bytes

record user_config =
  uc_user :: uuid
  uc_creds :: "cred_config list"

record config_update =
  cu_version :: int
  cu_full :: bool
  cu_users :: "user_config list"
  cu_iface :: "string option"

section \<open>Payloads\<close>

definition vless_payload :: "credential \<Rightarrow> json" where
  "vless_payload c =
     (let client = text_or [] (c_uuid c);
          flow = (case c_flow c of Some f \<Rightarrow> if f \<noteq> [] then f else ''xtls-rprx-vision''
                                 | None \<Rightarrow> ''xtls-rprx-vision'')
      in j_str ''uuid'' client @ j_str ''flow'' flow @ j_str ''email'' client)"

definition allowed_ips_of :: "credential \<Rightarrow> string" where
  "allowed_ips_of c =
     (let v4 = (case c_ipv4 c of None \<Rightarrow> [] | Some a \<Rightarrow> a @ ''/32'') in
      case c_ipv6 c of None \<Rightarrow> v4
      | Some b \<Rightarrow> if v4 \<noteq> [] then v4 @ '','' @ b @ ''/128'' else b @ ''/128'')"

definition awg_part :: "credential \<Rightarrow> json" where
  "awg_part c =
     (if c_protocol c = ''amneziawg'' then
        j_int_omit ''awg_jc'' (int_or 0 (c_jc c)) @ j_int_omit ''awg_jmin'' (int_or 0 (c_jmin c)) @
        j_int_omit ''awg_jmax'' (int_or 0 (c_jmax c)) @ j_int_omit ''awg_s1'' (int_or 0 (c_s1 c)) @
        j_int_omit ''awg_s2'' (int_or 0 (c_s2 c)) @ j_int_omit ''awg_h1'' (int_or 0 (c_h1 c)) @
        j_int_omit ''awg_h2'' (int_or 0 (c_h2 c)) @ j_int_omit ''awg_h3'' (int_or 0 (c_h3 c)) @
        j_int_omit ''awg_h4'' (int_or 0 (c_h4 c))
      else [])"

definition wg_payload :: "credential \<Rightarrow> json" where
  "wg_payload c =
     j_str ''public_key'' (text_or [] (c_public c)) @
     j_str_omit ''preshared_key'' (text_or [] (c_psk c)) @
     j_str_omit ''ipv4'' (text_or [] (c_ipv4 c)) @
     j_str_omit ''ipv6'' (text_or [] (c_ipv6 c)) @
     j_str_omit ''allowed_ips'' (allowed_ips_of c) @ awg_part c"

definition cred_config_of :: "credential \<Rightarrow> cred_config" where
  "cred_config_of c = \<lparr>cc_id = c_id c, cc_protocol = c_protocol c,
     cc_bytes = Obj (if c_protocol c = ''vless'' then vless_payload c else wg_payload c)\<rparr>"

section \<open>The builder\<close>

definition user_excluded :: "time \<Rightarrow> user \<Rightarrow> bool" where
  "user_excluded now u \<longleftrightarrow>
     (case u_status u of Some st \<Rightarrow> st \<noteq> ''active'' | None \<Rightarrow> False) \<or>
     (case u_expires u of Some t \<Rightarrow> t < now | None \<Rightarrow> False) \<or>
     (case (u_limit u, u_used u) of (Some l, Some n) \<Rightarrow> l > 0 \<and> n \<ge> l | _ \<Rightarrow> False)"

fun user_configs :: "time \<Rightarrow> (uuid \<rightharpoonup> user) \<Rightarrow> credential list \<Rightarrow> uuid list \<Rightarrow> user_config list" where
  "user_configs now userMap creds [] = []"
| "user_configs now userMap creds (uid # uids) =
     (case userMap uid of
        None \<Rightarrow> user_configs now userMap creds uids
      | Some u \<Rightarrow>
          if user_excluded now u then user_configs now userMap creds uids
          else \<lparr>uc_user = uid,
                uc_creds = List.map cred_config_of (sort_key c_id (List.filter (\<lambda>c. c_user c = uid) creds))\<rparr>
               # user_configs now userMap creds uids)"

datatype build_error = FetchNode db_error | ListActiveCreds db_error | BatchUsers db_error

definition BuildConfig ::
    "uuid \<Rightarrow> int \<Rightarrow> bool \<Rightarrow> time \<Rightarrow> 'a db_scheme \<Rightarrow> build_error + config_update" where
  "BuildConfig nid version isFull now d =
     (case GetNodeByID nid d of
        Inl e \<Rightarrow> Inl (FetchNode e)
      | Inr n \<Rightarrow>
          (let st = text_or [] (n_status n) in
           if st \<noteq> ''online'' \<and> st \<noteq> ''degraded''
           then Inr \<lparr>cu_version = version, cu_full = isFull, cu_users = [], cu_iface = Some ''wg0''\<rparr>
           else case ListActiveCredentialsByNode nid now d of
              Inl e \<Rightarrow> Inl (ListActiveCreds e)
            | Inr creds \<Rightarrow>
                (let uids = sort (remdups (List.map c_user creds)) in
                 case GetUsersByIDs uids d of
                   Inl e \<Rightarrow> Inl (BatchUsers e)
                 | Inr us \<Rightarrow>
                     Inr \<lparr>cu_version = version, cu_full = isFull,
                          cu_users = user_configs now (map_of (rev (List.map (\<lambda>u. (u_id u, u)) us))) creds uids,
                          cu_iface = Some ''wg0''\<rparr>)))"

section \<open>Lemmas\<close>

definition served :: "config_update \<Rightarrow> (uuid \<times> cred_config) set" where
  "served cu = {(uc_user uc, cc) | uc cc. uc \<in> set (cu_users cu) \<and> cc \<in> set (uc_creds uc)}"

lemma set_user_configs:
  "uc \<in> set (user_configs now m creds uids) \<longleftrightarrow>
     (\<exists>uid u. uid \<in> set uids \<and> m uid = Some u \<and> \<not> user_excluded now u \<and>
        uc = \<lparr>uc_user = uid, uc_creds = List.map cred_config_of
               (sort_key c_id (List.filter (\<lambda>c. c_user c = uid) creds))\<rparr>)"
  by (induction now m creds uids rule: user_configs.induct) (auto split: option.splits)

lemma user_configs_users:
  "List.map uc_user (user_configs now m creds uids) =
     List.filter (\<lambda>uid. case m uid of None \<Rightarrow> False | Some u \<Rightarrow> \<not> user_excluded now u) uids"
  by (induction now m creds uids rule: user_configs.induct) (auto split: option.splits)

lemma served_user_configs:
  assumes "cu_users cu = user_configs now m creds uids"
  shows "(uid, cc) \<in> served cu \<longleftrightarrow> uid \<in> set uids \<and> (\<exists>u. m uid = Some u \<and> \<not> user_excluded now u) \<and>
    (\<exists>c\<in>set creds. c_user c = uid \<and> cc = cred_config_of c)" (is "?l \<longleftrightarrow> ?r")
proof
  assume ?l
  then show ?r by (auto simp: served_def assms set_user_configs)
next
  assume ?r
  then obtain u c where r: "uid \<in> set uids" "m uid = Some u" "\<not> user_excluded now u"
    "c \<in> set creds" "c_user c = uid" "cc = cred_config_of c" by blast
  let ?uc = "\<lparr>uc_user = uid, uc_creds = List.map cred_config_of
               (sort_key c_id (List.filter (\<lambda>c. c_user c = uid) creds))\<rparr>"
  have "?uc \<in> set (cu_users cu)" using r(1,2,3) unfolding assms set_user_configs by blast
  moreover have "cc \<in> set (uc_creds ?uc)" using r by auto
  ultimately have "(uc_user ?uc, cc) \<in> served cu" unfolding served_def by blast
  then show ?l by simp
qed

lemma map_of_users:
  assumes "distinct (List.map u_id us)"
  shows "map_of (rev (List.map (\<lambda>u. (u_id u, u)) us)) uid = Some u \<longleftrightarrow> u \<in> set us \<and> u_id u = uid"
proof -
  have "distinct (List.map fst (rev (List.map (\<lambda>u. (u_id u, u)) us)))"
    using assms by (simp add: rev_map[symmetric] comp_def)
  then show ?thesis by (auto simp: map_of_eq_Some_iff)
qed

section \<open>Properties\<close>

definition serving_status :: "node \<Rightarrow> bool" where
  "serving_status n \<longleftrightarrow> n_status n \<in> {Some ''online'', Some ''degraded''}"

lemma serving_status_text:
  "(text_or [] (n_status n) \<noteq> ''online'' \<and> text_or [] (n_status n) \<noteq> ''degraded'') \<longleftrightarrow> \<not> serving_status n"
  by (cases "n_status n") (auto simp: serving_status_def)

lemma BuildConfig_serving:
  assumes "GetNodeByID nid d = Inr n" "serving_status n" "BuildConfig nid v full now d = Inr cu"
  shows "cu_users cu = user_configs now
      (map_of (rev (List.map (\<lambda>u. (u_id u, u)) (List.filter (\<lambda>u. u_id u \<in> c_user ` set
         (List.filter (\<lambda>c. c_node c = nid \<and> cred_active now c) (db_creds d))) (db_users d)))))
      (List.filter (\<lambda>c. c_node c = nid \<and> cred_active now c) (db_creds d))
      (sort (remdups (List.map c_user (List.filter (\<lambda>c. c_node c = nid \<and> cred_active now c) (db_creds d)))))"
  using assms(3) serving_status_text[of n] assms(1,2)
  by (auto simp: BuildConfig_def Let_def ListActiveCredentialsByNode_def GetUsersByIDs_def
      split: if_splits sum.splits)

lemma build_exact:
  assumes "db_ok d" "BuildConfig nid v full now d = Inr cu" "GetNodeByID nid d = Inr n"
  shows "cu_version cu = v \<and> cu_full cu = full \<and> cu_iface cu = Some ''wg0'' \<and>
    sorted (List.map uc_user (cu_users cu)) \<and> distinct (List.map uc_user (cu_users cu)) \<and>
    served cu = (if serving_status n
      then {(c_user c, cred_config_of c) | c. c \<in> set (db_creds d) \<and> c_node c = nid \<and> cred_active now c \<and>
              (\<exists>u\<in>set (db_users d). u_id u = c_user c \<and> \<not> user_excluded now u)}
      else {})"
proof (cases "serving_status n")
  case False
  then show ?thesis
    using assms(2,3) serving_status_text[of n] by (auto simp: BuildConfig_def served_def)
next
  case True
  let ?cs = "List.filter (\<lambda>c. c_node c = nid \<and> cred_active now c) (db_creds d)"
  let ?us = "List.filter (\<lambda>u. u_id u \<in> c_user ` set ?cs) (db_users d)"
  let ?m = "map_of (rev (List.map (\<lambda>u. (u_id u, u)) ?us))"
  note users = BuildConfig_serving[OF assms(3) True assms(2)]
  have "cu_version cu = v \<and> cu_full cu = full \<and> cu_iface cu = Some ''wg0''"
    using assms(2,3) True serving_status_text[of n]
    by (auto simp: BuildConfig_def Let_def split: if_splits sum.splits)
  moreover have "sorted (List.map uc_user (cu_users cu)) \<and> distinct (List.map uc_user (cu_users cu))"
    unfolding users user_configs_users by (simp add: sorted_wrt_filter)
  moreover have "distinct (List.map u_id ?us)"
    using assms(1) by (simp add: db_ok_def distinct_map_filter_key)
  note m = map_of_users[OF this]
  have "served cu = {(c_user c, cred_config_of c) | c. c \<in> set (db_creds d) \<and> c_node c = nid \<and>
      cred_active now c \<and> (\<exists>u\<in>set (db_users d). u_id u = c_user c \<and> \<not> user_excluded now u)}"
    (is "_ = ?S")
  proof (rule set_eqI, clarify)
    fix uid cc
    have "(uid, cc) \<in> served cu \<longleftrightarrow> uid \<in> c_user ` set ?cs \<and>
        (\<exists>u. (u \<in> set ?us \<and> u_id u = uid) \<and> \<not> user_excluded now u) \<and>
        (\<exists>c\<in>set ?cs. c_user c = uid \<and> cc = cred_config_of c)"
      unfolding served_user_configs[OF users] m by simp
    also have "\<dots> \<longleftrightarrow> (\<exists>c\<in>set ?cs. uid = c_user c \<and> cc = cred_config_of c \<and>
        (\<exists>u\<in>set (db_users d). u_id u = c_user c \<and> \<not> user_excluded now u))"
      by (simp only: set_filter mem_Collect_eq) (metis (no_types, lifting) image_eqI mem_Collect_eq)
    also have "\<dots> \<longleftrightarrow> (uid, cc) \<in> ?S" by auto
    finally show "(uid, cc) \<in> served cu \<longleftrightarrow> (uid, cc) \<in> ?S" .
  qed
  ultimately show ?thesis using True by simp
qed

text \<open>
  C5. Exactness of a node's configuration. The update carries the requested version and mode.
  For a node that is neither online nor degraded it is empty. Otherwise a credential is served,
  once and with its own payload, exactly when it is an active, unexpired credential of the
  node whose owner exists and is not excluded (status, expiry, exhausted quota). Users appear in
  the order of their identifiers, each at most once.
\<close>
theorem build_config_exact:
  assumes "db_ok d" "BuildConfig nid v full now d = Inr cu" "GetNodeByID nid d = Inr n"
  shows "cu_version cu = v \<and> cu_full cu = full \<and> cu_iface cu = Some ''wg0'' \<and>
    sorted (List.map uc_user (cu_users cu)) \<and> distinct (List.map uc_user (cu_users cu)) \<and>
    served cu = (if serving_status n
      then {(c_user c, cred_config_of c) | c. c \<in> set (db_creds d) \<and> c_node c = nid \<and> cred_active now c \<and>
              (\<exists>u\<in>set (db_users d). u_id u = c_user c \<and> \<not> user_excluded now u)}
      else {})"
  by (rule build_exact[OF assms])

text \<open>An example: the demo node with two credentials, one of them expired.\<close>

definition demo_cred :: credential where
  "demo_cred = \<lparr>c_id = ''c1'', c_user = ''u1'', c_node = ''n1'', c_protocol = ''amneziawg'',
     c_private = Some ''sk'', c_public = Some ''pk'', c_psk = None, c_uuid = None, c_flow = None,
     c_ipv4 = Some ''10.8.0.2'', c_ipv6 = None, c_dns = None, c_mtu = None,
     c_status = Some ''active'', c_expires = None, c_jc = Some 4, c_jmin = Some 40,
     c_jmax = Some 400, c_s1 = Some 20, c_s2 = Some 20, c_h1 = Some 10001, c_h2 = Some 10002,
     c_h3 = Some 10003, c_h4 = Some 10004\<rparr>"

definition demo_db2 :: db where
  "demo_db2 = \<lparr>db_users = [demo_user], db_nodes = [demo_node],
     db_creds = [demo_cred, demo_cred\<lparr>c_id := ''c0'', c_protocol := ''vless'', c_ipv4 := None,
                                      c_expires := Some 3\<rparr>], db_down = {}\<rparr>"

lemma demo_db2_ok: "db_ok demo_db2"
  by (simp add: db_ok_def demo_db2_def creds_ok_def with_addr_def demo_cred_def demo_user_def
      demo_node_def cred_key_def)

lemma demo_build: "BuildConfig ''n1'' 7 True 5 demo_db2 = Inr \<lparr>cu_version = 7, cu_full = True,
    cu_users = [\<lparr>uc_user = ''u1'', uc_creds = [cred_config_of demo_cred]\<rparr>], cu_iface = Some ''wg0''\<rparr>"
  by (simp add: BuildConfig_def GetNodeByID_def demo_db2_def demo_node_def
      ListActiveCredentialsByNode_def cred_active_def demo_cred_def demo_user_def GetUsersByIDs_def
      user_excluded_def)

lemma build_config_exact_witness:
  "served \<lparr>cu_version = 7, cu_full = True,
    cu_users = [\<lparr>uc_user = ''u1'', uc_creds = [cred_config_of demo_cred]\<rparr>], cu_iface = Some ''wg0''\<rparr>
   = {(c_user c, cred_config_of c) | c. c \<in> set (db_creds demo_db2) \<and> c_node c = ''n1'' \<and> cred_active 5 c \<and>
        (\<exists>u\<in>set (db_users demo_db2). u_id u = c_user c \<and> \<not> user_excluded 5 u)}"
  using build_config_exact[OF demo_db2_ok demo_build, of demo_node]
  by (simp add: GetNodeByID_def demo_db2_def demo_node_def serving_status_def)

end
