(* ===== verification/Wg_Alloc.thy ===== *)
theory Wg_Alloc
  imports Interfaces
begin

text \<open>
  The agent's IPAllocator (src/internal/agent/manager/wireguard.go). Addresses are the 32 and
  128 bit words the code assembles byte by byte, counters are uint32 and uint64 with their
  wrap-around, and the loop of allocateV4 runs its uint32 bound as a natural number.
\<close>

unbundle bit_operations_syntax

section \<open>State and operations\<close>

record allocator =
  al_v4 :: "32 word"
  al_bits :: nat
  al_v6 :: "128 word"
  al_peer4 :: "string \<rightharpoonup> 32 word"
  al_peer6 :: "string \<rightharpoonup> 128 word"
  al_used4 :: "32 word set"
  al_used6 :: "128 word set"
  al_next4 :: "32 word"
  al_next6 :: "64 word"

definition NewIPAllocator :: "32 word \<Rightarrow> nat \<Rightarrow> 128 word \<Rightarrow> allocator" where
  "NewIPAllocator v4 bits v6 = \<lparr>al_v4 = v4, al_bits = bits, al_v6 = v6, al_peer4 = Map.empty,
     al_peer6 = Map.empty, al_used4 = {}, al_used6 = {}, al_next4 = 2, al_next6 = 2\<rparr>"

text \<open>mask = 0xFFFFFFFF << (32 - bits), maxHosts = ^mask.\<close>

definition max_hosts :: "nat \<Rightarrow> 32 word" where
  "max_hosts bits = NOT (push_bit (32 - bits) 0xFFFFFFFF)"

definition next_v4 :: "32 word \<Rightarrow> 32 word \<Rightarrow> 32 word" where
  "next_v4 mh n = (if n + 1 \<ge> mh - 1 then 2 else n + 1)"

fun v4_loop :: "nat \<Rightarrow> 32 word \<Rightarrow> 32 word \<Rightarrow> 32 word set \<Rightarrow> 32 word \<Rightarrow> 32 word option \<times> 32 word" where
  "v4_loop 0 base mh used n = (None, n)"
| "v4_loop (Suc i) base mh used n =
     (if base + n \<notin> used then (Some (base + n), next_v4 mh n)
      else v4_loop i base mh used (next_v4 mh n))"

definition allocateV4 :: "allocator \<Rightarrow> 32 word option \<times> allocator" where
  "allocateV4 a =
     (let mh = max_hosts (al_bits a) in
      case v4_loop (unat (mh - 2)) (al_v4 a) mh (al_used4 a) (al_next4 a) of
        (ip, n) \<Rightarrow> (ip, a\<lparr>al_next4 := n\<rparr>))"

definition v6_candidate :: "128 word \<Rightarrow> 64 word \<Rightarrow> 128 word" where
  "v6_candidate base idx = push_bit 64 (drop_bit 64 base) OR ucast idx"

definition allocateV6 :: "allocator \<Rightarrow> 128 word option \<times> allocator" where
  "allocateV6 a =
     (let ip = v6_candidate (al_v6 a) (al_next6 a); a' = a\<lparr>al_next6 := al_next6 a + 1\<rparr> in
      if ip \<in> al_used6 a then (None, a') else (Some ip, a'))"

datatype ip_error = V4Exhausted | V6Collision

definition Allocate :: "string \<Rightarrow> allocator \<Rightarrow> (ip_error + 32 word \<times> 128 word) \<times> allocator" where
  "Allocate pid a =
     (case al_peer4 a pid of
        Some v4 \<Rightarrow> (Inr (v4, (case al_peer6 a pid of Some v6 \<Rightarrow> v6 | None \<Rightarrow> 0)), a)
      | None \<Rightarrow>
          (case allocateV4 a of
             (None, a1) \<Rightarrow> (Inl V4Exhausted, a1)
           | (Some v4, a1) \<Rightarrow>
               (case allocateV6 a1 of
                  (None, a2) \<Rightarrow> (Inl V6Collision, a2\<lparr>al_used4 := al_used4 a2 - {v4}\<rparr>)
                | (Some v6, a2) \<Rightarrow>
                    (Inr (v4, v6), a2\<lparr>al_peer4 := (al_peer4 a2)(pid \<mapsto> v4),
                       al_peer6 := (al_peer6 a2)(pid \<mapsto> v6),
                       al_used4 := insert v4 (al_used4 a2), al_used6 := insert v6 (al_used6 a2)\<rparr>))))"

definition Release :: "string \<Rightarrow> allocator \<Rightarrow> allocator" where
  "Release pid a =
     (let a1 = (case al_peer4 a pid of None \<Rightarrow> a
                | Some v4 \<Rightarrow> a\<lparr>al_used4 := al_used4 a - {v4}, al_peer4 := (al_peer4 a)(pid := None)\<rparr>)
      in case al_peer6 a1 pid of None \<Rightarrow> a1
         | Some v6 \<Rightarrow> a1\<lparr>al_used6 := al_used6 a1 - {v6}, al_peer6 := (al_peer6 a1)(pid := None)\<rparr>)"

section \<open>The cyclic scan\<close>

text \<open>For a prefix of at most 29 bits the offsets the
  scan visits are 2 .. maxHosts - 2, and it visits them cyclically.\<close>

definition hosts :: "nat \<Rightarrow> nat" where
  "hosts bits = 2 ^ (32 - bits) - 4"

lemma max_hosts_nat:
  assumes "bits \<le> 32"
  shows "unat (max_hosts bits) = 2 ^ (32 - bits) - 1"
proof -
  have m: "(0xFFFFFFFF :: 32 word) = - 1" by simp
  have "max_hosts bits = mask (32 - bits)"
    unfolding max_hosts_def m by (simp add: minus_exp_eq_not_mask push_bit_minus_one)
  also have "\<dots> = of_nat (mask (32 - bits))" by (simp add: of_nat_mask_eq)
  finally have "unat (max_hosts bits) = mask (min 32 (32 - bits))"
    by (simp add: unsigned_of_nat take_bit_of_mask)
  then show ?thesis by (simp add: mask_eq_exp_minus_1)
qed

definition in_range :: "nat \<Rightarrow> 32 word \<Rightarrow> bool" where
  "in_range bits n \<longleftrightarrow> 2 \<le> unat n \<and> unat n < 2 + hosts bits"

lemma pow_ge8: "bits \<le> 29 \<Longrightarrow> (8::nat) \<le> 2 ^ (32 - bits)"
  using power_increasing[of 3 "32 - bits" "2::nat"] by simp

lemma pow_le32: "(2::nat) ^ (32 - bits) \<le> 4294967296"
  using power_increasing[of "32 - bits" 32 "2::nat"] by simp

lemma unat_minus_const:
  assumes "c \<le> unat (w :: 32 word)" "c < 4294967296"
  shows "unat (w - of_nat c) = unat w - c"
proof -
  have "of_nat c \<le> w" using assms by (simp add: word_le_nat_alt unat_of_nat take_bit_eq_mod)
  then have "unat (w - of_nat c) = unat w - unat (of_nat c :: 32 word)" by (rule unat_sub)
  then show ?thesis using assms by (simp add: unat_of_nat take_bit_eq_mod)
qed

lemma loop_bound:
  assumes "bits \<le> 29"
  shows "unat (max_hosts bits - 2) = 2 ^ (32 - bits) - 3"
  using unat_minus_const[of 2 "max_hosts bits"] max_hosts_nat[of bits] pow_ge8[OF assms] assms by simp

lemma next_v4_cyclic:
  assumes b: "bits \<le> 29" and n: "in_range bits n"
  shows "unat (next_v4 (max_hosts bits) n) = 2 + (unat n - 2 + 1) mod hosts bits"
    "in_range bits (next_v4 (max_hosts bits) n)"
proof -
  let ?p = "2 ^ (32 - bits) :: nat"
  have p: "8 \<le> ?p" "?p \<le> 4294967296" using pow_ge8[OF b] pow_le32 by auto
  have m1: "unat (max_hosts bits - 1) = ?p - 2"
    using unat_minus_const[of 1 "max_hosts bits"] max_hosts_nat[of bits] b p by simp
  have n': "2 \<le> unat n" "unat n < ?p - 2" using n p by (auto simp: in_range_def hosts_def)
  have s: "unat (n + 1) = unat n + 1"
    using n' p by (simp add: unat_plus_if')
  have "n + 1 \<ge> max_hosts bits - 1 \<longleftrightarrow> ?p - 2 \<le> unat n + 1" by (simp add: word_le_nat_alt m1 s)
  then have c: "unat (next_v4 (max_hosts bits) n) = (if ?p - 2 \<le> unat n + 1 then 2 else unat n + 1)"
    unfolding next_v4_def using s by (simp split: if_splits)
  show e: "unat (next_v4 (max_hosts bits) n) = 2 + (unat n - 2 + 1) mod hosts bits"
  proof (cases "?p - 2 \<le> unat n + 1")
    case True
    then have "unat n - 2 + 1 = hosts bits" using n' p unfolding hosts_def by linarith
    then show ?thesis using c True by simp
  next
    case False
    then have "unat n - 2 + 1 < hosts bits" using n' p unfolding hosts_def by linarith
    then show ?thesis using c False n' by simp
  qed
  show "in_range bits (next_v4 (max_hosts bits) n)"
    using p unfolding in_range_def e by (simp add: hosts_def)
qed

definition at_offset :: "32 word \<Rightarrow> nat \<Rightarrow> nat \<Rightarrow> nat \<Rightarrow> 32 word" where
  "at_offset base bits y k = base + of_nat (2 + (y + k) mod hosts bits)"

lemma v4_loop_spec:
  assumes "bits \<le> 29" "in_range bits n"
  shows "case v4_loop i base (max_hosts bits) used n of
      (None, n') \<Rightarrow> in_range bits n' \<and> (\<forall>k < i. at_offset base bits (unat n - 2) k \<in> used)
    | (Some ip, n') \<Rightarrow> in_range bits n' \<and> ip \<notin> used \<and> (\<exists>k < i. ip = at_offset base bits (unat n - 2) k)"
  using assms
proof (induction i arbitrary: n)
  case (Suc i)
  let ?n = "next_v4 (max_hosts bits) n"
  note nx = next_v4_cyclic[OF Suc.prems]
  have n: "2 \<le> unat n" "unat n - 2 < hosts bits" using Suc.prems(2) by (auto simp: in_range_def)
  have shift: "at_offset base bits (unat ?n - 2) k = at_offset base bits (unat n - 2) (Suc k)" for k
    unfolding nx(1) at_offset_def by (simp add: mod_simps add.commute)
  have "of_nat (unat n) = n" by simp
  then have zero: "at_offset base bits (unat n - 2) 0 = base + n"
    unfolding at_offset_def using n by (simp add: le_add_diff_inverse)
  show ?case
  proof (cases "base + n \<in> used")
    case False
    then show ?thesis using nx(2) zero by (auto intro!: exI[of _ 0])
  next
    case True
    have all: "(\<forall>k < Suc i. P k) \<longleftrightarrow> P 0 \<and> (\<forall>k < i. P (Suc k))" for P by (metis less_Suc_eq_0_disj)
    obtain r n' where r: "v4_loop i base (max_hosts bits) used ?n = (r, n')" by fastforce
    show ?thesis
    proof (cases r)
      case None
      then show ?thesis using Suc.IH[OF Suc.prems(1) nx(2)] True r zero unfolding shift
        by (simp add: all)
    next
      case (Some ip)
      then obtain k where "k < i" "ip = at_offset base bits (unat n - 2) (Suc k)"
        using Suc.IH[OF Suc.prems(1) nx(2)] r unfolding shift by auto
      then show ?thesis using Suc.IH[OF Suc.prems(1) nx(2)] True r Some by auto
    qed
  qed
qed simp

lemma at_offset_surj:
  assumes "t < hosts bits" "y < hosts bits"
  shows "\<exists>k < hosts bits. at_offset base bits y k = base + of_nat (2 + t)"
proof -
  let ?h = "hosts bits"
  let ?k = "(t + (?h - y)) mod ?h"
  have "(y + ?k) mod ?h = (y + (t + (?h - y))) mod ?h" by (simp add: mod_simps)
  also have "y + (t + (?h - y)) = t + ?h" using assms(2) by simp
  finally have "(y + ?k) mod ?h = t" using assms(1) by simp
  moreover have "?k < ?h" using assms(1) by simp
  ultimately show ?thesis unfolding at_offset_def by (intro exI[of _ ?k]) simp
qed

definition v4_range :: "allocator \<Rightarrow> 32 word set" where
  "v4_range a = (\<lambda>t. al_v4 a + of_nat (2 + t)) ` {0..<hosts (al_bits a)}"

definition cursor_ok :: "allocator \<Rightarrow> bool" where
  "cursor_ok a \<longleftrightarrow> al_bits a \<le> 29 \<and> in_range (al_bits a) (al_next4 a)"

lemma hosts_pos: "bits \<le> 29 \<Longrightarrow> 0 < hosts bits"
  using pow_ge8[of bits] by (simp add: hosts_def)

lemma allocateV4_spec:
  assumes "cursor_ok a"
  shows "case allocateV4 a of
      (None, a') \<Rightarrow> v4_range a \<subseteq> al_used4 a \<and> cursor_ok a' \<and> (\<exists>n. a' = a\<lparr>al_next4 := n\<rparr>)
    | (Some ip, a') \<Rightarrow> ip \<in> v4_range a \<and> ip \<notin> al_used4 a \<and> cursor_ok a' \<and> (\<exists>n. a' = a\<lparr>al_next4 := n\<rparr>)"
proof -
  have b: "al_bits a \<le> 29" "in_range (al_bits a) (al_next4 a)" using assms by (auto simp: cursor_ok_def)
  let ?h = "hosts (al_bits a)" and ?y = "unat (al_next4 a) - 2"
  have y: "?y < ?h" using b(2) by (auto simp: in_range_def)
  have steps: "?h \<le> unat (max_hosts (al_bits a) - 2)"
    unfolding loop_bound[OF b(1)] by (simp add: hosts_def)
  obtain r n where r: "v4_loop (unat (max_hosts (al_bits a) - 2)) (al_v4 a) (max_hosts (al_bits a))
      (al_used4 a) (al_next4 a) = (r, n)" by fastforce
  have al: "allocateV4 a = (r, a\<lparr>al_next4 := n\<rparr>)" using r by (simp add: allocateV4_def Let_def)
  note spec = v4_loop_spec[OF b, of "unat (max_hosts (al_bits a) - 2)" "al_v4 a" "al_used4 a", unfolded r]
  show ?thesis
  proof (cases r)
    case None
    have "v4_range a \<subseteq> al_used4 a"
    proof
      fix x assume "x \<in> v4_range a"
      then obtain t where "t < ?h" "x = al_v4 a + of_nat (2 + t)" by (auto simp: v4_range_def)
      then obtain k where "k < ?h" "x = at_offset (al_v4 a) (al_bits a) ?y k"
        using at_offset_surj[OF _ y] by metis
      then show "x \<in> al_used4 a" using spec None steps by auto
    qed
    then show ?thesis using spec None al b by (auto simp: cursor_ok_def)
  next
    case (Some ip)
    then obtain k where "ip = at_offset (al_v4 a) (al_bits a) ?y k" using spec by auto
    then have "ip \<in> v4_range a"
      unfolding v4_range_def at_offset_def using hosts_pos[OF b(1)]
      by (intro image_eqI[where x = "(?y + k) mod ?h"]) auto
    then show ?thesis using spec Some al b by (auto simp: cursor_ok_def)
  qed
qed

section \<open>The allocator's invariant\<close>

definition alloc_inv :: "allocator \<Rightarrow> bool" where
  "alloc_inv a \<longleftrightarrow> cursor_ok a \<and> inj_on (al_peer4 a) (dom (al_peer4 a)) \<and>
     inj_on (al_peer6 a) (dom (al_peer6 a)) \<and> al_used4 a = ran (al_peer4 a) \<and>
     al_used6 a = ran (al_peer6 a) \<and> dom (al_peer4 a) = dom (al_peer6 a) \<and> ran (al_peer4 a) \<subseteq> v4_range a"

lemma alloc_invD:
  assumes "alloc_inv a"
  shows "cursor_ok a" "inj_on (al_peer4 a) (dom (al_peer4 a))" "inj_on (al_peer6 a) (dom (al_peer6 a))"
    "al_used4 a = ran (al_peer4 a)" "al_used6 a = ran (al_peer6 a)"
    "dom (al_peer4 a) = dom (al_peer6 a)" "ran (al_peer4 a) \<subseteq> v4_range a"
  using assms unfolding alloc_inv_def by blast+

lemma alloc_invI:
  assumes "cursor_ok a" "inj_on (al_peer4 a) (dom (al_peer4 a))" "inj_on (al_peer6 a) (dom (al_peer6 a))"
    "al_used4 a = ran (al_peer4 a)" "al_used6 a = ran (al_peer6 a)"
    "dom (al_peer4 a) = dom (al_peer6 a)" "ran (al_peer4 a) \<subseteq> v4_range a"
  shows "alloc_inv a"
  using assms unfolding alloc_inv_def by blast

lemma inj_on_map_upd:
  "inj_on m (dom m) \<Longrightarrow> m k = None \<Longrightarrow> v \<notin> ran m \<Longrightarrow> inj_on (m(k \<mapsto> v)) (dom (m(k \<mapsto> v)))"
  by (auto simp: inj_on_def ran_def dom_def)

lemma inj_on_map_del: "inj_on m (dom m) \<Longrightarrow> inj_on (m(k := None)) (dom (m(k := None)))"
  by (auto simp: inj_on_def)

lemma ran_map_del:
  assumes "inj_on m (dom m)" "m k = Some v"
  shows "ran (m(k := None)) = ran m - {v}"
proof (intro set_eqI iffI)
  fix x assume "x \<in> ran (m(k := None))"
  then obtain j where j: "j \<noteq> k" "m j = Some x" by (auto simp: ran_def split: if_splits)
  then have "x \<noteq> v" using assms by (metis domI inj_on_eq_iff)
  then show "x \<in> ran m - {v}" using j by (auto simp: ran_def)
next
  fix x assume "x \<in> ran m - {v}"
  then obtain j where "m j = Some x" "x \<noteq> v" by (auto simp: ran_def)
  then show "x \<in> ran (m(k := None))" using assms(2) by (auto simp: ran_def intro!: exI[of _ j])
qed

lemma New_inv: "bits \<le> 29 \<Longrightarrow> alloc_inv (NewIPAllocator v4 bits v6)"
  using hosts_pos[of bits]
  by (simp add: alloc_inv_def cursor_ok_def NewIPAllocator_def in_range_def)

lemma Release_inv [keeps]:
  assumes "alloc_inv a"
  shows "alloc_inv (Release pid a)"
proof (cases "al_peer4 a pid")
  case None
  then have "al_peer6 a pid = None" using assms unfolding alloc_inv_def by (metis domIff)
  then show ?thesis using None assms by (simp add: Release_def)
next
  case (Some v4)
  then obtain v6 where v6: "al_peer6 a pid = Some v6"
    using assms unfolding alloc_inv_def by (metis domIff option.distinct(1) option.exhaust)
  have r4: "ran ((al_peer4 a)(pid := None)) = ran (al_peer4 a) - {v4}"
    and r6: "ran ((al_peer6 a)(pid := None)) = ran (al_peer6 a) - {v6}"
    using assms Some v6 by (auto simp: alloc_inv_def intro!: ran_map_del)
  have rel: "Release pid a = a\<lparr>al_used4 := al_used4 a - {v4}, al_peer4 := (al_peer4 a)(pid := None),
      al_used6 := al_used6 a - {v6}, al_peer6 := (al_peer6 a)(pid := None)\<rparr>"
    using Some v6 by (simp add: Release_def)
  note i = alloc_invD[OF assms]
  show ?thesis
  proof (rule alloc_invI)
    show "cursor_ok (Release pid a)" using i(1) by (simp add: rel cursor_ok_def)
    show "inj_on (al_peer4 (Release pid a)) (dom (al_peer4 (Release pid a)))"
      using inj_on_map_del[OF i(2), of pid] by (simp add: rel)
    show "inj_on (al_peer6 (Release pid a)) (dom (al_peer6 (Release pid a)))"
      using inj_on_map_del[OF i(3), of pid] by (simp add: rel)
    show "al_used4 (Release pid a) = ran (al_peer4 (Release pid a))" by (simp add: rel r4 i(4))
    show "al_used6 (Release pid a) = ran (al_peer6 (Release pid a))" by (simp add: rel r6 i(5))
    show "dom (al_peer4 (Release pid a)) = dom (al_peer6 (Release pid a))" by (simp add: rel i(6))
    show "ran (al_peer4 (Release pid a)) \<subseteq> v4_range (Release pid a)"
      using i(7) by (simp add: rel r4 v4_range_def) blast
  qed
qed

lemma Allocate_new_inv:
  assumes a: "alloc_inv a" and p: "al_peer4 a pid = None" and v4: "v4 \<in> v4_range a" "v4 \<notin> al_used4 a"
    and v6: "v6 \<notin> al_used6 a" and n: "in_range (al_bits a) n"
  shows "alloc_inv (a\<lparr>al_next4 := n, al_next6 := m, al_peer4 := (al_peer4 a)(pid \<mapsto> v4),
    al_peer6 := (al_peer6 a)(pid \<mapsto> v6), al_used4 := insert v4 (al_used4 a), al_used6 := insert v6 (al_used6 a)\<rparr>)"
    (is "alloc_inv ?b")
proof -
  note i = alloc_invD[OF a]
  have p6: "al_peer6 a pid = None" using p i(6) by (metis domIff)
  have r4: "ran ((al_peer4 a)(pid \<mapsto> v4)) = insert v4 (ran (al_peer4 a))" using p by simp
  have r6: "ran ((al_peer6 a)(pid \<mapsto> v6)) = insert v6 (ran (al_peer6 a))" using p6 by simp
  show ?thesis
  proof (rule alloc_invI)
    show "cursor_ok ?b" using i(1) n by (simp add: cursor_ok_def)
    show "inj_on (al_peer4 ?b) (dom (al_peer4 ?b))"
      using inj_on_map_upd[OF i(2) p, of v4] v4(2) i(4) by simp
    show "inj_on (al_peer6 ?b) (dom (al_peer6 ?b))"
      using inj_on_map_upd[OF i(3) p6, of v6] v6 i(5) by simp
    show "al_used4 ?b = ran (al_peer4 ?b)" using r4 i(4) by simp
    show "al_used6 ?b = ran (al_peer6 ?b)" using r6 i(5) by simp
    show "dom (al_peer4 ?b) = dom (al_peer6 ?b)" using i(6) by simp
    show "ran (al_peer4 ?b) \<subseteq> v4_range ?b" using r4 i(7) v4(1) by (simp add: v4_range_def)
  qed
qed

lemma cursor_change_inv:
  assumes "alloc_inv a" "in_range (al_bits a) n"
  shows "v \<notin> al_used4 a \<Longrightarrow> alloc_inv (a\<lparr>al_next4 := n, al_next6 := m, al_used4 := al_used4 a - {v}\<rparr>)"
    "alloc_inv (a\<lparr>al_next4 := n\<rparr>)"
proof -
  assume v: "v \<notin> al_used4 a"
  note i = alloc_invD[OF assms(1)]
  have u: "al_used4 a - {v} = al_used4 a" using v by blast
  show "alloc_inv (a\<lparr>al_next4 := n, al_next6 := m, al_used4 := al_used4 a - {v}\<rparr>)"
    unfolding u using i assms(2) by (intro alloc_invI) (simp_all add: cursor_ok_def v4_range_def)
next
  note i = alloc_invD[OF assms(1)]
  show "alloc_inv (a\<lparr>al_next4 := n\<rparr>)"
    using i assms(2) by (intro alloc_invI) (simp_all add: cursor_ok_def v4_range_def)
qed

text \<open>The v4 half of an allocation as a pool of fresh addresses.\<close>

definition take_v4 :: "allocator \<Rightarrow> (32 word \<times> allocator) option" where
  "take_v4 a = (case allocateV4 a of (None, _) \<Rightarrow> None
     | (Some ip, a') \<Rightarrow> Some (ip, a'\<lparr>al_used4 := insert ip (al_used4 a')\<rparr>))"

lemma take_v4_Some:
  assumes "cursor_ok a" "take_v4 a = Some (ip, a')"
  shows "ip \<notin> al_used4 a" "al_used4 a' = insert ip (al_used4 a)" "cursor_ok a'"
proof -
  obtain r b where r: "allocateV4 a = (r, b)" by fastforce
  then have "r = Some ip" "a' = b\<lparr>al_used4 := insert ip (al_used4 b)\<rparr>"
    using assms(2) by (auto simp: take_v4_def split: option.splits)
  then show "ip \<notin> al_used4 a" "al_used4 a' = insert ip (al_used4 a)" "cursor_ok a'"
    using allocateV4_spec[OF assms(1)] r by (auto simp: cursor_ok_def)
qed

interpretation agent_pool: fresh_pool take_v4 al_used4 cursor_ok
  by unfold_locales (auto dest: take_v4_Some)

section \<open>Properties\<close>

text \<open>
  The agent's allocator. On a consistent allocator of a prefix of at most 29 bits: a peer
  that has addresses gets the same ones and nothing changes; a new peer gets an IPv4 address of
  the network (never the network address, the gateway or the broadcast address) and an IPv6
  address that no other peer holds; it fails with V4Exhausted only when every address of the
  range is taken; Allocate and Release keep the allocator consistent. The scan of allocateV4
  always terminates within its bound, through the wrap-around of its cursor.
\<close>
theorem agent_allocation:
  assumes "alloc_inv a"
  shows "(case Allocate pid a of
      (Inr (v4, v6), a') \<Rightarrow> alloc_inv a' \<and> al_peer4 a' pid = Some v4 \<and> al_peer6 a' pid = Some v6 \<and>
        v4 \<in> v4_range a \<and> (\<forall>q. q \<noteq> pid \<longrightarrow> al_peer4 a' q = al_peer4 a q \<and> al_peer4 a' q \<noteq> Some v4 \<and>
          al_peer6 a' q = al_peer6 a q \<and> al_peer6 a' q \<noteq> Some v6) \<and>
        (al_peer4 a pid \<noteq> None \<longrightarrow> a' = a)
    | (Inl V4Exhausted, a') \<Rightarrow> alloc_inv a' \<and> v4_range a \<subseteq> ran (al_peer4 a)
    | (Inl V6Collision, a') \<Rightarrow> alloc_inv a' \<and> v6_candidate (al_v6 a) (al_next6 a) \<in> ran (al_peer6 a)) \<and>
    alloc_inv (Release pid a) \<and> al_peer4 (Release pid a) pid = None"
proof -
  note i = alloc_invD[OF assms]
  have c: "in_range (al_bits a) n" if "cursor_ok (a\<lparr>al_next4 := n\<rparr>)" for n
    using that by (simp add: cursor_ok_def)
  have rel: "al_peer4 (Release pid a) pid = None" by (auto simp: Release_def Let_def split: option.splits)
  have main: "case Allocate pid a of
      (Inr (v4, v6), a') \<Rightarrow> alloc_inv a' \<and> al_peer4 a' pid = Some v4 \<and> al_peer6 a' pid = Some v6 \<and>
        v4 \<in> v4_range a \<and> (\<forall>q. q \<noteq> pid \<longrightarrow> al_peer4 a' q = al_peer4 a q \<and> al_peer4 a' q \<noteq> Some v4 \<and>
          al_peer6 a' q = al_peer6 a q \<and> al_peer6 a' q \<noteq> Some v6) \<and>
        (al_peer4 a pid \<noteq> None \<longrightarrow> a' = a)
    | (Inl V4Exhausted, a') \<Rightarrow> alloc_inv a' \<and> v4_range a \<subseteq> ran (al_peer4 a)
    | (Inl V6Collision, a') \<Rightarrow> alloc_inv a' \<and> v6_candidate (al_v6 a) (al_next6 a) \<in> ran (al_peer6 a)"
  proof (cases "al_peer4 a pid")
    case (Some v4)
    then obtain v6 where v6: "al_peer6 a pid = Some v6" using i(6) by (metis domD domI)
    have "al_peer4 a q \<noteq> Some v4 \<and> al_peer6 a q \<noteq> Some v6" if "q \<noteq> pid" for q
      using that i(2,3) Some v6 by (metis domI inj_on_eq_iff)
    then show ?thesis using Some v6 assms i(7) by (auto simp: Allocate_def ranI)
  next
    case None
    obtain r b where r: "allocateV4 a = (r, b)" by fastforce
    obtain n where b: "b = a\<lparr>al_next4 := n\<rparr>" "in_range (al_bits a) n"
      using allocateV4_spec[OF i(1)] r c by (auto split: option.splits)
    show ?thesis
    proof (cases r)
      case n4: None
      then show ?thesis using None r b allocateV4_spec[OF i(1)] i(4) cursor_change_inv(2)[OF assms b(2)]
        by (simp add: Allocate_def)
    next
      case (Some v4)
      then have v4: "v4 \<in> v4_range a" "v4 \<notin> al_used4 a" using allocateV4_spec[OF i(1)] r by auto
      let ?v6 = "v6_candidate (al_v6 a) (al_next6 a)"
      show ?thesis
      proof (cases "?v6 \<in> al_used6 a")
        case True
        then show ?thesis using None r b Some cursor_change_inv(1)[OF assms b(2) v4(2), where m = "al_next6 a + 1"] i(5)
          by (simp add: Allocate_def allocateV6_def Let_def)
      next
        case False
        have "al_peer4 a q \<noteq> Some v4 \<and> al_peer6 a q \<noteq> Some ?v6" for q
          using v4(2) False i(4,5) by (auto dest: ranI)
        then show ?thesis
          using None r b Some v4(1) False Allocate_new_inv[OF assms None v4 False b(2), of "al_next6 a + 1"]
          by (simp add: Allocate_def allocateV6_def Let_def)
      qed
    qed
  qed
  then show ?thesis using Release_inv[OF assms] rel by blast
qed

lemma agent_allocation_witness:
  "fst (Allocate ''p'' (NewIPAllocator 0x0A080000 24 0)) = Inr (0x0A080002, 2) \<and>
   alloc_inv (snd (Allocate ''p'' (NewIPAllocator 0x0A080000 24 0)))"
proof -
  have e: "fst (Allocate ''p'' (NewIPAllocator 0x0A080000 24 0)) = Inr (0x0A080002, 2)" by code_simp
  then show ?thesis
    using agent_allocation[OF New_inv[of 24 "0x0A080000" 0], of "''p''"] by (auto split: prod.splits)
qed

end
