(* ===== verification/Wg_Manager.thy ===== *)
theory Wg_Manager
  imports Wg_Alloc
begin

text \<open>
  WireGuardManager (src/internal/agent/manager/wireguard.go). The kernel behind
  WireGuardDeviceClient is a state of an arbitrary type with the operations of that interface
  (wgctrl and netlink are libraries), and wgtypes.ParseKey and net.ParseCIDR are functions to the
  canonical text of a key and of a network. The locale peer_device states what wgctrl documents
  of ConfigureDevice; it is interpreted on the device client of the package's own tests.
\<close>

section \<open>Data\<close>

record desired_peer =
  dp_id :: string
  dp_key :: string
  dp_psk :: string
  dp_allowed :: string
  dp_keepalive :: int

record peer_config =
  pc_key :: string
  pc_psk :: "string option"
  pc_allowed :: "string list"
  pc_keepalive :: time
  pc_remove :: bool

record peer =
  p_key :: string
  p_psk :: "string option"
  p_allowed :: "string list"
  p_rx :: int
  p_tx :: int
  p_handshake :: "time option"
  p_endpoint :: "string option"

type_synonym device = "peer list"

record peer_metric =
  pm_id :: string
  pm_rx :: int
  pm_tx :: int
  pm_last_seen :: "time option"
  pm_endpoint :: string
  pm_online :: bool

record 'k wg_client =
  cl_device :: "string \<Rightarrow> 'k \<Rightarrow> device option"
  cl_configure :: "string \<Rightarrow> peer_config list \<Rightarrow> 'k \<Rightarrow> 'k option"
  cl_set_key :: "string \<Rightarrow> string \<Rightarrow> int \<Rightarrow> 'k \<Rightarrow> 'k option"
  cl_add_link :: "string \<Rightarrow> int \<Rightarrow> 'k \<Rightarrow> 'k option"

record parsers =
  ps_key :: "string \<Rightarrow> string option"
  ps_cidr :: "string \<Rightarrow> string option"

record wg_manager =
  wg_ifaces :: "(string \<times> device) list"
  wg_peer_ips :: "string \<rightharpoonup> 32 word"
  wg_cred_ids :: "string \<rightharpoonup> string"
  wg_alloc :: allocator
  wg_prefix :: string
  wg_mtu :: int

datatype wg_error = InterfaceNotFound | BadPublicKey | BadPsk | BadAllowedIp string | NoAddress ip_error
  | ConfigureFailed | GetDeviceFailed | KeyGenFailed | CreateLinkFailed

definition set_iface :: "string \<Rightarrow> device \<Rightarrow> wg_manager \<Rightarrow> wg_manager" where
  "set_iface name dev m = m\<lparr>wg_ifaces := (name, dev) # List.filter (\<lambda>(n, _). n \<noteq> name) (wg_ifaces m)\<rparr>"

section \<open>Interfaces\<close>

definition EnsureInterfaceWithKey ::
    "'k wg_client \<Rightarrow> string \<Rightarrow> string \<Rightarrow> int \<Rightarrow> wg_manager \<Rightarrow> 'k \<Rightarrow> wg_error option \<times> wg_manager \<times> 'k" where
  "EnsureInterfaceWithKey cl name0 key port m k =
     (if map_of (wg_ifaces m) name0 \<noteq> None then (None, m, k)
      else
        let name = (if name0 = [] then wg_prefix m @ nat_str (length (wg_ifaces m)) else name0) in
        case cl_add_link cl name (if wg_mtu m > 0 then wg_mtu m else 1420) k of
          None \<Rightarrow> (Some CreateLinkFailed, m, k)
        | Some k1 \<Rightarrow>
            (case cl_set_key cl name key (if port \<le> 0 then 51820 else port) k1 of
               None \<Rightarrow> (Some ConfigureFailed, m, k1)
             | Some k2 \<Rightarrow>
                 (case cl_device cl name k2 of
                    None \<Rightarrow> (Some GetDeviceFailed, m, k2)
                  | Some dev \<Rightarrow> (None, set_iface name dev m, k2))))"

definition EnsureInterface ::
    "'k wg_client \<Rightarrow> string option \<Rightarrow> string \<Rightarrow> wg_manager \<Rightarrow> 'k \<Rightarrow> wg_error option \<times> wg_manager \<times> 'k" where
  "EnsureInterface cl fresh_key name m k =
     (case cl_device cl name k of
        Some dev \<Rightarrow> (None, set_iface name dev m, k)
      | None \<Rightarrow>
          (case fresh_key of None \<Rightarrow> (Some KeyGenFailed, m, k)
           | Some key \<Rightarrow> EnsureInterfaceWithKey cl name key 51820 m k))"

section \<open>Single peers\<close>

fun parse_cidrs :: "parsers \<Rightarrow> string list \<Rightarrow> string + string list" where
  "parse_cidrs ps [] = Inr []"
| "parse_cidrs ps (w # ws) =
     (case ps_cidr ps (trim_space w) of
        None \<Rightarrow> Inl (trim_space w)
      | Some n \<Rightarrow> (case parse_cidrs ps ws of Inl e \<Rightarrow> Inl e | Inr ns \<Rightarrow> Inr (n # ns)))"

definition configure_and_refresh ::
    "'k wg_client \<Rightarrow> string \<Rightarrow> peer_config list \<Rightarrow> wg_manager \<Rightarrow> 'k \<Rightarrow> wg_error option \<times> wg_manager \<times> 'k" where
  "configure_and_refresh cl iface pcs m k =
     (case cl_configure cl iface pcs k of
        None \<Rightarrow> (Some ConfigureFailed, m, k)
      | Some k' \<Rightarrow>
          (case cl_device cl iface k' of
             None \<Rightarrow> (Some GetDeviceFailed, m, k')
           | Some dev \<Rightarrow> (None, set_iface iface dev m, k')))"

text \<open>The host networks of two addresses, rendered by the parser's canonical form.\<close>

definition AddPeer ::
    "'k wg_client \<Rightarrow> parsers \<Rightarrow> (32 word \<Rightarrow> string) \<Rightarrow> (128 word \<Rightarrow> string) \<Rightarrow> string \<Rightarrow> desired_peer \<Rightarrow>
     wg_manager \<Rightarrow> 'k \<Rightarrow> wg_error option \<times> wg_manager \<times> 'k" where
  "AddPeer cl ps host4 host6 iface d m k =
     (if map_of (wg_ifaces m) iface = None then (Some InterfaceNotFound, m, k)
      else case ps_key ps (dp_key d) of
        None \<Rightarrow> (Some BadPublicKey, m, k)
      | Some key \<Rightarrow>
          (if dp_psk d \<noteq> [] \<and> ps_key ps (dp_psk d) = None then (Some BadPsk, m, k)
           else
             let psk = (if dp_psk d \<noteq> [] then ps_key ps (dp_psk d) else None);
                 mk = (\<lambda>allowed. \<lparr>pc_key = key, pc_psk = psk, pc_allowed = allowed,
                                  pc_keepalive = dp_keepalive d * second, pc_remove = False\<rparr>) in
             if dp_allowed d \<noteq> [] then
               (case parse_cidrs ps (split_on (CHR '','') (dp_allowed d)) of
                  Inl w \<Rightarrow> (Some (BadAllowedIp w), m, k)
                | Inr allowed \<Rightarrow> configure_and_refresh cl iface [mk allowed] m k)
             else
               (case Allocate (dp_id d) (wg_alloc m) of
                  (Inl e, a) \<Rightarrow> (Some (NoAddress e), m\<lparr>wg_alloc := a\<rparr>, k)
                | (Inr (v4, v6), a) \<Rightarrow>
                    configure_and_refresh cl iface [mk [host4 v4, host6 v6]]
                      (m\<lparr>wg_alloc := a, wg_peer_ips := (wg_peer_ips m)(dp_id d \<mapsto> v4)\<rparr>) k)))"

definition RemovePeer ::
    "'k wg_client \<Rightarrow> parsers \<Rightarrow> string \<Rightarrow> string \<Rightarrow> string \<Rightarrow> wg_manager \<Rightarrow> 'k \<Rightarrow> wg_error option \<times> wg_manager \<times> 'k" where
  "RemovePeer cl ps iface pid pub m k =
     (if map_of (wg_ifaces m) iface = None then (Some InterfaceNotFound, m, k)
      else case ps_key ps pub of
        None \<Rightarrow> (Some BadPublicKey, m, k)
      | Some key \<Rightarrow>
          (case cl_configure cl iface [\<lparr>pc_key = key, pc_psk = None, pc_allowed = [], pc_keepalive = 0,
                                        pc_remove = True\<rparr>] k of
             None \<Rightarrow> (Some ConfigureFailed, m, k)
           | Some k' \<Rightarrow>
               (let m1 = m\<lparr>wg_alloc := Release pid (wg_alloc m), wg_peer_ips := (wg_peer_ips m)(pid := None)\<rparr> in
                case cl_device cl iface k' of
                  None \<Rightarrow> (Some GetDeviceFailed, m1, k')
                | Some dev \<Rightarrow> (None, set_iface iface dev m1, k'))))"

section \<open>Synchronization\<close>

definition desired_config :: "parsers \<Rightarrow> desired_peer \<Rightarrow> peer_config option" where
  "desired_config ps d =
     (case ps_key ps (dp_key d) of
        None \<Rightarrow> None
      | Some key \<Rightarrow> Some \<lparr>pc_key = key,
          pc_psk = (if dp_psk d \<noteq> [] then ps_key ps (dp_psk d) else None),
          pc_allowed = List.map_filter (\<lambda>w. if trim_space w = [] then None else ps_cidr ps (trim_space w))
                         (split_on (CHR '','') (dp_allowed d)),
          pc_keepalive = dp_keepalive d * second, pc_remove = False\<rparr>)"

definition cred_ids_of :: "parsers \<Rightarrow> desired_peer list \<Rightarrow> (string \<rightharpoonup> string) \<Rightarrow> (string \<rightharpoonup> string)" where
  "cred_ids_of ps ds ids = fold (\<lambda>d ids.
     case ps_key ps (dp_key d) of None \<Rightarrow> ids
     | Some key \<Rightarrow> if dp_id d \<noteq> [] then ids(key \<mapsto> dp_id d) else ids) ds ids"

definition removals :: "device \<Rightarrow> string set \<Rightarrow> peer_config list" where
  "removals dev keep = List.map (\<lambda>key. \<lparr>pc_key = key, pc_psk = None, pc_allowed = [], pc_keepalive = 0,
      pc_remove = True\<rparr>) (List.filter (\<lambda>key. key \<notin> keep) (remdups (List.map p_key dev)))"

definition sync_upserts :: "parsers \<Rightarrow> desired_peer list \<Rightarrow> peer_config list" where
  "sync_upserts ps desired = List.map_filter (desired_config ps) desired"

definition sync_removals :: "parsers \<Rightarrow> desired_peer list \<Rightarrow> bool \<Rightarrow> device \<Rightarrow> peer_config list" where
  "sync_removals ps desired isFull dev =
     (if isFull then removals dev (set (List.map pc_key (sync_upserts ps desired))) else [])"

definition SyncPeers ::
    "'k wg_client \<Rightarrow> parsers \<Rightarrow> string \<Rightarrow> desired_peer list \<Rightarrow> bool \<Rightarrow> wg_manager \<Rightarrow> 'k \<Rightarrow>
     wg_error option \<times> wg_manager \<times> 'k" where
  "SyncPeers cl ps iface desired isFull m k =
     (case map_of (wg_ifaces m) iface of
        None \<Rightarrow> (Some InterfaceNotFound, m, k)
      | Some dev \<Rightarrow>
          (let pcs = sync_upserts ps desired @ sync_removals ps desired isFull dev;
               ids = fold (\<lambda>pc ids. ids(pc_key pc := None)) (sync_removals ps desired isFull dev)
                       (cred_ids_of ps desired (wg_cred_ids m));
               m1 = m\<lparr>wg_cred_ids := ids\<rparr> in
           if pcs = [] then (None, m1, k)
           else configure_and_refresh cl iface pcs m1 k))"

section \<open>Metrics\<close>

definition peer_metric_of :: "time \<Rightarrow> (string \<rightharpoonup> string) \<Rightarrow> peer \<Rightarrow> peer_metric" where
  "peer_metric_of now ids p = \<lparr>
     pm_id = (case ids (p_key p) of Some cid \<Rightarrow> if cid \<noteq> [] then cid else p_key p | None \<Rightarrow> p_key p),
     pm_rx = p_rx p, pm_tx = p_tx p, pm_last_seen = p_handshake p,
     pm_endpoint = text_or [] (p_endpoint p),
     pm_online = (case p_handshake p of None \<Rightarrow> False | Some t \<Rightarrow> now - t < 3 * minute)\<rparr>"

definition GetMetrics :: "'k wg_client \<Rightarrow> time \<Rightarrow> wg_manager \<Rightarrow> 'k \<Rightarrow> peer_metric list" where
  "GetMetrics cl now m k =
     concat (List.map (\<lambda>(iface, _). case cl_device cl iface k of
        None \<Rightarrow> [] | Some dev \<Rightarrow> List.map (peer_metric_of now (wg_cred_ids m)) dev) (wg_ifaces m))"

section \<open>The contract of the device client\<close>

definition apply_keys :: "peer_config list \<Rightarrow> string set \<Rightarrow> string set" where
  "apply_keys pcs S = fold (\<lambda>pc S. if pc_remove pc then S - {pc_key pc} else insert (pc_key pc) S) pcs S"

locale peer_device =
  fixes device :: "string \<Rightarrow> 'k \<Rightarrow> device option"
    and configure :: "string \<Rightarrow> peer_config list \<Rightarrow> 'k \<Rightarrow> 'k option"
  assumes configure_keys: "device i k = Some dev \<Longrightarrow> configure i pcs k = Some k' \<Longrightarrow>
      \<exists>dev'. device i k' = Some dev' \<and> p_key ` set dev' = apply_keys pcs (p_key ` set dev)"

lemma apply_keys_upserts:
  "\<forall>pc\<in>set pcs. \<not> pc_remove pc \<Longrightarrow> apply_keys pcs S = S \<union> pc_key ` set pcs"
  unfolding apply_keys_def by (induction pcs arbitrary: S) auto

lemma apply_keys_removals:
  "\<forall>pc\<in>set pcs. pc_remove pc \<Longrightarrow> apply_keys pcs S = S - pc_key ` set pcs"
  unfolding apply_keys_def by (induction pcs arbitrary: S) auto

lemma apply_keys_append: "apply_keys (xs @ ys) S = apply_keys ys (apply_keys xs S)"
  by (simp add: apply_keys_def)

definition wanted_keys :: "parsers \<Rightarrow> desired_peer list \<Rightarrow> string set" where
  "wanted_keys ps ds = {key. \<exists>d\<in>set ds. ps_key ps (dp_key d) = Some key}"

lemma upserts_keys:
  "pc_key ` set (sync_upserts ps ds) = wanted_keys ps ds"
  "\<forall>pc\<in>set (sync_upserts ps ds). \<not> pc_remove pc"
  by (force simp: sync_upserts_def wanted_keys_def map_filter_def desired_config_def image_iff split: option.splits)+

lemma removals_keys:
  "pc_key ` set (removals dev keep) = p_key ` set dev - keep" "\<forall>pc\<in>set (removals dev keep). pc_remove pc"
  by (force simp: removals_def)+

lemma sync_configs_keys:
  "apply_keys (sync_upserts ps ds @ sync_removals ps ds full dev) (p_key ` set dev) =
   (if full then wanted_keys ps ds else p_key ` set dev \<union> wanted_keys ps ds)"
  using upserts_keys[of ps ds] removals_keys[of dev "wanted_keys ps ds"]
  by (auto simp: apply_keys_append apply_keys_upserts apply_keys_removals sync_removals_def)

context peer_device
begin

lemma sync_keys:
  assumes "cl_device cl = device" "cl_configure cl = configure"
    and "map_of (wg_ifaces m) iface = Some dev" "device iface k = Some dev"
    and "SyncPeers cl ps iface ds full m k = (None, m', k')"
  shows "\<exists>dev'. device iface k' = Some dev' \<and> map_of (wg_ifaces m') iface = Some dev' \<and>
    p_key ` set dev' = (if full then wanted_keys ps ds else p_key ` set dev \<union> wanted_keys ps ds)"
proof -
  let ?pcs = "sync_upserts ps ds @ sync_removals ps ds full dev"
  note keys = sync_configs_keys[of ps ds full dev]
  show ?thesis
  proof (cases "?pcs = []")
    case True
    then have "apply_keys ?pcs (p_key ` set dev) = p_key ` set dev" by (simp only: True) (simp add: apply_keys_def)
    then have "p_key ` set dev = (if full then wanted_keys ps ds else p_key ` set dev \<union> wanted_keys ps ds)"
      using keys by simp
    moreover have "k' = k" "wg_ifaces m' = wg_ifaces m"
      using assms(3,5) True by (auto simp: SyncPeers_def Let_def)
    ultimately show ?thesis using assms(3,4) by simp
  next
    case False
    then obtain m1 where m1: "configure_and_refresh cl iface ?pcs m1 k = (None, m', k')"
      using assms(3,5) unfolding SyncPeers_def Let_def by (simp del: append_is_Nil_conv)
    then obtain dev' where d: "configure iface ?pcs k = Some k'" "device iface k' = Some dev'"
      "m' = set_iface iface dev' m1"
      using assms(1,2) by (auto simp: configure_and_refresh_def split: option.splits)
    then show ?thesis using configure_keys[OF assms(4) d(1)] keys by (auto simp: set_iface_def)
  qed
qed

end

section \<open>The test device\<close>

text \<open>mockDeviceClient of wireguard_test.go: one device, removal by key, addition by appending.\<close>

definition mock_device :: "string \<Rightarrow> device \<Rightarrow> device option" where
  "mock_device name k = Some k"

definition mock_peer :: "string \<Rightarrow> peer" where
  "mock_peer key = \<lparr>p_key = key, p_psk = None, p_allowed = [], p_rx = 0, p_tx = 0,
     p_handshake = None, p_endpoint = None\<rparr>"

fun mock_apply :: "peer_config list \<Rightarrow> device \<Rightarrow> device" where
  "mock_apply [] k = k"
| "mock_apply (pc # pcs) k =
     (if pc_remove pc then mock_apply pcs (List.filter (\<lambda>p. p_key p \<noteq> pc_key pc) k)
      else mock_apply pcs (k @ [mock_peer (pc_key pc)]))"

definition mock_configure :: "string \<Rightarrow> peer_config list \<Rightarrow> device \<Rightarrow> device option" where
  "mock_configure name pcs k = Some (mock_apply pcs k)"

lemma mock_apply_keys: "p_key ` set (mock_apply pcs k) = apply_keys pcs (p_key ` set k)"
proof (induction pcs k rule: mock_apply.induct)
  case (2 pc pcs k)
  have "p_key ` set (List.filter (\<lambda>p. p_key p \<noteq> pc_key pc) k) = p_key ` set k - {pc_key pc}" by auto
  then show ?case using 2 by (simp add: apply_keys_def mock_peer_def)
qed (simp add: apply_keys_def)

interpretation test_device: peer_device mock_device mock_configure
  by unfold_locales (simp add: mock_device_def mock_configure_def, metis mock_apply_keys)

definition mock_client :: "device wg_client" where
  "mock_client = \<lparr>cl_device = mock_device, cl_configure = mock_configure,
     cl_set_key = (\<lambda>_ _ _ k. Some k), cl_add_link = (\<lambda>_ _ k. Some k)\<rparr>"

section \<open>Identifiers of the peers\<close>

lemma cred_ids_of_snoc:
  "cred_ids_of ps (ds @ [d]) ids =
     (case ps_key ps (dp_key d) of None \<Rightarrow> cred_ids_of ps ds ids
      | Some key \<Rightarrow> if dp_id d \<noteq> [] then (cred_ids_of ps ds ids)(key \<mapsto> dp_id d) else cred_ids_of ps ds ids)"
  by (simp add: cred_ids_of_def split: option.splits)

lemma cred_ids_of_unique:
  assumes "d \<in> set ds" "ps_key ps (dp_key d) = Some key" "dp_id d \<noteq> []"
    "\<And>e. e \<in> set ds \<Longrightarrow> ps_key ps (dp_key e) = Some key \<Longrightarrow> dp_id e = dp_id d"
  shows "cred_ids_of ps ds ids key = Some (dp_id d)"
proof -
  have "(\<exists>d'\<in>set es. ps_key ps (dp_key d') = Some key) \<Longrightarrow> cred_ids_of ps es ids key = Some (dp_id d)"
    if "set es \<subseteq> set ds" for es
    using that
  proof (induction es rule: rev_induct)
    case (snoc e es)
    show ?case
    proof (cases "ps_key ps (dp_key e) = Some key")
      case True
      then have "dp_id e = dp_id d" using assms(4)[of e] snoc.prems(2) by simp
      then show ?thesis using True assms(3) by (simp add: cred_ids_of_snoc)
    next
      case False
      then have "cred_ids_of ps es ids key = Some (dp_id d)" using snoc by auto
      then show ?thesis using False by (simp add: cred_ids_of_snoc split: option.splits)
    qed
  qed simp
  then show ?thesis using assms(1,2) by blast
qed

lemma fold_forget: "k \<notin> pc_key ` set pcs \<Longrightarrow> fold (\<lambda>pc ids. ids(pc_key pc := None)) pcs ids k = ids k"
  by (induction pcs arbitrary: ids) auto

lemma sync_cred_ids:
  assumes "map_of (wg_ifaces m) iface = Some dev" "SyncPeers cl ps iface ds full m k = (r, m', k')"
    "key \<in> wanted_keys ps ds"
  shows "wg_cred_ids m' key = cred_ids_of ps ds (wg_cred_ids m) key"
proof -
  have "key \<notin> pc_key ` set (sync_removals ps ds full dev)"
    using assms(3) removals_keys(1)[of dev "wanted_keys ps ds"] upserts_keys(1)[of ps ds]
    by (auto simp: sync_removals_def)
  moreover have "wg_cred_ids m' = fold (\<lambda>pc ids. ids(pc_key pc := None)) (sync_removals ps ds full dev)
      (cred_ids_of ps ds (wg_cred_ids m))"
    using assms(1,2)
    by (auto simp: SyncPeers_def Let_def configure_and_refresh_def set_iface_def split: if_splits option.splits)
  ultimately show ?thesis by (simp add: fold_forget)
qed

section \<open>Properties\<close>

text \<open>
  C28. Peer synchronization. When the cached device is the kernel's and the batch succeeds, the
  peers of the kernel device after a full synchronization are exactly those with a valid desired
  key, and after a delta the old peers and those; the cache is the new device, and each desired
  peer whose key no other desired credential claims is reported under its credential. The
  hypothesis on the client is wgctrl's documented effect of a batch on the set of peer keys.
\<close>
theorem sync_peers_exact:
  assumes "peer_device (cl_device cl) (cl_configure cl)"
    and "map_of (wg_ifaces m) iface = Some dev" "cl_device cl iface k = Some dev"
    and "SyncPeers cl ps iface ds full m k = (None, m', k')"
  shows "(\<exists>dev'. cl_device cl iface k' = Some dev' \<and> map_of (wg_ifaces m') iface = Some dev' \<and>
      p_key ` set dev' = (if full then wanted_keys ps ds else p_key ` set dev \<union> wanted_keys ps ds)) \<and>
    (\<forall>d\<in>set ds. \<forall>key. ps_key ps (dp_key d) = Some key \<and> dp_id d \<noteq> [] \<and>
        (\<forall>e\<in>set ds. ps_key ps (dp_key e) = Some key \<longrightarrow> dp_id e = dp_id d) \<longrightarrow>
        wg_cred_ids m' key = Some (dp_id d))"
proof (intro conjI ballI allI impI)
  show "\<exists>dev'. cl_device cl iface k' = Some dev' \<and> map_of (wg_ifaces m') iface = Some dev' \<and>
      p_key ` set dev' = (if full then wanted_keys ps ds else p_key ` set dev \<union> wanted_keys ps ds)"
    by (rule peer_device.sync_keys[OF assms(1) refl refl assms(2-4)])
  show "wg_cred_ids m' key = Some (dp_id d)"
    if "d \<in> set ds" "ps_key ps (dp_key d) = Some key \<and> dp_id d \<noteq> [] \<and>
        (\<forall>e\<in>set ds. ps_key ps (dp_key e) = Some key \<longrightarrow> dp_id e = dp_id d)" for d key
  proof -
    have "cred_ids_of ps ds (wg_cred_ids m) key = Some (dp_id d)"
      using that by (intro cred_ids_of_unique) blast+
    moreover have "key \<in> wanted_keys ps ds" using that unfolding wanted_keys_def by blast
    ultimately show ?thesis using sync_cred_ids[OF assms(2,4)] by metis
  qed
qed

definition demo_parsers :: parsers where
  "demo_parsers = \<lparr>ps_key = (\<lambda>s. if s = [] then None else Some s), ps_cidr = Some\<rparr>"

definition demo_wg :: wg_manager where
  "demo_wg = \<lparr>wg_ifaces = [(''wg0'', [mock_peer ''k1'', mock_peer ''k2''])], wg_peer_ips = Map.empty,
     wg_cred_ids = Map.empty, wg_alloc = NewIPAllocator 0x0A080000 24 0, wg_prefix = ''wg'', wg_mtu = 0\<rparr>"

definition demo_desired :: "desired_peer list" where
  "demo_desired = [\<lparr>dp_id = ''c1'', dp_key = ''k1'', dp_psk = [], dp_allowed = ''10.8.0.2/32'', dp_keepalive = 25\<rparr>,
     \<lparr>dp_id = ''c3'', dp_key = ''k3'', dp_psk = [], dp_allowed = ''10.8.0.4/32'', dp_keepalive = 25\<rparr>]"

lemma sync_peers_exact_witness:
  "\<exists>m' k'. SyncPeers mock_client demo_parsers ''wg0'' demo_desired True demo_wg
       [mock_peer ''k1'', mock_peer ''k2''] = (None, m', k') \<and> p_key ` set k' = {''k1'', ''k3''}"
proof -
  let ?dev = "[mock_peer ''k1'', mock_peer ''k2'']"
  obtain r m' k' where s: "SyncPeers mock_client demo_parsers ''wg0'' demo_desired True demo_wg ?dev = (r, m', k')"
    by (metis prod_cases3)
  have r: "r = None"
    using s unfolding SyncPeers_def configure_and_refresh_def Let_def
    by (simp add: demo_wg_def mock_client_def mock_configure_def mock_device_def split: if_splits)
  have w: "wanted_keys demo_parsers demo_desired = {''k1'', ''k3''}"
    by (auto simp: wanted_keys_def demo_parsers_def demo_desired_def)
  have d: "peer_device (cl_device mock_client) (cl_configure mock_client)"
    by (simp add: mock_client_def test_device.peer_device_axioms)
  have c: "map_of (wg_ifaces demo_wg) ''wg0'' = Some ?dev" "cl_device mock_client ''wg0'' ?dev = Some ?dev"
    by (simp_all add: demo_wg_def mock_client_def mock_device_def)
  have "\<exists>dev'. cl_device mock_client ''wg0'' k' = Some dev' \<and> p_key ` set dev' = {''k1'', ''k3''}"
    using conjunct1[OF sync_peers_exact[OF d c s[unfolded r]]] w by auto
  then show ?thesis using s r by (simp add: mock_client_def mock_device_def)
qed

end
