(* ===== verification/Xray_Manager.thy ===== *)
theory Xray_Manager
  imports Wg_Manager
begin

text \<open>
  XrayManager (src/internal/agent/manager/xray.go): the VLESS clients of the running Xray engine.
  The engine is a state of an arbitrary type behind the operations of XrayApiClient; the locale
  xray_engine states what its handler service documents, and is interpreted on the engine as a
  finite table of users. Go iterates over maps in an unspecified order: the orders are arguments.
\<close>

section \<open>Data\<close>

record vless_client =
  vc_cred :: string
  vc_uuid :: string
  vc_email :: string
  vc_flow :: string

record 'x xray_api =
  xa_add :: "string \<Rightarrow> string \<Rightarrow> string \<Rightarrow> 'x \<Rightarrow> bool \<times> 'x"
  xa_remove :: "string \<Rightarrow> 'x \<Rightarrow> bool \<times> 'x"

type_synonym active = "string \<rightharpoonup> vless_client"

datatype xray_error = AddClientFailed string | RemoveClientFailed string

section \<open>SyncClients\<close>

definition normalize_client :: "vless_client \<Rightarrow> vless_client" where
  "normalize_client c =
     (let c1 = (if vc_email c = [] then c\<lparr>vc_email := vc_uuid c\<rparr> else c) in
      if vc_flow c1 = [] then c1\<lparr>vc_flow := ''xtls-rprx-vision''\<rparr> else c1)"

definition desired_map :: "vless_client list \<Rightarrow> active" where
  "desired_map ds = fold (\<lambda>c m. m(vc_email (normalize_client c) \<mapsto> normalize_client c)) ds Map.empty"

definition needs_update :: "active \<Rightarrow> vless_client \<Rightarrow> bool" where
  "needs_update act c = (case act (vc_email c) of None \<Rightarrow> True
     | Some e \<Rightarrow> vc_uuid e \<noteq> vc_uuid c \<or> vc_flow e \<noteq> vc_flow c)"

text \<open>Without an API client (None) only the table of active clients is kept.\<close>

fun add_clients :: "'x xray_api option \<Rightarrow> active \<Rightarrow> string list \<Rightarrow> active \<Rightarrow> 'x \<Rightarrow>
    xray_error option \<times> active \<times> 'x" where
  "add_clients api dm [] act x = (None, act, x)"
| "add_clients api dm (em # ems) act x =
     (case dm em of
        None \<Rightarrow> add_clients api dm ems act x
      | Some c \<Rightarrow>
          if needs_update act c then
            (case api of
               None \<Rightarrow> add_clients api dm ems (act(em \<mapsto> c)) x
             | Some a \<Rightarrow>
                 (let x1 = (if act em \<noteq> None then snd (xa_remove a em x) else x) in
                  case xa_add a (vc_email c) (vc_uuid c) (vc_flow c) x1 of
                    (False, x2) \<Rightarrow> (Some (AddClientFailed (vc_email c)), act, x2)
                  | (True, x2) \<Rightarrow> add_clients api dm ems (act(em \<mapsto> c)) x2))
          else add_clients api dm ems act x)"

fun remove_clients :: "'x xray_api option \<Rightarrow> active \<Rightarrow> string list \<Rightarrow> active \<Rightarrow> 'x \<Rightarrow>
    xray_error option \<times> active \<times> 'x" where
  "remove_clients api dm [] act x = (None, act, x)"
| "remove_clients api dm (em # ems) act x =
     (if dm em \<noteq> None then remove_clients api dm ems act x
      else case api of
        None \<Rightarrow> remove_clients api dm ems (act(em := None)) x
      | Some a \<Rightarrow>
          (case xa_remove a em x of
             (False, x1) \<Rightarrow> (Some (RemoveClientFailed em), act, x1)
           | (True, x1) \<Rightarrow> remove_clients api dm ems (act(em := None)) x1))"

definition SyncClients :: "'x xray_api option \<Rightarrow> (active \<Rightarrow> string list) \<Rightarrow> vless_client list \<Rightarrow> bool \<Rightarrow>
    active \<Rightarrow> 'x \<Rightarrow> xray_error option \<times> active \<times> 'x" where
  "SyncClients api order desired isFull act x =
     (let dm = desired_map desired in
      case add_clients api dm (order dm) act x of
        (Some e, act1, x1) \<Rightarrow> (Some e, act1, x1)
      | (None, act1, x1) \<Rightarrow>
          if isFull then remove_clients api dm (order act1) act1 x1 else (None, act1, x1))"

text \<open>What the order of a map iteration is: every key once.\<close>

definition iterates :: "(active \<Rightarrow> string list) \<Rightarrow> bool" where
  "iterates order \<longleftrightarrow> (\<forall>m. finite (dom m) \<longrightarrow> distinct (order m) \<and> set (order m) = dom m)"

section \<open>The engine's contract\<close>

locale xray_engine =
  fixes add :: "string \<Rightarrow> string \<Rightarrow> string \<Rightarrow> 'x \<Rightarrow> bool \<times> 'x"
    and remove :: "string \<Rightarrow> 'x \<Rightarrow> bool \<times> 'x"
    and users :: "'x \<Rightarrow> string \<rightharpoonup> string \<times> string"
  assumes add_users: "add em i f x = (True, x') \<Longrightarrow> users x' = (users x)(em \<mapsto> (i, f))"
    and remove_users: "remove em x = (True, x') \<Longrightarrow> users x' = (users x)(em := None)"
    and remove_fails: "remove em x = (False, x') \<Longrightarrow> users x' = users x"

definition view :: "active \<Rightarrow> string \<rightharpoonup> string \<times> string" where
  "view act em = map_option (\<lambda>c. (vc_uuid c, vc_flow c)) (act em)"

definition keyed :: "active \<Rightarrow> bool" where
  "keyed m \<longleftrightarrow> (\<forall>em c. m em = Some c \<longrightarrow> vc_email c = em)"

lemma desired_snoc:
  "desired_map (ds @ [c]) = (desired_map ds)(vc_email (normalize_client c) \<mapsto> normalize_client c)"
  by (simp add: desired_map_def)

lemma desired_Nil: "desired_map [] = Map.empty"
  by (simp add: desired_map_def)

lemma desired_finite: "finite (dom (desired_map ds))"
proof (induction ds rule: rev_induct)
  case (snoc c ds)
  then show ?case unfolding desired_snoc by (simp only: dom_fun_upd option.distinct if_False finite_insert)
qed (simp add: desired_Nil)

lemma desired_keyed: "keyed (desired_map ds)"
proof (induction ds rule: rev_induct)
  case (snoc c ds)
  then show ?case unfolding desired_snoc keyed_def by (simp add: fun_upd_apply)
qed (simp add: desired_Nil keyed_def)

lemma view_upd: "view (act(em \<mapsto> c)) = (view act)(em \<mapsto> (vc_uuid c, vc_flow c))"
  "view (act(em := None)) = (view act)(em := None)"
  by (auto simp: view_def fun_eq_iff)

context xray_engine
begin

lemma add_phase:
  assumes "keyed dm" "add_clients (Some a) dm ems act x = (None, act', x')"
    "xa_add a = add" "xa_remove a = remove" "users x = view act"
  shows "users x' = view act' \<and>
    (\<forall>em. view act' em = (if em \<in> set ems \<and> dm em \<noteq> None then view dm em else view act em))"
  using assms(2,5)
proof (induction ems arbitrary: act x)
  case (Cons em ems)
  show ?case
  proof (cases "dm em")
    case None
    then show ?thesis using Cons.IH[of act x] Cons.prems by auto
  next
    case (Some c)
    then have em: "vc_email c = em" using assms(1) by (simp add: keyed_def)
    show ?thesis
    proof (cases "needs_update act c")
      case False
      then have "view act em = view dm em"
        using Some em by (auto simp: needs_update_def view_def split: option.splits)
      then show ?thesis using Cons.IH[of act x] Cons.prems False Some by auto
    next
      case True
      define x1 where "x1 = (if act em \<noteq> None then snd (remove em x) else x)"
      obtain ok x2 where ad: "add em (vc_uuid c) (vc_flow c) x1 = (ok, x2)" by fastforce
      have ok: "ok" and rest: "add_clients (Some a) dm ems (act(em \<mapsto> c)) x2 = (None, act', x')"
        using Cons.prems(1) True Some ad em assms(3,4) by (auto simp: x1_def Let_def split: bool.splits)
      obtain r x0 where rm: "remove em x = (r, x0)" by fastforce
      have "users x1 = users x \<or> users x1 = (users x)(em := None)"
        using remove_users[of em x x0] remove_fails[of em x x0] rm by (cases r) (auto simp: x1_def)
      then have "users x2 = view (act(em \<mapsto> c))"
        using add_users[OF ad[unfolded ok[THEN eqTrueI]]] Cons.prems(2) by (auto simp: view_upd fun_eq_iff)
      note Cons.IH[OF rest this]
      then show ?thesis using Some by (auto simp: view_def)
    qed
  qed
qed simp

lemma remove_phase:
  assumes "remove_clients (Some a) dm ems act x = (None, act', x')"
    "xa_remove a = remove" "users x = view act"
  shows "users x' = view act' \<and> (\<forall>em. view act' em = (if em \<in> set ems \<and> dm em = None then None else view act em))"
  using assms(1,3)
proof (induction ems arbitrary: act x)
  case (Cons em ems)
  show ?case
  proof (cases "dm em")
    case None
    obtain r x1 where rm: "remove em x = (r, x1)" by fastforce
    have r: "r" and rest: "remove_clients (Some a) dm ems (act(em := None)) x1 = (None, act', x')"
      using Cons.prems(1) None rm assms(2) by (auto split: bool.splits)
    have "users x1 = view (act(em := None))"
      using remove_users[OF rm[unfolded r[THEN eqTrueI]]] Cons.prems(2) by (simp add: view_upd)
    note Cons.IH[OF rest this]
    then show ?thesis using None by (auto simp: view_def)
  qed (use Cons.IH[of act x] Cons.prems in auto)
qed simp

lemma sync_users:
  assumes "iterates order" "xa_add a = add" "xa_remove a = remove" "users x = view act" "finite (dom act)"
    "SyncClients (Some a) order ds full act x = (None, act', x')"
  shows "users x' = view act' \<and>
    (\<forall>em. users x' em = (if full then view (desired_map ds) em
        else case desired_map ds em of None \<Rightarrow> view act em | Some _ \<Rightarrow> view (desired_map ds) em))"
proof -
  let ?dm = "desired_map ds"
  obtain e act1 x1 where ad: "add_clients (Some a) ?dm (order ?dm) act x = (e, act1, x1)" by (metis prod_cases3)
  have e: "e = None" using assms(6) ad by (auto simp: SyncClients_def Let_def split: option.splits)
  have o: "set (order ?dm) = dom ?dm" using assms(1) desired_finite by (simp add: iterates_def)
  have 1: "users x1 = view act1" "\<And>em. view act1 em = (if ?dm em \<noteq> None then view ?dm em else view act em)"
    using add_phase[OF desired_keyed ad[unfolded e] assms(2-4)] o by auto
  show ?thesis
  proof (cases full)
    case False
    then have "act' = act1" "x' = x1" using assms(6) ad e by (auto simp: SyncClients_def)
    then show ?thesis using 1 False by (auto split: option.splits)
  next
    case True
    have "em \<in> dom ?dm \<union> dom act" if "em \<in> dom act1" for em
      using 1(2)[of em] that by (cases "?dm em") (auto simp: view_def)
    then have "dom act1 \<subseteq> dom ?dm \<union> dom act" by blast
    then have f: "finite (dom act1)" using assms(5) desired_finite[of ds] by (meson finite_UnI finite_subset)
    have o1: "set (order act1) = dom act1" using assms(1) f by (simp add: iterates_def)
    have "remove_clients (Some a) ?dm (order act1) act1 x1 = (None, act', x')"
      using assms(6) ad e True by (simp add: SyncClients_def)
    note 2 = remove_phase[OF this assms(3) 1(1)]
    have "view act' em = view ?dm em" for em
      using 2 1(2)[of em] o1 by (cases "?dm em") (auto simp: view_def domIff)
    then show ?thesis using 2 True by simp
  qed
qed

end

section \<open>Idempotence\<close>

lemma add_view:
  assumes "keyed dm" "add_clients api dm ems act x = (None, act', x')"
  shows "view act' em = (if em \<in> set ems \<and> dm em \<noteq> None then view dm em else view act em)"
  using assms(2)
proof (induction ems arbitrary: act x)
  case (Cons e ems)
  show ?case
  proof (cases "dm e")
    case None
    then show ?thesis using Cons.IH[of act x] Cons.prems by auto
  next
    case (Some c)
    then have e: "vc_email c = e" using assms(1) by (simp add: keyed_def)
    show ?thesis
    proof (cases "needs_update act c")
      case False
      then have "view act e = view dm e"
        using Some e by (auto simp: needs_update_def view_def split: option.splits)
      then show ?thesis using Cons.IH[of act x] Cons.prems False Some by auto
    next
      case True
      then obtain x2 where "add_clients api dm ems (act(e \<mapsto> c)) x2 = (None, act', x')"
        using Cons.prems Some e by (auto simp: Let_def split: option.splits prod.splits bool.splits)
      from Cons.IH[OF this] show ?thesis using Some by (auto simp: view_def)
    qed
  qed
qed simp

lemma remove_view:
  "remove_clients api dm ems act x = (None, act', x') \<Longrightarrow>
   view act' em = (if em \<in> set ems \<and> dm em = None then None else view act em)"
proof (induction ems arbitrary: act x)
  case (Cons e ems)
  show ?case
  proof (cases "dm e")
    case None
    then obtain x2 where "remove_clients api dm ems (act(e := None)) x2 = (None, act', x')"
      using Cons.prems by (auto split: option.splits prod.splits bool.splits)
    from Cons.IH[OF this] show ?thesis using None by (auto simp: view_def)
  qed (use Cons.IH[of act x] Cons.prems in auto)
qed simp

lemma add_nothing:
  assumes "\<And>em c. em \<in> set ems \<Longrightarrow> dm em = Some c \<Longrightarrow> \<not> needs_update act c"
  shows "add_clients api dm ems act x = (None, act, x)"
  using assms by (induction ems) (auto split: option.splits)

lemma remove_nothing:
  assumes "\<And>em. em \<in> set ems \<Longrightarrow> dm em \<noteq> None"
  shows "remove_clients api dm ems act x = (None, act, x)"
  using assms by (induction ems) auto

lemma sync_view:
  assumes "iterates order" "finite (dom act)"
    "SyncClients api order ds True act x = (None, act', x')"
  shows "view act' = view (desired_map ds)"
proof
  fix em
  let ?dm = "desired_map ds"
  obtain e act1 x1 where ad: "add_clients api ?dm (order ?dm) act x = (e, act1, x1)" by (metis prod_cases3)
  have e: "e = None" using assms(3) ad by (auto simp: SyncClients_def Let_def split: option.splits)
  have o: "set (order ?dm) = dom ?dm" using assms(1) desired_finite by (simp add: iterates_def)
  have 1: "view act1 em = (if ?dm em \<noteq> None then view ?dm em else view act em)" for em
    using add_view[OF desired_keyed ad[unfolded e], of em] o by auto
  have "em \<in> dom ?dm \<union> dom act" if "em \<in> dom act1" for em
    using 1[of em] that by (cases "?dm em") (auto simp: view_def)
  then have "dom act1 \<subseteq> dom ?dm \<union> dom act" by blast
  then have f: "finite (dom act1)" using assms(2) desired_finite[of ds] by (meson finite_UnI finite_subset)
  have o1: "set (order act1) = dom act1" using assms(1) f by (simp add: iterates_def)
  have "remove_clients api ?dm (order act1) act1 x1 = (None, act', x')"
    using assms(3) ad e by (simp add: SyncClients_def)
  from remove_view[OF this, of em] show "view act' em = view ?dm em"
    using 1[of em] o1 by (cases "?dm em") (auto simp: view_def domIff)
qed

lemma sync_again:
  assumes "iterates order" "view act = view (desired_map ds)"
  shows "SyncClients api order ds full act x = (None, act, x)"
proof -
  let ?dm = "desired_map ds"
  have v: "map_option (\<lambda>c. (vc_uuid c, vc_flow c)) (act em) = map_option (\<lambda>c. (vc_uuid c, vc_flow c)) (?dm em)" for em
    using assms(2) by (simp add: view_def fun_eq_iff)
  have "\<not> needs_update act c" if "?dm em = Some c" for em c
  proof -
    have "vc_email c = em" using that desired_keyed by (simp add: keyed_def)
    then show ?thesis using v[of em] that by (auto simp: needs_update_def split: option.splits)
  qed
  then have a: "add_clients api ?dm (order ?dm) act x = (None, act, x)" by (intro add_nothing)
  have "em \<in> dom act \<longleftrightarrow> em \<in> dom ?dm" for em
    using v[of em] by (cases "act em"; cases "?dm em") (simp_all add: domIff)
  then have d: "dom act = dom ?dm" by blast
  then have "set (order act) = dom ?dm"
    using assms(1) desired_finite[of ds] by (simp add: iterates_def)
  then have "remove_clients api ?dm (order act) act x = (None, act, x)"
    by (intro remove_nothing) (auto simp: domIff)
  then show ?thesis using a by (simp add: SyncClients_def)
qed

section \<open>Statistics\<close>

text \<open>strings.Split at the separator of Xray's counter names.\<close>

fun split_name :: "string \<Rightarrow> string list" where
  "split_name [] = [[]]"
| "split_name (c # cs) =
     (if take 3 (c # cs) = ''>>>'' then [] # split_name (drop 2 cs)
      else case split_name cs of [] \<Rightarrow> [[c]] | w # ws \<Rightarrow> (c # w) # ws)"

type_synonym stats = "(string \<times> int) list"

definition stat_name :: "string \<Rightarrow> string \<Rightarrow> string" where
  "stat_name em dir = ''user>>>'' @ em @ ''>>>traffic>>>'' @ dir"

definition QueryUserStats :: "string \<Rightarrow> stats \<Rightarrow> int \<times> int" where
  "QueryUserStats em resp = fold (\<lambda>(n, v) (rx, tx).
     if n = stat_name em ''downlink'' then (rx, v)
     else if n = stat_name em ''uplink'' then (v, tx) else (rx, tx)) resp (0, 0)"

definition note_stat :: "string \<times> int \<Rightarrow> (string \<rightharpoonup> int \<times> int) \<Rightarrow> string \<rightharpoonup> int \<times> int" where
  "note_stat = (\<lambda>(n, v) res.
     (let parts = split_name n in
      if 4 \<le> length parts \<and> parts ! 0 = ''user'' \<and> parts ! 2 = ''traffic'' then
        (let pair = (case res (parts ! 1) of None \<Rightarrow> (0, 0) | Some p \<Rightarrow> p) in
         res(parts ! 1 \<mapsto> (if parts ! 3 = ''uplink'' then (v, snd pair)
                          else if parts ! 3 = ''downlink'' then (fst pair, v) else pair)))
      else res))"

definition QueryAllUserStats :: "stats \<Rightarrow> string \<rightharpoonup> int \<times> int" where
  "QueryAllUserStats resp = fold note_stat resp Map.empty"

definition sample :: "vless_client \<Rightarrow> int \<times> int \<Rightarrow> peer_metric list" where
  "sample c = (\<lambda>(rx, tx). if rx > 0 \<or> tx > 0
     then [\<lparr>pm_id = vc_cred c, pm_rx = rx, pm_tx = tx, pm_last_seen = None, pm_endpoint = [], pm_online = True\<rparr>]
     else [])"

text \<open>
  GetMetrics: clients are the active clients in iteration order, batch the response to the query
  of all users (None when it fails) and single that of one user's query.
\<close>

definition GetMetricsXray :: "bool \<Rightarrow> stats option \<Rightarrow> (string \<Rightarrow> stats option) \<Rightarrow> vless_client list \<Rightarrow> peer_metric list" where
  "GetMetricsXray api batch single clients =
     (if \<not> api \<or> clients = [] then []
      else case batch of
        None \<Rightarrow> concat (List.map (\<lambda>c. case single (vc_email c) of None \<Rightarrow> []
                                        | Some resp \<Rightarrow> sample c (QueryUserStats (vc_email c) resp)) clients)
      | Some resp \<Rightarrow> concat (List.map (\<lambda>c. case QueryAllUserStats resp (vc_email c) of None \<Rightarrow> []
                                        | Some p \<Rightarrow> sample c p) clients))"

text \<open>The counters the engine keeps of its users, under the names the code reads.\<close>

definition engine_stats :: "(string \<times> int \<times> int) list \<Rightarrow> stats" where
  "engine_stats us = concat (List.map (\<lambda>(em, up, down).
     [(stat_name em ''uplink'', up), (stat_name em ''downlink'', down)]) us)"

lemma split_plain: "CHR ''>'' \<notin> set s \<Longrightarrow> split_name s = [s]"
  by (induction s) (auto split: if_splits)

lemma split_sep: "CHR ''>'' \<notin> set s \<Longrightarrow> split_name (s @ CHR ''>'' # CHR ''>'' # CHR ''>'' # t) = s # split_name t"
  by (induction s) auto

lemma split_stat_name:
  assumes "CHR ''>'' \<notin> set em" "CHR ''>'' \<notin> set dir"
  shows "split_name (stat_name em dir) = [''user'', em, ''traffic'', dir]"
  using split_sep[of "''user''" "em @ ''>>>traffic>>>'' @ dir"] split_sep[OF assms(1), of "''traffic>>>'' @ dir"]
    split_sep[of "''traffic''" dir] split_plain[OF assms(2)]
  by (simp add: stat_name_def)

lemma stat_name_eq: "stat_name a d = stat_name b d \<longleftrightarrow> a = b"
  by (simp add: stat_name_def)

lemma stat_name_dir:
  assumes "CHR ''>'' \<notin> set a" "CHR ''>'' \<notin> set b"
  shows "stat_name a ''uplink'' \<noteq> stat_name b ''downlink''"
proof
  assume "stat_name a ''uplink'' = stat_name b ''downlink''"
  then have "split_name (stat_name a ''uplink'') = split_name (stat_name b ''downlink'')" by simp
  then show False using assms by (simp add: split_stat_name)
qed

lemma note_pair:
  assumes "CHR ''>'' \<notin> set em"
  shows "note_stat (stat_name em ''downlink'', d) (note_stat (stat_name em ''uplink'', u) res) = res(em \<mapsto> (u, d))"
  using assms by (simp add: note_stat_def split_stat_name Let_def)

lemma batch_stats:
  assumes "\<And>em u d. (em, u, d) \<in> set us \<Longrightarrow> CHR ''>'' \<notin> set em"
  shows "QueryAllUserStats (engine_stats us) = map_of (rev us)"
  using assms
proof (induction us rule: rev_induct)
  case (snoc x us)
  obtain em u d where x: "x = (em, u, d)" by (cases x)
  have IH: "QueryAllUserStats (engine_stats us) = map_of (rev us)" using snoc by auto
  have "engine_stats (us @ [x]) = engine_stats us @ [(stat_name em ''uplink'', u), (stat_name em ''downlink'', d)]"
    by (simp add: engine_stats_def x)
  then have "QueryAllUserStats (engine_stats (us @ [x])) =
      note_stat (stat_name em ''downlink'', d) (note_stat (stat_name em ''uplink'', u) (QueryAllUserStats (engine_stats us)))"
    by (simp add: QueryAllUserStats_def)
  also have "\<dots> = (map_of (rev us))(em \<mapsto> (u, d))"
    using snoc.prems[of em u d] by (simp add: IH note_pair x)
  finally show ?case by (simp add: x)
qed (simp add: QueryAllUserStats_def engine_stats_def)

lemma single_stats:
  assumes "\<And>e u d. (e, u, d) \<in> set us \<Longrightarrow> CHR ''>'' \<notin> set e" "CHR ''>'' \<notin> set em"
  shows "QueryUserStats em (engine_stats us) = (case map_of (rev us) em of None \<Rightarrow> (0, 0) | Some p \<Rightarrow> p)"
  using assms(1)
proof (induction us rule: rev_induct)
  case (snoc x us)
  obtain e u d where x: "x = (e, u, d)" by (cases x)
  have IH: "QueryUserStats em (engine_stats us) = (case map_of (rev us) em of None \<Rightarrow> (0, 0) | Some p \<Rightarrow> p)"
    using snoc by auto
  have e: "CHR ''>'' \<notin> set e" using snoc.prems x by auto
  have ne: "stat_name e ''uplink'' \<noteq> stat_name em ''downlink''" "stat_name e ''downlink'' \<noteq> stat_name em ''uplink''"
    using stat_name_dir[OF e assms(2)] stat_name_dir[OF assms(2) e] by auto
  have "engine_stats (us @ [x]) = engine_stats us @ [(stat_name e ''uplink'', u), (stat_name e ''downlink'', d)]"
    by (simp add: engine_stats_def x)
  then have "QueryUserStats em (engine_stats (us @ [x])) =
      (if e = em then (u, d) else QueryUserStats em (engine_stats us))"
    using ne by (auto simp: QueryUserStats_def stat_name_eq split: prod.splits)
  then show ?case using IH by (simp add: x)
qed (simp add: QueryUserStats_def engine_stats_def)

section \<open>Process\<close>

text \<open>
  The engine's process: whether it runs, whether an API client is held, and the table of active
  clients. started is the outcome of starting the binary and dialed that of NewGrpcXrayClient.
\<close>

record xray_manager =
  xm_running :: bool
  xm_api :: bool
  xm_failed :: bool
  xm_active :: active

definition NewXrayManager :: xray_manager where
  "NewXrayManager = \<lparr>xm_running = False, xm_api = False, xm_failed = False, xm_active = Map.empty\<rparr>"

definition Start :: "bool \<Rightarrow> bool \<Rightarrow> xray_manager \<Rightarrow> xray_manager" where
  "Start started dialed m =
     (if xm_running m then m
      else m\<lparr>xm_running := started, xm_failed := \<not> started, xm_api := xm_api m \<or> dialed\<rparr>)"

definition process_exit :: "xray_manager \<Rightarrow> xray_manager" where
  "process_exit m = (if xm_running m then m\<lparr>xm_running := False\<rparr> else m)"

definition Stop :: "xray_manager \<Rightarrow> xray_manager" where
  "Stop m = (if \<not> xm_running m then m else m\<lparr>xm_api := False, xm_running := False\<rparr>)"

section \<open>The engine as a table of users\<close>

type_synonym engine = "(string \<times> string \<times> string) list"

definition table_add :: "string \<Rightarrow> string \<Rightarrow> string \<Rightarrow> engine \<Rightarrow> bool \<times> engine" where
  "table_add em i f x = (if map_of x em \<noteq> None then (False, x) else (True, (em, i, f) # x))"

definition table_remove :: "string \<Rightarrow> engine \<Rightarrow> bool \<times> engine" where
  "table_remove em x = (if map_of x em = None then (False, x) else (True, List.filter (\<lambda>(e, _). e \<noteq> em) x))"

lemma map_of_without: "map_of (List.filter (\<lambda>(e, _). e \<noteq> em) x) = (map_of x)(em := None)"
  by (induction x) auto

interpretation table_engine: xray_engine table_add table_remove map_of
  by unfold_locales (auto simp: table_add_def table_remove_def map_of_without split: if_splits)

definition table_api :: "engine xray_api" where
  "table_api = \<lparr>xa_add = table_add, xa_remove = table_remove\<rparr>"

section \<open>Properties\<close>

text \<open>
  C29. Client synchronization. When the engine holds the clients of the manager's table and
  SyncClients succeeds, the engine's users after a full synchronization are exactly the desired
  ones, with the identifier and the flow the defaults give them, and after a delta the old users
  overridden by the desired ones; the table agrees with the engine again. The hypothesis on the
  engine is what its handler service documents of adding and removing a user.
\<close>
theorem sync_clients_exact:
  assumes "xray_engine (xa_add api) (xa_remove api) users" "iterates order"
    and "finite (dom act)" "users x = view act"
    and "SyncClients (Some api) order ds full act x = (None, act', x')"
  shows "users x' = (if full then view (desired_map ds) else view act ++ view (desired_map ds)) \<and>
    users x' = view act'"
proof -
  note u = xray_engine.sync_users[OF assms(1,2) refl refl assms(4,3,5)]
  have "users x' em = (if full then view (desired_map ds) em else (view act ++ view (desired_map ds)) em)" for em
    using spec[OF conjunct2[OF u], of em]
    by (cases "desired_map ds em") (simp_all add: map_add_def view_def[of "desired_map ds"])
  then show ?thesis using u by (auto simp: fun_eq_iff)
qed

text \<open>Map iteration in the order of the keys as text.\<close>

definition sorted_order :: "active \<Rightarrow> string list" where
  "sorted_order m = sorted_list_of_set (dom m)"

lemma sorted_order_iterates: "iterates sorted_order"
  by (simp add: iterates_def sorted_order_def)

definition demo_clients :: "vless_client list" where
  "demo_clients = [\<lparr>vc_cred = ''c1'', vc_uuid = ''u1'', vc_email = [], vc_flow = []\<rparr>,
     \<lparr>vc_cred = ''c2'', vc_uuid = ''u2'', vc_email = ''bob'', vc_flow = ''none''\<rparr>]"

lemma demo_desired_map: "desired_map demo_clients =
    [''u1'' \<mapsto> \<lparr>vc_cred = ''c1'', vc_uuid = ''u1'', vc_email = ''u1'', vc_flow = ''xtls-rprx-vision''\<rparr>,
     ''bob'' \<mapsto> \<lparr>vc_cred = ''c2'', vc_uuid = ''u2'', vc_email = ''bob'', vc_flow = ''none''\<rparr>]"
  by (simp add: desired_map_def demo_clients_def normalize_client_def)

definition old_client :: vless_client where
  "old_client = \<lparr>vc_cred = ''c0'', vc_uuid = ''u0'', vc_email = ''u0'', vc_flow = ''none''\<rparr>"

lemma sorted_order_list: "dom m = set ks \<Longrightarrow> sorted ks \<Longrightarrow> distinct ks \<Longrightarrow> sorted_order m = ks"
  by (simp add: sorted_order_def sorted_list_of_set.idem_if_sorted_distinct)

lemma demo_order:
  "sorted_order (desired_map demo_clients) = [''bob'', ''u1'']"
  "sorted_order (desired_map demo_clients ++ [''u0'' \<mapsto> old_client]) = [''bob'', ''u0'', ''u1'']"
  by (intro sorted_order_list; simp add: demo_desired_map insert_commute; code_simp)+

lemma demo_add:
  "add_clients (Some table_api) (desired_map demo_clients) (sorted_order (desired_map demo_clients))
     [''u0'' \<mapsto> old_client] [(''u0'', ''u0'', ''none'')] =
   (None, desired_map demo_clients ++ [''u0'' \<mapsto> old_client],
     [(''u1'', ''u1'', ''xtls-rprx-vision''), (''bob'', ''u2'', ''none''), (''u0'', ''u0'', ''none'')])"
  unfolding demo_order
  by (simp add: demo_desired_map needs_update_def table_api_def table_add_def Let_def)
    (auto simp: fun_eq_iff map_add_def)

lemma demo_remove:
  "\<exists>act' x'. remove_clients (Some table_api) (desired_map demo_clients)
     (sorted_order (desired_map demo_clients ++ [''u0'' \<mapsto> old_client])) (desired_map demo_clients ++ [''u0'' \<mapsto> old_client])
     [(''u1'', ''u1'', ''xtls-rprx-vision''), (''bob'', ''u2'', ''none''), (''u0'', ''u0'', ''none'')] = (None, act', x')"
  unfolding demo_order by (simp add: demo_desired_map table_api_def table_remove_def)

lemma sync_clients_exact_witness:
  "\<exists>act' x'. SyncClients (Some table_api) sorted_order demo_clients True [''u0'' \<mapsto> old_client]
       [(''u0'', ''u0'', ''none'')] = (None, act', x') \<and>
     map_of x' = [''u1'' \<mapsto> (''u1'', ''xtls-rprx-vision''), ''bob'' \<mapsto> (''u2'', ''none'')]"
proof -
  let ?act = "[''u0'' \<mapsto> old_client]" and ?x = "[(''u0'', ''u0'', ''none'')]"
  obtain r act' x' where s: "SyncClients (Some table_api) sorted_order demo_clients True ?act ?x = (r, act', x')"
    by (metis prod_cases3)
  have r: "r = None"
    using s demo_remove by (auto simp: SyncClients_def demo_add Let_def)
  have v: "map_of ?x = view ?act" by (auto simp: view_def old_client_def)
  have e: "xray_engine (xa_add table_api) (xa_remove table_api) map_of"
    by (simp add: table_api_def table_engine.xray_engine_axioms)
  have "map_of x' = view (desired_map demo_clients)"
    using sync_clients_exact[OF e sorted_order_iterates _ v s[unfolded r]] by simp
  then show ?thesis using s r by (auto simp: demo_desired_map view_def fun_eq_iff)
qed

text \<open>
  A repeated synchronization is silent. After a successful full synchronization, whatever
  stops, starts or exits of the engine's process follow, a synchronization of the same clients,
  full or not, performs no engine operation and succeeds: the table outlives the process it
  describes, so an engine that restarted with no user stays without one.
\<close>
theorem resync_is_silent:
  assumes "iterates order" "finite (dom (xm_active m))"
    and "SyncClients api order ds True (xm_active m) x = (None, act', x')"
    and "m' = Start started dialed (Stop (process_exit (m\<lparr>xm_active := act'\<rparr>)))"
  shows "SyncClients api order ds full (xm_active m') x0 = (None, xm_active m', x0)"
proof -
  have "xm_active m' = act'" by (simp add: assms(4) Start_def Stop_def process_exit_def)
  then show ?thesis using sync_again[OF assms(1) sync_view[OF assms(1-3)]] by simp
qed

lemma resync_is_silent_witness:
  "\<exists>act'. SyncClients (Some table_api) sorted_order demo_clients True act' [] = (None, act', []) \<and> act' ''u1'' \<noteq> None"
proof -
  let ?m = "Start True True NewXrayManager"
  let ?act = "desired_map demo_clients"
  let ?x = "[(''u1'', ''u1'', ''xtls-rprx-vision''), (''bob'', ''u2'', ''none'')]"
  have "add_clients (Some table_api) ?act (sorted_order ?act) Map.empty [] = (None, ?act, ?x)"
    unfolding demo_order
    by (simp add: demo_desired_map needs_update_def table_api_def table_add_def Let_def fun_eq_iff)
  moreover have "remove_clients (Some table_api) ?act (sorted_order ?act) ?act ?x = (None, ?act, ?x)"
    by (simp add: demo_order) (simp add: demo_desired_map)
  ultimately have s: "SyncClients (Some table_api) sorted_order demo_clients True (xm_active ?m) [] = (None, ?act, ?x)"
    by (simp add: SyncClients_def Start_def NewXrayManager_def)
  have "finite (dom (xm_active ?m))" by (simp add: Start_def NewXrayManager_def)
  from resync_is_silent[OF sorted_order_iterates this s refl, of True True True "[]"]
  have "SyncClients (Some table_api) sorted_order demo_clients True ?act [] = (None, ?act, [])"
    by (simp add: Start_def Stop_def process_exit_def NewXrayManager_def)
  then show ?thesis by (auto simp: demo_desired_map)
qed

text \<open>
  Traffic samples. When the engine's counters are those of users with distinct names that
  contain no separator, the batch query and the per-user fallback give the same samples, and
  there is one for an active client exactly when one of its counters is positive, with the
  uplink as received and the downlink as sent bytes.
\<close>
theorem xray_samples_exact:
  assumes "distinct (List.map fst us)" "\<And>em u d. (em, u, d) \<in> set us \<Longrightarrow> CHR ''>'' \<notin> set em"
    and "\<And>c. c \<in> set clients \<Longrightarrow> CHR ''>'' \<notin> set (vc_email c)"
  shows "GetMetricsXray True (Some (engine_stats us)) single clients =
      GetMetricsXray True None (\<lambda>_. Some (engine_stats us)) clients \<and>
    set (GetMetricsXray True (Some (engine_stats us)) single clients) =
      {\<lparr>pm_id = vc_cred c, pm_rx = u, pm_tx = d, pm_last_seen = None, pm_endpoint = [], pm_online = True\<rparr> |
         c u d. c \<in> set clients \<and> (vc_email c, u, d) \<in> set us \<and> (u > 0 \<or> d > 0)}"
proof -
  have q: "QueryAllUserStats (engine_stats us) = map_of (rev us)" by (rule batch_stats) (rule assms(2))
  have q1: "QueryUserStats (vc_email c) (engine_stats us) =
      (case map_of (rev us) (vc_email c) of None \<Rightarrow> (0, 0) | Some p \<Rightarrow> p)" if "c \<in> set clients" for c
    using single_stats[of us "vc_email c"] assms(2) assms(3)[OF that] by blast
  have m: "map_of (rev us) em = Some p \<longleftrightarrow> (em, p) \<in> set us" for em p
    using map_of_eq_Some_iff[of "rev us" em p] assms(1) by (simp add: rev_map[symmetric])
  have "(case map_of (rev us) (vc_email c) of None \<Rightarrow> [] | Some p \<Rightarrow> sample c p) =
      sample c (QueryUserStats (vc_email c) (engine_stats us))" if "c \<in> set clients" for c
    using q1[OF that] by (simp add: sample_def split: option.splits)
  then have 1: "GetMetricsXray True (Some (engine_stats us)) single clients =
      GetMetricsXray True None (\<lambda>_. Some (engine_stats us)) clients"
    by (simp add: GetMetricsXray_def q cong: map_cong)
  have "y \<in> set (case map_of (rev us) (vc_email c) of None \<Rightarrow> [] | Some p \<Rightarrow> sample c p) \<longleftrightarrow>
      (\<exists>u d. (vc_email c, u, d) \<in> set us \<and> (u > 0 \<or> d > 0) \<and>
        y = \<lparr>pm_id = vc_cred c, pm_rx = u, pm_tx = d, pm_last_seen = None, pm_endpoint = [], pm_online = True\<rparr>)" for c y
    by (auto simp: sample_def m[symmetric] split: option.splits)
  then have "y \<in> set (GetMetricsXray True (Some (engine_stats us)) single clients) \<longleftrightarrow>
      (\<exists>c\<in>set clients. \<exists>u d. (vc_email c, u, d) \<in> set us \<and> (u > 0 \<or> d > 0) \<and>
        y = \<lparr>pm_id = vc_cred c, pm_rx = u, pm_tx = d, pm_last_seen = None, pm_endpoint = [], pm_online = True\<rparr>)" for y
    by (auto simp: GetMetricsXray_def q)
  then show ?thesis using 1 by blast
qed

lemma xray_samples_exact_witness:
  "let us = [(''u1'', 10, 20), (''u2'', 0, 0), (''bob'', 7, 0)] in
   \<lparr>pm_id = ''c2'', pm_rx = 7, pm_tx = 0, pm_last_seen = None, pm_endpoint = [], pm_online = True\<rparr>
     \<in> set (GetMetricsXray True (Some (engine_stats us)) (\<lambda>_. None) demo_clients)"
proof -
  let ?us = "[(''u1'', 10, 20), (''u2'', 0, 0), (''bob'', 7::int, 0::int)]"
  have "distinct (List.map fst ?us)" by simp
  moreover have "CHR ''>'' \<notin> set em" if "(em, u, d) \<in> set ?us" for em u d using that by auto
  moreover have "CHR ''>'' \<notin> set (vc_email c)" if "c \<in> set demo_clients" for c
    using that by (auto simp: demo_clients_def)
  ultimately show ?thesis
    unfolding Let_def
    by (subst conjunct2[OF xray_samples_exact[of ?us demo_clients "\<lambda>_. None"]])
      (simp_all add: demo_clients_def ex_disj_distrib conj_disj_distribR conj_disj_distribL)
qed

end
