(* ===== verification/Syncer.thy ===== *)
theory Syncer
  imports Config_Builder Xray_Manager Interfaces
begin

text \<open>
  Syncer (src/internal/agent/syncer/syncer.go): the agent's side of configuration delivery. Updates
  wait in a bounded channel, an update that is not newer than the current version is ignored, and
  a newer one is decoded into desired peers and clients and applied to the two managers; the
  version advances and a positive acknowledgement is sent only when all of it succeeded.
\<close>

section \<open>State\<close>

record ('k, 'x) agent =
  ag_version :: int
  ag_queue :: "config_update option list"
  ag_wg :: wg_manager
  ag_kernel :: 'k
  ag_active :: active
  ag_engine :: 'x
  ag_acks :: "(int \<times> bool) list"

text \<open>The collaborators: the device client, the parsers, the key a new interface would get, the
  Xray API client, the order of map iterations, the interface prefix, and which managers exist.\<close>

record ('k, 'x) agent_env =
  en_client :: "'k wg_client"
  en_parsers :: parsers
  en_key :: "string option"
  en_api :: "'x xray_api option"
  en_order :: "active \<Rightarrow> string list"
  en_prefix :: string
  en_has_wg :: bool
  en_has_xray :: bool

datatype sync_error = NilUpdate | EnsureFailed wg_error | PeerSyncFailed wg_error | ClientSyncFailed xray_error

section \<open>Decoding\<close>

definition fields_of :: "bytes \<Rightarrow> json" where
  "fields_of b = (case b of Obj j \<Rightarrow> j | _ \<Rightarrow> [])"

definition decode_peer :: "cred_config \<Rightarrow> desired_peer list" where
  "decode_peer cc =
     (if cc_protocol cc = ''wireguard'' \<or> cc_protocol cc = ''amneziawg'' then
        (let j = fields_of (cc_bytes cc); key = get_str ''public_key'' [] j in
         if key \<noteq> [] then
           [\<lparr>dp_id = cc_id cc, dp_key = key, dp_psk = get_str ''preshared_key'' [] j,
             dp_allowed = get_str ''allowed_ips'' [] j,
             dp_keepalive = get_int int64_min int64_max ''keepalive'' 0 j\<rparr>]
         else [])
      else [])"

definition decode_client :: "cred_config \<Rightarrow> vless_client list" where
  "decode_client cc =
     (if cc_protocol cc = ''vless'' then
        (let j = fields_of (cc_bytes cc); i = get_str ''uuid'' [] j in
         if i \<noteq> [] then
           [\<lparr>vc_cred = cc_id cc, vc_uuid = i, vc_email = get_str ''email'' [] j, vc_flow = get_str ''flow'' [] j\<rparr>]
         else [])
      else [])"

definition update_creds :: "config_update \<Rightarrow> cred_config list" where
  "update_creds cu = concat (List.map uc_creds (cu_users cu))"

definition desired_peers :: "config_update \<Rightarrow> desired_peer list" where
  "desired_peers cu = concat (List.map decode_peer (update_creds cu))"

definition desired_vless :: "config_update \<Rightarrow> vless_client list" where
  "desired_vless cu = concat (List.map decode_client (update_creds cu))"

section \<open>Applying an update\<close>

definition iface_of :: "('k, 'x) agent_env \<Rightarrow> config_update \<Rightarrow> string" where
  "iface_of en cu = (case cu_iface cu of Some i \<Rightarrow> if i \<noteq> [] then i else en_prefix en @ ''0''
                                       | None \<Rightarrow> en_prefix en @ ''0'')"

definition apply_wg_ensure :: "('k, 'x) agent_env \<Rightarrow> config_update \<Rightarrow> ('k, 'x) agent \<Rightarrow> sync_error option \<times> ('k, 'x) agent" where
  "apply_wg_ensure en cu ag =
     (if \<not> en_has_wg en then (None, ag)
      else case EnsureInterface (en_client en) (en_key en) (iface_of en cu) (ag_wg ag) (ag_kernel ag) of
        (r, m, k) \<Rightarrow> (map_option EnsureFailed r, ag\<lparr>ag_wg := m, ag_kernel := k\<rparr>))"

definition apply_wg_sync :: "('k, 'x) agent_env \<Rightarrow> config_update \<Rightarrow> ('k, 'x) agent \<Rightarrow> sync_error option \<times> ('k, 'x) agent" where
  "apply_wg_sync en cu ag =
     (if \<not> en_has_wg en then (None, ag)
      else case SyncPeers (en_client en) (en_parsers en) (iface_of en cu) (desired_peers cu) (cu_full cu)
                  (ag_wg ag) (ag_kernel ag) of
        (r, m, k) \<Rightarrow> (map_option PeerSyncFailed r, ag\<lparr>ag_wg := m, ag_kernel := k\<rparr>))"

definition apply_xray_sync :: "('k, 'x) agent_env \<Rightarrow> config_update \<Rightarrow> ('k, 'x) agent \<Rightarrow> sync_error option \<times> ('k, 'x) agent" where
  "apply_xray_sync en cu ag =
     (if \<not> en_has_xray en then (None, ag)
      else case SyncClients (en_api en) (en_order en) (desired_vless cu) (cu_full cu) (ag_active ag) (ag_engine ag) of
        (r, act, x) \<Rightarrow> (map_option ClientSyncFailed r, ag\<lparr>ag_active := act, ag_engine := x\<rparr>))"

definition applyConfig :: "('k, 'x) agent_env \<Rightarrow> config_update \<Rightarrow> ('k, 'x) agent \<Rightarrow> sync_error option \<times> ('k, 'x) agent" where
  "applyConfig en cu ag =
     (case apply_wg_ensure en cu ag of
        (Some e, ag1) \<Rightarrow> (Some e, ag1)
      | (None, ag1) \<Rightarrow>
          (case apply_wg_sync en cu ag1 of
             (Some e, ag2) \<Rightarrow> (Some e, ag2)
           | (None, ag2) \<Rightarrow> apply_xray_sync en cu ag2))"

definition HandleConfigUpdate ::
    "('k, 'x) agent_env \<Rightarrow> config_update option \<Rightarrow> ('k, 'x) agent \<Rightarrow> sync_error option \<times> ('k, 'x) agent" where
  "HandleConfigUpdate en upd ag =
     (case upd of
        None \<Rightarrow> (Some NilUpdate, ag)
      | Some cu \<Rightarrow>
          (if cu_version cu \<le> ag_version ag then (None, ag)
           else case applyConfig en cu ag of
             (Some e, ag1) \<Rightarrow> (Some e, ag1\<lparr>ag_acks := ag_acks ag1 @ [(cu_version cu, False)]\<rparr>)
           | (None, ag1) \<Rightarrow>
               (None, ag1\<lparr>ag_version := cu_version cu, ag_acks := ag_acks ag1 @ [(cu_version cu, True)]\<rparr>)))"

definition EnqueueConfigUpdate :: "config_update option \<Rightarrow> config_update option list \<Rightarrow> config_update option list" where
  "EnqueueConfigUpdate u q = (if length q < 64 then q @ [u] else q)"

interpretation update_channel: drop_newest EnqueueConfigUpdate id 64 "\<lambda>q. length q \<le> 64"
  by unfold_locales (auto simp: EnqueueConfigUpdate_def)

text \<open>The loop of Run over a sequence of events: an update arrives, or the head of the channel
  is taken out and handled.\<close>

datatype event = Arrive "config_update option" | Handle

fun agent_event :: "('k, 'x) agent_env \<Rightarrow> event \<Rightarrow> ('k, 'x) agent \<Rightarrow> ('k, 'x) agent" where
  "agent_event en (Arrive u) ag = ag\<lparr>ag_queue := EnqueueConfigUpdate u (ag_queue ag)\<rparr>"
| "agent_event en Handle ag =
     (case ag_queue ag of [] \<Rightarrow> ag
      | u # q \<Rightarrow> snd (HandleConfigUpdate en u (ag\<lparr>ag_queue := q\<rparr>)))"

definition agent_run :: "('k, 'x) agent_env \<Rightarrow> event list \<Rightarrow> ('k, 'x) agent \<Rightarrow> ('k, 'x) agent" where
  "agent_run en evs ag = fold (agent_event en) evs ag"

section \<open>Lemmas\<close>

lemma apply_frame:
  assumes "applyConfig en cu ag = (r, ag')"
  shows "ag_version ag' = ag_version ag" "ag_acks ag' = ag_acks ag" "ag_queue ag' = ag_queue ag"
  using assms
  by (auto simp: applyConfig_def apply_wg_ensure_def apply_wg_sync_def apply_xray_sync_def
      split: prod.splits option.splits if_splits)

definition confirmed :: "('k, 'x) agent \<Rightarrow> int list" where
  "confirmed ag = List.map fst (List.filter snd (ag_acks ag))"

definition in_step :: "('k, 'x) agent \<Rightarrow> bool" where
  "in_step ag \<longleftrightarrow> sorted_wrt (<) (confirmed ag) \<and> length (ag_queue ag) \<le> 64 \<and>
     (confirmed ag \<noteq> [] \<longrightarrow> last (confirmed ag) = ag_version ag)"

lemma handle_cases:
  assumes "HandleConfigUpdate en upd ag = (r, ag')"
  shows "(upd = None \<and> r = Some NilUpdate \<and> ag' = ag) \<or>
    (\<exists>cu. upd = Some cu \<and>
      (cu_version cu \<le> ag_version ag \<and> r = None \<and> ag' = ag \<or>
       ag_version ag < cu_version cu \<and> (\<exists>ag1. applyConfig en cu ag = (r, ag1) \<and>
         ag' = ag1\<lparr>ag_version := (if r = None then cu_version cu else ag_version ag),
                   ag_acks := ag_acks ag @ [(cu_version cu, r = None)]\<rparr>)))"
proof (cases upd)
  case None
  then show ?thesis using assms by (simp add: HandleConfigUpdate_def)
next
  case (Some cu)
  show ?thesis
  proof (cases "cu_version cu \<le> ag_version ag")
    case True
    then show ?thesis using assms Some by (simp add: HandleConfigUpdate_def)
  next
    case False
    obtain r1 ag1 where ap: "applyConfig en cu ag = (r1, ag1)" by fastforce
    note fr = apply_frame[OF ap]
    have "r = r1 \<and> ag' = ag1\<lparr>ag_version := (if r = None then cu_version cu else ag_version ag),
                   ag_acks := ag_acks ag @ [(cu_version cu, r = None)]\<rparr>"
    proof (cases r1)
      case None
      then show ?thesis using assms Some False ap fr by (simp add: HandleConfigUpdate_def)
    next
      case (Some e)
      then show ?thesis using assms \<open>upd = Some cu\<close> False ap fr by (auto simp: HandleConfigUpdate_def)
    qed
    then show ?thesis using Some False ap by auto
  qed
qed

lemma handle_in_step:
  assumes "in_step ag" "HandleConfigUpdate en upd ag = (r, ag')"
  shows "in_step ag' \<and> ag_version ag \<le> ag_version ag'"
proof -
  from handle_cases[OF assms(2)] consider "ag' = ag"
    | cu ag1 where "ag_version ag < cu_version cu" "applyConfig en cu ag = (r, ag1)"
      "ag' = ag1\<lparr>ag_version := (if r = None then cu_version cu else ag_version ag),
                 ag_acks := ag_acks ag @ [(cu_version cu, r = None)]\<rparr>"
    by blast
  then show ?thesis
  proof cases
    case 2
    note fr = apply_frame[OF 2(2)]
    have c: "confirmed ag' = confirmed ag @ (if r = None then [cu_version cu] else [])"
      by (simp add: confirmed_def 2(3))
    have "v \<le> ag_version ag" if "v \<in> set (confirmed ag)" for v
    proof -
      obtain w ws where l: "confirmed ag = ws @ [w]" using \<open>v \<in> set (confirmed ag)\<close>
        by (metis empty_iff list.set(1) rev_exhaust)
      then have "w = ag_version ag" using assms(1) by (simp add: in_step_def)
      then show ?thesis using that l assms(1) by (auto simp: in_step_def sorted_wrt_append)
    qed
    then have lt: "\<forall>v\<in>set (confirmed ag). v < cu_version cu" using 2(1) by fastforce
    show ?thesis
      using assms(1) 2(1) c lt fr
      by (auto simp: in_step_def sorted_wrt_append 2(3))
  qed (use assms(1) in simp)
qed

lemma event_in_step:
  assumes "in_step ag"
  shows "in_step (agent_event en ev ag) \<and> ag_version ag \<le> ag_version (agent_event en ev ag)"
proof (cases ev)
  case (Arrive u)
  then show ?thesis using assms by (simp add: in_step_def confirmed_def EnqueueConfigUpdate_def)
next
  case Handle
  show ?thesis
  proof (cases "ag_queue ag")
    case (Cons u q)
    have "in_step (ag\<lparr>ag_queue := q\<rparr>)" using assms Cons by (simp add: in_step_def confirmed_def)
    from handle_in_step[OF this prod.collapse[symmetric], of en u] show ?thesis using Handle Cons by simp
  qed (use assms Handle in simp)
qed

lemma run_in_step: "in_step ag \<Longrightarrow> in_step (agent_run en evs ag) \<and> ag_version ag \<le> ag_version (agent_run en evs ag)"
proof (induction evs arbitrary: ag)
  case (Cons ev evs)
  note 1 = event_in_step[OF Cons.prems, of en ev]
  from Cons.IH[OF conjunct1[OF 1]] 1 show ?case by (simp add: agent_run_def)
qed (simp add: agent_run_def)

section \<open>Decoding what the builder encodes\<close>

definition served_peer :: "credential \<Rightarrow> desired_peer" where
  "served_peer c = \<lparr>dp_id = c_id c, dp_key = text_or [] (c_public c), dp_psk = text_or [] (c_psk c),
     dp_allowed = allowed_ips_of c, dp_keepalive = 0\<rparr>"

definition served_client :: "credential \<Rightarrow> vless_client" where
  "served_client c = \<lparr>vc_cred = c_id c, vc_uuid = text_or [] (c_uuid c), vc_email = text_or [] (c_uuid c),
     vc_flow = (case c_flow c of None \<Rightarrow> ''xtls-rprx-vision''
                | Some f \<Rightarrow> if f = [] then ''xtls-rprx-vision'' else f)\<rparr>"

lemma awg_part_other:
  "map_of (awg_part c) ''public_key'' = None" "map_of (awg_part c) ''preshared_key'' = None"
  "map_of (awg_part c) ''allowed_ips'' = None" "map_of (awg_part c) ''keepalive'' = None"
  by (simp_all add: awg_part_def)

lemma wg_payload_fields:
  "map_of (wg_payload c) ''public_key'' = Some (JStr (text_or [] (c_public c)))"
  "map_of (wg_payload c) ''preshared_key'' =
     (if text_or [] (c_psk c) = [] then None else Some (JStr (text_or [] (c_psk c))))"
  "map_of (wg_payload c) ''allowed_ips'' = (if allowed_ips_of c = [] then None else Some (JStr (allowed_ips_of c)))"
  "map_of (wg_payload c) ''keepalive'' = None"
  by (simp_all add: wg_payload_def awg_part_other del: map_of_append)

lemma vless_payload_fields:
  "map_of (vless_payload c) ''uuid'' = Some (JStr (text_or [] (c_uuid c)))"
  "map_of (vless_payload c) ''email'' = Some (JStr (text_or [] (c_uuid c)))"
  "map_of (vless_payload c) ''flow'' = Some (JStr (vc_flow (served_client c)))"
  by (simp_all add: vless_payload_def served_client_def Let_def split: option.splits del: map_of_append)

lemma decode_served_peer:
  "decode_peer (cred_config_of c) =
     (if c_protocol c \<in> {''wireguard'', ''amneziawg''} \<and> text_or [] (c_public c) \<noteq> []
      then [served_peer c] else [])"
  by (auto simp: decode_peer_def cred_config_of_def fields_of_def get_str_def get_int_def wg_payload_fields
      served_peer_def Let_def)

lemma decode_served_client:
  "decode_client (cred_config_of c) =
     (if c_protocol c = ''vless'' \<and> text_or [] (c_uuid c) \<noteq> [] then [served_client c] else [])"
  by (simp add: decode_client_def cred_config_of_def fields_of_def get_str_def vless_payload_fields Let_def)
    (simp add: served_client_def)

definition eligible :: "uuid \<Rightarrow> time \<Rightarrow> 'a db_scheme \<Rightarrow> credential set" where
  "eligible nid now d = {c \<in> set (db_creds d). c_node c = nid \<and> cred_active now c \<and>
     (\<exists>u\<in>set (db_users d). u_id u = c_user c \<and> \<not> user_excluded now u)}"

lemma update_creds_served: "set (update_creds cu) = snd ` served cu"
  by (force simp: update_creds_def served_def)

lemma built_creds:
  assumes "db_ok d" "BuildConfig nid v full now d = Inr cu" "GetNodeByID nid d = Inr n" "serving_status n"
  shows "set (update_creds cu) = cred_config_of ` eligible nid now d"
proof -
  have "served cu = {(c_user c, cred_config_of c) | c. c \<in> eligible nid now d}"
    using build_exact[OF assms(1-3)] assms(4) by (simp add: eligible_def)
  then show ?thesis unfolding update_creds_served by force
qed

definition wg_served :: "uuid \<Rightarrow> time \<Rightarrow> 'a db_scheme \<Rightarrow> credential set" where
  "wg_served nid now d = {c \<in> eligible nid now d. c_protocol c \<in> {''wireguard'', ''amneziawg''} \<and> text_or [] (c_public c) \<noteq> []}"

definition vless_served :: "uuid \<Rightarrow> time \<Rightarrow> 'a db_scheme \<Rightarrow> credential set" where
  "vless_served nid now d = {c \<in> eligible nid now d. c_protocol c = ''vless'' \<and> text_or [] (c_uuid c) \<noteq> []}"

lemma built_desired:
  assumes "set (update_creds cu) = cred_config_of ` eligible nid now d"
  shows "set (desired_peers cu) = served_peer ` wg_served nid now d"
    "set (desired_vless cu) = served_client ` vless_served nid now d"
  using assms
  by (force simp: desired_peers_def desired_vless_def decode_served_peer decode_served_client
      wg_served_def vless_served_def split: if_splits)+

lemma dom_desired: "dom (desired_map ds) = (\<lambda>c. vc_email (normalize_client c)) ` set ds"
  unfolding desired_map_def by (subst dom_fold_upd) simp

lemma ran_desired: "desired_map ds em = Some c \<Longrightarrow> \<exists>c0\<in>set ds. c = normalize_client c0"
  by (induction ds arbitrary: c rule: rev_induct) (auto simp: desired_Nil desired_snoc split: if_splits)

lemma normalize_served:
  "text_or [] (c_uuid c) \<noteq> [] \<Longrightarrow> vc_email (normalize_client (served_client c)) = text_or [] (c_uuid c)"
  "vc_uuid (normalize_client (served_client c)) = text_or [] (c_uuid c)"
  by (simp_all add: normalize_client_def served_client_def Let_def)

lemma applied:
  assumes "applyConfig en cu ag = (None, ag')" "en_has_wg en" "en_has_xray en"
    "cl_device (en_client en) (iface_of en cu) (ag_kernel ag) = Some dev"
  shows "\<exists>m. SyncPeers (en_client en) (en_parsers en) (iface_of en cu) (desired_peers cu) (cu_full cu)
        (set_iface (iface_of en cu) dev (ag_wg ag)) (ag_kernel ag) = (None, m, ag_kernel ag') \<and> ag_wg ag' = m"
    "SyncClients (en_api en) (en_order en) (desired_vless cu) (cu_full cu) (ag_active ag) (ag_engine ag) =
       (None, ag_active ag', ag_engine ag')"
  using assms
  by (auto simp: applyConfig_def apply_wg_ensure_def apply_wg_sync_def apply_xray_sync_def EnsureInterface_def
      split: prod.splits option.splits)

section \<open>Properties\<close>

text \<open>
  C7. Version discipline of the agent. Whatever updates arrive and are handled, in whatever
  order and however many are lost to the full channel, the positively acknowledged versions are
  strictly increasing and end with the current version, which never decreases; an update that is
  not newer changes nothing; one that fails to apply leaves the version and is acknowledged
  negatively; one that applies becomes the current version.
\<close>
theorem agent_version_discipline:
  assumes "ag_acks ag0 = []" "ag_queue ag0 = []" "ag = agent_run en evs ag0"
  shows "sorted_wrt (<) (confirmed ag) \<and> (confirmed ag \<noteq> [] \<longrightarrow> last (confirmed ag) = ag_version ag) \<and>
    ag_version ag0 \<le> ag_version ag \<and> length (ag_queue ag) \<le> 64 \<and>
    (\<forall>cu. cu_version cu \<le> ag_version ag \<longrightarrow> HandleConfigUpdate en (Some cu) ag = (None, ag)) \<and>
    (\<forall>cu r ag'. ag_version ag < cu_version cu \<longrightarrow> HandleConfigUpdate en (Some cu) ag = (r, ag') \<longrightarrow>
       ag_version ag' = (if r = None then cu_version cu else ag_version ag) \<and>
       ag_acks ag' = ag_acks ag @ [(cu_version cu, r = None)])"
proof -
  have "in_step ag0" using assms(1,2) by (simp add: in_step_def confirmed_def)
  from run_in_step[OF this] have 1: "in_step ag" "ag_version ag0 \<le> ag_version ag" by (simp_all add: assms(3))
  have "ag_version ag' = (if r = None then cu_version cu else ag_version ag) \<and>
      ag_acks ag' = ag_acks ag @ [(cu_version cu, r = None)]"
    if "ag_version ag < cu_version cu" "HandleConfigUpdate en (Some cu) ag = (r, ag')" for cu r ag'
    using handle_cases[OF that(2)] that(1) by auto
  moreover have "HandleConfigUpdate en (Some cu) ag = (None, ag)" if "cu_version cu \<le> ag_version ag" for cu
    using that by (simp add: HandleConfigUpdate_def)
  ultimately show ?thesis using 1 unfolding in_step_def by blast
qed

definition demo_update :: "int \<Rightarrow> config_update" where
  "demo_update v = \<lparr>cu_version = v, cu_full = True, cu_users = [], cu_iface = Some ''wg0''\<rparr>"

definition demo_env :: "(device, engine) agent_env" where
  "demo_env = \<lparr>en_client = mock_client, en_parsers = demo_parsers, en_key = None, en_api = Some table_api,
     en_order = sorted_order, en_prefix = ''wg'', en_has_wg = True, en_has_xray = True\<rparr>"

definition demo_agent :: "(device, engine) agent" where
  "demo_agent = \<lparr>ag_version = 0, ag_queue = [], ag_wg = demo_wg, ag_kernel = [], ag_active = Map.empty,
     ag_engine = [], ag_acks = []\<rparr>"

lemma demo_run: "confirmed (agent_run (demo_env\<lparr>en_has_wg := False, en_has_xray := False\<rparr>)
    [Arrive (Some (demo_update 7)), Arrive (Some (demo_update 3)), Handle, Handle] demo_agent) = [7]"
  by (simp add: agent_run_def EnqueueConfigUpdate_def demo_agent_def demo_update_def HandleConfigUpdate_def
      applyConfig_def apply_wg_ensure_def apply_wg_sync_def apply_xray_sync_def confirmed_def demo_env_def)

lemma agent_version_discipline_witness:
  "let ag = agent_run (demo_env\<lparr>en_has_wg := False, en_has_xray := False\<rparr>)
     [Arrive (Some (demo_update 7)), Arrive (Some (demo_update 3)), Handle, Handle] demo_agent
   in confirmed ag = [7] \<and> ag_version ag = 7"
  using agent_version_discipline[of demo_agent _ "demo_env\<lparr>en_has_wg := False, en_has_xray := False\<rparr>"
      "[Arrive (Some (demo_update 7)), Arrive (Some (demo_update 3)), Handle, Handle]", OF _ _ refl] demo_run
  by (simp add: Let_def demo_agent_def)

end
