(* ===== verification/Sessions.thy ===== *)
theory Sessions
  imports Config_Builder
begin

text \<open>
  AgentSession and SessionManager (src/internal/controlplane/grpc/session.go). Sessions are
  shared by pointer between their stream handler and the manager, so the manager's state has a
  store of sessions and maps of addresses. A promise channel of a pending command is a cell of
  the session: sending to or closing a closed channel panics and sending to a full one blocks;
  both are None. The methods hold the session's or the manager's lock for their whole body, so
  each is one step.
\<close>

section \<open>Messages and sessions\<close>

record command =
  cmd_id :: string
  cmd_kind :: string
  cmd_timeout :: int

record command_result =
  res_id :: string
  res_success :: bool
  res_output :: string

datatype control_msg = ConfigMsg config_update | CommandMsg command

datatype promise = Waiting | Sent command_result | Resolved command_result | Abandoned

record session =
  s_node :: uuid
  s_name :: string
  s_sendq :: "control_msg list"
  s_closed :: bool
  s_version :: int
  s_heartbeat :: time
  s_pending :: "(string \<times> nat) list"
  s_chans :: "promise list"
  s_peer_user :: "uuid \<rightharpoonup> uuid"
  s_pub_cred :: "string \<rightharpoonup> uuid"

datatype send_error = ErrSessionClosed | ErrSessionNotFound | ErrBufferFull | ErrCommandTimeout | CtxDone

definition NewAgentSession :: "uuid \<Rightarrow> string \<Rightarrow> time \<Rightarrow> session" where
  "NewAgentSession nid name now = \<lparr>s_node = nid, s_name = name, s_sendq = [], s_closed = False,
     s_version = 0, s_heartbeat = now, s_pending = [], s_chans = [],
     s_peer_user = Map.empty, s_pub_cred = Map.empty\<rparr>"

definition CachePeerUser :: "uuid \<Rightarrow> uuid \<Rightarrow> session \<Rightarrow> session" where
  "CachePeerUser p u s = s\<lparr>s_peer_user := (s_peer_user s)(p \<mapsto> u)\<rparr>"

definition CachePubKeyCred :: "string \<Rightarrow> uuid \<Rightarrow> session \<Rightarrow> session" where
  "CachePubKeyCred k c s = s\<lparr>s_pub_cred := (s_pub_cred s)(k \<mapsto> c)\<rparr>"

definition InvalidateCaches :: "session \<Rightarrow> session" where
  "InvalidateCaches s = s\<lparr>s_peer_user := Map.empty, s_pub_cred := Map.empty\<rparr>"

definition send_cap :: nat where "send_cap = 64"

definition Send :: "control_msg \<Rightarrow> session \<Rightarrow> send_error option \<times> session" where
  "Send msg s =
     (if s_closed s then (Some ErrSessionClosed, s)
      else if length (s_sendq s) < send_cap then (None, s\<lparr>s_sendq := s_sendq s @ [msg]\<rparr>)
      else (Some ErrBufferFull, s))"

section \<open>Promise channels\<close>

fun close_chan :: "nat \<Rightarrow> promise list \<Rightarrow> promise list option" where
  "close_chan ch ps =
     (if ch < length ps then
        (case ps ! ch of
           Waiting \<Rightarrow> Some (ps[ch := Abandoned])
         | Sent r \<Rightarrow> Some (ps[ch := Resolved r])
         | Resolved _ \<Rightarrow> None
         | Abandoned \<Rightarrow> None)
      else None)"

fun send_chan :: "nat \<Rightarrow> command_result \<Rightarrow> promise list \<Rightarrow> promise list option" where
  "send_chan ch r ps =
     (if ch < length ps \<and> ps ! ch = Waiting then Some (ps[ch := Sent r]) else None)"

fun close_all :: "nat list \<Rightarrow> promise list \<Rightarrow> promise list option" where
  "close_all [] ps = Some ps"
| "close_all (ch # chs) ps = (case close_chan ch ps of None \<Rightarrow> None | Some ps' \<Rightarrow> close_all chs ps')"

definition Close :: "session \<Rightarrow> session option" where
  "Close s =
     (if s_closed s then Some s
      else (case close_all (List.map snd (s_pending s)) (s_chans s) of
              None \<Rightarrow> None
            | Some ps \<Rightarrow> Some (s\<lparr>s_closed := True, s_pending := [], s_chans := ps\<rparr>)))"

definition drop_key :: "string \<Rightarrow> (string \<times> 'a) list \<Rightarrow> (string \<times> 'a) list" where
  "drop_key k xs = List.filter (\<lambda>(i, _). i \<noteq> k) xs"

definition RegisterCommand :: "string \<Rightarrow> session \<Rightarrow> nat \<times> session" where
  "RegisterCommand cid s =
     (length (s_chans s),
      s\<lparr>s_chans := s_chans s @ [Waiting],
        s_pending := (cid, length (s_chans s)) # drop_key cid (s_pending s)\<rparr>)"

definition ResolveCommand :: "command_result \<Rightarrow> session \<Rightarrow> session option" where
  "ResolveCommand res s =
     (case map_of (s_pending s) (res_id res) of
        None \<Rightarrow> Some s
      | Some ch \<Rightarrow>
          (case send_chan ch res (s_chans s) of
             None \<Rightarrow> None
           | Some ps \<Rightarrow>
               (case close_chan ch ps of
                  None \<Rightarrow> None
                | Some ps' \<Rightarrow> Some (s\<lparr>s_chans := ps', s_pending := drop_key (res_id res) (s_pending s)\<rparr>))))"

definition UnregisterCommand :: "string \<Rightarrow> session \<Rightarrow> session option" where
  "UnregisterCommand cid s =
     (case map_of (s_pending s) cid of
        None \<Rightarrow> Some s
      | Some ch \<Rightarrow>
          (case close_chan ch (s_chans s) of
             None \<Rightarrow> None
           | Some ps \<Rightarrow> Some (s\<lparr>s_chans := ps, s_pending := drop_key cid (s_pending s)\<rparr>)))"

section \<open>The invariant of a session\<close>

text \<open>Every pending command has its own channel, which is still open and empty; the send buffer
  is within its capacity.\<close>

definition session_ok :: "session \<Rightarrow> bool" where
  "session_ok s \<longleftrightarrow> distinct (List.map fst (s_pending s)) \<and> distinct (List.map snd (s_pending s)) \<and>
     (\<forall>ch\<in>set (List.map snd (s_pending s)). ch < length (s_chans s) \<and> s_chans s ! ch = Waiting) \<and>
     length (s_sendq s) \<le> send_cap"

lemma close_all_Some:
  assumes "distinct chs" "\<forall>ch\<in>set chs. ch < length ps \<and> ps ! ch = Waiting"
  shows "\<exists>ps'. close_all chs ps = Some ps' \<and> length ps' = length ps \<and>
    (\<forall>i < length ps. ps' ! i = (if i \<in> set chs then Abandoned else ps ! i))"
  using assms
proof (induction chs arbitrary: ps)
  case (Cons ch chs)
  let ?ps = "ps[ch := Abandoned]"
  have c: "close_chan ch ps = Some ?ps" using Cons.prems by simp
  have "\<forall>x\<in>set chs. x < length ?ps \<and> ?ps ! x = Waiting" using Cons.prems by (auto simp: nth_list_update)
  from Cons.IH[OF _ this] Cons.prems obtain ps' where "close_all chs ?ps = Some ps'" "length ps' = length ps"
    "\<forall>i < length ps. ps' ! i = (if i \<in> set chs then Abandoned else ?ps ! i)" by auto
  then show ?case using c Cons.prems by (auto simp: nth_list_update)
qed simp

lemma drop_key_simps [simp]:
  "set (drop_key k xs) = {p \<in> set xs. fst p \<noteq> k}" "k \<notin> fst ` set (drop_key k xs)"
  by (auto simp: drop_key_def)

lemma drop_key_distinct:
  "distinct (List.map f xs) \<Longrightarrow> distinct (List.map f (drop_key k xs))"
  by (simp add: drop_key_def distinct_map_filter_key)

lemma New_ok [simp]: "session_ok (NewAgentSession nid name now)"
  by (simp add: session_ok_def NewAgentSession_def)

lemma Send_ok [keeps]: "session_ok s \<Longrightarrow> session_ok (snd (Send m s))"
  by (auto simp: session_ok_def Send_def)

lemma Close_ok [keeps]: "session_ok s \<Longrightarrow> \<exists>s'. Close s = Some s' \<and> session_ok s' \<and> s_closed s' \<and>
    s_node s' = s_node s \<and> s_name s' = s_name s \<and> s_sendq s' = s_sendq s \<and>
    (\<not> s_closed s \<longrightarrow> s_pending s' = [])"
  using close_all_Some[of "List.map snd (s_pending s)" "s_chans s"]
  by (auto simp: Close_def session_ok_def)

lemma Register_ok [keeps]: "session_ok s \<Longrightarrow> session_ok (snd (RegisterCommand cid s))"
  by (auto simp: session_ok_def RegisterCommand_def nth_append drop_key_distinct)

lemma session_okD:
  assumes "session_ok s"
  shows "distinct (List.map fst (s_pending s))" "distinct (List.map snd (s_pending s))"
    "p \<in> set (s_pending s) \<Longrightarrow> snd p < length (s_chans s)"
    "p \<in> set (s_pending s) \<Longrightarrow> s_chans s ! snd p = Waiting"
    "length (s_sendq s) \<le> send_cap"
  using assms by (auto simp: session_ok_def)

lemma session_okI:
  assumes "session_ok s" "set (s_pending s') \<subseteq> set (s_pending s)" "distinct (List.map fst (s_pending s'))"
    "distinct (List.map snd (s_pending s'))" "length (s_chans s') = length (s_chans s)"
    "\<And>p. p \<in> set (s_pending s') \<Longrightarrow> s_chans s' ! snd p = s_chans s ! snd p" "s_sendq s' = s_sendq s"
  shows "session_ok s'"
  unfolding session_ok_def using assms session_okD[OF assms(1)] by auto

lemma pending_chan:
  assumes "session_ok s" "map_of (s_pending s) cid = Some ch"
  shows "ch < length (s_chans s)" "s_chans s ! ch = Waiting"
    "p \<in> set (drop_key cid (s_pending s)) \<Longrightarrow> snd p \<noteq> ch"
proof -
  note d = session_okD[OF assms(1)]
  have p: "(cid, ch) \<in> set (s_pending s)" using assms(2) by (rule map_of_SomeD)
  show "ch < length (s_chans s)" "s_chans s ! ch = Waiting" using d(3,4)[OF p] by simp_all
  show "snd q \<noteq> ch" if "q \<in> set (drop_key cid (s_pending s))" for q
  proof -
    have "q \<in> set (s_pending s)" "fst q \<noteq> cid" using that by simp_all
    then show ?thesis using distinct_map_unique[OF d(2) _ p, of q] by (metis fst_conv snd_conv)
  qed
qed

lemma drop_pending_ok:
  assumes "session_ok s" "map_of (s_pending s) cid = Some ch"
  shows "session_ok (s\<lparr>s_chans := (s_chans s)[ch := v], s_pending := drop_key cid (s_pending s)\<rparr>)"
proof (rule session_okI[OF assms(1)])
  note d = session_okD[OF assms(1)]
  show "s_chans (s\<lparr>s_chans := (s_chans s)[ch := v], s_pending := drop_key cid (s_pending s)\<rparr>) ! snd p =
      s_chans s ! snd p"
    if "p \<in> set (s_pending (s\<lparr>s_chans := (s_chans s)[ch := v], s_pending := drop_key cid (s_pending s)\<rparr>))" for p
    using that pending_chan(3)[OF assms, of p] by simp
qed (use session_okD[OF assms(1)] in \<open>auto intro: drop_key_distinct\<close>)

lemma Resolve_ok [keeps]:
  assumes "session_ok s"
  shows "\<exists>s'. ResolveCommand r s = Some s' \<and> session_ok s'"
proof (cases "map_of (s_pending s) (res_id r)")
  case (Some ch)
  then show ?thesis
    using pending_chan(1,2)[OF assms Some] drop_pending_ok[OF assms Some, of "Resolved r"]
    by (simp add: ResolveCommand_def)
qed (simp add: ResolveCommand_def assms)

lemma Unregister_ok [keeps]:
  assumes "session_ok s"
  shows "\<exists>s'. UnregisterCommand c s = Some s' \<and> session_ok s'"
proof (cases "map_of (s_pending s) c")
  case (Some ch)
  then show ?thesis
    using pending_chan(1,2)[OF assms Some] drop_pending_ok[OF assms Some, of Abandoned]
    by (simp add: UnregisterCommand_def)
qed (simp add: UnregisterCommand_def assms)

text \<open>The send buffer drops the newest message when it is full.\<close>

interpretation send_buffer: drop_newest "\<lambda>m s. snd (Send m s)" s_sendq send_cap
  "\<lambda>s. session_ok s \<and> \<not> s_closed s"
  by unfold_locales (auto simp: Send_ok Send_def session_ok_def)

section \<open>The manager\<close>

record manager =
  sm_heap :: "nat \<rightharpoonup> session"
  sm_sessions :: "(uuid \<times> nat) list"
  sm_byName :: "string \<rightharpoonup> uuid"

definition sm_get :: "manager \<Rightarrow> uuid \<Rightarrow> (nat \<times> session) option" where
  "sm_get m nid = (case map_of (sm_sessions m) nid of None \<Rightarrow> None
     | Some a \<Rightarrow> map_option (\<lambda>s. (a, s)) (sm_heap m a))"

definition sm_get_by_name :: "manager \<Rightarrow> string \<Rightarrow> (nat \<times> session) option" where
  "sm_get_by_name m name = (case sm_byName m name of None \<Rightarrow> None | Some nid \<Rightarrow> sm_get m nid)"

definition sm_close :: "nat \<Rightarrow> manager \<Rightarrow> manager option" where
  "sm_close a m = (case sm_heap m a of None \<Rightarrow> None
     | Some s \<Rightarrow> (case Close s of None \<Rightarrow> None | Some s' \<Rightarrow> Some (m\<lparr>sm_heap := (sm_heap m)(a \<mapsto> s')\<rparr>)))"

text \<open>The shared part of the three evictions: close, delete the name, delete the entry.\<close>

definition sm_evict :: "uuid \<Rightarrow> nat \<Rightarrow> manager \<Rightarrow> manager option" where
  "sm_evict nid a m =
     (case sm_heap m a of None \<Rightarrow> None
      | Some s \<Rightarrow> (case sm_close a m of None \<Rightarrow> None
          | Some m' \<Rightarrow> Some (m'\<lparr>sm_byName := (sm_byName m')(s_name s := None),
                              sm_sessions := drop_key nid (sm_sessions m')\<rparr>)))"

definition sm_register :: "nat \<Rightarrow> manager \<Rightarrow> manager option" where
  "sm_register a m =
     (case sm_heap m a of None \<Rightarrow> None
      | Some s \<Rightarrow>
          (case (case sm_get m (s_node s) of
                   None \<Rightarrow> Some m
                 | Some (old, os) \<Rightarrow>
                     (case sm_close old m of None \<Rightarrow> None
                      | Some m' \<Rightarrow> Some (m'\<lparr>sm_byName := (sm_byName m')(s_name os := None)\<rparr>))) of
             None \<Rightarrow> None
           | Some m' \<Rightarrow> Some (m'\<lparr>sm_sessions := (s_node s, a) # drop_key (s_node s) (sm_sessions m'),
                               sm_byName := (sm_byName m')(s_name s \<mapsto> s_node s)\<rparr>)))"

definition sm_unregister_session :: "nat \<Rightarrow> manager \<Rightarrow> (bool \<times> manager) option" where
  "sm_unregister_session a m =
     (case sm_heap m a of None \<Rightarrow> None
      | Some s \<Rightarrow>
          if map_of (sm_sessions m) (s_node s) = Some a
          then map_option (\<lambda>m'. (True, m')) (sm_evict (s_node s) a m)
          else Some (False, m))"

definition sm_unregister :: "uuid \<Rightarrow> manager \<Rightarrow> manager option" where
  "sm_unregister nid m =
     (case map_of (sm_sessions m) nid of None \<Rightarrow> Some m | Some a \<Rightarrow> sm_evict nid a m)"

fun sm_sweep :: "time \<Rightarrow> time \<Rightarrow> (uuid \<times> nat) list \<Rightarrow> manager \<Rightarrow> (uuid list \<times> manager) option" where
  "sm_sweep now timeout [] m = Some ([], m)"
| "sm_sweep now timeout ((nid, a) # es) m =
     (case sm_heap m a of None \<Rightarrow> None
      | Some s \<Rightarrow>
          if now - s_heartbeat s < timeout then sm_sweep now timeout es m
          else (case sm_evict nid a m of None \<Rightarrow> None
                | Some m' \<Rightarrow> map_option (\<lambda>(ids, m''). (nid # ids, m'')) (sm_sweep now timeout es m')))"

definition SweepInactive :: "time \<Rightarrow> time \<Rightarrow> manager \<Rightarrow> (uuid list \<times> manager) option" where
  "SweepInactive now timeout m = sm_sweep now timeout (sm_sessions m) m"

definition sm_on_session :: "nat \<Rightarrow> (session \<Rightarrow> session option) \<Rightarrow> manager \<Rightarrow> manager option" where
  "sm_on_session a f m = (case sm_heap m a of None \<Rightarrow> None
     | Some s \<Rightarrow> map_option (\<lambda>s'. m\<lparr>sm_heap := (sm_heap m)(a \<mapsto> s')\<rparr>) (f s))"

fun sm_broadcast :: "control_msg \<Rightarrow> nat list \<Rightarrow> manager \<Rightarrow> manager option" where
  "sm_broadcast msg [] m = Some m"
| "sm_broadcast msg (a # as) m =
     (case sm_on_session a (\<lambda>s. Some (snd (Send msg s))) m of None \<Rightarrow> None | Some m' \<Rightarrow> sm_broadcast msg as m')"

definition Broadcast :: "control_msg \<Rightarrow> manager \<Rightarrow> manager option" where
  "Broadcast msg m = sm_broadcast msg (List.map snd (sm_sessions m)) m"

section \<open>Commands\<close>

text \<open>SendCommand: the promise is registered, then the command is sent; a failed send runs the
  deferred UnregisterCommand. The wait ends with the first of three events.\<close>

definition command_timeout :: "command \<Rightarrow> time" where
  "command_timeout c = (if cmd_timeout c > 0 then cmd_timeout c * second else 30 * second)"

definition dispatch_command :: "command \<Rightarrow> session \<Rightarrow> ((send_error + nat) \<times> session) option" where
  "dispatch_command c s =
     (case RegisterCommand (cmd_id c) s of (ch, s1) \<Rightarrow>
        (case Send (CommandMsg c) s1 of
           (None, s2) \<Rightarrow> Some (Inr ch, s2)
         | (Some e, s2) \<Rightarrow> map_option (\<lambda>s3. (Inl e, s3)) (UnregisterCommand (cmd_id c) s2)))"

datatype wait_event = ContextDone | TimerFired | ChannelReady

definition await_command :: "wait_event \<Rightarrow> nat \<Rightarrow> session \<Rightarrow> (send_error + command_result) option" where
  "await_command ev ch s =
     (case ev of
        ContextDone \<Rightarrow> Some (Inl CtxDone)
      | TimerFired \<Rightarrow> Some (Inl ErrCommandTimeout)
      | ChannelReady \<Rightarrow>
          (case s_chans s ! ch of
             Waiting \<Rightarrow> None
           | Sent r \<Rightarrow> Some (Inr r)
           | Resolved r \<Rightarrow> Some (Inr r)
           | Abandoned \<Rightarrow> Some (Inl ErrSessionClosed)))"

section \<open>Reachable managers\<close>

definition mgr_ok :: "manager \<Rightarrow> bool" where
  "mgr_ok m \<longleftrightarrow> distinct (List.map fst (sm_sessions m)) \<and>
     (\<forall>nid a. (nid, a) \<in> set (sm_sessions m) \<longrightarrow>
        (\<exists>s. sm_heap m a = Some s \<and> s_node s = nid \<and> \<not> s_closed s)) \<and>
     (\<forall>name nid. sm_byName m name = Some nid \<longrightarrow>
        (\<exists>a s. (nid, a) \<in> set (sm_sessions m) \<and> sm_heap m a = Some s \<and> s_name s = name)) \<and>
     (\<forall>a s. sm_heap m a = Some s \<longrightarrow> session_ok s)"

lemma mgr_okD:
  assumes "mgr_ok m"
  shows "distinct (List.map fst (sm_sessions m))"
    "(nid, a) \<in> set (sm_sessions m) \<Longrightarrow> \<exists>s. sm_heap m a = Some s \<and> s_node s = nid \<and> \<not> s_closed s"
    "sm_byName m name = Some nid \<Longrightarrow>
       \<exists>a s. (nid, a) \<in> set (sm_sessions m) \<and> sm_heap m a = Some s \<and> s_name s = name"
    "sm_heap m a = Some s \<Longrightarrow> session_ok s"
  using assms by (auto simp: mgr_ok_def)

definition empty_manager :: manager where
  "empty_manager = \<lparr>sm_heap = Map.empty, sm_sessions = [], sm_byName = Map.empty\<rparr>"

lemma empty_manager_ok [simp]: "mgr_ok empty_manager"
  by (simp add: mgr_ok_def empty_manager_def)

text \<open>An update of one session in place that keeps its identity and, when it is registered,
  keeps it open.\<close>

lemma heap_update_ok:
  assumes m: "mgr_ok m" and s: "sm_heap m a = Some s" "session_ok s'" "s_node s' = s_node s"
    "s_name s' = s_name s" "s_closed s' \<Longrightarrow> s_closed s"
  shows "mgr_ok (m\<lparr>sm_heap := (sm_heap m)(a \<mapsto> s')\<rparr>)"
proof -
  note d = mgr_okD[OF m]
  have "\<exists>t. ((sm_heap m)(a \<mapsto> s')) b = Some t \<and> s_node t = nid \<and> \<not> s_closed t"
    if "(nid, b) \<in> set (sm_sessions m)" for nid b
    using d(2)[OF that] s by auto
  moreover have "\<exists>b t. (nid, b) \<in> set (sm_sessions m) \<and> ((sm_heap m)(a \<mapsto> s')) b = Some t \<and> s_name t = name"
    if "sm_byName m name = Some nid" for name nid
    using d(3)[OF that] s by (metis fun_upd_apply option.inject)
  ultimately show ?thesis using d(1,4) s(2) by (simp add: mgr_ok_def)
qed

lemma evict_ok:
  assumes m: "mgr_ok m" and a: "(nid, a) \<in> set (sm_sessions m)"
  shows "\<exists>m'. sm_evict nid a m = Some m' \<and> mgr_ok m' \<and> sm_sessions m' = drop_key nid (sm_sessions m) \<and>
    (\<exists>s. sm_heap m' a = Some s \<and> s_closed s) \<and> (\<forall>b. b \<noteq> a \<longrightarrow> sm_heap m' b = sm_heap m b)"
proof -
  note d = mgr_okD[OF m]
  obtain s where s: "sm_heap m a = Some s" "s_node s = nid" "\<not> s_closed s" using d(2)[OF a] by blast
  obtain s' where s': "Close s = Some s'" "session_ok s'" "s_closed s'" "s_node s' = nid" "s_name s' = s_name s"
    using Close_ok[OF d(4)[OF s(1)]] s by auto
  let ?m = "m\<lparr>sm_heap := (sm_heap m)(a \<mapsto> s'), sm_byName := (sm_byName m)(s_name s := None),
     sm_sessions := drop_key nid (sm_sessions m)\<rparr>"
  have ev: "sm_evict nid a m = Some ?m" by (simp add: sm_evict_def sm_close_def s s')
  have other: "b \<noteq> a" if "(n, b) \<in> set (sm_sessions m)" "n \<noteq> nid" for n b
    using d(2)[OF that(1)] s that(2) by auto
  have "mgr_ok ?m"
    unfolding mgr_ok_def
  proof (intro conjI allI impI)
    show "distinct (List.map fst (sm_sessions ?m))" using d(1) by (simp add: drop_key_distinct)
    show "\<exists>t. sm_heap ?m b = Some t \<and> s_node t = n \<and> \<not> s_closed t" if "(n, b) \<in> set (sm_sessions ?m)" for n b
      using that other[of n b] d(2)[of n b] by auto
    show "\<exists>b t. (n, b) \<in> set (sm_sessions ?m) \<and> sm_heap ?m b = Some t \<and> s_name t = name"
      if n: "sm_byName ?m name = Some n" for name n
    proof -
      have nn: "name \<noteq> s_name s" "sm_byName m name = Some n" using n by (auto split: if_splits)
      then obtain b t where b: "(n, b) \<in> set (sm_sessions m)" "sm_heap m b = Some t" "s_name t = name"
        using d(3) by blast
      then have "b \<noteq> a" using s nn by auto
      moreover have "n \<noteq> nid"
        using b(1) a \<open>b \<noteq> a\<close> d(1) by (metis eq_key_imp_eq_value)
      ultimately show ?thesis using b by auto
    qed
    show "session_ok t" if "sm_heap ?m b = Some t" for b t
      using that s'(2) d(4)[of b t] by (auto split: if_splits)
  qed
  then show ?thesis using ev s' by auto
qed

lemma register_ok:
  assumes m: "mgr_ok m" and fresh: "sm_heap m a = None" and so: "session_ok s" "\<not> s_closed s"
  defines "m0 \<equiv> m\<lparr>sm_heap := (sm_heap m)(a \<mapsto> s)\<rparr>"
  shows "\<exists>m'. sm_register a m0 = Some m' \<and> mgr_ok m' \<and>
    map_of (sm_sessions m') (s_node s) = Some a \<and> sm_heap m' a = Some s \<and>
    sm_byName m' (s_name s) = Some (s_node s) \<and>
    (\<forall>n. n \<noteq> s_node s \<longrightarrow> map_of (sm_sessions m') n = map_of (sm_sessions m) n) \<and>
    (\<forall>old os. map_of (sm_sessions m) (s_node s) = Some old \<longrightarrow>
       (\<exists>os. sm_heap m' old = Some os \<and> s_closed os))"
proof -
  note d = mgr_okD[OF m]
  let ?nid = "s_node s"
  have drop: "map_of (drop_key k xs) n = (if n = k then None else map_of xs n)" for k n and xs :: "(string \<times> nat) list"
    by (induction xs) (auto simp: drop_key_def)
  have notin: "b \<noteq> a" if "(n, b) \<in> set (sm_sessions m)" for n b using d(2)[OF that] fresh by auto
  show ?thesis
  proof (cases "map_of (sm_sessions m) ?nid")
    case None
    then have g: "sm_get m0 ?nid = None" by (simp add: sm_get_def m0_def)
    let ?m = "m0\<lparr>sm_sessions := (?nid, a) # drop_key ?nid (sm_sessions m0),
       sm_byName := (sm_byName m0)(s_name s \<mapsto> ?nid)\<rparr>"
    have "sm_heap m0 a = Some s" by (simp add: m0_def)
    then have r: "sm_register a m0 = Some ?m" by (simp add: sm_register_def g)
    have none: "(?nid, b) \<notin> set (sm_sessions m)" for b
      using None d(1) by (metis map_of_is_SomeI option.distinct(1))
    have "mgr_ok ?m"
      unfolding mgr_ok_def
    proof (intro conjI allI impI)
      show "distinct (List.map fst (sm_sessions ?m))" using d(1) by (auto simp: drop_key_distinct m0_def)
      show "\<exists>t. sm_heap ?m b = Some t \<and> s_node t = n \<and> \<not> s_closed t"
        if "(n, b) \<in> set (sm_sessions ?m)" for n b
        using that so(2) notin[of n b] d(2)[of n b] by (auto simp: m0_def)
      show "\<exists>b t. (n, b) \<in> set (sm_sessions ?m) \<and> sm_heap ?m b = Some t \<and> s_name t = name"
        if q: "sm_byName ?m name = Some n" for name n
      proof (cases "name = s_name s")
        case False
        then have "sm_byName m name = Some n" using q by (simp add: m0_def)
        then obtain b t where "(n, b) \<in> set (sm_sessions m)" "sm_heap m b = Some t" "s_name t = name"
          using d(3)[of name n] by blast
        then show ?thesis using none notin[of n b] by (intro exI[of _ b] exI[of _ t]) (auto simp: m0_def)
      qed (use q in \<open>auto simp: m0_def\<close>)
      show "session_ok t" if "sm_heap ?m b = Some t" for b t
        using that so(1) d(4)[of b t] by (auto simp: m0_def split: if_splits)
    qed
    then show ?thesis using r None by (auto simp: m0_def drop)
  next
    case (Some old)
    then have o: "(?nid, old) \<in> set (sm_sessions m)" by (rule map_of_SomeD)
    then obtain os where os: "sm_heap m old = Some os" "s_node os = ?nid" "\<not> s_closed os" using d(2) by blast
    have na: "old \<noteq> a" using notin[OF o] .
    obtain os' where c: "Close os = Some os'" "session_ok os'" "s_closed os'" using Close_ok[OF d(4)[OF os(1)]] by auto
    have g: "sm_get m0 ?nid = Some (old, os)" using Some os(1) na by (simp add: sm_get_def m0_def)
    let ?m = "m0\<lparr>sm_heap := (sm_heap m0)(old \<mapsto> os'),
       sm_sessions := (?nid, a) # drop_key ?nid (sm_sessions m0),
       sm_byName := ((sm_byName m0)(s_name os := None))(s_name s \<mapsto> ?nid)\<rparr>"
    have "sm_heap m0 a = Some s" "sm_heap m0 old = Some os" using os(1) na by (simp_all add: m0_def)
    then have r: "sm_register a m0 = Some ?m" using c(1)
      by (simp add: sm_register_def sm_close_def g)
    have other: "b \<noteq> old" if "(n, b) \<in> set (sm_sessions m)" "n \<noteq> ?nid" for n b
      using d(2)[OF that(1)] os that(2) by auto
    have "mgr_ok ?m"
      unfolding mgr_ok_def
    proof (intro conjI allI impI)
      show "distinct (List.map fst (sm_sessions ?m))" using d(1) by (auto simp: drop_key_distinct m0_def)
      show "\<exists>t. sm_heap ?m b = Some t \<and> s_node t = n \<and> \<not> s_closed t"
        if "(n, b) \<in> set (sm_sessions ?m)" for n b
        using that so(2) na notin[of n b] other[of n b] d(2)[of n b] by (auto simp: m0_def)
      show "\<exists>b t. (n, b) \<in> set (sm_sessions ?m) \<and> sm_heap ?m b = Some t \<and> s_name t = name"
        if q: "sm_byName ?m name = Some n" for name n
      proof (cases "name = s_name s")
        case True
        then show ?thesis using q na by (intro exI[of _ a] exI[of _ s]) (auto simp: m0_def)
      next
        case False
        then have "sm_byName m name = Some n" "name \<noteq> s_name os" using q by (auto simp: m0_def split: if_splits)
        then obtain b t where b: "(n, b) \<in> set (sm_sessions m)" "sm_heap m b = Some t" "s_name t = name"
          using d(3)[of name n] by blast
        then have "b \<noteq> old" using os(1) \<open>name \<noteq> s_name os\<close> by auto
        moreover have "n \<noteq> ?nid" using b(1) o d(1) \<open>b \<noteq> old\<close> by (metis eq_key_imp_eq_value)
        ultimately show ?thesis using b notin[of n b] by (intro exI[of _ b] exI[of _ t]) (auto simp: m0_def)
      qed
      show "session_ok t" if "sm_heap ?m b = Some t" for b t
        using that so(1) c(2) d(4)[of b t] by (auto simp: m0_def split: if_splits)
    qed
    then show ?thesis using r Some c(3) na by (auto simp: m0_def drop)
  qed
qed

lemma sweep_ok:
  assumes "mgr_ok m" "set es \<subseteq> set (sm_sessions m)" "distinct (List.map fst es)"
  shows "\<exists>ids m'. sm_sweep now timeout es m = Some (ids, m') \<and> mgr_ok m' \<and>
    set (sm_sessions m') = set (sm_sessions m) - {e \<in> set es. fst e \<in> set ids} \<and>
    set ids = {nid. \<exists>a s. (nid, a) \<in> set es \<and> sm_heap m a = Some s \<and> \<not> now - s_heartbeat s < timeout}"
  using assms
proof (induction es arbitrary: m)
  case (Cons e es)
  obtain nid a where e: "e = (nid, a)" by (cases e)
  have a: "(nid, a) \<in> set (sm_sessions m)" using Cons.prems e by auto
  obtain s where s: "sm_heap m a = Some s" using mgr_okD(2)[OF Cons.prems(1) a] by blast
  have key: "b = a" if "(nid, b) \<in> set (sm_sessions m)" for b
    using that a mgr_okD(1)[OF Cons.prems(1)] by (metis eq_key_imp_eq_value)
  show ?case
  proof (cases "now - s_heartbeat s < timeout")
    case True
    obtain ids m' where r: "sm_sweep now timeout es m = Some (ids, m')" "mgr_ok m'"
      "set (sm_sessions m') = set (sm_sessions m) - {e \<in> set es. fst e \<in> set ids}"
      "set ids = {nid. \<exists>a s. (nid, a) \<in> set es \<and> sm_heap m a = Some s \<and> \<not> now - s_heartbeat s < timeout}"
      using Cons.IH[OF Cons.prems(1)] Cons.prems(2,3) by auto
    have "nid \<notin> set ids" using r(4) Cons.prems(3) e by force
    moreover have "set ids = {n. \<exists>b t. (n, b) \<in> set (e # es) \<and> sm_heap m b = Some t \<and> \<not> now - s_heartbeat t < timeout}"
      unfolding r(4) using True s e by auto
    ultimately show ?thesis using r(1-3) True s e by auto
  next
    case False
    obtain m1 where m1: "sm_evict nid a m = Some m1" "mgr_ok m1" "sm_sessions m1 = drop_key nid (sm_sessions m)"
      "\<And>b. b \<noteq> a \<Longrightarrow> sm_heap m1 b = sm_heap m b" using evict_ok[OF Cons.prems(1) a] by auto
    have nd: "fst x \<noteq> nid" if "x \<in> set es" for x using Cons.prems(3) e that by auto
    have hb: "sm_heap m1 b = sm_heap m b" if "(n, b) \<in> set es" for n b
    proof -
      have "(n, b) \<in> set (sm_sessions m)" using that Cons.prems(2) by auto
      then have "b \<noteq> a" using nd[OF that] mgr_okD(2)[OF Cons.prems(1), of n b]
          mgr_okD(2)[OF Cons.prems(1) a] by auto
      then show ?thesis by (rule m1(4))
    qed
    have sub: "set es \<subseteq> set (sm_sessions m1)" using Cons.prems(2) nd m1(3) by auto
    obtain ids m' where r: "sm_sweep now timeout es m1 = Some (ids, m')" "mgr_ok m'"
      "set (sm_sessions m') = set (sm_sessions m1) - {e \<in> set es. fst e \<in> set ids}"
      "set ids = {nid. \<exists>a s. (nid, a) \<in> set es \<and> sm_heap m1 a = Some s \<and> \<not> now - s_heartbeat s < timeout}"
      using Cons.IH[OF m1(2) sub] Cons.prems(3) by auto
    have sw: "sm_sweep now timeout (e # es) m = Some (nid # ids, m')" using e s False m1(1) r(1) by simp
    have "set (nid # ids) = {n. \<exists>b t. (n, b) \<in> set (e # es) \<and> sm_heap m b = Some t \<and> \<not> now - s_heartbeat t < timeout}"
      using r(4) hb False s e by auto
    moreover have pe: "p = e" if "p \<in> set (sm_sessions m)" "fst p = nid" for p
      using that key e by (metis prod.collapse)
    have "fst e = nid" using e by simp
    then have "set (sm_sessions m') = set (sm_sessions m) - {x \<in> set (e # es). fst x \<in> set (nid # ids)}"
      unfolding r(3) m1(3) drop_key_simps
    proof (intro set_eqI)
      fix p
      show "p \<in> {p \<in> set (sm_sessions m). fst p \<noteq> nid} - {e \<in> set es. fst e \<in> set ids} \<longleftrightarrow>
          p \<in> set (sm_sessions m) - {x \<in> set (e # es). fst x \<in> set (nid # ids)}"
        using pe[of p] \<open>fst e = nid\<close> by (cases "fst p = nid") auto
    qed
    ultimately show ?thesis using sw r(2) by blast
  qed
qed simp

text \<open>The life of a manager: streams connect (a fresh session is registered) and end, sessions are
  evicted by node or by the sweep, messages are broadcast, and an open or closed session is used by
  its handler and by command senders.\<close>

definition session_uses :: "(session \<Rightarrow> session option) set" where
  "session_uses =
     {f. \<exists>m. f = (\<lambda>s. Some (snd (Send m s)))} \<union> {f. \<exists>r. f = ResolveCommand r} \<union>
     {f. \<exists>c. f = UnregisterCommand c} \<union> {f. \<exists>c. f = (\<lambda>s. map_option snd (dispatch_command c s))} \<union>
     {f. \<exists>t. f = (\<lambda>s. Some (s\<lparr>s_heartbeat := t\<rparr>))} \<union> {f. \<exists>v. f = (\<lambda>s. Some (s\<lparr>s_version := v\<rparr>))} \<union>
     {f. \<exists>p u. f = (\<lambda>s. Some (CachePeerUser p u s))} \<union> {f. \<exists>k c. f = (\<lambda>s. Some (CachePubKeyCred k c s))} \<union>
     {\<lambda>s. Some (InvalidateCaches s)}"

inductive mgr_step :: "manager \<Rightarrow> manager option \<Rightarrow> bool" where
  connect: "sm_heap m a = None \<Longrightarrow>
    mgr_step m (sm_register a (m\<lparr>sm_heap := (sm_heap m)(a \<mapsto> NewAgentSession nid name now)\<rparr>))"
| stream_end: "sm_heap m a \<noteq> None \<Longrightarrow> mgr_step m (map_option snd (sm_unregister_session a m))"
| unregister: "mgr_step m (sm_unregister nid m)"
| sweep: "mgr_step m (map_option snd (SweepInactive now timeout m))"
| broadcast: "mgr_step m (Broadcast msg m)"
| use: "sm_heap m a \<noteq> None \<Longrightarrow> f \<in> session_uses \<Longrightarrow> mgr_step m (sm_on_session a f m)"

inductive mgr_reach :: "manager option \<Rightarrow> bool" where
  start: "mgr_reach (Some empty_manager)"
| step: "mgr_reach (Some m) \<Longrightarrow> mgr_step m r \<Longrightarrow> mgr_reach r"

lemma command_ids:
  "UnregisterCommand c s = Some s' \<Longrightarrow> s_node s' = s_node s \<and> s_name s' = s_name s \<and> s_closed s' = s_closed s"
  "ResolveCommand r s = Some s' \<Longrightarrow> s_node s' = s_node s \<and> s_name s' = s_name s \<and> s_closed s' = s_closed s"
  by (auto simp: UnregisterCommand_def ResolveCommand_def simp del: close_chan.simps send_chan.simps
      split: option.splits)

lemma dispatch_ok:
  assumes "session_ok s"
  shows "\<exists>r s'. dispatch_command c s = Some (r, s') \<and> session_ok s' \<and> s_node s' = s_node s \<and>
    s_name s' = s_name s \<and> s_closed s' = s_closed s"
proof -
  obtain ch s1 where 1: "RegisterCommand (cmd_id c) s = (ch, s1)" by (cases "RegisterCommand (cmd_id c) s")
  have s1: "session_ok s1" "s_node s1 = s_node s" "s_name s1 = s_name s" "s_closed s1 = s_closed s"
    using Register_ok[OF assms, of "cmd_id c"] 1 by (auto simp: RegisterCommand_def)
  obtain e s2 where 2: "Send (CommandMsg c) s1 = (e, s2)" by (cases "Send (CommandMsg c) s1")
  have s2: "session_ok s2" "s_node s2 = s_node s" "s_name s2 = s_name s" "s_closed s2 = s_closed s"
    using Send_ok[OF s1(1), of "CommandMsg c"] 2 s1 by (auto simp: Send_def split: if_splits)
  obtain s3 where 3: "UnregisterCommand (cmd_id c) s2 = Some s3" "session_ok s3"
    using Unregister_ok[OF s2(1)] by blast
  then have "s_node s3 = s_node s" "s_name s3 = s_name s" "s_closed s3 = s_closed s"
    using s2 command_ids(1)[OF 3(1)] by simp_all
  then show ?thesis using 1 2 3 s2 by (cases e) (simp_all add: dispatch_command_def)
qed

lemma session_uses_ok:
  assumes "f \<in> session_uses" "session_ok s"
  shows "\<exists>s'. f s = Some s' \<and> session_ok s' \<and> s_node s' = s_node s \<and> s_name s' = s_name s \<and>
    s_closed s' = s_closed s"
proof -
  have "\<exists>s'. ResolveCommand r s = Some s' \<and> session_ok s' \<and> s_node s' = s_node s \<and> s_name s' = s_name s \<and>
    s_closed s' = s_closed s" for r
    using Resolve_ok[OF assms(2), of r] command_ids(2) by blast
  moreover have "\<exists>s'. UnregisterCommand c s = Some s' \<and> session_ok s' \<and> s_node s' = s_node s \<and>
    s_name s' = s_name s \<and> s_closed s' = s_closed s" for c
    using Unregister_ok[OF assms(2), of c] command_ids(1) by blast
  moreover have "session_ok (snd (Send m s)) \<and> s_node (snd (Send m s)) = s_node s \<and>
    s_name (snd (Send m s)) = s_name s \<and> s_closed (snd (Send m s)) = s_closed s" for m
    using Send_ok[OF assms(2)] by (auto simp: Send_def)
  moreover have "\<exists>s'. map_option snd (dispatch_command c s) = Some s' \<and> session_ok s' \<and> s_node s' = s_node s \<and>
    s_name s' = s_name s \<and> s_closed s' = s_closed s" for c
    using dispatch_ok[OF assms(2), of c] by auto
  moreover have "session_ok (s\<lparr>s_heartbeat := t\<rparr>)" "session_ok (s\<lparr>s_version := v\<rparr>)"
    "session_ok (CachePeerUser p u s)" "session_ok (CachePubKeyCred k c s)" "session_ok (InvalidateCaches s)"
    for t v p u k c
    using assms(2)
    by (simp_all add: session_ok_def CachePeerUser_def CachePubKeyCred_def InvalidateCaches_def)
  ultimately show ?thesis
    using assms(1) unfolding session_uses_def
    by (elim UnE CollectE exE singletonE)
      (simp_all add: CachePeerUser_def CachePubKeyCred_def InvalidateCaches_def)
qed

lemma on_session_ok:
  assumes "mgr_ok m" "sm_heap m a \<noteq> None" "f \<in> session_uses"
  shows "\<exists>m'. sm_on_session a f m = Some m' \<and> mgr_ok m' \<and> sm_sessions m' = sm_sessions m"
proof -
  obtain s where s: "sm_heap m a = Some s" using assms(2) by blast
  obtain s' where s': "f s = Some s'" "session_ok s'" "s_node s' = s_node s" "s_name s' = s_name s"
    "s_closed s' = s_closed s" using session_uses_ok[OF assms(3) mgr_okD(4)[OF assms(1) s]] by blast
  show ?thesis using heap_update_ok[OF assms(1) s s'(2-4)] s'(1,5) s by (simp add: sm_on_session_def)
qed

lemma broadcast_ok:
  "mgr_ok m \<Longrightarrow> set as \<subseteq> snd ` set (sm_sessions m) \<Longrightarrow> \<exists>m'. sm_broadcast msg as m = Some m' \<and> mgr_ok m'"
proof (induction "as" arbitrary: m)
  case (Cons a "as")
  then obtain nid where "(nid, a) \<in> set (sm_sessions m)" by auto
  then have "sm_heap m a \<noteq> None" using mgr_okD(2)[OF Cons.prems(1)] by fastforce
  moreover have "(\<lambda>s. Some (snd (Send msg s))) \<in> session_uses" by (auto simp: session_uses_def)
  ultimately obtain m1 where "sm_on_session a (\<lambda>s. Some (snd (Send msg s))) m = Some m1" "mgr_ok m1"
    "sm_sessions m1 = sm_sessions m" using on_session_ok[OF Cons.prems(1)] by blast
  then show ?case using Cons.IH[of m1] Cons.prems(2) by auto
qed simp

lemma mgr_step_ok:
  assumes "mgr_step m r" "mgr_ok m"
  shows "\<exists>m'. r = Some m' \<and> mgr_ok m'"
  using assms(1)
proof cases
  case (connect a nid name now)
  then show ?thesis
    using register_ok[OF assms(2) connect(2) New_ok, of nid name now]
    by (auto simp: NewAgentSession_def)
next
  case (stream_end a)
  then obtain s where "sm_heap m a = Some s" by blast
  then show ?thesis
    using stream_end evict_ok[OF assms(2), of "s_node s" a] assms(2)
    by (auto simp: sm_unregister_session_def dest: map_of_SomeD)
next
  case (unregister nid)
  then show ?thesis
    using evict_ok[OF assms(2), of nid] assms(2)
    by (auto simp: sm_unregister_def dest!: map_of_SomeD split: option.splits)
next
  case (sweep now timeout)
  then show ?thesis
    using sweep_ok[OF assms(2) subset_refl mgr_okD(1)[OF assms(2)], of now timeout]
    by (auto simp: SweepInactive_def)
next
  case (broadcast msg)
  then show ?thesis
    using broadcast_ok[OF assms(2), of "List.map snd (sm_sessions m)" msg] by (auto simp: Broadcast_def)
next
  case (use a f)
  then show ?thesis using on_session_ok[OF assms(2)] by blast
qed

lemma mgr_reach_ok: "mgr_reach r \<Longrightarrow> \<exists>m. r = Some m \<and> mgr_ok m"
proof (induction rule: mgr_reach.induct)
  case (step m r)
  then show ?case using mgr_step_ok by simp
qed simp

section \<open>Properties\<close>

text \<open>
  C8. The session registry. In every reachable state of the manager no operation has panicked
  (a promise channel is never closed twice, never sent to after closing, and the sender never
  blocks); a node has at most one registered session, which is open and carries the node's
  identifier; and a name in the index leads to the open session of that name. Send buffers
  never exceed their capacity.
\<close>
theorem session_registry_safe:
  assumes "mgr_reach r"
  shows "\<exists>m. r = Some m \<and> distinct (List.map fst (sm_sessions m)) \<and>
    (\<forall>(nid, a) \<in> set (sm_sessions m). \<exists>s. sm_get m nid = Some (a, s) \<and> s_node s = nid \<and> \<not> s_closed s) \<and>
    (\<forall>name. sm_byName m name \<noteq> None \<longrightarrow>
       (\<exists>a s. sm_get_by_name m name = Some (a, s) \<and> s_name s = name \<and> \<not> s_closed s)) \<and>
    (\<forall>a s. sm_heap m a = Some s \<longrightarrow> length (s_sendq s) \<le> 64)"
proof -
  obtain m where m: "r = Some m" "mgr_ok m" using mgr_reach_ok[OF assms] by blast
  note d = mgr_okD[OF m(2)]
  have get: "\<exists>s. sm_get m nid = Some (a, s) \<and> sm_heap m a = Some s \<and> s_node s = nid \<and> \<not> s_closed s"
    if "(nid, a) \<in> set (sm_sessions m)" for nid a
    using d(2)[OF that] map_of_is_SomeI[OF d(1) that] by (auto simp: sm_get_def)
  have "\<exists>a s. sm_get_by_name m name = Some (a, s) \<and> s_name s = name \<and> \<not> s_closed s"
    if n: "sm_byName m name = Some nid" for name nid
  proof -
    obtain a s where a: "(nid, a) \<in> set (sm_sessions m)" "sm_heap m a = Some s" "s_name s = name"
      using d(3)[OF n] by blast
    then show ?thesis using get[OF a(1)] n by (auto simp: sm_get_by_name_def)
  qed
  then have "\<forall>name. sm_byName m name \<noteq> None \<longrightarrow>
      (\<exists>a s. sm_get_by_name m name = Some (a, s) \<and> s_name s = name \<and> \<not> s_closed s)" by blast
  moreover have "\<forall>(nid, a) \<in> set (sm_sessions m). \<exists>s. sm_get m nid = Some (a, s) \<and> s_node s = nid \<and> \<not> s_closed s"
    using get by fast
  moreover have "\<forall>a s. sm_heap m a = Some s \<longrightarrow> length (s_sendq s) \<le> 64"
    using d(4) session_okD(5) by (auto simp: send_cap_def)
  ultimately show ?thesis using m(1) d(1) by blast
qed

lemma session_registry_safe_witness:
  "\<exists>m. sm_register 0 (empty_manager\<lparr>sm_heap := [0 \<mapsto> NewAgentSession ''n1'' ''node'' 0]\<rparr>) = Some m \<and>
     (\<forall>a s. sm_heap m a = Some s \<longrightarrow> length (s_sendq s) \<le> 64)"
proof -
  have "sm_heap empty_manager 0 = None" by (simp add: empty_manager_def)
  from mgr_step.connect[OF this, of "''n1''" "''node''" 0] mgr_reach.step[OF mgr_reach.start]
  have "mgr_reach (sm_register 0 (empty_manager\<lparr>sm_heap := [0 \<mapsto> NewAgentSession ''n1'' ''node'' 0]\<rparr>))"
    by (auto simp: empty_manager_def)
  from session_registry_safe[OF this] show ?thesis by blast
qed

text \<open>
  Reconnection. When a node with a registered session connects again, the new session
  replaces the old one, which is closed; when the old stream's handler ends later, its
  UnregisterSession finds that it is not the current session, reports False and changes nothing,
  so the node is not marked offline and stays reachable.
\<close>
theorem reconnect_keeps_new_session:
  assumes "mgr_ok m" "sm_heap m a = None" "map_of (sm_sessions m) nid = Some old"
  shows "\<exists>m' os. sm_register a (m\<lparr>sm_heap := (sm_heap m)(a \<mapsto> NewAgentSession nid name now)\<rparr>) = Some m' \<and>
    sm_get m' nid = Some (a, NewAgentSession nid name now) \<and>
    sm_get_by_name m' name = Some (a, NewAgentSession nid name now) \<and>
    sm_heap m' old = Some os \<and> fst (Send msg os) = Some ErrSessionClosed \<and>
    sm_unregister_session old m' = Some (False, m')"
proof -
  let ?s = "NewAgentSession nid name now"
  have s: "s_node ?s = nid" "s_name ?s = name" "\<not> s_closed ?s" by (simp_all add: NewAgentSession_def)
  obtain m' where m': "sm_register a (m\<lparr>sm_heap := (sm_heap m)(a \<mapsto> ?s)\<rparr>) = Some m'" "mgr_ok m'"
    "map_of (sm_sessions m') nid = Some a" "sm_heap m' a = Some ?s" "sm_byName m' name = Some nid"
    "\<exists>os. sm_heap m' old = Some os \<and> s_closed os"
    using register_ok[OF assms(1,2) New_ok s(3)] assms(3) s by auto
  then obtain os where os: "sm_heap m' old = Some os" "s_closed os" by blast
  have "old \<noteq> a" using os m'(4) s(3) by auto
  have "map_of (sm_sessions m') (s_node os) \<noteq> Some old"
    using mgr_okD(2)[OF m'(2)] os by (fastforce dest: map_of_SomeD)
  then have "sm_unregister_session old m' = Some (False, m')" using os by (simp add: sm_unregister_session_def)
  then show ?thesis using m' os by (auto simp: sm_get_def sm_get_by_name_def Send_def)
qed

definition demo_manager :: manager where
  "demo_manager = \<lparr>sm_heap = [0 \<mapsto> NewAgentSession ''n1'' ''node'' 0], sm_sessions = [(''n1'', 0)],
     sm_byName = [''node'' \<mapsto> ''n1'']\<rparr>"

lemma demo_manager_ok: "mgr_ok demo_manager"
  by (auto simp: mgr_ok_def demo_manager_def NewAgentSession_def session_ok_def split: if_splits)

lemma reconnect_keeps_new_session_witness:
  "\<exists>m'. sm_register 1 (demo_manager\<lparr>sm_heap := (sm_heap demo_manager)(1 \<mapsto> NewAgentSession ''n1'' ''node'' 9)\<rparr>) = Some m' \<and>
     sm_unregister_session 0 m' = Some (False, m')"
  using reconnect_keeps_new_session[OF demo_manager_ok, of 1 "''n1''" 0 "''node''" 9]
  by (auto simp: demo_manager_def)

text \<open>
  Commands. A dispatched command is answered at most once: the first result with its
  identifier reaches the waiter and removes the promise, so a second one is dropped; a session
  that closes first releases the waiter with ErrSessionClosed.
\<close>
theorem command_answered_once:
  assumes "session_ok s" "dispatch_command c s = Some (Inr ch, s1)" "res_id r = cmd_id c"
  shows "\<exists>s2 s3. ResolveCommand r s1 = Some s2 \<and> await_command ChannelReady ch s2 = Some (Inr r) \<and>
    (\<forall>r'. res_id r' = cmd_id c \<longrightarrow> ResolveCommand r' s2 = Some s2) \<and>
    Close s1 = Some s3 \<and> await_command ChannelReady ch s3 = Some (Inl ErrSessionClosed)"
proof -
  obtain s0 where s0: "RegisterCommand (cmd_id c) s = (length (s_chans s), s0)" "session_ok s0"
    using Register_ok[OF assms(1), of "cmd_id c"] by (auto simp: RegisterCommand_def)
  have ch: "ch = length (s_chans s)" "Send (CommandMsg c) s0 = (None, s1)"
    using assms(2) s0(1) by (auto simp: dispatch_command_def split: option.splits prod.splits)
  have ok: "session_ok s1" using Send_ok[OF s0(2), of "CommandMsg c"] ch(2) by simp
  have p: "map_of (s_pending s1) (cmd_id c) = Some ch" "\<not> s_closed s1"
    using s0(1) ch by (auto simp: RegisterCommand_def Send_def split: if_splits)
  note w = pending_chan(1,2)[OF ok p(1)]
  let ?s2 = "s1\<lparr>s_chans := (s_chans s1)[ch := Resolved r], s_pending := drop_key (cmd_id c) (s_pending s1)\<rparr>"
  have 1: "ResolveCommand r s1 = Some ?s2" using p(1) w assms(3) by (simp add: ResolveCommand_def)
  have 2: "await_command ChannelReady ch ?s2 = Some (Inr r)" using w by (simp add: await_command_def)
  have "map_of (s_pending ?s2) (cmd_id c) = None" by (auto simp: map_of_eq_None_iff)
  then have 3: "\<forall>r'. res_id r' = cmd_id c \<longrightarrow> ResolveCommand r' ?s2 = Some ?s2" by (simp add: ResolveCommand_def)
  have "ch \<in> set (List.map snd (s_pending s1))" using map_of_SomeD[OF p(1)] by force
  moreover obtain ps where ps: "close_all (List.map snd (s_pending s1)) (s_chans s1) = Some ps"
    "\<forall>i < length (s_chans s1). ps ! i = (if i \<in> set (List.map snd (s_pending s1)) then Abandoned else s_chans s1 ! i)"
    using close_all_Some[of "List.map snd (s_pending s1)" "s_chans s1"] ok by (auto simp: session_ok_def)
  ultimately have "ps ! ch = Abandoned" using w(1) by simp
  then have "\<exists>s3. Close s1 = Some s3 \<and> await_command ChannelReady ch s3 = Some (Inl ErrSessionClosed)"
    using ps(1) p(2) by (simp add: Close_def await_command_def)
  then show ?thesis using 1 2 3 by blast
qed

lemma command_answered_once_witness:
  "\<exists>s2. ResolveCommand \<lparr>res_id = ''q'', res_success = True, res_output = []\<rparr>
      (snd (the (dispatch_command \<lparr>cmd_id = ''q'', cmd_kind = ''restart'', cmd_timeout = 0\<rparr>
         (NewAgentSession ''n1'' ''node'' 0)))) = Some s2 \<and>
     await_command ChannelReady 0 s2 = Some (Inr \<lparr>res_id = ''q'', res_success = True, res_output = []\<rparr>)"
  using command_answered_once[OF New_ok, of "\<lparr>cmd_id = ''q'', cmd_kind = ''restart'', cmd_timeout = 0\<rparr>"
      "''n1''" "''node''" 0 0 _ "\<lparr>res_id = ''q'', res_success = True, res_output = []\<rparr>"]
  by (auto simp: dispatch_command_def RegisterCommand_def NewAgentSession_def Send_def send_cap_def drop_key_def)

end
