(* ===== verification/Collector.thy ===== *)
theory Collector
  imports Wg_Manager Interfaces
begin

text \<open>
  Collector (src/internal/agent/metrics/collector.go): the cumulative counters of WireGuard peers and
  Xray clients become per-interval deltas against the baselines of the previous scrape, and the
  reports wait in a bounded queue that drops the oldest until they are sent in order.
\<close>

section \<open>State\<close>

record peer_delta =
  pd_id :: string
  pd_rx :: int
  pd_tx :: int
  pd_seen :: "time option"
  pd_endpoint :: string
  pd_online :: bool

type_synonym protocol_metrics = "string \<times> peer_delta list"
type_synonym report = "time \<times> protocol_metrics list"

record baselines =
  bl_rx :: "string \<rightharpoonup> int"
  bl_tx :: "string \<rightharpoonup> int"

record collector = baselines +
  co_queue :: "report list"

definition NewCollector :: collector where
  "NewCollector = \<lparr>bl_rx = Map.empty, bl_tx = Map.empty, co_queue = []\<rparr>"

section \<open>Deltas\<close>

definition delta :: "int option \<Rightarrow> int \<Rightarrow> int" where
  "delta prev cur = (case prev of None \<Rightarrow> 0 | Some p \<Rightarrow> if cur \<ge> p then cur - p else cur)"

fun account :: "(string \<Rightarrow> string) \<Rightarrow> peer_metric list \<Rightarrow> 'a baselines_scheme \<Rightarrow> peer_delta list \<times> 'a baselines_scheme" where
  "account key [] b = ([], b)"
| "account key (m # ms) b =
     (let k = key (pm_id m);
          d = \<lparr>pd_id = pm_id m, pd_rx = delta (bl_rx b k) (pm_rx m), pd_tx = delta (bl_tx b k) (pm_tx m),
               pd_seen = pm_last_seen m, pd_endpoint = pm_endpoint m, pd_online = pm_online m\<rparr>;
          (ds, b') = account key ms (b\<lparr>bl_rx := (bl_rx b)(k \<mapsto> pm_rx m), bl_tx := (bl_tx b)(k \<mapsto> pm_tx m)\<rparr>)
      in (d # ds, b'))"

definition is_xray_key :: "string \<Rightarrow> bool" where
  "is_xray_key k \<longleftrightarrow> take 5 k = ''xray:''"

definition xray_key :: "string \<Rightarrow> string" where
  "xray_key i = ''xray:'' @ i"

text \<open>The keys of one protocol that the scrape did not report are deleted from both maps.\<close>

definition prune :: "bool \<Rightarrow> string set \<Rightarrow> 'a baselines_scheme \<Rightarrow> 'a baselines_scheme" where
  "prune xray act b =
     b\<lparr>bl_rx := (\<lambda>k. if bl_rx b k \<noteq> None \<and> is_xray_key k = xray \<and> k \<notin> act then None else bl_rx b k),
       bl_tx := (\<lambda>k. if bl_rx b k \<noteq> None \<and> is_xray_key k = xray \<and> k \<notin> act then None else bl_tx b k)\<rparr>"

text \<open>A scrape is None when the manager is missing or failed.\<close>

definition collect_one :: "bool \<Rightarrow> peer_metric list option \<Rightarrow> 'a baselines_scheme \<Rightarrow> protocol_metrics list \<times> 'a baselines_scheme" where
  "collect_one xray scrape b =
     (case scrape of None \<Rightarrow> ([], b)
      | Some ms \<Rightarrow>
          (if ms = [] then ([], b)
           else let key = (if xray then xray_key else (\<lambda>i. i)); (ds, b1) = account key ms b in
                ([(if xray then ''xray'' else ''wireguard'', ds)], prune xray (key ` pm_id ` set ms) b1)))"

definition collect :: "peer_metric list option \<Rightarrow> peer_metric list option \<Rightarrow> 'a baselines_scheme \<Rightarrow>
    protocol_metrics list \<times> 'a baselines_scheme" where
  "collect wg xray b =
     (let (p1, b1) = collect_one False wg b; (p2, b2) = collect_one True xray b1 in (p1 @ p2, b2))"

section \<open>The queue\<close>

definition enqueueReport :: "report \<Rightarrow> report list \<Rightarrow> report list" where
  "enqueueReport r q = (if length q \<ge> 128 then tl q else q) @ [r]"

definition flushQueue :: "(report \<Rightarrow> bool) \<Rightarrow> report list \<Rightarrow> report list \<times> report list" where
  "flushQueue sends q = (takeWhile sends q, dropWhile sends q)"

definition collectAndSend :: "peer_metric list option \<Rightarrow> peer_metric list option \<Rightarrow> time \<Rightarrow> (report \<Rightarrow> bool) \<Rightarrow>
    collector \<Rightarrow> report list \<times> collector" where
  "collectAndSend wg xray now sends c =
     (let (ps, c1) = collect wg xray c;
          q = (if ps \<noteq> [] then enqueueReport (now, ps) (co_queue c1) else co_queue c1);
          (sent, rest) = flushQueue sends q
      in (sent, c1\<lparr>co_queue := rest\<rparr>))"

interpretation report_queue: drop_oldest enqueueReport id 128 "\<lambda>q. length q \<le> 128"
  by unfold_locales (auto simp: enqueueReport_def take_last_def drop_Suc neq_Nil_conv)

section \<open>Lemmas\<close>

lemma account_other:
  "account key ms b = (ds, b') \<Longrightarrow> k \<notin> key ` pm_id ` set ms \<Longrightarrow> bl_rx b' k = bl_rx b k \<and> bl_tx b' k = bl_tx b k"
proof (induction ms arbitrary: b ds)
  case (Cons m ms)
  let ?b = "b\<lparr>bl_rx := (bl_rx b)(key (pm_id m) \<mapsto> pm_rx m), bl_tx := (bl_tx b)(key (pm_id m) \<mapsto> pm_tx m)\<rparr>"
  obtain es where "account key ms ?b = (es, b')" using Cons.prems(1) by (auto simp: Let_def split: prod.splits)
  from Cons.IH[OF this] Cons.prems(2) show ?case by auto
qed simp

lemma account_keys:
  assumes "inj key" "distinct (List.map pm_id ms)" "account key ms b = (ds, b')"
  shows "List.map pd_id ds = List.map pm_id ms"
    "m \<in> set ms \<Longrightarrow> \<exists>d\<in>set ds. pd_id d = pm_id m \<and> pd_rx d = delta (bl_rx b (key (pm_id m))) (pm_rx m) \<and>
       pd_tx d = delta (bl_tx b (key (pm_id m))) (pm_tx m)"
    "m \<in> set ms \<Longrightarrow> bl_rx b' (key (pm_id m)) = Some (pm_rx m) \<and> bl_tx b' (key (pm_id m)) = Some (pm_tx m)"
proof -
  have "List.map pd_id ds = List.map pm_id ms \<and>
    (\<forall>m\<in>set ms. (\<exists>d\<in>set ds. pd_id d = pm_id m \<and> pd_rx d = delta (bl_rx b (key (pm_id m))) (pm_rx m) \<and>
       pd_tx d = delta (bl_tx b (key (pm_id m))) (pm_tx m)) \<and>
       bl_rx b' (key (pm_id m)) = Some (pm_rx m) \<and> bl_tx b' (key (pm_id m)) = Some (pm_tx m))"
    using assms(2,3)
  proof (induction ms arbitrary: b ds)
    case (Cons m ms)
    let ?b = "b\<lparr>bl_rx := (bl_rx b)(key (pm_id m) \<mapsto> pm_rx m), bl_tx := (bl_tx b)(key (pm_id m) \<mapsto> pm_tx m)\<rparr>"
    obtain es where es: "account key ms ?b = (es, b')" "ds = \<lparr>pd_id = pm_id m, pd_rx = delta (bl_rx b (key (pm_id m))) (pm_rx m),
        pd_tx = delta (bl_tx b (key (pm_id m))) (pm_tx m), pd_seen = pm_last_seen m, pd_endpoint = pm_endpoint m,
        pd_online = pm_online m\<rparr> # es"
      using Cons.prems(2) by (auto simp: Let_def split: prod.splits)
    have k: "key (pm_id m') \<noteq> key (pm_id m)" if "m' \<in> set ms" for m'
      using that Cons.prems(1) assms(1) by (simp add: inj_eq) (metis imageI)
    then have n: "key (pm_id m) \<notin> key ` pm_id ` set ms" by fastforce
    have "distinct (List.map pm_id ms)" using Cons.prems(1) by simp
    note IH = Cons.IH[OF this es(1)]
    have "bl_rx b' (key (pm_id m)) = Some (pm_rx m) \<and> bl_tx b' (key (pm_id m)) = Some (pm_tx m)"
      using account_other[OF es(1) n] by simp
    then show ?case using IH k n by (simp add: es(2))
  qed simp
  then show "List.map pd_id ds = List.map pm_id ms"
    "m \<in> set ms \<Longrightarrow> \<exists>d\<in>set ds. pd_id d = pm_id m \<and> pd_rx d = delta (bl_rx b (key (pm_id m))) (pm_rx m) \<and>
       pd_tx d = delta (bl_tx b (key (pm_id m))) (pm_tx m)"
    "m \<in> set ms \<Longrightarrow> bl_rx b' (key (pm_id m)) = Some (pm_rx m) \<and> bl_tx b' (key (pm_id m)) = Some (pm_tx m)"
    by blast+
qed

definition total :: "(peer_delta \<Rightarrow> int) \<Rightarrow> bool \<Rightarrow> string \<Rightarrow> protocol_metrics list \<Rightarrow> int" where
  "total f xray pid ps = sum_list (List.map (\<lambda>(p, ds).
     if p = (if xray then ''xray'' else ''wireguard'')
     then sum_list (List.map f (List.filter (\<lambda>d. pd_id d = pid) ds)) else 0) ps)"

definition key_of :: "bool \<Rightarrow> string \<Rightarrow> string" where
  "key_of xray pid = (if xray then xray_key pid else pid)"

lemma inj_key_of: "inj (key_of xray)"
  by (auto simp: inj_def key_of_def xray_key_def)

lemma xray_key_class [simp]: "is_xray_key (xray_key i)"
  by (simp add: is_xray_key_def xray_key_def)

lemma filter_single:
  "distinct (List.map f xs) \<Longrightarrow> x \<in> set xs \<Longrightarrow> f x = v \<Longrightarrow> List.filter (\<lambda>y. f y = v) xs = [x]"
proof (induction xs)
  case (Cons y ys)
  have "List.filter (\<lambda>z. f z = v) ys = []" if "f y = v"
    using Cons.prems(1) that by (simp add: filter_empty_conv) (metis imageI)
  then show ?case using Cons by auto
qed simp

definition good_ids :: "bool \<Rightarrow> peer_metric list option \<Rightarrow> bool" where
  "good_ids xray scrape \<longleftrightarrow> (xray \<or> (\<forall>ms. scrape = Some ms \<longrightarrow> (\<forall>m\<in>set ms. \<not> is_xray_key (pm_id m))))"

lemma collect_own:
  assumes "collect_one xray (Some ms) b = (ps, b')" "distinct (List.map pm_id ms)" "m \<in> set ms" "pm_id m = pid"
  shows "total pd_rx xray pid ps = delta (bl_rx b (key_of xray pid)) (pm_rx m)"
    "total pd_tx xray pid ps = delta (bl_tx b (key_of xray pid)) (pm_tx m)"
    "bl_rx b' (key_of xray pid) = Some (pm_rx m)" "bl_tx b' (key_of xray pid) = Some (pm_tx m)"
proof -
  have ne: "ms \<noteq> []" using assms(3) by auto
  have ke: "(if xray then xray_key else (\<lambda>i. i)) = key_of xray" by (simp add: key_of_def fun_eq_iff)
  obtain ds b1 where ac: "account (key_of xray) ms b = (ds, b1)" by fastforce
  have ps: "ps = [(if xray then ''xray'' else ''wireguard'', ds)]"
    and b': "b' = prune xray (key_of xray ` pm_id ` set ms) b1"
    using assms(1) ne ac by (simp_all add: collect_one_def ke)
  note k = account_keys[OF inj_key_of assms(2) ac]
  obtain d where d: "d \<in> set ds" "pd_id d = pid" "pd_rx d = delta (bl_rx b (key_of xray pid)) (pm_rx m)"
    "pd_tx d = delta (bl_tx b (key_of xray pid)) (pm_tx m)"
    using k(2)[OF assms(3)] assms(4) by auto
  have "List.filter (\<lambda>d. pd_id d = pid) ds = [d]"
    using k(1) assms(2) d(1,2) by (intro filter_single) simp_all
  then show "total pd_rx xray pid ps = delta (bl_rx b (key_of xray pid)) (pm_rx m)"
    "total pd_tx xray pid ps = delta (bl_tx b (key_of xray pid)) (pm_tx m)"
    using d(3,4) by (simp_all add: total_def ps)
  have "key_of xray pid \<in> key_of xray ` pm_id ` set ms" using assms(3,4) by blast
  then show "bl_rx b' (key_of xray pid) = Some (pm_rx m)" "bl_tx b' (key_of xray pid) = Some (pm_tx m)"
    using k(3)[OF assms(3)] assms(4) by (simp_all add: b' prune_def)
qed

lemma collect_other:
  assumes "collect_one (\<not> xray) scrape b = (ps, b')" "good_ids (\<not> xray) scrape" "is_xray_key k = xray"
  shows "total f xray pid ps = 0" "bl_rx b' k = bl_rx b k \<and> bl_tx b' k = bl_tx b k"
proof -
  have "total f xray pid ps = 0 \<and> bl_rx b' k = bl_rx b k \<and> bl_tx b' k = bl_tx b k"
  proof (cases "\<exists>ms. scrape = Some ms \<and> ms \<noteq> []")
    case False
    then show ?thesis using assms(1) by (auto simp: collect_one_def total_def split: option.splits)
  next
    case True
    then obtain ms where ms: "scrape = Some ms" "ms \<noteq> []" by blast
    have ke: "(if \<not> xray then xray_key else (\<lambda>i. i)) = key_of (\<not> xray)" by (simp add: key_of_def fun_eq_iff)
    obtain ds b1 where ac: "account (key_of (\<not> xray)) ms b = (ds, b1)" by fastforce
    have ps: "ps = [(if \<not> xray then ''xray'' else ''wireguard'', ds)]"
      and b': "b' = prune (\<not> xray) (key_of (\<not> xray) ` pm_id ` set ms) b1"
      using assms(1) ms ac unfolding collect_one_def ke by simp_all
    have "k \<notin> key_of (\<not> xray) ` pm_id ` set ms"
      using assms(2,3) ms(1) by (cases xray) (auto simp: key_of_def good_ids_def)
    from account_other[OF ac this] show ?thesis
      using assms(3) by (simp add: b' prune_def total_def ps)
  qed
  then show "total f xray pid ps = 0" "bl_rx b' k = bl_rx b k \<and> bl_tx b' k = bl_tx b k" by auto
qed

lemma collect_both:
  assumes "collect wg xr b = (ps, b')" "(if xray then xr else wg) = Some ms" "distinct (List.map pm_id ms)"
    "m \<in> set ms" "pm_id m = pid" "good_ids False wg"
  shows "total pd_rx xray pid ps = delta (bl_rx b (key_of xray pid)) (pm_rx m)"
    "total pd_tx xray pid ps = delta (bl_tx b (key_of xray pid)) (pm_tx m)"
    "bl_rx b' (key_of xray pid) = Some (pm_rx m)" "bl_tx b' (key_of xray pid) = Some (pm_tx m)"
proof -
  obtain p1 b1 p2 where c: "collect_one False wg b = (p1, b1)" "collect_one True xr b1 = (p2, b')" "ps = p1 @ p2"
    using assms(1) by (auto simp: collect_def split: prod.splits)
  have t: "total f xray pid ps = total f xray pid p1 + total f xray pid p2" for f by (simp add: total_def c(3))
  have g: "good_ids True xr" by (simp add: good_ids_def)
  have "total pd_rx xray pid ps = delta (bl_rx b (key_of xray pid)) (pm_rx m) \<and>
    total pd_tx xray pid ps = delta (bl_tx b (key_of xray pid)) (pm_tx m) \<and>
    bl_rx b' (key_of xray pid) = Some (pm_rx m) \<and> bl_tx b' (key_of xray pid) = Some (pm_tx m)"
  proof (cases xray)
    case True
    then have k: "is_xray_key (key_of xray pid) = xray" by (simp add: key_of_def)
    have c1: "collect_one (\<not> xray) wg b = (p1, b1)" "good_ids (\<not> xray) wg" using c(1) True assms(6) by simp_all
    have c2: "collect_one xray (Some ms) b1 = (p2, b')" using c(2) assms(2) True by simp
    show ?thesis using collect_other[OF c1 k] collect_own[OF c2 assms(3-5)] t by simp
  next
    case False
    then have "\<not> is_xray_key (key_of xray pid)"
      using assms(2,4,5,6) by (auto simp: key_of_def good_ids_def)
    then have k: "is_xray_key (key_of xray pid) = xray" using False by simp
    have c1: "collect_one xray (Some ms) b = (p1, b1)" using c(1) assms(2) False by simp
    have c2: "collect_one (\<not> xray) xr b1 = (p2, b')" "good_ids (\<not> xray) xr" using c(2) False g by simp_all
    show ?thesis using collect_other[OF c2 k] collect_own[OF c1 assms(3-5)] t by simp
  qed
  then show "total pd_rx xray pid ps = delta (bl_rx b (key_of xray pid)) (pm_rx m)"
    "total pd_tx xray pid ps = delta (bl_tx b (key_of xray pid)) (pm_tx m)"
    "bl_rx b' (key_of xray pid) = Some (pm_rx m)" "bl_tx b' (key_of xray pid) = Some (pm_tx m)" by auto
qed

fun collect_run :: "(peer_metric list option \<times> peer_metric list option) list \<Rightarrow> 'a baselines_scheme \<Rightarrow>
    protocol_metrics list" where
  "collect_run [] b = []"
| "collect_run ((wg, xr) # ss) b = (let (ps, b') = collect wg xr b in ps @ collect_run ss b')"

fun metered :: "int option \<Rightarrow> int list \<Rightarrow> int" where
  "metered prev [] = 0"
| "metered prev (r # rs) = delta prev r + metered (Some r) rs"

text \<open>The scrapes show the counters of a peer: every one of them reports it, once, with these readings.\<close>

fun shows_peer :: "bool \<Rightarrow> string \<Rightarrow> (peer_metric list option \<times> peer_metric list option) list \<Rightarrow> peer_metric list \<Rightarrow> bool" where
  "shows_peer xray pid [] ms = (ms = [])"
| "shows_peer xray pid (s # ss) [] = False"
| "shows_peer xray pid (s # ss) (m # ms) =
     ((case (if xray then snd s else fst s) of None \<Rightarrow> False
       | Some peers \<Rightarrow> distinct (List.map pm_id peers) \<and> m \<in> set peers \<and> pm_id m = pid) \<and>
      good_ids False (fst s) \<and> shows_peer xray pid ss ms)"

lemma metered_run:
  "shows_peer xray pid ss ms \<Longrightarrow>
   total pd_rx xray pid (collect_run ss b) = metered (bl_rx b (key_of xray pid)) (List.map pm_rx ms) \<and>
   total pd_tx xray pid (collect_run ss b) = metered (bl_tx b (key_of xray pid)) (List.map pm_tx ms)"
proof (induction ss arbitrary: ms b)
  case Nil
  then show ?case by (simp add: total_def)
next
  case (Cons s ss)
  obtain wg xr where s: "s = (wg, xr)" by (cases s)
  obtain m ns where ms: "ms = m # ns" using Cons.prems by (cases ms) auto
  let ?sc = "if xray then xr else wg"
  obtain peers where p: "?sc = Some peers" "distinct (List.map pm_id peers)" "m \<in> set peers"
    "pm_id m = pid" "good_ids False wg" "shows_peer xray pid ss ns"
    using Cons.prems by (cases xray; cases ?sc) (simp_all add: s ms)
  obtain ps b' where c: "collect wg xr b = (ps, b')" by fastforce
  note k = collect_both[OF c p(1-5)]
  have "total f xray pid (collect_run (s # ss) b) = total f xray pid ps + total f xray pid (collect_run ss b')" for f
    by (simp add: s c total_def)
  then show ?case using k Cons.IH[OF p(6), of b'] by (simp add: ms)
qed

lemma metered_monotone: "sorted (r # rs) \<Longrightarrow> metered (Some r) rs = last (r # rs) - r"
  by (induction rs arbitrary: r) (auto simp: delta_def)

lemma metered_nonneg:
  assumes "\<forall>r\<in>set rs. 0 \<le> r"
  shows "0 \<le> metered prev rs"
  using assms by (induction rs arbitrary: prev) (auto simp: delta_def split: option.splits)

section \<open>Properties\<close>

text \<open>
  C36. Metering. Over scrapes that all show a peer, the deltas reported for it since the agent
  started add up to the counter's growth after the first scrape, that is its last reading minus
  its first while the counter does not go back, and they are never negative; traffic of the same
  identifier under the other protocol does not interfere, whatever it reads.
\<close>
theorem metering_exact:
  assumes "shows_peer xray pid ss (m # ms)" "ps = collect_run ss NewCollector"
    and "\<forall>r\<in>set (m # ms). 0 \<le> pm_rx r \<and> 0 \<le> pm_tx r"
  shows "0 \<le> total pd_rx xray pid ps \<and> 0 \<le> total pd_tx xray pid ps \<and>
    total pd_rx xray pid ps = metered (Some (pm_rx m)) (List.map pm_rx ms) \<and>
    (sorted (List.map pm_rx (m # ms)) \<longrightarrow> total pd_rx xray pid ps = pm_rx (last (m # ms)) - pm_rx m) \<and>
    (sorted (List.map pm_tx (m # ms)) \<longrightarrow> total pd_tx xray pid ps = pm_tx (last (m # ms)) - pm_tx m)"
proof -
  have r: "total pd_rx xray pid ps = metered (Some (pm_rx m)) (List.map pm_rx ms)"
    "total pd_tx xray pid ps = metered (Some (pm_tx m)) (List.map pm_tx ms)"
    using metered_run[OF assms(1), of NewCollector] by (simp_all add: assms(2) NewCollector_def delta_def)
  have n: "0 \<le> metered (Some (pm_rx m)) (List.map pm_rx ms)" "0 \<le> metered (Some (pm_tx m)) (List.map pm_tx ms)"
    using assms(3) by (auto intro!: metered_nonneg)
  have "sorted (List.map f (m # ms)) \<Longrightarrow> metered (Some (f m)) (List.map f ms) = f (last (m # ms)) - f m"
    for f :: "peer_metric \<Rightarrow> int"
    using metered_monotone[of "f m" "List.map f ms"] by (simp add: last_map)
  then show ?thesis using r n by simp
qed

definition demo_scrape :: "string \<Rightarrow> int \<Rightarrow> int \<Rightarrow> peer_metric" where
  "demo_scrape i rx tx = \<lparr>pm_id = i, pm_rx = rx, pm_tx = tx, pm_last_seen = None, pm_endpoint = [], pm_online = True\<rparr>"

lemma metering_exact_witness:
  "total pd_rx False ''c1'' (collect_run [(Some [demo_scrape ''c1'' 100 5], Some [demo_scrape ''c1'' 900 0]),
     (Some [demo_scrape ''c1'' 150 9], Some [demo_scrape ''c1'' 1 0])] NewCollector) = 50"
  using metering_exact[of False "''c1''" "[(Some [demo_scrape ''c1'' 100 5], Some [demo_scrape ''c1'' 900 0]),
     (Some [demo_scrape ''c1'' 150 9], Some [demo_scrape ''c1'' 1 0])]" "demo_scrape ''c1'' 100 5" "[demo_scrape ''c1'' 150 9]", OF _ refl]
  by (simp add: demo_scrape_def good_ids_def is_xray_key_def)

lemma account_queue: "account key ms (c :: collector) = (ds, c') \<Longrightarrow> co_queue c' = co_queue c"
proof (induction ms arbitrary: c ds)
  case (Cons m ms)
  let ?c = "c\<lparr>bl_rx := (bl_rx c)(key (pm_id m) \<mapsto> pm_rx m), bl_tx := (bl_tx c)(key (pm_id m) \<mapsto> pm_tx m)\<rparr>"
  obtain es where "account key ms ?c = (es, c')" using Cons.prems by (auto simp: Let_def split: prod.splits)
  from Cons.IH[OF this] show ?case by simp
qed simp

lemma collect_one_queue: "collect_one x s (c :: collector) = (ps, c') \<Longrightarrow> co_queue c' = co_queue c"
  by (cases x) (auto simp: collect_one_def prune_def Let_def dest: account_queue split: option.splits if_splits prod.splits)

lemma collect_queue: "collect wg xr (c :: collector) = (ps, c') \<Longrightarrow> co_queue c' = co_queue c"
  by (auto simp: collect_def dest!: collect_one_queue split: prod.splits)

text \<open>
  The report queue. In one round the report of the scrape, if it has any metrics, is queued;
  whatever the outcome of the sends, the reports handed to the control plane and those that stay
  are, in order, the newest 128 of the queue and the report; sending stops at the first failure,
  whose report stays first in the queue.
\<close>
theorem report_queue_order:
  assumes "length (co_queue c) \<le> 128" "collectAndSend wg xr now sends c = (sent, c')"
  shows "length (co_queue c') \<le> 128 \<and> (\<forall>r\<in>set sent. sends r) \<and>
    (co_queue c' \<noteq> [] \<longrightarrow> \<not> sends (hd (co_queue c'))) \<and>
    sent @ co_queue c' = take_last 128 (co_queue c @
      (case fst (collect wg xr c) of [] \<Rightarrow> [] | p # ps \<Rightarrow> [(now, p # ps)]))"
proof -
  obtain ps c1 where c: "collect wg xr c = (ps, c1)" by fastforce
  note fr = collect_queue[OF c]
  let ?new = "case ps of [] \<Rightarrow> [] | p # qs \<Rightarrow> [(now, p # qs)]"
  let ?q = "fold enqueueReport ?new (co_queue c)"
  have q: "?q = take_last 128 (co_queue c @ ?new)" using report_queue.fold_push_last[of "co_queue c" ?new] assms(1) by simp
  have s: "sent = takeWhile sends ?q" "co_queue c' = dropWhile sends ?q"
    using assms(2) fr by (auto simp: collectAndSend_def c flushQueue_def Let_def split: list.splits)
  have "sent @ co_queue c' = ?q" by (simp add: s)
  moreover have "length ?q \<le> 128" by (simp add: q)
  ultimately have "length (co_queue c') \<le> 128" by (metis le_add2 length_append order_trans)
  moreover have "\<forall>r\<in>set sent. sends r" 
    unfolding s(1) by (blast dest: set_takeWhileD)
  moreover have "co_queue c' \<noteq> [] \<longrightarrow> \<not> sends (hd (co_queue c'))" 
    unfolding s(2) by (rule impI) (rule hd_dropWhile)
  moreover have "sent @ co_queue c' = take_last 128 (co_queue c @ ?new)"
    using \<open>sent @ co_queue c' = ?q\<close> q by (rule trans)
  ultimately show ?thesis unfolding c fst_conv by blast
qed

lemma report_queue_order_witness:
  "fst (collectAndSend (Some [demo_scrape ''c1'' 100 5]) None 30 (\<lambda>r. fst r \<noteq> 30) (NewCollector\<lparr>co_queue := [(10, []), (20, [])]\<rparr>))
   = [(10, []), (20, [])]"
proof -
  let ?c = "NewCollector\<lparr>co_queue := [(10, []), (20, [])]\<rparr>"
  obtain sent c' where s: "collectAndSend (Some [demo_scrape ''c1'' 100 5]) None 30 (\<lambda>r. fst r \<noteq> 30) ?c = (sent, c')"
    by fastforce
  have c: "fst (collect (Some [demo_scrape ''c1'' 100 5]) None ?c) \<noteq> []"
    by (simp add: collect_def collect_one_def Let_def split: prod.splits)
  then obtain p ps where p: "fst (collect (Some [demo_scrape ''c1'' 100 5]) None ?c) = p # ps" by (meson list.exhaust)
  have l: "length (co_queue ?c) \<le> 128" by simp
  have "sent @ co_queue c' = [(10, []), (20, []), (30, p # ps)] \<and> (\<forall>r\<in>set sent. fst r \<noteq> 30) \<and>
      (co_queue c' \<noteq> [] \<longrightarrow> fst (hd (co_queue c')) = 30)"
    using report_queue_order[OF l s] by (simp add: p)
  then show ?thesis by (auto simp: s append_eq_Cons_conv)
qed

end
