(* ===== verification/Agent_Service.thy ===== *)
theory Agent_Service
  imports Sessions Collector
begin

text \<open>
  AgentServiceServer (src/internal/controlplane/grpc/agent_service.go): the control plane's end of an
  agent's stream. A stream is the address of its session, once one is registered; each message is
  handled to the end before the next, so one message is one step on the service's state. Results of
  statements that the code discards are discarded here; a step that would panic is None.
\<close>

section \<open>State\<close>

record traffic_row =
  tr_user :: uuid
  tr_node :: uuid
  tr_protocol :: string
  tr_hour :: time
  tr_rx :: int
  tr_tx :: int

record sdb = db +
  db_traffic :: "traffic_row list"

record service =
  sv_db :: sdb
  sv_mgr :: manager
  sv_notified :: "string set"
  sv_alerts :: "(string \<times> string \<times> string) list option"

datatype push_error = PushSession send_error | PushBuild build_error

definition same_bucket :: "uuid \<Rightarrow> uuid \<Rightarrow> string \<Rightarrow> time \<Rightarrow> traffic_row \<Rightarrow> bool" where
  "same_bucket uid nid proto hr r \<longleftrightarrow> tr_user r = uid \<and> tr_node r = nid \<and> tr_protocol r = proto \<and> tr_hour r = hr"

definition UpsertTrafficStats :: "uuid \<Rightarrow> uuid \<Rightarrow> string \<Rightarrow> time \<Rightarrow> int \<Rightarrow> int \<Rightarrow> sdb \<Rightarrow> db_error + sdb" where
  "UpsertTrafficStats uid nid proto hr rx tx d =
     (if ''UpsertTrafficStats'' \<in> db_down d then Inl StatementFailed
      else if uid \<notin> u_id ` set (db_users d) \<or> nid \<notin> n_id ` set (db_nodes d) then Inl ForeignKeyViolation
      else if List.find (same_bucket uid nid proto hr) (db_traffic d) = None
      then Inr (d\<lparr>db_traffic := \<lparr>tr_user = uid, tr_node = nid, tr_protocol = proto, tr_hour = hr, tr_rx = rx, tr_tx = tx\<rparr>
                  # db_traffic d\<rparr>)
      else if (\<exists>r\<in>set (db_traffic d). same_bucket uid nid proto hr r \<and> \<not> (int8_fits (tr_rx r + rx) \<and> int8_fits (tr_tx r + tx)))
      then Inl NumericRange
      else Inr (d\<lparr>db_traffic := List.map (\<lambda>r. if same_bucket uid nid proto hr r
                    then r\<lparr>tr_rx := tr_rx r + rx, tr_tx := tr_tx r + tx\<rparr> else r) (db_traffic d)\<rparr>))"

text \<open>A statement whose error the code ignores.\<close>

definition try_stmt :: "(sdb \<Rightarrow> db_error + sdb) \<Rightarrow> service \<Rightarrow> service" where
  "try_stmt f sv = (case f (sv_db sv) of Inl _ \<Rightarrow> sv | Inr d \<Rightarrow> sv\<lparr>sv_db := d\<rparr>)"

definition alert :: "string \<Rightarrow> string \<Rightarrow> string \<Rightarrow> service \<Rightarrow> service" where
  "alert name st msg sv = (case sv_alerts sv of None \<Rightarrow> sv | Some as \<Rightarrow> sv\<lparr>sv_alerts := Some (as @ [(name, st, msg)])\<rparr>)"

definition put_session :: "nat \<Rightarrow> session \<Rightarrow> service \<Rightarrow> service" where
  "put_session a s sv = sv\<lparr>sv_mgr := (sv_mgr sv)\<lparr>sm_heap := (sm_heap (sv_mgr sv))(a \<mapsto> s)\<rparr>\<rparr>"

section \<open>Pushing a configuration\<close>

definition currentConfigVersion :: "uuid \<Rightarrow> 'a db_scheme \<Rightarrow> int" where
  "currentConfigVersion nid d = (case GetConfigVersion nid d of Inr v \<Rightarrow> if v > 0 then v else 1 | Inl _ \<Rightarrow> 1)"

definition nextConfigVersion :: "uuid \<Rightarrow> int \<Rightarrow> sdb \<Rightarrow> int \<times> sdb" where
  "nextConfigVersion nid fallback d =
     (case GetAndBumpConfigVersion nid d of
        Inl _ \<Rightarrow> (fallback, d)
      | Inr (v, d') \<Rightarrow> (if v > 0 then v else fallback, d'))"

definition PushConfigUpdate :: "uuid \<Rightarrow> int \<Rightarrow> bool \<Rightarrow> time \<Rightarrow> service \<Rightarrow> push_error option \<times> service" where
  "PushConfigUpdate nid version isFull now sv =
     (case sm_get (sv_mgr sv) nid of
        None \<Rightarrow> (Some (PushSession ErrSessionNotFound), sv)
      | Some (a, s) \<Rightarrow>
          (let s1 = InvalidateCaches s in
           case BuildConfig nid version isFull now (sv_db sv) of
             Inl e \<Rightarrow> (Some (PushBuild e), put_session a s1 sv)
           | Inr cu \<Rightarrow> (case Send (ConfigMsg cu) s1 of
                 (r, s2) \<Rightarrow> (map_option PushSession r, put_session a s2 sv))))"

definition PushNodeConfig :: "uuid \<Rightarrow> time \<Rightarrow> service \<Rightarrow> push_error option \<times> service" where
  "PushNodeConfig nid now sv =
     (case sm_get (sv_mgr sv) nid of
        None \<Rightarrow> (Some (PushSession ErrSessionNotFound), sv)
      | Some (a, s) \<Rightarrow>
          (case nextConfigVersion nid (s_version s + 1) (sv_db sv) of
             (v, d) \<Rightarrow> PushConfigUpdate nid v True now (sv\<lparr>sv_db := d\<rparr>)))"

section \<open>Registration\<close>

record cert =
  ce_cn :: string
  ce_dns :: "string list"

datatype reg_error = InvalidArgument | Unauthenticated | FailedPrecondition | AutoCreateFailed db_error

text \<open>The verified chains and the peer certificates of a TLS connection, None without TLS.\<close>

type_synonym tls = "(cert list list \<times> cert list) option"

definition client_cert :: "cert list list \<Rightarrow> cert list \<Rightarrow> cert option" where
  "client_cert vcs peers =
     (case vcs of (c # _) # _ \<Rightarrow> Some c | _ \<Rightarrow> (case peers of c # _ \<Rightarrow> Some c | [] \<Rightarrow> None))"

definition identity_ok :: "tls \<Rightarrow> string \<Rightarrow> bool" where
  "identity_ok t name =
     (case t of None \<Rightarrow> True
      | Some (vcs, peers) \<Rightarrow>
          (case client_cert vcs peers of None \<Rightarrow> True
           | Some c \<Rightarrow> ce_cn c = name \<or> name \<in> set (ce_dns c) \<or> ce_cn c = []))"

definition allowAgentAutocreate :: "string \<Rightarrow> bool" where
  "allowAgentAutocreate v \<longleftrightarrow> to_lower (trim_space v) \<in> {''true'', ''1'', ''yes''}"

definition new_node :: "uuid \<Rightarrow> string \<Rightarrow> string \<Rightarrow> node" where
  "new_node nid name key = \<lparr>n_id = nid, n_name = name, n_endpoint = [], n_grpc = [],
     n_region = None, n_capacity = None, n_status = Some ''online'', n_tags = None,
     n_public_key = key, n_sni = None, n_pbk = None, n_sid = None, n_heartbeat = None, n_version = 1\<rparr>"

definition handleRegister ::
    "tls \<Rightarrow> string \<Rightarrow> uuid \<Rightarrow> time \<Rightarrow> (string \<times> string) option \<Rightarrow> service \<Rightarrow> (reg_error + node) \<times> service" where
  "handleRegister t env fresh now reg sv =
     (case reg of None \<Rightarrow> (Inl InvalidArgument, sv)
      | Some (name, key) \<Rightarrow>
          if name = [] then (Inl InvalidArgument, sv)
          else if \<not> identity_ok t name then (Inl Unauthenticated, sv)
          else case GetNodeByName name (sv_db sv) of
            Inl _ \<Rightarrow>
              (if \<not> allowAgentAutocreate env then (Inl FailedPrecondition, sv)
               else case CreateNode (new_node fresh name key) (sv_db sv) of
                 Inl e \<Rightarrow> (Inl (AutoCreateFailed e), sv)
               | Inr (n, d) \<Rightarrow> (Inr n, sv\<lparr>sv_db := d\<rparr>))
          | Inr n \<Rightarrow> (Inr n, try_stmt (UpdateHeartbeat (n_id n) ''online'' now) sv))"

section \<open>Heartbeats\<close>

datatype node_status = Unspecified | Online | Degraded | Draining

record heartbeat =
  hb_time :: int
  hb_status :: node_status

definition heartbeat_status :: "node_status \<Rightarrow> string" where
  "heartbeat_status st = (case st of Degraded \<Rightarrow> ''degraded'' | Draining \<Rightarrow> ''draining'' | _ \<Rightarrow> ''online'')"

definition kept_status :: "uuid \<Rightarrow> string \<Rightarrow> 'a db_scheme \<Rightarrow> string" where
  "kept_status nid st d =
     (case GetNodeByID nid d of Inl _ \<Rightarrow> st
      | Inr n \<Rightarrow> (case n_status n of Some s \<Rightarrow> if s = ''drain'' \<or> s = ''draining'' then s else st | None \<Rightarrow> st))"

definition handleHeartbeat :: "time \<Rightarrow> nat \<Rightarrow> heartbeat option \<Rightarrow> service \<Rightarrow> service" where
  "handleHeartbeat now a hb sv =
     (case (hb, sm_heap (sv_mgr sv) a) of
        (Some h, Some s) \<Rightarrow>
          (let t = (if hb_time h > 0 then hb_time h * second else now);
               sv1 = put_session a (s\<lparr>s_heartbeat := t\<rparr>) sv
           in try_stmt (UpdateHeartbeat (s_node s) (kept_status (s_node s) (heartbeat_status (hb_status h)) (sv_db sv1)) now) sv1)
      | _ \<Rightarrow> sv)"

section \<open>Metrics and limits\<close>

definition userBlockedByLimits :: "time \<Rightarrow> user \<Rightarrow> bool" where
  "userBlockedByLimits now u \<longleftrightarrow>
     (case u_status u of Some st \<Rightarrow> st \<noteq> ''active'' | None \<Rightarrow> False) \<or> u_banned u = Some True \<or>
     (case u_expires u of Some t \<Rightarrow> t < now | None \<Rightarrow> False) \<or>
     (case (u_limit u, u_used u) of (Some l, Some n) \<Rightarrow> l > 0 \<and> n \<ge> l | _ \<Rightarrow> False)"

definition limit_key :: "uuid \<Rightarrow> uuid \<Rightarrow> string" where
  "limit_key uid nid = uid @ ''|'' @ nid"

definition enforceUserLimits :: "time \<Rightarrow> uuid \<Rightarrow> uuid \<Rightarrow> service \<Rightarrow> service" where
  "enforceUserLimits now nid uid sv =
     (case GetUserByID uid (sv_db sv) of Inl _ \<Rightarrow> sv
      | Inr u \<Rightarrow>
          if \<not> userBlockedByLimits now u then sv\<lparr>sv_notified := sv_notified sv - {limit_key uid nid}\<rparr>
          else if limit_key uid nid \<in> sv_notified sv then sv
          else case PushNodeConfig nid now sv of
            (Some e, sv1) \<Rightarrow> sv1
          | (None, sv1) \<Rightarrow> sv1\<lparr>sv_notified := insert (limit_key uid nid) (sv_notified sv1)\<rparr>)"

definition cache_creds :: "credential list \<Rightarrow> session \<Rightarrow> session" where
  "cache_creds cs s = fold (\<lambda>c s. if text_or [] (c_public c) \<noteq> []
      then CachePeerUser (c_id c) (c_user c) (CachePubKeyCred (text_or [] (c_public c)) (c_id c) s) else s) cs s"

definition match_key :: "string \<Rightarrow> credential list \<Rightarrow> uuid option" where
  "match_key key cs = fold (\<lambda>c r. if text_or [] (c_public c) \<noteq> [] \<and> text_or [] (c_public c) = key
      then Some (c_id c) else r) cs None"

text \<open>uuid.Parse is a function to the canonical text of an identifier.\<close>

definition resolve_cred ::
    "(string \<Rightarrow> uuid option) \<Rightarrow> time \<Rightarrow> string \<Rightarrow> 'a db_scheme \<Rightarrow> session \<Rightarrow> uuid option \<times> session" where
  "resolve_cred parse now pid d s =
     (case parse pid of Some c \<Rightarrow> (Some c, s)
      | None \<Rightarrow>
          (case s_pub_cred s pid of Some c \<Rightarrow> (Some c, s)
           | None \<Rightarrow>
               (case ListActiveCredentialsByNode (s_node s) now d of
                  Inl _ \<Rightarrow> (None, s)
                | Inr cs \<Rightarrow> (match_key pid cs, cache_creds cs s))))"

definition resolve_user :: "uuid \<Rightarrow> 'a db_scheme \<Rightarrow> session \<Rightarrow> uuid option \<times> session" where
  "resolve_user cid d s =
     (case s_peer_user s cid of Some u \<Rightarrow> (Some u, s)
      | None \<Rightarrow>
          (case GetCredentialByID cid d of
             Inl _ \<Rightarrow> (None, s)
           | Inr c \<Rightarrow> (Some (c_user c), CachePeerUser cid (c_user c) s)))"

text \<open>The sum of two int64 values.\<close>

definition add_int64 :: "int \<Rightarrow> int \<Rightarrow> int" where
  "add_int64 a b = (a + b + 9223372036854775808) mod 18446744073709551616 - 9223372036854775808"

definition record_usage :: "time \<Rightarrow> string \<Rightarrow> uuid \<Rightarrow> uuid \<Rightarrow> int \<Rightarrow> int \<Rightarrow> service \<Rightarrow> service" where
  "record_usage hr proto nid uid rx tx sv =
     (let sv1 = try_stmt (UpsertTrafficStats uid nid proto hr rx tx) sv; total = add_int64 rx tx in
      if total > 0 then try_stmt (UpdateUserTraffic uid total) sv1 else sv1)"

definition handle_peer ::
    "(string \<Rightarrow> uuid option) \<Rightarrow> time \<Rightarrow> time \<Rightarrow> nat \<Rightarrow> string \<Rightarrow> peer_delta \<Rightarrow> service \<Rightarrow> service" where
  "handle_peer parse now hr a proto p sv =
     (case sm_heap (sv_mgr sv) a of None \<Rightarrow> sv
      | Some s \<Rightarrow>
          (case resolve_cred parse now (pd_id p) (sv_db sv) s of
             (None, s1) \<Rightarrow> put_session a s1 sv
           | (Some cid, s1) \<Rightarrow>
               (case resolve_user cid (sv_db sv) s1 of
                  (None, s2) \<Rightarrow> put_session a s2 sv
                | (Some uid, s2) \<Rightarrow>
                    enforceUserLimits now (s_node s) uid
                      (record_usage hr proto (s_node s) uid (pd_rx p) (pd_tx p) (put_session a s2 sv)))))"

definition hour_bucket :: "time \<Rightarrow> time" where
  "hour_bucket t = t - t mod hour"

definition handleMetrics :: "(string \<Rightarrow> uuid option) \<Rightarrow> time \<Rightarrow> nat \<Rightarrow> report option \<Rightarrow> service \<Rightarrow> service" where
  "handleMetrics parse now a rep sv =
     (case rep of None \<Rightarrow> sv
      | Some (ts, protocols) \<Rightarrow>
          (let hr = hour_bucket (if ts > 0 then ts * second else now) in
           fold (\<lambda>(proto, peers). fold (handle_peer parse now hr a proto) peers) protocols sv))"

section \<open>The stream\<close>

datatype agent_msg =
    RegisterMsg "(string \<times> string) option"
  | HeartbeatMsg "heartbeat option"
  | MetricsMsg "report option"
  | AckMsg int bool
  | ResultMsg command_result
  | LogMsg string
  | EmptyMsg

record stream_env =
  se_tls :: tls
  se_autocreate :: string
  se_parse :: "string \<Rightarrow> uuid option"

text \<open>One received message: the stream's session afterwards and whether the stream ends with an
  error. fresh is the identifier a created node would get, addr a new session's address.\<close>

definition send_initial :: "uuid \<Rightarrow> time \<Rightarrow> nat \<Rightarrow> service \<Rightarrow> service" where
  "send_initial nid now a sv =
     (case BuildConfig nid (currentConfigVersion nid (sv_db sv)) True now (sv_db sv) of
        Inl _ \<Rightarrow> sv
      | Inr cu \<Rightarrow> (case sm_heap (sv_mgr sv) a of None \<Rightarrow> sv
          | Some s \<Rightarrow> put_session a (snd (Send (ConfigMsg cu) s)) sv))"

definition stream_msg ::
    "stream_env \<Rightarrow> uuid \<Rightarrow> nat \<Rightarrow> time \<Rightarrow> agent_msg \<Rightarrow> nat option \<Rightarrow> service \<Rightarrow>
     (reg_error option \<times> nat option \<times> service) option" where
  "stream_msg en fresh addr now msg me sv =
     (case (msg, me) of
        (RegisterMsg reg, _) \<Rightarrow>
          (case handleRegister (se_tls en) (se_autocreate en) fresh now reg sv of
             (Inl e, sv1) \<Rightarrow> Some (Some e, me, sv1)
           | (Inr n, sv1) \<Rightarrow>
               (case me of
                  Some a \<Rightarrow> Some (None, me, send_initial (n_id n) now a sv1)
                | None \<Rightarrow>
                    (let sv2 = put_session addr (NewAgentSession (n_id n) (n_name n) now) sv1 in
                     case sm_register addr (sv_mgr sv2) of None \<Rightarrow> None
                     | Some m \<Rightarrow> Some (None, Some addr, send_initial (n_id n) now addr
                         (alert (n_name n) ''online'' ''Agent connected and registered with Control Plane''
                            (sv2\<lparr>sv_mgr := m\<rparr>))))))
      | (HeartbeatMsg hb, Some a) \<Rightarrow> Some (None, me, handleHeartbeat now a hb sv)
      | (MetricsMsg rep, Some a) \<Rightarrow> Some (None, me, handleMetrics (se_parse en) now a rep sv)
      | (AckMsg v ok, Some a) \<Rightarrow>
          Some (None, me, case sm_heap (sv_mgr sv) a of None \<Rightarrow> sv
                  | Some s \<Rightarrow> if ok then put_session a (s\<lparr>s_version := v\<rparr>) sv else sv)
      | (ResultMsg r, Some a) \<Rightarrow>
          (case sm_on_session a (ResolveCommand r) (sv_mgr sv) of None \<Rightarrow> None
           | Some m \<Rightarrow> Some (None, me, sv\<lparr>sv_mgr := m\<rparr>))
      | _ \<Rightarrow> Some (None, me, sv))"

text \<open>The deferred cleanup of Connect, and the sweep of silent nodes.\<close>

definition disconnect :: "time \<Rightarrow> nat option \<Rightarrow> service \<Rightarrow> service option" where
  "disconnect now me sv =
     (case me of None \<Rightarrow> Some sv
      | Some a \<Rightarrow>
          (case sm_heap (sv_mgr sv) a of None \<Rightarrow> None
           | Some s \<Rightarrow>
               (case sm_unregister_session a (sv_mgr sv) of None \<Rightarrow> None
                | Some (False, m) \<Rightarrow> Some (sv\<lparr>sv_mgr := m\<rparr>)
                | Some (True, m) \<Rightarrow>
                    Some (alert (s_name s) ''offline'' ''Agent disconnected from Control Plane''
                      (try_stmt (UpdateHeartbeat (s_node s) ''offline'' now) (sv\<lparr>sv_mgr := m\<rparr>))))))"

definition SweepStaleNodes :: "time \<Rightarrow> time \<Rightarrow> service \<Rightarrow> (nat \<times> service) option" where
  "SweepStaleNodes now timeout sv =
     (case SweepInactive now timeout (sv_mgr sv) of None \<Rightarrow> None
      | Some (ids, m) \<Rightarrow> Some (length ids,
          fold (\<lambda>nid. try_stmt (UpdateHeartbeat nid ''offline'' now)) ids (sv\<lparr>sv_mgr := m\<rparr>)))"

section \<open>Lemmas\<close>

lemma put_session_frame [simp, frame]:
  "sv_db (put_session a s sv) = sv_db sv" "sv_notified (put_session a s sv) = sv_notified sv"
  "sv_alerts (put_session a s sv) = sv_alerts sv"
  "sm_heap (sv_mgr (put_session a s sv)) a = Some s"
  "sm_sessions (sv_mgr (put_session a s sv)) = sm_sessions (sv_mgr sv)"
  by (simp_all add: put_session_def)

lemma try_stmt_frame [simp, frame]:
  "sv_mgr (try_stmt f sv) = sv_mgr sv" "sv_notified (try_stmt f sv) = sv_notified sv"
  "sv_alerts (try_stmt f sv) = sv_alerts sv"
  by (simp_all add: try_stmt_def split: sum.splits)

lemma alert_frame [simp, frame]: "sv_db (alert n st m sv) = sv_db sv" "sv_mgr (alert n st m sv) = sv_mgr sv"
  by (simp_all add: alert_def split: option.splits)

lemma find_map_same:
  assumes "\<And>x. Q (f x) = Q x"
  shows "List.find Q (List.map (\<lambda>x. if P x then f x else x) xs) = map_option (\<lambda>x. if P x then f x else x) (List.find Q xs)"
  using assms by (induction xs) auto

lemma GetNodeByID_update:
  assumes "\<And>n. n_id (f n) = n_id n"
  shows "GetNodeByID nid (update_nodes P f d) = (case GetNodeByID nid d of Inl e \<Rightarrow> Inl e | Inr n \<Rightarrow> Inr (if P n then f n else n))"
  using find_map_same[of "\<lambda>n. n_id n = nid" f P "db_nodes d"] assms
  by (simp add: GetNodeByID_def db_nodes_update split: option.splits)

lemma GetNodeByID_id: "GetNodeByID nid d = Inr n \<Longrightarrow> n_id n = nid \<and> n \<in> set (db_nodes d)"
  by (auto simp: GetNodeByID_def dest!: find_Some_in split: if_splits option.splits)

lemma push_cases:
  assumes "PushConfigUpdate nid v full now sv = (r, sv')"
  shows "sv_db sv' = sv_db sv \<and> sv_notified sv' = sv_notified sv"
    "r = None \<Longrightarrow> \<exists>a s s' cu. sm_get (sv_mgr sv) nid = Some (a, s) \<and> sm_heap (sv_mgr sv') a = Some s' \<and>
       s_sendq s' = s_sendq s @ [ConfigMsg cu] \<and> s_peer_user s' = Map.empty \<and> s_pub_cred s' = Map.empty \<and>
       BuildConfig nid v full now (sv_db sv) = Inr cu \<and>
       (\<forall>b. b \<noteq> a \<longrightarrow> sm_heap (sv_mgr sv') b = sm_heap (sv_mgr sv) b)"
  using assms
  by (auto simp: PushConfigUpdate_def Let_def Send_def InvalidateCaches_def put_session_def
      split: option.splits sum.splits prod.splits if_splits)

lemma next_version:
  assumes "nextConfigVersion nid fb d = (v, d')" "GetNodeByID nid d = Inr n" "0 \<le> n_version n"
    "''GetAndBumpConfigVersion'' \<notin> db_down d" "int8_fits (n_version n + 1)"
  shows "v = n_version n + 1" "d' = update_nodes (\<lambda>m. n_id m = nid) (\<lambda>m. m\<lparr>n_version := n_version m + 1\<rparr>) d"
  using assms by (auto simp: nextConfigVersion_def GetAndBumpConfigVersion_def GetNodeByID_def
      split: option.splits if_splits)

lemma nextConfigVersion_users:
  "nextConfigVersion nid fb d = (v, d') \<Longrightarrow> db_users d' = db_users d \<and> db_creds d' = db_creds d \<and> db_down d' = db_down d \<and>
     sdb.more d' = sdb.more d \<and> db_traffic d' = db_traffic d"
  by (auto simp: nextConfigVersion_def GetAndBumpConfigVersion_def update_nodes_def
      split: option.splits if_splits sum.splits prod.splits)

lemma nextConfigVersion_ok: "nextConfigVersion nid fb d = (v, d') \<Longrightarrow> db_ok d \<Longrightarrow> db_ok d'"
  by (auto simp: nextConfigVersion_def dest: GetAndBumpConfigVersion_ok split: sum.splits prod.splits)

lemma PushNodeConfig_db:
  assumes "PushNodeConfig nid now sv = (r, sv')"
  shows "db_users (sv_db sv') = db_users (sv_db sv)" "db_creds (sv_db sv') = db_creds (sv_db sv)"
    "db_down (sv_db sv') = db_down (sv_db sv)" "db_ok (sv_db sv) \<Longrightarrow> db_ok (sv_db sv')"
    "sv_notified sv' = sv_notified sv"
proof -
  have "db_users (sv_db sv') = db_users (sv_db sv) \<and> db_creds (sv_db sv') = db_creds (sv_db sv) \<and>
    db_down (sv_db sv') = db_down (sv_db sv) \<and> (db_ok (sv_db sv) \<longrightarrow> db_ok (sv_db sv')) \<and> sv_notified sv' = sv_notified sv"
  proof (cases "sm_get (sv_mgr sv) nid")
    case None
    then show ?thesis using assms by (simp add: PushNodeConfig_def)
  next
    case (Some p)
    obtain a s where p: "p = (a, s)" by (cases p)
    obtain v d where nv: "nextConfigVersion nid (s_version s + 1) (sv_db sv) = (v, d)" by fastforce
    have "PushConfigUpdate nid v True now (sv\<lparr>sv_db := d\<rparr>) = (r, sv')"
      using assms by (simp add: PushNodeConfig_def Some p nv)
    from push_cases(1)[OF this] show ?thesis
      using nextConfigVersion_users[OF nv] nextConfigVersion_ok[OF nv] by simp
  qed
  then show "db_users (sv_db sv') = db_users (sv_db sv)" "db_creds (sv_db sv') = db_creds (sv_db sv)"
    "db_down (sv_db sv') = db_down (sv_db sv)" "db_ok (sv_db sv) \<Longrightarrow> db_ok (sv_db sv')"
    "sv_notified sv' = sv_notified sv" by auto
qed

text \<open>A successful push appends the configuration of the database it leaves behind.\<close>

lemma PushNodeConfig_sends:
  assumes "PushNodeConfig nid now sv = (None, sv')"
  shows "\<exists>a s s' v cu. sm_get (sv_mgr sv) nid = Some (a, s) \<and> sm_heap (sv_mgr sv') a = Some s' \<and>
    s_sendq s' = s_sendq s @ [ConfigMsg cu] \<and> s_peer_user s' = Map.empty \<and> s_pub_cred s' = Map.empty \<and>
    nextConfigVersion nid (s_version s + 1) (sv_db sv) = (v, sv_db sv') \<and>
    BuildConfig nid v True now (sv_db sv') = Inr cu \<and>
    (\<forall>b. b \<noteq> a \<longrightarrow> sm_heap (sv_mgr sv') b = sm_heap (sv_mgr sv) b)"
proof -
  obtain a s where g: "sm_get (sv_mgr sv) nid = Some (a, s)"
    using assms by (auto simp: PushNodeConfig_def split: option.splits)
  obtain v d where nv: "nextConfigVersion nid (s_version s + 1) (sv_db sv) = (v, d)" by fastforce
  have p: "PushConfigUpdate nid v True now (sv\<lparr>sv_db := d\<rparr>) = (None, sv')"
    using assms by (simp add: PushNodeConfig_def g nv)
  have "sv_db sv' = d" using push_cases(1)[OF p] by simp
  then show ?thesis using push_cases(2)[OF p refl] g nv by auto
qed

lemma blocked_excluded:
  "userBlockedByLimits now u \<longleftrightarrow> user_excluded now u \<or> u_banned u = Some True"
  by (auto simp: userBlockedByLimits_def user_excluded_def)

lemma built_excludes:
  assumes "db_ok d" "BuildConfig nid v full now d = Inr cu" "GetUserByID uid d = Inr u" "user_excluded now u"
  shows "(uid, cc) \<notin> served cu"
proof -
  obtain n where n: "GetNodeByID nid d = Inr n"
    using assms(2) by (auto simp: BuildConfig_def split: sum.splits)
  have u: "u_id u = uid" "u \<in> set (db_users d)"
    using assms(3) by (auto simp: GetUserByID_def dest!: find_Some_in split: if_splits option.splits)
  have "v = u" if "v \<in> set (db_users d)" "u_id v = uid" for v
    using distinct_map_unique[of u_id "db_users d" v u] assms(1) u that by (simp add: db_ok_def)
  then show ?thesis using build_exact[OF assms(1,2) n] assms(4) by auto
qed

lemma GetUserByID_same: "db_users d' = db_users d \<Longrightarrow> db_down d' = db_down d \<Longrightarrow> GetUserByID uid d' = GetUserByID uid d"
  by (simp add: GetUserByID_def)

section \<open>Properties\<close>

text \<open>
  The enrollment gate. A request that is refused leaves the service as it was. An accepted
  one names the node it returns; with TLS the name is the certificate's common name or one of its
  DNS names unless the common name is empty; and the node exists already or the environment
  allows automatic creation. A certificate without a common name is accepted under any name.
\<close>
theorem enrollment_gate:
  "(case handleRegister t env fresh now reg sv of
      (Inl e, sv') \<Rightarrow> sv' = sv
    | (Inr n, sv') \<Rightarrow> (\<exists>key. reg = Some (n_name n, key)) \<and> n_name n \<noteq> [] \<and>
        (case t of None \<Rightarrow> True | Some (vcs, peers) \<Rightarrow>
           (case client_cert vcs peers of None \<Rightarrow> True
            | Some c \<Rightarrow> ce_cn c = [] \<or> n_name n = ce_cn c \<or> n_name n \<in> set (ce_dns c))) \<and>
        (GetNodeByName (n_name n) (sv_db sv) = Inr n \<or> allowAgentAutocreate env \<and> sv_db sv' = (sv_db sv)\<lparr>db_nodes := n # db_nodes (sv_db sv)\<rparr>))
   \<and> identity_ok (Some ([[\<lparr>ce_cn = [], ce_dns = dns\<rparr>]], [])) other"
proof -
  have "identity_ok (Some ([[\<lparr>ce_cn = [], ce_dns = dns\<rparr>]], [])) other"
    by (simp add: identity_ok_def client_cert_def)
  moreover have "n_name n = name" if "GetNodeByName name (sv_db sv) = Inr n" for name n
    using that by (auto simp: GetNodeByName_def dest!: find_Some_in split: if_splits option.splits)
  moreover have "n_name (new_node fresh name key) = name" for name key by (simp add: new_node_def)
  ultimately show ?thesis
    by (auto simp: handleRegister_def identity_ok_def CreateNode_def split: option.splits sum.splits prod.splits if_splits)
qed

text \<open>
  Drain. Heartbeats of a node that an administrator put into drain never change its status,
  whatever status and times they carry and however many arrive; they only refresh its session.
  The registration of the same node's agent sets it online again.
\<close>
theorem drain_survives_heartbeats:
  assumes "GetNodeByID nid (sv_db sv) = Inr n" "n_status n \<in> {Some ''drain'', Some ''draining''}"
    and "sm_heap (sv_mgr sv) a = Some s" "s_node s = nid" "sv' = fold (\<lambda>(now, hb). handleHeartbeat now a hb) hbs sv"
  shows "(\<exists>n'. GetNodeByID nid (sv_db sv') = Inr n' \<and> n_status n' = n_status n) \<and>
    (\<exists>s'. sm_heap (sv_mgr sv') a = Some s' \<and> s_node s' = nid \<and> s_sendq s' = s_sendq s) \<and>
    (\<forall>t env fresh now key sv''. GetNodeByName (n_name n) (sv_db sv) = Inr n \<and> ''UpdateNodeHeartbeat'' \<notin> db_down (sv_db sv) \<and>
       handleRegister t env fresh now (Some (n_name n, key)) sv = (Inr n, sv'') \<longrightarrow>
       (\<exists>n''. GetNodeByID nid (sv_db sv'') = Inr n'' \<and> n_status n'' = Some ''online''))"
proof -
  have "(\<exists>n'. GetNodeByID nid (sv_db sv') = Inr n' \<and> n_status n' = n_status n) \<and>
    (\<exists>s'. sm_heap (sv_mgr sv') a = Some s' \<and> s_node s' = nid \<and> s_sendq s' = s_sendq s)"
    using assms
  proof (induction hbs arbitrary: sv n s)
    case Nil
    then show ?case by auto
  next
    case (Cons e hbs)
    obtain now hb where e: "e = (now, hb)" by (cases e)
    let ?sv = "handleHeartbeat now a hb sv"
    have "(\<exists>m. GetNodeByID nid (sv_db ?sv) = Inr m \<and> n_status m = n_status n) \<and>
        (\<exists>r. sm_heap (sv_mgr ?sv) a = Some r \<and> s_node r = nid \<and> s_sendq r = s_sendq s)"
    proof (cases hb)
      case None
      then show ?thesis using Cons.prems by (simp add: handleHeartbeat_def)
    next
      case (Some h)
      define sv1 where "sv1 = put_session a (s\<lparr>s_heartbeat := (if hb_time h > 0 then hb_time h * second else now)\<rparr>) sv"
      let ?st = "kept_status nid (heartbeat_status (hb_status h)) (sv_db sv1)"
      have d: "sv_db sv1 = sv_db sv" by (simp add: sv1_def)
      have st: "Some ?st = n_status n" "?st \<noteq> []"
        using Cons.prems(1,2) by (auto simp: d kept_status_def)
      have r: "?sv = try_stmt (UpdateHeartbeat nid ?st now) sv1"
        using Cons.prems(3,4) Some by (simp add: handleHeartbeat_def sv1_def Let_def)
      have "\<exists>m. GetNodeByID nid (sv_db ?sv) = Inr m \<and> n_status m = n_status n"
        using Cons.prems(1) st d
        by (auto simp: r try_stmt_def UpdateHeartbeat_def GetNodeByID_update)
      moreover have "sm_heap (sv_mgr ?sv) a = Some (s\<lparr>s_heartbeat := (if hb_time h > 0 then hb_time h * second else now)\<rparr>)"
        by (simp add: r) (simp add: sv1_def)
      ultimately show ?thesis using Cons.prems(4) by simp
    qed
    then obtain m r where mr: "GetNodeByID nid (sv_db ?sv) = Inr m" "n_status m = n_status n"
      "sm_heap (sv_mgr ?sv) a = Some r" "s_node r = nid" "s_sendq r = s_sendq s" by blast
    have "n_status m \<in> {Some ''drain'', Some ''draining''}" using mr(2) Cons.prems(2) by simp
    from Cons.IH[OF mr(1) this mr(3,4)] Cons.prems(5) mr(2,5) show ?case by (simp add: e)
  qed
  moreover have "\<exists>n''. GetNodeByID nid (sv_db sv'') = Inr n'' \<and> n_status n'' = Some ''online''"
    if "GetNodeByName (n_name n) (sv_db sv) = Inr n" "''UpdateNodeHeartbeat'' \<notin> db_down (sv_db sv)"
      "handleRegister t env fresh now (Some (n_name n, key)) sv = (Inr n, sv'')" for t env fresh now key sv''
  proof -
    have "sv'' = try_stmt (UpdateHeartbeat (n_id n) ''online'' now) sv"
      using that(1,3) by (auto simp: handleRegister_def split: if_splits)
    then show ?thesis using that(2) assms(1) GetNodeByID_id[OF assms(1)]
      by (auto simp: try_stmt_def UpdateHeartbeat_def GetNodeByID_update)
  qed
  ultimately show ?thesis by blast
qed


text \<open>
  Versions of pushes. A push to a node without a session fails and leaves the database as it
  is: the version is not advanced. A successful push advances the stored version by one and
  queues, last on the node's session, the full configuration of the database it leaves behind
  under that new version; the session's caches are empty.
\<close>
theorem push_advances_version:
  assumes "db_ok (sv_db sv)" "GetNodeByID nid (sv_db sv) = Inr n" "0 \<le> n_version n" "int8_fits (n_version n + 1)"
    and "db_down (sv_db sv) \<inter> {''GetAndBumpConfigVersion'', ''GetConfigVersion''} = {}"
  shows "(sm_get (sv_mgr sv) nid = None \<longrightarrow> PushNodeConfig nid now sv = (Some (PushSession ErrSessionNotFound), sv)) \<and>
    (\<forall>sv'. PushNodeConfig nid now sv = (None, sv') \<longrightarrow>
       GetConfigVersion nid (sv_db sv') = Inr (n_version n + 1) \<and>
       (\<exists>a s s' cu. sm_get (sv_mgr sv) nid = Some (a, s) \<and> sm_heap (sv_mgr sv') a = Some s' \<and>
          s_sendq s' = s_sendq s @ [ConfigMsg cu] \<and> cu_version cu = n_version n + 1 \<and> cu_full cu \<and>
          BuildConfig nid (n_version n + 1) True now (sv_db sv') = Inr cu \<and>
          s_peer_user s' = Map.empty \<and> s_pub_cred s' = Map.empty))"
proof (intro conjI impI allI)
  show "PushNodeConfig nid now sv = (Some (PushSession ErrSessionNotFound), sv)" if "sm_get (sv_mgr sv) nid = None"
    using that by (simp add: PushNodeConfig_def)
  fix sv' assume p: "PushNodeConfig nid now sv = (None, sv')"
  obtain a cu s' v and s :: session where c: "sm_get (sv_mgr sv) nid = Some (a, s)" "sm_heap (sv_mgr sv') a = Some s'"
    "s_sendq s' = s_sendq s @ [ConfigMsg cu]" "s_peer_user s' = Map.empty" "s_pub_cred s' = Map.empty"
    "nextConfigVersion nid (s_version s + 1) (sv_db sv) = (v, sv_db sv')"
    "BuildConfig nid v True now (sv_db sv') = Inr cu"
    using PushNodeConfig_sends[OF p] by blast
  have down: "''GetAndBumpConfigVersion'' \<notin> db_down (sv_db sv)" using assms(5) by blast
  note nv = next_version[OF c(6) assms(2,3) down assms(4)]
  have g: "GetNodeByID nid (sv_db sv') = Inr (n\<lparr>n_version := n_version n + 1\<rparr>)"
    using assms(2) GetNodeByID_id[OF assms(2)] by (simp add: nv(2) GetNodeByID_update)
  then show "GetConfigVersion nid (sv_db sv') = Inr (n_version n + 1)"
    using assms(5) PushNodeConfig_db(3)[OF p] by (auto simp: GetNodeByID_def GetConfigVersion_def split: if_splits option.splits)
  have "cu_version cu = v" "cu_full cu" using build_exact[OF PushNodeConfig_db(4)[OF p assms(1)] c(7) g] by auto
  then show "\<exists>a s s' cu. sm_get (sv_mgr sv) nid = Some (a, s) \<and> sm_heap (sv_mgr sv') a = Some s' \<and>
          s_sendq s' = s_sendq s @ [ConfigMsg cu] \<and> cu_version cu = n_version n + 1 \<and> cu_full cu \<and>
          BuildConfig nid (n_version n + 1) True now (sv_db sv') = Inr cu \<and>
          s_peer_user s' = Map.empty \<and> s_pub_cred s' = Map.empty"
    using c(1-5) c(7)[unfolded nv(1)] nv(1) by blast
qed

section \<open>Billing of a report\<close>

definition owner_of :: "'a db_scheme \<Rightarrow> uuid \<Rightarrow> uuid option" where
  "owner_of d cid = map_option c_user (List.find (\<lambda>c. c_id c = cid) (db_creds d))"

definition usage1 :: "(string \<Rightarrow> uuid option) \<Rightarrow> 'a db_scheme \<Rightarrow> peer_delta \<Rightarrow> uuid \<Rightarrow> int" where
  "usage1 parse d p i = (case parse (pd_id p) of None \<Rightarrow> 0
     | Some c \<Rightarrow> if owner_of d c = Some i then pd_rx p + pd_tx p else 0)"

definition usage :: "(string \<Rightarrow> uuid option) \<Rightarrow> 'a db_scheme \<Rightarrow> peer_delta list \<Rightarrow> uuid \<Rightarrow> int" where
  "usage parse d ps i = sum_list (List.map (\<lambda>p. usage1 parse d p i) ps)"

definition add_used :: "(uuid \<Rightarrow> int) \<Rightarrow> user \<Rightarrow> user" where
  "add_used g u = u\<lparr>u_used := map_option (\<lambda>n. n + g (u_id u)) (u_used u)\<rparr>"

definition cache_ok :: "session \<Rightarrow> 'a db_scheme \<Rightarrow> bool" where
  "cache_ok s d \<longleftrightarrow> (\<forall>c u. s_peer_user s c = Some u \<longrightarrow> owner_of d c = Some u)"

lemma add_used_simps [simp]: "u_id (add_used g u) = u_id u" "int_or 0 (u_used (add_used g u)) =
    (if u_used u = None then 0 else int_or 0 (u_used u) + g (u_id u))"
  by (cases "u_used u"; simp add: add_used_def)+

lemma add_used_twice: "add_used h (add_used g u) = add_used (\<lambda>i. g i + h i) u"
  by (simp add: add_used_def option.map_comp comp_def add.assoc)

lemma add_used_zero: "add_used (\<lambda>_. 0) u = u"
  by (simp add: add_used_def option.map_ident)

lemma owner_same: "db_creds d' = db_creds d \<Longrightarrow> owner_of d' = owner_of d"
  by (simp add: owner_of_def fun_eq_iff)

lemma usage_same:
  assumes "db_creds d' = db_creds d"
  shows "usage1 parse d' p = usage1 parse d p"
  unfolding usage1_def fun_eq_iff owner_same[OF assms] by simp

lemma UpdateUserTraffic_adds:
  assumes "''UpdateUserTraffic'' \<notin> db_down d" "\<And>u. u \<in> set (db_users d) \<Longrightarrow> u_id u = uid \<Longrightarrow> int8_fits (int_or 0 (u_used u) + b)"
  shows "UpdateUserTraffic uid b d =
    Inr (d\<lparr>db_users := List.map (add_used (\<lambda>i. if i = uid then b else 0)) (db_users d)\<rparr>)"
proof -
  have "(if u_id u = uid then u\<lparr>u_used := map_option (\<lambda>n. n + b) (u_used u)\<rparr> else u) = add_used (\<lambda>i. if i = uid then b else 0) u" for u
    by (auto simp: add_used_def option.map_ident)
  then show ?thesis using assms by (auto simp: UpdateUserTraffic_def update_users_def)
qed

lemma resolve_user_cached:
  assumes "''GetCredentialByID'' \<notin> db_down d" "cache_ok s d"
  shows "fst (resolve_user cid d s) = owner_of d cid \<and> cache_ok (snd (resolve_user cid d s)) d \<and>
    s_node (snd (resolve_user cid d s)) = s_node s"
proof (cases "s_peer_user s cid")
  case None
  then show ?thesis using assms
    by (simp add: resolve_user_def cache_ok_def owner_of_def GetCredentialByID_def CachePeerUser_def split: option.splits)
next
  case (Some u)
  then have "owner_of d cid = Some u" using assms(2) unfolding cache_ok_def by blast
  then show ?thesis using Some assms(2) by (simp add: resolve_user_def)
qed

lemma Upsert_frame:
  "UpsertTrafficStats u n p h rx tx d = Inr d' \<Longrightarrow> db_users d' = db_users d \<and> db_creds d' = db_creds d \<and>
     db_down d' = db_down d \<and> (db_ok d \<longrightarrow> db_ok d')"
  by (auto simp: UpsertTrafficStats_def db_ok_def split: if_splits)

lemma enforce_frame:
  assumes "sv' = enforceUserLimits now nid uid sv" "sm_heap (sv_mgr sv) a = Some s" "cache_ok s (sv_db sv)"
  shows "db_users (sv_db sv') = db_users (sv_db sv) \<and> db_creds (sv_db sv') = db_creds (sv_db sv) \<and>
    db_down (sv_db sv') = db_down (sv_db sv) \<and> (db_ok (sv_db sv) \<longrightarrow> db_ok (sv_db sv')) \<and>
    (\<exists>s'. sm_heap (sv_mgr sv') a = Some s' \<and> cache_ok s' (sv_db sv'))"
proof -
  obtain r sv1 where p: "PushNodeConfig nid now sv = (r, sv1)" by fastforce
  note fr = PushNodeConfig_db[OF p]
  have h: "\<exists>s'. sm_heap (sv_mgr sv1) a = Some s' \<and> (s_peer_user s' = s_peer_user s \<or> s_peer_user s' = Map.empty)"
    using p assms(2)
    by (auto simp: PushNodeConfig_def PushConfigUpdate_def Let_def Send_def InvalidateCaches_def put_session_def sm_get_def
        split: option.splits sum.splits prod.splits if_splits)
  then have "\<exists>s'. sm_heap (sv_mgr sv1) a = Some s' \<and> cache_ok s' (sv_db sv1)"
    using assms(3) owner_same[OF fr(2)] by (fastforce simp: cache_ok_def)
  then show ?thesis
    using assms fr p by (auto simp: enforceUserLimits_def cache_ok_def split: sum.splits option.splits)
qed

text \<open>What the handling of the peers relies on and keeps: the stream's session with consistent
  caches, working statements, and room in the counters for the usage that is still to come.\<close>

definition billable :: "nat \<Rightarrow> (uuid \<Rightarrow> int) \<Rightarrow> service \<Rightarrow> bool" where
  "billable a coming sv \<longleftrightarrow> db_ok (sv_db sv) \<and>
     db_down (sv_db sv) \<inter> {''GetCredentialByID'', ''UpdateUserTraffic''} = {} \<and>
     (\<exists>s. sm_heap (sv_mgr sv) a = Some s \<and> cache_ok s (sv_db sv)) \<and>
     (\<forall>u\<in>set (db_users (sv_db sv)). 0 \<le> int_or 0 (u_used u) \<and> int_or 0 (u_used u) + coming (u_id u) \<le> int64_max)"

lemma record_usage_bill:
  assumes "''UpdateUserTraffic'' \<notin> db_down (sv_db sv)" "uid \<in> u_id ` set (db_users (sv_db sv))" "0 \<le> rx" "0 \<le> tx"
    "\<And>u. u \<in> set (db_users (sv_db sv)) \<Longrightarrow> u_id u = uid \<Longrightarrow>
       0 \<le> int_or 0 (u_used u) \<and> int_or 0 (u_used u) + (rx + tx) \<le> int64_max"
    "sv' = record_usage hr proto nid uid rx tx sv"
  shows "db_users (sv_db sv') = List.map (add_used (\<lambda>i. if i = uid then rx + tx else 0)) (db_users (sv_db sv)) \<and>
    db_creds (sv_db sv') = db_creds (sv_db sv) \<and> db_down (sv_db sv') = db_down (sv_db sv) \<and>
    (db_ok (sv_db sv) \<longrightarrow> db_ok (sv_db sv')) \<and> sv_mgr sv' = sv_mgr sv"
proof -
  define sv1 where "sv1 = try_stmt (UpsertTrafficStats uid nid proto hr rx tx) sv"
  have 1: "db_users (sv_db sv1) = db_users (sv_db sv) \<and> db_creds (sv_db sv1) = db_creds (sv_db sv) \<and>
    db_down (sv_db sv1) = db_down (sv_db sv) \<and> (db_ok (sv_db sv) \<longrightarrow> db_ok (sv_db sv1)) \<and> sv_mgr sv1 = sv_mgr sv"
  proof (cases "UpsertTrafficStats uid nid proto hr rx tx (sv_db sv)")
    case (Inr d)
    then show ?thesis using Upsert_frame[OF Inr] by (simp add: sv1_def try_stmt_def)
  qed (simp add: sv1_def try_stmt_def)
  obtain u where u: "u \<in> set (db_users (sv_db sv))" "u_id u = uid" using assms(2) by blast
  then have b: "rx + tx \<le> int64_max" using assms(5)[OF u] by linarith
  have "(rx + tx + 9223372036854775808) mod 18446744073709551616 = rx + tx + 9223372036854775808"
    using assms(3,4) b unfolding int64_max_def by (intro mod_pos_pos_trivial) linarith+
  then have t: "add_int64 rx tx = rx + tx" by (simp add: add_int64_def)
  show ?thesis
  proof (cases "rx + tx = 0")
    case True
    have "(\<lambda>i. if i = uid then rx + tx else 0) = (\<lambda>_. 0)" using True by auto
    then have "add_used (\<lambda>i. if i = uid then rx + tx else 0) v = v" for v by (simp add: add_used_zero)
    then show ?thesis using 1 True by (simp add: assms(6) record_usage_def sv1_def[symmetric] t map_idI)
  next
    case False
    have "int8_fits (int_or 0 (u_used v) + (rx + tx))" if "v \<in> set (db_users (sv_db sv1))" "u_id v = uid" for v
      using assms(3-5) that 1 by (fastforce simp: int8_fits_def int64_max_def)
    from UpdateUserTraffic_adds[OF _ this, of "sv_db sv1"]
    have up: "UpdateUserTraffic uid (rx + tx) (sv_db sv1) =
        Inr ((sv_db sv1)\<lparr>db_users := List.map (add_used (\<lambda>i. if i = uid then rx + tx else 0)) (db_users (sv_db sv1))\<rparr>)"
      using assms(1) 1 by simp
    have "sv' = try_stmt (UpdateUserTraffic uid (rx + tx)) sv1"
      using False assms(3,4) by (simp add: assms(6) record_usage_def sv1_def[symmetric] t)
    then show ?thesis using 1 UpdateUserTraffic_ok[OF up] by (simp add: try_stmt_def up)
  qed
qed

lemma handle_peer_bill:
  assumes "billable a (\<lambda>i. usage1 parse (sv_db sv) p i + rest i) sv" "parse (pd_id p) \<noteq> None" "0 \<le> pd_rx p" "0 \<le> pd_tx p"
    "\<And>i. 0 \<le> rest i" "sv' = handle_peer parse now hr a proto p sv"
  shows "db_users (sv_db sv') = List.map (add_used (usage1 parse (sv_db sv) p)) (db_users (sv_db sv)) \<and>
    db_creds (sv_db sv') = db_creds (sv_db sv) \<and> billable a rest sv'"
proof -
  obtain s where s: "sm_heap (sv_mgr sv) a = Some s" "cache_ok s (sv_db sv)"
    using assms(1) by (auto simp: billable_def)
  have ok: "db_ok (sv_db sv)" and dn: "''GetCredentialByID'' \<notin> db_down (sv_db sv)" "''UpdateUserTraffic'' \<notin> db_down (sv_db sv)"
    using assms(1) by (auto simp: billable_def)
  have room: "0 \<le> int_or 0 (u_used u) \<and> int_or 0 (u_used u) + (usage1 parse (sv_db sv) p (u_id u) + rest (u_id u)) \<le> int64_max"
    if "u \<in> set (db_users (sv_db sv))" for u using assms(1) that by (simp add: billable_def)
  obtain c where c: "parse (pd_id p) = Some c" using assms(2) by blast
  obtain r s2 where ru: "resolve_user c (sv_db sv) s = (r, s2)" by fastforce
  note rc = resolve_user_cached[OF dn(1) s(2), of c, unfolded ru fst_conv snd_conv]
  have rcr: "resolve_cred parse now (pd_id p) (sv_db sv) s = (Some c, s)" by (simp add: resolve_cred_def c)
  show ?thesis
  proof (cases r)
    case None
    then have "sv' = put_session a s2 sv" by (simp add: assms(6) handle_peer_def s(1) rcr ru)
    moreover have z: "usage1 parse (sv_db sv) p = (\<lambda>_. 0)" using rc None by (auto simp: usage1_def c)
    ultimately show ?thesis using ok dn rc room by (auto simp: billable_def z add_used_zero map_idI)
  next
    case (Some uid)
    define sv1 where "sv1 = put_session a s2 sv"
    define sv2 where "sv2 = record_usage hr proto (s_node s) uid (pd_rx p) (pd_tx p) sv1"
    have sv': "sv' = enforceUserLimits now (s_node s) uid sv2"
      using rc by (simp add: assms(6) handle_peer_def s(1) rcr ru[unfolded Some] sv1_def sv2_def)
    have own: "owner_of (sv_db sv) c = Some uid" using conjunct1[OF rc] Some by metis
    then have g: "usage1 parse (sv_db sv) p = (\<lambda>i. if i = uid then pd_rx p + pd_tx p else 0)"
      by (auto simp: usage1_def c)
    from own have uid: "uid \<in> u_id ` set (db_users (sv_db sv))"
      using ok by (auto simp: owner_of_def db_ok_def dest!: find_Some_in)
    have rm: "0 \<le> int_or 0 (u_used u) \<and> int_or 0 (u_used u) + (pd_rx p + pd_tx p) \<le> int64_max"
      if "u \<in> set (db_users (sv_db sv1))" "u_id u = uid" for u
    proof -
      have "u \<in> set (db_users (sv_db sv))" using that(1) by (simp add: sv1_def)
      from room[OF this] have "0 \<le> int_or 0 (u_used u) \<and>
          int_or 0 (u_used u) + (pd_rx p + pd_tx p + rest uid) \<le> int64_max"
        using that(2) by (simp add: g)
      then show ?thesis using assms(5)[of uid] by linarith
    qed
    note b = record_usage_bill[OF _ _ assms(3,4) rm sv2_def, unfolded sv1_def put_session_frame, OF dn(2) uid]
    have h: "sm_heap (sv_mgr sv2) a = Some s2" "cache_ok s2 (sv_db sv2)"
      using b rc owner_same[of "sv_db sv2" "sv_db sv"] by (simp_all add: cache_ok_def)
    note e = enforce_frame[OF sv' h]
    have us: "db_users (sv_db sv') = List.map (add_used (usage1 parse (sv_db sv) p)) (db_users (sv_db sv))"
      using e b by (simp add: g)
    have "0 \<le> int_or 0 (u_used v) \<and> int_or 0 (u_used v) + rest (u_id v) \<le> int64_max"
      if "v \<in> set (db_users (sv_db sv'))" for v
    proof -
      obtain u where u: "u \<in> set (db_users (sv_db sv))" "v = add_used (usage1 parse (sv_db sv) p) u"
        using \<open>v \<in> _\<close> us by auto
      have "0 \<le> usage1 parse (sv_db sv) p (u_id u)" using assms(3,4) by (simp add: g)
      then show ?thesis using room[OF u(1)] u(2) by (cases "u_used u") auto
    qed
    then show ?thesis using us e b ok dn by (auto simp: billable_def)
  qed
qed

definition good_peer :: "(string \<Rightarrow> uuid option) \<Rightarrow> peer_delta \<Rightarrow> bool" where
  "good_peer parse p \<longleftrightarrow> parse (pd_id p) \<noteq> None \<and> 0 \<le> pd_rx p \<and> 0 \<le> pd_tx p"

lemma usage_nonneg: "list_all (good_peer parse) ps \<Longrightarrow> 0 \<le> usage parse d ps i"
  by (induction ps) (auto simp: usage_def usage1_def good_peer_def split: option.splits)

lemma usage_append: "usage parse d (ps @ qs) = (\<lambda>i. usage parse d ps i + usage parse d qs i)"
  by (simp add: usage_def fun_eq_iff)

lemma peers_bill:
  assumes "billable a (\<lambda>i. usage parse (sv_db sv) ps i + rest i) sv" "list_all (good_peer parse) ps" "\<And>i. 0 \<le> rest i"
    "sv' = fold (handle_peer parse now hr a proto) ps sv"
  shows "db_users (sv_db sv') = List.map (add_used (usage parse (sv_db sv) ps)) (db_users (sv_db sv)) \<and>
    db_creds (sv_db sv') = db_creds (sv_db sv) \<and> billable a rest sv'"
  using assms
proof (induction ps arbitrary: sv)
  case Nil
  then show ?case by (simp add: usage_def add_used_zero)
next
  case (Cons p ps)
  define sv1 where "sv1 = handle_peer parse now hr a proto p sv"
  have g: "good_peer parse p" "list_all (good_peer parse) ps" using Cons.prems(2) by simp_all
  have split: "usage parse (sv_db sv) (p # ps) = (\<lambda>i. usage1 parse (sv_db sv) p i + usage parse (sv_db sv) ps i)"
    by (simp add: usage_def fun_eq_iff)
  have "billable a (\<lambda>i. usage1 parse (sv_db sv) p i + (usage parse (sv_db sv) ps i + rest i)) sv"
    using Cons.prems(1) by (simp add: split add.assoc)
  moreover have "0 \<le> usage parse (sv_db sv) ps i + rest i" for i
    using usage_nonneg[OF g(2), of "sv_db sv" i] Cons.prems(3)[of i] by linarith
  ultimately have 1: "db_users (sv_db sv1) = List.map (add_used (usage1 parse (sv_db sv) p)) (db_users (sv_db sv))"
    "db_creds (sv_db sv1) = db_creds (sv_db sv)" "billable a (\<lambda>i. usage parse (sv_db sv) ps i + rest i) sv1"
    using handle_peer_bill[OF _ _ _ _ _ sv1_def] g(1) by (auto simp: good_peer_def)
  have us: "usage parse (sv_db sv1) ps = usage parse (sv_db sv) ps"
    using usage_same[OF 1(2)] by (simp add: usage_def fun_eq_iff)
  have "billable a (\<lambda>i. usage parse (sv_db sv1) ps i + rest i) sv1" using 1(3) by (simp add: us)
  from Cons.IH[OF this g(2) Cons.prems(3)] Cons.prems(4)
  show ?case using 1(1,2) by (simp add: sv1_def[symmetric] us split add_used_twice comp_def)
qed

lemma protocols_bill:
  assumes "billable a (usage parse (sv_db sv) (concat (List.map snd protos))) sv"
    "list_all (good_peer parse) (concat (List.map snd protos))"
    "sv' = fold (\<lambda>(proto, peers). fold (handle_peer parse now hr a proto) peers) protos sv"
  shows "db_users (sv_db sv') = List.map (add_used (usage parse (sv_db sv) (concat (List.map snd protos)))) (db_users (sv_db sv))"
  using assms
proof (induction protos arbitrary: sv)
  case Nil
  then show ?case by (simp add: usage_def add_used_zero)
next
  case (Cons pp protos)
  obtain proto ps where pp: "pp = (proto, ps)" by (cases pp)
  define sv1 where "sv1 = fold (handle_peer parse now hr a proto) ps sv"
  let ?rest = "\<lambda>i. usage parse (sv_db sv) (concat (List.map snd protos)) i"
  have g: "list_all (good_peer parse) ps" "list_all (good_peer parse) (concat (List.map snd protos))"
    using Cons.prems(2) by (simp_all add: pp)
  have split: "usage parse (sv_db sv) (concat (List.map snd (pp # protos))) = (\<lambda>i. usage parse (sv_db sv) ps i + ?rest i)"
    by (simp add: usage_def fun_eq_iff pp)
  have "billable a (\<lambda>i. usage parse (sv_db sv) ps i + ?rest i) sv" using Cons.prems(1) unfolding split .
  note 1 = peers_bill[OF this g(1) usage_nonneg[OF g(2)] sv1_def]
  have us: "usage parse (sv_db sv1) (concat (List.map snd protos)) = ?rest"
    using usage_same[OF conjunct1[OF conjunct2[OF 1]]] by (simp add: usage_def fun_eq_iff)
  have "billable a (usage parse (sv_db sv1) (concat (List.map snd protos))) sv1" using 1 by (simp add: us)
  from Cons.IH[OF this g(2)] Cons.prems(3)
  show ?case using 1 by (simp add: sv1_def[symmetric] pp us usage_append add_used_twice comp_def)
qed

text \<open>
  C2. Billing. When the statements of the handler work, the session's cache is consistent and the
  counters have room, one metrics report adds to the used traffic of every user exactly the
  received and sent bytes of the report's peers whose credential the user owns, and to nobody
  else's: peers of unknown credentials are skipped, and enforcing limits on the way, which may
  push configurations, changes no counter.
\<close>
theorem report_billed_exactly:
  assumes "db_ok (sv_db sv)" "db_down (sv_db sv) \<inter> {''GetCredentialByID'', ''UpdateUserTraffic''} = {}"
    and "sm_heap (sv_mgr sv) a = Some s" "cache_ok s (sv_db sv)" "list_all (good_peer parse) (concat (List.map snd protos))"
    and "\<forall>u\<in>set (db_users (sv_db sv)). 0 \<le> int_or 0 (u_used u) \<and>
       int_or 0 (u_used u) + usage parse (sv_db sv) (concat (List.map snd protos)) (u_id u) \<le> int64_max"
  shows "db_users (sv_db (handleMetrics parse now a (Some (ts, protos)) sv)) =
    List.map (\<lambda>u. u\<lparr>u_used := map_option (\<lambda>n. n + usage parse (sv_db sv) (concat (List.map snd protos)) (u_id u)) (u_used u)\<rparr>)
      (db_users (sv_db sv))"
proof -
  have b: "billable a (usage parse (sv_db sv) (concat (List.map snd protos))) sv"
    using assms unfolding billable_def by blast
  from protocols_bill[OF this assms(5) refl] show ?thesis
    by (simp add: handleMetrics_def Let_def add_used_def[abs_def])
qed

section \<open>Examples\<close>

definition demo_sdb :: sdb where
  "demo_sdb = \<lparr>db_users = [demo_user], db_nodes = [demo_node], db_creds = [demo_cred], db_down = {}, db_traffic = []\<rparr>"

definition demo_service :: service where
  "demo_service = \<lparr>sv_db = demo_sdb, sv_mgr = demo_manager, sv_notified = {}, sv_alerts = None\<rparr>"

lemma demo_sdb_ok: "db_ok demo_sdb"
  by (simp add: db_ok_def demo_sdb_def creds_ok_def with_addr_def demo_cred_def demo_user_def demo_node_def)

lemma demo_service_simps:
  "sv_db demo_service = demo_sdb" "sv_mgr demo_service = demo_manager" "sv_notified demo_service = {}"
  "sm_get demo_manager ''n1'' = Some (0, NewAgentSession ''n1'' ''node'' 0)"
  "sm_heap demo_manager 0 = Some (NewAgentSession ''n1'' ''node'' 0)"
  by (simp_all add: demo_service_def demo_manager_def sm_get_def)

definition drained :: service where
  "drained = demo_service\<lparr>sv_db := demo_sdb\<lparr>db_nodes := [demo_node\<lparr>n_status := Some ''drain''\<rparr>]\<rparr>\<rparr>"

lemma drain_survives_heartbeats_witness:
  "\<exists>n'. GetNodeByID ''n1'' (sv_db (fold (\<lambda>(now, hb). handleHeartbeat now 0 hb)
     [(5, Some \<lparr>hb_time = 4, hb_status = Online\<rparr>), (6, None), (7, Some \<lparr>hb_time = 0, hb_status = Degraded\<rparr>)] drained)) = Inr n' \<and>
     n_status n' = Some ''drain''"
proof -
  have "GetNodeByID ''n1'' (sv_db drained) = Inr (demo_node\<lparr>n_status := Some ''drain''\<rparr>)"
    "sm_heap (sv_mgr drained) 0 = Some (NewAgentSession ''n1'' ''node'' 0)" "s_node (NewAgentSession ''n1'' ''node'' 0) = ''n1''"
    by (simp_all add: GetNodeByID_def drained_def demo_service_simps demo_sdb_def demo_node_def NewAgentSession_def)
  from drain_survives_heartbeats[OF this(1) _ this(2,3) refl, where hbs =
      "[(5, Some \<lparr>hb_time = 4, hb_status = Online\<rparr>), (6, None), (7, Some \<lparr>hb_time = 0, hb_status = Degraded\<rparr>)]"]
  show ?thesis by simp
qed

definition overdue :: service where
  "overdue = demo_service\<lparr>sv_db := demo_sdb\<lparr>db_users := [demo_user\<lparr>u_expires := Some 3\<rparr>]\<rparr>\<rparr>"


lemma push_advances_version_witness:
  "PushNodeConfig ''n1'' 5 (demo_service\<lparr>sv_mgr := empty_manager\<rparr>) =
     (Some (PushSession ErrSessionNotFound), demo_service\<lparr>sv_mgr := empty_manager\<rparr>)"
proof -
  have "GetNodeByID ''n1'' (sv_db (demo_service\<lparr>sv_mgr := empty_manager\<rparr>)) = Inr demo_node"
    by (simp add: GetNodeByID_def demo_service_simps demo_sdb_def demo_node_def)
  from push_advances_version[OF _ this, of 5] show ?thesis
    by (simp add: demo_service_simps demo_sdb_ok demo_node_def int8_fits_def) (simp add: demo_sdb_def sm_get_def empty_manager_def)
qed

definition demo_usage :: peer_delta where
  "demo_usage = \<lparr>pd_id = ''c1'', pd_rx = 10, pd_tx = 20, pd_seen = None, pd_endpoint = [], pd_online = True\<rparr>"

lemma report_billed_exactly_witness:
  "List.map u_used (db_users (sv_db (handleMetrics Some 5 0 (Some (4, [(''wireguard'', [demo_usage])])) demo_service))) = [Some 30]"
proof -
  have c: "cache_ok (NewAgentSession ''n1'' ''node'' 0) (sv_db demo_service)" by (simp add: cache_ok_def NewAgentSession_def)
  have u: "usage Some demo_sdb [demo_usage] ''u1'' = 30"
    by (simp add: usage_def usage1_def owner_of_def demo_sdb_def demo_cred_def demo_usage_def)
  have p: "db_ok (sv_db demo_service)" "db_down (sv_db demo_service) \<inter> {''GetCredentialByID'', ''UpdateUserTraffic''} = {}"
    "sm_heap (sv_mgr demo_service) 0 = Some (NewAgentSession ''n1'' ''node'' 0)"
    by (simp_all add: demo_service_simps demo_sdb_ok) (simp add: demo_sdb_def)
  have g: "list_all (good_peer Some) (concat (List.map snd [(''wireguard'', [demo_usage])]))"
    by (simp add: good_peer_def demo_usage_def)
  have us: "db_users (sv_db demo_service) = [demo_user]" by (simp add: demo_service_simps demo_sdb_def)
  have r: "\<forall>u\<in>set (db_users (sv_db demo_service)). 0 \<le> int_or 0 (u_used u) \<and> int_or 0 (u_used u) +
       usage Some (sv_db demo_service) (concat (List.map snd [(''wireguard'', [demo_usage])])) (u_id u) \<le> int64_max"
    unfolding us using u by (simp add: demo_service_simps(1)) (simp add: demo_user_def int64_max_def)
  show ?thesis
    using report_billed_exactly[OF p(1,2,3) c g r, of 5 4] u
    unfolding us by (simp add: demo_service_simps(1)) (simp add: demo_user_def)
qed

end
