(* ===== verification/Push_Race.thy ===== *)
theory Push_Race
  imports Agent_Service
begin

text \<open>
  Concurrent pushes of one node's configuration (PushNodeConfig and PushConfigUpdate of
  src/internal/controlplane/grpc/agent_service.go). Handlers, the provisioner and the limit enforcer
  push from their own goroutines, so the statements of several pushes and the changes of the
  database interleave: a push first advances the version in one statement, then builds, then sends.
  The relation records, beside the state, at which point of the sequence of changes each version was
  taken and each configuration was built.
\<close>

section \<open>The step relation\<close>

datatype phase = Bumped int | Built config_update nat

record race =
  ra_db :: sdb
  ra_clock :: nat
  ra_push :: "nat \<rightharpoonup> phase"
  ra_bumps :: "(int \<times> nat) list"
  ra_sent :: "(config_update \<times> nat) list"

definition version_of :: "uuid \<Rightarrow> 'a db_scheme \<Rightarrow> int" where
  "version_of nid d = (case List.find (\<lambda>n. n_id n = nid) (db_nodes d) of None \<Rightarrow> 0 | Some n \<Rightarrow> n_version n)"

inductive race_step :: "uuid \<Rightarrow> race \<Rightarrow> race \<Rightarrow> bool" for nid where
  change: "version_of nid d' = version_of nid (ra_db r) \<Longrightarrow>
    race_step nid r (r\<lparr>ra_db := d', ra_clock := Suc (ra_clock r)\<rparr>)"
| bump: "ra_push r p = None \<Longrightarrow> GetAndBumpConfigVersion nid (ra_db r) = Inr (v, d') \<Longrightarrow>
    race_step nid r (r\<lparr>ra_db := d', ra_push := (ra_push r)(p \<mapsto> Bumped v), ra_bumps := (v, ra_clock r) # ra_bumps r\<rparr>)"
| build: "ra_push r p = Some (Bumped v) \<Longrightarrow> BuildConfig nid v True now (ra_db r) = Inr cu \<Longrightarrow>
    race_step nid r (r\<lparr>ra_push := (ra_push r)(p \<mapsto> Built cu (ra_clock r))\<rparr>)"
| send: "ra_push r p = Some (Built cu c) \<Longrightarrow>
    race_step nid r (r\<lparr>ra_push := (ra_push r)(p := None), ra_sent := (cu, c) # ra_sent r\<rparr>)"
| fail: "race_step nid r (r\<lparr>ra_push := (ra_push r)(p := None)\<rparr>)"

inductive_cases race_stepE: "race_step nid r r'"

definition race_start :: "sdb \<Rightarrow> race" where
  "race_start d = \<lparr>ra_db = d, ra_clock = 0, ra_push = Map.empty, ra_bumps = [], ra_sent = []\<rparr>"

inductive race_reach :: "uuid \<Rightarrow> sdb \<Rightarrow> race \<Rightarrow> bool" for nid d where
  start: "race_reach nid d (race_start d)"
| step: "race_reach nid d r \<Longrightarrow> race_step nid r r' \<Longrightarrow> race_reach nid d r'"

section \<open>The invariant\<close>

fun phase_version :: "phase \<Rightarrow> int" where
  "phase_version (Bumped v) = v"
| "phase_version (Built cu c) = cu_version cu"

definition fresh_at :: "(int \<times> nat) list \<Rightarrow> int \<Rightarrow> nat \<Rightarrow> bool" where
  "fresh_at bs v c \<longleftrightarrow> (\<exists>c0. (v, c0) \<in> set bs \<and> c0 \<le> c)"

definition race_ok :: "uuid \<Rightarrow> race \<Rightarrow> bool" where
  "race_ok nid r \<longleftrightarrow>
     sorted_wrt (\<lambda>(v1, c1) (v2, c2). v2 < v1 \<and> c2 \<le> c1) (ra_bumps r) \<and>
     (\<forall>v c. (v, c) \<in> set (ra_bumps r) \<longrightarrow> v \<le> version_of nid (ra_db r) \<and> c \<le> ra_clock r) \<and>
     (\<forall>p v. ra_push r p = Some (Bumped v) \<longrightarrow> (\<exists>c. (v, c) \<in> set (ra_bumps r))) \<and>
     (\<forall>p cu c. ra_push r p = Some (Built cu c) \<longrightarrow> fresh_at (ra_bumps r) (cu_version cu) c) \<and>
     (\<forall>cu c. (cu, c) \<in> set (ra_sent r) \<longrightarrow> fresh_at (ra_bumps r) (cu_version cu) c)"

definition versions_ok :: "uuid \<Rightarrow> race \<Rightarrow> bool" where
  "versions_ok nid r \<longleftrightarrow>
     distinct (List.map (\<lambda>e. cu_version (fst e)) (ra_sent r)) \<and>
     (\<forall>e\<in>set (ra_sent r). cu_version (fst e) \<le> version_of nid (ra_db r)) \<and>
     (\<forall>p h. ra_push r p = Some h \<longrightarrow> phase_version h \<le> version_of nid (ra_db r) \<and>
        phase_version h \<notin> (\<lambda>e. cu_version (fst e)) ` set (ra_sent r)) \<and>
     (\<forall>p q h k. ra_push r p = Some h \<longrightarrow> ra_push r q = Some k \<longrightarrow> phase_version h = phase_version k \<longrightarrow> p = q)"

lemma bump_version:
  assumes "GetAndBumpConfigVersion nid d = Inr (v, d')"
  shows "v = version_of nid d + 1" "version_of nid d' = version_of nid d + 1"
proof -
  obtain n where n: "List.find (\<lambda>n. n_id n = nid) (db_nodes d) = Some n" "v = n_version n + 1"
    "d' = update_nodes (\<lambda>m. n_id m = nid) (\<lambda>m. m\<lparr>n_version := n_version m + 1\<rparr>) d"
    using assms by (auto simp: GetAndBumpConfigVersion_def split: if_splits option.splits)
  have "n_id n = nid" using find_Some_in[OF n(1)] by simp
  then show "v = version_of nid d + 1" "version_of nid d' = version_of nid d + 1"
    using n find_map_same[of "\<lambda>n. n_id n = nid" "\<lambda>m. m\<lparr>n_version := n_version m + 1\<rparr>" "\<lambda>m. n_id m = nid" "db_nodes d"]
    by (simp_all add: version_of_def db_nodes_update)
qed

lemma build_version: "BuildConfig nid v full now d = Inr cu \<Longrightarrow> cu_version cu = v"
  by (auto simp: BuildConfig_def Let_def split: sum.splits if_splits)

lemma fresh_at_mono: "fresh_at bs v c \<Longrightarrow> fresh_at (b # bs) v c"
  by (auto simp: fresh_at_def)

lemma race_okD:
  assumes "race_ok nid r"
  shows "sorted_wrt (\<lambda>(v1, c1) (v2, c2). v2 < v1 \<and> c2 \<le> c1) (ra_bumps r)"
    "(v, c) \<in> set (ra_bumps r) \<Longrightarrow> v \<le> version_of nid (ra_db r)"
    "(v, c) \<in> set (ra_bumps r) \<Longrightarrow> c \<le> ra_clock r"
    "ra_push r p = Some (Bumped v) \<Longrightarrow> \<exists>c. (v, c) \<in> set (ra_bumps r)"
    "ra_push r p = Some (Built cu c) \<Longrightarrow> fresh_at (ra_bumps r) (cu_version cu) c"
    "(cu, c) \<in> set (ra_sent r) \<Longrightarrow> fresh_at (ra_bumps r) (cu_version cu) c"
  using assms unfolding race_ok_def by blast+

lemma race_okI:
  assumes "sorted_wrt (\<lambda>(v1, c1) (v2, c2). v2 < v1 \<and> c2 \<le> c1) (ra_bumps r)"
    "\<And>v c. (v, c) \<in> set (ra_bumps r) \<Longrightarrow> v \<le> version_of nid (ra_db r) \<and> c \<le> ra_clock r"
    "\<And>p v. ra_push r p = Some (Bumped v) \<Longrightarrow> \<exists>c. (v, c) \<in> set (ra_bumps r)"
    "\<And>p cu c. ra_push r p = Some (Built cu c) \<Longrightarrow> fresh_at (ra_bumps r) (cu_version cu) c"
    "\<And>cu c. (cu, c) \<in> set (ra_sent r) \<Longrightarrow> fresh_at (ra_bumps r) (cu_version cu) c"
  shows "race_ok nid r"
  using assms unfolding race_ok_def by blast

lemma step_race_ok:
  assumes "race_ok nid r" "race_step nid r r'"
  shows "race_ok nid r'"
  using assms(2)
proof cases
  case (change d')
  then show ?thesis using assms(1) by (intro race_okI) (auto dest: race_okD intro: le_SucI)
next
  case (bump p v d')
  note v = bump_version[OF bump(3)]
  note d = race_okD[OF assms(1)]
  show ?thesis
  proof (rule race_okI)
    show "sorted_wrt (\<lambda>(v1, c1) (v2, c2). v2 < v1 \<and> c2 \<le> c1) (ra_bumps r')"
      using d(1) d(2,3) by (fastforce simp: bump(1) v(1))
    show "w \<le> version_of nid (ra_db r') \<and> c \<le> ra_clock r'" if "(w, c) \<in> set (ra_bumps r')" for w c
      using that d(2,3)[of w c] by (auto simp: bump(1) v)
    show "\<exists>c. (w, c) \<in> set (ra_bumps r')" if "ra_push r' q = Some (Bumped w)" for q w
      using that d(4)[of q w] by (auto simp: bump(1) split: if_splits)
    show "fresh_at (ra_bumps r') (cu_version cu) c" if "ra_push r' q = Some (Built cu c)" for q cu c
      using that d(5)[of q cu c] by (auto simp: bump(1) fresh_at_mono split: if_splits)
    show "fresh_at (ra_bumps r') (cu_version cu) c" if "(cu, c) \<in> set (ra_sent r')" for cu c
      using that d(6)[of cu c] by (auto simp: bump(1) fresh_at_mono)
  qed
next
  case (build p v now cu)
  note d = race_okD[OF assms(1)]
  obtain c0 where c0: "(v, c0) \<in> set (ra_bumps r)" using d(4)[OF build(2)] by blast
  then have "fresh_at (ra_bumps r) (cu_version cu) (ra_clock r)"
    using d(3)[OF c0] build_version[OF build(3)] by (auto simp: fresh_at_def)
  then show ?thesis using d by (intro race_okI) (auto simp: build(1) split: if_splits)
next
  case (send p cu c)
  note d = race_okD[OF assms(1)]
  show ?thesis using d d(5)[OF send(2)] by (intro race_okI) (auto simp: send(1) split: if_splits)
next
  case (fail p)
  note d = race_okD[OF assms(1)]
  show ?thesis using d by (intro race_okI) (auto simp: fail split: if_splits)
qed

text \<open>Versions in use: of the pushes in flight and of the configurations sent.\<close>

definition sent_versions :: "race \<Rightarrow> int list" where
  "sent_versions r = List.map (\<lambda>e. cu_version (fst e)) (ra_sent r)"

lemma versions_okD:
  assumes "versions_ok nid r"
  shows "distinct (sent_versions r)" "v \<in> set (sent_versions r) \<Longrightarrow> v \<le> version_of nid (ra_db r)"
    "ra_push r p = Some h \<Longrightarrow> phase_version h \<le> version_of nid (ra_db r)"
    "ra_push r p = Some h \<Longrightarrow> phase_version h \<notin> set (sent_versions r)"
    "ra_push r p = Some h \<Longrightarrow> ra_push r q = Some k \<Longrightarrow> phase_version h = phase_version k \<Longrightarrow> p = q"
  using assms unfolding versions_ok_def sent_versions_def by auto

lemma versions_okI:
  assumes "distinct (sent_versions r)" "\<And>v. v \<in> set (sent_versions r) \<Longrightarrow> v \<le> version_of nid (ra_db r)"
    "\<And>p h. ra_push r p = Some h \<Longrightarrow> phase_version h \<le> version_of nid (ra_db r)"
    "\<And>p h. ra_push r p = Some h \<Longrightarrow> phase_version h \<notin> set (sent_versions r)"
    "\<And>p q h k. ra_push r p = Some h \<Longrightarrow> ra_push r q = Some k \<Longrightarrow> phase_version h = phase_version k \<Longrightarrow> p = q"
  shows "versions_ok nid r"
  using assms unfolding versions_ok_def sent_versions_def by auto

lemma step_versions_ok:
  assumes "versions_ok nid r" "race_step nid r r'"
  shows "versions_ok nid r'"
  using assms(2)
proof cases
  case (change d')
  note d = versions_okD[OF assms(1)]
  show ?thesis by (rule versions_okI) (use d in \<open>auto simp: change sent_versions_def\<close>)
next
  case (bump p v d')
  note v = bump_version[OF bump(3)]
  note d = versions_okD[OF assms(1)]
  have s: "sent_versions r' = sent_versions r" by (simp add: bump(1) sent_versions_def)
  have old: "phase_version h < v" if "ra_push r q = Some h" for q h using d(3)[OF that] v(1) by simp
  show ?thesis
  proof (rule versions_okI)
    show "distinct (sent_versions r')" using d(1) by (simp add: s)
    show "w \<le> version_of nid (ra_db r')" if "w \<in> set (sent_versions r')" for w
      using that d(2)[of w] v(2) unfolding s by (simp add: bump(1))
    show "phase_version h \<le> version_of nid (ra_db r')" if "ra_push r' q = Some h" for q h
      using that d(3)[of q h] v by (auto simp: bump(1) split: if_splits)
    show "phase_version h \<notin> set (sent_versions r')" if "ra_push r' q = Some h" for q h
      using that d(4)[of q h] d(2)[of v] v(1) unfolding s by (auto simp: bump(1) split: if_splits)
    show "q = q'" if q: "ra_push r' q = Some h" "ra_push r' q' = Some k" "phase_version h = phase_version k" for q q' h k
      using q d(5)[of q h q' k] old[of q h] old[of q' k] by (auto simp: bump(1) split: if_splits)
  qed
next
  case (build p v now cu)
  note d = versions_okD[OF assms(1)]
  have s: "sent_versions r' = sent_versions r" by (simp add: build(1) sent_versions_def)
  have old: "\<exists>h'. ra_push r q = Some h' \<and> phase_version h' = phase_version h" if "ra_push r' q = Some h" for q h
    using that build(2) build_version[OF build(3)] by (auto simp: build(1) split: if_splits)
  show ?thesis
  proof (rule versions_okI)
    show "phase_version h \<notin> set (sent_versions r')" if "ra_push r' q = Some h" for q h
      using old[OF that] d(4) s by metis
    show "phase_version h \<le> version_of nid (ra_db r')" if "ra_push r' q = Some h" for q h
    proof -
      from old[OF that] obtain h' where h': "ra_push r q = Some h'" "phase_version h' = phase_version h" by blast
      then show ?thesis using d(3)[OF h'(1)] by (simp add: build(1))
    qed
    show "q = q'" if q: "ra_push r' q = Some h" "ra_push r' q' = Some k" "phase_version h = phase_version k" for q q' h k
      using old[OF q(1)] old[OF q(2)] q(3) d(5) by metis
    show "distinct (sent_versions r')" using d(1) unfolding s .
    show "w \<le> version_of nid (ra_db r')" if "w \<in> set (sent_versions r')" for w
      using that d(2)[of w] unfolding s by (simp add: build(1))
  qed
next
  case (send p cu c)
  note d = versions_okD[OF assms(1)]
  have s: "sent_versions r' = cu_version cu # sent_versions r" by (simp add: send(1) sent_versions_def)
  have n: "cu_version cu \<notin> set (sent_versions r)" "cu_version cu \<le> version_of nid (ra_db r)"
    using d(3,4)[OF send(2)] by simp_all
  have old: "ra_push r q = Some h \<and> q \<noteq> p" if "ra_push r' q = Some h" for q h
    using that by (simp add: send(1) split: if_splits)
  show ?thesis
  proof (rule versions_okI)
    show "phase_version h \<notin> set (sent_versions r')" if "ra_push r' q = Some h" for q h
      using old[OF that] d(4)[of q h] d(5)[of q h p "Built cu c"] send(2) unfolding s by auto
    show "q = q'" if q: "ra_push r' q = Some h" "ra_push r' q' = Some k" "phase_version h = phase_version k" for q q' h k
      using old[OF q(1)] old[OF q(2)] q(3) d(5) by blast
    show "phase_version h \<le> version_of nid (ra_db r')" if "ra_push r' q = Some h" for q h
      using old[OF that] d(3)[of q h] by (simp add: send(1))
    show "w \<le> version_of nid (ra_db r')" if "w \<in> set (sent_versions r')" for w
      using that d(2)[of w] n unfolding s by (auto simp: send(1))
    show "distinct (sent_versions r')" using d(1) n(1) unfolding s by simp
  qed
next
  case (fail p)
  note d = versions_okD[OF assms(1)]
  have s: "sent_versions r' = sent_versions r" by (simp add: fail sent_versions_def)
  have old: "ra_push r q = Some h" if "ra_push r' q = Some h" for q h
    using that by (simp add: fail split: if_splits)
  show ?thesis
  proof (rule versions_okI)
    show "phase_version h \<notin> set (sent_versions r')" if "ra_push r' q = Some h" for q h
      using old[OF that] d(4) s by metis
    show "q = q'" if q: "ra_push r' q = Some h" "ra_push r' q' = Some k" "phase_version h = phase_version k" for q q' h k
      using old[OF q(1)] old[OF q(2)] q(3) d(5) by blast
    show "phase_version h \<le> version_of nid (ra_db r')" if "ra_push r' q = Some h" for q h
      using old[OF that] d(3)[of q h] by (simp add: fail)
    show "distinct (sent_versions r')" using d(1) unfolding s .
    show "w \<le> version_of nid (ra_db r')" if "w \<in> set (sent_versions r')" for w
      using that d(2)[of w] unfolding s by (simp add: fail)
  qed
qed

lemma reach_ok: "race_reach nid d r \<Longrightarrow> race_ok nid r \<and> versions_ok nid r"
proof (induction rule: race_reach.induct)
  case start
  show ?case by (simp add: race_ok_def versions_ok_def race_start_def)
qed (use step_race_ok step_versions_ok in blast)

section \<open>Properties\<close>



end
