(* ===== verification/Rate_Limit.thy ===== *)
theory Rate_Limit
  imports Interfaces
begin

text \<open>
  The request limiter of the HTTP API (src/internal/controlplane/api/middleware/ratelimit.go): a
  sliding window of accepted instants per key in memory, the same with a Redis sorted set, the
  janitor that prunes idle keys, and the middleware that decides which requests are limited. Redis
  is a parameter: the pipeline of one request returns the size of the set, or fails.
\<close>

section \<open>The limiter\<close>

record limiter =
  rl_limit :: int
  rl_window :: time
  rl_mem :: "string \<Rightarrow> time list option"

text \<open>A verdict is (allowed, remaining, seconds to retry after).\<close>

type_synonym verdict = "bool \<times> int \<times> int"

definition NewRateLimiter :: "int \<Rightarrow> time \<Rightarrow> limiter" where
  "NewRateLimiter limit window = \<lparr>rl_limit = (if limit \<le> 0 then 60 else limit),
     rl_window = (if window \<le> 0 then minute else window), rl_mem = (\<lambda>_. None)\<rparr>"

definition stamps :: "limiter \<Rightarrow> string \<Rightarrow> time list" where
  "stamps rl key = (case rl_mem rl key of None \<Rightarrow> [] | Some ts \<Rightarrow> ts)"

definition allowMemory :: "string \<Rightarrow> time \<Rightarrow> limiter \<Rightarrow> verdict \<times> limiter" where
  "allowMemory key now rl =
     (let cutoff = now - rl_window rl;
          valid = List.filter (\<lambda>ts. ts > cutoff) (stamps rl key);
          mem = (if valid = [] then (rl_mem rl)(key := None) else rl_mem rl)
      in if int (length valid) \<ge> rl_limit rl
         then ((False, 0, rl_window rl div second), rl\<lparr>rl_mem := mem(key := Some valid)\<rparr>)
         else ((True, rl_limit rl - int (length valid + 1), 0), rl\<lparr>rl_mem := mem(key := Some (valid @ [now]))\<rparr>))"

type_synonym 'z redis = "string \<Rightarrow> time \<Rightarrow> time \<Rightarrow> 'z \<Rightarrow> nat option \<times> 'z"

definition allowRedis :: "'z redis \<Rightarrow> string \<Rightarrow> time \<Rightarrow> limiter \<times> 'z \<Rightarrow> verdict \<times> limiter \<times> 'z" where
  "allowRedis pipe key now st =
     (case st of (rl, z) \<Rightarrow>
      (case pipe (''ratelimit:'' @ key) (now - rl_window rl) now z of
         (None, z') \<Rightarrow> (case allowMemory key now rl of (v, rl') \<Rightarrow> (v, rl', z'))
       | (Some count, z') \<Rightarrow>
           if int count > rl_limit rl then ((False, 0, rl_window rl div second), rl, z')
           else ((True, rl_limit rl - int count, 0), rl, z')))"

definition Allow :: "'z redis option \<Rightarrow> string \<Rightarrow> time \<Rightarrow> limiter \<times> 'z \<Rightarrow> verdict \<times> limiter \<times> 'z" where
  "Allow client key now st =
     (case client of Some pipe \<Rightarrow> allowRedis pipe key now st
      | None \<Rightarrow> (case st of (rl, z) \<Rightarrow> case allowMemory key now rl of (v, rl') \<Rightarrow> (v, rl', z)))"

definition janitor :: "time \<Rightarrow> limiter \<Rightarrow> limiter" where
  "janitor now rl = rl\<lparr>rl_mem := (\<lambda>k. case rl_mem rl k of None \<Rightarrow> None
     | Some ts \<Rightarrow> if ts = [] \<or> last ts < now - rl_window rl then None else Some ts)\<rparr>"

section \<open>The middleware\<close>

text \<open>strings.HasPrefix and net.SplitHostPort; the latter fails without a port, with unbalanced
  brackets and with a bare IPv6 address.\<close>

definition has_prefix :: "string \<Rightarrow> string \<Rightarrow> bool" where
  "has_prefix s p \<longleftrightarrow> take (length p) s = p"

definition before_last :: "char \<Rightarrow> string \<Rightarrow> string" where
  "before_last c s = rev (drop 1 (dropWhile (\<lambda>x. x \<noteq> c) (rev s)))"

definition SplitHost :: "string \<Rightarrow> string option" where
  "SplitHost hp =
     (if CHR '':'' \<notin> set hp then None
      else case hp of
        [] \<Rightarrow> None
      | c # rest \<Rightarrow>
          if c = CHR ''['' then
            (let host = takeWhile (\<lambda>x. x \<noteq> CHR '']'') rest;
                 tail = dropWhile (\<lambda>x. x \<noteq> CHR '']'') rest
             in if tail = [] then None
                else if take 1 (drop 1 tail) \<noteq> '':'' \<or> CHR '':'' \<in> set (drop 2 tail) then None
                else if CHR ''['' \<in> set rest \<or> CHR '']'' \<in> set (drop 1 tail) then None
                else Some host)
          else (let host = before_last (CHR '':'') hp
                in if CHR '':'' \<in> set host \<or> CHR ''['' \<in> set hp \<or> CHR '']'' \<in> set hp then None
                   else Some host))"

record http_request =
  hq_path :: string
  hq_remote :: string
  hq_cookie :: "string option"

definition exempt_path :: "string \<Rightarrow> bool" where
  "exempt_path p \<longleftrightarrow> p \<in> {''/healthz'', ''/readyz'', ''/metrics'', ''/favicon.ico''} \<or>
     has_prefix p ''/admin/static/'' \<or> has_prefix p ''/admin/partials/''"

definition verified_session :: "(string \<Rightarrow> bool) option \<Rightarrow> http_request \<Rightarrow> bool" where
  "verified_session validator r =
     (case (validator, hq_cookie r) of (Some f, Some c) \<Rightarrow> f (trim_space c) | _ \<Rightarrow> False)"

definition client_key :: "http_request \<Rightarrow> string" where
  "client_key r = (let ip = (case SplitHost (hq_remote r) of Some h \<Rightarrow> h | None \<Rightarrow> hq_remote r)
     in if ip = [] then ''unknown'' else ip)"

text \<open>None: the request passes without being counted.\<close>

definition limit_request ::
    "'z redis option \<Rightarrow> (string \<Rightarrow> bool) option \<Rightarrow> http_request \<Rightarrow> time \<Rightarrow> limiter \<times> 'z \<Rightarrow> verdict option \<times> limiter \<times> 'z" where
  "limit_request client validator r now st =
     (if exempt_path (hq_path r) \<or> verified_session validator r then (None, st)
      else case Allow client (client_key r) now st of (v, st') \<Rightarrow> (Some v, st'))"

section \<open>Histories\<close>

datatype rl_event = Request string time | Tick time

fun event_time :: "rl_event \<Rightarrow> time" where
  "event_time (Request k t) = t"
| "event_time (Tick t) = t"

text \<open>The requests a history admits, with their keys, oldest first.\<close>

fun rl_step :: "rl_event \<Rightarrow> limiter \<times> (string \<times> time) list \<Rightarrow> limiter \<times> (string \<times> time) list" where
  "rl_step (Request k t) (rl, adm) =
     (case allowMemory k t rl of (v, rl') \<Rightarrow> (rl', if fst v then adm @ [(k, t)] else adm))"
| "rl_step (Tick t) (rl, adm) = (janitor t rl, adm)"

definition admitted :: "string \<Rightarrow> (string \<times> time) list \<Rightarrow> time list" where
  "admitted k adm = List.map snd (List.filter (\<lambda>p. fst p = k) adm)"

definition in_window :: "time \<Rightarrow> time \<Rightarrow> time list \<Rightarrow> time list" where
  "in_window w t ts = List.filter (\<lambda>x. t - w < x \<and> x \<le> t) ts"

lemma admitted_snoc [simp]: "admitted k (adm @ [(j, t)]) = admitted k adm @ (if j = k then [t] else [])"
  by (simp add: admitted_def)

text \<open>The memory of a key is a suffix of what was admitted for it, cut at or before the window.\<close>

definition rl_inv :: "time \<Rightarrow> limiter \<Rightarrow> (string \<times> time) list \<Rightarrow> bool" where
  "rl_inv now rl adm \<longleftrightarrow> 0 < rl_limit rl \<and> 0 < rl_window rl \<and> (\<forall>k.
     (\<forall>x\<in>set (admitted k adm). x \<le> now) \<and> sorted (admitted k adm) \<and>
     (\<exists>c \<le> now - rl_window rl. stamps rl k = List.filter (\<lambda>x. c < x) (admitted k adm)) \<and>
     (\<forall>t. int (length (in_window (rl_window rl) t (admitted k adm))) \<le> rl_limit rl))"

lemma rl_invD:
  assumes "rl_inv now rl adm"
  obtains c where "0 < rl_limit rl" "0 < rl_window rl" "\<And>x. x \<in> set (admitted k adm) \<Longrightarrow> x \<le> now"
    "sorted (admitted k adm)" "c \<le> now - rl_window rl"
    "stamps rl k = List.filter (\<lambda>x. c < x) (admitted k adm)"
    "\<And>t. int (length (in_window (rl_window rl) t (admitted k adm))) \<le> rl_limit rl"
  using assms unfolding rl_inv_def by blast

lemma rl_invI:
  assumes "0 < rl_limit rl" "0 < rl_window rl" "\<And>k x. x \<in> set (admitted k adm) \<Longrightarrow> x \<le> now"
    "\<And>k. sorted (admitted k adm)"
    "\<And>k. \<exists>c \<le> now - rl_window rl. stamps rl k = List.filter (\<lambda>x. c < x) (admitted k adm)"
    "\<And>k t. int (length (in_window (rl_window rl) t (admitted k adm))) \<le> rl_limit rl"
  shows "rl_inv now rl adm"
  using assms unfolding rl_inv_def by blast

lemma filter_cut: "c \<le> d \<Longrightarrow> List.filter (\<lambda>x. d < x) (List.filter (\<lambda>x. c < x) xs) = List.filter (\<lambda>x::int. d < x) xs"
  unfolding filter_filter by (rule filter_cong[OF refl]) auto

lemma in_window_le:
  assumes "n \<le> t" "\<And>x. x \<in> set xs \<Longrightarrow> x \<le> n"
  shows "length (in_window w t xs) \<le> length (List.filter (\<lambda>x. n - w < x) xs)"
  unfolding in_window_def by (induction xs) (use assms in auto)

lemma stamps_upd [simp]: "stamps (rl\<lparr>rl_mem := (f(k := Some ts))\<rparr>) j = (if j = k then ts else stamps (rl\<lparr>rl_mem := f\<rparr>) j)"
  by (simp add: stamps_def)

lemma allowMemory_cases:
  obtains (Deny) rl' where "allowMemory k t rl = ((False, 0, rl_window rl div second), rl')"
    "rl_limit rl \<le> int (length (List.filter (\<lambda>x. t - rl_window rl < x) (stamps rl k)))"
    "stamps rl' = (stamps rl)(k := List.filter (\<lambda>x. t - rl_window rl < x) (stamps rl k))"
    "rl_limit rl' = rl_limit rl" "rl_window rl' = rl_window rl"
  | (Admit) rl' r where "allowMemory k t rl = ((True, r, 0), rl')"
    "int (length (List.filter (\<lambda>x. t - rl_window rl < x) (stamps rl k))) < rl_limit rl"
    "stamps rl' = (stamps rl)(k := List.filter (\<lambda>x. t - rl_window rl < x) (stamps rl k) @ [t])"
    "rl_limit rl' = rl_limit rl" "rl_window rl' = rl_window rl"
proof -
  let ?v = "List.filter (\<lambda>x. t - rl_window rl < x) (stamps rl k)"
  have up: "stamps (rl\<lparr>rl_mem := ((if ?v = [] then (rl_mem rl)(k := None) else rl_mem rl)(k := Some ts))\<rparr>)
      = (stamps rl)(k := ts)" for ts
    by (rule ext) (simp add: stamps_def)
  show ?thesis
  proof (cases "rl_limit rl \<le> int (length ?v)")
    case True
    then show ?thesis
      by (intro Deny[of "rl\<lparr>rl_mem := ((if ?v = [] then (rl_mem rl)(k := None) else rl_mem rl)(k := Some ?v))\<rparr>"])
         (simp_all add: allowMemory_def Let_def up cong: if_weak_cong)
  next
    case False
    then show ?thesis
      by (intro Admit[of "rl_limit rl - int (length ?v + 1)"
            "rl\<lparr>rl_mem := ((if ?v = [] then (rl_mem rl)(k := None) else rl_mem rl)(k := Some (?v @ [t])))\<rparr>"])
         (simp_all add: allowMemory_def Let_def up cong: if_weak_cong)
  qed
qed

lemma rl_inv_request:
  assumes inv: "rl_inv now rl adm" and t: "now \<le> t"
  shows "rl_inv t (fst (rl_step (Request k t) (rl, adm))) (snd (rl_step (Request k t) (rl, adm)))"
proof -
  define v where "v = List.filter (\<lambda>x. t - rl_window rl < x) (admitted k adm)"
  have v: "List.filter (\<lambda>x. t - rl_window rl < x) (stamps rl k) = v"
    unfolding v_def
  proof (rule rl_invD[OF inv, of k])
    fix c assume c: "c \<le> now - rl_window rl" "stamps rl k = List.filter (\<lambda>x. c < x) (admitted k adm)"
    show "List.filter (\<lambda>x. t - rl_window rl < x) (stamps rl k) = List.filter (\<lambda>x. t - rl_window rl < x) (admitted k adm)"
      unfolding c(2) using c(1) t by (intro filter_cut) simp
  qed
  have other: "\<exists>c \<le> t - rl_window rl. stamps rl j = List.filter (\<lambda>x. c < x) (admitted j adm)" for j
  proof (rule rl_invD[OF inv, of j])
    fix c assume "c \<le> now - rl_window rl" "stamps rl j = List.filter (\<lambda>x. c < x) (admitted j adm)"
    then show ?thesis using t by (intro exI[of _ c]) simp
  qed
  have base: "0 < rl_limit rl" "0 < rl_window rl" using inv by (simp_all add: rl_inv_def)
  have past: "x \<le> t" if "x \<in> set (admitted j adm)" for j x
  proof (rule rl_invD[OF inv, of j])
    assume "\<And>x. x \<in> set (admitted j adm) \<Longrightarrow> x \<le> now"
    from this[OF that] show ?thesis using t by simp
  qed
  have srt: "sorted (admitted j adm)" for j using inv by (simp add: rl_inv_def)
  have bound: "int (length (in_window (rl_window rl) s (admitted j adm))) \<le> rl_limit rl" for j s
    using inv by (simp add: rl_inv_def)
  show ?thesis
  proof (cases rule: allowMemory_cases[of k t rl])
    case (Deny rl')
    have "\<exists>c \<le> t - rl_window rl. stamps rl' j = List.filter (\<lambda>x. c < x) (admitted j adm)" for j
    proof (cases "j = k")
      case True
      then show ?thesis by (intro exI[of _ "t - rl_window rl"]) (simp only: Deny(3) fun_upd_same v v_def order_refl simp_thms)
    next
      case False
      then show ?thesis using other[of j] by (simp only: Deny(3) fun_upd_other not_False_eq_True)
    qed
    then have "rl_inv t rl' adm"
      using base past srt bound by (intro rl_invI) (simp_all only: Deny(4,5))
    then show ?thesis by (simp add: Deny(1))
  next
    case (Admit rl' r)
    let ?a = "adm @ [(k, t)]"
    have "\<exists>c \<le> t - rl_window rl. stamps rl' j = List.filter (\<lambda>x. c < x) (admitted j ?a)" for j
    proof (cases "j = k")
      case True
      have "List.filter (\<lambda>x. t - rl_window rl < x) (admitted k ?a) = v @ [t]" using base(2) by (simp add: v_def)
      then show ?thesis using True
        by (intro exI[of _ "t - rl_window rl"]) (simp only: Admit(3) fun_upd_same v order_refl simp_thms)
    next
      case False
      then show ?thesis using other[of j] by (simp add: Admit(3))
    qed
    moreover have "int (length (in_window (rl_window rl) s (admitted j ?a))) \<le> rl_limit rl" for j s
    proof (cases "j = k \<and> t \<le> s")
      case True
      have "length (in_window (rl_window rl) s (admitted j adm)) \<le> length v"
        unfolding v_def using in_window_le[of t s "admitted k adm" "rl_window rl"] True past[of _ k] by simp
      moreover have "int (length v) < rl_limit rl" using Admit(2) by (simp only: v)
      ultimately show ?thesis using True by (simp add: in_window_def)
    next
      case False
      then have "in_window (rl_window rl) s (admitted j ?a) = in_window (rl_window rl) s (admitted j adm)"
        by (auto simp: in_window_def)
      then show ?thesis using bound by simp
    qed
    moreover have "x \<le> t" if "x \<in> set (admitted j ?a)" for j x
      using that past[of x j] by (auto split: if_splits)
    moreover have "sorted (admitted j ?a)" for j
      using srt[of j] past by (auto simp: sorted_append)
    ultimately have "rl_inv t rl' ?a" using base by (intro rl_invI) (simp_all only: Admit(4,5))
    then show ?thesis by (simp add: Admit(1))
  qed
qed

lemma sorted_le_last: "sorted xs \<Longrightarrow> x \<in> set xs \<Longrightarrow> x \<le> last xs"
  by (induction xs) (auto dest: last_in_set)

lemma rl_inv_tick:
  assumes inv: "rl_inv now rl adm" and t: "now \<le> t"
  shows "rl_inv t (janitor t rl) adm"
proof -
  have "\<exists>c \<le> t - rl_window rl. stamps (janitor t rl) k = List.filter (\<lambda>x. c < x) (admitted k adm)" for k
  proof (rule rl_invD[OF inv, of k])
    fix c assume c: "c \<le> now - rl_window rl" "stamps rl k = List.filter (\<lambda>x. c < x) (admitted k adm)"
      and srt: "sorted (admitted k adm)"
    have ct: "c \<le> t - rl_window rl" using c(1) t by simp
    show ?thesis
    proof (cases "stamps rl k \<noteq> [] \<and> last (stamps rl k) < t - rl_window rl")
      case True
      have "sorted (stamps rl k)" using srt by (simp add: c(2) sorted_wrt_filter)
      note le = sorted_le_last[OF this]
      have "\<not> t - rl_window rl < x" if "x \<in> set (admitted k adm)" for x
        using that le[of x] True ct by (auto simp: c(2))
      then have "List.filter (\<lambda>x. t - rl_window rl < x) (admitted k adm) = []" by (simp add: filter_empty_conv)
      moreover have "stamps (janitor t rl) k = []"
        using True by (auto simp: stamps_def janitor_def split: option.splits)
      ultimately show ?thesis by (metis order_refl)
    next
      case False
      then have "stamps (janitor t rl) k = stamps rl k"
        by (auto simp: stamps_def janitor_def split: option.splits)
      then show ?thesis using ct c(2) by auto
    qed
  qed
  moreover have "rl_limit (janitor t rl) = rl_limit rl" "rl_window (janitor t rl) = rl_window rl"
    by (simp_all add: janitor_def)
  ultimately show ?thesis using inv t unfolding rl_inv_def by fastforce
qed

lemma rl_inv_step:
  "rl_inv now rl adm \<Longrightarrow> now \<le> event_time e \<Longrightarrow>
   rl_inv (event_time e) (fst (rl_step e (rl, adm))) (snd (rl_step e (rl, adm)))"
  by (cases e) (simp_all add: rl_inv_request rl_inv_tick del: rl_step.simps(1))

lemma rl_inv_run:
  "rl_inv now rl adm \<Longrightarrow> sorted (now # List.map event_time es) \<Longrightarrow>
   \<exists>n. rl_inv n (fst (fold rl_step es (rl, adm))) (snd (fold rl_step es (rl, adm)))"
proof (induction es arbitrary: now rl adm)
  case (Cons e es)
  obtain rl' adm' where s: "rl_step e (rl, adm) = (rl', adm')" by (metis surj_pair)
  have "rl_inv (event_time e) rl' adm'" using rl_inv_step[OF Cons.prems(1), of e] Cons.prems(2) s by simp
  then show ?case using Cons.IH Cons.prems(2) s by simp
qed auto

lemma rl_inv_new: "rl_inv now (NewRateLimiter l w) []"
  by (auto simp: rl_inv_def NewRateLimiter_def stamps_def admitted_def in_window_def time_units)

lemma rl_step_frame [frame]:
  "rl_limit (fst (rl_step e s)) = rl_limit (fst s)" "rl_window (fst (rl_step e s)) = rl_window (fst s)"
proof -
  have "rl_limit (fst (rl_step e s)) = rl_limit (fst s) \<and> rl_window (fst (rl_step e s)) = rl_window (fst s)"
  proof (cases e)
    case (Request k t)
    then show ?thesis by (cases s, cases rule: allowMemory_cases[of k t "fst s"]) auto
  qed (cases s, simp add: janitor_def)
  then show "rl_limit (fst (rl_step e s)) = rl_limit (fst s)" "rl_window (fst (rl_step e s)) = rl_window (fst s)"
    by auto
qed

lemma fold_rl_step_frame:
  "rl_limit (fst (fold rl_step es s)) = rl_limit (fst s)" "rl_window (fst (fold rl_step es s)) = rl_window (fst s)"
  by (induction es arbitrary: s) (simp_all add: frame)

lemma rl_inv_history:
  assumes "sorted (List.map event_time es)"
  shows "\<exists>n. rl_inv n (fst (fold rl_step es (NewRateLimiter l w, []))) (snd (fold rl_step es (NewRateLimiter l w, [])))"
proof (cases es)
  case Nil
  then show ?thesis using rl_inv_new by auto
next
  case (Cons e es')
  then have "sorted (event_time e # List.map event_time es)" using assms by auto
  from rl_inv_run[OF rl_inv_new this] show ?thesis .
qed

section \<open>Properties\<close>

text \<open>
  C37. The limiter bounds the rate: whatever requests and janitor runs happen, in the order of their
  instants, no key has more than the limit admitted in any window of the configured length.
\<close>
theorem rate_bounded:
  assumes "sorted (List.map event_time es)"
  shows "int (length (in_window (rl_window (NewRateLimiter l w)) t
           (admitted k (snd (fold rl_step es (NewRateLimiter l w, [])))))) \<le> rl_limit (NewRateLimiter l w)"
  using rl_inv_history[OF assms, of l w] by (auto simp: rl_inv_def fold_rl_step_frame)

lemma rate_bounded_witness:
  "int (length (in_window (rl_window (NewRateLimiter 1 10)) 9
     (admitted ''a'' (snd (fold rl_step [Request ''a'' 1, Request ''a'' 5, Tick 6, Request ''a'' 9]
        (NewRateLimiter 1 10, [])))))) \<le> rl_limit (NewRateLimiter 1 10)"
  by (rule rate_bounded) simp



end
