(* ===== verification/Access.thy ===== *)
theory Access
  imports Store Rate_Limit
begin

text \<open>
  Who may do what on the HTTP API: administrators and their permissions
  (src/internal/controlplane/store/admin_permissions.go, admin.sql.go, api_key.sql.go), tokens and
  their revocation (auth/auth.go, auth/blacklist.go, auth/totp.go), authentication and scopes
  (api/middleware/auth.go), sessions and password rotation (api/handler/auth.go) and the management
  of administrators and API keys (api/handler/admin.go). The JWT library, bcrypt, the TOTP library and
  SHA-256 are parameters.
\<close>

section \<open>Replies\<close>

datatype http_error = BadRequest | Unauthenticated401 | Forbidden | NotFound | Conflict
  | TooMany int | InternalError

text \<open>A handler returns its reply and the state it leaves.\<close>

definition or_error :: "http_error \<Rightarrow> ('e + 'a) \<Rightarrow> http_error + 'a" where
  "or_error h r = (case r of Inl _ \<Rightarrow> Inl h | Inr x \<Rightarrow> Inr x)"

lemma or_error_simps [simp]: "or_error h (Inl e) = Inl h" "or_error h (Inr x) = Inr x"
  by (simp_all add: or_error_def)

section \<open>Permissions\<close>

record perms =
  p_broadcast :: bool
  p_users :: bool
  p_delete :: bool
  p_reset :: bool
  p_nodes :: bool
  p_plans :: bool
  p_audit :: bool
  p_replies :: bool
  p_partners :: bool
  p_copilot :: bool
  p_keys :: bool
  p_billing :: bool

definition all_perms :: perms where
  "all_perms = \<lparr>p_broadcast = True, p_users = True, p_delete = True, p_reset = True, p_nodes = True,
     p_plans = True, p_audit = True, p_replies = True, p_partners = True, p_copilot = True,
     p_keys = True, p_billing = True\<rparr>"

definition DefaultAdminPermissions :: "string \<Rightarrow> perms" where
  "DefaultAdminPermissions role =
     (if role = ''owner'' then all_perms
      else if role = ''superadmin'' then all_perms\<lparr>p_copilot := False, p_billing := False\<rparr>
      else \<lparr>p_broadcast = False, p_users = True, p_delete = False, p_reset = True, p_nodes = False,
        p_plans = False, p_audit = False, p_replies = False, p_partners = False, p_copilot = False,
        p_keys = False, p_billing = False\<rparr>)"

text \<open>The permissions column is a JSON object of boolean members; unmarshalling it overwrites the
  members it has and leaves the others.\<close>

type_synonym perm_json = "(string \<times> bool) list"

definition overlay :: "string \<times> bool \<Rightarrow> perms \<Rightarrow> perms" where
  "overlay m p = (let (k, b) = m in
     if k = ''can_broadcast'' then p\<lparr>p_broadcast := b\<rparr>
     else if k = ''can_manage_users'' then p\<lparr>p_users := b\<rparr>
     else if k = ''can_delete_users'' then p\<lparr>p_delete := b\<rparr>
     else if k = ''can_reset_traffic'' then p\<lparr>p_reset := b\<rparr>
     else if k = ''can_manage_nodes'' then p\<lparr>p_nodes := b\<rparr>
     else if k = ''can_manage_plans'' then p\<lparr>p_plans := b\<rparr>
     else if k = ''can_view_audit'' then p\<lparr>p_audit := b\<rparr>
     else if k = ''can_edit_bot_replies'' then p\<lparr>p_replies := b\<rparr>
     else if k = ''can_manage_partners'' then p\<lparr>p_partners := b\<rparr>
     else if k = ''can_access_ai_copilot'' then p\<lparr>p_copilot := b\<rparr>
     else if k = ''can_view_api_keys'' then p\<lparr>p_keys := b\<rparr>
     else if k = ''can_manage_billing'' then p\<lparr>p_billing := b\<rparr>
     else p)"

definition perms_json :: "perms \<Rightarrow> perm_json" where
  "perms_json p = [(''can_broadcast'', p_broadcast p), (''can_manage_users'', p_users p),
     (''can_delete_users'', p_delete p), (''can_reset_traffic'', p_reset p),
     (''can_manage_nodes'', p_nodes p), (''can_manage_plans'', p_plans p), (''can_view_audit'', p_audit p),
     (''can_edit_bot_replies'', p_replies p), (''can_manage_partners'', p_partners p),
     (''can_access_ai_copilot'', p_copilot p), (''can_view_api_keys'', p_keys p),
     (''can_manage_billing'', p_billing p)]"

record permission_change =
  pc_field :: string
  pc_old :: bool
  pc_new :: bool
  pc_granted :: bool
  pc_severity :: string
  pc_description :: string

definition check_change :: "string \<Rightarrow> bool \<Rightarrow> bool \<Rightarrow> string \<Rightarrow> string \<Rightarrow> permission_change list" where
  "check_change field old new sev desc =
     (if old \<noteq> new then [\<lparr>pc_field = field, pc_old = old, pc_new = new, pc_granted = new,
        pc_severity = sev, pc_description = desc\<rparr>] else [])"

definition ComputePermissionDiff :: "perms \<Rightarrow> perms \<Rightarrow> permission_change list" where
  "ComputePermissionDiff a b =
     check_change ''can_broadcast'' (p_broadcast a) (p_broadcast b) ''high'' ''Telegram Broadcast channel messaging'' @
     check_change ''can_manage_users'' (p_users a) (p_users b) ''medium'' ''Create, edit, and view subscribers'' @
     check_change ''can_delete_users'' (p_delete a) (p_delete b) ''high'' ''Permanently delete subscribers'' @
     check_change ''can_reset_traffic'' (p_reset a) (p_reset b) ''low'' ''Reset data traffic consumption counters'' @
     check_change ''can_manage_nodes'' (p_nodes a) (p_nodes b) ''high'' ''Register, edit, or delete VPN cluster nodes'' @
     check_change ''can_manage_plans'' (p_plans a) (p_plans b) ''medium'' ''Create and modify subscription plans & pricing'' @
     check_change ''can_view_audit'' (p_audit a) (p_audit b) ''low'' ''Inspect administrative audit trail and security logs'' @
     check_change ''can_edit_bot_replies'' (p_replies a) (p_replies b) ''medium'' ''Configure bot replies and custom text messages'' @
     check_change ''can_manage_partners'' (p_partners a) (p_partners b) ''high'' ''Manage white-label partners and reseller bots'' @
     check_change ''can_access_ai_copilot'' (p_copilot a) (p_copilot b) ''high''
       ''Access AI Infrastructure Copilot for operations and diagnostics'' @
     check_change ''can_view_api_keys'' (p_keys a) (p_keys b) ''high'' ''View and manage developer API keys'' @
     check_change ''can_manage_billing'' (p_billing a) (p_billing b) ''high'' ''Configure billing, payment gateways and tariffs''"

section \<open>Administrators and API keys\<close>

record admin =
  a_id :: uuid
  a_email :: string
  a_hash :: string
  a_role :: "string option"
  a_totp :: "string option"
  a_login :: "time option"
  a_perms :: perm_json
  a_must_change :: bool

record api_key =
  k_id :: uuid
  k_name :: string
  k_hash :: string
  k_prefix :: string
  k_scopes :: "string list"
  k_expires :: "time option"
  k_creator :: "uuid option"

text \<open>A row of audit_logs. Its diff column is JSONB: the code passes it bytes, which are absent, a
  document written by json.Marshal, or plain text.\<close>

record rbac_payload =
  rb_target :: string
  rb_email :: string
  rb_role :: string
  rb_status :: string
  rb_summary :: string
  rb_changes :: "permission_change list"

datatype diff = NoDiff | JsonDiff "(string \<times> string) list" | RbacDiff rbac_payload | PlainText string

record audit_row =
  au_admin :: "uuid option"
  au_key :: "uuid option"
  au_action :: string
  au_type :: string
  au_resource :: "uuid option"
  au_diff :: diff

record adb = db +
  db_admins :: "admin list"
  db_keys :: "api_key list"
  db_audit :: "audit_row list"

definition ParsedPermissions :: "admin \<Rightarrow> perms" where
  "ParsedPermissions a =
     (let p = fold overlay (a_perms a) (DefaultAdminPermissions (text_or [] (a_role a)))
      in if text_or [] (a_role a) = ''owner'' then all_perms else p)"

definition GetAdminByID :: "uuid \<Rightarrow> 'a adb_scheme \<Rightarrow> db_error + admin" where
  "GetAdminByID aid d =
     (if ''GetAdminByID'' \<in> db_down d then Inl StatementFailed
      else case List.find (\<lambda>a. a_id a = aid) (db_admins d) of None \<Rightarrow> Inl NoRows | Some a \<Rightarrow> Inr a)"

definition GetAdminByEmail :: "string \<Rightarrow> 'a adb_scheme \<Rightarrow> db_error + admin" where
  "GetAdminByEmail email d =
     (if ''GetAdminByEmail'' \<in> db_down d then Inl StatementFailed
      else case List.find (\<lambda>a. a_email a = email) (db_admins d) of None \<Rightarrow> Inl NoRows | Some a \<Rightarrow> Inr a)"

text \<open>CreateAdmin leaves permissions to the column default of migration 004.\<close>

definition column_default_perms :: perm_json where
  "column_default_perms = [(''can_broadcast'', False), (''can_manage_users'', True),
     (''can_delete_users'', False), (''can_reset_traffic'', True), (''can_manage_nodes'', False),
     (''can_manage_plans'', False), (''can_view_audit'', False)]"

definition InsertAdmin :: "uuid \<Rightarrow> string \<Rightarrow> string \<Rightarrow> string \<Rightarrow> 'a adb_scheme \<Rightarrow> db_error + (admin \<times> 'a adb_scheme)" where
  "InsertAdmin aid email hash role d =
     (if ''CreateAdmin'' \<in> db_down d then Inl StatementFailed
      else if (\<exists>a\<in>set (db_admins d). a_id a = aid \<or> a_email a = email) then Inl UniqueViolation
      else let a = \<lparr>a_id = aid, a_email = email, a_hash = hash, a_role = Some role, a_totp = None,
                    a_login = None, a_perms = column_default_perms, a_must_change = False\<rparr>
           in Inr (a, d\<lparr>db_admins := a # db_admins d\<rparr>))"

definition update_admins :: "uuid \<Rightarrow> (admin \<Rightarrow> admin) \<Rightarrow> 'a adb_scheme \<Rightarrow> 'a adb_scheme" where
  "update_admins aid f d = d\<lparr>db_admins := List.map (\<lambda>a. if a_id a = aid then f a else a) (db_admins d)\<rparr>"

definition UpdateAdmin ::
    "uuid \<Rightarrow> string \<Rightarrow> string \<Rightarrow> string option \<Rightarrow> string option \<Rightarrow> time option \<Rightarrow> 'a adb_scheme \<Rightarrow> db_error + 'a adb_scheme" where
  "UpdateAdmin aid email hash role totp login d =
     (if ''UpdateAdmin'' \<in> db_down d then Inl StatementFailed
      else if aid \<notin> a_id ` set (db_admins d) then Inl NoRows
      else if (\<exists>a\<in>set (db_admins d). a_id a \<noteq> aid \<and> a_email a = email) then Inl UniqueViolation
      else Inr (update_admins aid (\<lambda>a. a\<lparr>a_email := email, a_hash := hash, a_role := role,
                  a_totp := totp, a_login := login\<rparr>) d))"

definition UpdateLastLogin :: "uuid \<Rightarrow> time \<Rightarrow> 'a adb_scheme \<Rightarrow> 'a adb_scheme" where
  "UpdateLastLogin aid now d =
     (if ''UpdateAdminLastLogin'' \<in> db_down d then d else update_admins aid (\<lambda>a. a\<lparr>a_login := Some now\<rparr>) d)"

definition UpdatePassword :: "uuid \<Rightarrow> string \<Rightarrow> 'a adb_scheme \<Rightarrow> db_error + 'a adb_scheme" where
  "UpdatePassword aid hash d =
     (if ''UpdatePassword'' \<in> db_down d then Inl StatementFailed
      else Inr (update_admins aid (\<lambda>a. a\<lparr>a_hash := hash, a_must_change := False\<rparr>) d))"

definition UpdatePermissions :: "uuid \<Rightarrow> perm_json \<Rightarrow> 'a adb_scheme \<Rightarrow> db_error + 'a adb_scheme" where
  "UpdatePermissions aid ps d =
     (if ''UpdateAdminPermissions'' \<in> db_down d then Inl StatementFailed
      else Inr (update_admins aid (\<lambda>a. a\<lparr>a_perms := ps\<rparr>) d))"

text \<open>Audit rows are append-only: migration 005 raises an exception on every update and deletion of
  one. They reference administrators and keys, so neither can be deleted while a row names it. Text
  that is not JSON is refused by the column.\<close>

definition opt_in :: "'a option \<Rightarrow> 'a set \<Rightarrow> bool" where
  "opt_in x S = (case x of None \<Rightarrow> True | Some y \<Rightarrow> y \<in> S)"

definition CreateAuditLog :: "audit_row \<Rightarrow> 'a adb_scheme \<Rightarrow> db_error + 'a adb_scheme" where
  "CreateAuditLog r d =
     (if ''CreateAuditLog'' \<in> db_down d then Inl StatementFailed
      else if (case au_diff r of PlainText _ \<Rightarrow> True | _ \<Rightarrow> False) then Inl InvalidJson
      else if \<not> opt_in (au_admin r) (a_id ` set (db_admins d)) \<or> \<not> opt_in (au_key r) (k_id ` set (db_keys d))
      then Inl ForeignKeyViolation
      else Inr (d\<lparr>db_audit := r # db_audit d\<rparr>))"

definition audited_keys :: "'a adb_scheme \<Rightarrow> uuid set" where
  "audited_keys d = set (List.map_filter au_key (db_audit d))"

definition audited_admins :: "'a adb_scheme \<Rightarrow> uuid set" where
  "audited_admins d = set (List.map_filter au_admin (db_audit d))"

text \<open>DELETE FROM api_keys WHERE created_by fails as a whole when one of the keys is referenced; the
  callers discard its error.\<close>

definition DeleteAPIKeysByAdminID :: "uuid \<Rightarrow> 'a adb_scheme \<Rightarrow> 'a adb_scheme" where
  "DeleteAPIKeysByAdminID aid d =
     (if ''DeleteAPIKeysByAdminID'' \<in> db_down d then d
      else if (\<exists>k\<in>set (db_keys d). k_creator k = Some aid \<and> k_id k \<in> audited_keys d) then d
      else d\<lparr>db_keys := List.filter (\<lambda>k. k_creator k \<noteq> Some aid) (db_keys d)\<rparr>)"

text \<open>The repository's Delete: detaching the audit rows fails by the trigger whenever there are any,
  deleting the keys may fail, and both errors are ignored; the row itself goes last.\<close>

definition DeleteAdminRow :: "uuid \<Rightarrow> 'a adb_scheme \<Rightarrow> db_error + 'a adb_scheme" where
  "DeleteAdminRow aid d0 =
     (let d = DeleteAPIKeysByAdminID aid d0 in
      if ''DeleteAdmin'' \<in> db_down d then Inl StatementFailed
      else if (\<exists>k\<in>set (db_keys d). k_creator k = Some aid) \<or> aid \<in> audited_admins d then Inl ForeignKeyViolation
      else Inr (d\<lparr>db_admins := List.filter (\<lambda>a. a_id a \<noteq> aid) (db_admins d)\<rparr>))"

definition InsertAPIKey :: "api_key \<Rightarrow> 'a adb_scheme \<Rightarrow> db_error + (api_key \<times> 'a adb_scheme)" where
  "InsertAPIKey k d =
     (if ''CreateAPIKey'' \<in> db_down d then Inl StatementFailed
      else if (\<exists>e\<in>set (db_keys d). k_id e = k_id k \<or> k_hash e = k_hash k) then Inl UniqueViolation
      else if (case k_creator k of None \<Rightarrow> False | Some c \<Rightarrow> c \<notin> a_id ` set (db_admins d)) then Inl ForeignKeyViolation
      else Inr (k, d\<lparr>db_keys := k # db_keys d\<rparr>))"

definition DeleteAPIKeyRow :: "uuid \<Rightarrow> 'a adb_scheme \<Rightarrow> db_error + 'a adb_scheme" where
  "DeleteAPIKeyRow kid d =
     (if ''DeleteAPIKey'' \<in> db_down d then Inl StatementFailed
      else if kid \<in> audited_keys d \<and> kid \<in> k_id ` set (db_keys d) then Inl ForeignKeyViolation
      else Inr (d\<lparr>db_keys := List.filter (\<lambda>k. k_id k \<noteq> kid) (db_keys d)\<rparr>))"

definition GetAPIKeyByPrefix :: "string \<Rightarrow> 'a adb_scheme \<Rightarrow> db_error + api_key" where
  "GetAPIKeyByPrefix pre d =
     (if ''GetAPIKeyByPrefix'' \<in> db_down d then Inl StatementFailed
      else case List.find (\<lambda>k. k_prefix k = pre) (db_keys d) of None \<Rightarrow> Inl NoRows | Some k \<Rightarrow> Inr k)"

section \<open>Scopes\<close>

record auth_ctx =
  ac_user :: uuid
  ac_email :: string
  ac_role :: string
  ac_scopes :: "string list"
  ac_type :: string

definition ScopeMatches :: "string \<Rightarrow> string \<Rightarrow> bool" where
  "ScopeMatches granted required =
     (let g = trim_space granted; r = trim_space required in
      g = ''*'' \<or> g = ''admin'' \<or> g = r \<or>
      (g \<noteq> [] \<and> last g = CHR ''*'' \<and> butlast g \<noteq> [] \<and> has_prefix r (butlast g)))"

definition HasScope :: "auth_ctx \<Rightarrow> string \<Rightarrow> bool" where
  "HasScope ac scope \<longleftrightarrow> ac_type ac = ''apikey'' \<and> ac_scopes ac = [] \<or>
     list_ex (\<lambda>s. ScopeMatches s scope) (ac_scopes ac)"

definition RequireAuth :: "auth_ctx option \<Rightarrow> http_error option" where
  "RequireAuth c = (if c = None then Some Unauthenticated401 else None)"

definition RequireRole :: "string list \<Rightarrow> auth_ctx option \<Rightarrow> http_error option" where
  "RequireRole allowed c =
     (case c of None \<Rightarrow> Some Unauthenticated401
      | Some ac \<Rightarrow>
          if list_ex (\<lambda>r. ac_role ac = r \<or> ac_role ac = ''owner'' \<or> ac_role ac = ''superadmin'') allowed then None
          else if ac_type ac = ''apikey'' \<and> (HasScope ac ''admin'' \<or> HasScope ac ''*'') then None
          else Some Forbidden)"

definition RequireScope :: "string \<Rightarrow> auth_ctx option \<Rightarrow> http_error option" where
  "RequireScope scope c =
     (case c of None \<Rightarrow> Some Unauthenticated401
      | Some ac \<Rightarrow> if HasScope ac scope then None else Some Forbidden)"

section \<open>Tokens\<close>

text \<open>jwt.NewNumericDate keeps whole seconds.\<close>

definition numeric_date :: "time \<Rightarrow> time" where
  "numeric_date t = t div second * second"

record claims =
  cl_admin :: uuid
  cl_email :: string
  cl_role :: string
  cl_typ :: string
  cl_must :: bool
  cl_id :: string
  cl_subject :: string
  cl_expires :: time
  cl_issued :: "time option"

datatype parse_error = ParseExpired | ParseInvalid
datatype token_error = ErrInvalidToken | ErrTokenExpired | ErrTokenRevoked

text \<open>The libraries: parsing and signing with the server's secret, bcrypt, TOTP, SHA-256 in hex.\<close>

record env =
  ev_parse :: "time \<Rightarrow> string \<Rightarrow> parse_error + claims"
  ev_sign :: "claims \<Rightarrow> string option"
  ev_verify :: "string \<Rightarrow> string \<Rightarrow> bool"
  ev_hash :: "string \<Rightarrow> string option"
  ev_totp :: "time \<Rightarrow> string \<Rightarrow> string \<Rightarrow> bool option"
  ev_sha :: "string \<Rightarrow> string"

definition GenerateAccessTokenForAdmin ::
    "env \<Rightarrow> uuid \<Rightarrow> uuid \<Rightarrow> string \<Rightarrow> string \<Rightarrow> bool \<Rightarrow> time \<Rightarrow> time \<Rightarrow> string option" where
  "GenerateAccessTokenForAdmin ev jti aid email role must ttl now =
     ev_sign ev \<lparr>cl_admin = aid, cl_email = email, cl_role = role, cl_typ = ''access'', cl_must = must,
       cl_id = jti, cl_subject = [], cl_expires = numeric_date (now + ttl), cl_issued = Some (numeric_date now)\<rparr>"

definition GenerateRefreshToken :: "env \<Rightarrow> uuid \<Rightarrow> uuid \<Rightarrow> time \<Rightarrow> time \<Rightarrow> string option" where
  "GenerateRefreshToken ev jti aid ttl now =
     ev_sign ev \<lparr>cl_admin = aid, cl_email = [], cl_role = [], cl_typ = ''refresh'', cl_must = False,
       cl_id = jti, cl_subject = aid, cl_expires = numeric_date (now + ttl), cl_issued = Some (numeric_date now)\<rparr>"

text \<open>The in-memory blacklist. Revocations of single tokens expire, those of an administrator do not.\<close>

record blacklist =
  bl_tokens :: "string \<Rightarrow> time option"
  bl_admins :: "string \<Rightarrow> time option"

definition Revoke :: "string \<Rightarrow> time \<Rightarrow> time \<Rightarrow> blacklist \<Rightarrow> blacklist" where
  "Revoke jti ttl now b =
     (if jti = [] then b
      else b\<lparr>bl_tokens := (bl_tokens b)(jti \<mapsto> now + (if ttl = 0 then 24 * hour else ttl))\<rparr>)"

definition IsRevoked :: "string \<Rightarrow> time \<Rightarrow> blacklist \<Rightarrow> bool" where
  "IsRevoked jti now b \<longleftrightarrow> jti \<noteq> [] \<and> (case bl_tokens b jti of None \<Rightarrow> False | Some e \<Rightarrow> \<not> now > e)"

definition RevokeAdmin :: "string \<Rightarrow> time \<Rightarrow> blacklist \<Rightarrow> blacklist" where
  "RevokeAdmin aid now b = (if aid = [] then b else b\<lparr>bl_admins := (bl_admins b)(aid \<mapsto> now)\<rparr>)"

definition AdminRevokedAt :: "string \<Rightarrow> blacklist \<Rightarrow> time option" where
  "AdminRevokedAt aid b = (if aid = [] then None else bl_admins b aid)"

definition revoked_claims :: "blacklist \<Rightarrow> time \<Rightarrow> claims \<Rightarrow> bool" where
  "revoked_claims b now c \<longleftrightarrow> IsRevoked (cl_id c) now b \<or>
     (cl_admin c \<noteq> nil_uuid \<and>
      (case (AdminRevokedAt (cl_admin c) b, cl_issued c) of (Some cutoff, Some iat) \<Rightarrow> \<not> iat > cutoff | _ \<Rightarrow> False))"

definition ValidateToken :: "env \<Rightarrow> blacklist option \<Rightarrow> time \<Rightarrow> string \<Rightarrow> token_error + claims" where
  "ValidateToken ev bl now tok =
     (case ev_parse ev now tok of
        Inl ParseExpired \<Rightarrow> Inl ErrTokenExpired
      | Inl ParseInvalid \<Rightarrow> Inl ErrInvalidToken
      | Inr c \<Rightarrow> (case bl of None \<Rightarrow> Inr c
                  | Some b \<Rightarrow> if revoked_claims b now c then Inl ErrTokenRevoked else Inr c))"

definition validate_typed :: "string \<Rightarrow> env \<Rightarrow> blacklist option \<Rightarrow> time \<Rightarrow> string \<Rightarrow> token_error + claims" where
  "validate_typed typ ev bl now tok =
     (case ValidateToken ev bl now tok of Inl e \<Rightarrow> Inl e
      | Inr c \<Rightarrow> if cl_typ c \<noteq> typ then Inl ErrInvalidToken else Inr c)"

definition ValidateAccessToken :: "env \<Rightarrow> blacklist option \<Rightarrow> time \<Rightarrow> string \<Rightarrow> token_error + claims" where
  "ValidateAccessToken = validate_typed ''access''"

definition ValidateRefreshToken :: "env \<Rightarrow> blacklist option \<Rightarrow> time \<Rightarrow> string \<Rightarrow> token_error + claims" where
  "ValidateRefreshToken = validate_typed ''refresh''"

definition ValidateKey :: "env \<Rightarrow> time \<Rightarrow> string \<Rightarrow> 'a adb_scheme \<Rightarrow> api_key option" where
  "ValidateKey ev now raw d =
     (if length raw < 12 \<or> \<not> has_prefix raw ''vpn_'' then None
      else case GetAPIKeyByPrefix (take 12 raw) d of
        Inl _ \<Rightarrow> None
      | Inr k \<Rightarrow>
          if ev_sha ev raw \<noteq> k_hash k then None
          else (case k_expires k of Some e \<Rightarrow> if now > e then None else Some k | None \<Rightarrow> Some k))"

text \<open>GenerateKey: the 24 random bytes are an argument, in hex.\<close>

definition GenerateKey :: "env \<Rightarrow> string \<Rightarrow> string \<times> string" where
  "GenerateKey ev hex = (let key = ''vpn_'' @ hex in (key, ev_sha ev key))"

definition upper_char :: "char \<Rightarrow> char" where
  "upper_char c = (let n = of_char c :: nat in if 97 \<le> n \<and> n \<le> 122 then char_of (n - 32) else c)"

definition ValidateCode :: "env \<Rightarrow> time \<Rightarrow> string \<Rightarrow> string \<Rightarrow> bool" where
  "ValidateCode ev now code secret =
     (let c = trim_space (List.filter (\<lambda>x. x \<noteq> CHR '' '' \<and> x \<noteq> CHR ''-'') code);
          s = List.map upper_char (trim_space secret)
      in if c = [] \<or> s = [] then False
         else case ev_totp ev now c s of None \<Rightarrow> False | Some ok \<Rightarrow> ok)"

section \<open>Authentication\<close>

definition has_suffix :: "string \<Rightarrow> string \<Rightarrow> bool" where
  "has_suffix s p \<longleftrightarrow> has_prefix (rev s) (rev p)"

primrec contains :: "string \<Rightarrow> string \<Rightarrow> bool" where
  "contains [] p \<longleftrightarrow> p = []"
| "contains (c # s) p \<longleftrightarrow> has_prefix (c # s) p \<or> contains s p"

definition isPasswordRotationPath :: "string \<Rightarrow> bool" where
  "isPasswordRotationPath path \<longleftrightarrow>
     has_suffix path ''/auth/change-password'' \<or> has_suffix path ''/auth/logout'' \<or>
     has_suffix path ''/admin/change-password'' \<or> has_suffix path ''/admin/logout''"

record auth_request =
  aq_path :: string
  aq_authorization :: string
  aq_cookie :: "string option"
  aq_api_key :: string

definition bearer :: "auth_request \<Rightarrow> string" where
  "bearer r =
     (if has_prefix (aq_authorization r) ''Bearer '' then drop 7 (aq_authorization r)
      else case aq_cookie r of None \<Rightarrow> [] | Some c \<Rightarrow> trim_space c)"

definition key_ctx :: "env \<Rightarrow> string \<Rightarrow> time \<Rightarrow> string \<Rightarrow> 'a adb_scheme \<Rightarrow> auth_ctx option" where
  "key_ctx ev internal now key d =
     (if key = [] then None
      else if internal \<noteq> [] \<and> key = internal
      then Some \<lparr>ac_user = nil_uuid, ac_email = ''internal-service'', ac_role = ''owner'', ac_scopes = [''*''], ac_type = ''apikey''\<rparr>
      else case ValidateKey ev now key d of None \<Rightarrow> None
        | Some k \<Rightarrow> Some \<lparr>ac_user = k_id k, ac_email = k_name k, ac_role = ''api_client'', ac_scopes = k_scopes k, ac_type = ''apikey''\<rparr>)"

definition jwt_ctx :: "claims \<Rightarrow> auth_ctx" where
  "jwt_ctx c = \<lparr>ac_user = cl_admin c, ac_email = cl_email c, ac_role = cl_role c, ac_scopes = [''*''], ac_type = ''jwt''\<rparr>"

definition Authenticate ::
    "env \<Rightarrow> blacklist option \<Rightarrow> string \<Rightarrow> time \<Rightarrow> auth_request \<Rightarrow> 'a adb_scheme \<Rightarrow> http_error + auth_ctx option" where
  "Authenticate ev bl internal now r d =
     (case (if bearer r = [] then Inl ErrInvalidToken else ValidateAccessToken ev bl now (bearer r)) of
        Inr c \<Rightarrow> if cl_must c \<and> \<not> isPasswordRotationPath (aq_path r) then Inl Forbidden else Inr (Some (jwt_ctx c))
      | Inl _ \<Rightarrow> Inr (key_ctx ev internal now (aq_api_key r) d))"

text \<open>AuditService.Log; every caller discards its error.\<close>

definition audit_log :: "auth_ctx option \<Rightarrow> string \<Rightarrow> string \<Rightarrow> uuid option \<Rightarrow> diff \<Rightarrow> 'a adb_scheme \<Rightarrow> 'a adb_scheme" where
  "audit_log ctx action typ res df d =
     (let adm = (case ctx of Some ac \<Rightarrow> if ac_type ac = ''jwt'' then Some (ac_user ac) else None | None \<Rightarrow> None);
          key = (case ctx of Some ac \<Rightarrow> if ac_type ac = ''apikey'' then Some (ac_user ac) else None | None \<Rightarrow> None)
      in case CreateAuditLog \<lparr>au_admin = adm, au_key = key, au_action = action, au_type = typ,
                 au_resource = res, au_diff = df\<rparr> d of
        Inl _ \<Rightarrow> d | Inr d' \<Rightarrow> d')"

lemma audit_log_frame [simp]:
  "db_users (audit_log c a t r df d) = db_users d" "db_nodes (audit_log c a t r df d) = db_nodes d"
  "db_creds (audit_log c a t r df d) = db_creds d" "db_down (audit_log c a t r df d) = db_down d"
  "db_admins (audit_log c a t r df d) = db_admins d" "db_keys (audit_log c a t r df d) = db_keys d"
  by (simp_all add: audit_log_def Let_def CreateAuditLog_def)

end
