(* ===== verification/Admin_Handlers.thy ===== *)
theory Admin_Handlers
  imports Access
begin

text \<open>
  Sessions, password rotation and the management of administrators and API keys over the REST API
  (src/internal/controlplane/api/handler/auth.go, admin.go). A request body that does not decode or
  does not validate is None. The blacklist and the login limiter are the in-memory ones; both are
  optional in the code.
\<close>

section \<open>State\<close>

record api =
  ap_db :: adb
  ap_bl :: "blacklist option"
  ap_limiter :: "limiter option"

record tokens =
  tk_access :: string
  tk_refresh :: string
  tk_expires_in :: int
  tk_email :: string
  tk_role :: string

definition allow_key :: "string \<Rightarrow> time \<Rightarrow> limiter \<Rightarrow> int option \<times> limiter" where
  "allow_key key now rl = (case allowMemory key now rl of ((ok, _, retry), rl') \<Rightarrow> (if ok then None else Some retry, rl'))"

text \<open>Some seconds: the request is refused.\<close>

definition checkLoginLimit :: "string \<Rightarrow> string \<Rightarrow> time \<Rightarrow> api \<Rightarrow> int option \<times> api" where
  "checkLoginLimit remote key now st =
     (case ap_limiter st of
        None \<Rightarrow> (None, st)
      | Some rl \<Rightarrow>
          (let ip = (case SplitHost remote of Some h \<Rightarrow> if h = [] then remote else h | None \<Rightarrow> remote) in
           case allow_key (''apilogin:ip:'' @ ip) now rl of
             (Some retry, rl1) \<Rightarrow> (Some retry, st\<lparr>ap_limiter := Some rl1\<rparr>)
           | (None, rl1) \<Rightarrow>
               (case allow_key (''apilogin:user:'' @ key) now rl1 of
                  (r, rl2) \<Rightarrow> (r, st\<lparr>ap_limiter := Some rl2\<rparr>))))"

definition expires_in :: "time \<Rightarrow> int" where
  "expires_in ttl = (let s = ttl div second in if s \<le> 0 then 900 else s)"

definition role_str :: "admin \<Rightarrow> string" where
  "role_str a = (case a_role a of Some r \<Rightarrow> if r = [] then ''admin'' else r | None \<Rightarrow> ''admin'')"

definition totp_passes :: "env \<Rightarrow> time \<Rightarrow> admin \<Rightarrow> string \<Rightarrow> bool" where
  "totp_passes ev now a code =
     (case a_totp a of Some s \<Rightarrow> s = [] \<or> (code \<noteq> [] \<and> ValidateCode ev now code s) | None \<Rightarrow> True)"

text \<open>A pair of fresh tokens; the two identifiers are arguments.\<close>

definition issue_tokens ::
    "env \<Rightarrow> time \<Rightarrow> time \<Rightarrow> uuid \<times> uuid \<Rightarrow> admin \<Rightarrow> string \<times> string \<Rightarrow> time \<Rightarrow> http_error + tokens" where
  "issue_tokens ev attl rttl ids a shown now =
     (case GenerateAccessTokenForAdmin ev (fst ids) (a_id a) (a_email a) (text_or [] (a_role a)) (a_must_change a) attl now of
        None \<Rightarrow> Inl InternalError
      | Some acc \<Rightarrow> (case GenerateRefreshToken ev (snd ids) (a_id a) rttl now of
            None \<Rightarrow> Inl InternalError
          | Some ref \<Rightarrow> Inr \<lparr>tk_access = acc, tk_refresh = ref, tk_expires_in = expires_in attl,
              tk_email = fst shown, tk_role = snd shown\<rparr>))"

section \<open>Login, refresh, logout\<close>

record login_request =
  lr_email :: string
  lr_password :: string
  lr_code :: string

definition Login ::
    "env \<Rightarrow> time \<Rightarrow> time \<Rightarrow> uuid \<times> uuid \<Rightarrow> string \<Rightarrow> login_request option \<Rightarrow> time \<Rightarrow> api \<Rightarrow> (http_error + tokens) \<times> api" where
  "Login ev attl rttl ids remote body now st =
     (case body of None \<Rightarrow> (Inl BadRequest, st)
      | Some req \<Rightarrow>
        (let email = trim_space (lr_email req) in
         if email = [] \<or> lr_password req = [] then (Inl BadRequest, st)
         else case checkLoginLimit remote (to_lower email) now st of
           (Some retry, st1) \<Rightarrow> (Inl (TooMany retry), st1)
         | (None, st1) \<Rightarrow>
            (case GetAdminByEmail email (ap_db st1) of
               Inl _ \<Rightarrow> (Inl Unauthenticated401, st1)
             | Inr a \<Rightarrow>
                 if \<not> ev_verify ev (lr_password req) (a_hash a) then (Inl Unauthenticated401, st1)
                 else if a_must_change a then (Inl Forbidden, st1)
                 else if \<not> totp_passes ev now a (lr_code req) then (Inl Unauthenticated401, st1)
                 else case issue_tokens ev attl rttl ids a (a_email a, role_str a) now of
                   Inl e \<Rightarrow> (Inl e, st1)
                 | Inr ts \<Rightarrow> (Inr ts, st1\<lparr>ap_db := UpdateLastLogin (a_id a) now (ap_db st1)\<rparr>))))"

definition revoke_token :: "string \<Rightarrow> time \<Rightarrow> time \<Rightarrow> api \<Rightarrow> api" where
  "revoke_token jti ttl now st =
     (case ap_bl st of None \<Rightarrow> st | Some b \<Rightarrow> if jti = [] then st else st\<lparr>ap_bl := Some (Revoke jti ttl now b)\<rparr>)"

text \<open>A refresh token without an administrator falls back to its subject, parsed by uuid.Parse.\<close>

definition Refresh ::
    "env \<Rightarrow> (string \<Rightarrow> uuid option) \<Rightarrow> time \<Rightarrow> time \<Rightarrow> uuid \<times> uuid \<Rightarrow> string \<Rightarrow> time \<Rightarrow> api \<Rightarrow> (http_error + tokens) \<times> api" where
  "Refresh ev parse_uuid attl rttl ids tok now st =
     (if tok = [] then (Inl BadRequest, st)
      else case ValidateRefreshToken ev (ap_bl st) now tok of
        Inl _ \<Rightarrow> (Inl Unauthenticated401, st)
      | Inr c \<Rightarrow>
         (case (if cl_admin c = nil_uuid then parse_uuid (cl_subject c) else Some (cl_admin c)) of
            None \<Rightarrow> (Inl Unauthenticated401, st)
          | Some aid \<Rightarrow>
             (case GetAdminByID aid (ap_db st) of
                Inl _ \<Rightarrow> (Inl Unauthenticated401, st)
              | Inr a \<Rightarrow>
                  if a_must_change a then (Inl Forbidden, st)
                  else (issue_tokens ev attl rttl ids a ([], []) now, revoke_token (cl_id c) (7 * 24 * hour) now st))))"

definition Logout :: "env \<Rightarrow> string \<Rightarrow> time \<Rightarrow> api \<Rightarrow> api" where
  "Logout ev authorization now st =
     (if has_prefix authorization ''Bearer '' then
        (case ValidateToken ev (ap_bl st) now (drop 7 authorization) of
           Inl _ \<Rightarrow> st
         | Inr c \<Rightarrow> revoke_token (cl_id c) (24 * hour) now st)
      else st)"

section \<open>Second factor and password\<close>

definition VerifyTOTP ::
    "env \<Rightarrow> auth_ctx option \<Rightarrow> string \<Rightarrow> string \<times> string \<Rightarrow> time \<Rightarrow> api \<Rightarrow> http_error option \<times> api" where
  "VerifyTOTP ev ctx remote body now st =
     (case ctx of None \<Rightarrow> (Some Unauthenticated401, st)
      | Some ac \<Rightarrow>
        (let (secret, code) = body in
         if secret = [] \<or> code = [] then (Some BadRequest, st)
         else case checkLoginLimit remote (ac_user ac) now st of
           (Some retry, st1) \<Rightarrow> (Some (TooMany retry), st1)
         | (None, st1) \<Rightarrow>
            if \<not> ValidateCode ev now code secret then (Some BadRequest, st1)
            else (case GetAdminByID (ac_user ac) (ap_db st1) of
               Inl _ \<Rightarrow> (Some NotFound, st1)
             | Inr a \<Rightarrow>
                (case UpdateAdmin (a_id a) (a_email a) (a_hash a) (a_role a) (Some secret) None (ap_db st1) of
                   Inl _ \<Rightarrow> (Some InternalError, st1)
                 | Inr d \<Rightarrow> (None, st1\<lparr>ap_db := d\<rparr>)))))"

record change_request =
  cr_email :: string
  cr_password :: string
  cr_new :: string
  cr_code :: string

definition ChangePassword ::
    "env \<Rightarrow> string \<Rightarrow> change_request option \<Rightarrow> time \<Rightarrow> api \<Rightarrow> http_error option \<times> api" where
  "ChangePassword ev remote body now st =
     (case body of None \<Rightarrow> (Some BadRequest, st)
      | Some req \<Rightarrow>
        (let email = trim_space (cr_email req) in
         if email = [] \<or> cr_password req = [] \<or> length (cr_new req) < 12 then (Some BadRequest, st)
         else case checkLoginLimit remote (to_lower email) now st of
           (Some retry, st1) \<Rightarrow> (Some (TooMany retry), st1)
         | (None, st1) \<Rightarrow>
            (case GetAdminByEmail email (ap_db st1) of
               Inl _ \<Rightarrow> (Some Unauthenticated401, st1)
             | Inr a \<Rightarrow>
                 if \<not> ev_verify ev (cr_password req) (a_hash a) then (Some Unauthenticated401, st1)
                 else if \<not> totp_passes ev now a (cr_code req) then (Some Unauthenticated401, st1)
                 else case ev_hash ev (cr_new req) of
                   None \<Rightarrow> (Some InternalError, st1)
                 | Some h \<Rightarrow>
                    (case UpdatePassword (a_id a) h (ap_db st1) of
                       Inl _ \<Rightarrow> (Some InternalError, st1)
                     | Inr d \<Rightarrow> (None, st1\<lparr>ap_db := DeleteAPIKeysByAdminID (a_id a) d,
                                       ap_bl := map_option (RevokeAdmin (a_id a) now) (ap_bl st1)\<rparr>)))))"

section \<open>Administrators\<close>

definition callerCanKeys :: "auth_ctx option \<Rightarrow> 'a adb_scheme \<Rightarrow> bool" where
  "callerCanKeys ctx d =
     (case ctx of None \<Rightarrow> False
      | Some ac \<Rightarrow>
          if ac_role ac = ''owner'' \<or> ac_role ac = ''superadmin'' then True
          else if ac_type ac \<noteq> ''jwt'' then HasScope ac ''admin'' \<or> HasScope ac ''*''
          else case GetAdminByID (ac_user ac) d of Inl _ \<Rightarrow> False | Inr a \<Rightarrow> p_keys (ParsedPermissions a))"

text \<open>The role an administrator acts with: the stored one, the token's when the row cannot be read
  or has none.\<close>

definition caller_role :: "uuid \<Rightarrow> string \<Rightarrow> 'a adb_scheme \<Rightarrow> string" where
  "caller_role aid role d =
     (case GetAdminByID aid d of Inl _ \<Rightarrow> role | Inr a \<Rightarrow> if text_or [] (a_role a) = [] then role else text_or [] (a_role a))"

record create_admin_request =
  ca_email :: string
  ca_password :: string
  ca_role :: string

definition denied_diff :: "string \<Rightarrow> create_admin_request \<Rightarrow> diff" where
  "denied_diff role req = JsonDiff [(''caller_role'', role), (''target_role'', ca_role req),
     (''target_mail'', trim_space (to_lower (ca_email req)))]"

definition CreateAdmin ::
    "env \<Rightarrow> uuid \<Rightarrow> auth_ctx option \<Rightarrow> create_admin_request option \<Rightarrow> 'a adb_scheme \<Rightarrow> (http_error + admin) \<times> 'a adb_scheme" where
  "CreateAdmin ev aid ctx body d =
     (case body of None \<Rightarrow> (Inl BadRequest, d)
      | Some req \<Rightarrow>
        (case ctx of None \<Rightarrow> (Inl Forbidden, d)
         | Some ac \<Rightarrow>
           if ac_type ac \<noteq> ''jwt'' then (Inl Forbidden, d)
           else (let role = caller_role (ac_user ac) (ac_role ac) d in
             if role \<noteq> ''owner'' \<and> role \<noteq> ''superadmin''
             then (Inl Forbidden, audit_log ctx ''create_admin_denied'' ''admin'' None (denied_diff role req) d)
             else if role = ''superadmin'' \<and> (ca_role req = ''owner'' \<or> ca_role req = ''superadmin'')
             then (Inl Forbidden, audit_log ctx ''create_admin_denied'' ''admin'' None (denied_diff role req) d)
             else case ev_hash ev (ca_password req) of
               None \<Rightarrow> (Inl InternalError, d)
             | Some h \<Rightarrow>
                (case InsertAdmin aid (trim_space (to_lower (ca_email req))) h (ca_role req) d of
                   Inl _ \<Rightarrow> (Inl Conflict, d)
                 | Inr (a, d') \<Rightarrow> (Inr a, audit_log ctx ''create'' ''admin'' (Some (a_id a)) NoDiff d')))))"

section \<open>API keys\<close>

definition allowedKeyScopes :: "string list" where
  "allowedKeyScopes = [''admin'', ''*'', ''user:read'', ''user:write'', ''node:read'', ''node:write'',
     ''billing:read'', ''billing:write'', ''ai'']"

definition scope_alias :: "string \<Rightarrow> string" where
  "scope_alias s =
     (if s = ''nodes:read'' then ''node:read'' else if s = ''nodes:write'' then ''node:write''
      else if s = ''users:read'' then ''user:read'' else if s = ''users:write'' then ''user:write'' else s)"

fun collect_scopes :: "string list \<Rightarrow> string list \<Rightarrow> string list option" where
  "collect_scopes [] out = Some out"
| "collect_scopes (x # xs) out =
     (let s = scope_alias (to_lower (trim_space x)) in
      if s = [] \<or> s \<in> set out then collect_scopes xs out
      else if s \<notin> set allowedKeyScopes then None
      else collect_scopes xs (out @ [s]))"

definition normalizeKeyScopes :: "string list \<Rightarrow> string list option" where
  "normalizeKeyScopes xs = (case collect_scopes xs [] of None \<Rightarrow> None | Some out \<Rightarrow> if out = [] then None else Some out)"

definition scope_granted :: "perms \<Rightarrow> string \<Rightarrow> bool" where
  "scope_granted p s =
     (if s = ''admin'' \<or> s = ''*'' then False
      else if s = ''billing:read'' \<or> s = ''billing:write'' then p_billing p
      else if s = ''node:read'' \<or> s = ''node:write'' then p_nodes p
      else if s = ''user:read'' \<or> s = ''user:write'' then p_users p
      else if s = ''ai'' then p_copilot p
      else True)"

definition issuerCanGrant :: "auth_ctx \<Rightarrow> string list \<Rightarrow> 'a adb_scheme \<Rightarrow> bool" where
  "issuerCanGrant ac scopes d =
     (if ac_role ac = ''owner'' \<or> ac_role ac = ''superadmin'' then True
      else case GetAdminByID (ac_user ac) d of Inl _ \<Rightarrow> False
        | Inr a \<Rightarrow> list_all (scope_granted (ParsedPermissions a)) scopes)"

record key_request =
  kr_name :: string
  kr_scopes :: "string list"
  kr_expires :: "time option"

definition CreateAPIKey ::
    "env \<Rightarrow> uuid \<Rightarrow> string \<Rightarrow> auth_ctx option \<Rightarrow> key_request option \<Rightarrow> 'a adb_scheme
     \<Rightarrow> (http_error + string \<times> api_key) \<times> 'a adb_scheme" where
  "CreateAPIKey ev kid hex ctx body d =
     (case ctx of None \<Rightarrow> (Inl Unauthenticated401, d)
      | Some ac \<Rightarrow>
        if ac_type ac \<noteq> ''jwt'' then (Inl Forbidden, d)
        else if \<not> callerCanKeys ctx d then (Inl Forbidden, d)
        else case body of None \<Rightarrow> (Inl BadRequest, d)
          | Some req \<Rightarrow>
            (case normalizeKeyScopes (kr_scopes req) of
               None \<Rightarrow> (Inl BadRequest, d)
             | Some scopes \<Rightarrow>
                 if \<not> issuerCanGrant ac scopes d then (Inl Forbidden, d)
                 else (let (raw, h) = GenerateKey ev hex in
                   case InsertAPIKey \<lparr>k_id = kid, k_name = trim_space (kr_name req), k_hash = h, k_prefix = take 12 raw,
                          k_scopes = scopes, k_expires = kr_expires req, k_creator = Some (ac_user ac)\<rparr> d of
                     Inl _ \<Rightarrow> (Inl InternalError, d)
                   | Inr (k, d') \<Rightarrow> (Inr (raw, k), audit_log ctx ''create'' ''api_key'' (Some (k_id k)) NoDiff d'))))"

definition DeleteAPIKey :: "auth_ctx option \<Rightarrow> uuid option \<Rightarrow> 'a adb_scheme \<Rightarrow> http_error option \<times> 'a adb_scheme" where
  "DeleteAPIKey ctx kid d =
     (case kid of None \<Rightarrow> (Some BadRequest, d)
      | Some k \<Rightarrow>
          if \<not> callerCanKeys ctx d then (Some Forbidden, d)
          else case DeleteAPIKeyRow k d of Inl _ \<Rightarrow> (Some NotFound, d)
            | Inr d' \<Rightarrow> (None, audit_log ctx ''delete'' ''api_key'' (Some k) NoDiff d'))"

section \<open>Histories of the session endpoints\<close>

datatype auth_event =
    DoLogin "uuid \<times> uuid" string "login_request option" time
  | DoRefresh "uuid \<times> uuid" string time
  | DoLogout string time
  | DoChange string "change_request option" time

fun auth_time :: "auth_event \<Rightarrow> time" where
  "auth_time (DoLogin _ _ _ t) = t"
| "auth_time (DoRefresh _ _ t) = t"
| "auth_time (DoLogout _ t) = t"
| "auth_time (DoChange _ _ t) = t"

text \<open>Whether the event is a refresh that succeeds, and the state it leaves.\<close>

fun auth_use :: "env \<Rightarrow> (string \<Rightarrow> uuid option) \<Rightarrow> time \<Rightarrow> time \<Rightarrow> auth_event \<Rightarrow> api \<Rightarrow> bool \<times> api" where
  "auth_use ev pu attl rttl (DoLogin ids remote body now) st = (False, snd (Login ev attl rttl ids remote body now st))"
| "auth_use ev pu attl rttl (DoRefresh ids tok now) st =
     (case Refresh ev pu attl rttl ids tok now st of (r, st') \<Rightarrow> (is_ok r, st'))"
| "auth_use ev pu attl rttl (DoLogout authz now) st = (False, Logout ev authz now st)"
| "auth_use ev pu attl rttl (DoChange remote body now) st = (False, snd (ChangePassword ev remote body now st))"

fun refresh_token :: "auth_event \<Rightarrow> string" where
  "refresh_token (DoRefresh _ tok _) = tok"
| "refresh_token _ = []"

text \<open>What the library documents: a token decodes to its claims or not at all, and parsing refuses
  it from its expiry on. The identifiers of tokens are random, so two tokens that share one are one.\<close>

definition parse_documented :: "env \<Rightarrow> (string \<Rightarrow> claims option) \<Rightarrow> bool" where
  "parse_documented ev dec \<longleftrightarrow> (\<forall>now tok. ev_parse ev now tok =
     (case dec tok of None \<Rightarrow> Inl ParseInvalid
      | Some c \<Rightarrow> if now < cl_expires c then Inr c else Inl ParseExpired))"

definition ids_unique :: "(string \<Rightarrow> claims option) \<Rightarrow> bool" where
  "ids_unique dec \<longleftrightarrow> (\<forall>t u c d. dec t = Some c \<longrightarrow> dec u = Some d \<longrightarrow> cl_id c = cl_id d \<longrightarrow> c = d)"

definition short_lived :: "(string \<Rightarrow> claims option) \<Rightarrow> auth_event \<Rightarrow> bool" where
  "short_lived dec e \<longleftrightarrow> (case e of DoRefresh _ tok now \<Rightarrow>
     (case dec tok of None \<Rightarrow> True | Some c \<Rightarrow> cl_id c \<noteq> [] \<and> cl_expires c \<le> now + 7 * 24 * hour) | _ \<Rightarrow> True)"

definition spent_tokens :: "(string \<Rightarrow> claims option) \<Rightarrow> api \<Rightarrow> string set" where
  "spent_tokens dec st = {tok. \<exists>c b e. dec tok = Some c \<and> ap_bl st = Some b \<and> cl_id c \<noteq> [] \<and>
     bl_tokens b (cl_id c) = Some e \<and> cl_expires c \<le> e}"

definition request_ok :: "env \<Rightarrow> (string \<Rightarrow> claims option) \<Rightarrow> auth_event \<Rightarrow> api \<Rightarrow> bool" where
  "request_ok ev dec e st \<longleftrightarrow> parse_documented ev dec \<and> ids_unique dec \<and> ap_bl st \<noteq> None \<and> short_lived dec e"

lemma ValidateToken_InrD:
  assumes "ValidateToken ev bl now tok = Inr c" "parse_documented ev dec"
  shows "dec tok = Some c" "now < cl_expires c" "bl = Some b \<Longrightarrow> \<not> revoked_claims b now c"
  using assms unfolding ValidateToken_def parse_documented_def
  by (auto split: sum.splits parse_error.splits option.splits if_splits)

lemma spent_not_valid:
  assumes "tok \<in> spent_tokens dec st" "parse_documented ev dec"
  shows "ValidateToken ev (ap_bl st) now tok \<noteq> Inr c"
proof
  assume v: "ValidateToken ev (ap_bl st) now tok = Inr c"
  obtain b e where b: "ap_bl st = Some b" "bl_tokens b (cl_id c) = Some e" "cl_expires c \<le> e" "cl_id c \<noteq> []"
    using assms(1) ValidateToken_InrD(1)[OF v assms(2)] by (auto simp: spent_tokens_def)
  then show False using ValidateToken_InrD(2)[OF v assms(2)] ValidateToken_InrD(3)[OF v assms(2) b(1)]
    by (simp add: revoked_claims_def IsRevoked_def)
qed

lemma checkLoginLimit_bl [frame]: "ap_bl (snd (checkLoginLimit r k now st)) = ap_bl st"
  "ap_db (snd (checkLoginLimit r k now st)) = ap_db st"
  by (simp_all add: checkLoginLimit_def split: option.splits prod.splits)

lemma Login_bl [frame]: "ap_bl (snd (Login ev attl rttl ids remote body now st)) = ap_bl st"
proof (cases body)
  case (Some req)
  obtain r st1 where c: "checkLoginLimit remote (to_lower (trim_space (lr_email req))) now st = (r, st1)"
    by (metis surj_pair)
  have "ap_bl st1 = ap_bl st" using checkLoginLimit_bl(1)[of remote _ now st] c by (metis snd_conv)
  then show ?thesis by (simp add: Some Login_def Let_def c split: option.splits sum.splits)
qed (simp add: Login_def)

text \<open>Apart from single revocations, which refresh and logout make, a step only adds a cut-off.\<close>

lemma ChangePassword_cases:
  obtains (Refused) e st1 where "ChangePassword ev remote body now st = (Some e, st1)" "ap_bl st1 = ap_bl st"
  | (Done) req a h d st1 where "body = Some req" "GetAdminByEmail (trim_space (cr_email req)) (ap_db st) = Inr a"
      "ev_verify ev (cr_password req) (a_hash a)" "totp_passes ev now a (cr_code req)"
      "ev_hash ev (cr_new req) = Some h" "UpdatePassword (a_id a) h (ap_db st) = Inr d" "12 \<le> length (cr_new req)"
      "ChangePassword ev remote body now st = (None, st1\<lparr>ap_db := DeleteAPIKeysByAdminID (a_id a) d,
         ap_bl := map_option (RevokeAdmin (a_id a) now) (ap_bl st)\<rparr>)"
proof (cases body)
  case None
  then show ?thesis by (intro Refused[of BadRequest st]) (simp_all add: ChangePassword_def)
next
  case (Some req)
  obtain r st1 where c: "checkLoginLimit remote (to_lower (trim_space (cr_email req))) now st = (r, st1)"
    by (metis surj_pair)
  have bl: "ap_bl st1 = ap_bl st" "ap_db st1 = ap_db st" using checkLoginLimit_bl[of remote _ now st] c by (metis snd_conv)+
  show ?thesis
  proof (cases "fst (ChangePassword ev remote body now st)")
    case (Some e)
    have "ap_bl (snd (ChangePassword ev remote body now st)) = ap_bl st"
      using Some \<open>body = Some req\<close> bl unfolding ChangePassword_def
      by (auto simp: Let_def c split: option.splits sum.splits if_splits)
    then show ?thesis using Some Refused by (metis prod.collapse)
  next
    case None
    then have "12 \<le> length (cr_new req)" "r = None" using \<open>body = Some req\<close> unfolding ChangePassword_def
      by (auto simp: Let_def c split: option.splits sum.splits if_splits)
    moreover obtain a where a: "GetAdminByEmail (trim_space (cr_email req)) (ap_db st) = Inr a"
      using None \<open>body = Some req\<close> bl unfolding ChangePassword_def
      by (auto simp: Let_def c split: option.splits sum.splits if_splits)
    moreover obtain h where h: "ev_hash ev (cr_new req) = Some h"
      using None \<open>body = Some req\<close> bl a unfolding ChangePassword_def
      by (auto simp: Let_def c split: option.splits sum.splits if_splits)
    moreover obtain d where d: "UpdatePassword (a_id a) h (ap_db st) = Inr d"
      using None \<open>body = Some req\<close> bl a h unfolding ChangePassword_def
      by (auto simp: Let_def c split: option.splits sum.splits if_splits)
    ultimately show ?thesis
      using None bl \<open>body = Some req\<close>
      by (intro Done[of req a h d st1]) (auto simp: ChangePassword_def Let_def c split: if_splits)
  qed
qed

lemma Refresh_cases:
  obtains (Kept) e where "Refresh ev pu attl rttl ids tok now st = (Inl e, st)"
  | (Run) c r where "ValidateRefreshToken ev (ap_bl st) now tok = Inr c"
      "Refresh ev pu attl rttl ids tok now st = (r, revoke_token (cl_id c) (7 * 24 * hour) now st)"
proof -
  have "(\<exists>e. Refresh ev pu attl rttl ids tok now st = (Inl e, st)) \<or>
    (\<exists>c r. ValidateRefreshToken ev (ap_bl st) now tok = Inr c \<and>
       Refresh ev pu attl rttl ids tok now st = (r, revoke_token (cl_id c) (7 * 24 * hour) now st))"
    unfolding Refresh_def by (auto split: sum.splits option.splits simp del: mult_numeral_left_semiring_numeral)
  then show ?thesis using Kept Run by blast
qed

lemma ValidateRefreshToken_InrD: "ValidateRefreshToken ev bl now tok = Inr c \<Longrightarrow> ValidateToken ev bl now tok = Inr c"
  by (auto simp: ValidateRefreshToken_def validate_typed_def split: sum.splits if_splits)

lemma revoke_keeps_spent:
  assumes v: "ValidateToken ev (ap_bl st) now tok = Inr c" and ok: "parse_documented ev dec" "ids_unique dec"
  shows "spent_tokens dec st \<subseteq> spent_tokens dec (revoke_token (cl_id c) ttl now st)"
proof
  fix u assume u: "u \<in> spent_tokens dec st"
  then obtain d b e where d: "dec u = Some d" "ap_bl st = Some b" "cl_id d \<noteq> []" "bl_tokens b (cl_id d) = Some e"
    "cl_expires d \<le> e" by (auto simp: spent_tokens_def)
  have "dec tok = Some c" using ValidateToken_InrD(1)[OF v ok(1)] .
  moreover have "tok \<notin> spent_tokens dec st" using spent_not_valid[OF _ ok(1)] v by blast
  ultimately have "cl_id c \<noteq> cl_id d" using d ok(2) unfolding ids_unique_def spent_tokens_def by blast
  then show "u \<in> spent_tokens dec (revoke_token (cl_id c) ttl now st)"
    using d by (auto simp: spent_tokens_def revoke_token_def Revoke_def)
qed

lemma spent_cong: "ap_bl st' = ap_bl st \<Longrightarrow> spent_tokens dec st' = spent_tokens dec st"
  by (simp add: spent_tokens_def)

lemma spent_change:
  "spent_tokens dec st \<subseteq> spent_tokens dec (snd (ChangePassword ev remote body now st))"
proof (cases rule: ChangePassword_cases[of ev remote body now st])
  case (Refused e st1)
  then show ?thesis using spent_cong[of st1 st] by simp
next
  case (Done req a h d st1)
  have "bl_tokens (RevokeAdmin x now b) = bl_tokens b" for x b by (simp add: RevokeAdmin_def)
  then show ?thesis by (fastforce simp: Done(8) spent_tokens_def)
qed

lemma Logout_cases:
  obtains (Kept) "Logout ev authz now st = st"
  | (Run) c where "ValidateToken ev (ap_bl st) now (drop 7 authz) = Inr c"
      "Logout ev authz now st = revoke_token (cl_id c) (24 * hour) now st"
proof (cases "Logout ev authz now st = st")
  case False
  then show ?thesis using Run by (auto simp: Logout_def split: sum.splits if_splits)
qed (rule Kept)

interpretation refresh: single_use "auth_use ev pu attl rttl" refresh_token "spent_tokens dec" "request_ok ev dec"
  for ev pu attl rttl dec
proof
  fix i st
  assume ok: "request_ok ev dec i st"
  then have p: "parse_documented ev dec" "ids_unique dec" "ap_bl st \<noteq> None" by (simp_all add: request_ok_def)
  show "\<not> fst (auth_use ev pu attl rttl i st)" if s: "refresh_token i \<in> spent_tokens dec st"
  proof (cases i)
    case (DoRefresh ids tok now)
    then have "ValidateRefreshToken ev (ap_bl st) now tok \<noteq> Inr c" for c
      using s spent_not_valid[OF _ p(1)] ValidateRefreshToken_InrD by (metis refresh_token.simps(1))
    then show ?thesis
    proof (cases rule: Refresh_cases[of ev pu attl rttl ids tok now st])
      case (Run c r)
      then show ?thesis using \<open>\<And>c. ValidateRefreshToken ev (ap_bl st) now tok \<noteq> Inr c\<close> by blast
    qed (simp add: DoRefresh)
  qed simp_all
  show "spent_tokens dec st \<subseteq> spent_tokens dec (snd (auth_use ev pu attl rttl i st))"
  proof (cases i)
    case (DoLogin ids remote body now)
    then show ?thesis by (simp add: spent_cong[OF Login_bl])
  next
    case (DoRefresh ids tok now)
    then show ?thesis
      using revoke_keeps_spent[OF ValidateRefreshToken_InrD p(1,2)]
      by (cases rule: Refresh_cases[of ev pu attl rttl ids tok now st]) auto
  next
    case (DoLogout authz now)
    then show ?thesis
      using revoke_keeps_spent[OF _ p(1,2)] by (cases rule: Logout_cases[of ev authz now st]) auto
  next
    case (DoChange remote body now)
    then show ?thesis by (simp add: spent_change)
  qed
  show "refresh_token i \<in> spent_tokens dec (snd (auth_use ev pu attl rttl i st))" if f: "fst (auth_use ev pu attl rttl i st)"
  proof (cases i)
    case (DoRefresh ids tok now)
    show ?thesis
    proof (cases rule: Refresh_cases[of ev pu attl rttl ids tok now st])
      case (Kept e)
      then show ?thesis using f DoRefresh by simp
    next
      case (Run c r)
      have c: "dec tok = Some c" using ValidateToken_InrD(1)[OF ValidateRefreshToken_InrD[OF Run(1)] p(1)] .
      then have "cl_id c \<noteq> []" "cl_expires c \<le> now + 7 * 24 * hour"
        using ok DoRefresh by (simp_all add: request_ok_def short_lived_def)
      then show ?thesis using p(3) c
        by (auto simp: DoRefresh Run(2) spent_tokens_def revoke_token_def Revoke_def time_units)
    qed
  qed (use f in simp_all)
qed

lemma revoke_token_bl [simp]: "(ap_bl (revoke_token j ttl now st) = None) = (ap_bl st = None)"
  by (simp add: revoke_token_def split: option.splits)

lemma auth_use_bl: "(ap_bl (snd (auth_use ev pu attl rttl i st)) = None) = (ap_bl st = None)"
proof (cases i)
  case (DoRefresh ids tok now)
  then show ?thesis by (cases rule: Refresh_cases[of ev pu attl rttl ids tok now st]) auto
next
  case (DoLogout authz now)
  then show ?thesis by (cases rule: Logout_cases[of ev authz now st]) auto
next
  case (DoChange remote body now)
  then show ?thesis by (cases rule: ChangePassword_cases[of ev remote body now st]) auto
qed (simp add: frame)

lemma session_admissible:
  "parse_documented ev dec \<Longrightarrow> ids_unique dec \<Longrightarrow> ap_bl st \<noteq> None \<Longrightarrow> list_all (short_lived dec) es \<Longrightarrow>
   admissible (auth_use ev pu attl rttl) (request_ok ev dec) es st"
  by (induction es arbitrary: st) (auto simp: request_ok_def auth_use_bl simp del: not_None_eq)

section \<open>Properties\<close>

text \<open>
  C13. A refresh token is accepted at most once, whatever logins, refreshes, logouts and password
  changes are handled in whatever order, as long as the token lives at most the seven days its
  revocation is kept for.
\<close>
theorem refresh_tokens_single_use:
  assumes "parse_documented ev dec" "ids_unique dec" "ap_bl st \<noteq> None" "list_all (short_lived dec) es"
  shows "distinct (accepted (auth_use ev pu attl rttl) refresh_token es st)"
  using session_admissible[OF assms] by (rule refresh.accepted_distinct)

text \<open>An environment the witnesses evaluate in: a token is its own identifier.\<close>

definition demo_claims :: "string \<Rightarrow> string \<Rightarrow> time \<Rightarrow> claims" where
  "demo_claims typ jti exp = \<lparr>cl_admin = ''a1'', cl_email = ''a'', cl_role = ''owner'', cl_typ = typ, cl_must = False,
     cl_id = jti, cl_subject = ''a1'', cl_expires = exp, cl_issued = Some 0\<rparr>"

definition demo_dec :: "string \<Rightarrow> claims option" where
  "demo_dec tok = (if tok = ''r'' then Some (demo_claims ''refresh'' tok 900)
     else if tok = ''s'' then Some (demo_claims ''access'' tok 900) else None)"

definition demo_auth_env :: env where
  "demo_auth_env = \<lparr>ev_parse = (\<lambda>now tok. case demo_dec tok of None \<Rightarrow> Inl ParseInvalid
       | Some c \<Rightarrow> if now < cl_expires c then Inr c else Inl ParseExpired),
     ev_sign = (\<lambda>c. Some (cl_id c)), ev_verify = (\<lambda>pw h. pw = h), ev_hash = (\<lambda>pw. Some pw),
     ev_totp = (\<lambda>now c s. Some False), ev_sha = (\<lambda>s. s)\<rparr>"

definition demo_admin :: admin where
  "demo_admin = \<lparr>a_id = ''a1'', a_email = ''a'', a_hash = ''pw'', a_role = Some ''owner'', a_totp = None,
     a_login = None, a_perms = [], a_must_change = False\<rparr>"

definition demo_adb :: adb where
  "demo_adb = \<lparr>db_users = [], db_nodes = [], db_creds = [], db_down = {}, db_admins = [demo_admin], db_keys = [],
     db_audit = []\<rparr>"

definition demo_api :: api where
  "demo_api = \<lparr>ap_db = demo_adb, ap_bl = Some \<lparr>bl_tokens = Map.empty, bl_admins = Map.empty\<rparr>, ap_limiter = None\<rparr>"

lemma demo_parse: "parse_documented demo_auth_env demo_dec" "ids_unique demo_dec"
  by (simp_all add: parse_documented_def demo_auth_env_def ids_unique_def demo_dec_def demo_claims_def)

lemma refresh_tokens_single_use_witness:
  "accepted (auth_use demo_auth_env (\<lambda>_. None) 10 900) refresh_token
     [DoRefresh (''i'', ''j'') ''r'' 5, DoRefresh (''k'', ''l'') ''r'' 6] demo_api = [''r''] \<and>
   distinct (accepted (auth_use demo_auth_env (\<lambda>_. None) 10 900) refresh_token
     [DoRefresh (''i'', ''j'') ''r'' 5, DoRefresh (''k'', ''l'') ''r'' 6] demo_api)"
proof
  show "accepted (auth_use demo_auth_env (\<lambda>_. None) 10 900) refresh_token
     [DoRefresh (''i'', ''j'') ''r'' 5, DoRefresh (''k'', ''l'') ''r'' 6] demo_api = [''r'']"
    by code_simp
  show "distinct (accepted (auth_use demo_auth_env (\<lambda>_. None) 10 900) refresh_token
     [DoRefresh (''i'', ''j'') ''r'' 5, DoRefresh (''k'', ''l'') ''r'' 6] demo_api)"
    by (rule refresh_tokens_single_use[OF demo_parse])
       (simp_all add: demo_api_def short_lived_def demo_dec_def demo_claims_def time_units)
qed

text \<open>A cut-off never moves back while time goes forward.\<close>

definition cut_off :: "uuid \<Rightarrow> time \<Rightarrow> api \<Rightarrow> bool" where
  "cut_off aid t st \<longleftrightarrow> (\<exists>b c. ap_bl st = Some b \<and> bl_admins b aid = Some c \<and> t \<le> c)"

lemma cut_off_cong: "ap_bl st' = ap_bl st \<Longrightarrow> cut_off aid t st' = cut_off aid t st"
  by (simp add: cut_off_def)

lemma cut_off_revoke [keeps]: "cut_off aid t st \<Longrightarrow> cut_off aid t (revoke_token j ttl now st)"
  by (auto simp: cut_off_def revoke_token_def Revoke_def)

lemma cut_off_step:
  assumes "cut_off aid t st" "t \<le> auth_time e"
  shows "cut_off aid t (snd (auth_use ev pu attl rttl e st))"
proof (cases e)
  case (DoLogin ids remote body now)
  then show ?thesis using assms(1) by (simp add: cut_off_cong[OF Login_bl])
next
  case (DoRefresh ids tok now)
  then show ?thesis using assms(1) cut_off_revoke[OF assms(1)]
    by (cases rule: Refresh_cases[of ev pu attl rttl ids tok now st]) simp_all
next
  case (DoLogout authz now)
  then show ?thesis using assms(1) cut_off_revoke[OF assms(1)]
    by (cases rule: Logout_cases[of ev authz now st]) simp_all
next
  case (DoChange remote body now)
  show ?thesis
  proof (cases rule: ChangePassword_cases[of ev remote body now st])
    case (Refused e st1)
    then show ?thesis using assms(1) cut_off_cong[of st1 st] by (simp add: DoChange)
  next
    case (Done req a h d st1)
    obtain b c where b: "ap_bl st = Some b" "bl_admins b aid = Some c" "t \<le> c" using assms(1) by (auto simp: cut_off_def)
    have "\<exists>c. bl_admins (RevokeAdmin x now b) aid = Some c \<and> t \<le> c" for x
      using b assms(2) DoChange by (simp add: RevokeAdmin_def)
    then show ?thesis by (simp add: DoChange Done(1)[symmetric] Done(8) cut_off_def b(1))
  qed
qed

definition auth_run :: "env \<Rightarrow> (string \<Rightarrow> uuid option) \<Rightarrow> time \<Rightarrow> time \<Rightarrow> auth_event list \<Rightarrow> api \<Rightarrow> api" where
  "auth_run ev pu attl rttl es st = fold (\<lambda>e s. snd (auth_use ev pu attl rttl e s)) es st"

lemma cut_off_run:
  "cut_off aid t st \<Longrightarrow> \<forall>e\<in>set es. t \<le> auth_time e \<Longrightarrow> cut_off aid t (auth_run ev pu attl rttl es st)"
  unfolding auth_run_def
proof (induction es arbitrary: st)
  case (Cons e es)
  have "cut_off aid t (snd (auth_use ev pu attl rttl e st))" using Cons.prems by (intro cut_off_step) auto
  from Cons.IH[OF this] show ?case using Cons.prems(2) by simp
qed simp



text \<open>The scopes a key can carry.\<close>

lemma collect_scopes_allowed:
  "collect_scopes xs out = Some ys \<Longrightarrow> set out \<subseteq> set allowedKeyScopes \<Longrightarrow> set ys \<subseteq> set allowedKeyScopes"
proof (induction xs out rule: collect_scopes.induct)
  case (2 x xs out)
  then show ?case by (auto simp: Let_def split: if_splits)
qed simp

lemma normalizeKeyScopes_SomeD:
  assumes "normalizeKeyScopes xs = Some ys"
  shows "ys \<noteq> []" "set ys \<subseteq> set allowedKeyScopes"
  using assms collect_scopes_allowed[of xs "[]"]
  by (auto simp: normalizeKeyScopes_def split: option.splits if_splits)

lemma listed_scopes_plain:
  "list_all (\<lambda>s. trim_space s = s \<and> (s = ''admin'' \<or> s = ''*'' \<or> last s \<noteq> CHR ''*'')) allowedKeyScopes"
  by code_simp

lemma plain_scope_matches:
  assumes "s \<in> set allowedKeyScopes" "s \<noteq> ''admin''" "s \<noteq> ''*''" "ScopeMatches s r"
  shows "trim_space r = s"
proof -
  have "trim_space s = s" "last s \<noteq> CHR ''*''" using assms(1-3) listed_scopes_plain
    unfolding list_all_iff by blast+
  then show ?thesis using assms(2-4) by (auto simp: ScopeMatches_def Let_def)
qed

lemma CreateAPIKey_InrD:
  assumes "CreateAPIKey ev kid hex (Some ac) body d = (Inr (raw, k), d')"
  obtains req where "ac_type ac = ''jwt''" "callerCanKeys (Some ac) d" "body = Some req"
    "normalizeKeyScopes (kr_scopes req) = Some (k_scopes k)" "issuerCanGrant ac (k_scopes k) d"
    "k_id k = kid" "k_creator k = Some (ac_user ac)"
proof (cases body)
  case None
  then show ?thesis using assms by (auto simp: CreateAPIKey_def split: if_splits)
next
  case (Some req)
  show ?thesis
  proof (cases "normalizeKeyScopes (kr_scopes req)")
    case None
    then show ?thesis using assms Some by (auto simp: CreateAPIKey_def split: if_splits)
  next
    case (Some scopes)
    then show ?thesis using assms \<open>body = Some req\<close>
      by (intro that[of req])
         (auto simp: CreateAPIKey_def InsertAPIKey_def GenerateKey_def Let_def split: if_splits)
  qed
qed


definition demo_issuer :: admin where
  "demo_issuer = demo_admin\<lparr>a_id := ''a2'', a_email := ''b'', a_role := Some ''admin'',
     a_perms := [(''can_view_api_keys'', True)]\<rparr>"

definition demo_key_request :: key_request where
  "demo_key_request = \<lparr>kr_name = ''k'', kr_scopes = ['' Users:read '', ''user:read''], kr_expires = None\<rparr>"

definition demo_issuer_ctx :: auth_ctx where
  "demo_issuer_ctx = \<lparr>ac_user = ''a2'', ac_email = ''b'', ac_role = ''admin'', ac_scopes = [''*''], ac_type = ''jwt''\<rparr>"

definition demo_key :: api_key where
  "demo_key = \<lparr>k_id = ''i'', k_name = ''k'', k_hash = ''vpn_0123456789'', k_prefix = ''vpn_01234567'',
     k_scopes = [''user:read''], k_expires = None, k_creator = Some ''a2''\<rparr>"

lemma demo_key_issued:
  "fst (CreateAPIKey demo_auth_env ''i'' ''0123456789'' (Some demo_issuer_ctx) (Some demo_key_request)
     (demo_adb\<lparr>db_admins := [demo_issuer]\<rparr>)) = Inr (''vpn_0123456789'', demo_key)"
  by code_simp


end
