(* ===== verification/Admin_Console.thy ===== *)
theory Admin_Console
  imports Admin_Handlers
begin

text \<open>
  The administrators' pages of the web console (src/internal/controlplane/web): cross-site request
  tokens and the session cookie (middleware.go), and creating, deleting and authorizing administrators,
  their second factor and their API keys (handler_admins.go). A page ends with a redirect, modelled by
  its outcome and text. HMAC-SHA256 in hex and uuid.Parse are parameters.
\<close>

section \<open>Cross-site request tokens\<close>

text \<open>strconv.ParseInt in base ten, for 64 bits.\<close>

definition is_digit :: "char \<Rightarrow> bool" where
  "is_digit c \<longleftrightarrow> 48 \<le> (of_char c :: nat) \<and> (of_char c :: nat) \<le> 57"

definition ParseInt :: "string \<Rightarrow> int option" where
  "ParseInt s =
     (let neg = (take 1 s = ''-'');
          ds = (if take 1 s = ''-'' \<or> take 1 s = ''+'' then drop 1 s else s);
          n = (if neg then - int (str_nat ds) else int (str_nat ds))
      in if ds \<noteq> [] \<and> list_all is_digit ds \<and> int8_fits n then Some n else None)"

definition unix :: "time \<Rightarrow> int" where
  "unix t = t div second"

definition csrf_payload :: "string \<Rightarrow> string \<Rightarrow> string" where
  "csrf_payload aid exp = aid @ CHR '':'' # exp"

definition GenerateCSRFToken :: "(string \<Rightarrow> string \<Rightarrow> string) \<Rightarrow> string \<Rightarrow> string \<Rightarrow> time \<Rightarrow> time \<Rightarrow> string" where
  "GenerateCSRFToken mac aid secret ttl now =
     (let payload = csrf_payload aid (int_str (unix (now + ttl)))
      in payload @ CHR '':'' # mac secret payload)"

definition ValidateCSRFToken :: "(string \<Rightarrow> string \<Rightarrow> string) \<Rightarrow> string \<Rightarrow> string \<Rightarrow> string \<Rightarrow> time \<Rightarrow> bool" where
  "ValidateCSRFToken mac tok aid secret now =
     (case split_on (CHR '':'') tok of
        [tid, exp, sig] \<Rightarrow>
          if tid \<noteq> aid then False
          else (case ParseInt exp of None \<Rightarrow> False
                | Some e \<Rightarrow> if unix now > e then False else sig = mac secret (csrf_payload tid exp))
      | _ \<Rightarrow> False)"

record web_ctx =
  wc_admin :: uuid
  wc_name :: string
  wc_role :: string
  wc_must :: bool

definition state_changing :: "string \<Rightarrow> bool" where
  "state_changing m \<longleftrightarrow> m = ''POST'' \<or> m = ''PUT'' \<or> m = ''PATCH'' \<or> m = ''DELETE''"

text \<open>Whether the request passes: the token is the header's, or else the form's.\<close>

definition RequireCSRF ::
    "(string \<Rightarrow> string \<Rightarrow> string) \<Rightarrow> string \<Rightarrow> string \<Rightarrow> web_ctx option \<Rightarrow> string \<Rightarrow> string \<Rightarrow> time \<Rightarrow> bool" where
  "RequireCSRF mac secret meth ctx header form now =
     (if \<not> state_changing meth then True
      else case ctx of None \<Rightarrow> False
        | Some c \<Rightarrow> (let token = (if header = [] then form else header)
            in token \<noteq> [] \<and> ValidateCSRFToken mac token (wc_admin c) secret now))"

definition isMustChangeAllowed :: "string \<Rightarrow> bool" where
  "isMustChangeAllowed path \<longleftrightarrow> path \<in> {''/admin/change-password'', ''/admin/settings-v2'',
     ''/admin/settings-data'', ''/admin/csrf-token'', ''/admin/logout'', ''/admin/settings''}"

datatype web_gate = ToLoginPage | ToPasswordPage | Enter web_ctx

definition RequireWebAuth :: "env \<Rightarrow> blacklist option \<Rightarrow> time \<Rightarrow> string option \<Rightarrow> string \<Rightarrow> web_gate" where
  "RequireWebAuth ev bl now cookie path =
     (case cookie of None \<Rightarrow> ToLoginPage
      | Some tok \<Rightarrow>
          if trim_space tok = [] then ToLoginPage
          else (case ValidateAccessToken ev bl now tok of
             Inl _ \<Rightarrow> ToLoginPage
           | Inr c \<Rightarrow>
               if cl_must c \<and> \<not> isMustChangeAllowed path then ToPasswordPage
               else Enter \<lparr>wc_admin = cl_admin c, wc_name = cl_email c, wc_role = cl_role c, wc_must = cl_must c\<rparr>))"

section \<open>The console's state\<close>

text \<open>The alerts are what the dispatcher is called with: SendAuditAlert's actor, action, target and
  details, SendRBACAlert's actor, role, target and status.\<close>

datatype alert_call = AuditAlert string string string string | RbacAlert string string string string

record console =
  co_db :: adb
  co_alerts :: "alert_call list"

datatype outcome = LoginPage | Failed string | Success string

text \<open>recordAudit writes its details as plain text (the category toggles of the log settings are on).\<close>

definition record_audit :: "web_ctx option \<Rightarrow> string \<Rightarrow> string \<Rightarrow> uuid option \<Rightarrow> string \<Rightarrow> console \<Rightarrow> console" where
  "record_audit ctx action typ res details st =
     (let st1 = (case CreateAuditLog \<lparr>au_admin = map_option wc_admin ctx, au_key = None, au_action = action, au_type = typ,
                   au_resource = res, au_diff = PlainText details\<rparr> (co_db st) of
                 Inl _ \<Rightarrow> st | Inr d \<Rightarrow> st\<lparr>co_db := d\<rparr>);
          actor = (case ctx of None \<Rightarrow> ''System'' | Some c \<Rightarrow> wc_name c);
          target = (case res of None \<Rightarrow> typ | Some r \<Rightarrow> typ @ '':'' @ take 8 r)
      in st1\<lparr>co_alerts := co_alerts st1 @ [AuditAlert actor action target details]\<rparr>)"

definition web_role :: "web_ctx \<Rightarrow> 'a adb_scheme \<Rightarrow> string" where
  "web_role c d = caller_role (wc_admin c) (wc_role c) d"

section \<open>Administrators\<close>

record admin_form =
  af_email :: string
  af_password :: string
  af_role :: string

definition WebCreateAdmin :: "env \<Rightarrow> uuid \<Rightarrow> web_ctx option \<Rightarrow> admin_form \<Rightarrow> console \<Rightarrow> outcome \<times> console" where
  "WebCreateAdmin ev aid ctx f st =
     (case ctx of None \<Rightarrow> (LoginPage, st)
      | Some c \<Rightarrow>
        (let caller = web_role c (co_db st);
             email = trim_space (af_email f);
             role = (if trim_space (af_role f) = [] then ''admin'' else trim_space (af_role f)) in
         if caller \<noteq> ''owner'' \<and> caller \<noteq> ''superadmin'' then (Failed ''Forbidden: owner or superadmin role required'', st)
         else if caller = ''superadmin'' \<and> (role = ''owner'' \<or> role = ''superadmin'')
         then (Failed ''Superadmins can only create regular admin accounts'', st)
         else if role \<noteq> ''owner'' \<and> role \<noteq> ''superadmin'' \<and> role \<noteq> ''admin'' then (Failed ''Invalid role specified'', st)
         else if email = [] \<or> af_password f = [] then (Failed ''Email and password are required'', st)
         else if length (af_password f) < 8 then (Failed ''Password must be at least 8 characters'', st)
         else case ev_hash ev (af_password f) of
           None \<Rightarrow> (Failed ''Failed to hash password'', st)
         | Some h \<Rightarrow>
            (case InsertAdmin aid email h role (co_db st) of
               Inl _ \<Rightarrow> (Failed ''Failed to create admin: email may already exist'', st)
             | Inr (a, d) \<Rightarrow> (Success ''Administrator created successfully'',
                 record_audit ctx ''CreateAdmin'' ''admin'' (Some (a_id a))
                   (''Admin '' @ email @ '' created with role '' @ role) (st\<lparr>co_db := d\<rparr>)))))"

datatype delete_error = SoleOwner | DeleteFailed db_error

text \<open>The owners are counted and the target deleted under the advisory lock, on the pool's own
  connection: the lock only serializes.\<close>

definition owner_count :: "'a adb_scheme \<Rightarrow> nat" where
  "owner_count d = length (List.filter (\<lambda>a. a_role a = Some ''owner'') (db_admins d))"

definition deleteOwnerGuarded :: "uuid \<Rightarrow> 'a adb_scheme \<Rightarrow> delete_error + 'a adb_scheme" where
  "deleteOwnerGuarded aid d =
     WithAdvisoryLock ''admin-delete'' (\<lambda>d.
       if ''ListAdmins'' \<in> db_down d then Inl (DeleteFailed StatementFailed)
       else if owner_count d \<le> 1 then Inl SoleOwner
       else (case DeleteAdminRow aid d of Inl e \<Rightarrow> Inl (DeleteFailed e) | Inr d' \<Rightarrow> Inr d')) DeleteFailed d"

definition target_role :: "admin \<Rightarrow> string" where
  "target_role a = (if text_or [] (a_role a) = [] then ''admin'' else text_or [] (a_role a))"

definition DeleteAdmin :: "web_ctx option \<Rightarrow> uuid option \<Rightarrow> console \<Rightarrow> outcome \<times> console" where
  "DeleteAdmin ctx target st =
     (case ctx of None \<Rightarrow> (LoginPage, st)
      | Some c \<Rightarrow>
        (let caller = web_role c (co_db st) in
         if caller \<noteq> ''owner'' \<and> caller \<noteq> ''superadmin'' then (Failed ''Forbidden: insufficient privileges'', st)
         else case target of None \<Rightarrow> (Failed ''Invalid administrator ID'', st)
         | Some aid \<Rightarrow>
            if wc_admin c = aid then (Failed ''You cannot delete your own account'', st)
            else (case GetAdminByID aid (co_db st) of
               Inl _ \<Rightarrow> (Failed ''Administrator not found'', st)
             | Inr a \<Rightarrow>
                (let details = ''Admin '' @ a_email a @ '' ('' @ target_role a @ '') deleted'';
                     finish = (\<lambda>d. (Success ''Administrator deleted successfully'',
                       record_audit ctx ''DeleteAdmin'' ''admin'' (Some aid) details (st\<lparr>co_db := d\<rparr>))) in
                 if target_role a = ''owner'' then
                   (if caller \<noteq> ''owner'' then (Failed ''Forbidden: only an Owner can delete another Owner account'', st)
                    else case deleteOwnerGuarded aid (co_db st) of
                      Inl SoleOwner \<Rightarrow> (Failed ''Cannot delete the sole remaining Owner'', st)
                    | Inl (DeleteFailed _) \<Rightarrow> (Failed ''Failed to delete administrator'', st)
                    | Inr d \<Rightarrow> finish d)
                 else if target_role a = ''superadmin'' \<and> caller \<noteq> ''owner''
                 then (Failed ''Superadmins can only be deleted by the Owner'', st)
                 else case DeleteAdminRow aid (co_db st) of
                   Inl _ \<Rightarrow> (Failed ''Failed to delete administrator'', st)
                 | Inr d \<Rightarrow> finish d))))"

text \<open>An RBAC row: its diff is a JSON document.\<close>

definition rbac_audit :: "web_ctx \<Rightarrow> string \<Rightarrow> uuid option \<Rightarrow> rbac_payload \<Rightarrow> adb \<Rightarrow> adb" where
  "rbac_audit c action res payload d =
     (case CreateAuditLog \<lparr>au_admin = Some (wc_admin c), au_key = None, au_action = action, au_type = ''admin'',
            au_resource = res, au_diff = RbacDiff payload\<rparr> d of Inl _ \<Rightarrow> d | Inr d' \<Rightarrow> d')"

definition UpdateAdminPermissions ::
    "web_ctx option \<Rightarrow> string \<Rightarrow> uuid option \<Rightarrow> perms option \<Rightarrow> console \<Rightarrow> outcome \<times> console" where
  "UpdateAdminPermissions ctx target_text target form st =
     (case ctx of None \<Rightarrow> (LoginPage, st)
      | Some c \<Rightarrow>
        (let caller = web_role c (co_db st) in
         if caller \<noteq> ''owner'' then
           (Failed ''Access denied: Only Owner can modify administrator permissions'',
            st\<lparr>co_db := rbac_audit c ''PrivilegeEscalationAttempt'' target
                 \<lparr>rb_target = target_text, rb_email = [], rb_role = [], rb_status = ''DENIED'',
                  rb_summary = ''Non-owner account '' @ wc_name c @ '' (role: '' @ caller @
                    '') attempted to modify permissions for admin '' @ target_text, rb_changes = []\<rparr> (co_db st),
               co_alerts := co_alerts st @ [RbacAlert (wc_name c) caller target_text ''DENIED'']\<rparr>)
         else case target of None \<Rightarrow> (Failed ''Invalid admin ID'', st)
         | Some aid \<Rightarrow>
            (case GetAdminByID aid (co_db st) of
               Inl _ \<Rightarrow> (Failed ''Admin not found'', st)
             | Inr a \<Rightarrow>
                 if target_role a = ''owner'' then (Failed ''Owner permissions are unrestricted and cannot be modified'', st)
                 else case form of None \<Rightarrow> (Failed ''Invalid form data'', st)
                 | Some new \<Rightarrow>
                    (case UpdatePermissions aid (perms_json new) (co_db st) of
                       Inl _ \<Rightarrow> (Failed ''Failed to update permissions'', st)
                     | Inr d \<Rightarrow>
                        (let changes = ComputePermissionDiff (ParsedPermissions a) new in
                         (Success ''Administrator permissions updated successfully'',
                          st\<lparr>co_db := rbac_audit c ''UpdateAdminPermissions'' (Some aid)
                               \<lparr>rb_target = aid, rb_email = a_email a, rb_role = target_role a, rb_status = ''SUCCESS'',
                                rb_summary = ''Permissions updated for '' @ a_email a @ '' ('' @ nat_str (length changes) @ '' changes)'',
                                rb_changes = changes\<rparr> d,
                             co_alerts := co_alerts st @ [RbacAlert (wc_name c) caller (a_email a) ''SUCCESS'']\<rparr>))))))"

definition set_totp :: "web_ctx \<Rightarrow> string option \<Rightarrow> string \<Rightarrow> string \<Rightarrow> string \<Rightarrow> console \<Rightarrow> outcome \<times> console" where
  "set_totp c secret action failure ok st =
     (case GetAdminByID (wc_admin c) (co_db st) of
        Inl _ \<Rightarrow> (Failed ''Admin account not found'', st)
      | Inr a \<Rightarrow>
         (case UpdateAdmin (a_id a) (a_email a) (a_hash a) (a_role a) secret None (co_db st) of
            Inl _ \<Rightarrow> (Failed failure, st)
          | Inr d \<Rightarrow> (Success ok, record_audit (Some c) action ''admin'' (Some (a_id a)) ok (st\<lparr>co_db := d\<rparr>))))"

definition EnableTOTP :: "env \<Rightarrow> web_ctx option \<Rightarrow> string \<Rightarrow> string \<Rightarrow> time \<Rightarrow> console \<Rightarrow> outcome \<times> console" where
  "EnableTOTP ev ctx secret0 code0 now st =
     (case ctx of None \<Rightarrow> (LoginPage, st)
      | Some c \<Rightarrow>
        (let secret = trim_space secret0; code = trim_space code0 in
         if secret = [] \<or> code = [] then (Failed ''Secret key and verification code are required'', st)
         else if \<not> ValidateCode ev now code secret then (Failed ''Invalid 2FA passcode'', st)
         else set_totp c (Some secret) ''Enable2FA'' ''Failed to activate 2FA''
                ''Two-factor authentication (2FA) has been successfully enabled!'' st))"

definition DisableTOTP :: "web_ctx option \<Rightarrow> console \<Rightarrow> outcome \<times> console" where
  "DisableTOTP ctx st =
     (case ctx of None \<Rightarrow> (LoginPage, st)
      | Some c \<Rightarrow> set_totp c None ''Disable2FA'' ''Failed to disable 2FA''
          ''Two-factor authentication (2FA) has been disabled.'' st)"

section \<open>API keys\<close>

fun add_scopes :: "string list \<Rightarrow> string list \<Rightarrow> string list" where
  "add_scopes [] out = out"
| "add_scopes (p # ps) out =
     (let s = to_lower (trim_space p) in
      if s = [] \<or> s \<in> set out \<or> s \<notin> set allowedKeyScopes then add_scopes ps out
      else add_scopes ps (out @ [s]))"

definition parseKeyScopes :: "string list \<Rightarrow> string list \<Rightarrow> string list" where
  "parseKeyScopes scope scopes =
     (let out = add_scopes (concat (List.map (split_on (CHR '','')) (scope @ scopes))) []
      in if out = [] then [''admin''] else out)"

definition getCallerPermissions :: "web_ctx option \<Rightarrow> 'a adb_scheme \<Rightarrow> perms" where
  "getCallerPermissions ctx d =
     (case ctx of None \<Rightarrow> DefaultAdminPermissions ''admin''
      | Some c \<Rightarrow>
          if wc_role c = ''owner'' then DefaultAdminPermissions ''owner''
          else case GetAdminByID (wc_admin c) d of
            Inl _ \<Rightarrow> DefaultAdminPermissions (wc_role c)
          | Inr a \<Rightarrow> ParsedPermissions a)"

definition may_manage_keys :: "web_ctx \<Rightarrow> 'a adb_scheme \<Rightarrow> bool" where
  "may_manage_keys c d \<longleftrightarrow> web_role c d = ''owner'' \<or> web_role c d = ''superadmin'' \<or>
     p_keys (getCallerPermissions (Some c) d)"

definition WebCreateAPIKey ::
    "env \<Rightarrow> uuid \<Rightarrow> string \<Rightarrow> web_ctx option \<Rightarrow> string \<Rightarrow> string list \<Rightarrow> string list \<Rightarrow> console \<Rightarrow> outcome \<times> console" where
  "WebCreateAPIKey ev kid hex ctx name scope scopes st =
     (case ctx of None \<Rightarrow> (LoginPage, st)
      | Some c \<Rightarrow>
        (let caller = web_role c (co_db st);
             granted = parseKeyScopes scope scopes;
             (raw, h) = GenerateKey ev hex;
             shown = (if trim_space name = [] then ''API Key ('' @ take 12 raw @ '')'' else trim_space name) in
         if \<not> may_manage_keys c (co_db st) then (Failed ''Forbidden: owner or superadmin role required to create API keys'', st)
         else if caller \<noteq> ''owner'' \<and> caller \<noteq> ''superadmin'' \<and>
                 \<not> list_all (scope_granted (getCallerPermissions ctx (co_db st))) granted
         then (Failed ''scope exceeds the permissions of the caller'', st)
         else case InsertAPIKey \<lparr>k_id = kid, k_name = shown, k_hash = h, k_prefix = take 12 raw, k_scopes = granted,
                  k_expires = None, k_creator = Some (wc_admin c)\<rparr> (co_db st) of
           Inl _ \<Rightarrow> (Failed ''Failed to create API key'', st)
         | Inr (k, d) \<Rightarrow> (Success raw, record_audit ctx ''CreateAPIKey'' ''api_key'' (Some (k_id k))
               (''Issued API key '' @ k_name k) (st\<lparr>co_db := d\<rparr>))))"

definition WebDeleteAPIKey :: "web_ctx option \<Rightarrow> uuid option \<Rightarrow> console \<Rightarrow> outcome \<times> console" where
  "WebDeleteAPIKey ctx kid st =
     (case ctx of None \<Rightarrow> (LoginPage, st)
      | Some c \<Rightarrow>
          if \<not> may_manage_keys c (co_db st) then (Failed ''Forbidden: owner or superadmin role required to delete API keys'', st)
          else (Success ''API key revoked successfully'',
            (case kid of None \<Rightarrow> st
             | Some k \<Rightarrow>
                 record_audit ctx ''DeleteAPIKey'' ''api_key'' kid (''Revoked API key ID '' @ k)
                   (case DeleteAPIKeyRow k (co_db st) of Inl _ \<Rightarrow> st | Inr d \<Rightarrow> st\<lparr>co_db := d\<rparr>))))"

section \<open>Round trip of the tokens\<close>

lemma is_digit_iff: "is_digit c \<longleftrightarrow> 48 \<le> (of_char c :: nat) \<and> (of_char c :: nat) < 58"
  by (auto simp: is_digit_def)

lemma nat_str_digits: "list_all is_digit (nat_str n)"
  using nat_str_chars unfolding list_all_iff is_digit_iff by blast

lemma nat_str_ne [simp]: "nat_str n \<noteq> []"
  by (subst nat_str.simps) simp

lemma colon_not_in_nat_str [simp]: "CHR '':'' \<notin> set (nat_str n)"
  using nat_str_chars[of "CHR '':''" n] by auto

lemma nat_str_head: "take 1 (nat_str n) \<noteq> ''-''" "take 1 (nat_str n) \<noteq> ''+''"
proof -
  obtain c cs where c: "nat_str n = c # cs" using nat_str_ne[of n] by (cases "nat_str n") auto
  then have "48 \<le> (of_char c :: nat)" using nat_str_chars[of c n] by simp
  then show "take 1 (nat_str n) \<noteq> ''-''" "take 1 (nat_str n) \<noteq> ''+''" using c by auto
qed

lemma ParseInt_int_str: "int8_fits i \<Longrightarrow> ParseInt (int_str i) = Some i"
  using nat_str_digits nat_str_head[of "nat i"]
  by (auto simp: ParseInt_def int_str_def Let_def)

lemma colon_not_in_int_str [simp]: "CHR '':'' \<notin> set (int_str i)"
  by (simp add: int_str_def)

lemma split_csrf:
  assumes "CHR '':'' \<notin> set a" "CHR '':'' \<notin> set e" "CHR '':'' \<notin> set s"
  shows "split_on (CHR '':'') (csrf_payload a e @ CHR '':'' # s) = [a, e, s]"
  using assms by (simp add: csrf_payload_def split_on_append split_on_plain)

text \<open>
  A generated cross-site request token validates for its administrator and secret exactly until its
  expiry, and for no other administrator.
\<close>
theorem csrf_round_trip:
  assumes "CHR '':'' \<notin> set aid" "\<And>k p. CHR '':'' \<notin> set (mac k p)" "int8_fits (unix (t + ttl))"
  shows "ValidateCSRFToken mac (GenerateCSRFToken mac aid secret ttl t) aid' secret now \<longleftrightarrow>
    aid' = aid \<and> unix now \<le> unix (t + ttl)"
  using assms(3) unfolding GenerateCSRFToken_def ValidateCSRFToken_def Let_def
  by (auto simp: split_csrf[OF assms(1) colon_not_in_int_str assms(2)] ParseInt_int_str)

lemma csrf_round_trip_witness:
  "ValidateCSRFToken (\<lambda>k p. ''ab'') (GenerateCSRFToken (\<lambda>k p. ''ab'') ''id'' ''s'' (60 * second) (5 * second)) ''id'' ''s'' (65 * second)"
  by (subst csrf_round_trip) (simp_all add: int8_fits_def unix_def time_units)

section \<open>Histories of the console\<close>

text \<open>One request to one of the pages above.\<close>

inductive console_step :: "env \<Rightarrow> console \<Rightarrow> console \<Rightarrow> bool" for ev where
  create: "aid \<notin> a_id ` set (db_admins (co_db st)) \<Longrightarrow> console_step ev st (snd (WebCreateAdmin ev aid ctx f st))"
| delete: "console_step ev st (snd (DeleteAdmin ctx target st))"
| perms: "console_step ev st (snd (UpdateAdminPermissions ctx tx target form st))"
| enable: "console_step ev st (snd (EnableTOTP ev ctx secret code now st))"
| disable: "console_step ev st (snd (DisableTOTP ctx st))"
| create_key: "console_step ev st (snd (WebCreateAPIKey ev kid hex ctx name s1 s2 st))"
| delete_key: "console_step ev st (snd (WebDeleteAPIKey ctx kid st))"

inductive_cases console_stepE: "console_step ev st st'"

lemma record_audit_db [simp]: "co_db (record_audit ctx action typ res details st) = co_db st"
  by (simp add: record_audit_def CreateAuditLog_def Let_def)

lemma rbac_audit_frame [simp]: "db_admins (rbac_audit c action res p d) = db_admins d"
  by (simp add: rbac_audit_def CreateAuditLog_def)

lemma rbac_audit_cases:
  obtains (Lost) "db_audit (rbac_audit c action res p d) = db_audit d"
  | (Kept) r where "db_audit (rbac_audit c action res p d) = r # db_audit d" "au_action r = action"
      "au_admin r = Some (wc_admin c)"
proof (cases "rbac_audit c action res p d = d")
  case False
  then have "db_audit (rbac_audit c action res p d) = \<lparr>au_admin = Some (wc_admin c), au_key = None, au_action = action,
      au_type = ''admin'', au_resource = res, au_diff = RbacDiff p\<rparr> # db_audit d"
    by (auto simp: rbac_audit_def CreateAuditLog_def split: if_splits)
  then show ?thesis by (rule Kept) simp_all
qed (simp add: Lost)

lemma DeleteAPIKeys_frame [simp]:
  "db_admins (DeleteAPIKeysByAdminID aid d) = db_admins d" "db_audit (DeleteAPIKeysByAdminID aid d) = db_audit d"
  by (simp_all add: DeleteAPIKeysByAdminID_def)

lemma DeleteAdminRow_InrD:
  "DeleteAdminRow aid d = Inr d' \<Longrightarrow> db_admins d' = List.filter (\<lambda>a. a_id a \<noteq> aid) (db_admins d) \<and>
     db_audit d' = db_audit d \<and> aid \<notin> audited_admins d"
  by (auto simp: DeleteAdminRow_def Let_def audited_admins_def split: if_splits)

lemma deleteOwnerGuarded_InrD:
  "deleteOwnerGuarded aid d = Inr d' \<Longrightarrow> 1 < owner_count d \<and> DeleteAdminRow aid d = Inr d'"
  unfolding deleteOwnerGuarded_def
  by (drule WithAdvisoryLock_InrD) (auto split: if_splits sum.splits)

lemma DeleteAdmin_cases:
  obtains (Kept) "co_db (snd (DeleteAdmin ctx target st)) = co_db st"
  | (Gone) aid a d where "target = Some aid" "GetAdminByID aid (co_db st) = Inr a"
      "target_role a = ''owner'' \<Longrightarrow> 1 < owner_count (co_db st)"
      "DeleteAdminRow aid (co_db st) = Inr d" "co_db (snd (DeleteAdmin ctx target st)) = d"
proof (cases "co_db (snd (DeleteAdmin ctx target st)) = co_db st")
  case False
  then obtain c aid where c: "ctx = Some c" "target = Some aid"
    by (auto simp: DeleteAdmin_def Let_def split: option.splits if_splits)
  obtain a where a: "GetAdminByID aid (co_db st) = Inr a"
    using False c by (cases "GetAdminByID aid (co_db st)") (auto simp: DeleteAdmin_def Let_def)
  show ?thesis
  proof (cases "target_role a = ''owner''")
    case True
    obtain d where d: "deleteOwnerGuarded aid (co_db st) = Inr d" "co_db (snd (DeleteAdmin ctx target st)) = d"
      using False c a True by (auto simp: DeleteAdmin_def Let_def split: sum.splits delete_error.splits if_splits)
    then show ?thesis using Gone[OF c(2) a] deleteOwnerGuarded_InrD by blast
  next
    case other: False
    obtain d where "DeleteAdminRow aid (co_db st) = Inr d" "co_db (snd (DeleteAdmin ctx target st)) = d"
      using False c a other by (auto simp: DeleteAdmin_def Let_def split: sum.splits if_splits)
    then show ?thesis using Gone[OF c(2) a] other by blast
  qed
qed (rule Kept)

lemma set_totp_db:
  obtains (Kept) "co_db (snd (set_totp c secret action failure ok st)) = co_db st"
  | (Set) a where "GetAdminByID (wc_admin c) (co_db st) = Inr a"
      "co_db (snd (set_totp c secret action failure ok st)) =
       update_admins (a_id a) (\<lambda>x. x\<lparr>a_email := a_email a, a_hash := a_hash a, a_role := a_role a, a_totp := secret,
         a_login := None\<rparr>) (co_db st)"
proof (cases "GetAdminByID (wc_admin c) (co_db st)")
  case (Inr a)
  show ?thesis
  proof (cases "UpdateAdmin (a_id a) (a_email a) (a_hash a) (a_role a) secret None (co_db st)")
    case (Inl e)
    then show ?thesis using Kept Inr by (simp add: set_totp_def)
  next
    case d: (Inr d)
    then have "d = update_admins (a_id a) (\<lambda>x. x\<lparr>a_email := a_email a, a_hash := a_hash a, a_role := a_role a, a_totp := secret,
         a_login := None\<rparr>) (co_db st)" by (simp add: UpdateAdmin_def split: if_splits)
    then show ?thesis using Set[OF Inr] Inr d by (simp add: set_totp_def)
  qed
qed (use Kept in \<open>simp add: set_totp_def\<close>)

text \<open>What one page does to the administrators, in terms of the table alone.\<close>

datatype admin_effect = NoEffect | Added admin | Removed admin | Edited uuid "admin \<Rightarrow> admin"

fun takes_effect :: "admin_effect \<Rightarrow> adb \<Rightarrow> adb \<Rightarrow> bool" where
  "takes_effect NoEffect d d' \<longleftrightarrow> db_admins d' = db_admins d"
| "takes_effect (Added a) d d' \<longleftrightarrow> a_id a \<notin> a_id ` set (db_admins d) \<and> db_admins d' = a # db_admins d"
| "takes_effect (Removed a) d d' \<longleftrightarrow> a \<in> set (db_admins d) \<and> a_id a \<notin> audited_admins d \<and>
     (a_role a = Some ''owner'' \<longrightarrow> 1 < owner_count d) \<and>
     db_admins d' = List.filter (\<lambda>b. a_id b \<noteq> a_id a) (db_admins d)"
| "takes_effect (Edited aid f) d d' \<longleftrightarrow> (\<forall>x\<in>set (db_admins d). a_id (f x) = a_id x \<and> (a_id x = aid \<longrightarrow> a_role (f x) = a_role x)) \<and>
     db_admins d' = List.map (\<lambda>x. if a_id x = aid then f x else x) (db_admins d)"

lemma GetAdminByID_InrD: "GetAdminByID aid d = Inr a \<Longrightarrow> a \<in> set (db_admins d) \<and> a_id a = aid"
  using find_Some_in[of _ "db_admins d"] by (auto simp: GetAdminByID_def split: if_splits option.splits)

lemma set_totp_effect:
  assumes "distinct (List.map a_id (db_admins (co_db st)))"
  shows "\<exists>e. takes_effect e (co_db st) (co_db (snd (set_totp c secret action failure ok st)))"
proof (cases rule: set_totp_db[of c secret action failure ok st])
  case Kept
  then show ?thesis by (intro exI[of _ NoEffect]) simp
next
  case (Set a)
  note a = GetAdminByID_InrD[OF Set(1)]
  have "x = a" if "x \<in> set (db_admins (co_db st))" "a_id x = a_id a" for x
    using distinct_map_unique[OF assms that(1) conjunct1[OF a] that(2)] .
  then show ?thesis
    by (intro exI[of _ "Edited (a_id a) (\<lambda>x. x\<lparr>a_email := a_email a, a_hash := a_hash a, a_role := a_role a,
          a_totp := secret, a_login := None\<rparr>)"]) (auto simp: Set(2) update_admins_def)
qed

lemma set_totp_audit: "db_audit (co_db (snd (set_totp c secret action failure ok st))) = db_audit (co_db st)"
  by (cases rule: set_totp_db[of c secret action failure ok st]) (simp_all add: update_admins_def)

lemma UpdateAdminPermissions_db:
  obtains (Denied) c p where "co_db (snd (UpdateAdminPermissions ctx tx target form st)) =
      rbac_audit c ''PrivilegeEscalationAttempt'' target p (co_db st)"
  | (Kept) "co_db (snd (UpdateAdminPermissions ctx tx target form st)) = co_db st"
  | (Done) c aid new p where "co_db (snd (UpdateAdminPermissions ctx tx target form st)) =
      rbac_audit c ''UpdateAdminPermissions'' (Some aid) p (update_admins aid (\<lambda>a. a\<lparr>a_perms := perms_json new\<rparr>) (co_db st))"
proof (cases "co_db (snd (UpdateAdminPermissions ctx tx target form st)) = co_db st")
  case False
  then obtain c where c: "ctx = Some c" by (auto simp: UpdateAdminPermissions_def split: option.splits)
  show ?thesis
  proof (cases "web_role c (co_db st) = ''owner''")
    case True
    obtain aid a new d where x: "target = Some aid" "GetAdminByID aid (co_db st) = Inr a" "target_role a \<noteq> ''owner''"
      "form = Some new" "UpdatePermissions aid (perms_json new) (co_db st) = Inr d"
      using False c True by (auto simp: UpdateAdminPermissions_def Let_def split: option.splits sum.splits if_splits)
    have "d = update_admins aid (\<lambda>a. a\<lparr>a_perms := perms_json new\<rparr>) (co_db st)"
      using x(5) by (simp add: UpdatePermissions_def split: if_splits)
    then show ?thesis using Done c True x by (simp add: UpdateAdminPermissions_def Let_def)
  qed (use Denied c in \<open>simp add: UpdateAdminPermissions_def Let_def\<close>)
qed (rule Kept)

lemma console_step_effect:
  assumes "console_step ev st st'" and d: "distinct (List.map a_id (db_admins (co_db st)))"
  shows "\<exists>e. takes_effect e (co_db st) (co_db st')"
  using assms(1)
proof cases
  case (create aid ctx f)
  have "db_admins (co_db st') = db_admins (co_db st) \<or>
    (\<exists>a. a_id a = aid \<and> db_admins (co_db st') = a # db_admins (co_db st))"
    unfolding create(1) WebCreateAdmin_def
    by (auto simp: Let_def InsertAdmin_def split: option.splits sum.splits if_splits)
  then show ?thesis using create(2) by (metis takes_effect.simps(1,2))
next
  case (delete ctx target)
  show ?thesis
  proof (cases rule: DeleteAdmin_cases[of ctx target st])
    case Kept
    then show ?thesis by (intro exI[of _ NoEffect]) (simp add: delete)
  next
    case (Gone aid a d')
    have "a_role a = Some ''owner'' \<Longrightarrow> target_role a = ''owner''" by (simp add: target_role_def)
    then have "takes_effect (Removed a) (co_db st) (co_db st')"
      using Gone GetAdminByID_InrD[OF Gone(2)] DeleteAdminRow_InrD[OF Gone(4)] by (auto simp: delete)
    then show ?thesis by blast
  qed
next
  case (perms ctx tx target form)
  show ?thesis
  proof (cases rule: UpdateAdminPermissions_db[of ctx tx target form st])
    case (Done c aid new p)
    then show ?thesis unfolding perms
      by (intro exI[of _ "Edited aid (\<lambda>a. a\<lparr>a_perms := perms_json new\<rparr>)"]) (simp add: update_admins_def)
  qed (use perms in \<open>intro exI[of _ NoEffect], simp\<close>)+
next
  case (enable ctx secret code now)
  then show ?thesis using set_totp_effect[OF d]
    by (auto simp: EnableTOTP_def Let_def split: option.splits intro: exI[of _ NoEffect])
next
  case (disable ctx)
  then show ?thesis using set_totp_effect[OF d]
    by (auto simp: DisableTOTP_def split: option.splits intro: exI[of _ NoEffect])
next
  case (create_key kid hex ctx name s1 s2)
  have "db_admins (co_db st') = db_admins (co_db st)" unfolding create_key WebCreateAPIKey_def
    by (auto simp: Let_def InsertAPIKey_def GenerateKey_def split: option.splits sum.splits if_splits)
  then show ?thesis by (intro exI[of _ NoEffect]) simp
next
  case (delete_key ctx kid)
  have "db_admins (co_db st') = db_admins (co_db st)" unfolding delete_key WebDeleteAPIKey_def
    by (auto simp: DeleteAPIKeyRow_def split: option.splits sum.splits if_splits)
  then show ?thesis by (intro exI[of _ NoEffect]) simp
qed

definition rbac_actions :: "string set" where
  "rbac_actions = {''PrivilegeEscalationAttempt'', ''UpdateAdminPermissions''}"

lemma rbac_audit_effect:
  assumes "action \<in> rbac_actions"
  shows "db_audit (rbac_audit c action res p d) = db_audit d \<or>
    (\<exists>r. db_audit (rbac_audit c action res p d) = r # db_audit d \<and> au_action r \<in> rbac_actions)"
  using assms by (cases rule: rbac_audit_cases[of c action res p d]) auto

lemma console_step_audit:
  assumes "console_step ev st st'"
  shows "db_audit (co_db st') = db_audit (co_db st) \<or>
    (\<exists>r. db_audit (co_db st') = r # db_audit (co_db st) \<and> au_action r \<in> rbac_actions)"
  using assms
proof cases
  case (create aid ctx f)
  then show ?thesis unfolding create(1) WebCreateAdmin_def
    by (auto simp: Let_def InsertAdmin_def split: option.splits sum.splits if_splits)
next
  case (delete ctx target)
  show ?thesis
    by (cases rule: DeleteAdmin_cases[of ctx target st]) (auto simp: delete dest: DeleteAdminRow_InrD)
next
  case (perms ctx tx target form)
  show ?thesis
  proof (cases rule: UpdateAdminPermissions_db[of ctx tx target form st])
    case (Denied c p)
    then show ?thesis using rbac_audit_effect[of "''PrivilegeEscalationAttempt''"] by (simp add: perms rbac_actions_def)
  next
    case (Done c aid new p)
    then show ?thesis using rbac_audit_effect[of "''UpdateAdminPermissions''" c "Some aid" p
        "update_admins aid (\<lambda>a. a\<lparr>a_perms := perms_json new\<rparr>) (co_db st)"]
      by (simp add: perms rbac_actions_def update_admins_def)
  qed (simp add: perms)
next
  case (enable ctx secret code now)
  then show ?thesis by (auto simp: EnableTOTP_def Let_def set_totp_audit split: option.splits)
next
  case (disable ctx)
  then show ?thesis by (auto simp: DisableTOTP_def set_totp_audit split: option.splits)
next
  case (create_key kid hex ctx name s1 s2)
  then show ?thesis unfolding create_key WebCreateAPIKey_def
    by (auto simp: Let_def InsertAPIKey_def GenerateKey_def split: option.splits sum.splits if_splits)
next
  case (delete_key ctx kid)
  then show ?thesis unfolding delete_key WebDeleteAPIKey_def
    by (auto simp: DeleteAPIKeyRow_def split: option.splits sum.splits if_splits)
qed

text \<open>The identifiers of administrators are unique, and one of them is an owner.\<close>

definition owned :: "adb \<Rightarrow> bool" where
  "owned d \<longleftrightarrow> distinct (List.map a_id (db_admins d)) \<and> (\<exists>a\<in>set (db_admins d). a_role a = Some ''owner'')"

lemma two_owners:
  assumes "1 < owner_count d" "distinct (List.map a_id (db_admins d))"
  shows "\<exists>b\<in>set (db_admins d). a_role b = Some ''owner'' \<and> a_id b \<noteq> aid"
proof (rule ccontr)
  assume n: "\<not> (\<exists>b\<in>set (db_admins d). a_role b = Some ''owner'' \<and> a_id b \<noteq> aid)"
  let ?os = "List.filter (\<lambda>a. a_role a = Some ''owner'') (db_admins d)"
  have "a_id ` set ?os \<subseteq> {aid}" using n by auto
  then have "card (a_id ` set ?os) \<le> card {aid}" by (intro card_mono) simp
  moreover have "card (set (List.map a_id ?os)) = length (List.map a_id ?os)"
    by (rule distinct_card[OF distinct_map_filter_key[OF assms(2)]])
  then have "card (a_id ` set ?os) = length ?os" by (simp only: set_map length_map)
  ultimately show False using assms(1) by (simp add: owner_count_def)
qed

lemma takes_effect_owned:
  assumes "takes_effect e d d'" "owned d"
  shows "owned d'"
proof -
  have dist: "distinct (List.map a_id (db_admins d))" using assms(2) by (simp add: owned_def)
  show ?thesis
  proof (cases e)
    case (Removed a)
    have "\<exists>b\<in>set (db_admins d). a_role b = Some ''owner'' \<and> a_id b \<noteq> a_id a"
    proof (cases "a_role a = Some ''owner''")
      case True
      then show ?thesis using assms(1) Removed two_owners[OF _ dist] by simp
    next
      case False
      obtain b where b: "b \<in> set (db_admins d)" "a_role b = Some ''owner''" using assms(2) by (auto simp: owned_def)
      have "a_id b \<noteq> a_id a"
        using assms(1) Removed False distinct_map_unique[OF dist b(1), of a] b(2) by auto
      then show ?thesis using b by blast
    qed
    then show ?thesis using assms(1) Removed dist by (auto simp: owned_def distinct_map_filter_key)
  next
    case (Edited aid f)
    have "List.map a_id (db_admins d') = List.map a_id (db_admins d)" using assms(1) Edited by simp
    moreover obtain b where b: "b \<in> set (db_admins d)" "a_role b = Some ''owner''" using assms(2) by (auto simp: owned_def)
    then have "(if a_id b = aid then f b else b) \<in> set (db_admins d')"
      "a_role (if a_id b = aid then f b else b) = Some ''owner''" using assms(1) Edited by auto
    ultimately show ?thesis using dist by (auto simp: owned_def)
  qed (use assms in \<open>auto simp: owned_def\<close>)
qed

lemma console_step_owned [keeps]: "console_step ev st st' \<Longrightarrow> owned (co_db st) \<Longrightarrow> owned (co_db st')"
  using console_step_effect takes_effect_owned by (metis owned_def)

text \<open>
  C16. There is always an owner: whatever pages are requested by whomever in whatever order, from a
  database whose administrators have unique identifiers and include an owner, every later state has one.
\<close>
theorem owner_always_remains:
  assumes "(console_step ev)\<^sup>*\<^sup>* st st'" "owned (co_db st)"
  shows "owned (co_db st')"
  using assms by (induction rule: rtranclp_induct) (auto intro: keeps)

definition demo_console :: console where
  "demo_console = \<lparr>co_db = demo_adb, co_alerts = []\<rparr>"

definition demo_web :: web_ctx where
  "demo_web = \<lparr>wc_admin = ''a1'', wc_name = ''a'', wc_role = ''owner'', wc_must = False\<rparr>"

definition demo_owners :: console where
  "demo_owners = demo_console\<lparr>co_db := demo_adb\<lparr>db_admins := [demo_admin, demo_admin\<lparr>a_id := ''a2'', a_email := ''b''\<rparr>]\<rparr>\<rparr>"

lemma owner_always_remains_witness:
  "fst (DeleteAdmin (Some demo_web) (Some ''a2'') demo_owners) = Success ''Administrator deleted successfully'' \<and>
   owned (co_db (snd (DeleteAdmin (Some demo_web) (Some ''a2'') demo_owners)))"
proof
  show "fst (DeleteAdmin (Some demo_web) (Some ''a2'') demo_owners) = Success ''Administrator deleted successfully''"
    by code_simp
  show "owned (co_db (snd (DeleteAdmin (Some demo_web) (Some ''a2'') demo_owners)))"
  proof (rule owner_always_remains)
    show "(console_step demo_auth_env)\<^sup>*\<^sup>* demo_owners (snd (DeleteAdmin (Some demo_web) (Some ''a2'') demo_owners))"
      by (intro r_into_rtranclp console_step.delete)
  qed (simp add: owned_def demo_owners_def demo_console_def demo_adb_def demo_admin_def)
qed

lemma takes_effect_keeps_audited:
  "takes_effect e d d' \<Longrightarrow> aid \<in> audited_admins d \<Longrightarrow> aid \<in> a_id ` set (db_admins d) \<Longrightarrow> aid \<in> a_id ` set (db_admins d')"
proof (cases e)
  case (Edited x f)
  assume "takes_effect e d d'" "aid \<in> a_id ` set (db_admins d)"
  moreover from this have "List.map a_id (db_admins d') = List.map a_id (db_admins d)" using Edited by simp
  ultimately show ?thesis by (metis set_map)
qed (auto simp: image_iff)

text \<open>
  What the console leaves in the audit trail: over any history the table only grows, and only by
  attempted and completed permission changes, because every other page hands the JSONB column plain text.
  An administrator whom a row of the trail names can never be deleted afterwards, since the row cannot
  be detached.
\<close>
theorem console_audit_trail:
  assumes "(console_step ev)\<^sup>*\<^sup>* st st'" "owned (co_db st)"
  shows "(\<exists>rs. db_audit (co_db st') = rs @ db_audit (co_db st) \<and> au_action ` set rs \<subseteq> rbac_actions) \<and>
    audited_admins (co_db st) \<inter> a_id ` set (db_admins (co_db st)) \<subseteq> a_id ` set (db_admins (co_db st'))"
  using assms
proof (induction rule: rtranclp_induct)
  case base
  then show ?case by simp
next
  case (step s t)
  note IH = step.IH[OF step.prems]
  obtain rs where rs: "db_audit (co_db s) = rs @ db_audit (co_db st)" "au_action ` set rs \<subseteq> rbac_actions" using IH by blast
  have own: "owned (co_db s)" using step.hyps(1) step.prems by (induction rule: rtranclp_induct) (auto intro: keeps)
  have "audited_admins (co_db st) \<subseteq> audited_admins (co_db s)"
    by (auto simp: audited_admins_def rs(1) List.map_filter_def)
  moreover obtain e where "takes_effect e (co_db s) (co_db t)"
    using console_step_effect[OF step.hyps(2)] own by (auto simp: owned_def)
  note takes_effect_keeps_audited[OF this]
  ultimately have "audited_admins (co_db st) \<inter> a_id ` set (db_admins (co_db st)) \<subseteq> a_id ` set (db_admins (co_db t))"
    using IH by blast
  moreover have "\<exists>rs. db_audit (co_db t) = rs @ db_audit (co_db st) \<and> au_action ` set rs \<subseteq> rbac_actions"
    using console_step_audit[OF step.hyps(2)]
  proof (elim disjE exE conjE)
    fix r assume r: "db_audit (co_db t) = r # db_audit (co_db s)" "au_action r \<in> rbac_actions"
    then show ?thesis using rs by (intro exI[of _ "r # rs"]) simp
  qed (use rs in simp)
  ultimately show ?case by blast
qed

lemma console_audit_trail_witness:
  "\<exists>rs. db_audit (co_db (snd (UpdateAdminPermissions (Some demo_web) ''a2'' (Some ''a2'') (Some all_perms) demo_owners)))
     = rs @ db_audit (co_db demo_owners) \<and> au_action ` set rs \<subseteq> rbac_actions"
  by (rule console_audit_trail[where ev = demo_auth_env, THEN conjunct1])
     (auto intro: r_into_rtranclp console_step.perms simp: owned_def demo_owners_def demo_console_def demo_adb_def demo_admin_def)

lemma caller_role_gone: "aid \<notin> a_id ` set (db_admins d) \<Longrightarrow> caller_role aid role d = role"
  by (auto simp: caller_role_def dest: GetAdminByID_InrD split: sum.splits)

text \<open>
  Deleting an administrator does not end its session: the console falls back to the role in the
  session's token when the row is gone, so a deleted owner can create a new owner account.
\<close>
theorem deleted_owner_returns:
  assumes del: "DeleteAdmin ctx (Some aid) st = (Success m, st1)"
    and c: "wc_admin c = aid" "wc_role c = ''owner''"
    and up: "''CreateAdmin'' \<notin> db_down (co_db st1)" and pw: "8 \<le> length pw" "ev_hash ev pw = Some h"
    and new: "nid \<notin> a_id ` set (db_admins (co_db st1))" "trim_space email \<noteq> []"
      "trim_space email \<notin> a_email ` set (db_admins (co_db st1))"
  shows "aid \<notin> a_id ` set (db_admins (co_db st1)) \<and>
    fst (WebCreateAdmin ev nid (Some c) \<lparr>af_email = email, af_password = pw, af_role = ''owner''\<rparr> st1)
      = Success ''Administrator created successfully'' \<and>
    (\<exists>a\<in>set (db_admins (co_db (snd (WebCreateAdmin ev nid (Some c)
        \<lparr>af_email = email, af_password = pw, af_role = ''owner''\<rparr> st1)))). a_id a = nid \<and> a_role a = Some ''owner'')"
proof -
  have gone: "aid \<notin> a_id ` set (db_admins (co_db st1))"
  proof (cases rule: DeleteAdmin_cases[of ctx "Some aid" st])
    case Kept
    have "\<exists>d. DeleteAdminRow aid (co_db st) = Inr d \<and> co_db st1 = d"
      using del by (auto simp: DeleteAdmin_def Let_def dest: deleteOwnerGuarded_InrD
          split: option.splits sum.splits if_splits delete_error.splits)
    then show ?thesis using DeleteAdminRow_InrD by fastforce
  next
    case (Gone aid' a d)
    then show ?thesis using DeleteAdminRow_InrD[OF Gone(4)] del by auto
  qed
  have "trim_space ''owner'' = ''owner''" by (simp add: trim_space_def is_space_def)
  then show ?thesis using gone c up pw new caller_role_gone[OF gone]
    by (auto simp: WebCreateAdmin_def Let_def web_role_def InsertAdmin_def image_iff)
qed

lemma deleted_owner_returns_witness:
  "fst (WebCreateAdmin demo_auth_env ''a9'' (Some \<lparr>wc_admin = ''a2'', wc_name = ''b'', wc_role = ''owner'', wc_must = False\<rparr>)
     \<lparr>af_email = ''z'', af_password = ''12345678'', af_role = ''owner''\<rparr>
     (snd (DeleteAdmin (Some demo_web) (Some ''a2'') demo_owners))) = Success ''Administrator created successfully''"
proof (rule deleted_owner_returns[where nid = "''a9''" and ev = demo_auth_env and aid = "''a2''" and email = "''z''"
      and pw = "''12345678''" and h = "''12345678''", THEN conjunct2, THEN conjunct1])
  let ?s = "snd (DeleteAdmin (Some demo_web) (Some ''a2'') demo_owners)"
  have "fst (DeleteAdmin (Some demo_web) (Some ''a2'') demo_owners) = Success ''Administrator deleted successfully''" by code_simp
  then show "DeleteAdmin (Some demo_web) (Some ''a2'') demo_owners = (Success ''Administrator deleted successfully'', ?s)"
    by (metis prod.collapse)
  show "''CreateAdmin'' \<notin> db_down (co_db ?s)" by code_simp
  have "db_admins (co_db ?s) = [demo_admin]" by code_simp
  then show "''a9'' \<notin> a_id ` set (db_admins (co_db ?s))" "trim_space ''z'' \<notin> a_email ` set (db_admins (co_db ?s))"
    by (simp_all add: demo_admin_def trim_space_def is_space_def)
qed (simp_all add: demo_auth_env_def trim_space_def is_space_def)

end
