(* ===== verification/Float64.thy ===== *)
theory Float64
  imports Complex_Main "HOL-Library.Log_Nat"
begin

text \<open>
  The float64 arithmetic the prices go through (src/internal/controlplane/api/handler/billing.go): a
  nonnegative finite value is mantissa * 2^exponent with at most 53 bits of mantissa, products are
  rounded to nearest, ties to even. Overflow and subnormal values do not occur for amounts of money,
  whose columns are DECIMAL(10,2) and are modelled in cents.
\<close>

type_synonym f64 = "int \<times> int"

definition near :: "int \<Rightarrow> nat \<Rightarrow> int" where
  "near m K = (let q = m div 2 ^ K; r = m mod 2 ^ K
     in if 2 * r > 2 ^ K \<or> (2 * r = 2 ^ K \<and> odd q) then q + 1 else q)"

definition excess :: "int \<Rightarrow> nat" where
  "excess m = nat (bitlen m - 53)"

definition round64 :: "int \<Rightarrow> int \<Rightarrow> f64" where
  "round64 m e = (near m (excess m), e + int (excess m))"

definition f64_mul :: "f64 \<Rightarrow> f64 \<Rightarrow> f64" where
  "f64_mul x y = round64 (fst x * fst y) (snd x + snd y)"

definition f64_of_int :: "int \<Rightarrow> f64" where
  "f64_of_int n = round64 n 0"

text \<open>The value nearest to c cents; 2^121 leaves enough bits for a sticky last one.\<close>

definition f64_of_cents :: "int \<Rightarrow> f64" where
  "f64_of_cents c = (let q = c * 2 ^ 120 div 100; s = (if c * 2 ^ 120 mod 100 = 0 then 0 else 1)
     in round64 (2 * q + s) (- 121))"

text \<open>fmt.Sprintf("%.2f"), in cents, and the conversion to an integer.\<close>

definition fmt2 :: "f64 \<Rightarrow> int" where
  "fmt2 x = (if snd x \<ge> 0 then fst x * 100 * 2 ^ nat (snd x) else near (100 * fst x) (nat (- snd x)))"

definition trunc :: "f64 \<Rightarrow> int" where
  "trunc x = (if snd x \<ge> 0 then fst x * 2 ^ nat (snd x) else fst x div 2 ^ nat (- snd x))"

definition f080 :: f64 where "f080 = (7205759403792794, - 53)"
definition f085 :: f64 where "f085 = (7656119366529843, - 53)"
definition f090 :: f64 where "f090 = (8106479329266893, - 53)"

section \<open>Rounding\<close>

lemma near_bounds: "2 * (near m K * 2 ^ K) \<le> 2 * m + 2 ^ K" "2 * m \<le> 2 * (near m K * 2 ^ K) + 2 ^ K"
proof -
  define q r where "q = m div 2 ^ K" and "r = m mod (2::int) ^ K"
  have m: "m = q * 2 ^ K + r" unfolding q_def r_def by (rule div_mult_mod_eq[symmetric])
  have r: "0 \<le> r" "r < 2 ^ K" by (simp_all add: r_def)
  have "near m K = q \<and> 2 * r \<le> 2 ^ K \<or> near m K = q + 1 \<and> 2 * r \<ge> 2 ^ K"
    unfolding near_def Let_def q_def[symmetric] r_def[symmetric] by auto
  then have "2 * (near m K * 2 ^ K) \<le> 2 * m + 2 ^ K \<and> 2 * m \<le> 2 * (near m K * 2 ^ K) + 2 ^ K"
    using m r by (auto simp: algebra_simps)
  then show "2 * (near m K * 2 ^ K) \<le> 2 * m + 2 ^ K" "2 * m \<le> 2 * (near m K * 2 ^ K) + 2 ^ K" by auto
qed

lemma near_ge: "j * 2 ^ K \<le> m \<Longrightarrow> j \<le> near m K"
proof -
  assume "j * 2 ^ K \<le> m"
  then have "j * 2 ^ K div 2 ^ K \<le> m div 2 ^ K" by (rule zdiv_mono1) simp
  then have "j \<le> m div 2 ^ K" by simp
  then show ?thesis by (auto simp: near_def Let_def)
qed

lemma twice_abs: "2 * y \<le> 2 * m + p \<Longrightarrow> 2 * m \<le> 2 * y + p \<Longrightarrow> 2 * \<bar>y - m\<bar> \<le> (p::int)"
  by (cases "y \<le> m") auto

lemma twice_abs_less: "2 * \<bar>y - m\<bar> \<le> p \<Longrightarrow> 2 * \<bar>m - j\<bar> < p \<Longrightarrow> \<bar>y - j\<bar> < (p::int)"
  by (cases "y \<le> m"; cases "m \<le> j"; cases "y \<le> j") auto

lemma near_eq:
  assumes "2 * \<bar>m - j * 2 ^ K\<bar> < 2 ^ K"
  shows "near m K = j"
proof -
  have "2 * \<bar>near m K * 2 ^ K - m\<bar> \<le> 2 ^ K" by (rule twice_abs[OF near_bounds])
  then have "\<bar>near m K * 2 ^ K - j * 2 ^ K\<bar> < 2 ^ K" using assms by (rule twice_abs_less)
  then have "\<bar>near m K - j\<bar> * 2 ^ K < 1 * 2 ^ K" by (simp add: left_diff_distrib[symmetric] abs_mult)
  then have "\<bar>near m K - j\<bar> < 1" by (rule mult_right_less_imp_less) simp
  then show ?thesis by simp
qed

lemma excess_le: "0 < m \<Longrightarrow> m < 2 ^ (53 + k) \<Longrightarrow> excess m \<le> k"
proof -
  assume m: "0 < m" "m < 2 ^ (53 + k)"
  have "(2::int) ^ nat (bitlen m - 1) < 2 ^ (53 + k)" using bitlen_bounds[OF m(1)] m(2) by linarith
  then have "nat (bitlen m - 1) < 53 + k" by (rule power_less_imp_less_exp[rotated]) simp
  then show ?thesis by (simp add: excess_def)
qed

lemma excess_gt: "0 < m \<Longrightarrow> m < 2 ^ (53 + excess m)"
proof -
  assume m: "0 < m"
  have "nat (bitlen m) \<le> 53 + excess m" by (simp add: excess_def)
  then have "(2::int) ^ nat (bitlen m) \<le> 2 ^ (53 + excess m)" by (rule power_increasing) simp
  then show ?thesis using bitlen_bounds[OF m] by linarith
qed

lemma hundredfold:
  "2 * y \<le> 2 * m + p \<Longrightarrow> 2 * m \<le> 2 * y + p \<Longrightarrow> 100 * m \<le> C + 100 \<Longrightarrow> C \<le> 100 * m + 100 \<Longrightarrow>
   100 * p + 200 < P \<Longrightarrow> 2 * \<bar>100 * y - C\<bar> < (P::int)"
  by (cases "C \<le> 100 * y") auto

text \<open>A price in cents survives the trip through float64 and back.\<close>

lemma cents_round_trip:
  assumes c: "0 < c" "c < 10 ^ 10"
  shows "fmt2 (f64_of_cents c) = c"
proof -
  define q s where "q = c * 2 ^ 120 div 100" and "s = (if c * 2 ^ 120 mod 100 = 0 then 0 else 1 :: int)"
  define m where "m = 2 * q + s"
  define K where "K = excess m"
  have split: "c * 2 ^ 120 = 100 * q + c * 2 ^ 120 mod 100" unfolding q_def by (rule mult_div_mod_eq[symmetric])
  have rem: "0 \<le> c * 2 ^ 120 mod 100" "c * 2 ^ 120 mod 100 < 100" by simp_all
  have m: "100 * m \<le> c * 2 ^ 121 + 100" "c * 2 ^ 121 \<le> 100 * m + 100"
    using split rem by (auto simp: m_def s_def split: if_splits)
  have "1 * 2 ^ 121 \<le> c * 2 ^ 121" using c(1) by (intro mult_right_mono) auto
  then have pos: "0 < m" using m(2) by simp
  have "c * 2 ^ 121 \<le> 10 ^ 10 * 2 ^ 121" using c(2) by (intro mult_right_mono) auto
  then have "100 * m \<le> 10 ^ 10 * 2 ^ 121 + 100" using m(1) by linarith
  then have "m < 2 ^ (53 + 95)" by simp
  then have K: "K \<le> 95" using excess_le[OF pos] by (simp add: K_def)
  have e: "nat (121 - int K) = 121 - K" using K by simp
  have p: "(2::int) ^ 121 = 2 ^ (121 - K) * 2 ^ K" using K by (simp add: power_add[symmetric])
  have small: "100 * (2::int) ^ K + 200 < 2 ^ 121"
  proof -
    have "(2::int) ^ K \<le> 2 ^ 95" by (rule power_increasing[OF K]) simp
    then show ?thesis by simp
  qed
  let ?M = "near m K"
  have "2 * \<bar>100 * (?M * 2 ^ K) - c * 2 ^ 121\<bar> < 2 ^ 121"
    by (rule hundredfold[OF near_bounds m small])
  moreover have "100 * (?M * 2 ^ K) - c * 2 ^ 121 = (100 * ?M - c * 2 ^ (121 - K)) * 2 ^ K"
    unfolding p by (simp add: algebra_simps)
  ultimately have "2 * \<bar>100 * ?M - c * 2 ^ (121 - K)\<bar> * 2 ^ K < 2 ^ (121 - K) * 2 ^ K"
    unfolding p by (simp add: abs_mult)
  then have "2 * \<bar>100 * ?M - c * 2 ^ (121 - K)\<bar> < 2 ^ (121 - K)"
    by (rule mult_right_less_imp_less) simp
  then have "near (100 * ?M) (121 - K) = c" by (rule near_eq)
  moreover have "f64_of_cents c = (near m K, int K - 121)"
    unfolding f64_of_cents_def Let_def q_def[symmetric] s_def[symmetric] m_def[symmetric] round64_def K_def[symmetric]
    by simp
  ultimately show ?thesis using K e by (simp add: fmt2_def)
qed

text \<open>Truncating n times one of the discounts is exact integer arithmetic.\<close>

lemma discount_trunc:
  fixes n mant a b eps :: int
  assumes n: "0 < n" "n < 2 ^ 31" and mant: "2 ^ 52 \<le> mant" "mant < 2 ^ 53"
    and ab: "b * mant = a * 2 ^ 53 + eps" "0 < b" "b \<le> 20" "- 4 \<le> eps" "eps \<le> 2" "eps < 0 \<Longrightarrow> b = 20 \<and> a = 17"
  shows "trunc (round64 (n * mant) (- 53)) = n * a div b"
proof -
  define m K t r where "m = n * mant" and "K = excess m" and "t = n * a div b" and "r = n * a mod b"
  have pos: "0 < m" using n(1) mant(1) by (simp add: m_def)
  have "m < 2 ^ 31 * 2 ^ 53" unfolding m_def using n mant by (intro mult_strict_mono) auto
  then have K: "K \<le> 31" using excess_le[OF pos, of 31] by (simp add: K_def)
  have tr: "n * a = t * b + r" "0 \<le> r" "r < b" using ab(2) by (simp_all add: t_def r_def)
  have bm: "b * m = (t * b + r) * 2 ^ 53 + n * eps"
  proof -
    have "b * m = n * (b * mant)" by (simp add: m_def mult.left_commute)
    also have "\<dots> = n * a * 2 ^ 53 + n * eps" by (simp only: ab(1) distrib_left mult.assoc)
    finally show ?thesis by (simp only: tr(1))
  qed
  have p: "(2::int) ^ 53 = 2 ^ (53 - K) * 2 ^ K" using K by (simp add: power_add[symmetric])
  have pK: "(2::int) ^ K \<le> 2 ^ 31" by (rule power_increasing[OF K]) simp
  have ne: "n * eps \<le> 2 * n" "- 4 * n \<le> n * eps"
    using mult_left_mono[OF ab(5), of n] mult_left_mono[OF ab(4), of n] n(1) by simp_all
  have b2: "b * 2 ^ K \<le> 20 * 2 ^ 31" using ab(2,3) pK by (intro mult_mono) auto
  let ?M = "near m K"
  have nb: "2 * (b * (?M * 2 ^ K)) \<le> 2 * (b * m) + b * 2 ^ K" "2 * (b * m) \<le> 2 * (b * (?M * 2 ^ K)) + b * 2 ^ K"
    using mult_left_mono[OF near_bounds(1)[where m = m and K = K], of b]
      mult_left_mono[OF near_bounds(2)[where m = m and K = K], of b] ab(2) by (simp_all add: algebra_simps)
  have up: "?M < (t + 1) * 2 ^ (53 - K)"
  proof -
    have "r * 2 ^ 53 + 2 ^ 53 \<le> b * 2 ^ 53" using tr(3) by simp
    then have "2 * (b * (?M * 2 ^ K)) < 2 * (b * ((t + 1) * 2 ^ 53))"
      using nb(1) bm ne(1) b2 n(2) by (simp add: algebra_simps)
    then have "?M * 2 ^ K < (t + 1) * 2 ^ 53" using ab(2) by simp
    then show ?thesis unfolding p by (simp add: mult.assoc[symmetric])
  qed
  have low: "t * 2 ^ (53 - K) \<le> ?M"
  proof (cases "r = 0")
    case False
    then have "2 ^ 53 \<le> r * 2 ^ 53" using tr(2) by simp
    then have "2 * (b * (t * 2 ^ 53)) \<le> 2 * (b * (?M * 2 ^ K))"
      using nb(2) bm ne(2) b2 n(2) by (simp add: algebra_simps)
    then have "t * 2 ^ 53 \<le> ?M * 2 ^ K" using ab(2) by simp
    then show ?thesis unfolding p by (simp add: mult.assoc[symmetric])
  next
    case r0: True
    then have bm0: "b * m = b * (t * 2 ^ 53) + n * eps" using bm by (simp add: algebra_simps)
    show ?thesis
    proof (cases "0 \<le> eps")
      case True
      then have "b * (t * 2 ^ 53) \<le> b * m" using bm0 n(1) by simp
      then have "t * 2 ^ (53 - K) * 2 ^ K \<le> m" using ab(2) unfolding p by (simp add: mult.assoc)
      then show ?thesis by (rule near_ge)
    next
      case False
      then have b: "b = 20" "a = 17" using ab(6) by auto
      have "n * (17 * 2 ^ 53 - 4) \<le> 20 * m"
        using ab(1,4) n(1) mult_left_mono[of "17 * 2 ^ 53 - 4" "20 * mant" n] by (simp add: m_def b mult.left_commute)
      moreover have "m < 2 ^ 53 * 2 ^ K" using excess_gt[OF pos] by (simp add: K_def power_add)
      ultimately have "n * 16 < 20 * 2 ^ K" using n(1) by simp
      moreover have "n * eps < 0" using n(1) False by (simp add: mult_pos_neg)
      ultimately have "2 * \<bar>m - t * 2 ^ 53\<bar> < 2 ^ K" using bm0 ne n(1) by (simp add: b abs_if)
      then have "near m K = t * 2 ^ (53 - K)" unfolding p by (intro near_eq) (simp add: mult.assoc)
      then show ?thesis by simp
    qed
  qed
  have "?M div 2 ^ (53 - K) = t"
  proof (rule int_div_pos_eq[where r = "?M - t * 2 ^ (53 - K)"])
    show "?M = 2 ^ (53 - K) * t + (?M - t * 2 ^ (53 - K))" by simp
  qed (use up low in \<open>simp_all add: algebra_simps\<close>)
  moreover have "nat (53 - int K) = 53 - K" "\<not> 0 \<le> int K - 53" using K by simp_all
  ultimately show ?thesis
    by (simp add: trunc_def round64_def m_def[symmetric] K_def[symmetric] t_def)
qed

end
