(* ===== verification/Billing.thy ===== *)
theory Billing
  imports Admin_Handlers Float64
begin

text \<open>
  Orders, payments and promo codes (src/internal/controlplane/api/handler/billing.go,
  store/repo_billing.go, store/billing.sql.go). Amounts are cents, prices go through float64 as in the
  code. The two HMAC functions and uuid.Parse are parameters; the random invoice number and the new
  order's identifier are arguments.
\<close>

section \<open>Calendar\<close>

text \<open>time.AddDate in UTC: the month is normalized first, days beyond its end run into the next.\<close>

definition days_from_civil :: "int \<Rightarrow> int \<Rightarrow> int \<Rightarrow> int" where
  "days_from_civil y m d =
     (let y' = (if m \<le> 2 then y - 1 else y); mp = (m + 9) mod 12
      in 365 * y' + y' div 4 - y' div 100 + y' div 400 + (153 * mp + 2) div 5 + d - 1 - 719468)"

definition civil_from_days :: "int \<Rightarrow> int \<times> int \<times> int" where
  "civil_from_days days =
     (let z = days + 719468; era = z div 146097; doe = z mod 146097;
          yoe = (doe - doe div 1460 + doe div 36524 - doe div 146096) div 365;
          doy = doe - (365 * yoe + yoe div 4 - yoe div 100);
          mp = (5 * doy + 2) div 153;
          d = doy - (153 * mp + 2) div 5 + 1;
          m = (if mp < 10 then mp + 3 else mp - 9)
      in (yoe + era * 400 + (if m \<le> 2 then 1 else 0), m, d))"

definition AddDate :: "int \<Rightarrow> int \<Rightarrow> time \<Rightarrow> time" where
  "AddDate months dys t =
     (case civil_from_days (t div day) of (y, m, d) \<Rightarrow>
        (let k = m - 1 + months
         in days_from_civil (y + k div 12) (k mod 12 + 1) (d + dys) * day + t mod day))"

section \<open>Rows\<close>

record plan =
  pl_id :: uuid
  pl_name :: string
  pl_monthly :: "int option"
  pl_traffic :: "int option"
  pl_stars :: "int option"
  pl_1m :: "int option"
  pl_3m :: "int option"
  pl_6m :: "int option"
  pl_12m :: "int option"
  pl_devices :: "int option"
  pl_max_devices :: "int option"
  pl_gb :: "int option"
  pl_protocols :: "string list"
  pl_active :: "bool option"
  pl_trial :: "bool option"
  pl_trial_hours :: "int option"

record metadata =
  md_username :: string
  md_plan :: string
  md_promo :: "uuid option"

record order =
  o_id :: uuid
  o_user :: uuid
  o_plan :: uuid
  o_gateway :: string
  o_invoice :: "string option"
  o_amount :: int
  o_currency :: string
  o_status :: "string option"
  o_months :: "int option"
  o_meta :: metadata
  o_paid_at :: "time option"

record promo =
  pr_id :: uuid
  pr_code :: string
  pr_percent :: "int option"
  pr_max :: "int option"
  pr_used :: "int option"
  pr_active :: "bool option"
  pr_expires :: "time option"

text \<open>config_encrypted: empty, not a JSON object of strings, or one.\<close>

datatype config = NoConfig | BadConfig | Config "(string \<times> string) list"

record gateway =
  gw_name :: string
  gw_enabled :: "bool option"
  gw_config :: config

record settings =
  st_crypto_token :: string
  st_crypto :: bool
  st_stars :: bool
  st_stars_price :: int
  st_secret :: string

record bdb = adb +
  db_plans :: "plan list"
  db_orders :: "order list"
  db_promos :: "promo list"
  db_gateways :: "gateway list"
  db_settings :: "settings option"

section \<open>Statements\<close>

definition GetPlanByID :: "uuid \<Rightarrow> bdb \<Rightarrow> db_error + plan" where
  "GetPlanByID pid d =
     (if ''GetPlanByID'' \<in> db_down d then Inl StatementFailed
      else case List.find (\<lambda>p. pl_id p = pid) (db_plans d) of None \<Rightarrow> Inl NoRows | Some p \<Rightarrow> Inr p)"

definition GetOrderByID :: "uuid \<Rightarrow> bdb \<Rightarrow> db_error + order" where
  "GetOrderByID oid d =
     (if ''GetOrderByID'' \<in> db_down d then Inl StatementFailed
      else case List.find (\<lambda>r. o_id r = oid) (db_orders d) of None \<Rightarrow> Inl NoRows | Some r \<Rightarrow> Inr r)"

definition GetOrderByExternalInvoiceID :: "string \<Rightarrow> bdb \<Rightarrow> db_error + order" where
  "GetOrderByExternalInvoiceID invoice d =
     (if ''GetOrderByExternalInvoiceID'' \<in> db_down d then Inl StatementFailed
      else case List.find (\<lambda>r. invoice \<noteq> [] \<and> o_invoice r = Some invoice) (db_orders d) of None \<Rightarrow> Inl NoRows | Some r \<Rightarrow> Inr r)"

definition CreateOrder :: "order \<Rightarrow> bdb \<Rightarrow> db_error + (order \<times> bdb)" where
  "CreateOrder r d =
     (if ''CreateOrder'' \<in> db_down d then Inl StatementFailed
      else if \<bar>o_amount r\<bar> \<ge> 10 ^ 10 then Inl NumericRange
      else if o_id r \<in> o_id ` set (db_orders d) then Inl UniqueViolation
      else if o_user r \<notin> u_id ` set (db_users d) \<or> o_plan r \<notin> pl_id ` set (db_plans d) then Inl ForeignKeyViolation
      else Inr (r, d\<lparr>db_orders := r # db_orders d\<rparr>))"

text \<open>The lookup of a promo code already requires is_active.\<close>

definition GetPromoCode :: "string \<Rightarrow> bdb \<Rightarrow> db_error + promo" where
  "GetPromoCode code d =
     (if ''GetPromoCodeByCode'' \<in> db_down d then Inl StatementFailed
      else case List.find (\<lambda>p. pr_code p = code \<and> pr_active p = Some True) (db_promos d) of
        None \<Rightarrow> Inl NoRows | Some p \<Rightarrow> Inr p)"

definition promo_usable :: "time \<Rightarrow> promo \<Rightarrow> bool" where
  "promo_usable now p \<longleftrightarrow> pr_active p = Some True \<and>
     (case pr_expires p of None \<Rightarrow> True | Some e \<Rightarrow> e > now) \<and>
     (case pr_max p of None \<Rightarrow> True | Some n \<Rightarrow> n \<le> 0 \<or> (case pr_used p of None \<Rightarrow> False | Some u \<Rightarrow> u < n))"

definition int4_fits :: "int \<Rightarrow> bool" where
  "int4_fits i \<longleftrightarrow> - 2147483648 \<le> i \<and> i \<le> 2147483647"

definition ConsumePromoCode :: "uuid \<Rightarrow> time \<Rightarrow> bdb \<Rightarrow> db_error + bdb" where
  "ConsumePromoCode pid now d =
     (if ''ConsumePromoCode'' \<in> db_down d then Inl StatementFailed
      else case List.find (\<lambda>p. pr_id p = pid \<and> promo_usable now p) (db_promos d) of
        None \<Rightarrow> Inl NoRows
      | Some p \<Rightarrow>
          if \<not> int4_fits (int_or 0 (pr_used p) + 1) then Inl NumericRange
          else Inr (d\<lparr>db_promos := List.map (\<lambda>q. if pr_id q = pid then q\<lparr>pr_used := map_option (\<lambda>n. n + 1) (pr_used q)\<rparr> else q)
                        (db_promos d)\<rparr>))"

text \<open>A transaction: begin and commit can fail, and a failed body leaves the database alone.\<close>

definition in_tx :: "(bdb \<Rightarrow> db_error + ('r \<times> bdb)) \<Rightarrow> bdb \<Rightarrow> db_error + ('r \<times> bdb)" where
  "in_tx body d =
     (if ''begin'' \<in> db_down d then Inl StatementFailed
      else case body d of Inl e \<Rightarrow> Inl e
        | Inr r \<Rightarrow> if ''commit'' \<in> db_down d then Inl StatementFailed else Inr r)"

definition CreateOrderWithPromo :: "order \<Rightarrow> uuid option \<Rightarrow> time \<Rightarrow> bdb \<Rightarrow> db_error + (order \<times> bdb)" where
  "CreateOrderWithPromo r promo now =
     in_tx (\<lambda>d. case promo of None \<Rightarrow> CreateOrder r d
       | Some pid \<Rightarrow> (case ConsumePromoCode pid now d of Inl e \<Rightarrow> Inl e | Inr d1 \<Rightarrow> CreateOrder r d1))"

definition GetPaymentGatewayByName :: "string \<Rightarrow> bdb \<Rightarrow> gateway option" where
  "GetPaymentGatewayByName name d =
     (if ''GetPaymentGatewayByName'' \<in> db_down d then None
      else List.find (\<lambda>g. gw_name g = name) (db_gateways d))"

definition UpsertPaymentGateway :: "gateway \<Rightarrow> bdb \<Rightarrow> db_error + bdb" where
  "UpsertPaymentGateway g d =
     (if ''UpsertPaymentGateway'' \<in> db_down d then Inl StatementFailed
      else if gw_name g \<in> gw_name ` set (db_gateways d)
      then Inr (d\<lparr>db_gateways := List.map (\<lambda>x. if gw_name x = gw_name g then g else x) (db_gateways d)\<rparr>)
      else Inr (d\<lparr>db_gateways := g # db_gateways d\<rparr>))"

definition default_settings :: settings where
  "default_settings = \<lparr>st_crypto_token = [], st_crypto = False, st_stars = True, st_stars_price = 250, st_secret = []\<rparr>"

definition GetBillingSettings :: "bdb \<Rightarrow> settings" where
  "GetBillingSettings d =
     (if ''GetBillingSettings'' \<in> db_down d then default_settings
      else case db_settings d of None \<Rightarrow> default_settings | Some s \<Rightarrow> s)"

definition CountPaidOrdersByUserID :: "uuid \<Rightarrow> bdb \<Rightarrow> nat" where
  "CountPaidOrdersByUserID uid d = length (List.filter (\<lambda>r. o_user r = uid \<and> o_status r = Some ''paid'') (db_orders d))"

section \<open>Completing a paid order\<close>

datatype pay_error = ErrAlreadyPaid | PayFailed db_error

definition order_status :: "uuid \<Rightarrow> bdb \<Rightarrow> string option" where
  "order_status oid d = (case List.find (\<lambda>r. o_id r = oid) (db_orders d) of None \<Rightarrow> None | Some r \<Rightarrow> o_status r)"

text \<open>status != 'paid' is not true of a NULL status.\<close>

definition payable :: "uuid \<Rightarrow> order \<Rightarrow> bool" where
  "payable oid r \<longleftrightarrow> o_id r = oid \<and> (case o_status r of None \<Rightarrow> False | Some s \<Rightarrow> s \<noteq> ''paid'')"

definition mark_paid :: "uuid \<Rightarrow> time \<Rightarrow> bdb \<Rightarrow> bdb" where
  "mark_paid oid now d = d\<lparr>db_orders := List.map (\<lambda>r. if payable oid r then r\<lparr>o_status := Some ''paid'', o_paid_at := Some now\<rparr> else r)
     (db_orders d)\<rparr>"

record settlement =
  se_order :: uuid
  se_buyer :: uuid
  se_expires :: time
  se_traffic :: int
  se_referrer :: "(uuid \<times> time) option"

definition credit_buyer :: "settlement \<Rightarrow> bdb \<Rightarrow> db_error + bdb" where
  "credit_buyer s d =
     (if ''ExtendBuyer'' \<in> db_down d then Inl StatementFailed
      else if (\<exists>u\<in>set (db_users d). u_id u = se_buyer s \<and> \<not> int8_fits (int_or 0 (u_limit u) + se_traffic s)) then Inl NumericRange
      else Inr (update_users (\<lambda>u. u_id u = se_buyer s)
        (\<lambda>u. u\<lparr>u_expires := Some (se_expires s), u_limit := map_option (\<lambda>n. n + se_traffic s) (u_limit u)\<rparr>) d))"

definition credit_referrer :: "settlement \<Rightarrow> bdb \<Rightarrow> db_error + bdb" where
  "credit_referrer s d =
     (case se_referrer s of None \<Rightarrow> Inr d
      | Some (rid, e) \<Rightarrow>
          if ''CountPriorOrders'' \<in> db_down d then Inl StatementFailed
          else if List.filter (\<lambda>r. o_user r = se_buyer s \<and> o_status r = Some ''paid'' \<and> o_id r \<noteq> se_order s) (db_orders d) \<noteq> []
          then Inr d
          else if ''ExtendReferrer'' \<in> db_down d then Inl StatementFailed
          else Inr (update_users (\<lambda>u. u_id u = rid) (\<lambda>u. u\<lparr>u_expires := Some e\<rparr>) d))"

definition complete_body :: "settlement \<Rightarrow> time \<Rightarrow> bdb \<Rightarrow> pay_error + bdb" where
  "complete_body s now d =
     (if ''MarkOrderPaid'' \<in> db_down d then Inl (PayFailed StatementFailed)
      else if list_ex (payable (se_order s)) (db_orders d) then
        (case credit_buyer s (mark_paid (se_order s) now d) of
           Inl e \<Rightarrow> Inl (PayFailed e)
         | Inr d1 \<Rightarrow> (case credit_referrer s d1 of Inl e \<Rightarrow> Inl (PayFailed e) | Inr d2 \<Rightarrow> Inr d2))
      else if order_status (se_order s) d = Some ''paid'' then Inl ErrAlreadyPaid
      else Inl (PayFailed NoRows))"

definition CompletePaidOrderTx :: "settlement \<Rightarrow> time \<Rightarrow> bdb \<Rightarrow> pay_error + bdb" where
  "CompletePaidOrderTx s now d =
     (if ''begin'' \<in> db_down d then Inl (PayFailed StatementFailed)
      else case complete_body s now d of Inl e \<Rightarrow> Inl e
        | Inr d' \<Rightarrow> if ''commit'' \<in> db_down d then Inl (PayFailed StatementFailed) else Inr d')"

section \<open>Access\<close>

definition can_bill :: "string list \<Rightarrow> auth_ctx option \<Rightarrow> 'a adb_scheme \<Rightarrow> bool" where
  "can_bill scopes ctx d =
     (case ctx of None \<Rightarrow> False
      | Some ac \<Rightarrow>
          if ac_role ac = ''owner'' \<or> ac_role ac = ''superadmin'' then True
          else if ac_type ac \<noteq> ''jwt'' then
            ac_scopes ac = [] \<or> list_ex (\<lambda>s. list_ex (ScopeMatches s) scopes) (ac_scopes ac)
          else case GetAdminByID (ac_user ac) d of Inl _ \<Rightarrow> False | Inr a \<Rightarrow> p_billing (ParsedPermissions a))"

definition callerCanBill :: "auth_ctx option \<Rightarrow> 'a adb_scheme \<Rightarrow> bool" where
  "callerCanBill = can_bill [''billing:write'']"

definition callerCanBillRead :: "auth_ctx option \<Rightarrow> 'a adb_scheme \<Rightarrow> bool" where
  "callerCanBillRead = can_bill [''billing:read'', ''billing:write'']"

section \<open>Prices\<close>

definition listed_price :: "int \<Rightarrow> plan \<Rightarrow> int option" where
  "listed_price duration p =
     (case (if duration = 1 then pl_1m p else if duration = 3 then pl_3m p
            else if duration = 6 then pl_6m p else if duration = 12 then pl_12m p else None) of
        Some c \<Rightarrow> if c > 0 then Some c else None
      | None \<Rightarrow> None)"

definition discount_of :: "int \<Rightarrow> f64 option" where
  "discount_of duration =
     (if duration \<ge> 12 then Some f080 else if duration \<ge> 6 then Some f085 else if duration \<ge> 3 then Some f090 else None)"

definition total_price :: "int \<Rightarrow> plan \<Rightarrow> f64" where
  "total_price duration p =
     (case listed_price duration p of
        Some c \<Rightarrow> f64_of_cents c
      | None \<Rightarrow>
          (let unit_price = (case pl_monthly p of Some c \<Rightarrow> if c > 0 then c else 500 | None \<Rightarrow> 500);
               amt = f64_mul (f64_of_cents unit_price) (f64_of_int duration)
           in case discount_of duration of None \<Rightarrow> amt | Some f \<Rightarrow> f64_mul amt f))"

text \<open>int(float64(n) * f) truncates toward zero.\<close>

definition discount_int :: "int \<Rightarrow> f64 \<Rightarrow> int" where
  "discount_int n f = sgn n * trunc (f64_mul (f64_of_int \<bar>n\<bar>) f)"

definition stars_per_month :: "plan \<Rightarrow> settings \<Rightarrow> int" where
  "stars_per_month p st =
     (case pl_stars p of
        Some n \<Rightarrow> if n > 0 then n else if st_stars_price st > 0 then st_stars_price st else 250
      | None \<Rightarrow> if st_stars_price st > 0 then st_stars_price st else 250)"

text \<open>The product is an int32.\<close>

definition stars_total :: "int \<Rightarrow> plan \<Rightarrow> settings \<Rightarrow> int" where
  "stars_total duration p st =
     (let n = sint (word_of_int (stars_per_month p st) * word_of_int duration :: 32 word)
      in case discount_of duration of None \<Rightarrow> n | Some f \<Rightarrow> discount_int n f)"

text \<open>1.0 - p/100, and zero where that is negative.\<close>

definition promo_factor :: "int \<Rightarrow> f64" where
  "promo_factor percent =
     (let x = f64_of_cents percent; d = 2 ^ nat (- snd x) - fst x
      in if snd x \<ge> 0 \<or> d \<le> 0 then (0, 0) else round64 d (snd x))"

section \<open>Invoices\<close>

record invoice_request =
  ir_user :: uuid
  ir_plan :: uuid
  ir_gateway :: string
  ir_months :: int
  ir_promo :: string

record invoice_reply =
  iy_order :: uuid
  iy_invoice :: string
  iy_amount :: string
  iy_currency :: string
  iy_gateway :: string
  iy_months :: int
  iy_url :: string

definition gateway_off :: "string \<Rightarrow> settings \<Rightarrow> bool" where
  "gateway_off g s \<longleftrightarrow> g = ''cryptobot'' \<and> \<not> st_crypto s \<or> g = ''stars'' \<and> \<not> st_stars s"

definition two_digits :: "int \<Rightarrow> string" where
  "two_digits n = [digit (nat (n div 10)), digit (nat (n mod 10))]"

definition cents_str :: "int \<Rightarrow> string" where
  "cents_str c = int_str (c div 100) @ CHR ''.'' # two_digits (c mod 100)"

text \<open>The promo code of a request: none, an error, or the row.\<close>

definition lookup_promo :: "string \<Rightarrow> time \<Rightarrow> bdb \<Rightarrow> http_error + promo option" where
  "lookup_promo code now d =
     (if trim_space code = [] then Inr None
      else case GetPromoCode (trim_space code) d of
        Inl _ \<Rightarrow> Inl BadRequest
      | Inr p \<Rightarrow>
          if pr_active p \<noteq> Some True then Inl NotFound
          else if (case pr_expires p of None \<Rightarrow> False | Some e \<Rightarrow> e < now) then Inl NotFound
          else if (case pr_max p of None \<Rightarrow> False | Some n \<Rightarrow> n > 0 \<and> int_or 0 (pr_used p) \<ge> n) then Inl Conflict
          else Inr (Some p))"

definition discounted :: "promo option \<Rightarrow> f64 \<Rightarrow> f64" where
  "discounted p amt =
     (case p of None \<Rightarrow> amt
      | Some q \<Rightarrow> (case pr_percent q of Some n \<Rightarrow> if n > 0 then f64_mul amt (promo_factor n) else amt | None \<Rightarrow> amt))"

definition CreateInvoice ::
    "auth_ctx option \<Rightarrow> invoice_request option \<Rightarrow> uuid \<Rightarrow> string \<Rightarrow> time \<Rightarrow> bdb \<Rightarrow> (http_error + invoice_reply) \<times> bdb" where
  "CreateInvoice ctx body oid ext now d =
     (if \<not> callerCanBill ctx d then (Inl Forbidden, d)
      else case body of None \<Rightarrow> (Inl BadRequest, d)
      | Some req \<Rightarrow>
        (let st = GetBillingSettings d; stars = (ir_gateway req = ''stars'') in
         if gateway_off (ir_gateway req) st then (Inl BadRequest, d)
         else case GetUserByID (ir_user req) d of
           Inl _ \<Rightarrow> (Inl NotFound, d)
         | Inr u \<Rightarrow>
          (case GetPlanByID (ir_plan req) d of
             Inl _ \<Rightarrow> (Inl NotFound, d)
           | Inr p \<Rightarrow>
            (let duration = (if ir_months req \<le> 0 then 1 else ir_months req) in
             case lookup_promo (ir_promo req) now d of
               Inl e \<Rightarrow> (Inl e, d)
             | Inr promo \<Rightarrow>
              (let cents = fmt2 (discounted promo (total_price duration p));
                   n = stars_total duration p st;
                   amount = (if stars then int_str n else cents_str cents) in
               case CreateOrderWithPromo \<lparr>o_id = oid, o_user = u_id u, o_plan = pl_id p, o_gateway = ir_gateway req,
                      o_invoice = Some ext, o_amount = (if stars then n * 100 else cents),
                      o_currency = (if stars then ''XTR'' else ''USD''), o_status = Some ''pending'',
                      o_months = Some duration,
                      o_meta = \<lparr>md_username = u_username u, md_plan = pl_name p, md_promo = map_option pr_id promo\<rparr>,
                      o_paid_at = None\<rparr> (map_option pr_id promo) now d of
                 Inl NoRows \<Rightarrow> (Inl Conflict, d)
               | Inl _ \<Rightarrow> (Inl InternalError, d)
               | Inr (r, d') \<Rightarrow>
                   (Inr \<lparr>iy_order = o_id r, iy_invoice = ext, iy_amount = amount,
                      iy_currency = (if stars then ''XTR'' else ''USD''), iy_gateway = ir_gateway req, iy_months = duration,
                      iy_url = (if ir_gateway req = ''cryptobot'' then ''https://t.me/CryptoBot?start='' @ ext else [])\<rparr>,
                    audit_log ctx ''create_invoice'' ''order'' (Some (o_id r))
                      (JsonDiff [(''user_id'', u_id u), (''plan_id'', pl_id p), (''amount'', amount), (''gateway'', ir_gateway req)]) d'))))))"

definition ValidatePromo :: "auth_ctx option \<Rightarrow> string option \<Rightarrow> time \<Rightarrow> bdb \<Rightarrow> http_error + promo" where
  "ValidatePromo ctx body now d =
     (if \<not> callerCanBillRead ctx d then Inl Forbidden
      else case body of None \<Rightarrow> Inl BadRequest
      | Some code \<Rightarrow>
         (case GetPromoCode (trim_space code) d of
            Inl _ \<Rightarrow> Inl NotFound
          | Inr p \<Rightarrow>
              if pr_active p \<noteq> Some True then Inl NotFound
              else if (case pr_expires p of None \<Rightarrow> False | Some e \<Rightarrow> e < now) then Inl NotFound
              else if (case pr_max p of None \<Rightarrow> False | Some n \<Rightarrow> n > 0 \<and> int_or 0 (pr_used p) \<ge> n) then Inl Conflict
              else Inr p))"

section \<open>Settlement\<close>

datatype pay_reply = Paid uuid uuid time | AlreadyProcessed uuid | Refused http_error

definition later_of :: "time \<Rightarrow> time option \<Rightarrow> time" where
  "later_of now e = (case e of None \<Rightarrow> now | Some t \<Rightarrow> if t > now then t else now)"

text \<open>Everything that is read before the transaction begins.\<close>

definition prepare :: "order \<Rightarrow> time \<Rightarrow> bdb \<Rightarrow> http_error + settlement" where
  "prepare r now d =
     (case GetPlanByID (o_plan r) d of
        Inl _ \<Rightarrow> Inl InternalError
      | Inr p \<Rightarrow>
         (case GetUserByID (o_user r) d of
            Inl _ \<Rightarrow> Inl InternalError
          | Inr u \<Rightarrow>
             (let months = (if int_or 0 (o_months r) \<le> 0 then 1 else int_or 0 (o_months r));
                  ref = (case u_referrer u of None \<Rightarrow> None
                    | Some rid \<Rightarrow> (case GetUserByID rid d of Inl _ \<Rightarrow> None
                        | Inr v \<Rightarrow> Some (rid, AddDate 0 7 (later_of now (u_expires v)))))
              in Inr \<lparr>se_order = o_id r, se_buyer = u_id u, se_expires = AddDate months 0 (later_of now (u_expires u)),
                   se_traffic = int_or 0 (pl_traffic p), se_referrer = ref\<rparr>)))"

definition settlePaidOrder :: "auth_ctx option \<Rightarrow> order \<Rightarrow> string \<Rightarrow> time \<Rightarrow> bdb \<Rightarrow> pay_reply \<times> bdb" where
  "settlePaidOrder ctx r gw now d =
     (case prepare r now d of
        Inl e \<Rightarrow> (Refused e, d)
      | Inr s \<Rightarrow>
         (case CompletePaidOrderTx s now d of
            Inl ErrAlreadyPaid \<Rightarrow> (AlreadyProcessed (o_id r), d)
          | Inl (PayFailed _) \<Rightarrow> (Refused InternalError,
              audit_log ctx ''order_extend_failed'' ''order'' (Some (o_id r)) (JsonDiff [(''user_id'', o_user r), (''gateway'', gw)]) d)
          | Inr d' \<Rightarrow> (Paid (se_order s) (se_buyer s) (se_expires s),
              audit_log ctx ''order_paid'' ''order'' (Some (o_id r)) (JsonDiff [(''user_id'', o_user r), (''gateway'', gw)]) d')))"

section \<open>Webhooks\<close>

text \<open>The body of a webhook: not JSON, or an object with the members the code looks at. The payload
  member is absent, a string, or an object with a status and a payload.\<close>

datatype payload_member = NoPayload | TextPayload string | ObjPayload string string

record webhook_body =
  hb_invoice :: string
  hb_order :: string
  hb_status :: string
  hb_type :: string
  hb_payload :: payload_member

text \<open>json.Unmarshal into PaymentWebhookRequest, whose payload is a string, and into cryptoBotUpdate,
  whose payload is a struct: a member of the other kind makes it fail.\<close>

definition decode_generic :: "webhook_body option \<Rightarrow> (string \<times> string \<times> string) option" where
  "decode_generic b =
     (case b of None \<Rightarrow> None
      | Some h \<Rightarrow> (case hb_payload h of ObjPayload _ _ \<Rightarrow> None | _ \<Rightarrow> Some (hb_invoice h, hb_order h, hb_status h)))"

definition decode_update :: "webhook_body option \<Rightarrow> (string \<times> (string \<times> string) option) option" where
  "decode_update b =
     (case b of None \<Rightarrow> None
      | Some h \<Rightarrow> (case hb_payload h of TextPayload _ \<Rightarrow> None
          | NoPayload \<Rightarrow> Some (hb_type h, None) | ObjPayload s p \<Rightarrow> Some (hb_type h, Some (s, p))))"

record webhook =
  wh_gateway :: string
  wh_raw :: string
  wh_body :: "webhook_body option"
  wh_crypto_sig :: string
  wh_signature :: string
  wh_hub_sig :: string
  wh_secret :: string

definition equal_fold :: "string \<Rightarrow> string \<Rightarrow> bool" where
  "equal_fold a b \<longleftrightarrow> to_lower a = to_lower b"

definition isPaidStatus :: "string \<Rightarrow> bool" where
  "isPaidStatus s \<longleftrightarrow> equal_fold (trim_space s) ''paid''"

definition trim_prefix :: "string \<Rightarrow> string \<Rightarrow> string" where
  "trim_prefix s p = (if has_prefix s p then drop (length p) s else s)"

text \<open>mac_crypto keys the HMAC with the SHA-256 of the token, mac with the token itself.\<close>

definition verifyWebhookSignature :: "(string \<Rightarrow> string \<Rightarrow> string) \<Rightarrow> (string \<Rightarrow> string \<Rightarrow> string) \<Rightarrow> webhook \<Rightarrow> string \<Rightarrow> bool" where
  "verifyWebhookSignature mac_crypto mac w secret =
     (if secret = [] then False
      else
        (let generic = (if wh_signature w = [] then trim_prefix (wh_hub_sig w) ''sha256='' else wh_signature w) in
         wh_crypto_sig w \<noteq> [] \<and> wh_crypto_sig w = mac_crypto secret (wh_raw w) \<or>
         generic \<noteq> [] \<and> generic = mac secret (wh_raw w) \<or>
         wh_secret w \<noteq> [] \<and> wh_secret w = secret))"

definition webhook_secret :: "string \<Rightarrow> gateway option \<Rightarrow> settings \<Rightarrow> string" where
  "webhook_secret name gw st =
     (let own = (case gw of None \<Rightarrow> [] | Some g \<Rightarrow>
                  (case gw_config g of Config m \<Rightarrow> text_or [] (map_of m ''token'') | _ \<Rightarrow> [])) in
      if own \<noteq> [] then own
      else if name = ''cryptobot'' \<and> st_crypto_token st \<noteq> [] then st_crypto_token st
      else st_secret st)"

definition gateway_disabled :: "gateway option \<Rightarrow> bool" where
  "gateway_disabled gw = (case gw of None \<Rightarrow> False | Some g \<Rightarrow> gw_enabled g = Some False)"

text \<open>The order reference of an authentic body: an error, or the invoice and order numbers.\<close>

definition order_reference :: "(string \<Rightarrow> uuid option) \<Rightarrow> webhook_body option \<Rightarrow> http_error + string \<times> string" where
  "order_reference parse_uuid b =
     (case decode_generic b of
        None \<Rightarrow> Inl BadRequest
      | Some (iv, ord, status) \<Rightarrow>
         (case decode_update b of
            Some (typ, payload) \<Rightarrow>
              if trim_space typ = [] then (if isPaidStatus status then Inr (iv, ord) else Inl BadRequest)
              else if \<not> equal_fold (trim_space typ) ''invoice_paid'' then Inl BadRequest
              else (case payload of None \<Rightarrow> Inl BadRequest
                | Some (s, p) \<Rightarrow>
                    if \<not> isPaidStatus s then Inl BadRequest
                    else if iv = [] \<and> ord = [] \<and> p \<noteq> [] then
                      (if parse_uuid (trim_space p) \<noteq> None then Inr (iv, trim_space p) else Inr (trim_space p, ord))
                    else Inr (iv, ord))
          | None \<Rightarrow> if isPaidStatus status then Inr (iv, ord) else Inl BadRequest))"

text \<open>The order looked up, or the zero order when the body names none.\<close>

definition zero_order :: order where
  "zero_order = \<lparr>o_id = nil_uuid, o_user = nil_uuid, o_plan = nil_uuid, o_gateway = [], o_invoice = None, o_amount = 0,
     o_currency = [], o_status = None, o_months = None, o_meta = \<lparr>md_username = [], md_plan = [], md_promo = None\<rparr>,
     o_paid_at = None\<rparr>"

definition find_order :: "(string \<Rightarrow> uuid option) \<Rightarrow> string \<times> string \<Rightarrow> bdb \<Rightarrow> db_error + order" where
  "find_order parse_uuid ref d =
     (case ref of (iv, ord) \<Rightarrow>
        if iv \<noteq> [] then GetOrderByExternalInvoiceID iv d
        else if ord \<noteq> [] then (case parse_uuid ord of None \<Rightarrow> Inr zero_order | Some oid \<Rightarrow> GetOrderByID oid d)
        else Inr zero_order)"

definition ProcessWebhook ::
    "(string \<Rightarrow> string \<Rightarrow> string) \<Rightarrow> (string \<Rightarrow> string \<Rightarrow> string) \<Rightarrow> (string \<Rightarrow> uuid option) \<Rightarrow> webhook \<Rightarrow> time \<Rightarrow> bdb \<Rightarrow> pay_reply \<times> bdb" where
  "ProcessWebhook mac_crypto mac parse_uuid w now d =
     (let st = GetBillingSettings d; gw = GetPaymentGatewayByName (wh_gateway w) d;
          secret = webhook_secret (wh_gateway w) gw st in
      if gateway_off (wh_gateway w) st then (Refused Forbidden, d)
      else if gateway_disabled gw then (Refused Forbidden, d)
      else if secret = [] then (Refused Forbidden, d)
      else if \<not> verifyWebhookSignature mac_crypto mac w secret then (Refused Unauthenticated401, d)
      else case order_reference parse_uuid (wh_body w) of
        Inl e \<Rightarrow> (Refused e, d)
      | Inr ref \<Rightarrow>
         (case find_order parse_uuid ref d of
            Inl _ \<Rightarrow> (Refused NotFound, d)
          | Inr r \<Rightarrow>
              if o_status r = Some ''paid'' then (AlreadyProcessed (o_id r), d)
              else settlePaidOrder None r (wh_gateway w) now d))"

definition ConfirmStarsPayment :: "(string \<Rightarrow> uuid option) \<Rightarrow> auth_ctx option \<Rightarrow> string option \<Rightarrow> time \<Rightarrow> bdb \<Rightarrow> pay_reply \<times> bdb" where
  "ConfirmStarsPayment parse_uuid ctx body now d =
     (case body of None \<Rightarrow> (Refused BadRequest, d)
      | Some txt \<Rightarrow>
        (case parse_uuid (trim_space txt) of None \<Rightarrow> (Refused BadRequest, d)
         | Some oid \<Rightarrow>
           (case GetOrderByID oid d of
              Inl _ \<Rightarrow> (Refused NotFound, d)
            | Inr r \<Rightarrow>
                if o_gateway r \<noteq> [] \<and> o_gateway r \<noteq> ''stars'' then (Refused BadRequest, d)
                else if o_status r = Some ''paid'' then (AlreadyProcessed (o_id r), d)
                else settlePaidOrder ctx r ''stars'' now d)))"

section \<open>Settings\<close>

definition UpsertGateway :: "auth_ctx option \<Rightarrow> gateway option \<Rightarrow> bdb \<Rightarrow> http_error option \<times> bdb" where
  "UpsertGateway ctx body d =
     (if \<not> callerCanBill ctx d then (Some Forbidden, d)
      else case body of None \<Rightarrow> (Some BadRequest, d)
      | Some g \<Rightarrow> (case UpsertPaymentGateway (g\<lparr>gw_name := trim_space (gw_name g)\<rparr>) d of
            Inl _ \<Rightarrow> (Some InternalError, d) | Inr d' \<Rightarrow> (None, d')))"

definition try_gateway :: "gateway \<Rightarrow> bdb \<Rightarrow> bdb" where
  "try_gateway g d = (case UpsertPaymentGateway g d of Inl _ \<Rightarrow> d | Inr d' \<Rightarrow> d')"

definition UpdateSettings :: "auth_ctx option \<Rightarrow> settings option \<Rightarrow> bdb \<Rightarrow> http_error option \<times> bdb" where
  "UpdateSettings ctx body d =
     (if \<not> callerCanBill ctx d then (Some Forbidden, d)
      else case body of None \<Rightarrow> (Some BadRequest, d)
      | Some req \<Rightarrow>
        (let s = req\<lparr>st_crypto_token := trim_space (st_crypto_token req), st_secret := trim_space (st_secret req),
                   st_stars_price := (if st_stars_price req \<le> 0 then 250 else st_stars_price req)\<rparr> in
         if ''UpsertBillingSettings'' \<in> db_down d then (Some InternalError, d)
         else (None, audit_log ctx ''update'' ''billing_settings'' None NoDiff
                (try_gateway \<lparr>gw_name = ''stars'', gw_enabled = Some (st_stars s), gw_config = NoConfig\<rparr>
                (try_gateway \<lparr>gw_name = ''cryptobot'', gw_enabled = Some (st_crypto s),
                    gw_config = Config [(''token'', st_crypto_token s)]\<rparr>
                  (d\<lparr>db_settings := Some s\<rparr>))))))"

section \<open>An order is settled at most once\<close>

definition order_ids :: "bdb \<Rightarrow> uuid list" where
  "order_ids d = List.map o_id (db_orders d)"

definition paid_orders :: "bdb \<Rightarrow> uuid set" where
  "paid_orders d = {o_id r | r. r \<in> set (db_orders d) \<and> o_status r = Some ''paid''}"

text \<open>One settlement transaction. The handlers read what they pass to it earlier, so in a race it may
  come from any older state: its arguments are arbitrary here.\<close>

definition settle_tx :: "settlement \<times> time \<Rightarrow> bdb \<Rightarrow> bool \<times> bdb" where
  "settle_tx i d = (case CompletePaidOrderTx (fst i) (snd i) d of Inl _ \<Rightarrow> (False, d) | Inr d' \<Rightarrow> (True, d'))"

lemma CompletePaidOrderTx_InrD:
  assumes "CompletePaidOrderTx s now d = Inr d'"
  obtains d1 where "list_ex (payable (se_order s)) (db_orders d)"
    "credit_buyer s (mark_paid (se_order s) now d) = Inr d1" "credit_referrer s d1 = Inr d'"
  using assms by (auto simp: CompletePaidOrderTx_def complete_body_def split: if_splits sum.splits)

lemma credit_orders [frame]:
  "credit_buyer s d = Inr d' \<Longrightarrow> db_orders d' = db_orders d"
  "credit_referrer s d = Inr d' \<Longrightarrow> db_orders d' = db_orders d"
  by (auto simp: credit_buyer_def credit_referrer_def update_users_def split: if_splits option.splits prod.splits)

lemma settled_orders:
  "CompletePaidOrderTx s now d = Inr d' \<Longrightarrow> db_orders d' = db_orders (mark_paid (se_order s) now d)"
  by (erule CompletePaidOrderTx_InrD) (simp add: credit_orders)

lemma mark_paid_ids [simp]: "order_ids (mark_paid oid now d) = order_ids d"
  by (auto simp: order_ids_def mark_paid_def comp_def)

lemma settle_ids: "CompletePaidOrderTx s now d = Inr d' \<Longrightarrow> order_ids d' = order_ids d"
  using settled_orders[of s now d d'] mark_paid_ids[of "se_order s" now d] by (simp add: order_ids_def)

lemma paid_mark: "paid_orders d \<subseteq> paid_orders (mark_paid oid now d)"
proof
  fix x assume "x \<in> paid_orders d"
  then obtain r where r: "r \<in> set (db_orders d)" "o_status r = Some ''paid''" "x = o_id r" by (auto simp: paid_orders_def)
  then have "\<not> payable oid r" by (simp add: payable_def)
  then have "r \<in> set (db_orders (mark_paid oid now d))" using r(1) by (force simp: mark_paid_def)
  then show "x \<in> paid_orders (mark_paid oid now d)" using r by (auto simp: paid_orders_def)
qed

lemma paid_marked: "list_ex (payable oid) (db_orders d) \<Longrightarrow> oid \<in> paid_orders (mark_paid oid now d)"
proof -
  assume "list_ex (payable oid) (db_orders d)"
  then obtain r where r: "r \<in> set (db_orders d)" "payable oid r" by (auto simp: list_ex_iff)
  let ?r = "r\<lparr>o_status := Some ''paid'', o_paid_at := Some now\<rparr>"
  have "?r \<in> set (db_orders (mark_paid oid now d))" using r by (force simp: mark_paid_def)
  moreover have "o_id ?r = oid" "o_status ?r = Some ''paid''" using r(2) by (simp_all add: payable_def)
  ultimately show ?thesis unfolding paid_orders_def by blast
qed

lemma paid_not_payable:
  assumes "distinct (order_ids d)" "oid \<in> paid_orders d"
  shows "\<not> list_ex (payable oid) (db_orders d)"
proof
  assume "list_ex (payable oid) (db_orders d)"
  then obtain r where r: "r \<in> set (db_orders d)" "payable oid r" by (auto simp: list_ex_iff)
  obtain q where q: "q \<in> set (db_orders d)" "o_status q = Some ''paid''" "oid = o_id q" using assms(2) by (auto simp: paid_orders_def)
  have "r = q" using distinct_map_unique[OF assms(1)[unfolded order_ids_def] r(1) q(1)] r(2) q(3) by (simp add: payable_def)
  then show False using r(2) q(2) by (simp add: payable_def)
qed

interpretation settle: single_use settle_tx "\<lambda>i. se_order (fst i)" paid_orders "\<lambda>i d. distinct (order_ids d)"
proof
  fix i :: "settlement \<times> time" and d :: bdb
  assume dist: "distinct (order_ids d)"
  show "\<not> fst (settle_tx i d)" if "se_order (fst i) \<in> paid_orders d"
  proof (cases "CompletePaidOrderTx (fst i) (snd i) d")
    case (Inr d')
    then show ?thesis using paid_not_payable[OF dist that] by (auto elim: CompletePaidOrderTx_InrD)
  qed (simp add: settle_tx_def)
  show "se_order (fst i) \<in> paid_orders (snd (settle_tx i d))" if won: "fst (settle_tx i d)"
  proof -
    obtain d' where d': "CompletePaidOrderTx (fst i) (snd i) d = Inr d'"
      using won by (cases "CompletePaidOrderTx (fst i) (snd i) d") (simp_all add: settle_tx_def)
    have "list_ex (payable (se_order (fst i))) (db_orders d)" using d' by (rule CompletePaidOrderTx_InrD)
    from paid_marked[OF this, of "snd i"] show ?thesis
      using settled_orders[OF d'] by (simp add: settle_tx_def d' paid_orders_def)
  qed
  show "paid_orders d \<subseteq> paid_orders (snd (settle_tx i d))"
  proof (cases "CompletePaidOrderTx (fst i) (snd i) d")
    case (Inr d')
    then show ?thesis using paid_mark[of d "se_order (fst i)" "snd i"] settled_orders[OF Inr]
      by (simp add: settle_tx_def paid_orders_def)
  qed (simp add: settle_tx_def)
qed

lemma settle_admissible:
  "distinct (order_ids d) \<Longrightarrow> admissible settle_tx (\<lambda>i d. distinct (order_ids d)) is d"
  by (induction "is" arbitrary: d) (auto simp: settle_tx_def settle_ids split: sum.splits)

text \<open>
  C6. Each order is settled at most once, and never when it was paid before, whatever settlement
  transactions run in whatever order, racing ones with stale arguments included.
\<close>
theorem orders_settled_once:
  assumes "distinct (order_ids d)"
  shows "distinct (accepted settle_tx (\<lambda>i. se_order (fst i)) is d) \<and>
    set (accepted settle_tx (\<lambda>i. se_order (fst i)) is d) \<inter> paid_orders d = {}"
  using settle.accepted_distinct[OF settle_admissible[OF assms, of "is"]]
    settle.accepted_not_spent[OF settle_admissible[OF assms, of "is"]] by blast

text \<open>The database the witnesses evaluate on: one buyer, one plan, two pending orders of one month.\<close>

definition demo_plan :: plan where
  "demo_plan = \<lparr>pl_id = ''p1'', pl_name = ''basic'', pl_monthly = Some 500, pl_traffic = Some 100, pl_stars = None,
     pl_1m = Some 499, pl_3m = None, pl_6m = None, pl_12m = None,
     pl_devices = Some 3, pl_max_devices = Some 3, pl_gb = None, pl_protocols = [''vless''], pl_active = Some True,
     pl_trial = Some False, pl_trial_hours = None\<rparr>"

definition demo_pending_order :: order where
  "demo_pending_order = zero_order\<lparr>o_id := ''o1'', o_user := ''u1'', o_plan := ''p1'', o_gateway := ''stars'',
     o_invoice := Some ''inv_1'', o_status := Some ''pending'', o_months := Some 1\<rparr>"

definition demo_promo :: promo where
  "demo_promo = \<lparr>pr_id = ''c1'', pr_code = ''SALE'', pr_percent = Some 10, pr_max = Some 1, pr_used = Some 0,
     pr_active = Some True, pr_expires = None\<rparr>"

definition demo_settings :: settings where
  "demo_settings = default_settings\<lparr>st_crypto := True, st_crypto_token := ''tok''\<rparr>"

definition demo_bdb :: bdb where
  "demo_bdb = \<lparr>db_users = [demo_user], db_nodes = [], db_creds = [], db_down = {}, db_admins = [demo_admin], db_keys = [],
     db_audit = [], db_plans = [demo_plan], db_orders = [demo_pending_order, demo_pending_order\<lparr>o_id := ''o2'', o_invoice := Some ''inv_2''\<rparr>],
     db_promos = [demo_promo], db_gateways = [], db_settings = Some demo_settings\<rparr>"

definition demo_settlement :: settlement where
  "demo_settlement = \<lparr>se_order = ''o1'', se_buyer = ''u1'', se_expires = 50, se_traffic = 100, se_referrer = None\<rparr>"

lemma orders_settled_once_witness:
  "accepted settle_tx (\<lambda>i. se_order (fst i)) [(demo_settlement, 5), (demo_settlement, 6)] demo_bdb = [''o1''] \<and>
   distinct (accepted settle_tx (\<lambda>i. se_order (fst i)) [(demo_settlement, 5), (demo_settlement, 6)] demo_bdb)"
proof
  show "accepted settle_tx (\<lambda>i. se_order (fst i)) [(demo_settlement, 5), (demo_settlement, 6)] demo_bdb = [''o1'']"
    by code_simp
  show "distinct (accepted settle_tx (\<lambda>i. se_order (fst i)) [(demo_settlement, 5), (demo_settlement, 6)] demo_bdb)"
    by (rule orders_settled_once[THEN conjunct1]) (simp add: order_ids_def demo_bdb_def demo_pending_order_def)
qed

section \<open>Two payments of one buyer\<close>

lemma settled_users:
  assumes "CompletePaidOrderTx s now d = Inr d'" "se_referrer s = None"
  shows "db_users d' = List.map (\<lambda>u. if u_id u = se_buyer s then u\<lparr>u_expires := Some (se_expires s),
    u_limit := map_option (\<lambda>n. n + se_traffic s) (u_limit u)\<rparr> else u) (db_users d)"
proof (rule CompletePaidOrderTx_InrD[OF assms(1)])
  fix d1 assume "credit_buyer s (mark_paid (se_order s) now d) = Inr d1" "credit_referrer s d1 = Inr d'"
  then show ?thesis using assms(2)
    by (auto simp: credit_buyer_def credit_referrer_def update_users_def mark_paid_def split: if_splits)
qed

lemma prepare_InrD:
  assumes "prepare r now d = Inr s"
  obtains u p where "GetUserByID (o_user r) d = Inr u" "GetPlanByID (o_plan r) d = Inr p" "se_order s = o_id r"
    "se_buyer s = u_id u" "se_traffic s = int_or 0 (pl_traffic p)"
    "se_expires s = AddDate (if int_or 0 (o_months r) \<le> 0 then 1 else int_or 0 (o_months r)) 0 (later_of now (u_expires u))"
    "u_referrer u = None \<Longrightarrow> se_referrer s = None"
  using assms by (auto simp: prepare_def Let_def split: sum.splits)

text \<open>
  Two payments of one buyer that race lose time: when both settlements read the buyer before
  either transaction commits, the traffic of both plans is added but the expiry is that of the second
  payment alone, counted from the date both started from.
\<close>
theorem racing_payments_lose_time:
  assumes "prepare r1 t1 d = Inr s1" "prepare r2 t2 d = Inr s2" "o_user r1 = o_user r2"
    and "GetUserByID (o_user r1) d = Inr u" "u_referrer u = None"
    and "CompletePaidOrderTx s1 t1' d = Inr d1" "CompletePaidOrderTx s2 t2' d1 = Inr d2"
  shows "\<exists>v\<in>set (db_users d2). u_id v = u_id u \<and>
     u_expires v = Some (AddDate (if int_or 0 (o_months r2) \<le> 0 then 1 else int_or 0 (o_months r2)) 0 (later_of t2 (u_expires u))) \<and>
     u_limit v = map_option (\<lambda>n. n + se_traffic s1 + se_traffic s2) (u_limit u)"
proof -
  have s: "se_buyer s1 = u_id u" "se_buyer s2 = u_id u" "se_referrer s1 = None" "se_referrer s2 = None"
    "se_expires s2 = AddDate (if int_or 0 (o_months r2) \<le> 0 then 1 else int_or 0 (o_months r2)) 0 (later_of t2 (u_expires u))"
    using prepare_InrD[OF assms(1)] prepare_InrD[OF assms(2)] assms(3-5) by (metis sum.inject(2))+
  have u: "u \<in> set (db_users d)"
    using assms(4) find_Some_in[of _ "db_users d" u] by (auto simp: GetUserByID_def split: if_splits option.splits)
  let ?f = "\<lambda>s u. u\<lparr>u_expires := Some (se_expires s), u_limit := map_option (\<lambda>n. n + se_traffic s) (u_limit u)\<rparr>"
  have "?f s2 (?f s1 u) \<in> set (db_users d2)"
    using u by (auto simp: settled_users[OF assms(7) s(4)] settled_users[OF assms(6) s(3)] s(1,2) image_iff)
  moreover have "u_limit (?f s2 (?f s1 u)) = map_option (\<lambda>n. n + se_traffic s1 + se_traffic s2) (u_limit u)"
    by (simp add: option.map_comp comp_def)
  ultimately show ?thesis using s(5) by (intro bexI[of _ "?f s2 (?f s1 u)"]) simp_all
qed

definition demo_paid :: "uuid \<Rightarrow> settlement" where
  "demo_paid oid = \<lparr>se_order = oid, se_buyer = ''u1'', se_expires = AddDate 1 0 5, se_traffic = 100, se_referrer = None\<rparr>"

lemma demo_prepare:
  "prepare demo_pending_order 5 demo_bdb = Inr (demo_paid ''o1'')"
  "prepare (demo_pending_order\<lparr>o_id := ''o2''\<rparr>) 5 demo_bdb = Inr (demo_paid ''o2'')"
  by (simp_all add: prepare_def GetPlanByID_def GetUserByID_def demo_bdb_def demo_pending_order_def zero_order_def demo_plan_def
      demo_user_def demo_paid_def later_of_def)

lemma CompletePaidOrderTx_settle: "fst (settle_tx (s, now) d) \<Longrightarrow> CompletePaidOrderTx s now d = Inr (snd (settle_tx (s, now) d))"
  by (auto simp: settle_tx_def split: sum.splits)

lemma racing_payments_lose_time_witness:
  "\<exists>v\<in>set (db_users (snd (settle_tx (demo_paid ''o2'', 7) (snd (settle_tx (demo_paid ''o1'', 6) demo_bdb))))).
     u_id v = u_id demo_user \<and>
     u_expires v = Some (AddDate (if int_or 0 (o_months (demo_pending_order\<lparr>o_id := ''o2''\<rparr>)) \<le> 0 then 1
        else int_or 0 (o_months (demo_pending_order\<lparr>o_id := ''o2''\<rparr>))) 0 (later_of 5 (u_expires demo_user))) \<and>
     u_limit v = map_option (\<lambda>n. n + se_traffic (demo_paid ''o1'') + se_traffic (demo_paid ''o2'')) (u_limit demo_user)"
proof (rule racing_payments_lose_time[OF demo_prepare])
  show "CompletePaidOrderTx (demo_paid ''o1'') 6 demo_bdb = Inr (snd (settle_tx (demo_paid ''o1'', 6) demo_bdb))"
    by (rule CompletePaidOrderTx_settle) code_simp
  show "CompletePaidOrderTx (demo_paid ''o2'') 7 (snd (settle_tx (demo_paid ''o1'', 6) demo_bdb))
     = Inr (snd (settle_tx (demo_paid ''o2'', 7) (snd (settle_tx (demo_paid ''o1'', 6) demo_bdb))))"
    by (rule CompletePaidOrderTx_settle) code_simp
qed (simp_all add: GetUserByID_def demo_bdb_def demo_pending_order_def zero_order_def demo_user_def)

section \<open>Promo codes\<close>

fun order_attempts :: "uuid \<Rightarrow> (order \<times> uuid option \<times> time) list \<Rightarrow> bdb \<Rightarrow> nat \<times> bdb" where
  "order_attempts pid [] d = (0, d)"
| "order_attempts pid ((r, promo, now) # xs) d =
     (case CreateOrderWithPromo r promo now d of
        Inl _ \<Rightarrow> order_attempts pid xs d
      | Inr (_, d1) \<Rightarrow> (case order_attempts pid xs d1 of (n, d2) \<Rightarrow> (if promo = Some pid then n + 1 else n, d2)))"

definition inc_used :: "uuid \<Rightarrow> promo \<Rightarrow> promo" where
  "inc_used pid q = (if pr_id q = pid then q\<lparr>pr_used := map_option (\<lambda>n. n + 1) (pr_used q)\<rparr> else q)"

lemma CreateOrder_promos: "CreateOrder r d = Inr (r', d') \<Longrightarrow> db_promos d' = db_promos d"
  by (auto simp: CreateOrder_def split: if_splits)

lemma CreateOrderWithPromo_InrD:
  assumes "CreateOrderWithPromo r promo now d = Inr (r', d')"
  shows "db_promos d' = (case promo of None \<Rightarrow> db_promos d | Some pid \<Rightarrow> List.map (inc_used pid) (db_promos d)) \<and>
    (\<forall>pid. promo = Some pid \<longrightarrow> (\<exists>p\<in>set (db_promos d). pr_id p = pid \<and> promo_usable now p))"
proof (cases promo)
  case None
  then show ?thesis using assms CreateOrder_promos
    by (auto simp: CreateOrderWithPromo_def in_tx_def split: if_splits sum.splits)
next
  case (Some pid)
  obtain d1 where d1: "ConsumePromoCode pid now d = Inr d1" "CreateOrder r d1 = Inr (r', d')"
    using assms Some by (auto simp: CreateOrderWithPromo_def in_tx_def split: if_splits sum.splits)
  obtain p where "List.find (\<lambda>p. pr_id p = pid \<and> promo_usable now p) (db_promos d) = Some p"
    "db_promos d1 = List.map (inc_used pid) (db_promos d)"
    using d1(1) by (auto simp: ConsumePromoCode_def inc_used_def split: if_splits option.splits)
  then show ?thesis using CreateOrder_promos[OF d1(2)] find_Some_in Some by force
qed

lemma inc_used_id [simp]: "pr_id (inc_used pid q) = pr_id q" "pr_max (inc_used pid q) = pr_max q"
  by (simp_all add: inc_used_def)

text \<open>
  C18. A use of a promo code is burned exactly when an order is created with it, and a limited code is
  never used beyond its limit: after any sequence of attempts, failed ones included, the counter has
  grown by the number of orders created with the code and, under a positive limit, has not passed the
  limit or its old value.
\<close>
theorem promo_uses_exact:
  assumes "distinct (List.map pr_id (db_promos d))" "p \<in> set (db_promos d)" "pr_used p = Some u"
    and "order_attempts (pr_id p) xs d = (n, d')"
  shows "\<exists>q\<in>set (db_promos d'). pr_id q = pr_id p \<and> pr_used q = Some (u + int n) \<and>
    (\<forall>m. pr_max p = Some m \<longrightarrow> 0 < m \<longrightarrow> u + int n \<le> max u m)"
  using assms
proof (induction xs arbitrary: d p u n)
  case Nil
  then show ?case by (auto intro!: bexI[of _ p])
next
  case (Cons x xs)
  obtain r promo now where x: "x = (r, promo, now)" by (metis prod.exhaust)
  show ?case
  proof (cases "CreateOrderWithPromo r promo now d")
    case (Inl e)
    then show ?thesis using Cons.IH[OF Cons.prems(1-3)] Cons.prems(4) x by simp
  next
    case (Inr rd)
    obtain r' d1 where rd: "rd = (r', d1)" by (metis surj_pair)
    note c = CreateOrderWithPromo_InrD[OF Inr[unfolded rd]]
    obtain n1 where n1: "order_attempts (pr_id p) xs d1 = (n1, d')" "n = (if promo = Some (pr_id p) then n1 + 1 else n1)"
      using Cons.prems(4) Inr rd x by (auto split: prod.splits)
    have ids: "List.map pr_id (db_promos d1) = List.map pr_id (db_promos d)"
      using c by (simp add: comp_def split: option.splits)
    have dist1: "distinct (List.map pr_id (db_promos d1))" using ids Cons.prems(1) by simp
    show ?thesis
    proof (cases "promo = Some (pr_id p)")
      case True
      obtain q where q: "q \<in> set (db_promos d)" "pr_id q = pr_id p" "promo_usable now q" using c True by blast
      have "q = p" using distinct_map_unique[OF Cons.prems(1) q(1) Cons.prems(2) q(2)] .
      then have lim: "pr_max p = Some m \<Longrightarrow> 0 < m \<Longrightarrow> u < m" for m
        using q(3) Cons.prems(3) by (simp add: promo_usable_def)
      have "inc_used (pr_id p) p \<in> set (db_promos d1)" using c True Cons.prems(2) by simp
      moreover have "pr_used (inc_used (pr_id p) p) = Some (u + 1)" using Cons.prems(3) by (simp add: inc_used_def)
      moreover note n1(1)
      ultimately have "\<exists>q\<in>set (db_promos d'). pr_id q = pr_id p \<and> pr_used q = Some (u + 1 + int n1) \<and>
          (\<forall>m. pr_max p = Some m \<longrightarrow> 0 < m \<longrightarrow> u + 1 + int n1 \<le> max (u + 1) m)"
        using Cons.IH[OF dist1, of "inc_used (pr_id p) p" "u + 1" n1] by simp
      then show ?thesis using lim n1(2) True by (fastforce simp: algebra_simps)
    next
      case False
      have "p \<in> set (db_promos d1)" using c False Cons.prems(2)
        by (auto simp: inc_used_def image_iff intro!: bexI[of _ p] split: option.splits)
      from Cons.IH[OF dist1 this Cons.prems(3) n1(1)] show ?thesis using n1(2) False by simp
    qed
  qed
qed

definition demo_promo_order :: "uuid \<Rightarrow> order" where
  "demo_promo_order oid = demo_pending_order\<lparr>o_id := oid, o_meta := \<lparr>md_username = ''ann'', md_plan = ''basic'', md_promo = Some ''c1''\<rparr>\<rparr>"

lemma promo_uses_exact_witness:
  "fst (order_attempts ''c1'' [(demo_promo_order ''o3'', Some ''c1'', 5), (demo_promo_order ''o4'', Some ''c1'', 6)] demo_bdb) = 1 \<and>
   (\<exists>q\<in>set (db_promos (snd (order_attempts ''c1'' [(demo_promo_order ''o3'', Some ''c1'', 5), (demo_promo_order ''o4'', Some ''c1'', 6)] demo_bdb))).
      pr_id q = ''c1'' \<and> pr_used q = Some 1)"
proof
  let ?xs = "[(demo_promo_order ''o3'', Some ''c1'', 5), (demo_promo_order ''o4'', Some ''c1'', 6)]"
  show n: "fst (order_attempts ''c1'' ?xs demo_bdb) = 1" by code_simp
  have p: "demo_promo \<in> set (db_promos demo_bdb)" "pr_used demo_promo = Some 0" "pr_id demo_promo = ''c1''"
    "distinct (List.map pr_id (db_promos demo_bdb))" by (simp_all add: demo_bdb_def demo_promo_def)
  have "order_attempts (pr_id demo_promo) ?xs demo_bdb = (1, snd (order_attempts ''c1'' ?xs demo_bdb))"
    using n p(3) by (metis prod.collapse)
  from promo_uses_exact[OF p(4,1,2) this]
  show "\<exists>q\<in>set (db_promos (snd (order_attempts ''c1'' ?xs demo_bdb))). pr_id q = ''c1'' \<and> pr_used q = Some 1"
    using p(3) by auto
qed

section \<open>Webhooks\<close>

text \<open>The request passes the gates in front of the body.\<close>

definition authentic :: "(string \<Rightarrow> string \<Rightarrow> string) \<Rightarrow> (string \<Rightarrow> string \<Rightarrow> string) \<Rightarrow> webhook \<Rightarrow> bdb \<Rightarrow> bool" where
  "authentic mac_crypto mac w d \<longleftrightarrow>
     (let st = GetBillingSettings d; gw = GetPaymentGatewayByName (wh_gateway w) d;
          secret = webhook_secret (wh_gateway w) gw st in
      \<not> gateway_off (wh_gateway w) st \<and> \<not> gateway_disabled gw \<and> secret \<noteq> [] \<and>
      (wh_crypto_sig w = mac_crypto secret (wh_raw w) \<or> wh_signature w = mac secret (wh_raw w) \<or>
       trim_prefix (wh_hub_sig w) ''sha256='' = mac secret (wh_raw w) \<or> wh_secret w = secret))"

lemma settlePaidOrder_Paid:
  assumes "settlePaidOrder ctx r gw now d = (Paid oid buyer e, d')"
  obtains s d1 where "prepare r now d = Inr s" "CompletePaidOrderTx s now d = Inr d1" "oid = o_id r" "buyer = o_user r"
    "db_orders d' = db_orders d1" "db_users d' = db_users d1"
proof -
  obtain s where s: "prepare r now d = Inr s" using assms by (auto simp: settlePaidOrder_def split: sum.splits)
  obtain d1 where d1: "CompletePaidOrderTx s now d = Inr d1" "oid = se_order s" "buyer = se_buyer s"
    "db_orders d' = db_orders d1" "db_users d' = db_users d1"
  proof (cases "CompletePaidOrderTx s now d")
    case (Inl x)
    then show ?thesis using assms s by (cases x) (auto simp: settlePaidOrder_def)
  next
    case (Inr d1)
    then show ?thesis using assms s that by (auto simp: settlePaidOrder_def audit_log_def CreateAuditLog_def Let_def)
  qed
  obtain u where "GetUserByID (o_user r) d = Inr u" "se_order s = o_id r" "se_buyer s = u_id u" using s by (rule prepare_InrD)
  moreover from this(1) have "u_id u = o_user r"
    using find_Some_in[of _ "db_users d" u] by (auto simp: GetUserByID_def split: if_splits option.splits)
  ultimately show ?thesis using that s d1 by simp
qed

lemma audit_log_orders [simp]: "db_orders (audit_log ctx a t res df d) = db_orders d"
  by (simp add: audit_log_def CreateAuditLog_def Let_def)

lemma settlePaidOrder_frame:
  "settlePaidOrder ctx r gw now d = (reply, d') \<Longrightarrow> \<forall>oid b e. reply \<noteq> Paid oid b e \<Longrightarrow>
   db_orders d' = db_orders d \<and> db_users d' = db_users d"
  by (auto simp: settlePaidOrder_def split: sum.splits pay_error.splits)

lemma payable_found:
  assumes "list_ex (payable oid) (db_orders d)"
  shows "oid \<in> set (order_ids d)" "order_status oid d \<noteq> None \<or> oid \<in> set (order_ids d)"
  using assms by (auto simp: list_ex_iff payable_def order_ids_def)


definition demo_webhook :: webhook where
  "demo_webhook = \<lparr>wh_gateway = ''cryptobot'', wh_raw = ''{}'', wh_body = Some \<lparr>hb_invoice = ''inv_1'', hb_order = [],
     hb_status = ''Paid'', hb_type = [], hb_payload = NoPayload\<rparr>, wh_crypto_sig = ''tok|{}'', wh_signature = [], wh_hub_sig = [],
     wh_secret = []\<rparr>"

definition demo_mac :: "string \<Rightarrow> string \<Rightarrow> string" where
  "demo_mac k m = k @ ''|'' @ m"

definition demo_reply :: "pay_reply" where
  "demo_reply = fst (ProcessWebhook demo_mac demo_mac (\<lambda>s. Some s) demo_webhook 5 demo_bdb)"

lemma demo_reply_paid: "demo_reply = Paid ''o1'' ''u1'' (AddDate 1 0 5)"
  by code_simp


text \<open>
  CryptoBot's own notification is never honoured: its payload member is an object, which does not
  unmarshal into the request struct's string, so an authentic notification of a paid invoice is refused
  as a bad request and nothing changes.
\<close>
theorem native_cryptobot_refused:
  assumes "wh_gateway w = ''cryptobot''" "st_crypto (GetBillingSettings d)" "\<not> gateway_disabled (GetPaymentGatewayByName ''cryptobot'' d)"
    and "webhook_secret ''cryptobot'' (GetPaymentGatewayByName ''cryptobot'' d) (GetBillingSettings d) = secret" "secret \<noteq> []"
    and "wh_crypto_sig w = mac_crypto secret (wh_raw w)" "wh_crypto_sig w \<noteq> []"
    and "wh_body w = Some h" "hb_type h = ''invoice_paid''" "hb_payload h = ObjPayload ''paid'' reference"
  shows "ProcessWebhook mac_crypto mac parse_uuid w now d = (Refused BadRequest, d)"
  using assms by (simp add: ProcessWebhook_def Let_def gateway_off_def verifyWebhookSignature_def order_reference_def decode_generic_def)

lemma native_cryptobot_refused_witness:
  "ProcessWebhook demo_mac demo_mac (\<lambda>s. Some s)
     (demo_webhook\<lparr>wh_body := Some \<lparr>hb_invoice = [], hb_order = [], hb_status = [], hb_type = ''invoice_paid'',
        hb_payload = ObjPayload ''paid'' ''o1''\<rparr>\<rparr>) 5 demo_bdb = (Refused BadRequest, demo_bdb)"
  by (rule native_cryptobot_refused[where h = "\<lparr>hb_invoice = [], hb_order = [], hb_status = [], hb_type = ''invoice_paid'',
        hb_payload = ObjPayload ''paid'' ''o1''\<rparr>" and reference = "''o1''"])
     (simp_all add: demo_webhook_def demo_bdb_def demo_settings_def default_settings_def GetBillingSettings_def
        GetPaymentGatewayByName_def gateway_disabled_def webhook_secret_def demo_mac_def)

section \<open>Prices\<close>

text \<open>The percentage of the undiscounted price that a duration costs.\<close>

definition duration_percent :: "int \<Rightarrow> int" where
  "duration_percent duration = (if duration \<ge> 12 then 80 else if duration \<ge> 6 then 85 else if duration \<ge> 3 then 90 else 100)"

lemma f64_of_int_exact: "0 \<le> n \<Longrightarrow> n < 2 ^ 31 \<Longrightarrow> f64_of_int n = (n, 0)"
proof -
  assume n: "0 \<le> n" "n < 2 ^ 31"
  have "excess n = 0"
  proof (cases "n = 0")
    case False
    then show ?thesis using excess_le[of n 0] n by simp
  qed (simp add: excess_def)
  then show ?thesis by (simp add: f64_of_int_def round64_def near_def)
qed

lemma discount_exact:
  assumes "0 < n" "n < 2 ^ 31"
  shows "trunc (f64_mul (f64_of_int n) f080) = n * 4 div 5" "trunc (f64_mul (f64_of_int n) f085) = n * 17 div 20"
    "trunc (f64_mul (f64_of_int n) f090) = n * 9 div 10"
proof -
  have e: "f64_of_int n = (n, 0)" using assms by (intro f64_of_int_exact) simp_all
  show "trunc (f64_mul (f64_of_int n) f080) = n * 4 div 5"
    using discount_trunc[OF assms, of 7205759403792794 5 4 2] by (simp add: e f64_mul_def f080_def)
  show "trunc (f64_mul (f64_of_int n) f085) = n * 17 div 20"
    using discount_trunc[OF assms, of 7656119366529843 20 17 "- 4"] by (simp add: e f64_mul_def f085_def)
  show "trunc (f64_mul (f64_of_int n) f090) = n * 9 div 10"
    using discount_trunc[OF assms, of 8106479329266893 10 9 2] by (simp add: e f64_mul_def f090_def)
qed

lemma sint_product:
  assumes "0 \<le> a * b" "a * b < 2 ^ 31"
  shows "sint (word_of_int a * word_of_int b :: 32 word) = a * b"
proof -
  have "(word_of_int a * word_of_int b :: 32 word) = word_of_int (a * b)" by simp
  moreover have "sint (word_of_int (a * b) :: 32 word) = a * b"
    unfolding sint_sbintrunc' using assms by (intro signed_take_bit_int_eq_self) simp_all
  ultimately show ?thesis by simp
qed

text \<open>
  The price in Telegram Stars is exact although it is discounted in floating point: as long as the
  undiscounted price fits an int32, it is the whole part of the duration's percentage of it, and it never
  exceeds it.
\<close>
theorem stars_price_exact:
  assumes "1 \<le> duration" "stars_per_month p st * duration < 2 ^ 31"
  shows "stars_total duration p st = stars_per_month p st * duration * duration_percent duration div 100 \<and>
    0 \<le> stars_total duration p st \<and> stars_total duration p st \<le> stars_per_month p st * duration"
proof -
  define n where "n = stars_per_month p st * duration"
  have "0 < stars_per_month p st" by (auto simp: stars_per_month_def split: option.splits)
  then have n: "0 < n" "n < 2 ^ 31" using assms by (simp_all add: n_def)
  have w: "sint (word_of_int (stars_per_month p st) * word_of_int duration :: 32 word) = n"
    using sint_product[of "stars_per_month p st" duration] n by (simp add: n_def)
  have "stars_total duration p st = n * duration_percent duration div 100"
    using discount_exact[OF n] n
    by (auto simp: stars_total_def w Let_def discount_of_def discount_int_def duration_percent_def)
  moreover have "n * duration_percent duration div 100 \<le> n"
    using n by (auto simp: duration_percent_def)
  moreover have "0 \<le> n * duration_percent duration div 100" using n by (auto simp: duration_percent_def)
  ultimately show ?thesis by (simp add: n_def)
qed

lemma stars_price_exact_witness:
  "stars_total 6 demo_plan demo_settings = 250 * 6 * 85 div 100"
  using stars_price_exact[of 6 demo_plan demo_settings]
  by (simp add: stars_per_month_def demo_plan_def demo_settings_def default_settings_def duration_percent_def)

lemma CreateInvoice_InrD:
  assumes "CreateInvoice ctx (Some req) oid ext now d = (Inr y, d')" "GetPlanByID (ir_plan req) d = Inr p"
    "trim_space (ir_promo req) = []" "ir_gateway req \<noteq> ''stars''"
    and dur: "dur = (if ir_months req \<le> 0 then 1 else ir_months req)"
  shows "iy_amount y = cents_str (fmt2 (total_price dur p)) \<and> iy_months y = dur \<and>
    (\<exists>r\<in>set (db_orders d'). o_id r = oid \<and> o_amount r = fmt2 (total_price dur p) \<and> o_status r = Some ''pending'')"
proof -
  obtain u where u: "GetUserByID (ir_user req) d = Inr u" using assms(1)
    by (cases "GetUserByID (ir_user req) d") (auto simp: CreateInvoice_def Let_def split: if_splits)
  show ?thesis
    using assms(1-4) u
    by (auto simp: CreateInvoice_def Let_def lookup_promo_def discounted_def dur CreateOrderWithPromo_def in_tx_def
        CreateOrder_def split: if_splits db_error.splits)
qed


definition demo_invoice_request :: invoice_request where
  "demo_invoice_request = \<lparr>ir_user = ''u1'', ir_plan = ''p1'', ir_gateway = ''manual'', ir_months = 1, ir_promo = []\<rparr>"

definition demo_owner_ctx :: auth_ctx where
  "demo_owner_ctx = \<lparr>ac_user = ''a1'', ac_email = ''a'', ac_role = ''owner'', ac_scopes = [''*''], ac_type = ''jwt''\<rparr>"

definition demo_invoice :: invoice_reply where
  "demo_invoice = \<lparr>iy_order = ''o9'', iy_invoice = ''inv_9'', iy_amount = ''4.99'', iy_currency = ''USD'', iy_gateway = ''manual'',
     iy_months = 1, iy_url = []\<rparr>"

lemma demo_invoice_created:
  "fst (CreateInvoice (Some demo_owner_ctx) (Some demo_invoice_request) ''o9'' ''inv_9'' 5 demo_bdb) = Inr demo_invoice"
  by code_simp


end
