(* ===== verification/Plans.thy ===== *)
theory Plans
  imports Billing
begin

text \<open>
  Subscription plans (src/internal/controlplane/api/handler/plan.go, store/repo_plan.go,
  store/plan_helpers.go, store/plan.sql.go): the handlers, the normalization of the repository, the
  statements with the schema's constraints, and the readings of a row. The struct validator and the
  text scanner of pgtype.Numeric are library code and arguments; a scanned price is in cents, as its
  DECIMAL(10,2) column stores it. The features column is always empty and left out.
\<close>

section \<open>Statements\<close>

definition CreatePlan :: "plan \<Rightarrow> bdb \<Rightarrow> db_error + (plan \<times> bdb)" where
  "CreatePlan p d =
     (if ''CreatePlan'' \<in> db_down d then Inl StatementFailed
      else if pl_id p \<in> pl_id ` set (db_plans d) \<or> pl_name p \<in> pl_name ` set (db_plans d) then Inl UniqueViolation
      else Inr (p, d\<lparr>db_plans := p # db_plans d\<rparr>))"

definition GetPlanByName :: "string \<Rightarrow> bdb \<Rightarrow> db_error + plan" where
  "GetPlanByName name d =
     (if ''GetPlanByName'' \<in> db_down d then Inl StatementFailed
      else case List.find (\<lambda>p. pl_name p = name) (db_plans d) of None \<Rightarrow> Inl NoRows | Some p \<Rightarrow> Inr p)"

text \<open>LIMIT 1 without an order: the first row of the table stands for the one the database picks.\<close>

definition GetTrialPlan :: "bdb \<Rightarrow> db_error + plan" where
  "GetTrialPlan d =
     (if ''GetTrialPlan'' \<in> db_down d then Inl StatementFailed
      else case List.find (\<lambda>p. pl_trial p = Some True \<and> pl_active p = Some True) (db_plans d) of
        None \<Rightarrow> Inl NoRows | Some p \<Rightarrow> Inr p)"

definition ListPlans :: "bdb \<Rightarrow> db_error + plan list" where
  "ListPlans d =
     (if ''ListPlans'' \<in> db_down d then Inl StatementFailed
      else Inr (sort_key pl_name (List.filter (\<lambda>p. pl_active p = Some True) (db_plans d))))"

definition UpdatePlan :: "plan \<Rightarrow> bdb \<Rightarrow> db_error + (plan \<times> bdb)" where
  "UpdatePlan p d =
     (if ''UpdatePlan'' \<in> db_down d then Inl StatementFailed
      else if pl_id p \<notin> pl_id ` set (db_plans d) then Inl NoRows
      else if (\<exists>q\<in>set (db_plans d). pl_id q \<noteq> pl_id p \<and> pl_name q = pl_name p) then Inl UniqueViolation
      else Inr (p, d\<lparr>db_plans := List.map (\<lambda>q. if pl_id q = pl_id p then p else q) (db_plans d)\<rparr>))"

text \<open>Users and orders refer to plans.\<close>

definition DeletePlan :: "uuid \<Rightarrow> bdb \<Rightarrow> db_error + bdb" where
  "DeletePlan pid d =
     (if ''DeletePlan'' \<in> db_down d then Inl StatementFailed
      else if Some pid \<in> u_plan ` set (db_users d) \<or> pid \<in> o_plan ` set (db_orders d) then Inl ForeignKeyViolation
      else Inr (d\<lparr>db_plans := List.filter (\<lambda>p. pl_id p \<noteq> pid) (db_plans d)\<rparr>))"

section \<open>Normalization\<close>

definition positive :: "int option \<Rightarrow> bool" where
  "positive x \<longleftrightarrow> int_or 0 x > 0"

definition gib :: int where
  "gib = 1073741824"

text \<open>The quota in bytes and in gigabytes: the one that is missing is derived from the other.\<close>

definition complete_traffic :: "plan \<Rightarrow> plan" where
  "complete_traffic p =
     (if positive (pl_gb p) \<and> int_or 0 (pl_traffic p) = 0 then p\<lparr>pl_traffic := Some (wrap64 (int_or 0 (pl_gb p) * gib))\<rparr>
      else if positive (pl_traffic p) \<and> int_or 0 (pl_gb p) = 0
      then p\<lparr>pl_gb := Some (wrap32 (int_or 0 (pl_traffic p) div gib))\<rparr> else p)"

definition normalize_new :: "plan \<Rightarrow> plan" where
  "normalize_new p =
     (let p1 = (if positive (pl_max_devices p) then p
                else if positive (pl_devices p) then p\<lparr>pl_max_devices := pl_devices p\<rparr> else p\<lparr>pl_max_devices := Some 3\<rparr>);
          p2 = (if positive (pl_devices p1) then p1 else p1\<lparr>pl_devices := pl_max_devices p1\<rparr>);
          p3 = (if pl_1m p2 = None then p2\<lparr>pl_1m := pl_monthly p2\<rparr> else p2);
          p4 = (if pl_monthly p3 = None then p3\<lparr>pl_monthly := pl_1m p3\<rparr> else p3)
      in complete_traffic p4)"

definition normalize_changed :: "plan \<Rightarrow> plan" where
  "normalize_changed p =
     (let p1 = (if positive (pl_max_devices p) \<and> \<not> positive (pl_devices p) then p\<lparr>pl_devices := pl_max_devices p\<rparr>
                else if positive (pl_devices p) \<and> \<not> positive (pl_max_devices p) then p\<lparr>pl_max_devices := pl_devices p\<rparr> else p);
          p2 = (if pl_1m p1 \<noteq> None \<and> pl_monthly p1 = None then p1\<lparr>pl_monthly := pl_1m p1\<rparr>
                else if pl_monthly p1 \<noteq> None \<and> pl_1m p1 = None then p1\<lparr>pl_1m := pl_monthly p1\<rparr> else p1)
      in complete_traffic p2)"

section \<open>Readings of a row\<close>

text \<open>Prices read through float64 and print with two decimals; NULL and 0 read as absent.\<close>

definition shown_price :: "int option \<Rightarrow> string option" where
  "shown_price x = (case x of None \<Rightarrow> None | Some c \<Rightarrow> if c > 0 then Some (cents_str (fmt2 (f64_of_cents c))) else None)"

definition Price :: "plan \<Rightarrow> string" where
  "Price p = (case shown_price (pl_1m p) of Some s \<Rightarrow> s | None \<Rightarrow> text_or ''0.00'' (shown_price (pl_monthly p)))"

definition Price3mStr :: "plan \<Rightarrow> string" where
  "Price3mStr p = text_or [] (shown_price (pl_3m p))"

definition Price6mStr :: "plan \<Rightarrow> string" where
  "Price6mStr p = text_or [] (shown_price (pl_6m p))"

definition Price12mStr :: "plan \<Rightarrow> string" where
  "Price12mStr p = text_or [] (shown_price (pl_12m p))"

definition TrafficLimitBytes :: "plan \<Rightarrow> int" where
  "TrafficLimitBytes p =
     (if positive (pl_traffic p) then int_or 0 (pl_traffic p)
      else if positive (pl_gb p) then wrap64 (int_or 0 (pl_gb p) * gib) else 0)"

definition TrafficGB :: "plan \<Rightarrow> int" where
  "TrafficGB p =
     (if positive (pl_gb p) then int_or 0 (pl_gb p)
      else if positive (pl_traffic p) then wrap32 (int_or 0 (pl_traffic p) div gib) else 0)"

definition MaxDevicesCount :: "plan \<Rightarrow> int" where
  "MaxDevicesCount p =
     (if positive (pl_max_devices p) then int_or 0 (pl_max_devices p)
      else if positive (pl_devices p) then int_or 0 (pl_devices p) else 3)"

definition HasProtocol :: "plan \<Rightarrow> string \<Rightarrow> bool" where
  "HasProtocol p s = List.member (pl_protocols p) s"

text \<open>The presentation of a payment gateway, from its configuration.\<close>

definition config_text :: "gateway \<Rightarrow> string \<Rightarrow> string option" where
  "config_text g key =
     (case gw_config g of Config m \<Rightarrow> (case map_of m key of Some s \<Rightarrow> if s = [] then None else Some s | None \<Rightarrow> None)
      | _ \<Rightarrow> None)"

definition DisplayTitle :: "gateway \<Rightarrow> string" where
  "DisplayTitle g = text_or (gw_name g) (config_text g ''title'')"

definition GatewayType :: "gateway \<Rightarrow> string" where
  "GatewayType g =
     (case config_text g ''type'' of Some s \<Rightarrow> s
      | None \<Rightarrow> if gw_name g = ''stars'' then ''stars'' else if gw_name g = ''cryptobot'' then ''cryptobot'' else ''webhook'')"

definition Instructions :: "gateway \<Rightarrow> string" where
  "Instructions g = text_or [] (config_text g ''instructions'')"

section \<open>Requests\<close>

record plan_request =
  cp_name :: string
  cp_price :: string
  cp_1m :: string
  cp_3m :: string
  cp_6m :: string
  cp_12m :: string
  cp_devices :: int
  cp_max :: int
  cp_traffic :: "int option"
  cp_gb :: int
  cp_protocols :: "string list"
  cp_trial :: bool
  cp_hours :: int
  cp_stars :: int

record plan_change =
  up_name :: string
  up_price :: string
  up_1m :: string
  up_3m :: string
  up_6m :: string
  up_12m :: string
  up_devices :: "int option"
  up_max :: "int option"
  up_traffic :: "int option"
  up_gb :: "int option"
  up_protocols :: "string list"
  up_active :: "bool option"
  up_trial :: "bool option"
  up_hours :: "int option"
  up_stars :: "int option"

definition allowed_protocols :: "string list" where
  "allowed_protocols = [''wireguard'', ''amneziawg'', ''vless'']"

definition clean_protocol :: "string \<Rightarrow> string" where
  "clean_protocol p = to_lower (trim_space p)"

definition validateProtocols :: "string list \<Rightarrow> bool" where
  "validateProtocols ps \<longleftrightarrow> ps \<noteq> [] \<and> list_all (\<lambda>p. List.member allowed_protocols (clean_protocol p)) ps"

text \<open>A quota of gigabytes wins over one of bytes; the request's int64 is cut to the column's int32.\<close>

definition quota :: "int \<Rightarrow> int option \<Rightarrow> (int option \<times> int option) option" where
  "quota gb bytes =
     (if gb > 0 then Some (Some (wrap64 (gb * gib)), Some (wrap32 gb))
      else case bytes of None \<Rightarrow> None | Some b \<Rightarrow> Some (Some b, Some (wrap32 (quot b gib))))"

definition new_plan :: "(string \<Rightarrow> int option) \<Rightarrow> uuid \<Rightarrow> plan_request \<Rightarrow> int \<Rightarrow> string \<Rightarrow> plan" where
  "new_plan scan pid req price text_1m =
     (let dev = (if cp_max req > 0 then cp_max req else if cp_devices req > 0 then cp_devices req else 3);
          hours = (if cp_trial req \<and> cp_hours req \<le> 0 then 24 else cp_hours req);
          given = (\<lambda>s. if s = [] then None else scan s);
          q = (case quota (cp_gb req) (cp_traffic req) of None \<Rightarrow> (None, None) | Some b \<Rightarrow> b)
      in \<lparr>pl_id = pid, pl_name = trim_space (cp_name req), pl_monthly = Some price, pl_traffic = fst q,
          pl_stars = (if cp_stars req > 0 then Some (cp_stars req) else None), pl_1m = scan text_1m,
          pl_3m = given (cp_3m req), pl_6m = given (cp_6m req), pl_12m = given (cp_12m req),
          pl_devices = Some dev, pl_max_devices = Some dev, pl_gb = snd q,
          pl_protocols = List.map clean_protocol (cp_protocols req), pl_active = Some True,
          pl_trial = Some (cp_trial req), pl_trial_hours = (if hours > 0 then Some hours else None)\<rparr>)"

definition HandleCreatePlan ::
    "(plan_request \<Rightarrow> bool) \<Rightarrow> (string \<Rightarrow> int option) \<Rightarrow> auth_ctx option \<Rightarrow> uuid \<Rightarrow> plan_request option \<Rightarrow> bdb \<Rightarrow> (http_error + plan) \<times> bdb" where
  "HandleCreatePlan valid scan ctx pid body d =
     (case body of None \<Rightarrow> (Inl BadRequest, d)
      | Some req \<Rightarrow>
          if \<not> valid req then (Inl BadRequest, d)
          else if \<not> validateProtocols (cp_protocols req) then (Inl BadRequest, d)
          else
            (let first = (if cp_1m req = [] then cp_price req else cp_1m req);
                 text_1m = (if first = [] then ''0'' else first)
             in case scan text_1m of None \<Rightarrow> (Inl BadRequest, d)
                | Some price \<Rightarrow>
                   (case CreatePlan (normalize_new (new_plan scan pid req price text_1m)) d of
                      Inl _ \<Rightarrow> (Inl InternalError, d)
                    | Inr (p, d') \<Rightarrow> (Inr p, audit_log ctx ''create'' ''plan'' (Some (pl_id p)) NoDiff d'))))"

definition changed_plan :: "(string \<Rightarrow> int option) \<Rightarrow> plan_change \<Rightarrow> plan \<Rightarrow> plan" where
  "changed_plan scan req p =
     (let rescan = (\<lambda>s old. if s = [] then old else case scan s of None \<Rightarrow> old | Some c \<Rightarrow> Some c);
          price = (if up_price req \<noteq> [] then rescan (up_price req) (pl_monthly p) else rescan (up_1m req) (pl_monthly p));
          first = (if up_1m req \<noteq> [] then rescan (up_1m req) (pl_1m p) else rescan (up_price req) (pl_1m p));
          dev = (if positive (up_max req) then up_max req else if positive (up_devices req) then up_devices req else pl_devices p);
          q = (case quota (int_or 0 (up_gb req)) (up_traffic req) of None \<Rightarrow> (pl_traffic p, pl_gb p) | Some b \<Rightarrow> b);
          pos = (\<lambda>x old. case x of None \<Rightarrow> old | Some n \<Rightarrow> if n > 0 then Some n else None);
          flag = (\<lambda>x old. case x of None \<Rightarrow> old | Some b \<Rightarrow> Some b)
      in p\<lparr>pl_name := (if up_name req = [] then pl_name p else trim_space (up_name req)), pl_monthly := price,
           pl_traffic := fst q, pl_stars := pos (up_stars req) (pl_stars p), pl_1m := first,
           pl_3m := rescan (up_3m req) (pl_3m p), pl_6m := rescan (up_6m req) (pl_6m p), pl_12m := rescan (up_12m req) (pl_12m p),
           pl_devices := dev, pl_max_devices := dev, pl_gb := snd q,
           pl_protocols := (if up_protocols req = [] then pl_protocols p else List.map clean_protocol (up_protocols req)),
           pl_active := flag (up_active req) (pl_active p), pl_trial := flag (up_trial req) (pl_trial p),
           pl_trial_hours := pos (up_hours req) (pl_trial_hours p)\<rparr>)"

definition HandleUpdatePlan ::
    "(plan_change \<Rightarrow> bool) \<Rightarrow> (string \<Rightarrow> int option) \<Rightarrow> auth_ctx option \<Rightarrow> uuid option \<Rightarrow> plan_change option \<Rightarrow> bdb \<Rightarrow> (http_error + plan) \<times> bdb" where
  "HandleUpdatePlan valid scan ctx target body d =
     (case target of None \<Rightarrow> (Inl BadRequest, d)
      | Some pid \<Rightarrow> (case body of None \<Rightarrow> (Inl BadRequest, d)
        | Some req \<Rightarrow>
            if \<not> valid req then (Inl BadRequest, d)
            else (case GetPlanByID pid d of Inl _ \<Rightarrow> (Inl NotFound, d)
              | Inr p \<Rightarrow>
                  if up_protocols req \<noteq> [] \<and> \<not> validateProtocols (up_protocols req) then (Inl BadRequest, d)
                  else (case UpdatePlan (normalize_changed (changed_plan scan req p)) d of
                      Inl _ \<Rightarrow> (Inl InternalError, d)
                    | Inr (q, d') \<Rightarrow> (Inr q, audit_log ctx ''update'' ''plan'' (Some pid) NoDiff d')))))"

definition HandleDeletePlan :: "auth_ctx option \<Rightarrow> uuid option \<Rightarrow> bdb \<Rightarrow> http_error option \<times> bdb" where
  "HandleDeletePlan ctx target d =
     (case target of None \<Rightarrow> (Some BadRequest, d)
      | Some pid \<Rightarrow>
         (case GetPlanByID pid d of Inl _ \<Rightarrow> (Some NotFound, d)
          | Inr _ \<Rightarrow> (case DeletePlan pid d of Inl _ \<Rightarrow> (Some InternalError, d)
              | Inr d' \<Rightarrow> (None, audit_log ctx ''delete'' ''plan'' (Some pid) NoDiff d'))))"

definition HandleGetPlan :: "uuid option \<Rightarrow> bdb \<Rightarrow> http_error + plan" where
  "HandleGetPlan target d =
     (case target of None \<Rightarrow> Inl BadRequest | Some pid \<Rightarrow> or_error NotFound (GetPlanByID pid d))"

definition HandleListPlans :: "bdb \<Rightarrow> http_error + plan list" where
  "HandleListPlans d = or_error InternalError (ListPlans d)"

definition HandleGetTrial :: "bdb \<Rightarrow> http_error + plan" where
  "HandleGetTrial d = or_error NotFound (GetTrialPlan d)"

section \<open>Histories of the plan editor\<close>

text \<open>What the tags of the request structs promise, and that a quota of gigabytes fits the column.\<close>

definition tags_documented :: "(plan_request \<Rightarrow> bool) \<Rightarrow> (plan_change \<Rightarrow> bool) \<Rightarrow> bool" where
  "tags_documented valid valid' \<longleftrightarrow>
     (\<forall>r. valid r \<longrightarrow> 0 \<le> cp_gb r \<and> 0 \<le> int_or 0 (cp_traffic r)) \<and>
     (\<forall>r. valid' r \<longrightarrow> 0 \<le> int_or 0 (up_gb r) \<and> 0 \<le> int_or 0 (up_traffic r))"

definition quota_fits :: "int \<Rightarrow> int option \<Rightarrow> bool" where
  "quota_fits gb bytes \<longleftrightarrow> gb < 2147483648 \<and> int_or 0 bytes < 2147483648 * gib"

inductive plan_step ::
    "(plan_request \<Rightarrow> bool) \<Rightarrow> (plan_change \<Rightarrow> bool) \<Rightarrow> (string \<Rightarrow> int option) \<Rightarrow> bdb \<Rightarrow> bdb \<Rightarrow> bool" for valid valid' scan where
  create: "quota_fits (cp_gb req) (cp_traffic req) \<Longrightarrow>
    plan_step valid valid' scan d (snd (HandleCreatePlan valid scan ctx pid (Some req) d))"
| update: "quota_fits (int_or 0 (up_gb req)) (up_traffic req) \<Longrightarrow>
    plan_step valid valid' scan d (snd (HandleUpdatePlan valid' scan ctx target (Some req) d))"
| delete: "plan_step valid valid' scan d (snd (HandleDeletePlan ctx target d))"

text \<open>A well-formed row: it is priced, serves at least one device and one known protocol, and its two
  quotas agree.\<close>

definition plan_ok :: "plan \<Rightarrow> bool" where
  "plan_ok p \<longleftrightarrow> pl_monthly p \<noteq> None \<and> pl_1m p \<noteq> None \<and>
     positive (pl_devices p) \<and> pl_max_devices p = pl_devices p \<and>
     pl_protocols p \<noteq> [] \<and> set (pl_protocols p) \<subseteq> set allowed_protocols \<and>
     0 \<le> int_or 0 (pl_traffic p) \<and> int_or 0 (pl_gb p) = int_or 0 (pl_traffic p) div gib \<and>
     int_or 0 (pl_traffic p) < 2147483648 * gib"

definition plans_ok :: "bdb \<Rightarrow> bool" where
  "plans_ok d \<longleftrightarrow> distinct (List.map pl_id (db_plans d)) \<and> distinct (List.map pl_name (db_plans d)) \<and>
     (\<forall>p\<in>set (db_plans d). plan_ok p)"

lemma quota_agrees:
  assumes "quota gb bytes = Some (t, g)" "quota_fits gb bytes" "0 \<le> int_or 0 bytes"
  shows "0 \<le> int_or 0 t" "int_or 0 g = int_or 0 t div gib" "int_or 0 t < 2147483648 * gib"
proof -
  have "0 \<le> int_or 0 t \<and> int_or 0 g = int_or 0 t div gib \<and> int_or 0 t < 2147483648 * gib"
  proof (cases "gb > 0")
    case True
    then have gb: "0 < gb" "gb < 2147483648" using assms(2) by (simp_all add: quota_fits_def)
    then have "t = Some (gb * gib)" "g = Some gb" using assms(1) True by (auto simp: quota_def gib_def)
    then show ?thesis using gb by (simp add: gib_def)
  next
    case False
    then obtain b where b: "bytes = Some b" using assms(1) by (auto simp: quota_def split: option.splits)
    then have r: "0 \<le> b" "b < 2147483648 * gib" using assms(2,3) by (simp_all add: quota_fits_def)
    then have "0 \<le> b div gib" "b div gib < 2147483648" by (simp_all add: gib_def)
    then show ?thesis using assms(1) False b r by (auto simp: quota_def gib_def)
  qed
  then show "0 \<le> int_or 0 t" "int_or 0 g = int_or 0 t div gib" "int_or 0 t < 2147483648 * gib" by blast+
qed

text \<open>Completing agreeing quotas changes neither reading.\<close>

lemma complete_traffic_ok:
  assumes "0 \<le> int_or 0 (pl_traffic p)" "int_or 0 (pl_gb p) = int_or 0 (pl_traffic p) div gib"
    "int_or 0 (pl_traffic p) < 2147483648 * gib"
  shows "int_or 0 (pl_traffic (complete_traffic p)) = int_or 0 (pl_traffic p)"
    "int_or 0 (pl_gb (complete_traffic p)) = int_or 0 (pl_gb p)"
proof -
  have z: "int_or 0 (pl_gb p) = 0" if "int_or 0 (pl_traffic p) = 0" using that assms(2) by simp
  have b: "0 \<le> int_or 0 (pl_traffic p) div gib" "int_or 0 (pl_traffic p) div gib < 2147483648"
    using assms by (simp_all add: gib_def)
  show "int_or 0 (pl_traffic (complete_traffic p)) = int_or 0 (pl_traffic p)"
    using z by (auto simp: complete_traffic_def positive_def)
  show "int_or 0 (pl_gb (complete_traffic p)) = int_or 0 (pl_gb p)"
    using b assms(2) by (auto simp: complete_traffic_def positive_def)
qed

lemma complete_traffic_frame [simp]:
  "pl_id (complete_traffic p) = pl_id p" "pl_name (complete_traffic p) = pl_name p"
  "pl_monthly (complete_traffic p) = pl_monthly p" "pl_1m (complete_traffic p) = pl_1m p"
  "pl_devices (complete_traffic p) = pl_devices p" "pl_max_devices (complete_traffic p) = pl_max_devices p"
  "pl_protocols (complete_traffic p) = pl_protocols p"
  by (simp_all add: complete_traffic_def)

lemma complete_ok: "plan_ok p \<Longrightarrow> plan_ok (complete_traffic p)"
  using complete_traffic_ok[of p] by (simp add: plan_ok_def)

lemma cleaned_protocols:
  "validateProtocols ps \<Longrightarrow> List.map clean_protocol ps \<noteq> [] \<and> set (List.map clean_protocol ps) \<subseteq> set allowed_protocols"
  by (auto simp: validateProtocols_def list_all_iff)

lemma normalize_well_formed:
  assumes "plan_ok p"
  shows "normalize_new p = complete_traffic p" "normalize_changed p = complete_traffic p"
proof -
  have "pl_monthly p \<noteq> None" "pl_1m p \<noteq> None" "positive (pl_devices p)" "positive (pl_max_devices p)"
    using assms by (simp_all add: plan_ok_def)
  then show "normalize_new p = complete_traffic p" "normalize_changed p = complete_traffic p"
    by (auto simp: normalize_new_def normalize_changed_def Let_def)
qed

lemma normalized_ok: "plan_ok p \<Longrightarrow> plan_ok (normalize_new p)" "plan_ok p \<Longrightarrow> plan_ok (normalize_changed p)"
  using complete_ok by (simp_all add: normalize_well_formed)

lemma normalize_id [simp]:
  "pl_id (normalize_new p) = pl_id p" "pl_id (normalize_changed p) = pl_id p"
  by (simp_all add: normalize_new_def normalize_changed_def Let_def)

lemma new_plan_ok:
  assumes "validateProtocols (cp_protocols req)" "scan text_1m = Some price"
    "quota_fits (cp_gb req) (cp_traffic req)" "0 \<le> int_or 0 (cp_traffic req)"
  shows "plan_ok (new_plan scan pid req price text_1m)"
proof (cases "quota (cp_gb req) (cp_traffic req)")
  case None
  then show ?thesis using assms(2) cleaned_protocols[OF assms(1)]
    by (simp add: plan_ok_def new_plan_def Let_def positive_def gib_def)
next
  case (Some q)
  then obtain t g where q: "quota (cp_gb req) (cp_traffic req) = Some (t, g)" by (cases q) simp
  show ?thesis using quota_agrees[OF q assms(3,4)] assms(2) cleaned_protocols[OF assms(1)] q
    by (simp add: plan_ok_def new_plan_def Let_def positive_def)
qed

lemma changed_plan_ok:
  assumes "plan_ok p" "up_protocols req = [] \<or> validateProtocols (up_protocols req)"
    "quota_fits (int_or 0 (up_gb req)) (up_traffic req)" "0 \<le> int_or 0 (up_traffic req)"
  shows "plan_ok (changed_plan scan req p)"
proof -
  have pr: "(if up_protocols req = [] then pl_protocols p else List.map clean_protocol (up_protocols req)) \<noteq> []"
    "set (if up_protocols req = [] then pl_protocols p else List.map clean_protocol (up_protocols req)) \<subseteq> set allowed_protocols"
    using assms(1,2) cleaned_protocols[of "up_protocols req"] by (auto simp: plan_ok_def)
  show ?thesis
  proof (cases "quota (int_or 0 (up_gb req)) (up_traffic req)")
    case None
    then show ?thesis using assms(1) pr by (auto simp: plan_ok_def changed_plan_def Let_def split: option.splits)
  next
    case (Some q)
    then obtain t g where q: "quota (int_or 0 (up_gb req)) (up_traffic req) = Some (t, g)" by (cases q) simp
    show ?thesis using quota_agrees[OF q assms(3,4)] assms(1) pr q
      by (auto simp: plan_ok_def changed_plan_def Let_def split: option.splits)
  qed
qed

text \<open>What one request does to the table.\<close>

lemma audit_log_plans [simp]: "db_plans (audit_log c a t r df d) = db_plans d"
  by (simp add: audit_log_def Let_def CreateAuditLog_def)

lemma CreatePlan_keeps:
  "CreatePlan p d = Inr (q, d') \<Longrightarrow> plan_ok p \<Longrightarrow> plans_ok d \<Longrightarrow> plans_ok d'"
  by (auto simp: CreatePlan_def plans_ok_def split: if_splits)

lemma UpdatePlan_keeps:
  assumes "UpdatePlan p d = Inr (q, d')" "plan_ok p" "plans_ok d"
  shows "plans_ok d'"
proof -
  have u: "\<forall>r\<in>set (db_plans d). pl_id r \<noteq> pl_id p \<longrightarrow> pl_name r \<noteq> pl_name p"
    and d': "db_plans d' = List.map (\<lambda>r. if pl_id r = pl_id p then p else r) (db_plans d)"
    using assms(1) by (auto simp: UpdatePlan_def split: if_splits)
  have ids: "List.map pl_id (db_plans d') = List.map pl_id (db_plans d)" by (simp add: d')
  have "distinct (List.map pl_name (db_plans d'))"
    using assms(3) u unfolding d' plans_ok_def
    by (induction "db_plans d" arbitrary: d) (auto simp: distinct_map inj_on_def image_iff)
  moreover have "\<forall>r\<in>set (db_plans d'). plan_ok r" using assms(2,3) by (auto simp: plans_ok_def d')
  ultimately show ?thesis using assms(3) ids by (simp add: plans_ok_def)
qed

lemma DeletePlan_keeps: "DeletePlan pid d = Inr d' \<Longrightarrow> plans_ok d \<Longrightarrow> plans_ok d'"
  by (auto simp: DeletePlan_def plans_ok_def distinct_map_filter split: if_splits)

lemma GetPlanByID_InrD: "GetPlanByID pid d = Inr p \<Longrightarrow> p \<in> set (db_plans d) \<and> pl_id p = pid"
  using find_Some_in[of _ "db_plans d" p] by (auto simp: GetPlanByID_def split: if_splits option.splits)

lemma create_keeps:
  assumes "plans_ok d" "tags_documented valid valid'" "quota_fits (cp_gb req) (cp_traffic req)"
  shows "plans_ok (snd (HandleCreatePlan valid scan ctx pid (Some req) d))"
  using assms
  by (auto simp: HandleCreatePlan_def Let_def tags_documented_def plans_ok_def[of "audit_log _ _ _ _ _ _"] plans_ok_def[symmetric]
      intro!: new_plan_ok normalized_ok dest!: CreatePlan_keeps split: option.splits sum.splits)

lemma update_keeps:
  assumes "plans_ok d" "tags_documented valid valid'" "quota_fits (int_or 0 (up_gb req)) (up_traffic req)"
  shows "plans_ok (snd (HandleUpdatePlan valid' scan ctx target (Some req) d))"
proof -
  have c: "plan_ok (normalize_changed (changed_plan scan req p))"
    if "valid' req" "GetPlanByID pid d = Inr p" "up_protocols req = [] \<or> validateProtocols (up_protocols req)" for pid p
  proof -
    have "plan_ok p" using GetPlanByID_InrD[OF that(2)] assms(1) by (simp add: plans_ok_def)
    then show ?thesis using assms(2,3) that by (intro normalized_ok changed_plan_ok) (auto simp: tags_documented_def)
  qed
  show ?thesis using assms(1) c
    by (auto simp: HandleUpdatePlan_def plans_ok_def[of "audit_log _ _ _ _ _ _"] plans_ok_def[symmetric]
      dest!: UpdatePlan_keeps split: option.splits sum.splits)
qed

lemma plan_step_keeps:
  "plan_step valid valid' scan d d' \<Longrightarrow> tags_documented valid valid' \<Longrightarrow> plans_ok d \<Longrightarrow> plans_ok d'"
proof (induction rule: plan_step.induct)
  case (delete d ctx target)
  then show ?case
    by (auto simp: HandleDeletePlan_def plans_ok_def[of "audit_log _ _ _ _ _ _"] plans_ok_def[symmetric]
      dest!: DeletePlan_keeps split: option.splits sum.splits)
qed (auto intro: create_keeps update_keeps)

section \<open>Properties\<close>


definition demo_plan_request :: plan_request where
  "demo_plan_request = \<lparr>cp_name = ''Pro'', cp_price = [], cp_1m = [], cp_3m = [], cp_6m = [], cp_12m = [], cp_devices = 0,
     cp_max = 5, cp_traffic = None, cp_gb = 100, cp_protocols = [''VLESS''], cp_trial = False, cp_hours = 0, cp_stars = 0\<rparr>"

definition demo_scan :: "string \<Rightarrow> int option" where
  "demo_scan s = (if s = ''0'' then Some 0 else None)"

definition demo_created :: plan where
  "demo_created = new_plan demo_scan ''p2'' demo_plan_request 0 ''0''"

definition demo_valid :: "plan_request \<Rightarrow> bool" where
  "demo_valid r \<longleftrightarrow> 0 \<le> cp_gb r \<and> 0 \<le> int_or 0 (cp_traffic r)"

lemma demo_plan_created:
  "fst (HandleCreatePlan demo_valid demo_scan None ''p2'' (Some demo_plan_request) (demo_bdb\<lparr>db_plans := []\<rparr>)) = Inr demo_created"
  "db_plans (snd (HandleCreatePlan demo_valid demo_scan None ''p2'' (Some demo_plan_request) (demo_bdb\<lparr>db_plans := []\<rparr>))) = [demo_created]"
  by code_simp+


lemma unlisted_price: "pl_monthly p = Some 0 \<Longrightarrow> pl_1m p = Some 0 \<Longrightarrow> fmt2 (total_price 1 p) = 500"
proof -
  assume "pl_monthly p = Some 0" "pl_1m p = Some 0"
  then have "total_price 1 p = f64_mul (f64_of_cents 500) (f64_of_int 1)"
    by (simp add: total_price_def listed_price_def discount_of_def)
  moreover have "fmt2 (f64_mul (f64_of_cents 500) (f64_of_int 1)) = 500" by code_simp
  ultimately show ?thesis by simp
qed

text \<open>
  A plan created without a price is not free: it is stored at 0, but an invoice takes 0 for a missing
  price and charges the built-in 5.00 for its first month.
\<close>
theorem free_plan_is_charged:
  assumes create: "HandleCreatePlan valid scan ctx pid (Some req) d = (Inr p, d1)"
    and free: "cp_price req = []" "cp_1m req = []" "scan ''0'' = Some 0"
    and invoice: "CreateInvoice ctx' (Some ireq) oid ext now d1 = (Inr y, d2)" "GetPlanByID (ir_plan ireq) d1 = Inr p"
    and plain: "trim_space (ir_promo ireq) = []" "ir_gateway ireq \<noteq> ''stars''" "ir_months ireq = 1"
  shows "pl_1m p = Some 0 \<and> iy_amount y = ''5.00'' \<and> (\<exists>r\<in>set (db_orders d2). o_id r = oid \<and> o_amount r = 500)"
proof -
  have p: "p = normalize_new (new_plan scan pid req 0 ''0'')"
    using create free by (auto simp: HandleCreatePlan_def CreatePlan_def Let_def split: if_splits sum.splits)
  then have z: "pl_1m p = Some 0" "pl_monthly p = Some 0"
    using free(3) by (auto simp: normalize_new_def new_plan_def Let_def)
  have "cents_str 500 = ''5.00''" by code_simp
  then show ?thesis
    using CreateInvoice_InrD[OF invoice plain(1,2) refl] unlisted_price[OF z(2,1)] z(1) plain(3) by auto
qed

lemma free_plan_is_charged_witness:
  "iy_amount (demo_invoice\<lparr>iy_amount := ''5.00''\<rparr>) = ''5.00'' \<and> pl_1m demo_created = Some 0"
proof -
  let ?d = "demo_bdb\<lparr>db_plans := []\<rparr>"
  let ?h = "HandleCreatePlan demo_valid demo_scan None ''p2'' (Some demo_plan_request) ?d"
  let ?i = "CreateInvoice (Some demo_owner_ctx) (Some (demo_invoice_request\<lparr>ir_plan := ''p2''\<rparr>)) ''o9'' ''inv_9'' 5 (snd ?h)"
  have h: "?h = (Inr demo_created, snd ?h)" using demo_plan_created by (metis prod.collapse)
  have i: "fst ?i = Inr (demo_invoice\<lparr>iy_amount := ''5.00''\<rparr>)" by code_simp
  then have i': "?i = (Inr (demo_invoice\<lparr>iy_amount := ''5.00''\<rparr>), snd ?i)" by (metis prod.collapse)
  have g: "GetPlanByID (ir_plan (demo_invoice_request\<lparr>ir_plan := ''p2''\<rparr>)) (snd ?h) = Inr demo_created" by code_simp
  show ?thesis
    using free_plan_is_charged[OF h _ _ _ i' g]
    by (simp add: demo_plan_request_def demo_scan_def demo_invoice_request_def trim_space_def)
qed

end
