(* ===== verification/Users.thy ===== *)
theory Users
  imports Plans Provisioner Admin_Console
begin

text \<open>
  Subscribers (src/internal/controlplane/api/handler/user.go, store/user.sql.go, store/repo_user.go,
  store/user_crm.go, api/request/pagination.go): the statements with the schema's constraints, the
  one-time codes that prove an e-mail address, and the handlers of the API. The struct validator and
  the HMAC are arguments, as are fresh identifiers and the draws of the provisioner; now is one instant
  per request. The state adds to the database the table of verification codes, the customized bot
  texts, which hold the policies, and the nodes whose configuration was pushed.
\<close>

section \<open>State\<close>

record verification =
  ot_id :: uuid
  ot_tg :: int
  ot_email :: string
  ot_hash :: string
  ot_purpose :: string
  ot_attempts :: int
  ot_expires :: time
  ot_verified :: "time option"
  ot_created :: time

record crm =
  cm_db :: bdb
  cm_otps :: "verification list"
  cm_replies :: "(string \<times> string) list"
  cm_pushed :: "uuid list"

section \<open>Statements on users\<close>

definition shares :: "'b option \<Rightarrow> 'b option \<Rightarrow> bool" where
  "shares x y \<longleftrightarrow> x \<noteq> None \<and> x = y"

text \<open>The UNIQUE columns: username, subscription_token, and email, telegram_id and referral_code where not NULL.\<close>

definition user_clash :: "user \<Rightarrow> user \<Rightarrow> bool" where
  "user_clash u v \<longleftrightarrow> u_username u = u_username v \<or> u_token u = u_token v \<or> shares (u_email u) (u_email v) \<or>
     shares (u_tg u) (u_tg v) \<or> shares (u_refcode u) (u_refcode v)"

definition user_refs_ok :: "user \<Rightarrow> bdb \<Rightarrow> bool" where
  "user_refs_ok u d \<longleftrightarrow> set_option (u_plan u) \<subseteq> pl_id ` set (db_plans d) \<and> set_option (u_referrer u) \<subseteq> u_id ` set (db_users d)"

definition insert_user :: "user \<Rightarrow> bdb \<Rightarrow> db_error + (user \<times> bdb)" where
  "insert_user u d =
     (if (\<exists>v\<in>set (db_users d). u_id v = u_id u \<or> user_clash u v) then Inl UniqueViolation
      else if \<not> user_refs_ok u d then Inl ForeignKeyViolation
      else Inr (u, d\<lparr>db_users := u # db_users d\<rparr>))"

text \<open>UPDATE ... RETURNING on a unique column: at most one row changes.\<close>

definition update_user :: "string \<Rightarrow> (user \<Rightarrow> bool) \<Rightarrow> (user \<Rightarrow> user) \<Rightarrow> bdb \<Rightarrow> db_error + (user \<times> bdb)" where
  "update_user statement P f d =
     (if statement \<in> db_down d then Inl StatementFailed
      else case List.find P (db_users d) of
        None \<Rightarrow> Inl NoRows
      | Some u \<Rightarrow>
          if (\<exists>v\<in>set (db_users d). u_id v \<noteq> u_id u \<and> user_clash (f u) v) then Inl UniqueViolation
          else if \<not> user_refs_ok (f u) d then Inl ForeignKeyViolation
          else Inr (f u, update_users (\<lambda>v. u_id v = u_id u) f d))"

definition select_user :: "string \<Rightarrow> (user \<Rightarrow> bool) \<Rightarrow> 'a db_scheme \<Rightarrow> db_error + user" where
  "select_user statement P d =
     (if statement \<in> db_down d then Inl StatementFailed
      else case List.find P (db_users d) of None \<Rightarrow> Inl NoRows | Some u \<Rightarrow> Inr u)"

definition new_user :: "uuid \<Rightarrow> uuid \<Rightarrow> string \<Rightarrow> user" where
  "new_user uid tok username = \<lparr>u_id = uid, u_email = None, u_username = username, u_password_hash = None,
     u_status = Some ''active'', u_plan = None, u_limit = Some 0, u_used = Some 0, u_expires = None,
     u_token = tok, u_note = None, u_tg = None, u_tg_name = None, u_trial_used = Some False,
     u_referrer = None, u_refcode = None, u_banned = Some False, u_ban_reason = None,
     u_first = None, u_last = None, u_lang = Some ''en''\<rparr>"

definition CreateUser :: "user \<Rightarrow> bdb \<Rightarrow> db_error + (user \<times> bdb)" where
  "CreateUser u d = (if ''CreateUser'' \<in> db_down d then Inl StatementFailed else insert_user u d)"

definition GetUserByEmail :: "string \<Rightarrow> 'a db_scheme \<Rightarrow> db_error + user" where
  "GetUserByEmail email = select_user ''GetUserByEmail'' (\<lambda>u. email \<noteq> [] \<and> u_email u = Some email)"

definition GetUserByUsername :: "string \<Rightarrow> 'a db_scheme \<Rightarrow> db_error + user" where
  "GetUserByUsername name = select_user ''GetUserByUsername'' (\<lambda>u. u_username u = name)"

definition GetUserByTelegramID :: "int \<Rightarrow> 'a db_scheme \<Rightarrow> db_error + user" where
  "GetUserByTelegramID tg = select_user ''GetUserByTelegramID'' (\<lambda>u. u_tg u = Some tg)"

definition GetUserByReferralCode :: "string \<Rightarrow> 'a db_scheme \<Rightarrow> db_error + user" where
  "GetUserByReferralCode code = select_user ''GetUserByReferralCode'' (\<lambda>u. code \<noteq> [] \<and> u_refcode u = Some code)"

definition GetUserBySubscriptionToken :: "uuid \<Rightarrow> 'a db_scheme \<Rightarrow> db_error + user" where
  "GetUserBySubscriptionToken tok = select_user ''GetUserBySubscriptionToken'' (\<lambda>u. u_token u = tok)"

definition nonempty :: "string \<Rightarrow> string option" where
  "nonempty s = (if s = [] then None else Some s)"

text \<open>UpdateUser writes every one of its columns.\<close>

definition UpdateUser ::
    "uuid \<Rightarrow> string option \<Rightarrow> string \<Rightarrow> string option \<Rightarrow> string option \<Rightarrow> uuid option \<Rightarrow> int option \<Rightarrow>
     time option \<Rightarrow> string option \<Rightarrow> bdb \<Rightarrow> db_error + (user \<times> bdb)" where
  "UpdateUser uid email name hash status plan limit expires note =
     update_user ''UpdateUser'' (\<lambda>u. u_id u = uid)
       (\<lambda>u. u\<lparr>u_email := email, u_username := name, u_password_hash := hash, u_status := status, u_plan := plan,
              u_limit := limit, u_expires := expires, u_note := note\<rparr>)"

definition UpdateUserEmail :: "uuid \<Rightarrow> string \<Rightarrow> bdb \<Rightarrow> db_error + (user \<times> bdb)" where
  "UpdateUserEmail uid email =
     update_user ''UpdateUserEmail'' (\<lambda>u. u_id u = uid) (\<lambda>u. u\<lparr>u_email := nonempty email\<rparr>)"

definition LinkTelegramEmail :: "int \<Rightarrow> string \<Rightarrow> bdb \<Rightarrow> db_error + (user \<times> bdb)" where
  "LinkTelegramEmail tg email =
     update_user ''LinkTelegramEmail'' (\<lambda>u. u_tg u = Some tg) (\<lambda>u. u\<lparr>u_email := nonempty email\<rparr>)"

definition RebindTelegramUser :: "string \<Rightarrow> int \<Rightarrow> string \<Rightarrow> string \<Rightarrow> string \<Rightarrow> bdb \<Rightarrow> db_error + (user \<times> bdb)" where
  "RebindTelegramUser email tg name fname lname =
     update_user ''RebindTelegramUser'' (\<lambda>u. u_email u = Some email)
       (\<lambda>u. u\<lparr>u_tg := Some tg, u_tg_name := nonempty name, u_first := nonempty fname, u_last := nonempty lname\<rparr>)"

definition UpdateTelegramMetadata ::
    "uuid \<Rightarrow> int \<Rightarrow> string \<Rightarrow> bool \<Rightarrow> uuid option \<Rightarrow> string \<Rightarrow> bdb \<Rightarrow> db_error + (user \<times> bdb)" where
  "UpdateTelegramMetadata uid tg name trial ref code =
     update_user ''UpdateUserTelegram'' (\<lambda>u. u_id u = uid)
       (\<lambda>u. u\<lparr>u_tg := (if tg > 0 then Some tg else None), u_tg_name := nonempty name, u_trial_used := Some trial,
              u_referrer := ref, u_refcode := nonempty code\<rparr>)"

definition ExtendUserSubscription :: "uuid \<Rightarrow> time \<Rightarrow> int \<Rightarrow> bdb \<Rightarrow> db_error + (user \<times> bdb)" where
  "ExtendUserSubscription uid expires extra d =
     (if (\<exists>u\<in>set (db_users d). u_id u = uid \<and> \<not> int8_fits (int_or 0 (u_limit u) + extra)) then Inl NumericRange
      else update_user ''ExtendUserSubscription'' (\<lambda>u. u_id u = uid)
        (\<lambda>u. u\<lparr>u_expires := Some expires, u_limit := map_option (\<lambda>n. n + extra) (u_limit u)\<rparr>) d)"

definition CountReferrals :: "uuid \<Rightarrow> bdb \<Rightarrow> nat" where
  "CountReferrals uid d =
     (if ''CountReferralsByUserID'' \<in> db_down d then 0
      else length (List.filter (\<lambda>u. u_referrer u = Some uid) (db_users d)))"

text \<open>Deleting a user takes its orders along.\<close>

definition delete_user :: "uuid \<Rightarrow> bdb \<Rightarrow> db_error + bdb" where
  "delete_user uid d =
     (case DeleteUser uid d of Inl e \<Rightarrow> Inl e
      | Inr d' \<Rightarrow> Inr (d'\<lparr>db_orders := List.filter (\<lambda>r. o_user r \<noteq> uid) (db_orders d')\<rparr>))"

text \<open>The lead of a Telegram visitor: a row with the Telegram identifier is refreshed, otherwise one is inserted.\<close>

record lead =
  ld_tg :: int
  ld_name :: string
  ld_first :: string
  ld_last :: string
  ld_lang :: string
  ld_ref :: string

definition lead_referrer :: "lead \<Rightarrow> bdb \<Rightarrow> uuid option" where
  "lead_referrer p d =
     (if ld_ref p = [] then None
      else case GetUserByReferralCode (ld_ref p) d of
        Inl _ \<Rightarrow> None | Inr r \<Rightarrow> if int_or 0 (u_tg r) = ld_tg p then None else Some (u_id r))"

definition tg_text :: "string \<Rightarrow> int \<Rightarrow> string" where
  "tg_text prefix tg = prefix @ int_str tg"

definition UpsertTelegramLead :: "lead \<Rightarrow> uuid \<Rightarrow> uuid \<Rightarrow> bdb \<Rightarrow> db_error + (user \<times> bdb)" where
  "UpsertTelegramLead p uid tok d =
     (if ''UpsertTelegramLead'' \<in> db_down d then Inl StatementFailed
      else if Some (ld_tg p) \<in> u_tg ` set (db_users d) then
        update_user [] (\<lambda>u. u_tg u = Some (ld_tg p))
          (\<lambda>u. u\<lparr>u_tg_name := (if ld_name p = [] then u_tg_name u else Some (ld_name p)), u_first := Some (ld_first p),
                 u_last := Some (ld_last p), u_lang := (if ld_lang p = [] then u_lang u else Some (ld_lang p))\<rparr>) d
      else insert_user ((new_user uid tok (if ld_name p = [] then tg_text ''tg_'' (ld_tg p) else ld_name p))
             \<lparr>u_tg := Some (ld_tg p), u_tg_name := Some (ld_name p), u_first := Some (ld_first p),
              u_last := Some (ld_last p), u_lang := Some (ld_lang p), u_status := Some ''lead'',
              u_referrer := lead_referrer p d\<rparr>) d)"

section \<open>One-time codes\<close>

text \<open>A draw below a million, printed with six digits.\<close>

definition GenerateOTPCode :: "nat option \<Rightarrow> string option" where
  "GenerateOTPCode drawn = map_option (\<lambda>n. replicate (6 - length (nat_str n)) (CHR ''0'') @ nat_str n) drawn"

definition otp_salt :: string where
  "otp_salt = ''vpnbuilder_email_salt''"

definition HashOTPCode :: "(string \<Rightarrow> string \<Rightarrow> string) \<Rightarrow> string \<Rightarrow> string \<Rightarrow> string" where
  "HashOTPCode mac code salt = mac salt code"

definition VerifyOTPCode :: "(string \<Rightarrow> string \<Rightarrow> string) \<Rightarrow> string \<Rightarrow> string \<Rightarrow> string \<Rightarrow> bool" where
  "VerifyOTPCode mac input stored salt \<longleftrightarrow> HashOTPCode mac input salt = stored"

definition otp_pending :: "int \<Rightarrow> string \<Rightarrow> verification \<Rightarrow> bool" where
  "otp_pending tg purpose v \<longleftrightarrow> ot_tg v = tg \<and> ot_purpose v = purpose \<and> ot_verified v = None"

definition CreateEmailVerification ::
    "uuid \<Rightarrow> int \<Rightarrow> string \<Rightarrow> string \<Rightarrow> string \<Rightarrow> time \<Rightarrow> time \<Rightarrow> crm \<Rightarrow> (db_error + verification) \<times> crm" where
  "CreateEmailVerification vid tg email hash purpose ttl now st =
     (let kept = (if ''DeleteEmailVerifications'' \<in> db_down (cm_db st) then cm_otps st
                  else List.filter (\<lambda>v. \<not> otp_pending tg purpose v) (cm_otps st));
          v = \<lparr>ot_id = vid, ot_tg = tg, ot_email = email, ot_hash = hash, ot_purpose = purpose, ot_attempts = 3,
               ot_expires = now + ttl div second * second, ot_verified = None, ot_created = now\<rparr>
      in if ''CreateEmailVerification'' \<in> db_down (cm_db st) then (Inl StatementFailed, st\<lparr>cm_otps := kept\<rparr>)
         else if vid \<in> ot_id ` set kept then (Inl UniqueViolation, st\<lparr>cm_otps := kept\<rparr>)
         else (Inr v, st\<lparr>cm_otps := v # kept\<rparr>))"

text \<open>The newest code that is neither used nor expired; a failed query reads as none.\<close>

definition GetActiveEmailVerification :: "int \<Rightarrow> string \<Rightarrow> time \<Rightarrow> crm \<Rightarrow> verification option" where
  "GetActiveEmailVerification tg purpose now st =
     (if ''GetActiveEmailVerification'' \<in> db_down (cm_db st) then None
      else List.find (\<lambda>v. otp_pending tg purpose v \<and> ot_expires v > now) (cm_otps st))"

definition RecordVerificationAttempt :: "uuid \<Rightarrow> bool \<Rightarrow> time \<Rightarrow> crm \<Rightarrow> crm" where
  "RecordVerificationAttempt vid ok now st =
     (if ''RecordVerificationAttempt'' \<in> db_down (cm_db st) then st
      else st\<lparr>cm_otps := List.map (\<lambda>v. if ot_id v = vid
          then (if ok then v\<lparr>ot_verified := Some now\<rparr> else v\<lparr>ot_attempts := ot_attempts v - 1\<rparr>) else v) (cm_otps st)\<rparr>)"

section \<open>Policies\<close>

text \<open>A failed read of the customized texts gives the empty map.\<close>

definition GetBotReplies :: "crm \<Rightarrow> string \<Rightarrow> string option" where
  "GetBotReplies st = (if ''GetBotReplies'' \<in> db_down (cm_db st) then Map.empty else map_of (cm_replies st))"

definition emailPolicy :: "crm \<Rightarrow> string" where
  "emailPolicy st =
     (let p = trim_space (text_or [] (GetBotReplies st ''email_policy'')) in if p = [] then ''optional'' else p)"

definition smtpSimulated :: "crm \<Rightarrow> bool" where
  "smtpSimulated st \<longleftrightarrow> GetBotReplies st ''smtp_simulated'' = Some ''true''"

definition hasRealEmail :: "user \<Rightarrow> bool" where
  "hasRealEmail u \<longleftrightarrow> trim_space (text_or [] (u_email u)) \<noteq> [] \<and>
     \<not> has_suffix (to_lower (trim_space (text_or [] (u_email u)))) ''@t.me''"

section \<open>Scanning and listing\<close>

text \<open>fmt.Sscanf with the verb d: blanks but no newline before an optional sign and digits; the rest is ignored.\<close>

definition scan_int :: "string \<Rightarrow> int option" where
  "scan_int s =
     (let t = dropWhile (\<lambda>c. is_space c \<and> c \<noteq> CHR 0x0A) s; sgn_part = take 1 t;
          rest = (if sgn_part = ''-'' \<or> sgn_part = ''+'' then drop 1 t else t); ds = takeWhile is_digit rest;
          n = (if sgn_part = ''-'' then - int (str_nat ds) else int (str_nat ds))
      in if ds \<noteq> [] \<and> int8_fits n then Some n else None)"

record pagination =
  pg_page :: int
  pg_per_page :: int
  pg_offset :: int

definition positive_param :: "int \<Rightarrow> string \<Rightarrow> int" where
  "positive_param dflt s = (case ParseInt s of None \<Rightarrow> dflt | Some n \<Rightarrow> if n > 0 then n else dflt)"

definition ParsePagination :: "string \<Rightarrow> string \<Rightarrow> pagination" where
  "ParsePagination page per_page =
     (let p = positive_param 1 page; n = min 100 (positive_param 20 per_page)
      in \<lparr>pg_page = p, pg_per_page = n, pg_offset = wrap64 ((p - 1) * n)\<rparr>)"

definition total_pages :: "pagination \<Rightarrow> int \<Rightarrow> int" where
  "total_pages pg items = (if pg_per_page pg > 0 \<and> items > 0 then (items + pg_per_page pg - 1) div pg_per_page pg else 0)"

definition listed :: "string \<Rightarrow> uuid option \<Rightarrow> user \<Rightarrow> bool" where
  "listed status plan u \<longleftrightarrow> (status = [] \<or> u_status u = Some status) \<and>
     (case plan of None \<Rightarrow> True | Some p \<Rightarrow> p = nil_uuid \<or> u_plan u = Some p)"

text \<open>LIMIT and OFFSET are int32 in the code; the database refuses a negative OFFSET.\<close>

definition ListUsers :: "string \<Rightarrow> uuid option \<Rightarrow> int \<Rightarrow> int \<Rightarrow> bdb \<Rightarrow> db_error + user list" where
  "ListUsers status plan limit offset d =
     (if ''ListUsers'' \<in> db_down d \<or> offset < 0 \<or> limit < 0 then Inl StatementFailed
      else Inr (take (nat limit) (drop (nat offset) (List.filter (listed status plan) (db_users d)))))"

definition CountUsers :: "string \<Rightarrow> uuid option \<Rightarrow> bdb \<Rightarrow> db_error + int" where
  "CountUsers status plan d =
     (if ''CountUsers'' \<in> db_down d then Inl StatementFailed
      else Inr (int (length (List.filter (listed status plan) (db_users d)))))"

definition list_users :: "string \<Rightarrow> uuid option \<Rightarrow> int \<Rightarrow> int \<Rightarrow> bdb \<Rightarrow> db_error + (user list \<times> int)" where
  "list_users status plan limit offset d =
     (case ListUsers status plan (if limit \<le> 0 then 20 else limit) offset d of Inl e \<Rightarrow> Inl e
      | Inr us \<Rightarrow> (case CountUsers status plan d of Inl e \<Rightarrow> Inl e | Inr n \<Rightarrow> Inr (us, n)))"

definition HandleListUsers ::
    "string \<Rightarrow> uuid option \<Rightarrow> string \<Rightarrow> string \<Rightarrow> bdb \<Rightarrow> http_error + (user list \<times> pagination \<times> int \<times> int)" where
  "HandleListUsers status plan page per_page d =
     (let pg = ParsePagination page per_page
      in case list_users status plan (wrap32 (pg_per_page pg)) (wrap32 (pg_offset pg)) d of
           Inl _ \<Rightarrow> Inl InternalError
         | Inr (us, n) \<Rightarrow> Inr (us, pg, n, total_pages pg n))"

section \<open>Editing subscribers\<close>

record create_user =
  cu_email :: string
  cu_username :: string
  cu_plan_id :: "uuid option"
  cu_limit :: int
  cu_expires :: "time option"
  cu_note :: string

record change_user =
  hu_email :: string
  hu_username :: string
  hu_status :: string
  hu_plan :: "uuid option"
  hu_limit :: "int option"
  hu_expires :: "time option"
  hu_note :: "string option"

record user_env =
  ue_valid :: "create_user \<Rightarrow> bool"
  ue_valid_change :: "change_user \<Rightarrow> bool"
  ue_mac :: "string \<Rightarrow> string \<Rightarrow> string"
  ue_tx :: bool

definition audited :: "auth_ctx option \<Rightarrow> string \<Rightarrow> uuid \<Rightarrow> diff \<Rightarrow> crm \<Rightarrow> crm" where
  "audited ctx action uid df st = st\<lparr>cm_db := audit_log ctx action ''user'' (Some uid) df (cm_db st)\<rparr>"

definition provision :: "user_env \<Rightarrow> (uuid \<Rightarrow> draws) \<Rightarrow> uuid \<Rightarrow> time \<Rightarrow> crm \<Rightarrow> crm" where
  "provision ue dr uid now st =
     (case ProvisionUser (ue_tx ue) uid dr now (cm_db st) of (_, d, ps) \<Rightarrow> st\<lparr>cm_db := d, cm_pushed := cm_pushed st @ ps\<rparr>)"

definition revoke :: "uuid \<Rightarrow> crm \<Rightarrow> prov_error option \<times> crm" where
  "revoke uid st =
     (case RevokeUser uid (cm_db st) of (e, d, ps) \<Rightarrow> (e, st\<lparr>cm_db := d, cm_pushed := cm_pushed st @ ps\<rparr>))"

definition HandleCreateUser ::
    "user_env \<Rightarrow> auth_ctx option \<Rightarrow> uuid \<Rightarrow> uuid \<Rightarrow> create_user option \<Rightarrow> crm \<Rightarrow> (http_error + user) \<times> crm" where
  "HandleCreateUser ue ctx uid tok body st =
     (case body of None \<Rightarrow> (Inl BadRequest, st)
      | Some req \<Rightarrow>
          if \<not> ue_valid ue req then (Inl BadRequest, st)
          else
            (let email = trim_space (to_lower (cu_email req)); name = trim_space (cu_username req)
             in case (case cu_plan_id req of None \<Rightarrow> Inr (None, cu_limit req)
                      | Some pid \<Rightarrow> (case GetPlanByID pid (cm_db st) of Inl e \<Rightarrow> Inl e
                          | Inr p \<Rightarrow> Inr (Some (pl_id p), if cu_limit req = 0 then int_or 0 (pl_traffic p) else cu_limit req))) of
                  Inl _ \<Rightarrow> (Inl BadRequest, st)
                | Inr (plan, limit) \<Rightarrow>
                   (case CreateUser ((new_user uid tok name)\<lparr>u_email := nonempty email, u_plan := plan, u_limit := Some limit,
                            u_expires := cu_expires req, u_note := nonempty (cu_note req)\<rparr>) (cm_db st) of
                      Inl _ \<Rightarrow> (Inl Conflict, st)
                    | Inr (u, d) \<Rightarrow> (Inr u, audited ctx ''create'' (u_id u) NoDiff (st\<lparr>cm_db := d\<rparr>)))))"

definition HandleGetUser :: "uuid option \<Rightarrow> crm \<Rightarrow> http_error + user" where
  "HandleGetUser target st =
     (case target of None \<Rightarrow> Inl BadRequest | Some uid \<Rightarrow> or_error NotFound (GetUserByID uid (cm_db st)))"

text \<open>Fields that the request leaves out keep the value that was read.\<close>

definition merge_change :: "change_user \<Rightarrow> user \<Rightarrow> bdb \<Rightarrow> db_error + (user \<times> bdb)" where
  "merge_change req old d = UpdateUser (u_id old)
     (if hu_email req = [] then u_email old else Some (trim_space (to_lower (hu_email req))))
     (if hu_username req = [] then u_username old else trim_space (hu_username req))
     (u_password_hash old)
     (if hu_status req = [] then u_status old else Some (hu_status req))
     (if hu_plan req = None then u_plan old else hu_plan req)
     (if hu_limit req = None then u_limit old else hu_limit req)
     (if hu_expires req = None then u_expires old else hu_expires req)
     (case hu_note req of None \<Rightarrow> u_note old | Some n \<Rightarrow> nonempty n) d"

definition HandleUpdateUser ::
    "user_env \<Rightarrow> auth_ctx option \<Rightarrow> uuid option \<Rightarrow> change_user option \<Rightarrow> crm \<Rightarrow> (http_error + user) \<times> crm" where
  "HandleUpdateUser ue ctx target body st =
     (case target of None \<Rightarrow> (Inl BadRequest, st)
      | Some uid \<Rightarrow> (case body of None \<Rightarrow> (Inl BadRequest, st)
        | Some req \<Rightarrow>
            if \<not> ue_valid_change ue req then (Inl BadRequest, st)
            else (case GetUserByID uid (cm_db st) of Inl _ \<Rightarrow> (Inl NotFound, st)
              | Inr old \<Rightarrow>
                 (case merge_change req old (cm_db st) of
                      Inl _ \<Rightarrow> (Inl InternalError, st)
                    | Inr (u, d) \<Rightarrow>
                        (let st1 = st\<lparr>cm_db := d\<rparr>;
                             st2 = (if hu_status req = ''suspended'' then snd (revoke uid st1) else st1)
                         in (Inr u, audited ctx ''update'' uid NoDiff st2))))))"

definition HandleDeleteUser :: "auth_ctx option \<Rightarrow> uuid option \<Rightarrow> crm \<Rightarrow> http_error option \<times> crm" where
  "HandleDeleteUser ctx target st =
     (case target of None \<Rightarrow> (Some BadRequest, st)
      | Some uid \<Rightarrow> (case GetUserByID uid (cm_db st) of Inl _ \<Rightarrow> (Some NotFound, st)
        | Inr _ \<Rightarrow> (case revoke uid st of
            (Some _, st1) \<Rightarrow> (Some InternalError, st1)
          | (None, st1) \<Rightarrow> (case delete_user uid (cm_db st1) of
                Inl _ \<Rightarrow> (Some InternalError, st1)
              | Inr d \<Rightarrow> (None, audited ctx ''delete'' uid NoDiff (st1\<lparr>cm_db := d\<rparr>))))))"

definition HandleResetTraffic :: "auth_ctx option \<Rightarrow> uuid option \<Rightarrow> crm \<Rightarrow> http_error option \<times> crm" where
  "HandleResetTraffic ctx target st =
     (case target of None \<Rightarrow> (Some BadRequest, st)
      | Some uid \<Rightarrow> (case GetUserByID uid (cm_db st) of Inl _ \<Rightarrow> (Some NotFound, st)
        | Inr _ \<Rightarrow> (case ResetUserTraffic uid (cm_db st) of Inl _ \<Rightarrow> (Some InternalError, st)
          | Inr d \<Rightarrow> (None, audited ctx ''reset_traffic'' uid NoDiff
                (st\<lparr>cm_db := d, cm_pushed := cm_pushed st @ PushUserNodes uid d\<rparr>)))))"

text \<open>The subscription of a user: its token and the address that serves it.\<close>

definition subscription_of :: "user \<Rightarrow> uuid \<times> string" where
  "subscription_of u = (u_token u, ''/sub/'' @ u_token u)"

definition HandleGetSubscription :: "uuid option \<Rightarrow> crm \<Rightarrow> http_error + uuid \<times> string" where
  "HandleGetSubscription target st =
     (case HandleGetUser target st of Inl e \<Rightarrow> Inl e | Inr u \<Rightarrow> Inr (subscription_of u))"

definition HandleRotateSubscription :: "auth_ctx option \<Rightarrow> uuid option \<Rightarrow> uuid \<Rightarrow> crm \<Rightarrow> (http_error + uuid \<times> string) \<times> crm" where
  "HandleRotateSubscription ctx target tok st =
     (case target of None \<Rightarrow> (Inl BadRequest, st)
      | Some uid \<Rightarrow> (case RotateUserSubscriptionToken uid tok (cm_db st) of Inl _ \<Rightarrow> (Inl NotFound, st)
          | Inr (u, d) \<Rightarrow> (Inr (subscription_of u), audited ctx ''rotate_subscription'' uid NoDiff (st\<lparr>cm_db := d\<rparr>))))"

definition HandleRotateKeys ::
    "user_env \<Rightarrow> (uuid \<Rightarrow> draws) \<Rightarrow> auth_ctx option \<Rightarrow> uuid option \<Rightarrow> uuid \<Rightarrow> time \<Rightarrow> crm \<Rightarrow> (http_error + uuid \<times> string) \<times> crm" where
  "HandleRotateKeys ue dr ctx target tok now st =
     (case target of None \<Rightarrow> (Inl BadRequest, st)
      | Some uid \<Rightarrow> (case RotateUserCredentials (ue_tx ue) uid tok dr now (cm_db st) of
          (r, d, ps) \<Rightarrow>
            (let st1 = st\<lparr>cm_db := d, cm_pushed := cm_pushed st @ ps\<rparr>
             in case r of Inl _ \<Rightarrow> (Inl InternalError, st1)
                | Inr u \<Rightarrow> (Inr (subscription_of u), audited ctx ''rotate_keys'' uid NoDiff st1))))"

definition by_telegram :: "string \<Rightarrow> crm \<Rightarrow> http_error + int \<times> user" where
  "by_telegram text st =
     (case scan_int text of None \<Rightarrow> Inl BadRequest
      | Some tg \<Rightarrow> if tg \<le> 0 then Inl BadRequest
          else (case GetUserByTelegramID tg (cm_db st) of Inl _ \<Rightarrow> Inl NotFound | Inr u \<Rightarrow> Inr (tg, u)))"

definition HandleGetByTelegramID :: "string \<Rightarrow> crm \<Rightarrow> http_error + user \<times> uuid \<times> string" where
  "HandleGetByTelegramID text st =
     (case by_telegram text st of Inl e \<Rightarrow> Inl e | Inr (tg, u) \<Rightarrow> Inr (u, subscription_of u))"

text \<open>The telegram identifier, the referral code, the number of referrals and the bonus days of each.\<close>

definition HandleGetReferrals :: "string \<Rightarrow> crm \<Rightarrow> http_error + int \<times> string \<times> nat \<times> int" where
  "HandleGetReferrals text st =
     (case by_telegram text st of Inl e \<Rightarrow> Inl e
      | Inr (tg, u) \<Rightarrow>
         (let code = text_or [] (u_refcode u)
          in Inr (tg, if code = [] then tg_text ''ref_'' tg else code, CountReferrals (u_id u) (cm_db st),
                  positive_param 7 (text_or [] (GetBotReplies st ''referral_inviter_days'')))))"

section \<open>Trials\<close>

record trial_request =
  tr_tg :: int
  tr_name :: string
  tr_ref :: string

text \<open>The inviter named by a referral code, or by the Telegram identifier in it; never the visitor.\<close>

definition trial_referrer :: "trial_request \<Rightarrow> bdb \<Rightarrow> uuid option" where
  "trial_referrer req d =
     (let code = trim_space (tr_ref req); inviter = (\<lambda>r. if u_tg r = Some (tr_tg req) then None else Some (u_id r))
      in if code = [] then None
         else case GetUserByReferralCode code d of
           Inr r \<Rightarrow> inviter r
         | Inl _ \<Rightarrow>
             if has_prefix code ''ref_'' then
               (case scan_int (drop 4 code) of None \<Rightarrow> None
                | Some tg \<Rightarrow> if tg \<le> 0 \<or> tg = tr_tg req then None
                    else (case GetUserByTelegramID tg d of Inl _ \<Rightarrow> None | Inr r \<Rightarrow> inviter r))
             else None)"

text \<open>The hours are a Duration, an int64 of nanoseconds.\<close>

definition trial_end :: "plan \<Rightarrow> time \<Rightarrow> time" where
  "trial_end p now = now + wrap64 ((if positive (pl_trial_hours p) then int_or 0 (pl_trial_hours p) else 24) * hour)"

definition running :: "user \<Rightarrow> time \<Rightarrow> bool" where
  "running u now \<longleftrightarrow> u_plan u \<noteq> None \<and> (case u_expires u of None \<Rightarrow> False | Some e \<Rightarrow> now < e)"

definition grant_trial ::
    "user_env \<Rightarrow> (uuid \<Rightarrow> draws) \<Rightarrow> trial_request \<Rightarrow> user \<Rightarrow> plan \<Rightarrow> time \<Rightarrow> crm \<Rightarrow> (http_error + user) \<times> crm" where
  "grant_trial ue dr req u p now st =
     (case UpdateUser (u_id u) (u_email u) (u_username u) (u_password_hash u) (Some ''active'') (Some (pl_id p))
             (Some (int_or 0 (pl_traffic p))) (Some (trial_end p now)) (u_note u) (cm_db st) of
        Inl _ \<Rightarrow> (Inl InternalError, st)
      | Inr (g, d) \<Rightarrow>
         (let code = text_or [] (u_refcode u); code' = (if code = [] then tg_text ''ref_'' (tr_tg req) else code)
          in case UpdateTelegramMetadata (u_id g) (tr_tg req) (tr_name req) True None code' d of
               Inl _ \<Rightarrow> (Inr g, provision ue dr (u_id g) now (st\<lparr>cm_db := d\<rparr>))
             | Inr (g', d') \<Rightarrow> (Inr g', provision ue dr (u_id g') now (st\<lparr>cm_db := d'\<rparr>))))"

definition start_trial ::
    "user_env \<Rightarrow> (uuid \<Rightarrow> draws) \<Rightarrow> auth_ctx option \<Rightarrow> uuid \<Rightarrow> uuid \<Rightarrow> trial_request \<Rightarrow> plan \<Rightarrow> time \<Rightarrow> crm \<Rightarrow> (http_error + user) \<times> crm" where
  "start_trial ue dr ctx uid tok req p now st =
     (let ref = trial_referrer req (cm_db st); tg = tr_tg req
      in case CreateUser ((new_user uid tok (tg_text ''tg_'' tg))\<lparr>u_email := Some (tg_text ''tg_'' tg @ ''@t.me''),
               u_plan := Some (pl_id p), u_limit := Some (int_or 0 (pl_traffic p)), u_used := None,
               u_expires := Some (trial_end p now), u_note := Some (''Telegram user @'' @ tr_name req)\<rparr>) (cm_db st) of
           Inl _ \<Rightarrow> ((case GetUserByTelegramID tg (cm_db st) of Inr _ \<Rightarrow> Inl Conflict | Inl _ \<Rightarrow> Inl InternalError), st)
         | Inr (u, d) \<Rightarrow>
            (case (case UpdateTelegramMetadata (u_id u) tg (tr_name req) True ref (tg_text ''ref_'' tg) d of
                     Inr r \<Rightarrow> Inr r
                   | Inl e \<Rightarrow> (case GetUserByTelegramID tg d of Inr v \<Rightarrow> Inr (v, d) | Inl _ \<Rightarrow> Inl e)) of
               Inl _ \<Rightarrow> (Inl InternalError, st\<lparr>cm_db := d\<rparr>)
             | Inr (v, d') \<Rightarrow>
                 (Inr v, audited ctx ''claim_trial'' (u_id v)
                    (JsonDiff [(''plan_id'', pl_id p), (''ref_code'', tg_text ''ref_'' tg), (''ref_id'', text_or [] ref),
                       (''telegram_id'', int_str tg)])
                    (provision ue dr (u_id v) now (st\<lparr>cm_db := d'\<rparr>)))))"

definition CreateTrial ::
    "user_env \<Rightarrow> (uuid \<Rightarrow> draws) \<Rightarrow> auth_ctx option \<Rightarrow> uuid \<Rightarrow> uuid \<Rightarrow> trial_request option \<Rightarrow> time \<Rightarrow> crm \<Rightarrow> (http_error + user) \<times> crm" where
  "CreateTrial ue dr ctx uid tok body now st =
     (case body of None \<Rightarrow> (Inl BadRequest, st)
      | Some req \<Rightarrow>
         (let known = GetUserByTelegramID (tr_tg req) (cm_db st) in
          if tr_tg req \<le> 0 then (Inl BadRequest, st)
          else if emailPolicy st = ''required'' \<and> (case known of Inl _ \<Rightarrow> True | Inr u \<Rightarrow> \<not> hasRealEmail u)
          then (Inl Forbidden, st)
          else case known of
            Inl _ \<Rightarrow> (case GetTrialPlan (cm_db st) of Inl _ \<Rightarrow> (Inl NotFound, st)
              | Inr p \<Rightarrow> start_trial ue dr ctx uid tok req p now st)
          | Inr u \<Rightarrow>
              if bool_or False (u_trial_used u) then (Inl Conflict, st)
              else (case GetTrialPlan (cm_db st) of Inl _ \<Rightarrow> (Inl NotFound, st)
                | Inr p \<Rightarrow>
                    if running u now then (if u_plan u = Some (pl_id p) then (Inr u, st) else (Inl Conflict, st))
                    else grant_trial ue dr req u p now st)))"

definition HandleUpsertLead :: "uuid \<Rightarrow> uuid \<Rightarrow> lead option \<Rightarrow> crm \<Rightarrow> (http_error + user) \<times> crm" where
  "HandleUpsertLead uid tok body st =
     (case body of None \<Rightarrow> (Inl BadRequest, st)
      | Some p \<Rightarrow> if ld_tg p \<le> 0 then (Inl BadRequest, st)
          else (case UpsertTelegramLead p uid tok (cm_db st) of
              Inl _ \<Rightarrow> (Inl InternalError, st) | Inr (u, d) \<Rightarrow> (Inr u, st\<lparr>cm_db := d\<rparr>)))"

section \<open>E-mail addresses\<close>

text \<open>An address in use by another Telegram account.\<close>

definition email_taken :: "string \<Rightarrow> int \<Rightarrow> crm \<Rightarrow> bool" where
  "email_taken email tg st =
     (case GetUserByEmail email (cm_db st) of Inl _ \<Rightarrow> False
      | Inr u \<Rightarrow> (case u_tg u of None \<Rightarrow> False | Some t \<Rightarrow> t \<noteq> tg))"

definition HandleLinkEmail :: "auth_ctx option \<Rightarrow> (int \<times> string) option \<Rightarrow> crm \<Rightarrow> (http_error + user) \<times> crm" where
  "HandleLinkEmail ctx body st =
     (if emailPolicy st = ''disabled'' then (Inl Forbidden, st)
      else case body of None \<Rightarrow> (Inl BadRequest, st)
      | Some (tg, raw) \<Rightarrow>
         (let email = trim_space (to_lower raw) in
          if tg \<le> 0 \<or> email = [] then (Inl BadRequest, st)
          else if email_taken email tg st then (Inl Conflict, st)
          else case LinkTelegramEmail tg email (cm_db st) of
            Inl _ \<Rightarrow> (Inl InternalError, st)
          | Inr (u, d) \<Rightarrow> (Inr u, audited ctx ''link_email'' (u_id u)
              (JsonDiff [(''email'', email), (''telegram_id'', int_str tg)]) (st\<lparr>cm_db := d\<rparr>))))"

record identity =
  id_tg :: int
  id_email :: string
  id_name :: string
  id_first :: string
  id_last :: string

text \<open>A failed rotation leaves the zero value of a user, whose identifier and token are nil.\<close>

definition zero_user :: user where
  "zero_user = (new_user nil_uuid nil_uuid [])\<lparr>u_status := None, u_limit := None, u_used := None,
     u_trial_used := None, u_banned := None, u_lang := None\<rparr>"

definition rebind :: "identity \<Rightarrow> string \<Rightarrow> uuid \<Rightarrow> crm \<Rightarrow> http_error + (user \<times> crm)" where
  "rebind i email tok st =
     (case RebindTelegramUser email (id_tg i) (id_name i) (id_first i) (id_last i) (cm_db st) of
        Inl _ \<Rightarrow> Inl InternalError
      | Inr (u, d) \<Rightarrow> (case RotateUserSubscriptionToken (u_id u) tok d of
          Inl _ \<Rightarrow> Inr (zero_user, st\<lparr>cm_db := d\<rparr>) | Inr (v, d') \<Rightarrow> Inr (v, st\<lparr>cm_db := d'\<rparr>)))"

definition HandleRestore :: "auth_ctx option \<Rightarrow> uuid \<Rightarrow> identity option \<Rightarrow> crm \<Rightarrow> (http_error + user) \<times> crm" where
  "HandleRestore ctx tok body st =
     (if emailPolicy st = ''disabled'' then (Inl Forbidden, st)
      else case body of None \<Rightarrow> (Inl BadRequest, st)
      | Some i \<Rightarrow>
         (let email = trim_space (to_lower (id_email i)) in
          if email = [] \<or> id_tg i \<le> 0 then (Inl BadRequest, st)
          else case GetUserByEmail email (cm_db st) of Inl _ \<Rightarrow> (Inl NotFound, st)
          | Inr old \<Rightarrow> (case rebind i email tok st of Inl e \<Rightarrow> (Inl e, st)
              | Inr (u, st1) \<Rightarrow> (Inr u, audited ctx ''restore_account'' (u_id old)
                  (JsonDiff [(''email'', email), (''new_telegram_id'', int_str (id_tg i))]) st1))))"

record otp_reply =
  or_row :: verification
  or_simulated :: bool
  or_code :: "string option"

definition purpose_or_link :: "string \<Rightarrow> string" where
  "purpose_or_link p = (if p = [] then ''link_email'' else p)"

definition RequestEmailOTP ::
    "user_env \<Rightarrow> nat option \<Rightarrow> uuid \<Rightarrow> (int \<times> string \<times> string) option \<Rightarrow> time \<Rightarrow> crm \<Rightarrow> (http_error + otp_reply) \<times> crm" where
  "RequestEmailOTP ue drawn vid body now st =
     (if emailPolicy st = ''disabled'' then (Inl Forbidden, st)
      else case body of None \<Rightarrow> (Inl BadRequest, st)
      | Some (tg, raw, purp) \<Rightarrow>
         (let email = trim_space (to_lower raw); purpose = purpose_or_link purp in
          if tg \<le> 0 \<or> email = [] then (Inl BadRequest, st)
          else if purpose = ''restore_account'' \<and> \<not> is_ok (GetUserByEmail email (cm_db st)) then (Inl NotFound, st)
          else if purpose = ''link_email'' \<and> email_taken email tg st then (Inl Conflict, st)
          else case GenerateOTPCode drawn of None \<Rightarrow> (Inl InternalError, st)
          | Some otp \<Rightarrow>
             (case (case GetActiveEmailVerification tg purpose now st of None \<Rightarrow> None
                    | Some v \<Rightarrow> if now - ot_created v < minute then Some ((minute - (now - ot_created v)) div second + 1) else None) of
                Some wait \<Rightarrow> (Inl (TooMany wait), st)
              | None \<Rightarrow>
                 (case CreateEmailVerification vid tg email (HashOTPCode (ue_mac ue) otp otp_salt) purpose (10 * minute) now st of
                    (Inl _, st1) \<Rightarrow> (Inl InternalError, st1)
                  | (Inr v, st1) \<Rightarrow> (Inr \<lparr>or_row = v, or_simulated = smtpSimulated st1,
                        or_code = (if smtpSimulated st1 then Some otp else None)\<rparr>, st1)))))"

definition VerifyEmailOTP ::
    "user_env \<Rightarrow> auth_ctx option \<Rightarrow> uuid \<Rightarrow> (identity \<times> string \<times> string) option \<Rightarrow> time \<Rightarrow> crm \<Rightarrow> (http_error + user) \<times> crm" where
  "VerifyEmailOTP ue ctx tok body now st =
     (case body of None \<Rightarrow> (Inl BadRequest, st)
      | Some (i, code, purp) \<Rightarrow>
         (let email = trim_space (to_lower (id_email i)); otp = trim_space code; purpose = purpose_or_link purp; tg = id_tg i in
          if tg \<le> 0 \<or> email = [] \<or> otp = [] then (Inl BadRequest, st)
          else case GetActiveEmailVerification tg purpose now st of None \<Rightarrow> (Inl BadRequest, st)
          | Some v \<Rightarrow>
              if ot_attempts v \<le> 0 then (Inl BadRequest, st)
              else if \<not> VerifyOTPCode (ue_mac ue) otp (ot_hash v) otp_salt
              then (Inl BadRequest, RecordVerificationAttempt (ot_id v) False now st)
              else
                (let st1 = RecordVerificationAttempt (ot_id v) True now st
                 in if purpose = ''restore_account'' then
                      (case rebind i email tok st1 of Inl e \<Rightarrow> (Inl e, st1)
                       | Inr (u, st2) \<Rightarrow> (Inr u, audited ctx ''restore_account_otp'' (u_id u)
                           (JsonDiff [(''email'', email), (''new_telegram_id'', int_str tg), (''verified_otp'', ''true'')]) st2))
                    else
                      (case LinkTelegramEmail tg email (cm_db st1) of Inl _ \<Rightarrow> (Inl InternalError, st1)
                       | Inr (u, d) \<Rightarrow> (Inr u, audited ctx ''link_email_otp'' (u_id u)
                           (JsonDiff [(''email'', email), (''telegram_id'', int_str tg), (''verified_otp'', ''true'')])
                           (st1\<lparr>cm_db := d\<rparr>))))))"

section \<open>Integrity of the table\<close>

text \<open>Distinct identifiers, the UNIQUE columns, and the foreign keys to plans and inviters.\<close>

definition users_ok :: "bdb \<Rightarrow> bool" where
  "users_ok d \<longleftrightarrow> distinct (List.map u_id (db_users d)) \<and>
     (\<forall>u\<in>set (db_users d). \<forall>v\<in>set (db_users d). u_id u \<noteq> u_id v \<longrightarrow> \<not> user_clash u v) \<and>
     (\<forall>u\<in>set (db_users d). user_refs_ok u d)"

lemma shares_commute: "shares x y \<longleftrightarrow> shares y x"
  by (auto simp: shares_def)

lemma user_clash_commute: "user_clash u v \<longleftrightarrow> user_clash v u"
  by (auto simp: user_clash_def shares_commute)

lemma user_refs_cong:
  "db_plans d' = db_plans d \<Longrightarrow> u_id ` set (db_users d) \<subseteq> u_id ` set (db_users d') \<Longrightarrow> user_refs_ok u d \<Longrightarrow> user_refs_ok u d'"
  unfolding user_refs_ok_def by auto

lemma users_ok_cong:
  "db_plans d' = db_plans d \<Longrightarrow> db_users d' = db_users d \<Longrightarrow> users_ok d \<Longrightarrow> users_ok d'"
  by (simp add: users_ok_def user_refs_ok_def)

lemma audit_log_users [simp]: "users_ok (audit_log c a t r df d) \<longleftrightarrow> users_ok d"
  by (simp add: users_ok_def user_refs_ok_def)

lemma update_users_plans [simp]: "db_plans (update_users P f d) = db_plans d"
  by (simp add: update_users_def)

lemma adds_creds_frame: "adds_creds uid d d' \<Longrightarrow> db_users d' = db_users d \<and> bdb.db_plans d' = db_plans d"
  by (auto simp: adds_creds_def)

text \<open>One row is replaced, keeping its identifier, by one that clashes with no other.\<close>

lemma replace_user_ok:
  assumes ok: "users_ok d" and u: "u \<in> set (db_users d)" and id: "\<And>v. u_id (f v) = u_id v"
    and clash: "\<forall>v\<in>set (db_users d). u_id v \<noteq> u_id u \<longrightarrow> \<not> user_clash (f u) v" and refs: "user_refs_ok (f u) d"
  shows "users_ok (update_users (\<lambda>v. u_id v = u_id u) f d)"
proof -
  let ?d = "update_users (\<lambda>v. u_id v = u_id u) f d"
  have dist: "distinct (List.map u_id (db_users d))" using ok by (simp add: users_ok_def)
  have same: "v = u" if "v \<in> set (db_users d)" "u_id v = u_id u" for v
    using distinct_map_unique[OF dist that(1) u that(2)] .
  have mem: "w \<in> set (db_users ?d) \<Longrightarrow> w = f u \<or> (w \<in> set (db_users d) \<and> u_id w \<noteq> u_id u)" for w
    using same by (auto simp: db_users_update split: if_splits)
  have ids: "u_id ` set (db_users ?d) = u_id ` set (db_users d)" using update_users_ids(2)[of f, OF id] by blast
  have "user_refs_ok w ?d" if "w \<in> set (db_users ?d)" for w
    using mem[OF that] refs ok ids by (intro user_refs_cong[of ?d d]) (auto simp: users_ok_def)
  moreover have "\<not> user_clash v w" if "v \<in> set (db_users ?d)" "w \<in> set (db_users ?d)" "u_id v \<noteq> u_id w" for v w
    using mem[OF that(1)] mem[OF that(2)] that(3) id[of u] ok clash user_clash_commute by (auto simp: users_ok_def)
  moreover have "distinct (List.map u_id (db_users ?d))" by (simp only: update_users_ids(1)[of f, OF id] dist)
  ultimately show ?thesis unfolding users_ok_def by blast
qed

lemma update_user_InrD:
  assumes "update_user s P f d = Inr (w, d')"
  obtains u where "u \<in> set (db_users d)" "P u" "w = f u" "d' = update_users (\<lambda>v. u_id v = u_id u) f d"
    "\<forall>v\<in>set (db_users d). u_id v \<noteq> u_id u \<longrightarrow> \<not> user_clash (f u) v" "user_refs_ok (f u) d"
  using assms find_Some_in[of P "db_users d"] by (auto simp: update_user_def split: if_splits option.splits)

lemma update_user_ok:
  assumes "update_user s P f d = Inr (w, d')" "\<And>v. u_id (f v) = u_id v" "users_ok d"
  shows "users_ok d'"
  using assms by (elim update_user_InrD) (simp add: replace_user_ok)

lemma insert_user_ok:
  assumes "insert_user u d = Inr (w, d')" "users_ok d"
  shows "users_ok d'"
proof -
  have d': "d' = d\<lparr>db_users := u # db_users d\<rparr>" and new: "\<forall>v\<in>set (db_users d). u_id v \<noteq> u_id u \<and> \<not> user_clash u v"
    and refs: "user_refs_ok u d" using assms(1) by (auto simp: insert_user_def split: if_splits)
  have "user_refs_ok v d'" if "user_refs_ok v d" for v using that d' by (intro user_refs_cong[of d' d]) auto
  moreover have "\<not> user_clash v w" if "v \<in> set (db_users d')" "w \<in> set (db_users d')" "u_id v \<noteq> u_id w" for v w
    using that assms(2) new d' by (auto simp: users_ok_def) (metis user_clash_commute)
  ultimately show ?thesis using assms(2) refs new by (auto simp: users_ok_def d')
qed

lemmas user_statements = UpdateUser_def UpdateUserEmail_def LinkTelegramEmail_def RebindTelegramUser_def UpdateTelegramMetadata_def

lemma user_statements_ok [keeps]:
  "CreateUser u d = Inr (w, d') \<Longrightarrow> users_ok d \<Longrightarrow> users_ok d'"
  "UpdateUser uid em nm ha stat pl lm ex nt d = Inr (w, d') \<Longrightarrow> users_ok d \<Longrightarrow> users_ok d'"
  "UpdateUserEmail uid mail d = Inr (w, d') \<Longrightarrow> users_ok d \<Longrightarrow> users_ok d'"
  "LinkTelegramEmail tg mail d = Inr (w, d') \<Longrightarrow> users_ok d \<Longrightarrow> users_ok d'"
  "RebindTelegramUser mail tg nm first_name last_name d = Inr (w, d') \<Longrightarrow> users_ok d \<Longrightarrow> users_ok d'"
  "UpdateTelegramMetadata uid tg nm tr ref code d = Inr (w, d') \<Longrightarrow> users_ok d \<Longrightarrow> users_ok d'"
  "UpsertTelegramLead p uid tok d = Inr (w, d') \<Longrightarrow> users_ok d \<Longrightarrow> users_ok d'"
  unfolding user_statements CreateUser_def UpsertTelegramLead_def
  by (auto elim!: update_user_ok insert_user_ok split: if_splits)

text \<open>Rows are dropped or changed in columns that no constraint reads.\<close>

lemma users_ok_image:
  assumes "users_ok d" and us: "db_users d' = List.map g us" "set us \<subseteq> set (db_users d)" "distinct (List.map u_id us)"
    and g: "\<And>u. u_id (g u) = u_id u" "\<And>u v. user_clash (g u) (g v) = user_clash u v"
    and refs: "\<And>u. u \<in> set us \<Longrightarrow> user_refs_ok (g u) d'"
  shows "users_ok d'"
proof -
  have "List.map u_id (db_users d') = List.map u_id us" by (simp add: us(1) g(1))
  moreover have "\<not> user_clash v w" if vw: "v \<in> set (db_users d')" "w \<in> set (db_users d')" "u_id v \<noteq> u_id w" for v w
  proof -
    obtain x y where x: "v = g x" "x \<in> set us" "w = g y" "y \<in> set us" using vw(1,2) by (auto simp: us(1))
    then have "u_id x \<noteq> u_id y" using vw(3) g(1) by metis
    then show ?thesis using x us(2) assms(1) g(2) unfolding users_ok_def by blast
  qed
  moreover have "\<forall>w\<in>set (db_users d'). user_refs_ok w d'" using refs by (auto simp: us(1))
  ultimately show ?thesis using us(3) unfolding users_ok_def by metis
qed

lemma update_plain_ok:
  assumes "users_ok d" "\<And>v. u_id (f v) = u_id v" "\<And>v w. user_clash (f v) w = user_clash v w"
    "\<And>v. u_plan (f v) = u_plan v" "\<And>v. u_referrer (f v) = u_referrer v"
  shows "users_ok (update_users P f d)"
proof -
  let ?g = "\<lambda>v. if P v then f v else v"
  have c: "user_clash x (f y) = user_clash x y" for x y using assms(3) user_clash_commute by metis
  have ids: "u_id ` set (db_users (update_users P f d)) = u_id ` set (db_users d)"
    using update_users_ids(2)[of f P d, OF assms(2)] .
  have "user_refs_ok (?g v) (update_users P f d) \<longleftrightarrow> user_refs_ok v d" for v
    by (simp add: user_refs_ok_def ids assms(4,5))
  then show ?thesis using assms c
    by (intro users_ok_image[OF assms(1), of _ ?g "db_users d"]) (simp_all add: db_users_update users_ok_def)
qed

lemma reset_ok [keeps]: "ResetUserTraffic uid d = Inr (d' :: bdb) \<Longrightarrow> users_ok d \<Longrightarrow> users_ok d'"
  by (auto simp: ResetUserTraffic_def user_clash_def split: if_splits intro!: update_plain_ok)

lemma rotate_ok [keeps]:
  assumes "RotateUserSubscriptionToken uid tok (d :: bdb) = Inr (w, d')" "users_ok d"
  shows "users_ok d'"
proof -
  obtain u where u: "u \<in> set (db_users d)" "u_id u = uid" and free: "\<forall>v\<in>set (db_users d). u_id v \<noteq> uid \<longrightarrow> u_token v \<noteq> tok"
    and d': "d' = update_users (\<lambda>v. u_id v = uid) (\<lambda>v. v\<lparr>u_token := tok\<rparr>) d"
    using assms(1) find_Some_in[of "\<lambda>u. u_id u = uid" "db_users d"]
    by (auto simp: RotateUserSubscriptionToken_def split: if_splits option.splits)
  have "user_refs_ok u d" "\<forall>v\<in>set (db_users d). u_id v \<noteq> u_id u \<longrightarrow> \<not> user_clash u v"
    using assms(2) u(1) by (auto simp: users_ok_def)
  then show ?thesis unfolding d' u(2)[symmetric] using free u assms(2)
    by (intro replace_user_ok) (auto simp: user_clash_def user_refs_ok_def)
qed

lemma delete_user_ok [keeps]:
  assumes "delete_user uid d = Inr d'" "users_ok d"
  shows "users_ok d'"
proof -
  let ?us = "List.filter (\<lambda>u. u_id u \<noteq> uid) (db_users d)"
  let ?g = "\<lambda>u. if u_referrer u = Some uid then u\<lparr>u_referrer := None\<rparr> else u"
  have us: "db_users d' = List.map ?g ?us" and pl: "db_plans d' = db_plans d"
    using assms(1) by (auto simp: delete_user_def DeleteUser_def split: if_splits sum.splits)
  have same: "u_id (u\<lparr>u_referrer := None\<rparr>) = u_id u" for u by simp
  have "u_id ` set (db_users d') = u_id ` set ?us" unfolding us by (rule image_if_same[of u_id, OF same])
  then have ids: "u_id ` set (db_users d') = u_id ` set (db_users d) - {uid}" by auto
  have "user_refs_ok (?g u) d'" if "u \<in> set ?us" for u
  proof -
    have "set_option (u_plan u) \<subseteq> pl_id ` set (db_plans d)" "set_option (u_referrer u) \<subseteq> u_id ` set (db_users d)"
      using that assms(2) by (auto simp: users_ok_def user_refs_ok_def)
    then show ?thesis using ids by (auto simp: user_refs_ok_def pl)
  qed
  then show ?thesis using assms(2)
    by (intro users_ok_image[OF assms(2) us]) (auto simp: users_ok_def distinct_map_filter user_clash_def)
qed

lemma provisioning_ok [keeps]:
  "ProvisionUser tx uid dr now (d :: bdb) = (e, d', ps) \<Longrightarrow> users_ok d \<Longrightarrow> users_ok d'"
  using ProvisionUser_adds adds_creds_frame users_ok_cong by blast

lemma delete_creds_ok [keeps]: "DeleteCredentialsByUser uid d = Inr d' \<Longrightarrow> users_ok d \<Longrightarrow> users_ok d'"
  by (auto simp: DeleteCredentialsByUser_def intro: users_ok_cong split: if_splits)

lemma revoke_ok [keeps]: "revoke uid st = (e, st') \<Longrightarrow> users_ok (cm_db st) \<Longrightarrow> users_ok (cm_db st')"
  by (auto simp: revoke_def RevokeUser_def split: sum.splits prod.splits dest: delete_creds_ok)

lemma revoke_snd_ok [simp]: "users_ok (cm_db st) \<Longrightarrow> users_ok (cm_db (snd (revoke uid st)))"
  using revoke_ok[of uid st "fst (revoke uid st)" "snd (revoke uid st)"] by simp

lemma provision_ok [simp]: "users_ok (cm_db st) \<Longrightarrow> users_ok (cm_db (provision ue dr uid now st))"
  by (auto simp: provision_def split: prod.splits dest: provisioning_ok)

lemma audited_ok [simp]: "users_ok (cm_db (audited c a uid df st)) \<longleftrightarrow> users_ok (cm_db st)"
  by (simp add: audited_def)

lemma attempt_db [simp]: "cm_db (RecordVerificationAttempt vid ok now st) = cm_db st"
  by (simp add: RecordVerificationAttempt_def)

lemma rotate_keys_ok [keeps]:
  "RotateUserCredentials tx uid tok dr now (d :: bdb) = (r, d', ps) \<Longrightarrow> users_ok d \<Longrightarrow> users_ok d'"
  by (auto simp: RotateUserCredentials_def Let_def split: sum.splits prod.splits option.splits
      dest!: rotate_ok provisioning_ok dest: delete_creds_ok)

lemma rebind_ok [keeps]: "rebind i em tok st = Inr (u, st') \<Longrightarrow> users_ok (cm_db st) \<Longrightarrow> users_ok (cm_db st')"
  by (auto simp: rebind_def split: sum.splits prod.splits dest: rotate_ok user_statements_ok(5))

lemmas user_keeps = user_statements_ok reset_ok rotate_ok delete_user_ok provisioning_ok delete_creds_ok revoke_ok
  rotate_keys_ok rebind_ok

lemma merge_change_ok [keeps]: "merge_change req old d = Inr (u, d') \<Longrightarrow> users_ok d \<Longrightarrow> users_ok d'"
  unfolding merge_change_def by (rule user_statements_ok(2))

text \<open>One request of the API that changes something.\<close>

inductive user_step :: "user_env \<Rightarrow> crm \<Rightarrow> crm \<Rightarrow> bool" for ue where
  create: "user_step ue st (snd (HandleCreateUser ue ctx uid tok body st))"
| update: "user_step ue st (snd (HandleUpdateUser ue ctx target change st))"
| delete: "user_step ue st (snd (HandleDeleteUser ctx target st))"
| reset: "user_step ue st (snd (HandleResetTraffic ctx target st))"
| rotate: "user_step ue st (snd (HandleRotateSubscription ctx target tok st))"
| rotate_keys: "user_step ue st (snd (HandleRotateKeys ue dr ctx target tok now st))"
| trial: "user_step ue st (snd (CreateTrial ue dr ctx uid tok claim now st))"
| lead: "user_step ue st (snd (HandleUpsertLead uid tok visitor st))"
| link: "user_step ue st (snd (HandleLinkEmail ctx addr st))"
| restore: "user_step ue st (snd (HandleRestore ctx tok who st))"
| request: "user_step ue st (snd (RequestEmailOTP ue drawn vid wanted now st))"
| verify: "user_step ue st (snd (VerifyEmailOTP ue ctx tok proof now st))"

lemma handlers_keep_users:
  assumes "users_ok (cm_db st)"
  shows "users_ok (cm_db (snd (HandleCreateUser ue ctx uid tok body st)))"
    "users_ok (cm_db (snd (HandleUpdateUser ue ctx target change st)))"
    "users_ok (cm_db (snd (HandleDeleteUser ctx target st)))"
    "users_ok (cm_db (snd (HandleResetTraffic ctx target st)))"
    "users_ok (cm_db (snd (HandleRotateSubscription ctx target tok st)))"
    "users_ok (cm_db (snd (HandleRotateKeys ue dr ctx target tok now st)))"
    "users_ok (cm_db (snd (HandleUpsertLead uid tok visitor st)))"
    "users_ok (cm_db (snd (HandleLinkEmail ctx addr st)))"
    "users_ok (cm_db (snd (HandleRestore ctx tok who st)))"
    "users_ok (cm_db (snd (VerifyEmailOTP ue ctx tok proof now st)))"
  subgoal using assms by (auto simp: HandleCreateUser_def Let_def dest: user_keeps split: option.splits sum.splits prod.splits)
  subgoal using assms
    by (auto simp: HandleUpdateUser_def Let_def dest: merge_change_ok split: option.splits sum.splits)
  subgoal using assms by (auto simp: HandleDeleteUser_def dest: user_keeps split: option.splits sum.splits prod.splits)
  subgoal using assms by (auto simp: HandleResetTraffic_def dest: user_keeps split: option.splits sum.splits)
  subgoal using assms by (auto simp: HandleRotateSubscription_def dest: user_keeps split: option.splits sum.splits)
  subgoal using assms by (auto simp: HandleRotateKeys_def Let_def dest: user_keeps split: option.splits sum.splits prod.splits)
  subgoal using assms by (auto simp: HandleUpsertLead_def dest: user_keeps split: option.splits sum.splits)
  subgoal using assms by (auto simp: HandleLinkEmail_def Let_def dest: user_keeps split: option.splits sum.splits)
  subgoal using assms by (auto simp: HandleRestore_def Let_def dest: user_keeps split: option.splits sum.splits)
  subgoal using assms by (auto simp: VerifyEmailOTP_def Let_def dest: user_keeps split: option.splits sum.splits)
  done

lemma trial_keeps_users:
  assumes "users_ok (cm_db st)"
  shows "users_ok (cm_db (snd (CreateTrial ue dr ctx uid tok body now st)))"
proof -
  have "users_ok (cm_db (snd (grant_trial ue dr req u p now st)))" for req u p
    using assms by (auto simp: grant_trial_def Let_def dest: user_keeps split: sum.splits)
  moreover have "users_ok (cm_db (snd (start_trial ue dr ctx uid tok req p now st)))" for req p
    using assms by (auto simp: start_trial_def Let_def dest: user_keeps split: sum.splits)
  ultimately show ?thesis using assms by (simp add: CreateTrial_def Let_def split: option.splits sum.splits)
qed

lemma request_db: "cm_db (snd (RequestEmailOTP ue drawn vid body now st)) = cm_db st"
  by (auto simp: RequestEmailOTP_def CreateEmailVerification_def Let_def split: option.splits)

lemma user_step_keeps: "user_step ue st st' \<Longrightarrow> users_ok (cm_db st) \<Longrightarrow> users_ok (cm_db st')"
  by (induction rule: user_step.induct) (auto intro: handlers_keep_users trial_keeps_users simp: request_db)

end
