(* ===== verification/User_Laws.thy ===== *)
theory User_Laws
  imports Users
begin

text \<open>
  Laws of the subscribers' API (src/internal/controlplane/api/handler/user.go, store/user.sql.go): the
  integrity of the table over a history of requests, the pages of the listing, and what a trial does to a
  subscription that was paid for.
\<close>

section \<open>Rows found by an update\<close>

text \<open>The row a predicate singles out is the one an update finds.\<close>

lemma update_user_hits:
  assumes "s \<notin> db_down d" "u \<in> set (db_users d)" "P u" "\<And>v. v \<in> set (db_users d) \<Longrightarrow> P v \<Longrightarrow> v = u"
    "\<forall>v\<in>set (db_users d). u_id v \<noteq> u_id u \<longrightarrow> \<not> user_clash (f u) v" "user_refs_ok (f u) d"
  shows "update_user s P f d = Inr (f u, update_users (\<lambda>v. u_id v = u_id u) f d)"
proof -
  have "List.find P (db_users d) = Some u" using assms(2-4) by (rule find_unique)
  then show ?thesis using assms(1,5,6) unfolding update_user_def by auto
qed

lemma same_row:
  assumes "users_ok d" "u \<in> set (db_users d)" "v \<in> set (db_users d)" "u_id v = u_id u \<or> user_clash v u"
  shows "v = u"
proof -
  have "u_id v = u_id u" using assms by (auto simp: users_ok_def)
  then show ?thesis using assms(1-3) distinct_map_unique[of u_id "db_users d" v u] unfolding users_ok_def by blast
qed

lemma rotate_hits:
  assumes "users_ok d" "w \<in> set (db_users d)" "''RotateUserSubscriptionToken'' \<notin> db_down d"
    "\<forall>v\<in>set (db_users d). u_id v \<noteq> u_id w \<longrightarrow> u_token v \<noteq> tok"
  shows "RotateUserSubscriptionToken (u_id w) tok d =
    Inr (w\<lparr>u_token := tok\<rparr>, update_users (\<lambda>v. u_id v = u_id w) (\<lambda>v. v\<lparr>u_token := tok\<rparr>) d)"
proof -
  have "List.find (\<lambda>v. u_id v = u_id w) (db_users d) = Some w"
    using assms(2) by (rule find_unique) (use same_row[OF assms(1,2)] in auto)
  then show ?thesis using assms(3,4) unfolding RotateUserSubscriptionToken_def by auto
qed

section \<open>Integrity\<close>


definition demo_ue :: user_env where
  "demo_ue = \<lparr>ue_valid = (\<lambda>_. True), ue_valid_change = (\<lambda>_. True), ue_mac = (\<lambda>k m. k @ m), ue_tx = False\<rparr>"

definition demo_crm :: crm where
  "demo_crm = \<lparr>cm_db = demo_bdb, cm_otps = [], cm_replies = [], cm_pushed = []\<rparr>"

definition demo_visitor :: lead where
  "demo_visitor = \<lparr>ld_tg = 7, ld_name = ''bob'', ld_first = ''B'', ld_last = [], ld_lang = ''en'', ld_ref = []\<rparr>"

definition demo_lead :: user where
  "demo_lead = (new_user ''u2'' ''t2'' ''bob'')\<lparr>u_tg := Some 7, u_tg_name := Some ''bob'', u_first := Some ''B'', u_last := Some [],
     u_status := Some ''lead''\<rparr>"

lemma demo_lead_stored:
  "db_users (cm_db (snd (HandleUpsertLead ''u2'' ''t2'' (Some demo_visitor) demo_crm))) = [demo_lead, demo_user]"
  "db_down (cm_db (snd (HandleUpsertLead ''u2'' ''t2'' (Some demo_visitor) demo_crm))) = {}"
  by (simp_all add: HandleUpsertLead_def UpsertTelegramLead_def insert_user_def demo_visitor_def demo_crm_def demo_bdb_def
      demo_user_def user_clash_def shares_def user_refs_ok_def lead_referrer_def new_user_def demo_lead_def)


section \<open>Pages\<close>

lemma chunks:
  "concat (List.map (\<lambda>k. take m (drop (k * m) xs)) [0..<n]) = take (n * m) xs"
proof (induction n)
  case (Suc n)
  have "take (n * m + m) xs = take (n * m) xs @ take m (drop (n * m) xs)" by (rule take_add)
  then show ?case using Suc by (simp add: add.commute)
qed simp

text \<open>
  The pages of the listing are a partition of the subscribers that match the filter: read from the first
  to the last page that the reply announces, whatever page size is asked for, they give every subscriber
  once, in order.
\<close>

theorem pages_cover_users:
  assumes "1 \<le> n" "int8_fits n" "int (length us) < 2147483648" "us = List.filter (listed status plan) (db_users d)"
    and "''ListUsers'' \<notin> db_down d" "''CountUsers'' \<notin> db_down d"
  shows "\<exists>pages. concat pages = us \<and> (\<forall>k<length pages. \<exists>pg.
    HandleListUsers status plan (int_str (int k + 1)) (int_str n) d = Inr (pages ! k, pg, int (length us), int (length pages)))"
proof -
  define m where "m = nat (min 100 n)"
  have m: "0 < m" "int m = min 100 n" "m \<le> 100" using assms(1) by (simp_all add: m_def)
  define N where "N = (length us + m - 1) div m"
  have N: "length us \<le> N * m" "0 < length us \<Longrightarrow> N * m < length us + m"
  proof -
    have "length us + m - 1 = N * m + (length us + m - 1) mod m" by (simp add: N_def)
    moreover have "(length us + m - 1) mod m < m" using m(1) by simp
    ultimately show "length us \<le> N * m" and "0 < length us \<Longrightarrow> N * m < length us + m" by linarith+
  qed
  let ?pages = "List.map (\<lambda>k. take m (drop (k * m) us)) [0..<N]"
  have "concat ?pages = us" using N(1) by (simp add: chunks)
  moreover have "\<exists>pg. HandleListUsers status plan (int_str (int k + 1)) (int_str n) d =
      Inr (take m (drop (k * m) us), pg, int (length us), int N)" if k: "k < N" for k
  proof -
    have pos: "0 < length us" using k m by (cases us) (simp_all add: N_def)
    have "k * m < length us"
    proof -
      have "(k + 1) * m \<le> N * m" using k by (intro mult_le_mono1) simp
      then show ?thesis using N(2)[OF pos] by simp
    qed
    then have off: "int k * int m < 2147483648" using assms(3) by (simp flip: of_nat_mult)
    have "int k < 2147483648"
      using off le_less_trans[of k "k * m" 2147483648] m(1) by (simp flip: of_nat_mult)
    have "0 \<le> int k * int m" by simp
    then have w: "wrap64 (int k * int m) = int k * int m" using off by (intro wrap64_id) linarith+
    have w32: "wrap32 (int k * int m) = int k * int m" "wrap32 (int m) = int m" "nat (int k * int m) = k * m"
      subgoal using off \<open>0 \<le> int k * int m\<close> by (intro wrap32_id) linarith+
      subgoal using m(3) by (intro wrap32_id) simp_all
      subgoal by (simp add: nat_mult_distrib)
      done
    have "ParsePagination (int_str (int k + 1)) (int_str n) = \<lparr>pg_page = int k + 1, pg_per_page = int m, pg_offset = int k * int m\<rparr>"
      using off m(1,3) m(2)[symmetric] assms(1,2) \<open>int k < 2147483648\<close> w
      by (simp add: ParsePagination_def positive_param_def ParseInt_int_str int8_fits_def Let_def wrap64_id)
    moreover have "total_pages \<lparr>pg_page = int k + 1, pg_per_page = int m, pg_offset = int k * int m\<rparr> (int (length us)) = int N"
      using pos m(1) by (simp add: total_pages_def N_def of_nat_diff zdiv_int)
    ultimately show ?thesis
      using assms(4-6) m(1,3) w32
      by (simp add: HandleListUsers_def list_users_def ListUsers_def CountUsers_def Let_def nat_mult_distrib not_less)
  qed
  ultimately show ?thesis by (intro exI[of _ ?pages]) simp
qed

lemma pages_cover_users_witness:
  "\<exists>pages. concat pages = [demo_lead, demo_user] \<and> (\<forall>k<length pages. \<exists>pg. HandleListUsers [] None (int_str (int k + 1))
    (int_str 1) (demo_bdb\<lparr>db_users := [demo_lead, demo_user]\<rparr>) = Inr (pages ! k, pg, 2, int (length pages)))"
  using pages_cover_users[of 1 "[demo_lead, demo_user]" "[]" None "demo_bdb\<lparr>db_users := [demo_lead, demo_user]\<rparr>"]
  by (simp add: listed_def int8_fits_def demo_bdb_def)

section \<open>Trials after a payment\<close>

lemma settled_plans:
  assumes "CompletePaidOrderTx s t d = Inr d'"
  shows "db_plans d' = db_plans d"
proof (rule CompletePaidOrderTx_InrD[OF assms])
  fix d1 assume c: "credit_buyer s (mark_paid (se_order s) t d) = Inr d1" "credit_referrer s d1 = Inr d'"
  have "db_plans d1 = db_plans d" using c(1) by (auto simp: credit_buyer_def mark_paid_def split: if_splits)
  then show ?thesis using c(2) by (auto simp: credit_referrer_def split: if_splits option.splits)
qed

lemma granted_fields:
  assumes ok: "users_ok (cm_db st)" and g: "UpdateUser (u_id u) (u_email u) (u_username u) (u_password_hash u) (Some ''active'')
     (Some (pl_id p)) (Some (int_or 0 (pl_traffic p))) (Some (trial_end p now)) (u_note u) (cm_db st) = Inr (g, d)"
  shows "\<exists>h. fst (grant_trial ue dr req u p now st) = Inr h \<and> u_id h = u_id g \<and> u_expires h = u_expires g \<and> u_limit h = u_limit g"
proof -
  have okd: "users_ok d" using g ok by (rule user_statements_ok(2))
  have gd: "g \<in> set (db_users d)" using g unfolding UpdateUser_def by (elim update_user_InrD) (auto simp: db_users_update)
  let ?m = "\<lambda>code. UpdateTelegramMetadata (u_id g) (tr_tg req) (tr_name req) True None code d"
  have same: "u_id h = u_id g \<and> u_expires h = u_expires g \<and> u_limit h = u_limit g" if "?m code = Inr (h, d')" for code h d'
    using that unfolding UpdateTelegramMetadata_def by (elim update_user_InrD) (use same_row[OF okd gd] in auto)
  let ?c = "if text_or [] (u_refcode u) = [] then tg_text ''ref_'' (tr_tg req) else text_or [] (u_refcode u)"
  show ?thesis
  proof (cases "?m ?c")
    case (Inl e)
    then show ?thesis by (simp add: grant_trial_def g Let_def)
  next
    case (Inr r)
    then show ?thesis using same[of ?c "fst r" "snd r"] by (cases r) (simp add: grant_trial_def g Let_def)
  qed
qed

text \<open>
  A trial claimed after a payment takes the paid time away. The settlement of an order moves the expiry
  of its buyer but records no plan, so the trial endpoint does not see a running subscription: whatever
  expiry the order paid for, the claim is granted and puts the expiry at the end of the trial and the
  quota at that of the trial plan.
\<close>

theorem trial_replaces_paid_time:
  assumes ok: "users_ok (cm_db st)" and pay: "CompletePaidOrderTx s t (cm_db st) = Inr d" "se_buyer s = u_id u" "se_referrer s = None"
    and u: "u \<in> set (db_users (cm_db st))" "u_tg u = Some (tr_tg req)" "u_plan u = None" "u_trial_used u \<noteq> Some True"
    and req: "0 < tr_tg req" "emailPolicy (st\<lparr>cm_db := d\<rparr>) \<noteq> ''required''" "GetTrialPlan d = Inr p"
    and up: "''GetUserByTelegramID'' \<notin> db_down d" "''UpdateUser'' \<notin> db_down d"
  shows "\<exists>g. fst (CreateTrial ue dr ctx uid tok (Some req) now (st\<lparr>cm_db := d\<rparr>)) = Inr g \<and> u_id g = u_id u \<and>
    u_expires g = Some (trial_end p now) \<and> u_limit g = Some (int_or 0 (pl_traffic p))"
proof -
  let ?v = "u\<lparr>u_expires := Some (se_expires s), u_limit := map_option (\<lambda>n. n + se_traffic s) (u_limit u)\<rparr>"
  have "db_users d = db_users (update_users (\<lambda>w. u_id w = u_id u) (\<lambda>w. w\<lparr>u_expires := Some (se_expires s),
      u_limit := map_option (\<lambda>n. n + se_traffic s) (u_limit w)\<rparr>) (cm_db st))" (is "_ = db_users ?d")
    using settled_users[OF pay(1,3)] by (simp add: pay(2) db_users_update)
  moreover have "users_ok ?d" using ok by (intro update_plain_ok) (simp_all add: user_clash_def)
  ultimately have okd: "users_ok d" and v: "?v \<in> set (db_users d)"
    using users_ok_cong[of d ?d] settled_plans[OF pay(1)] u(1) by (force simp: db_users_update)+
  have "List.find (\<lambda>w. u_tg w = Some (tr_tg req)) (db_users d) = Some ?v"
    using v by (rule find_unique) (use u(2) same_row[OF okd v] in \<open>auto simp: user_clash_def shares_def\<close>)
  then have known: "GetUserByTelegramID (tr_tg req) d = Inr ?v"
    using up(1) by (simp add: GetUserByTelegramID_def select_user_def)
  let ?f = "\<lambda>w. w\<lparr>u_email := u_email ?v, u_username := u_username ?v, u_password_hash := u_password_hash ?v,
    u_status := Some ''active'', u_plan := Some (pl_id p), u_limit := Some (int_or 0 (pl_traffic p)),
    u_expires := Some (trial_end p now), u_note := u_note ?v\<rparr>"
  have p: "p \<in> set (db_plans d)" using req(3) by (auto simp: GetTrialPlan_def split: if_splits option.splits dest: find_Some_in)
  have "update_user ''UpdateUser'' (\<lambda>w. u_id w = u_id u) ?f d = Inr (?f ?v, update_users (\<lambda>w. u_id w = u_id ?v) ?f d)"
  proof (rule update_user_hits[OF up(2) v])
    show "w = ?v" if "w \<in> set (db_users d)" "u_id w = u_id u" for w using same_row[OF okd v that(1)] that(2) by simp
    show "\<forall>w\<in>set (db_users d). u_id w \<noteq> u_id ?v \<longrightarrow> \<not> user_clash (?f ?v) w"
    proof (intro ballI impI)
      fix w assume w: "w \<in> set (db_users d)" "u_id w \<noteq> u_id ?v"
      have "\<not> user_clash ?v w" using same_row[OF okd v w(1)] w(2) user_clash_commute by blast
      then show "\<not> user_clash (?f ?v) w" by (simp add: user_clash_def)
    qed
    show "user_refs_ok (?f ?v) d" using okd v p by (auto simp: users_ok_def user_refs_ok_def)
  qed simp
  then have "\<exists>d'. UpdateUser (u_id ?v) (u_email ?v) (u_username ?v) (u_password_hash ?v) (Some ''active'') (Some (pl_id p))
     (Some (int_or 0 (pl_traffic p))) (Some (trial_end p now)) (u_note ?v) d = Inr (?f ?v, d')"
    unfolding UpdateUser_def by simp
  then obtain d' where d': "UpdateUser (u_id ?v) (u_email ?v) (u_username ?v) (u_password_hash ?v) (Some ''active'')
     (Some (pl_id p)) (Some (int_or 0 (pl_traffic p))) (Some (trial_end p now)) (u_note ?v) d = Inr (?f ?v, d')" ..
  have "\<exists>g. fst (grant_trial ue dr req ?v p now (st\<lparr>cm_db := d\<rparr>)) = Inr g \<and> u_id g = u_id u \<and>
    u_expires g = Some (trial_end p now) \<and> u_limit g = Some (int_or 0 (pl_traffic p))"
    using granted_fields[of "st\<lparr>cm_db := d\<rparr>" ?v p now "?f ?v" d'] d' okd by simp
  moreover have "fst (CreateTrial ue dr ctx uid tok (Some req) now (st\<lparr>cm_db := d\<rparr>)) =
      fst (grant_trial ue dr req ?v p now (st\<lparr>cm_db := d\<rparr>))"
    using known req u(3,4) by (cases "u_trial_used u") (simp_all add: CreateTrial_def Let_def running_def)
  ultimately show ?thesis by simp
qed

definition demo_payer :: crm where
  "demo_payer = demo_crm\<lparr>cm_db := demo_bdb\<lparr>db_users := [demo_user\<lparr>u_tg := Some 7\<rparr>],
     db_plans := [demo_plan\<lparr>pl_trial := Some True, pl_trial_hours := Some 24\<rparr>]\<rparr>\<rparr>"

definition demo_claim :: trial_request where
  "demo_claim = \<lparr>tr_tg = 7, tr_name = ''bob'', tr_ref = []\<rparr>"

lemma trial_replaces_paid_time_witness:
  "\<exists>d. CompletePaidOrderTx (demo_paid ''o1'') 6 (cm_db demo_payer) = Inr d \<and>
    (\<exists>g. fst (CreateTrial demo_ue (\<lambda>_. demo_draws) None [] [] (Some demo_claim) 10 (demo_payer\<lparr>cm_db := d\<rparr>)) = Inr g \<and>
      u_id g = ''u1'' \<and> u_expires g = Some (10 + day) \<and> u_limit g = Some 100)"
proof -
  let ?d = "snd (settle_tx (demo_paid ''o1'', 6) (cm_db demo_payer))"
  have pay: "CompletePaidOrderTx (demo_paid ''o1'') 6 (cm_db demo_payer) = Inr ?d" by (rule CompletePaidOrderTx_settle) code_simp
  have d: "GetTrialPlan ?d = Inr (demo_plan\<lparr>pl_trial := Some True, pl_trial_hours := Some 24\<rparr>)" "db_down ?d = {}" by code_simp+
  have e: "trial_end (demo_plan\<lparr>pl_trial := Some True, pl_trial_hours := Some 24\<rparr>) 10 = 10 + day"
    by (simp add: trial_end_def positive_def time_units)
  show ?thesis
    using trial_replaces_paid_time[OF _ pay, of "demo_user\<lparr>u_tg := Some 7\<rparr>" demo_claim
      "demo_plan\<lparr>pl_trial := Some True, pl_trial_hours := Some 24\<rparr>" demo_ue "\<lambda>_. demo_draws" None "[]" "[]" 10] pay d e
    by (simp add: demo_payer_def demo_crm_def demo_bdb_def demo_claim_def demo_paid_def users_ok_def user_refs_ok_def
        demo_user_def demo_plan_def emailPolicy_def GetBotReplies_def trim_space_def)
qed

end
