(* ===== verification/Email_Codes.thy ===== *)
theory Email_Codes
  imports User_Laws
begin

text \<open>
  One-time codes (RequestEmailOTP, VerifyEmailOTP and RestoreTelegramAccount in
  src/internal/controlplane/api/handler/user.go, CreateEmailVerification, GetActiveEmailVerification and
  RecordVerificationAttempt in store/user_crm.go): how many guesses a code allows over a history of
  requests and answers, and which account a proven address may be bound to.
\<close>

section \<open>Guesses\<close>

datatype otp_event =
    Ask "nat option" uuid "(int \<times> string \<times> string) option" time
  | Answer "auth_ctx option" uuid "(identity \<times> string \<times> string) option" time

fun otp_run :: "user_env \<Rightarrow> otp_event \<Rightarrow> crm \<Rightarrow> crm" where
  "otp_run ue (Ask drawn vid body now) st = snd (RequestEmailOTP ue drawn vid body now st)"
| "otp_run ue (Answer ctx tok body now) st = snd (VerifyEmailOTP ue ctx tok body now st)"

text \<open>The code an answer is compared with, and the comparisons of a history with one code.\<close>

fun compared :: "otp_event \<Rightarrow> crm \<Rightarrow> uuid option" where
  "compared (Answer ctx tok (Some (i, code, purp)) now) st =
     (if id_tg i \<le> 0 \<or> trim_space (to_lower (id_email i)) = [] \<or> trim_space code = [] then None
      else case GetActiveEmailVerification (id_tg i) (purpose_or_link purp) now st of None \<Rightarrow> None
        | Some v \<Rightarrow> if ot_attempts v \<le> 0 then None else Some (ot_id v))"
| "compared e st = None"

fun comparisons :: "user_env \<Rightarrow> uuid \<Rightarrow> otp_event list \<Rightarrow> crm \<Rightarrow> nat" where
  "comparisons ue vid [] st = 0"
| "comparisons ue vid (e # es) st =
     (if compared e st = Some vid then 1 else 0) + comparisons ue vid es (otp_run ue e st)"

fun asks :: "uuid \<Rightarrow> otp_event \<Rightarrow> bool" where
  "asks vid (Ask drawn v body now) \<longleftrightarrow> v = vid"
| "asks vid (Answer ctx tok body now) \<longleftrightarrow> False"

text \<open>What is left of a code's attempts.\<close>

definition attempts_left :: "uuid \<Rightarrow> verification list \<Rightarrow> nat" where
  "attempts_left vid vs =
     (case List.find (\<lambda>v. ot_id v = vid) vs of None \<Rightarrow> 0 | Some v \<Rightarrow> if ot_verified v = None then nat (ot_attempts v) else 0)"


section \<open>The table of codes\<close>

definition otps_ok :: "verification list \<Rightarrow> bool" where
  "otps_ok vs \<longleftrightarrow> distinct (List.map ot_id vs) \<and> (\<forall>v\<in>set vs. ot_attempts v \<le> 3)"

lemma attempts_left_absent: "vid \<notin> ot_id ` set vs \<Longrightarrow> attempts_left vid vs = 0"
  by (auto simp: attempts_left_def split: option.splits dest!: find_Some_in)

lemma attempts_left_member:
  assumes "otps_ok vs" "v \<in> set vs" "ot_id v = vid"
  shows "attempts_left vid vs = (if ot_verified v = None then nat (ot_attempts v) else 0)"
proof -
  obtain w where w: "List.find (\<lambda>v. ot_id v = vid) vs = Some w"
    using assms(2,3) by (cases "List.find (\<lambda>v. ot_id v = vid) vs") (auto simp: find_None_iff)
  then have "w \<in> set vs" "ot_id w = vid" by (auto dest: find_Some_in)
  then have "w = v" using assms distinct_map_unique[of ot_id vs w v] by (simp add: otps_ok_def)
  then show ?thesis using w by (simp add: attempts_left_def)
qed

lemma attempts_left_le: "otps_ok vs \<Longrightarrow> attempts_left vid vs \<le> 3"
  by (force simp: attempts_left_def otps_ok_def split: option.splits dest!: find_Some_in)

lemma attempts_left_filter:
  assumes "otps_ok vs"
  shows "attempts_left vid (List.filter P vs) \<le> attempts_left vid vs"
proof (cases "\<exists>v\<in>set vs. ot_id v = vid \<and> P v")
  case True
  then obtain v where v: "v \<in> set vs" "ot_id v = vid" "P v" by blast
  have "otps_ok (List.filter P vs)" using assms by (auto simp: otps_ok_def distinct_map_filter)
  then show ?thesis using assms v attempts_left_member[of _ v vid] by simp
next
  case False
  then have "vid \<notin> ot_id ` set (List.filter P vs)" by auto
  then show ?thesis using attempts_left_absent by fastforce
qed

definition attempted :: "uuid \<Rightarrow> bool \<Rightarrow> time \<Rightarrow> verification \<Rightarrow> verification" where
  "attempted vid good now v = (if ot_id v = vid
     then (if good then v\<lparr>ot_verified := Some now\<rparr> else v\<lparr>ot_attempts := ot_attempts v - 1\<rparr>) else v)"

lemma attempted_id [simp]: "ot_id (attempted vid good now v) = ot_id v"
  by (simp add: attempted_def)

lemma record_attempt:
  "''RecordVerificationAttempt'' \<notin> db_down (cm_db st) \<Longrightarrow>
   cm_otps (RecordVerificationAttempt vid good now st) = List.map (attempted vid good now) (cm_otps st)"
  by (simp add: RecordVerificationAttempt_def attempted_def)

lemma otps_ok_attempted: "otps_ok vs \<Longrightarrow> otps_ok (List.map (attempted vid good now) vs)"
proof -
  have "List.map ot_id (List.map (attempted vid good now) vs) = List.map ot_id vs" by simp
  then show "otps_ok (List.map (attempted vid good now) vs)" if "otps_ok vs"
    using that unfolding otps_ok_def by (auto simp: attempted_def simp del: map_map)
qed

lemma attempts_left_attempted:
  assumes "otps_ok vs" "v \<in> set vs" "ot_verified v = None" "ot_attempts v > 0"
  shows "attempts_left vid (List.map (attempted (ot_id v) good now) vs) + (if ot_id v = vid then 1 else 0) \<le> attempts_left vid vs"
proof (cases "vid \<in> ot_id ` set vs")
  case True
  then obtain w where w: "w \<in> set vs" "ot_id w = vid" by blast
  let ?g = "attempted (ot_id v) good now"
  have "attempts_left vid (List.map ?g vs) = (if ot_verified (?g w) = None then nat (ot_attempts (?g w)) else 0)"
    using w by (intro attempts_left_member otps_ok_attempted assms(1)) auto
  moreover have "w = v" if "ot_id v = vid"
    using w that assms distinct_map_unique[of ot_id vs w v] by (simp add: otps_ok_def)
  ultimately show ?thesis using assms w attempts_left_member[OF assms(1) w]
    by (auto simp: attempted_def split: if_splits)
next
  case False
  then show ?thesis using assms(2) attempts_left_absent[of vid "List.map (attempted (ot_id v) good now) vs"] by (auto simp: image_image)
qed

section \<open>One event\<close>

text \<open>A request drops codes and may add its own; an answer compares with one pending code or changes none.\<close>

lemma create_codes:
  assumes "CreateEmailVerification vid tg email hash purpose ttl now st = (r, st')"
  shows "(\<exists>P. cm_otps st' = List.filter P (cm_otps st)) \<or> (\<exists>P v. cm_otps st' = v # List.filter P (cm_otps st) \<and>
    ot_id v = vid \<and> ot_attempts v = 3 \<and> vid \<notin> ot_id ` set (List.filter P (cm_otps st)))"
proof -
  define kept where "kept = (if ''DeleteEmailVerifications'' \<in> db_down (cm_db st) then cm_otps st
                  else List.filter (\<lambda>v. \<not> otp_pending tg purpose v) (cm_otps st))"
  have "kept = List.filter (\<lambda>v. ''DeleteEmailVerifications'' \<in> db_down (cm_db st) \<or> \<not> otp_pending tg purpose v) (cm_otps st)"
    by (simp add: kept_def)
  then obtain P where P: "kept = List.filter P (cm_otps st)" by blast
  have "cm_otps st' = kept \<or> (\<exists>v. cm_otps st' = v # kept \<and> ot_id v = vid \<and> ot_attempts v = 3 \<and> vid \<notin> ot_id ` set kept)"
    using assms unfolding CreateEmailVerification_def kept_def[symmetric] Let_def by (auto split: if_splits)
  then show ?thesis unfolding P by blast
qed

lemma request_codes:
  obtains P where "cm_otps (snd (RequestEmailOTP ue drawn vid body now st)) = List.filter P (cm_otps st)"
  | P v where "cm_otps (snd (RequestEmailOTP ue drawn vid body now st)) = v # List.filter P (cm_otps st)"
      "ot_id v = vid" "ot_attempts v = 3" "vid \<notin> ot_id ` set (List.filter P (cm_otps st))"
proof -
  have keep: "\<exists>P. cm_otps st = List.filter P (cm_otps st)" by (rule exI[of _ "\<lambda>_. True"]) simp
  have "(\<exists>P. cm_otps (snd (RequestEmailOTP ue drawn vid body now st)) = List.filter P (cm_otps st)) \<or>
    (\<exists>P v. cm_otps (snd (RequestEmailOTP ue drawn vid body now st)) = v # List.filter P (cm_otps st) \<and>
      ot_id v = vid \<and> ot_attempts v = 3 \<and> vid \<notin> ot_id ` set (List.filter P (cm_otps st)))"
    using keep create_codes[OF prod.collapse[symmetric]]
    by (auto simp: RequestEmailOTP_def Let_def split: option.splits sum.splits prod.splits dest: create_codes)
  then show thesis using that by blast
qed

text \<open>After the code has been compared, only the database of users and the audit log change.\<close>

lemma rotate_down: "RotateUserSubscriptionToken uid tok d = Inr (w, d') \<Longrightarrow> db_down d' = db_down d"
  by (auto simp: RotateUserSubscriptionToken_def split: if_splits option.splits)

lemma update_user_down: "update_user s P f d = Inr (w, d') \<Longrightarrow> db_down d' = db_down d"
  by (elim update_user_InrD) simp

definition same_codes :: "crm \<Rightarrow> crm \<Rightarrow> bool" where
  "same_codes st st' \<longleftrightarrow> cm_otps st' = cm_otps st \<and> db_down (cm_db st') = db_down (cm_db st)"

lemma same_codes_refl [simp]: "same_codes st st"
  by (simp add: same_codes_def)

lemma same_codes_audited [simp]: "same_codes st (audited c a uid df st') \<longleftrightarrow> same_codes st st'"
  by (simp add: same_codes_def audited_def)

lemma rebind_same:
  assumes "rebind i em tok st = Inr (u, st')"
  shows "same_codes st st'"
proof (cases "RebindTelegramUser em (id_tg i) (id_name i) (id_first i) (id_last i) (cm_db st)")
  case (Inr r)
  obtain w d where r: "r = (w, d)" by (cases r)
  have d: "db_down d = db_down (cm_db st)" using Inr update_user_down unfolding r RebindTelegramUser_def by blast
  show ?thesis
  proof (cases "RotateUserSubscriptionToken (u_id w) tok d")
    case (Inl e)
    then have "st' = st\<lparr>cm_db := d\<rparr>" using assms Inr by (simp add: rebind_def r)
    then show ?thesis by (simp add: same_codes_def d)
  next
    case rot: (Inr q)
    obtain x d' where q: "q = (x, d')" by (cases q)
    have "st' = st\<lparr>cm_db := d'\<rparr>" using assms Inr rot by (simp add: rebind_def r q)
    then show ?thesis using rotate_down[OF rot[unfolded q]] d by (simp add: same_codes_def)
  qed
qed (use assms in \<open>simp add: rebind_def\<close>)

lemma verify_after:
  "same_codes st (snd (case rebind i em tok st of Inl e \<Rightarrow> (Inl e, st) | Inr (u, st2) \<Rightarrow> (Inr u, audited ctx act (u_id u) df st2)))"
  "same_codes st (snd (case LinkTelegramEmail tg em (cm_db st) of Inl _ \<Rightarrow> (Inl x, st)
     | Inr (u, d) \<Rightarrow> (Inr u, audited ctx act (u_id u) df (st\<lparr>cm_db := d\<rparr>))))"
  subgoal by (cases "rebind i em tok st") (auto dest: rebind_same)
  subgoal by (cases "LinkTelegramEmail tg em (cm_db st)")
      (auto simp: same_codes_def audited_def LinkTelegramEmail_def dest: update_user_down)
  done

lemma verify_cases:
  obtains "compared (Answer ctx tok body now) st = None" "snd (VerifyEmailOTP ue ctx tok body now st) = st"
  | v good where "compared (Answer ctx tok body now) st = Some (ot_id v)" "v \<in> set (cm_otps st)"
      "ot_verified v = None" "ot_attempts v > 0"
      "same_codes (RecordVerificationAttempt (ot_id v) good now st) (snd (VerifyEmailOTP ue ctx tok body now st))"
proof (cases body)
  case None
  then show thesis using that(1) by (simp add: VerifyEmailOTP_def)
next
  case (Some b)
  obtain i code purp where b: "body = Some (i, code, purp)" using Some by (cases b) auto
  let ?bad = "id_tg i \<le> 0 \<or> trim_space (to_lower (id_email i)) = [] \<or> trim_space code = []"
  let ?act = "GetActiveEmailVerification (id_tg i) (purpose_or_link purp) now st"
  show thesis
  proof (cases "?bad \<or> (case ?act of None \<Rightarrow> True | Some v \<Rightarrow> ot_attempts v \<le> 0)")
    case True
    then show thesis using that(1) by (auto simp: b VerifyEmailOTP_def Let_def split: option.splits)
  next
    case False
    then obtain v where v: "?act = Some v" "ot_attempts v > 0" by (auto split: option.splits)
    have "v \<in> set (cm_otps st)" "ot_verified v = None"
      using v(1) find_Some_in by (fastforce simp: GetActiveEmailVerification_def otp_pending_def split: if_splits)+
    moreover have "compared (Answer ctx tok body now) st = Some (ot_id v)" using False v by (simp add: b)
    moreover have "\<exists>good. same_codes (RecordVerificationAttempt (ot_id v) good now st) (snd (VerifyEmailOTP ue ctx tok body now st))"
    proof (cases "VerifyOTPCode (ue_mac ue) (trim_space code) (ot_hash v) otp_salt")
      case True
      then show ?thesis using False v
        by (intro exI[of _ True], simp add: b VerifyEmailOTP_def, simp only: Let_def split: if_split)
          (intro conjI impI verify_after)
    next
      case wrong: False
      then show ?thesis using False v by (intro exI[of _ False]) (simp add: b VerifyEmailOTP_def)
    qed
    ultimately show thesis using that(2) v(2) by blast
  qed
qed

lemma answer_codes:
  assumes "''RecordVerificationAttempt'' \<notin> db_down (cm_db st)"
  obtains "compared (Answer ctx tok body now) st = None" "cm_otps (snd (VerifyEmailOTP ue ctx tok body now st)) = cm_otps st"
  | v good where "compared (Answer ctx tok body now) st = Some (ot_id v)" "v \<in> set (cm_otps st)"
      "ot_verified v = None" "ot_attempts v > 0"
      "cm_otps (snd (VerifyEmailOTP ue ctx tok body now st)) = List.map (attempted (ot_id v) good now) (cm_otps st)"
proof (rule verify_cases[of ctx tok body now st ue])
  assume "compared (Answer ctx tok body now) st = None" "snd (VerifyEmailOTP ue ctx tok body now st) = st"
  then show thesis using that(1) by simp
qed (use that(2) record_attempt[OF assms] in \<open>auto simp: same_codes_def\<close>)

lemma verify_down: "db_down (cm_db (snd (VerifyEmailOTP ue ctx tok body now st))) = db_down (cm_db st)"
  by (rule verify_cases[of ctx tok body now st ue]) (auto simp: same_codes_def)

lemma otp_run_down: "db_down (cm_db (otp_run ue e st)) = db_down (cm_db st)"
  by (cases "(ue, e, st)" rule: otp_run.cases) (simp_all add: request_db verify_down)

lemma otp_run_step:
  assumes "otps_ok (cm_otps st)" "''RecordVerificationAttempt'' \<notin> db_down (cm_db st)"
  shows "otps_ok (cm_otps (otp_run ue e st))"
    and "\<not> asks vid e \<Longrightarrow> attempts_left vid (cm_otps (otp_run ue e st)) + (if compared e st = Some vid then 1 else 0) \<le>
      attempts_left vid (cm_otps st)"
proof -
  have "otps_ok (cm_otps (otp_run ue e st)) \<and> (\<not> asks vid e \<longrightarrow>
    attempts_left vid (cm_otps (otp_run ue e st)) + (if compared e st = Some vid then 1 else 0) \<le> attempts_left vid (cm_otps st))"
  proof (cases e)
    case (Ask drawn v body now)
    have kept: "otps_ok (List.filter P (cm_otps st))" for P using assms(1) by (auto simp: otps_ok_def distinct_map_filter)
    show ?thesis
    proof (rule request_codes[of ue drawn v body now st])
      fix P assume "cm_otps (snd (RequestEmailOTP ue drawn v body now st)) = List.filter P (cm_otps st)"
      then show ?thesis using Ask kept assms(1) attempts_left_filter by simp
    next
      fix P w assume w: "cm_otps (snd (RequestEmailOTP ue drawn v body now st)) = w # List.filter P (cm_otps st)"
        "ot_id w = v" "ot_attempts w = 3" "v \<notin> ot_id ` set (List.filter P (cm_otps st))"
      then have "otps_ok (w # List.filter P (cm_otps st))" using kept[of P] by (auto simp: otps_ok_def)
      moreover have "attempts_left vid (w # List.filter P (cm_otps st)) = attempts_left vid (List.filter P (cm_otps st))" if "v \<noteq> vid"
        using that w(2) by (simp add: attempts_left_def)
      ultimately show ?thesis using Ask w(1) attempts_left_filter[OF assms(1), of vid P] by auto
    qed
  next
    case (Answer ctx tok body now)
    show ?thesis
    proof (rule answer_codes[OF assms(2), of ctx tok body now ue])
      fix v good assume "compared (otp_event.Answer ctx tok body now) st = Some (ot_id v)" "v \<in> set (cm_otps st)"
        "ot_verified v = None" "ot_attempts v > 0"
        "cm_otps (snd (VerifyEmailOTP ue ctx tok body now st)) = List.map (attempted (ot_id v) good now) (cm_otps st)"
      then show ?thesis using Answer attempts_left_attempted[OF assms(1), of v vid good now] otps_ok_attempted[OF assms(1)] by simp
    qed (use Answer assms in simp)
  qed
  then show "otps_ok (cm_otps (otp_run ue e st))" and "\<not> asks vid e \<Longrightarrow>
    attempts_left vid (cm_otps (otp_run ue e st)) + (if compared e st = Some vid then 1 else 0) \<le> attempts_left vid (cm_otps st)"
    by blast+
qed

lemma comparisons_le:
  assumes "otps_ok (cm_otps st)" "''RecordVerificationAttempt'' \<notin> db_down (cm_db st)" "\<forall>e\<in>set es. \<not> asks vid e"
  shows "comparisons ue vid es st \<le> attempts_left vid (cm_otps st)"
  using assms
proof (induction es arbitrary: st)
  case (Cons e es)
  have "comparisons ue vid es (otp_run ue e st) \<le> attempts_left vid (cm_otps (otp_run ue e st))"
    using Cons.prems by (intro Cons.IH otp_run_step(1)) (simp_all add: otp_run_down)
  then show ?case using otp_run_step(2)[OF Cons.prems(1,2), of vid e ue] Cons.prems(3) by simp
qed simp

section \<open>Properties\<close>


definition demo_identity :: identity where
  "demo_identity = \<lparr>id_tg = 7, id_email = ''a@b.c'', id_name = [], id_first = [], id_last = []\<rparr>"

definition demo_asked :: "int \<Rightarrow> crm" where
  "demo_asked k = demo_crm\<lparr>cm_otps := [\<lparr>ot_id = ''c'', ot_tg = 7, ot_email = ''a@b.c'',
     ot_hash = otp_salt @ ''000042'', ot_purpose = ''link_email'', ot_attempts = k, ot_expires = 10 * minute,
     ot_verified = None, ot_created = 0\<rparr>]\<rparr>"

definition demo_wrong :: otp_event where
  "demo_wrong = Answer None ''t'' (Some (demo_identity, ''000000'', [])) 1"

definition demo_ask :: otp_event where
  "demo_ask = Ask (Some 42) ''c'' (Some (7, ''a@b.c'', [])) 0"

lemma demo_texts: "trim_space (to_lower ''a@b.c'') = ''a@b.c''" "trim_space ''000000'' = ''000000''"
  "GenerateOTPCode (Some 42) = Some ''000042''" "trim_space [] = []"
  by code_simp+

lemmas demo_codes = demo_texts demo_asked_def demo_identity_def purpose_or_link_def Let_def demo_crm_def demo_bdb_def demo_ue_def
  GetActiveEmailVerification_def otp_pending_def HashOTPCode_def RecordVerificationAttempt_def emailPolicy_def GetBotReplies_def
  text_or_def email_taken_def GetUserByEmail_def select_user_def demo_user_def time_units

lemma demo_asks: "otp_run demo_ue demo_ask demo_crm = demo_asked 3"
  by (simp add: demo_ask_def RequestEmailOTP_def CreateEmailVerification_def demo_codes)

lemma demo_answers:
  "otp_run demo_ue demo_wrong (demo_asked k) = demo_asked (if k \<le> 0 then k else k - 1)"
  "compared demo_wrong (demo_asked k) = (if k \<le> 0 then None else Some ''c'')"
  by (simp_all add: demo_wrong_def VerifyEmailOTP_def VerifyOTPCode_def demo_codes)


lemma rebind_hits:
  assumes ok: "users_ok (cm_db st)" and u: "u \<in> set (db_users (cm_db st))" "u_email u = Some mail"
    and free: "\<forall>w\<in>set (db_users (cm_db st)). u_tg w \<noteq> Some (id_tg i)" "\<forall>w\<in>set (db_users (cm_db st)). u_token w \<noteq> tok"
    and up: "''RebindTelegramUser'' \<notin> db_down (cm_db st)" "''RotateUserSubscriptionToken'' \<notin> db_down (cm_db st)"
  shows "\<exists>w st'. rebind i mail tok st = Inr (w, st') \<and> u_id w = u_id u \<and> u_tg w = Some (id_tg i) \<and>
    u_token w = tok \<and> u_email w = Some mail"
proof -
  let ?f = "\<lambda>u. u\<lparr>u_tg := Some (id_tg i), u_tg_name := nonempty (id_name i), u_first := nonempty (id_first i),
    u_last := nonempty (id_last i)\<rparr>" and ?us = "db_users (cm_db st)"
  let ?d = "update_users (\<lambda>v. u_id v = u_id u) ?f (cm_db st)"
  have uniq: "v = u" if "v \<in> set ?us" "u_email v = Some mail" for v
  proof -
    have "user_clash v u" using that(2) u(2) by (simp add: user_clash_def shares_def)
    then have "u_id v = u_id u" using ok u(1) that(1) by (auto simp: users_ok_def)
    then show ?thesis using ok u(1) that(1) distinct_map_unique[of u_id ?us v u] by (simp add: users_ok_def)
  qed
  have free': "\<not> user_clash (?f u) v" if "v \<in> set ?us" "u_id v \<noteq> u_id u" for v
  proof -
    have "\<not> user_clash u v" using ok u(1) that by (auto simp: users_ok_def)
    then show ?thesis using free(1) that(1) by (auto simp: user_clash_def shares_def)
  qed
  have "user_refs_ok (?f u) (cm_db st)" using ok u(1) by (simp add: users_ok_def user_refs_ok_def)
  then have r: "RebindTelegramUser mail (id_tg i) (id_name i) (id_first i) (id_last i) (cm_db st) = Inr (?f u, ?d)"
    unfolding RebindTelegramUser_def using up(1) u uniq free' by (intro update_user_hits) blast+
  then have "users_ok ?d" using ok by (rule user_statements_ok(5))
  moreover have "?f u \<in> set (db_users ?d)" using u(1) by (force simp: db_users_update)
  moreover have "\<forall>v\<in>set (db_users ?d). u_token v \<noteq> tok" using free(2) by (auto simp: db_users_update)
  ultimately have "RotateUserSubscriptionToken (u_id u) tok ?d =
    Inr ((?f u)\<lparr>u_token := tok\<rparr>, update_users (\<lambda>v. u_id v = u_id u) (\<lambda>v. v\<lparr>u_token := tok\<rparr>) ?d)"
    using rotate_hits[of ?d "?f u" tok] up(2) by simp
  then show ?thesis using r u(2) by (simp add: rebind_def)
qed

text \<open>
  A proof of one address restores the account of another. The answer to a restore_account code names the
  address of the account it takes, and this address is not compared with the one the code was sent to: the
  holder of any restore code gets the account of every address that no other row holds its Telegram
  identifier in the way of, with a fresh subscription token.
\<close>

theorem restored_account_is_the_named_one:
  assumes ok: "users_ok (cm_db st)"
    and code: "GetActiveEmailVerification (id_tg i) ''restore_account'' now st = Some v" "0 < ot_attempts v"
      "HashOTPCode (ue_mac ue) (trim_space otp) otp_salt = ot_hash v"
    and req: "0 < id_tg i" "trim_space (to_lower (id_email i)) = mail" "mail \<noteq> []" "trim_space otp \<noteq> []"
    and u: "u \<in> set (db_users (cm_db st))" "u_email u = Some mail"
    and free: "\<forall>w\<in>set (db_users (cm_db st)). u_tg w \<noteq> Some (id_tg i)" "\<forall>w\<in>set (db_users (cm_db st)). u_token w \<noteq> tok"
    and up: "''RebindTelegramUser'' \<notin> db_down (cm_db st)" "''RotateUserSubscriptionToken'' \<notin> db_down (cm_db st)"
  shows "\<exists>w. fst (VerifyEmailOTP ue ctx tok (Some (i, otp, ''restore_account'')) now st) = Inr w \<and>
    u_id w = u_id u \<and> u_tg w = Some (id_tg i) \<and> u_token w = tok \<and> u_email w = Some mail"
proof -
  let ?st = "RecordVerificationAttempt (ot_id v) True now st"
  obtain w st' where w: "rebind i mail tok ?st = Inr (w, st')" "u_id w = u_id u" "u_tg w = Some (id_tg i)" "u_token w = tok"
    "u_email w = Some mail"
    using rebind_hits[of ?st u mail i tok] ok u free up by auto
  have "fst (VerifyEmailOTP ue ctx tok (Some (i, otp, ''restore_account'')) now st) = Inr w"
    using code req w(1) by (simp add: VerifyEmailOTP_def VerifyOTPCode_def Let_def purpose_or_link_def)
  then show ?thesis using w by blast
qed

definition demo_stranger :: crm where
  "demo_stranger = demo_crm\<lparr>cm_db := demo_bdb\<lparr>db_users := [demo_user\<lparr>u_email := Some ''v@x.y''\<rparr>]\<rparr>, cm_otps :=
     [\<lparr>ot_id = ''c'', ot_tg = 9, ot_email = ''a@b.c'', ot_hash = otp_salt @ ''000042'', ot_purpose = ''restore_account'',
       ot_attempts = 3, ot_expires = 10 * minute, ot_verified = None, ot_created = 0\<rparr>]\<rparr>"

lemma restored_account_is_the_named_one_witness:
  "\<exists>w. fst (VerifyEmailOTP demo_ue None ''t2'' (Some (demo_identity\<lparr>id_tg := 9, id_email := ''v@x.y''\<rparr>, ''000042'',
      ''restore_account'')) 1 demo_stranger) = Inr w \<and> u_id w = u_id demo_user \<and> u_tg w = Some 9 \<and> u_token w = ''t2'' \<and>
    u_email w = Some ''v@x.y''"
proof -
  have t: "trim_space (to_lower ''v@x.y'') = ''v@x.y''" "trim_space ''000042'' = ''000042''" by code_simp+
  show ?thesis
    using restored_account_is_the_named_one[of demo_stranger "demo_identity\<lparr>id_tg := 9, id_email := ''v@x.y''\<rparr>" 1
      "hd (cm_otps demo_stranger)" demo_ue "''000042''" "''v@x.y''" "demo_user\<lparr>u_email := Some ''v@x.y''\<rparr>" "''t2''" None]
    by (simp add: demo_stranger_def users_ok_def user_refs_ok_def demo_codes t)
qed

end
