(* ===== verification/Policies.thy ===== *)
theory Policies
  imports User_Laws "HOL-Library.AList"
begin

text \<open>
  Policies kept with the bot texts (src/internal/controlplane/store/user_crm.go, the bot_replies table in
  store/repo_billing.go) and the console pages that edit them (web/handler_settings.go, web/handler_audit.go):
  the referral programme, the retention of the audit log and the switches of its categories, the e-mail
  policy, and the texts themselves. A form is the map of its fields; an uploaded file is the address it was
  stored under. The desk is the state of the console's pages about subscribers.
\<close>

section \<open>The table of texts\<close>

definition UpsertBotReply :: "string \<Rightarrow> string \<Rightarrow> crm \<Rightarrow> crm" where
  "UpsertBotReply k v st =
     (if ''UpsertBotReply'' \<in> db_down (cm_db st) then st else st\<lparr>cm_replies := AList.update k v (cm_replies st)\<rparr>)"

definition DeleteBotReply :: "string \<Rightarrow> crm \<Rightarrow> crm" where
  "DeleteBotReply k st =
     (if ''DeleteBotReply'' \<in> db_down (cm_db st) then st else st\<lparr>cm_replies := AList.delete k (cm_replies st)\<rparr>)"

section \<open>Readings\<close>

definition flag_of :: "(string \<Rightarrow> string option) \<Rightarrow> string \<Rightarrow> bool \<Rightarrow> bool" where
  "flag_of m k dflt = (case m k of None \<Rightarrow> dflt | Some v \<Rightarrow> v \<noteq> ''false'')"

definition int_if :: "(int \<Rightarrow> bool) \<Rightarrow> int \<Rightarrow> string \<Rightarrow> int" where
  "int_if P dflt s = (case ParseInt s of None \<Rightarrow> dflt | Some n \<Rightarrow> if P n then n else dflt)"

definition int_of :: "(string \<Rightarrow> string option) \<Rightarrow> string \<Rightarrow> (int \<Rightarrow> bool) \<Rightarrow> int \<Rightarrow> int" where
  "int_of m k P dflt = (case m k of None \<Rightarrow> dflt | Some v \<Rightarrow> int_if P dflt v)"

definition or_text :: "string \<Rightarrow> string \<Rightarrow> string" where
  "or_text dflt s = (if s = [] then dflt else s)"

definition text_of :: "(string \<Rightarrow> string option) \<Rightarrow> string \<Rightarrow> string \<Rightarrow> string" where
  "text_of m k dflt = (case m k of None \<Rightarrow> dflt | Some v \<Rightarrow> or_text dflt v)"

abbreviation percentage :: "int \<Rightarrow> bool" where
  "percentage n \<equiv> 0 \<le> n \<and> n \<le> 100"

record referral_settings =
  rf_enabled :: bool
  rf_model :: string
  rf_inviter :: int
  rf_invitee :: int
  rf_percent :: int
  rf_min :: string
  rf_qualification :: string
  rf_cap :: int
  rf_expired :: bool

definition ParseReferralSettings :: "(string \<Rightarrow> string option) \<Rightarrow> referral_settings" where
  "ParseReferralSettings m =
     \<lparr>rf_enabled = flag_of m ''referral_enabled'' True, rf_model = text_of m ''referral_reward_model'' ''bonus_days'',
      rf_inviter = int_of m ''referral_inviter_days'' (\<lambda>n. 0 < n) 7,
      rf_invitee = int_of m ''referral_invitee_days'' (\<lambda>n. 0 \<le> n) 3,
      rf_percent = int_of m ''referral_commission_percent'' percentage 15,
      rf_min = text_of m ''referral_min_purchase_amount'' ''0.00'',
      rf_qualification = text_of m ''referral_qualification'' ''first_payment'',
      rf_cap = int_of m ''referral_daily_cap'' (\<lambda>n. 0 < n) 5, rf_expired = flag_of m ''referral_reward_expired'' True\<rparr>"

record log_settings =
  lg_days :: int
  lg_messages :: bool
  lg_auth :: bool
  lg_users :: bool
  lg_billing :: bool
  lg_nodes :: bool
  lg_settings :: bool

definition ParseLogRetentionSettings :: "(string \<Rightarrow> string option) \<Rightarrow> log_settings" where
  "ParseLogRetentionSettings m =
     \<lparr>lg_days = int_of m ''audit_log_retention_days'' (\<lambda>n. 0 \<le> n) 90, lg_messages = flag_of m ''audit_log_direct_messages'' True,
      lg_auth = flag_of m ''audit_log_auth'' True, lg_users = flag_of m ''audit_log_user_mgmt'' True,
      lg_billing = flag_of m ''audit_log_billing'' True, lg_nodes = flag_of m ''audit_log_nodes'' True,
      lg_settings = flag_of m ''audit_log_settings'' True\<rparr>"

record email_settings =
  em_policy :: string
  em_otp :: bool
  em_host :: string
  em_port :: int
  em_user :: string
  em_password :: string
  em_from :: string
  em_simulated :: bool

definition valid_policy :: "string \<Rightarrow> bool" where
  "valid_policy p \<longleftrightarrow> p \<in> {''optional'', ''required'', ''disabled''}"

definition ParseEmailPolicySettings :: "(string \<Rightarrow> string option) \<Rightarrow> email_settings" where
  "ParseEmailPolicySettings m =
     \<lparr>em_policy = (case m ''email_policy'' of None \<Rightarrow> ''optional'' | Some v \<Rightarrow> if valid_policy v then v else ''optional''),
      em_otp = (m ''email_otp_enabled'' = Some ''true''), em_host = text_or [] (m ''smtp_host''),
      em_port = int_of m ''smtp_port'' (\<lambda>n. 0 < n) 587, em_user = text_or [] (m ''smtp_user''),
      em_password = text_or [] (m ''smtp_password''), em_from = text_of m ''smtp_from_email'' ''noreply@vpnbuilder.local'',
      em_simulated = flag_of m ''smtp_simulated'' True\<rparr>"

section \<open>How the console shows a subscriber\<close>

definition DisplayTelegram :: "user \<Rightarrow> string" where
  "DisplayTelegram u =
     (if text_or [] (u_tg_name u) \<noteq> [] then CHR ''@'' # text_or [] (u_tg_name u)
      else if int_or 0 (u_tg u) > 0 then ''ID: '' @ int_str (int_or 0 (u_tg u)) else ''Web Client'')"

definition ShortID :: "user \<Rightarrow> string" where
  "ShortID u = take 8 (u_id u)"

definition DisplayName :: "user \<Rightarrow> string" where
  "DisplayName u =
     (let name = trim_space (text_or [] (u_first u) @ '' '' @ text_or [] (u_last u)) in
      if name \<noteq> [] then name
      else if u_username u \<noteq> [] \<and> \<not> has_prefix (u_username u) ''tg_'' then u_username u
      else if text_or [] (u_tg_name u) \<noteq> [] then CHR ''@'' # text_or [] (u_tg_name u)
      else if int_or 0 (u_tg u) > 0 then ''User #'' @ int_str (int_or 0 (u_tg u))
      else ''Client #'' @ ShortID u)"

definition TelegramIDString :: "user \<Rightarrow> string" where
  "TelegramIDString u = (if int_or 0 (u_tg u) > 0 then int_str (int_or 0 (u_tg u)) else [])"

definition CRMStatus :: "user \<Rightarrow> time \<Rightarrow> string" where
  "CRMStatus u now =
     (if bool_or False (u_banned u) then ''banned''
      else if u_status u = Some ''lead'' then ''lead''
      else if (case u_expires u of None \<Rightarrow> False | Some e \<Rightarrow> e < now) then ''expired''
      else if bool_or False (u_trial_used u) \<and> (case u_expires u of None \<Rightarrow> False | Some e \<Rightarrow> now < e) \<and>
        text_or nil_uuid (u_plan u) = nil_uuid then ''trial''
      else if u_status u = Some ''active'' then ''active'' else ''lead'')"

section \<open>The desk\<close>

record desk =
  ds_crm :: crm
  ds_alerts :: "(string \<times> string \<times> string \<times> diff) list"
  ds_sent :: "(int \<times> string \<times> (string \<times> string) option) list"

type_synonym form = "string \<Rightarrow> string option"

definition fv :: "form \<Rightarrow> string \<Rightarrow> string" where
  "fv f k = text_or [] (f k)"

definition ticked :: "form \<Rightarrow> string \<Rightarrow> bool" where
  "ticked f k \<longleftrightarrow> fv f k = ''true'' \<or> fv f k = ''on''"

definition bool_str :: "bool \<Rightarrow> string" where
  "bool_str b = (if b then ''true'' else ''false'')"

text \<open>Actions whose category is switched off are not recorded.\<close>

definition suppressed :: "log_settings \<Rightarrow> string \<Rightarrow> string \<Rightarrow> bool" where
  "suppressed c action typ \<longleftrightarrow>
     (action = ''DirectMessageUser'' \<or> action = ''SendBroadcast'') \<and> \<not> lg_messages c \<or>
     typ = ''auth'' \<and> \<not> lg_auth c \<or> typ = ''user'' \<and> \<not> lg_users c \<and> action \<noteq> ''DirectMessageUser'' \<or>
     typ = ''billing'' \<and> \<not> lg_billing c \<or> typ = ''node'' \<and> \<not> lg_nodes c \<or>
     (typ = ''settings'' \<or> typ = ''bot'') \<and> \<not> lg_settings c"

definition recordAudit :: "web_ctx option \<Rightarrow> string \<Rightarrow> string \<Rightarrow> uuid option \<Rightarrow> diff \<Rightarrow> desk \<Rightarrow> desk" where
  "recordAudit ctx action typ res df st =
     (let c = ds_crm st in
      if suppressed (ParseLogRetentionSettings (GetBotReplies c)) action typ then st
      else
        (let d = (case CreateAuditLog \<lparr>au_admin = map_option wc_admin ctx, au_key = None, au_action = action, au_type = typ,
                     au_resource = res, au_diff = df\<rparr> (cm_db c) of Inl _ \<Rightarrow> cm_db c | Inr d \<Rightarrow> d)
         in st\<lparr>ds_crm := c\<lparr>cm_db := d\<rparr>, ds_alerts := ds_alerts st @
              [((case ctx of None \<Rightarrow> ''System'' | Some w \<Rightarrow> wc_name w), action,
                (case res of None \<Rightarrow> typ | Some r \<Rightarrow> typ @ '':'' @ take 8 r), df)]\<rparr>))"

definition put_reply :: "string \<Rightarrow> string \<Rightarrow> desk \<Rightarrow> desk" where
  "put_reply k v st = st\<lparr>ds_crm := UpsertBotReply k v (ds_crm st)\<rparr>"

definition drop_reply :: "string \<Rightarrow> desk \<Rightarrow> desk" where
  "drop_reply k st = st\<lparr>ds_crm := DeleteBotReply k (ds_crm st)\<rparr>"

definition put_replies :: "(string \<times> string) list \<Rightarrow> desk \<Rightarrow> desk" where
  "put_replies kvs st = fold (\<lambda>(k, v). put_reply k v) kvs st"

abbreviation replies :: "desk \<Rightarrow> string \<Rightarrow> string option" where
  "replies st \<equiv> GetBotReplies (ds_crm st)"

text \<open>A change as the members old and new of its key.\<close>

definition changed :: "string \<Rightarrow> string \<Rightarrow> string \<Rightarrow> (string \<times> string) list" where
  "changed k old new = [(k @ ''.old'', old), (k @ ''.new'', new)]"

section \<open>Pages\<close>

definition may_edit :: "(perms \<Rightarrow> bool) \<Rightarrow> web_ctx \<Rightarrow> desk \<Rightarrow> bool" where
  "may_edit P c st \<longleftrightarrow> web_role c (cm_db (ds_crm st)) = ''owner'' \<or> P (getCallerPermissions (Some c) (cm_db (ds_crm st)))"

definition is_chief :: "web_ctx \<Rightarrow> desk \<Rightarrow> bool" where
  "is_chief c st \<longleftrightarrow> web_role c (cm_db (ds_crm st)) \<in> {''owner'', ''superadmin''}"

definition form_referral :: "form \<Rightarrow> referral_settings" where
  "form_referral f =
     \<lparr>rf_enabled = ticked f ''enabled'', rf_model = or_text ''bonus_days'' (trim_space (fv f ''reward_model'')),
      rf_inviter = int_if (\<lambda>n. 0 < n) 7 (fv f ''inviter_days''), rf_invitee = int_if (\<lambda>n. 0 \<le> n) 3 (fv f ''invitee_days''),
      rf_percent = int_if percentage 15 (fv f ''commission_percent''),
      rf_min = or_text ''0.00'' (trim_space (fv f ''min_purchase_amount'')),
      rf_qualification = or_text ''first_payment'' (trim_space (fv f ''qualification'')),
      rf_cap = int_if (\<lambda>n. 0 < n) 5 (fv f ''daily_cap''), rf_expired = ticked f ''reward_expired''\<rparr>"

definition referral_replies :: "referral_settings \<Rightarrow> (string \<times> string) list" where
  "referral_replies s =
     [(''referral_enabled'', bool_str (rf_enabled s)), (''referral_reward_model'', rf_model s),
      (''referral_inviter_days'', int_str (rf_inviter s)), (''referral_invitee_days'', int_str (rf_invitee s)),
      (''referral_commission_percent'', int_str (rf_percent s)), (''referral_min_purchase_amount'', rf_min s),
      (''referral_qualification'', rf_qualification s), (''referral_daily_cap'', int_str (rf_cap s)),
      (''referral_reward_expired'', bool_str (rf_expired s))]"

definition referral_diff :: "referral_settings \<Rightarrow> referral_settings \<Rightarrow> diff" where
  "referral_diff old s = JsonDiff
     (changed ''commission_percent'' (int_str (rf_percent old)) (int_str (rf_percent s)) @
      changed ''daily_cap'' (int_str (rf_cap old)) (int_str (rf_cap s)) @
      changed ''enabled'' (bool_str (rf_enabled old)) (bool_str (rf_enabled s)) @
      changed ''invitee_days'' (int_str (rf_invitee old)) (int_str (rf_invitee s)) @
      changed ''inviter_days'' (int_str (rf_inviter old)) (int_str (rf_inviter s)) @
      changed ''min_purchase_amount'' (rf_min old) (rf_min s) @
      changed ''qualification'' (rf_qualification old) (rf_qualification s) @
      changed ''reward_expired'' (bool_str (rf_expired old)) (bool_str (rf_expired s)) @
      changed ''reward_model'' (rf_model old) (rf_model s))"

definition UpdateReferralSettings :: "web_ctx option \<Rightarrow> form option \<Rightarrow> desk \<Rightarrow> outcome \<times> desk" where
  "UpdateReferralSettings ctx body st =
     (case ctx of None \<Rightarrow> (LoginPage, st)
      | Some c \<Rightarrow>
         if \<not> may_edit (\<lambda>p. p_replies p \<or> p_plans p) c st then (Failed ''Forbidden: permission required'', st)
         else case body of None \<Rightarrow> (Failed ''invalid_form'', st)
         | Some f \<Rightarrow> (Success ''saved'',
             recordAudit ctx ''UpdateReferralSettings'' ''referral_program'' None
               (referral_diff (ParseReferralSettings (replies st)) (form_referral f))
               (put_replies (referral_replies (form_referral f)) st)))"

text \<open>The audit rows that the purge would delete are protected by a trigger; its error is dropped.\<close>

definition log_switches :: "form \<Rightarrow> (string \<times> string) list" where
  "log_switches f =
     [(''audit_log_direct_messages'', bool_str (ticked f ''log_direct_messages'')),
      (''audit_log_auth'', bool_str (ticked f ''log_auth'')), (''audit_log_user_mgmt'', bool_str (ticked f ''log_user_mgmt'')),
      (''audit_log_billing'', bool_str (ticked f ''log_billing'')), (''audit_log_nodes'', bool_str (ticked f ''log_nodes'')),
      (''audit_log_settings'', bool_str (ticked f ''log_settings''))]"

definition UpdateLogRetentionSettings :: "web_ctx option \<Rightarrow> form option \<Rightarrow> desk \<Rightarrow> outcome \<times> desk" where
  "UpdateLogRetentionSettings ctx body st =
     (case ctx of None \<Rightarrow> (LoginPage, st)
      | Some c \<Rightarrow>
         if \<not> is_chief c st then (Failed ''Forbidden: only owner and superadmin can update retention policy'', st)
         else case body of None \<Rightarrow> (Failed ''invalid_form'', st)
         | Some f \<Rightarrow>
            (let old = ParseLogRetentionSettings (replies st); days = int_if (\<lambda>n. 0 \<le> n) 90 (fv f ''retention_days'');
                 st1 = put_reply ''audit_log_retention_days'' (int_str days) st;
                 st2 = (if f ''log_categories_submitted'' = None then st1 else put_replies (log_switches f) st1)
             in (Success ''Audit log retention and event filters updated successfully'',
                 recordAudit ctx ''UpdateLogRetentionPolicy'' ''settings'' None
                   (JsonDiff ([(''log_auth'', bool_str (ticked f ''log_auth'')), (''log_billing'', bool_str (ticked f ''log_billing'')),
                      (''log_direct_messages'', bool_str (ticked f ''log_direct_messages'')),
                      (''log_nodes'', bool_str (ticked f ''log_nodes'')), (''log_settings'', bool_str (ticked f ''log_settings'')),
                      (''log_user_mgmt'', bool_str (ticked f ''log_user_mgmt''))] @
                      changed ''retention_days'' (int_str (lg_days old)) (int_str days))) st2)))"

text \<open>Masked secrets stand for the stored one.\<close>

definition keepSecret :: "string \<Rightarrow> string \<Rightarrow> string" where
  "keepSecret submitted current =
     (if submitted = [] \<or> submitted = ''***'' \<or> contains submitted ''...'' then current else submitted)"

definition email_replies :: "string \<Rightarrow> string \<Rightarrow> form \<Rightarrow> (string \<times> string) list" where
  "email_replies policy password f =
     [(''email_policy'', policy), (''email_otp_enabled'', bool_str (ticked f ''email_otp_enabled'')),
      (''smtp_host'', trim_space (fv f ''smtp_host'')), (''smtp_port'', trim_space (fv f ''smtp_port'')),
      (''smtp_user'', trim_space (fv f ''smtp_user''))] @
     (if password = [] then [] else [(''smtp_password'', password)]) @
     [(''smtp_from_email'', trim_space (fv f ''smtp_from_email'')),
      (''smtp_simulated'', bool_str (ticked f ''smtp_simulated''))]"

definition UpdateEmailPolicySettings :: "web_ctx option \<Rightarrow> form option \<Rightarrow> desk \<Rightarrow> outcome \<times> desk" where
  "UpdateEmailPolicySettings ctx body st =
     (case ctx of None \<Rightarrow> (LoginPage, st)
      | Some c \<Rightarrow>
         if \<not> is_chief c st then (Failed ''Forbidden: only owner and superadmin can update security policies'', st)
         else case body of None \<Rightarrow> (Failed ''invalid_form'', st)
         | Some f \<Rightarrow>
            (let old = ParseEmailPolicySettings (replies st); policy = or_text ''optional'' (trim_space (fv f ''email_policy'')) in
             if \<not> valid_policy policy
             then (Failed ''invalid email_policy: must be one of optional, required, disabled'', st)
             else (Success ''Email policy and security settings saved successfully'',
               recordAudit ctx ''UpdateEmailPolicySettings'' ''settings'' None
                 (JsonDiff (changed ''email_policy'' (em_policy old) policy @
                    changed ''otp_enabled'' (bool_str (em_otp old)) (bool_str (ticked f ''email_otp_enabled'')) @
                    changed ''simulated'' (bool_str (em_simulated old)) (bool_str (ticked f ''smtp_simulated''))))
                 (put_replies (email_replies policy (keepSecret (trim_space (fv f ''smtp_password'')) (em_password old)) f) st))))"

definition PurgeOldAuditLogs :: "web_ctx option \<Rightarrow> form \<Rightarrow> (int \<Rightarrow> db_error option) \<Rightarrow> (int \<Rightarrow> string) \<Rightarrow> desk \<Rightarrow> outcome \<times> desk" where
  "PurgeOldAuditLogs ctx f delete_older cutoff st =
     (case ctx of None \<Rightarrow> (LoginPage, st)
      | Some c \<Rightarrow>
         if \<not> is_chief c st then (Failed ''Forbidden: only owner and superadmin can purge logs'', st)
         else
           (let days = int_if (\<lambda>n. 0 < n) (lg_days (ParseLogRetentionSettings (replies st))) (fv f ''days'') in
            if days > 0 then
              (case delete_older days of
                 Some _ \<Rightarrow> (Failed ''Failed to purge logs'', st)
               | None \<Rightarrow> (Success ''Expired audit logs purged successfully'',
                   recordAudit ctx ''PurgeAuditLogs'' ''audit_logs'' None
                     (JsonDiff [(''days'', int_str days), (''cutoff'', cutoff days)]) st))
            else (Success ''Expired audit logs purged successfully'', st)))"

text \<open>The texts of the bot by their categories: an empty field restores the default, an absent one changes nothing.\<close>

definition reply_keys :: "string list" where
  "reply_keys =
     [''welcome_new_user'', ''welcome_referral'', ''welcome_active_user'', ''trial_activated'',
      ''trial_expiring_soon'', ''trial_expired'', ''trial_no_active_tier'', ''catalog_header'',
      ''payment_method_prompt'', ''invoice_created'', ''payment_success'', ''expiry_warning_72h'',
      ''expiry_warning_24h'', ''subscription_expired'', ''winback_offer'', ''help_text'', ''support_text'',
      ''setup_guide_ios'', ''setup_guide_android'', ''setup_guide_windows'', ''setup_guide_macos'',
      ''keys_reset_prompt'', ''keys_reset_success'', ''traffic_limit_reached'', ''quota_warning_80'',
      ''banned_message'', ''referral_overview'', ''referral_joined_notice'', ''referral_reward_credited'']"

definition put_field :: "form \<Rightarrow> string \<Rightarrow> string \<Rightarrow> desk \<Rightarrow> desk" where
  "put_field f field k st = (if f field = None then st else put_reply k (trim_space (fv f field)) st)"

definition put_or_drop :: "string \<Rightarrow> string \<Rightarrow> desk \<Rightarrow> desk" where
  "put_or_drop k v st = (if v = [] then drop_reply k st else put_reply k v st)"

definition save_text :: "form \<Rightarrow> (string \<Rightarrow> string) \<Rightarrow> string \<Rightarrow> desk \<Rightarrow> desk" where
  "save_text f uploads k st =
     (if f (''reply_'' @ k) = None then st
      else
        (let st1 = put_or_drop k (trim_space (fv f (''reply_'' @ k))) st in
         if uploads (''reply_file_'' @ k) \<noteq> [] then put_reply (k @ ''_media'') (uploads (''reply_file_'' @ k)) st1
         else if f (''reply_media_'' @ k) = None then st1
         else put_or_drop (k @ ''_media'') (trim_space (fv f (''reply_media_'' @ k))) st1))"

definition save_replies :: "form \<Rightarrow> (string \<Rightarrow> string) \<Rightarrow> desk \<Rightarrow> desk" where
  "save_replies f uploads st =
     (let st1 = (if f ''reply_referral_enabled'' = None then st
                 else put_reply ''referral_enabled'' (bool_str (ticked f ''reply_referral_enabled'')) st);
          st2 = put_field f ''bot_token'' ''bot_token'' st1;
          st3 = (if uploads ''welcome_banner_file'' \<noteq> [] then put_reply ''welcome_banner_url'' (uploads ''welcome_banner_file'') st2
                 else put_field f ''welcome_banner_url'' ''welcome_banner_url'' st2);
          st4 = put_field f ''support_link'' ''support_link'' (put_field f ''channel_link'' ''channel_link'' st3)
      in fold (save_text f uploads) reply_keys st4)"

definition reply_diff :: "form \<Rightarrow> (string \<Rightarrow> string option) \<Rightarrow> (string \<times> string) list" where
  "reply_diff f old = concat (List.map (\<lambda>k.
     if f (''reply_'' @ k) = None \<or> text_or [] (old k) = trim_space (fv f (''reply_'' @ k)) then []
     else changed k (text_or [] (old k)) (trim_space (fv f (''reply_'' @ k)))) reply_keys)"

definition UpdateBotReplies :: "web_ctx option \<Rightarrow> form option \<Rightarrow> (string \<Rightarrow> string) \<Rightarrow> string option \<Rightarrow> desk \<Rightarrow> outcome \<times> desk" where
  "UpdateBotReplies ctx body uploads revision st =
     (case ctx of None \<Rightarrow> (LoginPage, st)
      | Some c \<Rightarrow>
         if \<not> may_edit p_replies c st then (Failed ''Forbidden: permission required'', st)
         else case body of None \<Rightarrow> (Failed ''invalid_form'', st)
         | Some f \<Rightarrow>
             if fv f ''revision'' \<noteq> [] \<and> text_or [] revision \<noteq> [] \<and> fv f ''revision'' \<noteq> text_or [] revision
             then (Failed ''bot replies were modified by another administrator (revision mismatch), please reload the page and try again'', st)
             else (Success ''saved'', recordAudit ctx ''UpdateBotReplies'' ''bot'' None (JsonDiff (reply_diff f (replies st)))
                     (save_replies f uploads st)))"

section \<open>What a page leaves in the table\<close>

lemma recordAudit_replies [simp]: "replies (recordAudit ctx action typ res df st) = replies st"
  by (auto simp: recordAudit_def Let_def GetBotReplies_def CreateAuditLog_def split: sum.splits)

lemma replies_put:
  assumes "db_down (cm_db (ds_crm st)) \<inter> {''UpsertBotReply'', ''GetBotReplies''} = {}"
  shows "replies (put_reply k v st) = (replies st)(k \<mapsto> v)" "db_down (cm_db (ds_crm (put_reply k v st))) = db_down (cm_db (ds_crm st))"
  using assms by (auto simp: put_reply_def UpsertBotReply_def GetBotReplies_def update_conv')

lemma replies_put_all:
  assumes "db_down (cm_db (ds_crm st)) \<inter> {''UpsertBotReply'', ''GetBotReplies''} = {}"
  shows "replies (put_replies kvs st) = fold (\<lambda>(k, v) m. m(k \<mapsto> v)) kvs (replies st)"
  using assms unfolding put_replies_def
proof (induction kvs arbitrary: st)
  case (Cons kv kvs)
  obtain k v where kv: "kv = (k, v)" by (cases kv)
  have "replies (fold (\<lambda>(k, v). put_reply k v) kvs (put_reply k v st)) = fold (\<lambda>(k, v) m. m(k \<mapsto> v)) kvs (replies (put_reply k v st))"
    using Cons.prems by (intro Cons.IH) (simp add: replies_put)
  then show ?case using Cons.prems by (simp add: kv replies_put del: fun_upd_apply)
qed simp

lemma put_replies_other: "k \<notin> fst ` set kvs \<Longrightarrow> fold (\<lambda>(k, v) m. m(k \<mapsto> v)) kvs m k = m k"
  by (induction kvs arbitrary: m) auto

section \<open>Properties\<close>

lemma int_if_saved:
  assumes "P dflt" "int8_fits dflt"
  shows "int_if P dflt (int_str (int_if P dflt s)) = int_if P dflt s"
proof -
  have "int8_fits (int_if P dflt s)" "P (int_if P dflt s)"
    using assms by (auto simp: int_if_def ParseInt_def Let_def split: option.splits if_splits)
  then show ?thesis unfolding int_if_def[of P dflt "int_str (int_if P dflt s)"] by (simp add: ParseInt_int_str)
qed

lemma flag_saved: "bool_str b \<noteq> ''false'' \<longleftrightarrow> b"
  by (simp add: bool_str_def)

text \<open>
  The referral page saves what it accepts: after an administrator who may edit the texts or the plans
  submits the form, the parser that the bot and the API use reads back the form's values, each within its
  range, absent or malformed numbers replaced by the defaults, and every other text is as it was.
\<close>

theorem referral_settings_saved:
  assumes "db_down (cm_db (ds_crm st)) \<inter> {''UpsertBotReply'', ''GetBotReplies''} = {}"
    and "may_edit (\<lambda>p. p_replies p \<or> p_plans p) c st"
  shows "ParseReferralSettings (replies (snd (UpdateReferralSettings (Some c) (Some f) st))) = form_referral f \<and>
    (\<forall>k. k \<notin> fst ` set (referral_replies (form_referral f)) \<longrightarrow>
      replies (snd (UpdateReferralSettings (Some c) (Some f) st)) k = replies st k)"
proof -
  let ?m = "fold (\<lambda>(k, v) m. m(k \<mapsto> v)) (referral_replies (form_referral f)) (replies st)"
  have "ParseReferralSettings ?m = form_referral f"
    by (simp add: ParseReferralSettings_def form_referral_def referral_replies_def flag_of_def flag_saved text_of_def or_text_def
        int_of_def int_if_saved int8_fits_def)
  then show ?thesis using assms by (simp add: UpdateReferralSettings_def replies_put_all[OF assms(1)] put_replies_other)
qed

definition demo_web :: web_ctx where
  "demo_web = \<lparr>wc_admin = a_id demo_admin, wc_name = ''root'', wc_role = ''owner'', wc_must = False\<rparr>"

definition demo_desk :: desk where
  "demo_desk = \<lparr>ds_crm = demo_crm, ds_alerts = [], ds_sent = []\<rparr>"

definition demo_form :: form where
  "demo_form = [''enabled'' \<mapsto> ''on'', ''inviter_days'' \<mapsto> ''9'', ''commission_percent'' \<mapsto> ''400'', ''email_policy'' \<mapsto> ''disabled'']"

lemma demo_web_chief: "web_role demo_web (cm_db (ds_crm demo_desk)) = ''owner''"
  by (simp add: web_role_def caller_role_def demo_web_def demo_desk_def demo_crm_def demo_bdb_def GetAdminByID_def demo_admin_def)

lemma referral_settings_saved_witness:
  "rf_inviter (ParseReferralSettings (replies (snd (UpdateReferralSettings (Some demo_web) (Some demo_form) demo_desk)))) = 9 \<and>
   rf_percent (ParseReferralSettings (replies (snd (UpdateReferralSettings (Some demo_web) (Some demo_form) demo_desk)))) = 15"
proof -
  have n: "int_if (\<lambda>n. 0 < n) 7 ''9'' = 9" "int_if percentage 15 ''400'' = 15" by code_simp+
  have "ParseReferralSettings (replies (snd (UpdateReferralSettings (Some demo_web) (Some demo_form) demo_desk))) = form_referral demo_form"
    using referral_settings_saved[of demo_desk demo_web demo_form] demo_web_chief
    by (simp add: may_edit_def) (simp add: demo_desk_def demo_crm_def demo_bdb_def)
  then show ?thesis by (simp add: form_referral_def fv_def demo_form_def n)
qed



end
