(* ===== verification/Users_Console.thy ===== *)
theory Users_Console
  imports Policies
begin

text \<open>
  The console's pages about subscribers (src/internal/controlplane/web/handler_users.go): create, reset,
  delete, message, assign a plan, change the address, ban. A page's target is the parsed identifier of its
  path, the body the parsed form; parsing of identifiers, delivery by Telegram (none when no service is
  configured) and the rendering of a byte count are arguments. Details of the audit are plain text, which
  the JSON column refuses, so the pages leave alerts but no audit row.
\<close>

section \<open>Environment\<close>

record desk_env =
  de_tx :: bool
  de_uuid :: "string \<Rightarrow> uuid option"
  de_deliver :: "(int \<Rightarrow> string \<Rightarrow> (string \<times> string) option \<Rightarrow> bool) option"
  de_bytes :: "int \<Rightarrow> string"

definition on_db :: "(bdb \<Rightarrow> 'e + bdb) \<Rightarrow> desk \<Rightarrow> 'e + desk" where
  "on_db step st = (case step (cm_db (ds_crm st)) of Inl e \<Rightarrow> Inl e | Inr d \<Rightarrow> Inr (st\<lparr>ds_crm := (ds_crm st)\<lparr>cm_db := d\<rparr>\<rparr>))"

abbreviation desk_db :: "desk \<Rightarrow> bdb" where
  "desk_db st \<equiv> cm_db (ds_crm st)"

definition desk_push :: "uuid list \<Rightarrow> desk \<Rightarrow> desk" where
  "desk_push ps st = st\<lparr>ds_crm := (ds_crm st)\<lparr>cm_pushed := cm_pushed (ds_crm st) @ ps\<rparr>\<rparr>"

definition desk_provision :: "desk_env \<Rightarrow> (uuid \<Rightarrow> draws) \<Rightarrow> uuid \<Rightarrow> time \<Rightarrow> desk \<Rightarrow> desk" where
  "desk_provision de dr uid now st =
     (case ProvisionUser (de_tx de) uid dr now (desk_db st) of
        (_, d, ps) \<Rightarrow> desk_push ps (st\<lparr>ds_crm := (ds_crm st)\<lparr>cm_db := d\<rparr>\<rparr>))"

definition desk_revoke :: "uuid \<Rightarrow> desk \<Rightarrow> prov_error option \<times> desk" where
  "desk_revoke uid st = (case revoke uid (ds_crm st) of (e, c) \<Rightarrow> (e, st\<lparr>ds_crm := c\<rparr>))"

text \<open>strconv with its error ignored: a value out of range is the nearest one, malformed text is zero.\<close>

definition parsed_int :: "string \<Rightarrow> int" where
  "parsed_int s =
     (case ParseInt s of Some n \<Rightarrow> n
      | None \<Rightarrow>
         (let ds = (if take 1 s = ''-'' \<or> take 1 s = ''+'' then drop 1 s else s) in
          if ds \<noteq> [] \<and> list_all is_digit ds
          then (if take 1 s = ''-'' then - 9223372036854775808 else 9223372036854775807) else 0))"

definition trim_at :: "string \<Rightarrow> string" where
  "trim_at s = (if has_prefix s ''@'' then drop 1 s else s)"

definition button_of :: "form \<Rightarrow> (string \<times> string) option" where
  "button_of f =
     (let t = trim_space (fv f ''button_text''); u = trim_space (fv f ''button_url'')
      in if t \<noteq> [] \<and> u \<noteq> [] then Some (t, u) else None)"

section \<open>Creation\<close>

text \<open>The plan, the quota and the expiry that the form asks for.\<close>

definition preset_terms :: "desk_env \<Rightarrow> form \<Rightarrow> time \<Rightarrow> bdb \<Rightarrow> uuid option \<times> int \<times> time option" where
  "preset_terms de f now d =
     (case de_uuid de (fv f ''plan_id'') of None \<Rightarrow> (None, 0, None)
      | Some pid \<Rightarrow> (case GetPlanByID pid d of Inl _ \<Rightarrow> (None, 0, None)
          | Inr p \<Rightarrow> (Some pid, TrafficLimitBytes p,
              Some (if bool_or False (pl_trial p) then trial_end p now
                    else AddDate 0 (int_if (\<lambda>n. 0 < n) 30 (fv f ''duration_days'')) now))))"

definition custom_terms :: "form \<Rightarrow> time \<Rightarrow> uuid option \<times> int \<times> time option" where
  "custom_terms f now =
     (let gb = parsed_int (fv f ''traffic_limit_gb''); days = parsed_int (fv f ''duration_days'')
      in (None, if \<not> ticked f ''unlimited_traffic'' \<and> gb > 0 then wrap64 (gb * gib) else 0,
          if \<not> ticked f ''never_expires'' \<and> days > 0 then Some (AddDate 0 days now) else None))"

definition attach_telegram :: "uuid \<Rightarrow> form \<Rightarrow> desk \<Rightarrow> desk" where
  "attach_telegram uid f st =
     (let tg = trim_space (fv f ''telegram_id''); tg_name = trim_at (trim_space (fv f ''telegram_username'')) in
      if tg = [] \<and> tg_name = [] then st
      else case UpdateTelegramMetadata uid (parsed_int tg) tg_name False None [] (desk_db st) of
        Inl _ \<Rightarrow> st | Inr (_, d) \<Rightarrow> st\<lparr>ds_crm := (ds_crm st)\<lparr>cm_db := d\<rparr>\<rparr>)"

definition form_terms :: "desk_env \<Rightarrow> form \<Rightarrow> time \<Rightarrow> bdb \<Rightarrow> uuid option \<times> int \<times> time option" where
  "form_terms de f now d = (if fv f ''plan_type'' = ''preset'' then preset_terms de f now d else custom_terms f now)"

definition form_user :: "desk_env \<Rightarrow> uuid \<Rightarrow> uuid \<Rightarrow> form \<Rightarrow> time \<Rightarrow> bdb \<Rightarrow> user" where
  "form_user de uid tok f now d =
     (case form_terms de f now d of
        (plan, limit, expires) \<Rightarrow>
          (new_user uid tok (trim_space (fv f ''username'')))\<lparr>u_email := nonempty (trim_space (fv f ''email'')), u_plan := plan,
            u_limit := (if limit > 0 then Some limit else None), u_used := None, u_expires := expires,
            u_note := nonempty (trim_space (fv f ''note''))\<rparr>)"

definition WebCreateUser ::
    "desk_env \<Rightarrow> (uuid \<Rightarrow> draws) \<Rightarrow> web_ctx option \<Rightarrow> uuid \<Rightarrow> uuid \<Rightarrow> form option \<Rightarrow> time \<Rightarrow> desk \<Rightarrow> outcome \<times> desk" where
  "WebCreateUser de dr ctx uid tok body now st =
     (if \<not> p_users (getCallerPermissions ctx (desk_db st))
      then (Failed ''Forbidden: permission to manage subscribers is required'', st)
      else case body of None \<Rightarrow> (Failed ''Invalid form data'', st)
      | Some f \<Rightarrow>
         if trim_space (fv f ''username'') = [] then (Failed ''Username is required'', st)
         else (case CreateUser (form_user de uid tok f now (desk_db st)) (desk_db st) of
            Inl _ \<Rightarrow> (Failed ''Failed to create subscriber'', st)
          | Inr (u, d) \<Rightarrow> (Success ''Subscriber created successfully'',
              recordAudit ctx ''CreateUser'' ''user'' (Some (u_id u))
                (PlainText (''Subscriber '' @ trim_space (fv f ''username'') @ '' created with plan '' @ fv f ''plan_type''))
                (attach_telegram (u_id u) f
                  (desk_provision de dr (u_id u) now (st\<lparr>ds_crm := (ds_crm st)\<lparr>cm_db := d\<rparr>\<rparr>))))))"

section \<open>Pages of one subscriber\<close>

definition WebResetTraffic :: "web_ctx option \<Rightarrow> uuid option \<Rightarrow> desk \<Rightarrow> outcome \<times> desk" where
  "WebResetTraffic ctx target st =
     (if \<not> p_reset (getCallerPermissions ctx (desk_db st))
      then (Failed ''Forbidden: permission to reset traffic is required'', st)
      else case target of None \<Rightarrow> (Failed ''Invalid user ID'', st)
      | Some uid \<Rightarrow> (case on_db (ResetUserTraffic uid) st of
          Inl _ \<Rightarrow> (Failed ''Failed to reset traffic'', st)
        | Inr st1 \<Rightarrow> (Success ''Traffic quota reset successfully'',
            recordAudit ctx ''ResetUserTraffic'' ''user'' (Some uid) (PlainText (''Reset traffic for user '' @ take 8 uid))
              (desk_push (PushUserNodes uid (desk_db st1)) st1))))"

definition WebDeleteUser :: "web_ctx option \<Rightarrow> uuid option \<Rightarrow> desk \<Rightarrow> outcome \<times> desk" where
  "WebDeleteUser ctx target st =
     (if \<not> p_delete (getCallerPermissions ctx (desk_db st))
      then (Failed ''Forbidden: permission to delete subscribers is required. Use suspend instead.'', st)
      else case target of None \<Rightarrow> (Failed ''Invalid user ID'', st)
      | Some uid \<Rightarrow>
         (let found = (case GetUserByID uid (desk_db st) of Inl _ \<Rightarrow> [] | Inr u \<Rightarrow> u_username u);
              name = (if found = [] then take 8 uid else found)
          in case desk_revoke uid st of
               (Some _, st1) \<Rightarrow> (Failed ''Failed to revoke credentials'', st1)
             | (None, st1) \<Rightarrow> (case on_db (delete_user uid) st1 of
                 Inl _ \<Rightarrow> (Failed ''Failed to delete user'', st1)
               | Inr st2 \<Rightarrow> (Success ''User deleted successfully'',
                   recordAudit ctx ''DeleteUser'' ''user'' (Some uid) (PlainText (''User '' @ name @ '' deleted permanently'')) st2))))"

definition DirectMessageUser :: "desk_env \<Rightarrow> web_ctx option \<Rightarrow> uuid option \<Rightarrow> form option \<Rightarrow> desk \<Rightarrow> outcome \<times> desk" where
  "DirectMessageUser de ctx target body st =
     (if \<not> p_broadcast (getCallerPermissions ctx (desk_db st))
      then (Failed ''Forbidden: permission to send messages is required'', st)
      else case target of None \<Rightarrow> (Failed ''Invalid user ID'', st)
      | Some uid \<Rightarrow> (case body of None \<Rightarrow> (Failed ''invalid_form'', st)
        | Some f \<Rightarrow>
           (let msg = trim_space (fv f ''message_text'') in
            if msg = [] then (Failed ''Message text cannot be empty'', st)
            else case GetUserByID uid (desk_db st) of Inl _ \<Rightarrow> (Failed ''User not found'', st)
            | Inr u \<Rightarrow>
                if int_or 0 (u_tg u) \<le> 0 then (Failed ''User has no linked Telegram account'', st)
                else case de_deliver de of None \<Rightarrow> (Failed ''Telegram delivery service not available'', st)
                | Some send \<Rightarrow>
                   (let st1 = st\<lparr>ds_sent := ds_sent st @ [(int_or 0 (u_tg u), msg, button_of f)]\<rparr> in
                    if \<not> send (int_or 0 (u_tg u)) msg (button_of f) then (Failed ''Failed to send message'', st1)
                    else (Success ''Personal message sent to Telegram successfully'',
                      recordAudit ctx ''DirectMessageUser'' ''user'' (Some uid)
                        (PlainText (''Direct Telegram message sent to user '' @ u_username u @ '' ('' @ int_str (int_or 0 (u_tg u)) @ '')'')) st1)))))"

text \<open>The update names the plan, the quota, the expiry and the status only; its other columns are written too.\<close>

definition plan_notice :: "desk_env \<Rightarrow> plan \<Rightarrow> int \<Rightarrow> string" where
  "plan_notice de p days = ''Your subscription has been activated!'' @ [CHR 0x0A] @ ''Plan: <b>'' @ pl_name p @ ''</b>'' @ [CHR 0x0A] @
     ''Valid for: <b>'' @ int_str days @ '' days</b>'' @ [CHR 0x0A] @ ''Bandwidth: <b>'' @ de_bytes de (TrafficLimitBytes p) @ ''</b>''"

text \<open>After the update: credentials, the notice and the audit.\<close>

definition plan_assigned ::
    "desk_env \<Rightarrow> (uuid \<Rightarrow> draws) \<Rightarrow> web_ctx option \<Rightarrow> uuid \<Rightarrow> plan \<Rightarrow> int \<Rightarrow> form \<Rightarrow> time \<Rightarrow> desk \<Rightarrow> desk" where
  "plan_assigned de dr ctx uid p days f now st =
     (let st1 = desk_provision de dr uid now st;
          target_user = (case GetUserByID uid (desk_db st1) of Inl _ \<Rightarrow> zero_user | Inr u \<Rightarrow> u);
          tg = int_or 0 (u_tg target_user);
          st2 = (if tg > 0 \<and> de_deliver de \<noteq> None \<and> ticked f ''notify_user''
                 then st1\<lparr>ds_sent := ds_sent st1 @ [(tg, plan_notice de p days, None)]\<rparr> else st1)
      in recordAudit ctx ''AssignUserPlan'' ''user'' (Some uid)
           (PlainText (''Assigned plan '' @ pl_name p @ '' ('' @ int_str days @ '' days) to user '' @ u_username target_user)) st2)"

definition AssignUserPlan ::
    "desk_env \<Rightarrow> (uuid \<Rightarrow> draws) \<Rightarrow> web_ctx option \<Rightarrow> uuid option \<Rightarrow> form option \<Rightarrow> time \<Rightarrow> desk \<Rightarrow> outcome \<times> desk" where
  "AssignUserPlan de dr ctx target body now st =
     (if \<not> p_users (getCallerPermissions ctx (desk_db st))
      then (Failed ''Forbidden: permission to manage subscribers is required'', st)
      else case target of None \<Rightarrow> (Failed ''Invalid user ID'', st)
      | Some uid \<Rightarrow> (case body of None \<Rightarrow> (Failed ''invalid_form'', st)
        | Some f \<Rightarrow> (case de_uuid de (trim_space (fv f ''plan_id'')) of None \<Rightarrow> (Failed ''Please select a valid plan'', st)
          | Some pid \<Rightarrow> (case GetPlanByID pid (desk_db st) of Inl _ \<Rightarrow> (Failed ''Plan not found'', st)
            | Inr p \<Rightarrow>
               (let asked = parsed_int (fv f ''duration_days''); days = (if asked \<le> 0 then 30 else asked);
                    limit = TrafficLimitBytes p
                in case UpdateUser uid None [] None (Some ''active'') (Some pid) (if limit > 0 then Some limit else None)
                       (Some (AddDate 0 days now)) None (desk_db st) of
                     Inl _ \<Rightarrow> (Failed ''Failed to assign plan'', st)
                   | Inr (_, d) \<Rightarrow> (Success ''Plan assigned and provisioned successfully'',
                       plan_assigned de dr ctx uid p days f now (st\<lparr>ds_crm := (ds_crm st)\<lparr>cm_db := d\<rparr>\<rparr>)))))))"

definition WebUpdateUserEmail :: "web_ctx option \<Rightarrow> uuid option \<Rightarrow> form option \<Rightarrow> desk \<Rightarrow> outcome \<times> desk" where
  "WebUpdateUserEmail ctx target body st =
     (if \<not> p_users (getCallerPermissions ctx (desk_db st))
      then (Failed ''Forbidden: permission to manage subscribers is required'', st)
      else case target of None \<Rightarrow> (Failed ''Invalid user ID'', st)
      | Some uid \<Rightarrow> (case body of None \<Rightarrow> (Failed ''invalid_form'', st)
        | Some f \<Rightarrow>
           (let email = trim_space (to_lower (fv f ''email'')) in
            case GetUserByID uid (desk_db st) of Inl _ \<Rightarrow> (Failed ''User not found'', st)
            | Inr u \<Rightarrow>
                if email \<noteq> [] \<and> (case GetUserByEmail email (desk_db st) of Inl _ \<Rightarrow> False | Inr v \<Rightarrow> u_id v \<noteq> uid)
                then (Failed ''This email is already used by another subscriber'', st)
                else case UpdateUserEmail uid email (desk_db st) of
                  Inl _ \<Rightarrow> (Failed ''Failed to update email'', st)
                | Inr (_, d) \<Rightarrow> (Success ''Email updated successfully'',
                    recordAudit ctx ''UpdateUserEmail'' ''user'' (Some uid)
                      (PlainText (''Updated email for user '' @ u_username u @ '' to '' @ email))
                      (st\<lparr>ds_crm := (ds_crm st)\<lparr>cm_db := d\<rparr>\<rparr>)))))"

definition ToggleUserBan ::
    "desk_env \<Rightarrow> (uuid \<Rightarrow> draws) \<Rightarrow> web_ctx option \<Rightarrow> uuid option \<Rightarrow> time \<Rightarrow> desk \<Rightarrow> outcome \<times> desk" where
  "ToggleUserBan de dr ctx target now st =
     (if ctx = None then (LoginPage, st)
      else if \<not> p_users (getCallerPermissions ctx (desk_db st))
      then (Failed ''Forbidden: permission to manage subscribers is required'', st)
      else case target of None \<Rightarrow> (Failed ''Invalid user ID'', st)
      | Some uid \<Rightarrow> (case GetUserByID uid (desk_db st) of Inl _ \<Rightarrow> (Failed ''User not found'', st)
        | Inr u \<Rightarrow>
           (let ban = \<not> bool_or False (u_banned u) in
            case on_db (SetUserBanStatus uid ban (nonempty (if ban then ''Banned by admin'' else []))) st of
              Inl _ \<Rightarrow> (Failed ''Failed to update ban status'', st)
            | Inr st1 \<Rightarrow>
               (let st2 = (if ban then snd (desk_revoke uid st1) else desk_provision de dr uid now st1)
                in (Success (if ban then ''User banned successfully'' else ''User unbanned successfully''),
                    recordAudit ctx (if ban then ''BanUser'' else ''UnbanUser'') ''user'' (Some uid)
                      (PlainText (''User '' @ u_username u @ '' ban status set to '' @ bool_str ban)) st2)))))"

section \<open>Integrity\<close>

lemma recordAudit_db [simp]:
  "db_users (desk_db (recordAudit ctx action typ res df st)) = db_users (desk_db st)"
  "db_plans (desk_db (recordAudit ctx action typ res df st)) = db_plans (desk_db st)"
  "db_creds (desk_db (recordAudit ctx action typ res df st)) = db_creds (desk_db st)"
  by (auto simp: recordAudit_def Let_def CreateAuditLog_def split: sum.splits)

lemma recordAudit_ok [simp]: "users_ok (desk_db (recordAudit ctx action typ res df st)) \<longleftrightarrow> users_ok (desk_db st)"
  by (simp add: users_ok_def user_refs_ok_def)

lemma desk_push_db [simp]: "desk_db (desk_push ps st) = desk_db st"
  by (simp add: desk_push_def)

lemma desk_provision_ok [simp]: "users_ok (desk_db st) \<Longrightarrow> users_ok (desk_db (desk_provision de dr uid now st))"
  by (auto simp: desk_provision_def split: prod.splits dest: provisioning_ok)

lemma desk_revoke_ok: "desk_revoke uid st = (e, st') \<Longrightarrow> users_ok (desk_db st) \<Longrightarrow> users_ok (desk_db st')"
  by (auto simp: desk_revoke_def split: prod.splits dest: revoke_ok)

lemma ban_ok: "SetUserBanStatus uid b r d = Inr d' \<Longrightarrow> users_ok (d :: bdb) \<Longrightarrow> users_ok d'"
  by (auto simp: SetUserBanStatus_def user_clash_def split: if_splits intro!: update_plain_ok)

lemma on_db_InrD: "on_db step st = Inr st' \<Longrightarrow> step (desk_db st) = Inr (desk_db st')"
  by (auto simp: on_db_def split: sum.splits)

lemma plan_assigned_ok [simp]: "users_ok (desk_db st) \<Longrightarrow> users_ok (desk_db (plan_assigned de dr ctx uid p days f now st))"
  by (simp add: plan_assigned_def Let_def)

inductive desk_step :: "desk_env \<Rightarrow> desk \<Rightarrow> desk \<Rightarrow> bool" for de where
  create: "desk_step de st (snd (WebCreateUser de dr ctx uid tok body now st))"
| reset: "desk_step de st (snd (WebResetTraffic ctx target st))"
| delete: "desk_step de st (snd (WebDeleteUser ctx target st))"
| message: "desk_step de st (snd (DirectMessageUser de ctx target body st))"
| assign: "desk_step de st (snd (AssignUserPlan de dr ctx target body now st))"
| address: "desk_step de st (snd (WebUpdateUserEmail ctx target body st))"
| ban: "desk_step de st (snd (ToggleUserBan de dr ctx target now st))"

lemma attach_ok [simp]: "users_ok (desk_db st) \<Longrightarrow> users_ok (desk_db (attach_telegram uid f st))"
  by (auto simp: attach_telegram_def Let_def split: sum.split dest: user_statements_ok(6))

lemma desk_step_keeps: "desk_step de st st' \<Longrightarrow> users_ok (desk_db st) \<Longrightarrow> users_ok (desk_db st')"
proof (induction rule: desk_step.induct)
  case (create st dr ctx uid tok body now)
  then show ?case
    by (auto simp: WebCreateUser_def split: option.split sum.split dest: user_statements_ok(1))
next
  case (reset st ctx target)
  then show ?case by (auto simp: WebResetTraffic_def split: option.split sum.split dest!: on_db_InrD dest: reset_ok)
next
  case (delete st ctx target)
  then show ?case
    by (auto simp: WebDeleteUser_def Let_def split: option.split sum.split prod.split dest!: on_db_InrD
        dest: desk_revoke_ok delete_user_ok)
next
  case (message st ctx target body)
  then show ?case by (auto simp: DirectMessageUser_def Let_def split: option.split sum.split)
next
  case (assign st dr ctx target body now)
  then show ?case
    by (auto simp: AssignUserPlan_def Let_def split: option.split sum.split dest: user_statements_ok(2))
next
  case (address st ctx target body)
  then show ?case
    by (auto simp: WebUpdateUserEmail_def Let_def split: option.split sum.split dest: user_statements_ok(3))
next
  case (ban st dr ctx target now)
  have "users_ok (desk_db (snd (desk_revoke uid s)))" if "users_ok (desk_db s)" for uid s
    using that desk_revoke_ok[OF prod.collapse[symmetric]] by blast
  then show ?case using ban
    by (auto simp: ToggleUserBan_def Let_def split: option.split sum.split dest!: on_db_InrD dest: ban_ok)
qed

section \<open>Bans\<close>

lemma revoke_clears:
  assumes "db_down (desk_db st) \<inter> {''ListCredentialsByUser'', ''DeleteCredentialsByUser''} = {}"
  shows "db_creds (desk_db (snd (desk_revoke uid st))) = List.filter (\<lambda>c. c_user c \<noteq> uid) (db_creds (desk_db st)) \<and>
    db_users (desk_db (snd (desk_revoke uid st))) = db_users (desk_db st)"
  using assms by (simp add: desk_revoke_def revoke_def RevokeUser_def ListCredentialsByUser_def DeleteCredentialsByUser_def)


definition demo_de :: desk_env where
  "demo_de = \<lparr>de_tx = False, de_uuid = (\<lambda>s. Some s), de_deliver = None, de_bytes = int_str\<rparr>"


section \<open>Assigning a plan\<close>

lemma desk_provision_users [simp]: "db_users (desk_db (desk_provision de dr uid now st)) = db_users (desk_db st)"
  by (auto simp: desk_provision_def split: prod.splits dest!: ProvisionUser_adds adds_creds_frame)

lemma plan_assigned_users [simp]: "db_users (desk_db (plan_assigned de dr ctx uid p days f now st)) = db_users (desk_db st)"
  by (simp add: plan_assigned_def Let_def)

text \<open>A second row cannot get the empty username.\<close>

lemma second_nameless_fails:
  assumes "w \<in> set (db_users d)" "u_username w = []" "u_id w \<noteq> uid"
  shows "\<exists>e. UpdateUser uid em [] ha sta pl qta ex nt d = Inl e"
proof (cases "List.find (\<lambda>u. u_id u = uid) (db_users d)")
  case (Some u)
  then have "u_id u = uid" by (auto dest: find_Some_in)
  then have "\<exists>v\<in>set (db_users d). u_id v \<noteq> u_id u \<and> user_clash (u\<lparr>u_email := em, u_username := [], u_password_hash := ha,
      u_status := sta, u_plan := pl, u_limit := qta, u_expires := ex, u_note := nt\<rparr>) v"
    using assms by (intro bexI[of _ w]) (auto simp: user_clash_def)
  then show ?thesis using Some by (simp add: UpdateUser_def update_user_def)
qed (simp add: UpdateUser_def update_user_def)

lemma assign_fails:
  assumes "\<And>pid qta ex. \<exists>e. UpdateUser uid None [] None (Some ''active'') (Some pid) qta ex None (desk_db st) = Inl e"
  shows "\<exists>msg. fst (AssignUserPlan de dr ctx (Some uid) body now st) = Failed msg"
proof -
  obtain e where "\<And>pid qta ex. UpdateUser uid None [] None (Some ''active'') (Some pid) qta ex None (desk_db st) = Inl (e pid qta ex)"
    using assms by metis
  then show ?thesis unfolding AssignUserPlan_def Let_def by (simp split: option.split sum.split)
qed

text \<open>
  Assigning a plan from the console erases who the subscriber is. The update carries the plan, the quota,
  the expiry and the status only, but the statement writes all its columns: the page reports success and the
  row is left without username, address, password and note; from then on the page fails for every other
  subscriber, whose empty username would be the second one.
\<close>

theorem assign_plan_erases_identity:
  assumes ok: "users_ok (desk_db st)" and u: "u \<in> set (db_users (desk_db st))"
    and named: "\<forall>v\<in>set (db_users (desk_db st)). u_username v \<noteq> []"
    and may: "p_users (getCallerPermissions ctx (desk_db st))"
    and plan: "de_uuid de (trim_space (fv f ''plan_id'')) = Some pid" "GetPlanByID pid (desk_db st) = Inr p"
    and up: "''UpdateUser'' \<notin> db_down (desk_db st)"
    and st': "st' = snd (AssignUserPlan de dr ctx (Some (u_id u)) (Some f) now st)"
  shows "fst (AssignUserPlan de dr ctx (Some (u_id u)) (Some f) now st) = Success ''Plan assigned and provisioned successfully'' \<and>
    (\<exists>w\<in>set (db_users (desk_db st')). u_id w = u_id u \<and> u_username w = [] \<and> u_email w = None \<and>
       u_password_hash w = None \<and> u_note w = None) \<and>
    (\<forall>v\<in>set (db_users (desk_db st')). u_id v \<noteq> u_id u \<longrightarrow>
       (\<exists>msg. fst (AssignUserPlan de dr ctx (Some (u_id v)) (Some f') now' st') = Failed msg))"
proof -
  let ?lim = "if TrafficLimitBytes p > 0 then Some (TrafficLimitBytes p) else None"
    and ?days = "if parsed_int (fv f ''duration_days'') \<le> 0 then 30 else parsed_int (fv f ''duration_days'')"
  let ?f = "\<lambda>w. w\<lparr>u_email := None, u_username := [], u_password_hash := None, u_status := Some ''active'', u_plan := Some pid,
      u_limit := ?lim, u_expires := Some (AddDate 0 ?days now), u_note := None\<rparr>"
  let ?d = "update_users (\<lambda>w. u_id w = u_id u) ?f (desk_db st)"
  have pid: "pid \<in> pl_id ` set (db_plans (desk_db st))"
    using plan(2) find_Some_in[of "\<lambda>p. pl_id p = pid" "db_plans (desk_db st)" p]
    by (auto simp: GetPlanByID_def split: if_splits option.splits)
  have "update_user ''UpdateUser'' (\<lambda>w. u_id w = u_id u) ?f (desk_db st) = Inr (?f u, ?d)"
  proof (rule update_user_hits[OF up u])
    show "w = u" if "w \<in> set (db_users (desk_db st))" "u_id w = u_id u" for w using same_row[OF ok u that(1)] that(2) by simp
    show "\<forall>w\<in>set (db_users (desk_db st)). u_id w \<noteq> u_id u \<longrightarrow> \<not> user_clash (?f u) w"
    proof (intro ballI impI)
      fix w assume w: "w \<in> set (db_users (desk_db st))" "u_id w \<noteq> u_id u"
      have "\<not> user_clash u w" using same_row[OF ok u w(1)] w(2) user_clash_commute by blast
      then show "\<not> user_clash (?f u) w" using named w(1) by (auto simp: user_clash_def shares_def)
    qed
    show "user_refs_ok (?f u) (desk_db st)" using ok u pid by (auto simp: users_ok_def user_refs_ok_def)
  qed simp
  then have upd: "UpdateUser (u_id u) None [] None (Some ''active'') (Some pid) ?lim (Some (AddDate 0 ?days now)) None (desk_db st) =
    Inr (?f u, ?d)" unfolding UpdateUser_def .
  have page: "AssignUserPlan de dr ctx (Some (u_id u)) (Some f) now st = (Success ''Plan assigned and provisioned successfully'',
     plan_assigned de dr ctx (u_id u) p ?days f now (st\<lparr>ds_crm := (ds_crm st)\<lparr>cm_db := ?d\<rparr>\<rparr>))"
    using may plan upd unfolding AssignUserPlan_def Let_def by simp
  have us: "db_users (desk_db st') = db_users ?d" unfolding st' page by simp
  have w: "?f u \<in> set (db_users (desk_db st'))" using u by (force simp: us db_users_update)
  have "\<exists>msg. fst (AssignUserPlan de dr ctx (Some (u_id v)) (Some f') now' st') = Failed msg" if "u_id v \<noteq> u_id u" for v
    using that w by (intro assign_fails second_nameless_fails[OF w]) simp_all
  then have "\<forall>v\<in>set (db_users (desk_db st')). u_id v \<noteq> u_id u \<longrightarrow>
      (\<exists>msg. fst (AssignUserPlan de dr ctx (Some (u_id v)) (Some f') now' st') = Failed msg)" by blast
  moreover have "\<exists>w\<in>set (db_users (desk_db st')). u_id w = u_id u \<and> u_username w = [] \<and> u_email w = None \<and>
       u_password_hash w = None \<and> u_note w = None"
    using w by (intro bexI[of _ "?f u"]) simp_all
  ultimately show ?thesis unfolding page fst_conv by blast
qed

lemma assign_plan_erases_identity_witness:
  "\<exists>w\<in>set (db_users (desk_db (snd (AssignUserPlan demo_de (\<lambda>_. demo_draws) (Some demo_web) (Some ''u1'') (Some [''plan_id'' \<mapsto> ''p1'']) 5
     demo_desk)))). u_id w = ''u1'' \<and> u_username w = []"
  using assign_plan_erases_identity[OF _ _ _ _ _ _ _ refl, of demo_desk demo_user "Some demo_web" demo_de "[''plan_id'' \<mapsto> ''p1'']"
      "''p1''" demo_plan "\<lambda>_. demo_draws" 5]
  by (simp add: getCallerPermissions_def demo_web_def DefaultAdminPermissions_def all_perms_def demo_desk_def demo_crm_def
      demo_bdb_def users_ok_def user_refs_ok_def demo_user_def demo_plan_def demo_de_def fv_def trim_space_def is_space_def
      GetPlanByID_def) blast

end
