(* ===== verification/Broadcast.thy ===== *)
theory Broadcast
  imports Users_Console
begin

text \<open>
  Telegram broadcasts (src/internal/controlplane/service/broadcast.go, the campaign statements of
  store/billing.sql.go, ListTelegramIDsForBroadcast in store/repo_user.go, web/handler_broadcast.go and
  the broadcast routes of api/handler/billing.go): the recipients of a segment, the dispatch of a campaign
  and its statistics. The sender is an argument, absent when none is configured, as is the instant at which
  the two hours of the dispatch are over, given by the number of recipients visited before it.
\<close>

section \<open>Campaigns\<close>

record campaign =
  ca_id :: uuid
  ca_title :: string
  ca_segment :: string
  ca_text :: string
  ca_buttons :: "(string \<times> string) list"
  ca_total :: int
  ca_sent :: int
  ca_failed :: int
  ca_status :: string
  ca_completed :: "time option"

record outbox =
  ob_db :: bdb
  ob_campaigns :: "campaign list"
  ob_sent :: "(int \<times> string \<times> (string \<times> string) list) list"

definition CreateBroadcastCampaign ::
    "uuid \<Rightarrow> string \<Rightarrow> string \<Rightarrow> string \<Rightarrow> (string \<times> string) list \<Rightarrow> int \<Rightarrow> outbox \<Rightarrow> db_error + (campaign \<times> outbox)" where
  "CreateBroadcastCampaign cid ttl seg msg buttons amount st =
     (if ''CreateBroadcastCampaign'' \<in> db_down (ob_db st) then Inl StatementFailed
      else if cid \<in> ca_id ` set (ob_campaigns st) then Inl UniqueViolation
      else
        (let c = \<lparr>ca_id = cid, ca_title = ttl, ca_segment = seg, ca_text = msg, ca_buttons = buttons, ca_total = amount,
                  ca_sent = 0, ca_failed = 0, ca_status = ''pending'', ca_completed = None\<rparr>
         in Inr (c, st\<lparr>ob_campaigns := c # ob_campaigns st\<rparr>)))"

definition UpdateBroadcastCampaignStats :: "uuid \<Rightarrow> int \<Rightarrow> int \<Rightarrow> string \<Rightarrow> time option \<Rightarrow> outbox \<Rightarrow> outbox" where
  "UpdateBroadcastCampaignStats cid sent failed status completed st =
     (if ''UpdateBroadcastCampaignStats'' \<in> db_down (ob_db st) then st
      else st\<lparr>ob_campaigns := List.map (\<lambda>c. if ca_id c = cid
             then c\<lparr>ca_sent := sent, ca_failed := failed, ca_status := status, ca_completed := completed\<rparr> else c) (ob_campaigns st)\<rparr>)"

definition GetBroadcastCampaignByID :: "uuid \<Rightarrow> outbox \<Rightarrow> db_error + campaign" where
  "GetBroadcastCampaignByID cid st =
     (if ''GetBroadcastCampaignByID'' \<in> db_down (ob_db st) then Inl StatementFailed
      else case List.find (\<lambda>c. ca_id c = cid) (ob_campaigns st) of None \<Rightarrow> Inl NoRows | Some c \<Rightarrow> Inr c)"

definition ListBroadcastCampaigns :: "outbox \<Rightarrow> db_error + campaign list" where
  "ListBroadcastCampaigns st =
     (if ''ListBroadcastCampaigns'' \<in> db_down (ob_db st) then Inl StatementFailed else Inr (ob_campaigns st))"

section \<open>Recipients\<close>

text \<open>The conditions of SQL are three-valued: a comparison with NULL selects no row.\<close>

definition in_segment :: "string \<Rightarrow> time \<Rightarrow> user \<Rightarrow> bool" where
  "in_segment seg now u \<longleftrightarrow> u_tg u \<noteq> None \<and> u_banned u = Some False \<and>
     (if seg = ''leads'' then (u_plan u = None \<or> u_plan u = Some nil_uuid) \<and> u_trial_used u \<noteq> Some True
      else seg = ''all'' \<or>
        seg = ''active'' \<and> u_status u = Some ''active'' \<and> (case u_expires u of None \<Rightarrow> False | Some e \<Rightarrow> now < e) \<or>
        seg = ''expired'' \<and> ((case u_status u of None \<Rightarrow> False | Some s \<Rightarrow> s \<noteq> ''active'') \<or>
          (case u_expires u of None \<Rightarrow> False | Some e \<Rightarrow> e \<le> now)))"

definition ListTelegramIDsForBroadcast :: "string \<Rightarrow> time \<Rightarrow> bdb \<Rightarrow> db_error + int list" where
  "ListTelegramIDsForBroadcast seg now d =
     (if ''ListUsersForBroadcast'' \<in> db_down d then Inl StatementFailed
      else Inr (List.map (int_or 0 \<circ> u_tg) (List.filter (in_segment seg now) (db_users d))))"

section \<open>Dispatch\<close>

type_synonym sender = "int \<Rightarrow> string \<Rightarrow> (string \<times> string) list \<Rightarrow> bool"

record tally =
  ty_sent :: int
  ty_failed :: int
  ty_left :: "int option"

text \<open>The loop over the recipients: the deadline ends it before the recipient it is due at, what is left is cancelled.\<close>

primrec dispatch_loop ::
    "sender option \<Rightarrow> string \<Rightarrow> (string \<times> string) list \<Rightarrow> nat option \<Rightarrow> int \<Rightarrow> int \<Rightarrow> int list \<Rightarrow> tally \<times> int list" where
  "dispatch_loop sender msg buttons due sent failed [] = (\<lparr>ty_sent = sent, ty_failed = failed, ty_left = None\<rparr>, [])"
| "dispatch_loop sender msg buttons due sent failed (chat # chats) =
     (if due = Some 0
      then (\<lparr>ty_sent = sent, ty_failed = failed, ty_left = Some (int (length (chat # chats)))\<rparr>, [])
      else
        (let due' = map_option (\<lambda>n. n - 1) due;
             good = (case sender of None \<Rightarrow> True | Some send \<Rightarrow> send chat msg buttons);
             (t, tried) = dispatch_loop sender msg buttons due'
               (if good then sent + 1 else sent) (if good then failed else failed + 1) chats
         in (t, if sender = None then tried else chat # tried)))"

definition final_status :: "int list \<Rightarrow> tally \<Rightarrow> string" where
  "final_status chats t =
     (if ty_left t \<noteq> None then ''cancelled''
      else if chats \<noteq> [] \<and> ty_sent t = 0 \<and> ty_failed t > 0 then ''failed'' else ''completed'')"

text \<open>When the deadline falls between the last recipient and the closing update, that update fails.\<close>

definition dispatch ::
    "sender option \<Rightarrow> nat option \<Rightarrow> time \<Rightarrow> uuid \<Rightarrow> int list \<Rightarrow> string \<Rightarrow> (string \<times> string) list \<Rightarrow> outbox \<Rightarrow> outbox" where
  "dispatch sender due now cid chats msg buttons st =
     (let st1 = UpdateBroadcastCampaignStats cid 0 0 ''in_progress'' None st;
          (t, tried) = dispatch_loop sender msg buttons due 0 0 chats;
          st2 = st1\<lparr>ob_sent := ob_sent st1 @ List.map (\<lambda>chat. (chat, msg, buttons)) tried\<rparr>
      in if due = Some (length chats) then st2
         else UpdateBroadcastCampaignStats cid (ty_sent t) (ty_failed t) (final_status chats t) (Some now) st2)"

text \<open>The campaign is answered before it is dispatched; here its dispatch follows at once.\<close>

definition CreateAndDispatch ::
    "sender option \<Rightarrow> nat option \<Rightarrow> time \<Rightarrow> uuid \<Rightarrow> string \<Rightarrow> string \<Rightarrow> string \<Rightarrow> (string \<times> string) list \<Rightarrow> outbox \<Rightarrow>
     (db_error + campaign) \<times> outbox" where
  "CreateAndDispatch sender due now cid ttl seg msg buttons st =
     (case ListTelegramIDsForBroadcast seg now (ob_db st) of Inl e \<Rightarrow> (Inl e, st)
      | Inr chats \<Rightarrow> (case CreateBroadcastCampaign cid ttl seg msg buttons (wrap32 (int (length chats))) st of
          Inl e \<Rightarrow> (Inl e, st)
        | Inr (c, st1) \<Rightarrow> (Inr c, dispatch sender due now (ca_id c) chats msg buttons st1)))"

section \<open>The console's page\<close>

definition CreateBroadcast ::
    "sender option option \<Rightarrow> nat option \<Rightarrow> time \<Rightarrow> uuid \<Rightarrow> web_ctx option \<Rightarrow> form option \<Rightarrow> outbox \<Rightarrow> outcome \<times> outbox" where
  "CreateBroadcast service due now cid ctx body st =
     (if \<not> p_broadcast (getCallerPermissions ctx (ob_db st))
      then (Failed ''Access denied: Telegram broadcast permission required'', st)
      else case body of None \<Rightarrow> (Failed ''invalid_form'', st)
      | Some f \<Rightarrow>
         (let ttl = trim_space (fv f ''title''); seg = or_text ''all'' (trim_space (fv f ''segment''));
              msg = trim_space (fv f ''message_text''); buttons = (case button_of f of None \<Rightarrow> [] | Some b \<Rightarrow> [b]) in
          if ttl = [] \<or> msg = [] then (Failed ''missing_required_fields'', st)
          else case service of
            Some sender \<Rightarrow> (case CreateAndDispatch sender due now cid ttl seg msg buttons st of
                (Inl _, st1) \<Rightarrow> (Failed ''dispatch_failed'', st1) | (Inr _, st1) \<Rightarrow> (Success ''sent'', st1))
          | None \<Rightarrow> (Success ''sent'', case CreateBroadcastCampaign cid ttl seg msg buttons 0 st of
                Inl _ \<Rightarrow> st | Inr (_, st1) \<Rightarrow> st1)))"

section \<open>The API\<close>

record broadcast_request =
  br_title :: string
  br_segment :: string
  br_text :: string
  br_buttons :: "(string \<times> string) list"

definition HandleCreateBroadcast ::
    "(broadcast_request \<Rightarrow> bool) \<Rightarrow> sender option option \<Rightarrow> nat option \<Rightarrow> time \<Rightarrow> uuid \<Rightarrow> auth_ctx option \<Rightarrow>
     broadcast_request option \<Rightarrow> outbox \<Rightarrow> (http_error + campaign) \<times> outbox" where
  "HandleCreateBroadcast valid service due now cid ctx body st =
     (if \<not> callerCanBill ctx (ob_db st) then (Inl Forbidden, st)
      else case body of None \<Rightarrow> (Inl BadRequest, st)
      | Some req \<Rightarrow>
          if \<not> valid req then (Inl BadRequest, st)
          else (case service of None \<Rightarrow> (Inl InternalError, st)
            | Some sender \<Rightarrow>
               (case CreateAndDispatch sender due now cid (br_title req) (br_segment req) (br_text req) (br_buttons req) st of
                  (Inl _, st1) \<Rightarrow> (Inl InternalError, st1)
                | (Inr c, st1) \<Rightarrow> (Inr c, st1\<lparr>ob_db := audit_log ctx ''create_broadcast'' ''broadcast_campaign'' (Some (ca_id c))
                      (JsonDiff [(''segment'', br_segment req), (''title'', br_title req)]) (ob_db st1)\<rparr>))))"

definition HandleListBroadcasts :: "outbox \<Rightarrow> http_error + campaign list" where
  "HandleListBroadcasts st = or_error InternalError (ListBroadcastCampaigns st)"

definition HandleGetBroadcast :: "uuid option \<Rightarrow> outbox \<Rightarrow> http_error + campaign" where
  "HandleGetBroadcast target st =
     (case target of None \<Rightarrow> Inl BadRequest | Some cid \<Rightarrow> or_error NotFound (GetBroadcastCampaignByID cid st))"

section \<open>Properties\<close>

text \<open>The tally of the loop against the recipients it visited.\<close>

definition delivered :: "sender option \<Rightarrow> string \<Rightarrow> (string \<times> string) list \<Rightarrow> int \<Rightarrow> bool" where
  "delivered sender msg buttons chat = (case sender of None \<Rightarrow> True | Some send \<Rightarrow> send chat msg buttons)"

definition visited :: "nat option \<Rightarrow> int list \<Rightarrow> int list" where
  "visited due chats = (case due of None \<Rightarrow> chats | Some n \<Rightarrow> take n chats)"

lemma visited_simps [simp]:
  "visited due [] = []" "visited (Some 0) chats = []" "visited None chats = chats"
  "due \<noteq> Some 0 \<Longrightarrow> visited due (chat # chats) = chat # visited (map_option (\<lambda>n. n - 1) due) chats"
  by (auto simp: visited_def take_Cons' split: option.splits)

lemma dispatch_loop_tally:
  "dispatch_loop sender msg buttons due sent failed chats =
    (\<lparr>ty_sent = sent + int (length (List.filter (delivered sender msg buttons) (visited due chats))),
      ty_failed = failed + int (length (List.filter (\<lambda>c. \<not> delivered sender msg buttons c) (visited due chats))),
      ty_left = (if length (visited due chats) < length chats
        then Some (int (length chats) - int (length (visited due chats))) else None)\<rparr>,
     if sender = None then [] else visited due chats)"
proof (induction chats arbitrary: due sent failed)
  case (Cons chat chats)
  show ?case
  proof (cases "due = Some 0")
    case False
    then show ?thesis by (auto simp: Cons.IH delivered_def Let_def)
  qed simp
qed simp

lemma visited_prefix: "visited due chats = take (length (visited due chats)) chats"
  by (auto simp: visited_def min_def split: option.splits)

lemma recipients_unbanned:
  assumes "ListTelegramIDsForBroadcast seg now d = Inr chats" "chat \<in> set chats"
  shows "\<exists>u\<in>set (db_users d). u_tg u = Some chat \<and> u_banned u = Some False"
proof -
  have "chats = List.map (int_or 0 \<circ> u_tg) (List.filter (in_segment seg now) (db_users d))"
    using assms(1) by (simp add: ListTelegramIDsForBroadcast_def split: if_splits)
  then obtain u where u: "u \<in> set (db_users d)" "in_segment seg now u" "chat = int_or 0 (u_tg u)" using assms(2) by auto
  have "u_tg u \<noteq> None" "u_banned u = Some False" using u(2) unfolding in_segment_def by blast+
  then show ?thesis using u by auto
qed

text \<open>
  C25. A campaign's statistics account for its recipients. The campaign's total is the number of Telegram
  identifiers in its segment, all of subscribers that are not banned; sent and failed count the messages
  that the sender accepted and refused; unless the campaign was cancelled they add up to the total, and
  when it was, they add up to the recipients visited before; each of those was written to once, in order.
  Only a deadline between the last recipient and the closing update leaves the statistics open.
\<close>

theorem broadcast_accounted:
  assumes run: "CreateAndDispatch (Some send) due now cid ttl seg msg buttons st = (Inr c, st')"
    and up: "''UpdateBroadcastCampaignStats'' \<notin> db_down (ob_db st)" and fits: "length (db_users (ob_db st)) < 2147483648"
  shows "\<exists>chats n. ListTelegramIDsForBroadcast seg now (ob_db st) = Inr chats \<and> n \<le> length chats \<and>
    ob_sent st' = ob_sent st @ List.map (\<lambda>chat. (chat, msg, buttons)) (take n chats) \<and>
    (\<forall>chat\<in>set chats. \<exists>u\<in>set (db_users (ob_db st)). u_tg u = Some chat \<and> u_banned u = Some False) \<and>
    (due = Some (length chats) \<or> (\<exists>k\<in>set (ob_campaigns st'). ca_id k = cid \<and> ca_total k = int (length chats) \<and>
       ca_sent k = int (length (List.filter (\<lambda>chat. send chat msg buttons) (take n chats))) \<and>
       ca_sent k + ca_failed k = int n \<and> (ca_status k = ''cancelled'' \<longleftrightarrow> n < length chats) \<and>
       (ca_status k = ''failed'' \<longleftrightarrow> n = length chats \<and> chats \<noteq> [] \<and> ca_sent k = 0)))"
proof -
  obtain chats where chats: "ListTelegramIDsForBroadcast seg now (ob_db st) = Inr chats"
    using run by (auto simp: CreateAndDispatch_def split: sum.splits)
  let ?v = "visited due chats" and ?n = "length (visited due chats)"
  let ?good = "List.filter (\<lambda>chat. send chat msg buttons) ?v"
    and ?bad = "List.filter (\<lambda>chat. \<not> send chat msg buttons) ?v"
  have "length chats \<le> length (db_users (ob_db st))"
    using chats by (auto simp: ListTelegramIDsForBroadcast_def split: if_splits)
  then have w: "wrap32 (int (length chats)) = int (length chats)" using fits by (intro wrap32_id) simp_all
  define k0 where "k0 = \<lparr>ca_id = cid, ca_title = ttl, ca_segment = seg, ca_text = msg, ca_buttons = buttons,
    ca_total = int (length chats), ca_sent = 0, ca_failed = 0, ca_status = ''pending'', ca_completed = None\<rparr>"
  define t where "t = \<lparr>ty_sent = int (length ?good), ty_failed = int (length ?bad),
    ty_left = (if ?n < length chats then Some (int (length chats) - int ?n) else None)\<rparr>"
  have d: "delivered (Some send) msg buttons = (\<lambda>chat. send chat msg buttons)" by (rule ext) (simp add: delivered_def)
  have loop: "dispatch_loop (Some send) msg buttons due 0 0 chats = (t, ?v)"
    unfolding dispatch_loop_tally d by (simp add: t_def)
  have st': "st' = dispatch (Some send) due now cid chats msg buttons (st\<lparr>ob_campaigns := k0 # ob_campaigns st\<rparr>)"
    using run by (auto simp: CreateAndDispatch_def chats w CreateBroadcastCampaign_def Let_def k0_def split: if_splits)
  let ?k = "k0\<lparr>ca_sent := ty_sent t, ca_failed := ty_failed t, ca_status := final_status chats t, ca_completed := Some now\<rparr>"
  have "due = Some (length chats) \<or> ?k \<in> set (ob_campaigns st')" and "ob_sent st' = ob_sent st @ List.map (\<lambda>chat. (chat, msg, buttons)) ?v"
    using up by (auto simp: st' dispatch_def loop Let_def UpdateBroadcastCampaignStats_def k0_def)
  moreover have sum: "length ?good + length ?bad = ?n" by (rule sum_length_filter_compl)
  moreover have le: "?n \<le> length chats" by (subst visited_prefix) simp
  moreover have "final_status chats t = ''cancelled'' \<longleftrightarrow> ?n < length chats" by (auto simp: final_status_def t_def)
  moreover have "final_status chats t = ''failed'' \<longleftrightarrow> ?n = length chats \<and> chats \<noteq> [] \<and> length ?good = 0"
    using sum le by (auto simp: final_status_def t_def)
  moreover have "take ?n chats = ?v" using visited_prefix by metis
  ultimately show ?thesis using chats recipients_unbanned[OF chats]
    by (intro exI[of _ chats] exI[of _ ?n] conjI) (auto simp: k0_def t_def simp flip: of_nat_add intro!: bexI[of _ ?k])
qed

definition demo_outbox :: outbox where
  "demo_outbox = \<lparr>ob_db = demo_bdb\<lparr>db_users := [demo_lead, demo_user\<lparr>u_tg := Some 8\<rparr>]\<rparr>, ob_campaigns = [], ob_sent = []\<rparr>"

lemma broadcast_accounted_witness:
  "\<exists>n. ob_sent (snd (CreateAndDispatch (Some (\<lambda>chat _ _. chat = 7)) None 5 ''k1'' ''T'' ''all'' ''hi'' [] demo_outbox)) =
     List.map (\<lambda>chat. (chat, ''hi'', [])) (take n [7, 8]) \<and>
   (\<exists>k\<in>set (ob_campaigns (snd (CreateAndDispatch (Some (\<lambda>chat _ _. chat = 7)) None 5 ''k1'' ''T'' ''all'' ''hi'' [] demo_outbox))).
     ca_id k = ''k1'' \<and> ca_total k = 2 \<and> ca_sent k + ca_failed k = int n)"
proof -
  let ?r = "CreateAndDispatch (Some (\<lambda>chat _ _. chat = 7)) None 5 ''k1'' ''T'' ''all'' ''hi'' [] demo_outbox"
  have l: "ListTelegramIDsForBroadcast ''all'' 5 (ob_db demo_outbox) = Inr [7, 8]"
    by (simp add: ListTelegramIDsForBroadcast_def demo_outbox_def demo_bdb_def in_segment_def demo_lead_def new_user_def demo_user_def)
  have "\<exists>c. fst ?r = Inr c" using l by (simp add: CreateAndDispatch_def CreateBroadcastCampaign_def demo_outbox_def demo_bdb_def Let_def)
  then obtain c where "?r = (Inr c, snd ?r)" by (metis prod.collapse)
  from broadcast_accounted[OF this] l show ?thesis by (auto simp: demo_outbox_def demo_bdb_def)
qed

end
