(* ===== verification/Subscription.thy ===== *)
theory Subscription
  imports Config_Builder Users
begin

text \<open>
  What a subscriber downloads (src/internal/controlplane/service/subscription.go and
  api/handler/subscription.go): the gate, the endpoint and Reality parameters of a node, the link list, the
  sing-box, Clash and raw documents, the WireGuard file, and the choice of the format. Documents that the
  code builds as maps and hands to an encoder are values of type doc; the base64 rendering of the link list
  is a constructor over its text. Whether a text is an IPv6 address is an argument.
\<close>

section \<open>Texts\<close>

fun to_upper_char :: "char \<Rightarrow> char" where
  "to_upper_char c = (let n = of_char c :: nat in if 97 \<le> n \<and> n \<le> 122 then char_of (n - 32) else c)"

definition to_upper :: "string \<Rightarrow> string" where
  "to_upper s = List.map to_upper_char s"

definition hex_digit :: "nat \<Rightarrow> char" where
  "hex_digit n = (if n < 10 then char_of (48 + n) else char_of (55 + n))"

text \<open>url.QueryEscape: letters, digits and four marks stay, a blank is a plus, other bytes are escaped.\<close>

definition unreserved :: "char \<Rightarrow> bool" where
  "unreserved c \<longleftrightarrow> (let n = of_char c :: nat in 48 \<le> n \<and> n \<le> 57 \<or> 65 \<le> n \<and> n \<le> 90 \<or> 97 \<le> n \<and> n \<le> 122) \<or>
     c \<in> set ''-_.~''"

definition escape_char :: "char \<Rightarrow> string" where
  "escape_char c =
     (if unreserved c then [c] else if c = CHR '' '' then ''+''
      else [CHR ''%'', hex_digit (of_char c div 16), hex_digit (of_char c mod 16)])"

definition QueryEscape :: "string \<Rightarrow> string" where
  "QueryEscape s = concat (List.map escape_char s)"

primrec join :: "string \<Rightarrow> string list \<Rightarrow> string" where
  "join sep [] = []"
| "join sep (s # ss) = (if ss = [] then s else s @ sep @ join sep ss)"

section \<open>Endpoints\<close>

text \<open>net.SplitHostPort with its port, which follows the last colon.\<close>

definition after_last :: "char \<Rightarrow> string \<Rightarrow> string" where
  "after_last c s = rev (takeWhile (\<lambda>x. x \<noteq> c) (rev s))"

definition SplitHostPort :: "string \<Rightarrow> (string \<times> string) option" where
  "SplitHostPort s = map_option (\<lambda>h. (h, after_last (CHR '':'') s)) (SplitHost s)"

definition parseNodeHostPort :: "(string \<Rightarrow> bool) \<Rightarrow> string \<Rightarrow> string \<Rightarrow> string \<times> string" where
  "parseNodeHostPort ipv6 endpoint dflt =
     (if endpoint = [] then ([], dflt)
      else case SplitHostPort endpoint of
        Some hp \<Rightarrow> hp
      | None \<Rightarrow> (if ipv6 endpoint then ''['' @ endpoint @ '']'' else endpoint, dflt))"

definition node_host :: "(string \<Rightarrow> bool) \<Rightarrow> node \<Rightarrow> string" where
  "node_host ipv6 n = (let h = fst (parseNodeHostPort ipv6 (n_endpoint n) ''443'') in if h = [] then n_name n else h)"

definition node_port :: "(string \<Rightarrow> bool) \<Rightarrow> string \<Rightarrow> node \<Rightarrow> string" where
  "node_port ipv6 dflt n = snd (parseNodeHostPort ipv6 (n_endpoint n) dflt)"

definition port_number :: "int \<Rightarrow> string \<Rightarrow> int" where
  "port_number dflt s = (case scan_int s of None \<Rightarrow> dflt | Some n \<Rightarrow> if n \<le> 0 then dflt else n)"

definition filled :: "string \<Rightarrow> string option \<Rightarrow> string" where
  "filled dflt s = (if text_or [] s = [] then dflt else text_or [] s)"

definition reality_sni :: "node \<Rightarrow> string" where
  "reality_sni n = filled ''swdist.apple.com'' (n_sni n)"

definition reality_sid :: "node \<Rightarrow> string" where
  "reality_sid n = filled ''0123456789abcdef'' (n_sid n)"

definition realityPublicKey :: "node \<Rightarrow> credential \<Rightarrow> string" where
  "realityPublicKey n c = filled (filled ''pL3XYZ1234567890abcdefghijklmnopqrstuvwxyz='' (n_pbk n)) (c_public c)"

section \<open>The link list\<close>

definition newline :: string where
  "newline = [CHR 0x0A]"

definition vless_link :: "(string \<Rightarrow> bool) \<Rightarrow> credential \<Rightarrow> node \<Rightarrow> string" where
  "vless_link ipv6 c n =
     ''vless://'' @ text_or [] (c_uuid c) @ ''@'' @ node_host ipv6 n @ '':'' @ node_port ipv6 ''443'' n @
     ''?encryption=none&flow='' @ filled ''xtls-rprx-vision'' (c_flow c) @ ''&security=reality&sni='' @ reality_sni n @
     ''&fp=chrome&pbk='' @ realityPublicKey n c @ ''&sid='' @ reality_sid n @ ''&type=tcp#'' @
     QueryEscape (n_name n @ '' | VLESS Reality'')"

definition awg_values :: "credential \<Rightarrow> (string \<times> int option) list" where
  "awg_values c = [(''Jc'', c_jc c), (''Jmin'', c_jmin c), (''Jmax'', c_jmax c), (''S1'', c_s1 c), (''S2'', c_s2 c),
     (''H1'', c_h1 c), (''H2'', c_h2 c), (''H3'', c_h3 c), (''H4'', c_h4 c)]"

definition awg_query :: "credential \<Rightarrow> string" where
  "awg_query c = concat (List.map (\<lambda>(k, v). case v of None \<Rightarrow> [] | Some i \<Rightarrow> ''&'' @ to_lower k @ ''='' @ int_str i) (awg_values c))"

definition wg_link :: "(string \<Rightarrow> bool) \<Rightarrow> credential \<Rightarrow> node \<Rightarrow> string" where
  "wg_link ipv6 c n =
     ''wireguard://'' @ text_or [] (c_private c) @ ''@'' @ node_host ipv6 n @ '':'' @ node_port ipv6 ''51820'' n @
     ''?address='' @ text_or [] (c_ipv4 c) @ ''/32&publickey='' @ n_public_key n @
     (if c_protocol c = ''amneziawg'' then awg_query c else []) @ ''#'' @
     QueryEscape (n_name n @ '' | '' @ to_upper (c_protocol c))"

definition is_wg :: "string \<Rightarrow> bool" where
  "is_wg p \<longleftrightarrow> p = ''wireguard'' \<or> p = ''amneziawg''"

definition link_of :: "(string \<Rightarrow> bool) \<Rightarrow> credential \<times> node \<Rightarrow> string list" where
  "link_of ipv6 item = (case item of (c, n) \<Rightarrow>
     if c_protocol c = ''vless'' then [vless_link ipv6 c n] else if is_wg (c_protocol c) then [wg_link ipv6 c n] else [])"

definition formatBase64 :: "(string \<Rightarrow> bool) \<Rightarrow> (credential \<times> node) list \<Rightarrow> string" where
  "formatBase64 ipv6 items = join newline (concat (List.map (link_of ipv6) items))"

section \<open>Documents\<close>

datatype doc = DStr string | DNum int | DBool bool | DList "doc list" | DMap "(string \<times> doc) list"

abbreviation texts :: "string list \<Rightarrow> doc" where
  "texts ss \<equiv> DList (List.map DStr ss)"

definition wg_tag :: "credential \<times> node \<Rightarrow> string" where
  "wg_tag item = (case item of (c, n) \<Rightarrow> n_name n @ '' | '' @ to_upper (c_protocol c))"

definition proxy_name :: "credential \<times> node \<Rightarrow> string" where
  "proxy_name item = (case item of (c, n) \<Rightarrow> if c_protocol c = ''vless'' then n_name n @ '' | Reality'' else wg_tag (c, n))"

definition supported :: "credential \<times> node \<Rightarrow> bool" where
  "supported item \<longleftrightarrow> c_protocol (fst item) = ''vless'' \<or> is_wg (c_protocol (fst item))"

definition reality_doc :: "credential \<Rightarrow> node \<Rightarrow> doc" where
  "reality_doc c n = DMap [(''enabled'', DBool True), (''public_key'', DStr (realityPublicKey n c)), (''short_id'', DStr (reality_sid n))]"

definition singbox_outbound :: "(string \<Rightarrow> bool) \<Rightarrow> credential \<times> node \<Rightarrow> (string \<times> doc) list" where
  "singbox_outbound ipv6 item = (case item of (c, n) \<Rightarrow>
     if c_protocol c = ''vless'' then
       [(''type'', DStr ''vless''), (''tag'', DStr (proxy_name item)), (''server'', DStr (node_host ipv6 n)),
        (''server_port'', DNum (port_number 443 (node_port ipv6 ''443'' n))), (''uuid'', DStr (text_or [] (c_uuid c))),
        (''flow'', DStr ''xtls-rprx-vision''), (''network'', DStr ''tcp''),
        (''tls'', DMap [(''enabled'', DBool True), (''server_name'', DStr (reality_sni n)),
           (''utls'', DMap [(''enabled'', DBool True), (''fingerprint'', DStr ''chrome'')]), (''reality'', reality_doc c n)])]
     else
       [(''type'', DStr ''wireguard''), (''tag'', DStr (proxy_name item)), (''server'', DStr (node_host ipv6 n)),
        (''server_port'', DNum (port_number 51820 (node_port ipv6 ''51820'' n))),
        (''local_address'', texts [text_or [] (c_ipv4 c) @ ''/32'']), (''private_key'', DStr (text_or [] (c_private c))),
        (''peer_public_key'', DStr (n_public_key n))])"

definition plain_outbound :: "string \<Rightarrow> string \<Rightarrow> (string \<times> doc) list" where
  "plain_outbound typ tag = [(''type'', DStr typ), (''tag'', DStr tag)]"

definition tag_of :: "(string \<times> doc) list \<Rightarrow> string option" where
  "tag_of o1 = (case map_of o1 ''tag'' of Some (DStr t) \<Rightarrow> Some t | _ \<Rightarrow> None)"

definition singbox_outbounds :: "(string \<Rightarrow> bool) \<Rightarrow> (credential \<times> node) list \<Rightarrow> (string \<times> doc) list list" where
  "singbox_outbounds ipv6 items =
     (let outs = List.map (singbox_outbound ipv6) (List.filter supported items) @
            [plain_outbound ''direct'' ''direct'', plain_outbound ''block'' ''block'', plain_outbound ''dns'' ''dns-out''];
          tags = List.filter (\<lambda>t. t \<notin> {''direct'', ''block'', ''dns-out''}) (List.map_filter tag_of outs)
      in if tags = [] then outs
         else [(''type'', DStr ''selector''), (''tag'', DStr ''Proxy-Select''),
               (''outbounds'', texts (''Auto-Latency'' # tags @ [''direct''])), (''default'', DStr ''Auto-Latency'')] #
              [(''type'', DStr ''urltest''), (''tag'', DStr ''Auto-Latency''), (''outbounds'', texts tags),
               (''url'', DStr ''https://www.gstatic.com/generate_204''), (''interval'', DStr ''3m''), (''tolerance'', DNum 50)] # outs)"

definition singbox_dns :: doc where
  "singbox_dns = DMap
     [(''servers'', DList
        [DMap [(''tag'', DStr ''remote-dns''), (''address'', DStr ''https://1.1.1.1/dns-query''),
           (''address_resolver'', DStr ''local-dns''), (''detour'', DStr ''Proxy-Select'')],
         DMap [(''tag'', DStr ''local-dns''), (''address'', DStr ''local''), (''detour'', DStr ''direct'')],
         DMap [(''tag'', DStr ''fakeip-dns''), (''address'', DStr ''fakeip'')]]),
      (''rules'', DList
        [DMap [(''outbound'', DStr ''any''), (''server'', DStr ''local-dns''), (''disable_cache'', DBool True)],
         DMap [(''query_type'', texts [''A'', ''AAAA'']), (''server'', DStr ''fakeip-dns'')]]),
      (''fakeip'', DMap [(''enabled'', DBool True), (''inet4_range'', DStr ''198.18.0.0/15'')]),
      (''independent_cache'', DBool True)]"

definition singbox_inbound :: doc where
  "singbox_inbound = DMap
     [(''type'', DStr ''tun''), (''tag'', DStr ''tun-in''), (''interface_name'', DStr ''tun0''),
      (''inet4_address'', DStr ''172.19.0.1/30''), (''auto_route'', DBool True), (''strict_route'', DBool True),
      (''stack'', DStr ''mixed''), (''sniff'', DBool True), (''sniff_override_destination'', DBool True)]"

definition singbox_route :: doc where
  "singbox_route = DMap
     [(''rules'', DList
        [DMap [(''protocol'', DStr ''dns''), (''outbound'', DStr ''dns-out'')],
         DMap [(''ip_is_private'', DBool True), (''outbound'', DStr ''direct'')],
         DMap [(''geosite'', texts [''category-gov-ru'', ''ru'']), (''outbound'', DStr ''direct'')],
         DMap [(''geoip'', texts [''ru'']), (''outbound'', DStr ''direct'')]]),
      (''auto_detect_interface'', DBool True), (''final'', DStr ''Proxy-Select'')]"

definition formatSingbox :: "(string \<Rightarrow> bool) \<Rightarrow> (credential \<times> node) list \<Rightarrow> doc" where
  "formatSingbox ipv6 items = DMap
     [(''version'', DNum 1), (''log'', DMap [(''level'', DStr ''warn''), (''timestamp'', DBool True)]),
      (''dns'', singbox_dns), (''inbounds'', DList [singbox_inbound]),
      (''outbounds'', DList (List.map DMap (singbox_outbounds ipv6 items))), (''route'', singbox_route)]"

definition clash_proxy :: "(string \<Rightarrow> bool) \<Rightarrow> credential \<times> node \<Rightarrow> doc" where
  "clash_proxy ipv6 item = (case item of (c, n) \<Rightarrow>
     if c_protocol c = ''vless'' then DMap
       [(''name'', DStr (proxy_name item)), (''type'', DStr ''vless''), (''server'', DStr (node_host ipv6 n)),
        (''port'', DNum (port_number 443 (node_port ipv6 ''443'' n))), (''uuid'', DStr (text_or [] (c_uuid c))),
        (''network'', DStr ''tcp''), (''udp'', DBool True), (''tls'', DBool True), (''flow'', DStr ''xtls-rprx-vision''),
        (''servername'', DStr (reality_sni n)), (''client-fingerprint'', DStr ''chrome''),
        (''reality-opts'', DMap [(''public-key'', DStr (realityPublicKey n c)), (''short-id'', DStr (reality_sid n))])]
     else DMap
       [(''name'', DStr (proxy_name item)), (''type'', DStr ''wireguard''), (''server'', DStr (node_host ipv6 n)),
        (''port'', DNum (port_number 51820 (node_port ipv6 ''51820'' n))), (''ip'', DStr (text_or [] (c_ipv4 c))),
        (''public-key'', DStr (n_public_key n)), (''private-key'', DStr (text_or [] (c_private c))), (''udp'', DBool True)])"

definition clash_groups :: "string list \<Rightarrow> doc" where
  "clash_groups names = DList (if names = [] then []
     else [DMap [(''name'', DStr ''PROXY''), (''type'', DStr ''select''), (''proxies'', texts (''AUTO'' # names @ [''DIRECT'']))],
           DMap [(''name'', DStr ''AUTO''), (''type'', DStr ''url-test''), (''url'', DStr ''https://www.gstatic.com/generate_204''),
             (''interval'', DNum 300), (''tolerance'', DNum 50), (''proxies'', texts names)]])"

definition clash_rules :: doc where
  "clash_rules = texts [''GEOIP,private,DIRECT,no-resolve'', ''GEOIP,LAN,DIRECT,no-resolve'', ''GEOSITE,category-gov-ru,DIRECT'',
     ''GEOSITE,ru,DIRECT'', ''GEOIP,RU,DIRECT,no-resolve'', ''MATCH,PROXY'']"

definition clash_sections :: "(string \<times> doc) list" where
  "clash_sections =
     [(''sniffer'', DMap [(''enable'', DBool True), (''sniff'', DMap
         [(''TLS'', DMap [(''ports'', DList [DNum 443, DNum 8443])]),
          (''HTTP'', DMap [(''ports'', DList [DNum 80, DNum 8080, DNum 8880]), (''override-destination'', DBool True)])])]),
      (''tun'', DMap [(''enable'', DBool True), (''stack'', DStr ''mixed''), (''dns-hijack'', texts [''tcp://any:53'', ''udp://any:53'']),
         (''auto-route'', DBool True), (''auto-detect-interface'', DBool True)]),
      (''dns'', DMap [(''enable'', DBool True), (''listen'', DStr ''0.0.0.0:1053''), (''enhanced-mode'', DStr ''fake-ip''),
         (''fake-ip-range'', DStr ''198.18.0.1/16''),
         (''nameserver'', texts [''https://1.1.1.1/dns-query'', ''https://dns.google/dns-query'']),
         (''default-nameserver'', texts [''1.1.1.1'', ''8.8.8.8''])])]"

definition formatClashMeta :: "(string \<Rightarrow> bool) \<Rightarrow> (credential \<times> node) list \<Rightarrow> doc" where
  "formatClashMeta ipv6 items = DMap
     ([(''port'', DNum 7890), (''socks-port'', DNum 7891), (''mixed-port'', DNum 7892), (''allow-lan'', DBool False),
       (''mode'', DStr ''rule''), (''log-level'', DStr ''warning''), (''ipv6'', DBool False), (''unified-delay'', DBool True),
       (''tcp-concurrent'', DBool True), (''find-process-mode'', DStr ''strict''),
       (''proxies'', DList (List.map (clash_proxy ipv6) (List.filter supported items))),
       (''proxy-groups'', clash_groups (List.map proxy_name (List.filter supported items))), (''rules'', clash_rules)] @ clash_sections)"

definition formatRawJSON :: "(credential \<times> node) list \<Rightarrow> doc" where
  "formatRawJSON items = DList (List.map (\<lambda>(c, n). DMap
     ([(''node_name'', DStr (n_name n)), (''host'', DStr (n_endpoint n)), (''protocol'', DStr (c_protocol c))] @
      (if text_or [] (c_uuid c) = [] then [] else [(''uuid'', DStr (text_or [] (c_uuid c)))]) @
      (if text_or [] (c_flow c) = [] then [] else [(''flow'', DStr (text_or [] (c_flow c)))]))) items)"

section \<open>The WireGuard file\<close>

definition wg_matches :: "(credential \<times> node) list \<Rightarrow> (credential \<times> node) list" where
  "wg_matches items = List.filter (\<lambda>(c, n). is_wg (to_lower (c_protocol c))) items"

definition wg_target :: "bool \<Rightarrow> credential \<times> node \<Rightarrow> (credential \<times> node) list \<Rightarrow> credential \<times> node" where
  "wg_target allowAWG fallback matches =
     (case List.find (\<lambda>(c, n). to_lower (c_protocol c) = (if allowAWG then ''amneziawg'' else ''wireguard'')) matches of
        Some item \<Rightarrow> item | None \<Rightarrow> fallback)"

definition conf_line :: "string \<Rightarrow> string \<Rightarrow> string" where
  "conf_line k v = k @ '' = '' @ v @ newline"

definition awg_lines :: "credential \<Rightarrow> string" where
  "awg_lines c = concat (List.map (\<lambda>(k, v). case v of None \<Rightarrow> [] | Some i \<Rightarrow> conf_line k (int_str i)) (awg_values c))"

definition interface_block :: "bool \<Rightarrow> credential \<Rightarrow> node \<Rightarrow> string" where
  "interface_block allowAWG c n =
     ''# Configuration generated by Simple-VPN-Builder'' @ newline @
     ''# Node: '' @ n_name n @ '' | Protocol: '' @ to_upper (c_protocol c) @ newline @ newline @
     ''[Interface]'' @ newline @ conf_line ''PrivateKey'' (text_or [] (c_private c)) @
     conf_line ''Address'' (text_or [] (c_ipv4 c) @ ''/32'') @ conf_line ''DNS'' ''1.1.1.1, 8.8.8.8'' @ conf_line ''MTU'' ''1420'' @
     (if allowAWG \<and> c_protocol c = ''amneziawg'' then awg_lines c else []) @ newline"

definition peer_host :: "(string \<Rightarrow> bool) \<Rightarrow> node \<Rightarrow> string" where
  "peer_host ipv6 n = (let h = fst (parseNodeHostPort ipv6 (n_endpoint n) ''51820'') in if h = [] then n_name n else h)"

definition peer_block :: "(string \<Rightarrow> bool) \<Rightarrow> node \<Rightarrow> string" where
  "peer_block ipv6 n =
     ''[Peer]'' @ newline @ ''# Node: '' @ n_name n @ newline @ conf_line ''PublicKey'' (n_public_key n) @
     conf_line ''Endpoint'' (peer_host ipv6 n @ '':'' @ node_port ipv6 ''51820'' n) @
     conf_line ''AllowedIPs'' ''0.0.0.0/0, ::/0'' @ conf_line ''PersistentKeepalive'' ''25'' @ newline"

datatype sub_error = NoSubscriber | Inactive | SubExpired | OverLimit | ListFailed | NoWireGuard | NoAddress uuid

definition formatWireGuardConf :: "(string \<Rightarrow> bool) \<Rightarrow> (credential \<times> node) list \<Rightarrow> bool \<Rightarrow> sub_error + string" where
  "formatWireGuardConf ipv6 items allowAWG =
     (case wg_matches items of [] \<Rightarrow> Inl NoWireGuard
      | m # ms \<Rightarrow>
         (case wg_target allowAWG m (m # ms) of (c, n) \<Rightarrow>
            if text_or [] (c_ipv4 c) = [] then Inl (NoAddress (c_id c))
            else Inr (interface_block allowAWG c n @ concat (List.map (peer_block ipv6 \<circ> snd) (m # ms)))))"

section \<open>The service\<close>

record sub_info =
  si_upload :: int
  si_download :: int
  si_total :: int
  si_expire :: int
  si_status :: string

definition GetUserSubscriptionInfo :: "uuid \<Rightarrow> 'a db_scheme \<Rightarrow> sub_error + sub_info" where
  "GetUserSubscriptionInfo tok d =
     (case GetUserBySubscriptionToken tok d of Inl _ \<Rightarrow> Inl NoSubscriber
      | Inr u \<Rightarrow> Inr \<lparr>si_upload = 0, si_download = int_or 0 (u_used u), si_total = int_or 0 (u_limit u),
          si_expire = (case u_expires u of None \<Rightarrow> 0 | Some e \<Rightarrow> e div second), si_status = text_or [] (u_status u)\<rparr>)"

definition sub_refusal :: "time \<Rightarrow> user \<Rightarrow> sub_error option" where
  "sub_refusal now u =
     (if (case u_status u of None \<Rightarrow> False | Some s \<Rightarrow> s \<noteq> ''active'') then Some Inactive
      else if (case u_expires u of None \<Rightarrow> False | Some e \<Rightarrow> e < now) then Some SubExpired
      else if (case (u_limit u, u_used u) of (Some l, Some n) \<Rightarrow> l > 0 \<and> n \<ge> l | _ \<Rightarrow> False) then Some OverLimit
      else None)"

text \<open>The credentials that are not switched off, on nodes that can be read.\<close>

definition sub_items :: "credential list \<Rightarrow> 'a db_scheme \<Rightarrow> (credential \<times> node) list" where
  "sub_items cs d = List.map_filter (\<lambda>c.
     if (case c_status c of None \<Rightarrow> False | Some s \<Rightarrow> s \<noteq> ''active'') then None
     else case GetNodeByID (c_node c) d of Inl _ \<Rightarrow> None | Inr n \<Rightarrow> Some (c, n)) cs"

datatype content = Plain string | Base64 string | Json doc | Yaml doc

definition format_items :: "(string \<Rightarrow> bool) \<Rightarrow> string \<Rightarrow> (credential \<times> node) list \<Rightarrow> sub_error + content" where
  "format_items ipv6 format items =
     (let f = to_lower format in
      if f \<in> {''wireguard'', ''wg''} then map_sum id Plain (formatWireGuardConf ipv6 items False)
      else if f \<in> {''amneziawg'', ''awg'', ''amnezia''} then map_sum id Plain (formatWireGuardConf ipv6 items True)
      else if f \<in> {''singbox'', ''sing-box''} then Inr (Json (formatSingbox ipv6 items))
      else if f \<in> {''clash'', ''clash-meta'', ''mihomo''} then Inr (Yaml (formatClashMeta ipv6 items))
      else if f = ''json'' then Inr (Json (formatRawJSON items))
      else Inr (Base64 (formatBase64 ipv6 items)))"

definition GenerateSubscriptionContent ::
    "(string \<Rightarrow> bool) \<Rightarrow> uuid \<Rightarrow> string \<Rightarrow> time \<Rightarrow> 'a db_scheme \<Rightarrow> sub_error + content" where
  "GenerateSubscriptionContent ipv6 tok format now d =
     (case GetUserBySubscriptionToken tok d of Inl _ \<Rightarrow> Inl NoSubscriber
      | Inr u \<Rightarrow> (case sub_refusal now u of Some e \<Rightarrow> Inl e
          | None \<Rightarrow> (case ListCredentialsByUser (u_id u) d of Inl _ \<Rightarrow> Inl ListFailed
              | Inr cs \<Rightarrow> format_items ipv6 format (sub_items cs d))))"

section \<open>The handler\<close>

definition format_for :: "string \<Rightarrow> string \<Rightarrow> string \<Rightarrow> string" where
  "format_for format agent accept =
     (let ua = to_lower agent in
      if format \<noteq> [] then format
      else if list_ex (contains ua) [''clash'', ''meta'', ''mihomo''] then ''clash''
      else if list_ex (contains ua) [''sing-box'', ''happ'', ''hiddify'', ''karing'', ''sfi'', ''sfm'', ''sfa''] then ''singbox''
      else if list_ex (contains ua) [''amnezia'', ''awg''] then ''amneziawg''
      else if list_ex (contains ua) [''wireguard'', ''wg-quick''] then ''wireguard''
      else if contains (to_lower accept) ''application/json'' then ''json'' else ''base64'')"

definition extension_for :: "string \<Rightarrow> string" where
  "extension_for f =
     (if f \<in> {''singbox'', ''json''} then ''json'' else if f \<in> {''clash'', ''clash-meta'', ''mihomo''} then ''yaml''
      else if f \<in> {''wireguard'', ''wg'', ''amneziawg'', ''awg'', ''amnezia''} then ''conf'' else ''txt'')"

definition userinfo :: "sub_info \<Rightarrow> string" where
  "userinfo i = ''upload='' @ int_str (si_upload i) @ ''; download='' @ int_str (si_download i) @ ''; total='' @
     int_str (si_total i) @ ''; expire='' @ int_str (si_expire i)"

definition GetSubscription ::
    "(string \<Rightarrow> bool) \<Rightarrow> uuid option \<Rightarrow> string \<Rightarrow> string \<Rightarrow> string \<Rightarrow> time \<Rightarrow> 'a db_scheme \<Rightarrow>
     http_error + string \<times> string \<times> content" where
  "GetSubscription ipv6 target format agent accept now d =
     (case target of None \<Rightarrow> Inl BadRequest
      | Some tok \<Rightarrow> (case GetUserSubscriptionInfo tok d of Inl _ \<Rightarrow> Inl NotFound
          | Inr info \<Rightarrow>
             (let f = format_for format agent accept in
              case GenerateSubscriptionContent ipv6 tok f now d of Inl _ \<Rightarrow> Inl Forbidden
              | Inr body \<Rightarrow> Inr (userinfo info, ''subscription.'' @ extension_for f, body))))"

section \<open>Properties\<close>

lemma sub_refusal_excluded: "sub_refusal now u = None \<longleftrightarrow> \<not> user_excluded now u"
  unfolding sub_refusal_def user_excluded_def by simp

lemma in_map_filter: "y \<in> set (List.map_filter f xs) \<longleftrightarrow> (\<exists>x\<in>set xs. f x = Some y)"
  by (induction xs) (auto simp: map_filter_simps split: option.splits)

lemma sub_items_iff:
  "(c, n) \<in> set (sub_items cs d) \<longleftrightarrow> c \<in> set cs \<and> (c_status c = None \<or> c_status c = Some ''active'') \<and> GetNodeByID (c_node c) d = Inr n"
proof -
  have k: "(if (case c_status b of None \<Rightarrow> False | Some s \<Rightarrow> s \<noteq> ''active'') then None
     else case GetNodeByID (c_node b) d of Inl _ \<Rightarrow> None | Inr n \<Rightarrow> Some (b, n)) = Some (c, n) \<longleftrightarrow>
     b = c \<and> (c_status c = None \<or> c_status c = Some ''active'') \<and> GetNodeByID (c_node c) d = Inr n" for b
    by (cases "c_status b"; cases "GetNodeByID (c_node b) d") auto
  show ?thesis unfolding sub_items_def in_map_filter k by blast
qed

lemma token_user:
  assumes "GetUserBySubscriptionToken tok d = Inr u"
  shows "u \<in> set (db_users d)"
  using assms find_Some_in[of "\<lambda>u. u_token u = tok" "db_users d" u]
  by (auto simp: GetUserBySubscriptionToken_def select_user_def split: if_splits option.splits)



section \<open>References inside the documents\<close>

definition tags :: "(string \<times> doc) list list \<Rightarrow> string list" where
  "tags outs = List.map_filter tag_of outs"

lemma proxy_name_bar: "CHR ''|'' \<in> set (proxy_name item)"
  by (cases item) (simp add: proxy_name_def wg_tag_def)

lemma tag_of_singbox [simp]: "tag_of (singbox_outbound ipv6 item) = Some (proxy_name item)"
  by (cases item) (simp add: singbox_outbound_def tag_of_def)

lemma singbox_tags: "List.map_filter tag_of (List.map (singbox_outbound ipv6) items @ outs) = List.map proxy_name items @ List.map_filter tag_of outs"
  by (induction items) (simp_all add: map_filter_simps)

lemma texts_snoc: "List.map DStr xs @ [DStr s] = List.map DStr zs \<longleftrightarrow> zs = xs @ [s]" "List.map DStr xs = List.map DStr zs \<longleftrightarrow> zs = xs"
proof -
  have i: "List.map DStr as = List.map DStr zs \<longleftrightarrow> zs = as" for as
    by (subst inj_map_eq_map) (auto simp: inj_def)
  show "List.map DStr xs @ [DStr s] = List.map DStr zs \<longleftrightarrow> zs = xs @ [s]" using i[of "xs @ [s]"] by simp
  show "List.map DStr xs = List.map DStr zs \<longleftrightarrow> zs = xs" by (rule i)
qed

text \<open>
  Every name the sing-box document refers to is defined, when it carries a proxy at all: the members of
  the selector and of the latency test, the selector's default and the final outbound are tags of
  outbounds. Without a supported credential the selector is missing, and the final outbound and the
  detour of the remote resolver name an outbound that does not exist.
\<close>

theorem singbox_references_resolve:
  "(''Proxy-Select'' \<in> set (tags (singbox_outbounds ipv6 items)) \<longleftrightarrow> (\<exists>item\<in>set items. supported item)) \<and>
   (\<forall>o1\<in>set (singbox_outbounds ipv6 items). \<forall>names. map_of o1 ''outbounds'' = Some (texts names) \<longrightarrow>
      set names \<subseteq> set (tags (singbox_outbounds ipv6 items)))"
proof -
  define outs where "outs = List.map (singbox_outbound ipv6) (List.filter supported items) @
     [plain_outbound ''direct'' ''direct'', plain_outbound ''block'' ''block'', plain_outbound ''dns'' ''dns-out'']"
  define names where "names = List.map proxy_name (List.filter supported items)"
  have t: "List.map_filter tag_of outs = names @ [''direct'', ''block'', ''dns-out'']"
    unfolding outs_def singbox_tags names_def by (simp add: map_filter_simps plain_outbound_def tag_of_def)
  have "t \<notin> {''direct'', ''block'', ''dns-out''}" if "t \<in> set names" for t
  proof -
    have "CHR ''|'' \<in> set t" using that proxy_name_bar by (auto simp: names_def)
    then show ?thesis by auto
  qed
  then have f: "List.filter (\<lambda>t. t \<notin> {''direct'', ''block'', ''dns-out''}) (names @ [''direct'', ''block'', ''dns-out'']) = names"
    by (auto simp: filter_id_conv)
  have no: "map_of o1 ''outbounds'' = None" if "o1 \<in> set outs" for o1
    using that by (auto simp: outs_def singbox_outbound_def plain_outbound_def split: prod.splits)
  have "names = [] \<longleftrightarrow> \<not> (\<exists>item\<in>set items. supported item)" by (auto simp: names_def filter_empty_conv)
  moreover have "''Proxy-Select'' \<notin> set names"
  proof
    assume "''Proxy-Select'' \<in> set names"
    then obtain item where "proxy_name item = ''Proxy-Select''" unfolding names_def by auto
    then show False using proxy_name_bar[of item] by simp
  qed
  moreover have "singbox_outbounds ipv6 items = (if names = [] then outs
         else [(''type'', DStr ''selector''), (''tag'', DStr ''Proxy-Select''),
               (''outbounds'', texts (''Auto-Latency'' # names @ [''direct''])), (''default'', DStr ''Auto-Latency'')] #
              [(''type'', DStr ''urltest''), (''tag'', DStr ''Auto-Latency''), (''outbounds'', texts names),
               (''url'', DStr ''https://www.gstatic.com/generate_204''), (''interval'', DStr ''3m''), (''tolerance'', DNum 50)] # outs)"
    unfolding singbox_outbounds_def outs_def[symmetric] t f Let_def ..
  ultimately show ?thesis
    using no by (auto simp: tags_def t map_filter_simps tag_of_def texts_snoc)
qed

end
