(* ===== verification/Inventory.thy ===== *)
theory Inventory
  imports Syncer User_Laws
begin

text \<open>
  The inventory routes of the API: nodes (src/internal/controlplane/api/handler/node.go, the statements of
  store/node.sql.go and store/repo_node.go) and credentials (api/handler/credential.go, the statements of
  store/credential.sql.go and store/repo_credential.go). The validator, the parsers of addresses and of
  identifiers, the key pair and the new identifiers are arguments. The columns password, email, keepalive and
  allowed_ips of a credential and the certificate fingerprint of a node are written by none of the code modelled.
\<close>

section \<open>Statements on nodes\<close>

definition in_fleet :: "string \<Rightarrow> string \<Rightarrow> node \<Rightarrow> bool" where
  "in_fleet status region n \<longleftrightarrow> (status = [] \<or> n_status n = Some status) \<and> (region = [] \<or> n_region n = Some region)"

definition ListNodes :: "string \<Rightarrow> string \<Rightarrow> int \<Rightarrow> int \<Rightarrow> 'a db_scheme \<Rightarrow> db_error + node list" where
  "ListNodes status region limit offset d =
     (if ''ListNodes'' \<in> db_down d \<or> offset < 0 then Inl StatementFailed
      else Inr (take (nat limit) (drop (nat offset) (List.filter (in_fleet status region) (db_nodes d)))))"

definition CountNodes :: "string \<Rightarrow> string \<Rightarrow> 'a db_scheme \<Rightarrow> db_error + int" where
  "CountNodes status region d =
     (if ''CountNodes'' \<in> db_down d then Inl StatementFailed
      else Inr (int (length (List.filter (in_fleet status region) (db_nodes d)))))"

definition list_nodes :: "string \<Rightarrow> string \<Rightarrow> int \<Rightarrow> int \<Rightarrow> 'a db_scheme \<Rightarrow> db_error + (node list \<times> int)" where
  "list_nodes status region limit offset d =
     (case ListNodes status region (if limit \<le> 0 then 20 else limit) offset d of Inl e \<Rightarrow> Inl e
      | Inr ns \<Rightarrow> (case CountNodes status region d of Inl e \<Rightarrow> Inl e | Inr n \<Rightarrow> Inr (ns, n)))"

text \<open>The update writes every column but the heartbeat and the configuration version.\<close>

definition UpdateNode :: "node \<Rightarrow> 'a db_scheme \<Rightarrow> db_error + (node \<times> 'a db_scheme)" where
  "UpdateNode n d =
     (if ''UpdateNode'' \<in> db_down d then Inl StatementFailed
      else case List.find (\<lambda>m. n_id m = n_id n) (db_nodes d) of
        None \<Rightarrow> Inl NoRows
      | Some old \<Rightarrow>
          if (\<exists>m\<in>set (db_nodes d). n_id m \<noteq> n_id n \<and> n_name m = n_name n) then Inl UniqueViolation
          else
            (let row = (\<lambda>m. n\<lparr>n_heartbeat := n_heartbeat m, n_version := n_version m\<rparr>)
             in Inr (row old, update_nodes (\<lambda>m. n_id m = n_id n) row d)))"

text \<open>The credentials of a deleted node go with it.\<close>

definition DeleteNode :: "uuid \<Rightarrow> 'a db_scheme \<Rightarrow> db_error + 'a db_scheme" where
  "DeleteNode nid d =
     (if ''DeleteNode'' \<in> db_down d then Inl StatementFailed
      else Inr (d\<lparr>db_nodes := List.filter (\<lambda>n. n_id n \<noteq> nid) (db_nodes d),
                  db_creds := List.filter (\<lambda>c. c_node c \<noteq> nid) (db_creds d)\<rparr>))"

section \<open>Statements on credentials\<close>

definition ListCredentialsByNode :: "uuid \<Rightarrow> 'a db_scheme \<Rightarrow> db_error + credential list" where
  "ListCredentialsByNode nid d =
     (if ''ListCredentialsByNode'' \<in> db_down d then Inl StatementFailed
      else Inr (List.filter (\<lambda>c. c_node c = nid) (db_creds d)))"

definition ListAllCredentials :: "'a db_scheme \<Rightarrow> db_error + credential list" where
  "ListAllCredentials d =
     (if ''ListAllCredentials'' \<in> db_down d then Inl StatementFailed else Inr (take 500 (db_creds d)))"

text \<open>The update writes every column but the owner, the node and the protocol.\<close>

definition UpdateCredential :: "credential \<Rightarrow> 'a db_scheme \<Rightarrow> db_error + (credential \<times> 'a db_scheme)" where
  "UpdateCredential c d =
     (if ''UpdateCredential'' \<in> db_down d then Inl StatementFailed
      else case List.find (\<lambda>e. c_id e = c_id c) (db_creds d) of
        None \<Rightarrow> Inl NoRows
      | Some old \<Rightarrow>
          if c_ipv4 c \<noteq> None \<and> (\<exists>e\<in>set (db_creds d). c_id e \<noteq> c_id c \<and> c_node e = c_node old \<and> c_ipv4 e = c_ipv4 c)
          then Inl UniqueViolation
          else
            (let row = (\<lambda>e. c\<lparr>c_user := c_user e, c_node := c_node e, c_protocol := c_protocol e\<rparr>)
             in Inr (row old, d\<lparr>db_creds := List.map (\<lambda>e. if c_id e = c_id c then row e else e) (db_creds d)\<rparr>)))"

section \<open>Nodes\<close>

record create_node =
  cn_name :: string
  cn_region :: string
  cn_country :: string
  cn_city :: string
  cn_ip :: string
  cn_capacity :: int
  cn_protocols :: "string list"
  cn_tags :: "string list option"

record change_node =
  hn_name :: string
  hn_status :: string
  hn_capacity :: int
  hn_protocols :: "string list"
  hn_tags :: "string list option"
  hn_sni :: string
  hn_pbk :: string
  hn_sid :: string

record inv_env =
  iv_node :: "create_node \<Rightarrow> bool"
  iv_change :: "change_node \<Rightarrow> bool"
  iv_addr :: "string \<Rightarrow> string option"
  iv_uuid :: "string \<Rightarrow> uuid option"

definition inv_audit :: "auth_ctx option \<Rightarrow> string \<Rightarrow> string \<Rightarrow> uuid \<Rightarrow> crm \<Rightarrow> crm" where
  "inv_audit ctx action typ rid st = st\<lparr>cm_db := audit_log ctx action typ (Some rid) NoDiff (cm_db st)\<rparr>"

definition push_node :: "uuid \<Rightarrow> crm \<Rightarrow> crm" where
  "push_node nid st = st\<lparr>cm_pushed := cm_pushed st @ [nid]\<rparr>"

definition HandleListNodes ::
    "string \<Rightarrow> string \<Rightarrow> string \<Rightarrow> string \<Rightarrow> crm \<Rightarrow> http_error + (node list \<times> pagination \<times> int \<times> int)" where
  "HandleListNodes status region page per_page st =
     (let pg = ParsePagination page per_page
      in case list_nodes status region (wrap32 (pg_per_page pg)) (wrap32 (pg_offset pg)) (cm_db st) of
           Inl _ \<Rightarrow> Inl InternalError
         | Inr (ns, n) \<Rightarrow> Inr (ns, pg, n, total_pages pg n))"

definition api_node :: "uuid \<Rightarrow> create_node \<Rightarrow> node" where
  "api_node nid req = \<lparr>n_id = nid, n_name = cn_name req, n_endpoint = trim_space (cn_ip req) @ '':51820'',
     n_grpc = trim_space (cn_ip req) @ '':9090'', n_region = nonempty (cn_region req), n_capacity = Some (cn_capacity req),
     n_status = Some ''active'', n_tags = Some (cn_tags req), n_public_key = [], n_sni = None, n_pbk = None, n_sid = None,
     n_heartbeat = None, n_version = 1\<rparr>"

definition HandleCreateNode ::
    "inv_env \<Rightarrow> auth_ctx option \<Rightarrow> uuid \<Rightarrow> create_node option \<Rightarrow> crm \<Rightarrow> (http_error + node) \<times> crm" where
  "HandleCreateNode iv ctx nid body st =
     (case body of None \<Rightarrow> (Inl BadRequest, st)
      | Some req \<Rightarrow>
          if \<not> iv_node iv req \<or> iv_addr iv (trim_space (cn_ip req)) = None then (Inl BadRequest, st)
          else case CreateNode (api_node nid req) (cm_db st) of
            Inl _ \<Rightarrow> (Inl InternalError, st)
          | Inr (n, d) \<Rightarrow> (Inr n, inv_audit ctx ''create'' ''node'' (n_id n) (st\<lparr>cm_db := d\<rparr>)))"

definition HandleGetNode :: "uuid option \<Rightarrow> crm \<Rightarrow> http_error + node" where
  "HandleGetNode target st =
     (case target of None \<Rightarrow> Inl BadRequest | Some nid \<Rightarrow> or_error NotFound (GetNodeByID nid (cm_db st)))"

definition if_given :: "string \<Rightarrow> string option \<Rightarrow> string option" where
  "if_given s old = (if s = [] then old else Some s)"

text \<open>The protocols of the request are validated and not stored.\<close>

definition changed_node :: "change_node \<Rightarrow> node \<Rightarrow> node" where
  "changed_node req n = n\<lparr>n_name := (if hn_name req = [] then n_name n else hn_name req),
     n_capacity := (if hn_capacity req > 0 then Some (hn_capacity req) else n_capacity n),
     n_status := if_given (hn_status req) (n_status n),
     n_tags := (case hn_tags req of None \<Rightarrow> n_tags n | Some ts \<Rightarrow> Some (Some ts)),
     n_sni := if_given (hn_sni req) (n_sni n), n_pbk := if_given (hn_pbk req) (n_pbk n),
     n_sid := if_given (hn_sid req) (n_sid n)\<rparr>"

definition reaches_agent :: "change_node \<Rightarrow> bool" where
  "reaches_agent req \<longleftrightarrow> hn_status req \<noteq> [] \<or> hn_sni req \<noteq> [] \<or> hn_pbk req \<noteq> [] \<or> hn_sid req \<noteq> []"

definition HandleUpdateNode ::
    "inv_env \<Rightarrow> auth_ctx option \<Rightarrow> uuid option \<Rightarrow> change_node option \<Rightarrow> crm \<Rightarrow> (http_error + node) \<times> crm" where
  "HandleUpdateNode iv ctx target body st =
     (case target of None \<Rightarrow> (Inl BadRequest, st)
      | Some nid \<Rightarrow> (case body of None \<Rightarrow> (Inl BadRequest, st)
        | Some req \<Rightarrow>
            if \<not> iv_change iv req then (Inl BadRequest, st)
            else case GetNodeByID nid (cm_db st) of Inl _ \<Rightarrow> (Inl NotFound, st)
            | Inr old \<Rightarrow> (case UpdateNode ((changed_node req old)\<lparr>n_id := nid\<rparr>) (cm_db st) of
                Inl _ \<Rightarrow> (Inl InternalError, st)
              | Inr (n, d) \<Rightarrow>
                  (Inr n, (if reaches_agent req then push_node nid else id) (inv_audit ctx ''update'' ''node'' nid (st\<lparr>cm_db := d\<rparr>))))))"

definition HandleDeleteNode :: "auth_ctx option \<Rightarrow> uuid option \<Rightarrow> crm \<Rightarrow> http_error option \<times> crm" where
  "HandleDeleteNode ctx target st =
     (case target of None \<Rightarrow> (Some BadRequest, st)
      | Some nid \<Rightarrow> (case GetNodeByID nid (cm_db st) of Inl _ \<Rightarrow> (Some NotFound, st)
        | Inr _ \<Rightarrow> (case DeleteNode nid (cm_db st) of Inl _ \<Rightarrow> (Some InternalError, st)
          | Inr d \<Rightarrow> (None, inv_audit ctx ''delete'' ''node'' nid (st\<lparr>cm_db := d\<rparr>)))))"

record node_stats =
  ns_id :: uuid
  ns_status :: string
  ns_capacity :: int
  ns_heartbeat :: "time option"

definition HandleGetStats :: "uuid option \<Rightarrow> crm \<Rightarrow> http_error + node_stats" where
  "HandleGetStats target st =
     (case HandleGetNode target st of Inl e \<Rightarrow> Inl e
      | Inr n \<Rightarrow> Inr \<lparr>ns_id = n_id n, ns_status = text_or [] (n_status n), ns_capacity = int_or 0 (n_capacity n),
                      ns_heartbeat = n_heartbeat n\<rparr>)"

section \<open>Credentials\<close>

record create_cred =
  cq_user :: uuid
  cq_node :: uuid
  cq_protocol :: string
  cq_public :: string
  cq_ipv4 :: string
  cq_ipv6 :: string
  cq_jc :: "int option"
  cq_jmin :: "int option"
  cq_jmax :: "int option"
  cq_s1 :: "int option"
  cq_s2 :: "int option"
  cq_h1 :: "int option"
  cq_h2 :: "int option"
  cq_h3 :: "int option"
  cq_h4 :: "int option"
  cq_uuid :: "string option"
  cq_flow :: "string option"

definition HandleListCredentials :: "inv_env \<Rightarrow> string \<Rightarrow> string \<Rightarrow> crm \<Rightarrow> http_error + credential list" where
  "HandleListCredentials iv node_q user_q st =
     (if node_q \<noteq> [] then
        (case iv_uuid iv node_q of None \<Rightarrow> Inl BadRequest
         | Some nid \<Rightarrow> or_error InternalError (ListCredentialsByNode nid (cm_db st)))
      else if user_q \<noteq> [] then
        (case iv_uuid iv user_q of None \<Rightarrow> Inl BadRequest
         | Some uid \<Rightarrow> or_error InternalError (ListCredentialsByUser uid (cm_db st)))
      else or_error InternalError (ListAllCredentials (cm_db st)))"

definition parsed_addr :: "inv_env \<Rightarrow> string \<Rightarrow> string option" where
  "parsed_addr iv s = (if s = [] then None else iv_addr iv (trim_space s))"

definition is_awg :: "create_cred \<Rightarrow> bool" where
  "is_awg req \<longleftrightarrow> cq_protocol req = ''amneziawg''"

definition awg_columns :: "create_cred \<Rightarrow> credential \<Rightarrow> credential" where
  "awg_columns req c = c\<lparr>c_jc := Some (int_or 4 (cq_jc req)), c_jmin := Some (int_or 40 (cq_jmin req)),
     c_jmax := Some (int_or 70 (cq_jmax req)), c_s1 := Some (int_or 64 (cq_s1 req)), c_s2 := Some (int_or 64 (cq_s2 req)),
     c_h1 := Some (int_or 16843009 (cq_h1 req)), c_h2 := Some (int_or 33686018 (cq_h2 req)),
     c_h3 := Some (int_or 50529027 (cq_h3 req)), c_h4 := Some (int_or 67372036 (cq_h4 req))\<rparr>"

text \<open>A client identifier that is absent or malformed is drawn.\<close>

definition client_of :: "inv_env \<Rightarrow> create_cred \<Rightarrow> uuid \<Rightarrow> uuid" where
  "client_of iv req drawn =
     (let s = trim_space (text_or [] (cq_uuid req)) in
      if s = [] then drawn else case iv_uuid iv s of None \<Rightarrow> drawn | Some i \<Rightarrow> i)"

definition flow_of :: "create_cred \<Rightarrow> string" where
  "flow_of req = (let s = trim_space (text_or [] (cq_flow req)) in if s = [] then ''xtls-rprx-vision'' else s)"

definition api_cred :: "inv_env \<Rightarrow> create_cred \<Rightarrow> uuid \<Rightarrow> uuid \<Rightarrow> string \<Rightarrow> string \<Rightarrow> credential" where
  "api_cred iv req cid drawn priv pub =
     (let c = (blank_cred cid (cq_user req) (cq_node req) (cq_protocol req))
            \<lparr>c_private := nonempty priv, c_public := nonempty pub, c_ipv4 := parsed_addr iv (cq_ipv4 req),
             c_ipv6 := parsed_addr iv (cq_ipv6 req)\<rparr>;
          c1 = (if is_awg req then awg_columns req c else c)
      in if cq_protocol req = ''vless'' then c1\<lparr>c_uuid := Some (client_of iv req drawn), c_flow := Some (flow_of req)\<rparr> else c1)"

text \<open>A WireGuard credential without a public key of its own gets a generated pair, whose private key is stored and answered.\<close>

definition keys_of :: "create_cred \<Rightarrow> (string \<times> string) option \<Rightarrow> (string \<times> string) option" where
  "keys_of req key =
     (let pub = trim_space (cq_public req) in
      if pub = [] \<and> (cq_protocol req = ''wireguard'' \<or> is_awg req) then key else Some ([], pub))"

definition HandleCreateCredential ::
    "inv_env \<Rightarrow> (create_cred \<Rightarrow> bool) \<Rightarrow> auth_ctx option \<Rightarrow> uuid \<Rightarrow> uuid \<Rightarrow> (string \<times> string) option \<Rightarrow> create_cred option \<Rightarrow> crm \<Rightarrow>
     (http_error + credential \<times> string) \<times> crm" where
  "HandleCreateCredential iv valid ctx cid drawn key body st =
     (case body of None \<Rightarrow> (Inl BadRequest, st)
      | Some req \<Rightarrow>
          if \<not> valid req \<or> \<not> is_ok (GetUserByID (cq_user req) (cm_db st)) \<or> \<not> is_ok (GetNodeByID (cq_node req) (cm_db st))
          then (Inl BadRequest, st)
          else case keys_of req key of None \<Rightarrow> (Inl InternalError, st)
          | Some (priv, pub) \<Rightarrow> (case CreateCredential (api_cred iv req cid drawn priv pub) (cm_db st) of
              Inl _ \<Rightarrow> (Inl InternalError, st)
            | Inr (c, d) \<Rightarrow>
                (Inr (c, priv), push_node (cq_node req) (inv_audit ctx ''create'' ''credential'' (c_id c) (st\<lparr>cm_db := d\<rparr>)))))"

definition HandleGetCredential :: "uuid option \<Rightarrow> crm \<Rightarrow> http_error + credential" where
  "HandleGetCredential target st =
     (case target of None \<Rightarrow> Inl BadRequest | Some cid \<Rightarrow> or_error NotFound (GetCredentialByID cid (cm_db st)))"

definition HandleDeleteCredential :: "auth_ctx option \<Rightarrow> uuid option \<Rightarrow> crm \<Rightarrow> http_error option \<times> crm" where
  "HandleDeleteCredential ctx target st =
     (case target of None \<Rightarrow> (Some BadRequest, st)
      | Some cid \<Rightarrow> (case GetCredentialByID cid (cm_db st) of Inl _ \<Rightarrow> (Some NotFound, st)
        | Inr _ \<Rightarrow> (case RevokeCredential cid (cm_db st) of
            (Some _, d, ps) \<Rightarrow> (Some InternalError, st\<lparr>cm_db := d, cm_pushed := cm_pushed st @ ps\<rparr>)
          | (None, d, ps) \<Rightarrow>
              (None, inv_audit ctx ''delete'' ''credential'' cid (st\<lparr>cm_db := d, cm_pushed := cm_pushed st @ ps\<rparr>)))))"

definition HandleRotateCredential ::
    "auth_ctx option \<Rightarrow> uuid option \<Rightarrow> (string \<times> string) option \<Rightarrow> crm \<Rightarrow> (http_error + credential \<times> string) \<times> crm" where
  "HandleRotateCredential ctx target key st =
     (case target of None \<Rightarrow> (Inl BadRequest, st)
      | Some cid \<Rightarrow> (case GetCredentialByID cid (cm_db st) of Inl _ \<Rightarrow> (Inl NotFound, st)
        | Inr old \<Rightarrow>
            if c_protocol old \<noteq> ''wireguard'' \<and> c_protocol old \<noteq> ''amneziawg'' then (Inl BadRequest, st)
            else case key of None \<Rightarrow> (Inl InternalError, st)
            | Some (priv, pub) \<Rightarrow>
               (case UpdateCredential (old\<lparr>c_id := cid, c_private := Some priv, c_public := Some pub\<rparr>) (cm_db st) of
                  Inl _ \<Rightarrow> (Inl InternalError, st)
                | Inr (c, d) \<Rightarrow>
                    (Inr (c, priv), push_node (c_node old) (inv_audit ctx ''rotate_keys'' ''credential'' cid (st\<lparr>cm_db := d\<rparr>))))))"

section \<open>Integrity\<close>

lemma renamed_distinct:
  assumes "distinct (List.map n_id ns)" "distinct (List.map n_name ns)" "\<forall>m\<in>set ns. n_id m \<noteq> i \<longrightarrow> n_name m \<noteq> nm"
    and "\<And>m. n_name (row m) = nm"
  shows "distinct (List.map n_name (List.map (\<lambda>m. if n_id m = i then row m else m) ns))"
  using assms(1-3) assms(4) by (induction ns) (auto simp: image_iff)

lemma UpdateNode_ok [keeps]: "UpdateNode n d = Inr (m, d') \<Longrightarrow> db_ok d \<Longrightarrow> db_ok d'"
proof -
  assume up: "UpdateNode n d = Inr (m, d')" and ok: "db_ok d"
  let ?row = "\<lambda>m. n\<lparr>n_heartbeat := n_heartbeat m, n_version := n_version m\<rparr>"
  have d': "d' = update_nodes (\<lambda>m. n_id m = n_id n) ?row d" and free: "\<forall>m\<in>set (db_nodes d). n_id m \<noteq> n_id n \<longrightarrow> n_name m \<noteq> n_name n"
    using up by (auto simp: UpdateNode_def Let_def split: if_splits option.splits)
  have "List.map n_id (List.map (\<lambda>m. if n_id m = n_id n then ?row m else m) ns) = List.map n_id ns" for ns
    by (induction ns) auto
  then have "List.map n_id (db_nodes d') = List.map n_id (db_nodes d)" by (simp only: d' db_nodes_update)
  moreover from this have "n_id ` set (db_nodes d') = n_id ` set (db_nodes d)" by (metis list.set_map)
  moreover have "distinct (List.map n_name (db_nodes d'))"
    unfolding d' db_nodes_update by (rule renamed_distinct) (use ok free in \<open>auto simp: db_ok_def\<close>)
  ultimately show ?thesis using ok by (simp add: db_ok_def d')
qed

lemma DeleteNode_ok [keeps]: "DeleteNode nid d = Inr d' \<Longrightarrow> db_ok d \<Longrightarrow> db_ok d'"
proof -
  assume del: "DeleteNode nid d = Inr d'" and ok: "db_ok d"
  have d': "d' = d\<lparr>db_nodes := List.filter (\<lambda>n. n_id n \<noteq> nid) (db_nodes d),
      db_creds := List.filter (\<lambda>c. c_node c \<noteq> nid) (db_creds d)\<rparr>"
    using del by (simp add: DeleteNode_def split: if_splits)
  have "c_node c \<in> n_id ` set (List.filter (\<lambda>n. n_id n \<noteq> nid) (db_nodes d))"
    if "c \<in> set (db_creds d)" "c_node c \<noteq> nid" for c
  proof -
    have "c_node c \<in> n_id ` set (db_nodes d)" using ok that(1) by (simp add: db_ok_def)
    then show ?thesis using that(2) by auto
  qed
  then show ?thesis using ok unfolding db_ok_def d' by (simp add: creds_ok_filter distinct_map_filter_key)
qed

lemma rewritten_creds_ok:
  assumes "creds_ok cs" "\<And>e. c_id e = i \<Longrightarrow> c_id (row e) = i \<and> cred_key (row e) = cred_key e"
    and "\<forall>e\<in>set cs. c_id e = i \<longrightarrow> c_ipv4 (row e) \<noteq> None \<longrightarrow>
           (\<forall>o2\<in>set cs. c_id o2 \<noteq> i \<longrightarrow> cred_addr o2 \<noteq> cred_addr (row e))"
  shows "creds_ok (List.map (\<lambda>e. if c_id e = i then row e else e) cs)"
  using assms
proof (induction cs)
  case (Cons c cs)
  let ?f = "\<lambda>e. if c_id e = i then row e else e"
  have ids: "c_id (?f e) = c_id e" "cred_key (?f e) = cred_key e" for e using Cons.prems(2) by auto
  have "creds_ok (List.map ?f cs)" using Cons by (intro Cons.IH) (auto simp: creds_ok_Cons)
  moreover have "c_id (?f c) \<notin> c_id ` set (List.map ?f cs)" "cred_key (?f c) \<notin> cred_key ` set (List.map ?f cs)"
    using Cons.prems(1) by (auto simp: creds_ok_Cons image_iff ids simp del: if_image_distrib)
  moreover have "cred_addr (?f c) \<notin> cred_addr ` set (List.map ?f cs)" if some: "c_ipv4 (?f c) \<noteq> None"
  proof
    assume "cred_addr (?f c) \<in> cred_addr ` set (List.map ?f cs)"
    then obtain e where e: "e \<in> set cs" "cred_addr (?f e) = cred_addr (?f c)" by auto
    have ne: "c_id e \<noteq> c_id c" using Cons.prems(1) e(1) by (metis creds_ok_Cons imageI)
    have ip: "c_ipv4 (?f e) \<noteq> None" using e(2) some by (simp add: cred_addr_def)
    show False
    proof (cases "c_id c = i")
      case True
      then show False using Cons.prems(3) e ne some by auto
    next
      case c: False
      show False
      proof (cases "c_id e = i")
        case True
        then show False using Cons.prems(3) e ne ip c by auto
      next
        case False
        then have "c_ipv4 c \<noteq> None" "cred_addr c \<in> cred_addr ` set cs" using e some c by (auto simp: image_iff) metis
        then show False using Cons.prems(1) by (simp add: creds_ok_Cons)
      qed
    qed
  qed
  ultimately show ?case by (simp add: creds_ok_Cons)
qed simp

lemma UpdateCredential_InrD:
  assumes "UpdateCredential c d = Inr (c', d')"
  obtains old where "List.find (\<lambda>e. c_id e = c_id c) (db_creds d) = Some old"
    "c' = c\<lparr>c_user := c_user old, c_node := c_node old, c_protocol := c_protocol old\<rparr>"
    "d' = d\<lparr>db_creds := List.map (\<lambda>e. if c_id e = c_id c
        then c\<lparr>c_user := c_user e, c_node := c_node e, c_protocol := c_protocol e\<rparr> else e) (db_creds d)\<rparr>"
    "c_ipv4 c \<noteq> None \<Longrightarrow> \<forall>e\<in>set (db_creds d). c_id e \<noteq> c_id c \<longrightarrow> c_node e = c_node old \<longrightarrow> c_ipv4 e \<noteq> c_ipv4 c"
  using assms by (auto simp: UpdateCredential_def Let_def split: if_splits option.splits)

lemma UpdateCredential_ok [keeps]: "UpdateCredential c d = Inr (c', d') \<Longrightarrow> db_ok d \<Longrightarrow> db_ok d'"
proof -
  assume up: "UpdateCredential c d = Inr (c', d')" and ok: "db_ok d"
  let ?row = "\<lambda>e. c\<lparr>c_user := c_user e, c_node := c_node e, c_protocol := c_protocol e\<rparr>"
  obtain old where old: "List.find (\<lambda>e. c_id e = c_id c) (db_creds d) = Some old"
    and d': "d' = d\<lparr>db_creds := List.map (\<lambda>e. if c_id e = c_id c then ?row e else e) (db_creds d)\<rparr>"
    and free: "c_ipv4 c \<noteq> None \<Longrightarrow> \<forall>e\<in>set (db_creds d). c_id e \<noteq> c_id c \<longrightarrow> c_node e = c_node old \<longrightarrow> c_ipv4 e \<noteq> c_ipv4 c"
    by (rule UpdateCredential_InrD[OF up]) blast
  have one: "e = old" if "e \<in> set (db_creds d)" "c_id e = c_id c" for e
    using ok that find_Some_in[OF old] creds_ok_same_id[of "db_creds d" e old] by (simp add: db_ok_def)
  have "creds_ok (List.map (\<lambda>e. if c_id e = c_id c then ?row e else e) (db_creds d))"
  proof (rule rewritten_creds_ok)
    show "creds_ok (db_creds d)" using ok by (simp add: db_ok_def)
    show "c_id (?row e) = c_id c \<and> cred_key (?row e) = cred_key e" for e by (simp add: cred_key_def)
    show "\<forall>e\<in>set (db_creds d). c_id e = c_id c \<longrightarrow> c_ipv4 (?row e) \<noteq> None \<longrightarrow>
        (\<forall>o2\<in>set (db_creds d). c_id o2 \<noteq> c_id c \<longrightarrow> cred_addr o2 \<noteq> cred_addr (?row e))"
    proof (intro ballI impI)
      fix e x assume e: "e \<in> set (db_creds d)" "c_id e = c_id c" "c_ipv4 (?row e) \<noteq> None" and x: "x \<in> set (db_creds d)" "c_id x \<noteq> c_id c"
      have "e = old" using one e(1,2) by blast
      moreover have "c_node x = c_node old \<longrightarrow> c_ipv4 x \<noteq> c_ipv4 c" using free e(3) x by simp
      ultimately show "cred_addr x \<noteq> cred_addr (?row e)" by (simp add: cred_addr_def)
    qed
  qed
  moreover have "\<forall>e\<in>set (List.map (\<lambda>e. if c_id e = c_id c then ?row e else e) (db_creds d)).
      c_user e \<in> u_id ` set (db_users d) \<and> c_node e \<in> n_id ` set (db_nodes d)"
    using ok unfolding db_ok_def by auto
  ultimately show ?thesis using ok by (simp add: db_ok_def d')
qed

lemma inv_effects [simp]:
  "db_users (cm_db (inv_audit ctx action typ rid st)) = db_users (cm_db st)"
  "db_nodes (cm_db (inv_audit ctx action typ rid st)) = db_nodes (cm_db st)"
  "db_creds (cm_db (inv_audit ctx action typ rid st)) = db_creds (cm_db st)"
  "db_down (cm_db (inv_audit ctx action typ rid st)) = db_down (cm_db st)"
  "cm_pushed (inv_audit ctx action typ rid st) = cm_pushed st"
  "cm_db (push_node nid st) = cm_db st" "cm_pushed (push_node nid st) = cm_pushed st @ [nid]"
  by (simp_all add: inv_audit_def push_node_def)

lemma inv_audit_ok [simp]: "db_ok (cm_db (inv_audit ctx action typ rid st)) \<longleftrightarrow> db_ok (cm_db st)"
  by (simp add: db_ok_def)

text \<open>One request of the inventory routes.\<close>

inductive inv_step :: "inv_env \<Rightarrow> crm \<Rightarrow> crm \<Rightarrow> bool" for iv where
  "inv_step iv st (snd (HandleCreateNode iv ctx nid body st))"
| "inv_step iv st (snd (HandleUpdateNode iv ctx target change st))"
| "inv_step iv st (snd (HandleDeleteNode ctx target st))"
| "inv_step iv st (snd (HandleCreateCredential iv valid ctx cid drawn key req st))"
| "inv_step iv st (snd (HandleDeleteCredential ctx target st))"
| "inv_step iv st (snd (HandleRotateCredential ctx target key st))"

lemma node_routes_ok:
  assumes "db_ok (cm_db st)"
  shows "db_ok (cm_db (snd (HandleCreateNode iv ctx nid body st)))"
    "db_ok (cm_db (snd (HandleUpdateNode iv ctx target change st)))"
    "db_ok (cm_db (snd (HandleDeleteNode ctx target st)))"
  using assms by (auto simp: HandleCreateNode_def HandleUpdateNode_def HandleDeleteNode_def keeps
      split: option.splits sum.splits)

lemma credential_routes_ok:
  assumes "db_ok (cm_db st)"
  shows "db_ok (cm_db (snd (HandleCreateCredential iv valid ctx cid drawn key req st)))"
    "db_ok (cm_db (snd (HandleDeleteCredential ctx target st)))"
    "db_ok (cm_db (snd (HandleRotateCredential ctx target key st)))"
  using assms by (auto simp: HandleCreateCredential_def HandleDeleteCredential_def HandleRotateCredential_def
      split: option.splits sum.splits prod.splits dest: CreateCredential_ok RevokeCredential_ok UpdateCredential_ok)

lemma inv_step_keeps: "inv_step iv st st' \<Longrightarrow> db_ok (cm_db st) \<Longrightarrow> db_ok (cm_db st')"
  by (induction rule: inv_step.induct) (simp_all add: node_routes_ok credential_routes_ok)

section \<open>Properties\<close>

text \<open>The credentials that a successful request removes and adds, and their node.\<close>

inductive cred_route :: "inv_env \<Rightarrow> crm \<Rightarrow> uuid \<Rightarrow> credential set \<Rightarrow> credential set \<Rightarrow> crm \<Rightarrow> bool" for iv where
  created: "HandleCreateCredential iv valid ctx cid drawn key req st = (Inr (c, priv), st') \<Longrightarrow>
     cred_route iv st (c_node c) {} {c} st'"
| deleted: "GetCredentialByID cid (cm_db st) = Inr c \<Longrightarrow> HandleDeleteCredential ctx (Some cid) st = (None, st') \<Longrightarrow>
     cred_route iv st (c_node c) {c} {} st'"
| rotated: "GetCredentialByID cid (cm_db st) = Inr c \<Longrightarrow> HandleRotateCredential ctx (Some cid) key st = (Inr (c', priv), st') \<Longrightarrow>
     cred_route iv st (c_node c) {c} {c'} st'"

lemma GetCredentialByID_InrD: "GetCredentialByID cid d = Inr c \<Longrightarrow> c \<in> set (db_creds d) \<and> c_id c = cid"
  by (auto simp: GetCredentialByID_def split: if_splits option.splits dest: find_Some_in)

lemma api_cred_simps [simp]:
  "c_user (api_cred iv req cid drawn priv pub) = cq_user req" "c_node (api_cred iv req cid drawn priv pub) = cq_node req"
  "c_protocol (api_cred iv req cid drawn priv pub) = cq_protocol req" "c_id (api_cred iv req cid drawn priv pub) = cid"
  by (simp_all add: api_cred_def blank_cred_def awg_columns_def Let_def)

lemma cred_route_effect:
  assumes "cred_route iv st nid gone added st'" "db_ok (cm_db st)"
  shows "gone \<subseteq> set (db_creds (cm_db st)) \<and> set (db_creds (cm_db st')) = set (db_creds (cm_db st)) - gone \<union> added \<and>
    db_users (cm_db st') = db_users (cm_db st) \<and> db_nodes (cm_db st') = db_nodes (cm_db st) \<and>
    db_down (cm_db st') = db_down (cm_db st) \<and> cm_pushed st' = cm_pushed st @ [nid] \<and> (\<forall>c\<in>gone \<union> added. c_node c = nid)"
  using assms
proof (induction rule: cred_route.induct)
  case (created valid ctx cid drawn key req st c priv st')
  then show ?case
    by (auto simp: HandleCreateCredential_def split: option.splits sum.splits if_splits prod.splits dest!: CreateCredential_InrD)
next
  case (deleted cid st c ctx st')
  have ok: "creds_ok (db_creds (cm_db st))" using deleted.prems by (simp add: db_ok_def)
  note c = GetCredentialByID_InrD[OF deleted.hyps(1)]
  have "e = c" if "e \<in> set (db_creds (cm_db st))" "c_id e = cid" for e
    using that c creds_ok_same_id[OF ok] by blast
  then have 1: "set (List.filter (\<lambda>e. c_id e \<noteq> cid) (db_creds (cm_db st))) = set (db_creds (cm_db st)) - {c}"
    using c by auto
  obtain d ps where r: "RevokeCredential cid (cm_db st) = (None, d, ps)"
    and st': "st' = inv_audit ctx ''delete'' ''credential'' cid (st\<lparr>cm_db := d, cm_pushed := cm_pushed st @ ps\<rparr>)"
    using deleted.hyps by (auto simp: HandleDeleteCredential_def split: prod.splits option.splits)
  have "ps = [c_node c]" "d = (cm_db st)\<lparr>db_creds := List.filter (\<lambda>e. c_id e \<noteq> cid) (db_creds (cm_db st))\<rparr>"
    using r deleted.hyps(1) by (auto simp: RevokeCredential_def DeleteCredential_def split: if_splits)
  then show ?case using c 1 by (simp add: st')
next
  case (rotated cid st c ctx key c' priv st')
  have ok: "creds_ok (db_creds (cm_db st))" using rotated.prems by (simp add: db_ok_def)
  note c = GetCredentialByID_InrD[OF rotated.hyps(1)]
  obtain priv' pub d where up: "UpdateCredential (c\<lparr>c_id := cid, c_private := Some priv', c_public := Some pub\<rparr>) (cm_db st) = Inr (c', d)"
    and st': "st' = push_node (c_node c) (inv_audit ctx ''rotate_keys'' ''credential'' cid (st\<lparr>cm_db := d\<rparr>))"
    using rotated.hyps by (auto simp: HandleRotateCredential_def split: if_splits option.splits sum.splits)
  let ?n = "c\<lparr>c_id := cid, c_private := Some priv', c_public := Some pub\<rparr>"
  let ?row = "\<lambda>e. ?n\<lparr>c_user := c_user e, c_node := c_node e, c_protocol := c_protocol e\<rparr>"
  obtain old where old: "List.find (\<lambda>e. c_id e = cid) (db_creds (cm_db st)) = Some old" and c': "c' = ?row old"
    and d: "d = (cm_db st)\<lparr>db_creds := List.map (\<lambda>e. if c_id e = cid then ?row e else e) (db_creds (cm_db st))\<rparr>"
    by (rule UpdateCredential_InrD[OF up]) simp
  have "old = c" using find_Some_in[OF old] c creds_ok_same_id[OF ok] by blast
  have "e = c" if "e \<in> set (db_creds (cm_db st))" "c_id e = cid" for e
    using that c creds_ok_same_id[OF ok] by blast
  then have "set (db_creds (cm_db st)) \<inter> {e. c_id e = cid} = {c}" "set (db_creds (cm_db st)) \<inter> {e. c_id e \<noteq> cid} = set (db_creds (cm_db st)) - {c}"
    using c by auto
  then have "set (db_creds d) = set (db_creds (cm_db st)) - {c} \<union> {c'}"
    by (simp add: d c' \<open>old = c\<close>)
  moreover have "c_node c' = c_node c" by (simp add: c' \<open>old = c\<close>)
  ultimately show ?case using c by (simp add: st') (simp add: d)
qed

lemma image_diff_apart: "(\<And>a b. a \<in> A \<Longrightarrow> b \<in> B \<Longrightarrow> a \<noteq> b \<Longrightarrow> f a \<noteq> f b) \<Longrightarrow> f ` (A - B) = f ` A - f ` B"
  by (auto simp: image_iff)

lemma served_eligible:
  assumes "db_ok d" "BuildConfig nid v full now d = Inr cu" "GetNodeByID nid d = Inr n" "serving_status n"
  shows "served cu = (\<lambda>c. (c_user c, cred_config_of c)) ` eligible nid now d"
  using build_exact[OF assms(1-3)] assms(4) by (auto simp: eligible_def)

text \<open>
  C33. Changes of credentials reach the node. After the API created, revoked or rotated a credential, the node
  it belongs to is pushed, and the configuration built for that node differs from the one built before by
  exactly this credential: the removed one is no longer served, the new one is served if its owner is, and
  everything else stays as it was.
\<close>

theorem credential_routes_take_effect:
  assumes route: "cred_route iv st nid gone added st'" and ok: "db_ok (cm_db st)"
    and node: "GetNodeByID nid (cm_db st) = Inr n" "serving_status n"
    and old: "BuildConfig nid v full now (cm_db st) = Inr cu" and new: "BuildConfig nid v' full' now (cm_db st') = Inr cu'"
  shows "served cu' = served cu - (\<lambda>c. (c_user c, cred_config_of c)) ` gone \<union>
      (\<lambda>c. (c_user c, cred_config_of c)) ` (added \<inter> eligible nid now (cm_db st')) \<and>
    cm_pushed st' = cm_pushed st @ [nid]"
proof -
  let ?F = "\<lambda>c. (c_user c, cred_config_of c)"
  note e = cred_route_effect[OF route ok]
  have ok': "db_ok (cm_db st')"
    using route ok by (cases rule: cred_route.cases) (metis credential_routes_ok snd_conv)+
  have node': "GetNodeByID nid (cm_db st') = Inr n" using node(1) e by (simp add: GetNodeByID_def split: if_splits)
  have el: "eligible nid now (cm_db st') = (eligible nid now (cm_db st) - gone) \<union> (added \<inter> eligible nid now (cm_db st'))"
    using e by (auto simp: eligible_def)
  have "?F a \<noteq> ?F b" if "a \<in> eligible nid now (cm_db st)" "b \<in> gone" "a \<noteq> b" for a b
  proof
    assume "?F a = ?F b"
    then have "c_id a = c_id b" by (simp add: cred_config_of_def)
    then show False using that e ok creds_ok_same_id[of "db_creds (cm_db st)" a b] by (auto simp: eligible_def db_ok_def)
  qed
  then have "?F ` (eligible nid now (cm_db st) - gone) = ?F ` eligible nid now (cm_db st) - ?F ` gone" by (rule image_diff_apart)
  moreover have "served cu' = ?F ` (eligible nid now (cm_db st) - gone) \<union> ?F ` (added \<inter> eligible nid now (cm_db st'))"
    using served_eligible[OF ok' new node' node(2)] el by (metis image_Un)
  ultimately show ?thesis using served_eligible[OF ok old node(1,2)] e by simp
qed

definition demo_iv :: inv_env where
  "demo_iv = \<lparr>iv_node = (\<lambda>_. True), iv_change = (\<lambda>_. True), iv_addr = Some, iv_uuid = (\<lambda>_. None)\<rparr>"

definition demo_fleet :: crm where
  "demo_fleet = demo_crm\<lparr>cm_db := demo_bdb\<lparr>db_users := [demo_user], db_nodes := [demo_node], db_creds := [demo_cred]\<rparr>\<rparr>"

lemma demo_fleet_simps:
  "db_ok (cm_db demo_fleet)" "GetNodeByID ''n1'' (cm_db demo_fleet) = Inr demo_node" "serving_status demo_node"
  "db_creds (cm_db demo_fleet) = [demo_cred]" "db_nodes (cm_db demo_fleet) = [demo_node]" "db_down (cm_db demo_fleet) = {}"
  "cm_pushed demo_fleet = []"
  by (auto simp: demo_fleet_def demo_crm_def demo_bdb_def demo_node_def demo_cred_def demo_user_def db_ok_def creds_ok_def with_addr_def
      GetNodeByID_def serving_status_def)

lemma credential_routes_take_effect_witness:
  "\<exists>st' cu cu'. HandleDeleteCredential None (Some ''c1'') demo_fleet = (None, st') \<and> cm_pushed st' = [''n1''] \<and>
     BuildConfig ''n1'' 1 True 5 (cm_db demo_fleet) = Inr cu \<and> BuildConfig ''n1'' 2 True 5 (cm_db st') = Inr cu' \<and>
     served cu' = served cu - {(''u1'', cred_config_of demo_cred)}"
proof -
  have c: "GetCredentialByID ''c1'' (cm_db demo_fleet) = Inr demo_cred"
    using demo_fleet_simps by (simp add: GetCredentialByID_def demo_cred_def)
  obtain st' where st': "HandleDeleteCredential None (Some ''c1'') demo_fleet = (None, st')"
    using c demo_fleet_simps by (simp add: HandleDeleteCredential_def RevokeCredential_def DeleteCredential_def)
  note route = cred_route.deleted[OF c st', where iv = demo_iv]
  have d: "c_node demo_cred = ''n1''" "c_user demo_cred = ''u1''" by (simp_all add: demo_cred_def)
  have b: "\<exists>cu. BuildConfig ''n1'' v full now d = Inr cu" if "db_down d = {}" "GetNodeByID ''n1'' d = Inr demo_node" for v full now and d :: bdb
    using that demo_fleet_simps(3) serving_status_text[of demo_node]
    by (auto simp: BuildConfig_def ListActiveCredentialsByNode_def GetUsersByIDs_def Let_def)
  have e: "db_nodes (cm_db st') = [demo_node]" "db_down (cm_db st') = {}"
    using cred_route_effect[OF route demo_fleet_simps(1)] demo_fleet_simps by simp_all
  then have "GetNodeByID ''n1'' (cm_db st') = Inr demo_node" using demo_fleet_simps(2,5,6) by (simp add: GetNodeByID_def)
  then obtain cu cu' where cu: "BuildConfig ''n1'' 1 True 5 (cm_db demo_fleet) = Inr cu" "BuildConfig ''n1'' 2 True 5 (cm_db st') = Inr cu'"
    using b[OF demo_fleet_simps(6,2)] b[OF e(2)] by blast
  from credential_routes_take_effect[OF route[unfolded d] demo_fleet_simps(1-3) cu] show ?thesis
    using st' cu demo_fleet_simps(7) by (auto simp: d)
qed

text \<open>
  No status that the API can set serves. Whichever of the accepted statuses an update of a node carries,
  active included, the node is pushed at once, its configuration is the empty one, and it is not among the
  nodes on which provisioned users get credentials, until its agent reports again.
\<close>

theorem api_status_serves_nobody:
  assumes node: "GetNodeByID nid (cm_db st) = Inr old" and req: "iv_change iv req"
      "hn_status req \<in> {''active'', ''maintenance'', ''offline'', ''drain'', ''draining''}"
    and free: "\<forall>m\<in>set (db_nodes (cm_db st)). n_id m \<noteq> nid \<longrightarrow> n_name m \<noteq> hn_name req \<and> n_name m \<noteq> n_name old"
    and up: "''UpdateNode'' \<notin> db_down (cm_db st)"
    and step: "HandleUpdateNode iv ctx (Some nid) (Some req) st = (r, st')"
  shows "is_ok r \<and> cm_pushed st' = cm_pushed st @ [nid] \<and>
    BuildConfig nid v full now (cm_db st') = Inr \<lparr>cu_version = v, cu_full = full, cu_users = [], cu_iface = Some ''wg0''\<rparr> \<and>
    (\<forall>ns. ListActiveNodes (cm_db st') = Inr ns \<longrightarrow> nid \<notin> n_id ` set ns)"
proof -
  let ?n = "(changed_node req old)\<lparr>n_id := nid\<rparr>"
  let ?row = "\<lambda>m. ?n\<lparr>n_heartbeat := n_heartbeat m, n_version := n_version m\<rparr>"
  let ?d = "update_nodes (\<lambda>m. n_id m = nid) ?row (cm_db st)"
  have f: "List.find (\<lambda>m. n_id m = nid) (db_nodes (cm_db st)) = Some old" and down: "''GetNodeByID'' \<notin> db_down (cm_db st)"
    using node by (auto simp: GetNodeByID_def split: if_splits option.splits)
  have s: "n_status ?n = Some (hn_status req)" "hn_status req \<noteq> []" using req(2) by (auto simp: changed_node_def if_given_def)
  have "\<not> (\<exists>m\<in>set (db_nodes (cm_db st)). n_id m \<noteq> nid \<and> n_name m = n_name ?n)"
    using free by (auto simp: changed_node_def)
  then have "UpdateNode ?n (cm_db st) = Inr (?row old, ?d)" using up f by (simp add: UpdateNode_def Let_def)
  then have r: "r = Inr (?row old)"
    and st': "st' = push_node nid (inv_audit ctx ''update'' ''node'' nid (st\<lparr>cm_db := ?d\<rparr>))"
    using step node req(1) s(2) by (simp_all add: HandleUpdateNode_def reaches_agent_def)
  have nodes: "db_nodes (cm_db st') = List.map (\<lambda>m. if n_id m = nid then ?row m else m) (db_nodes (cm_db st))"
    and down': "db_down (cm_db st') = db_down (cm_db st)" by (simp_all add: st' db_nodes_update)
  have all: "n_status m = Some (hn_status req)" if m: "m \<in> set (db_nodes (cm_db st'))" "n_id m = nid" for m
  proof -
    obtain x where "m = (if n_id x = nid then ?row x else x)" using m(1) unfolding nodes set_map by blast
    then show ?thesis using m(2) s(1) by (cases "n_id x = nid") simp_all
  qed
  have "List.find (\<lambda>m. n_id m = nid) (List.map (\<lambda>m. if n_id m = nid then ?row m else m) ns) = map_option ?row (List.find (\<lambda>m. n_id m = nid) ns)" for ns
    by (induction ns) auto
  then have "GetNodeByID nid (cm_db st') = Inr (?row old)"
    using f down down' by (simp add: GetNodeByID_def nodes)
  then have "BuildConfig nid v full now (cm_db st') = Inr \<lparr>cu_version = v, cu_full = full, cu_users = [], cu_iface = Some ''wg0''\<rparr>"
    using s req(2) by (auto simp: BuildConfig_def)
  moreover have "nid \<notin> n_id ` set ns" if "ListActiveNodes (cm_db st') = Inr ns" for ns
    using that all req(2) by (auto simp: ListActiveNodes_def split: if_splits)
  ultimately show ?thesis by (simp add: r st')
qed

definition demo_activate :: change_node where
  "demo_activate = \<lparr>hn_name = [], hn_status = ''active'', hn_capacity = 0, hn_protocols = [], hn_tags = None, hn_sni = [],
     hn_pbk = [], hn_sid = []\<rparr>"

lemma api_status_serves_nobody_witness:
  "serving_status demo_node \<and> (\<exists>st'. snd (HandleUpdateNode demo_iv None (Some ''n1'') (Some demo_activate) demo_fleet) = st' \<and>
     BuildConfig ''n1'' 2 True 5 (cm_db st') = Inr \<lparr>cu_version = 2, cu_full = True, cu_users = [], cu_iface = Some ''wg0''\<rparr>)"
proof -
  have "\<forall>m\<in>set (db_nodes (cm_db demo_fleet)). n_id m \<noteq> ''n1'' \<longrightarrow> n_name m \<noteq> hn_name demo_activate \<and> n_name m \<noteq> n_name demo_node"
    by (simp add: demo_fleet_simps) (simp add: demo_node_def)
  from api_status_serves_nobody[OF demo_fleet_simps(2) _ _ this _ prod.collapse[symmetric], of demo_iv None 2 True 5]
  show ?thesis using demo_fleet_simps(3) by (simp add: demo_fleet_simps demo_iv_def demo_activate_def)
qed

end
