(* ===== verification/Router.thy ===== *)
theory Router
  imports Users_Console
begin

text \<open>
  The routes of the API (the /api/v1 tree of NewRouter in src/internal/controlplane/api/router.go) behind the
  authentication middleware (api/middleware/auth.go): a table of methods, patterns and guards, its lookup, and
  the verdict on a request. A request's path is the list of its segments after /api/v1; the router prefers a
  static segment to a parameter, which the order of the table expresses where two patterns of one method
  overlap. Only the name of the handler that a request reaches matters here.
\<close>

section \<open>Guards\<close>

datatype guard = MustAuth | MustRole "string list" | MustScope string

fun refusal :: "guard \<Rightarrow> auth_ctx option \<Rightarrow> http_error option" where
  "refusal MustAuth ctx = RequireAuth ctx"
| "refusal (MustRole roles) ctx = RequireRole roles ctx"
| "refusal (MustScope s) ctx = RequireScope s ctx"

text \<open>The guards of a route run in order; the first refusal answers.\<close>

primrec run_guards :: "guard list \<Rightarrow> auth_ctx option \<Rightarrow> http_error option" where
  "run_guards [] ctx = None"
| "run_guards (g # gs) ctx = (case refusal g ctx of Some e \<Rightarrow> Some e | None \<Rightarrow> run_guards gs ctx)"

section \<open>The table\<close>

datatype segment = Lit string | Param

record route =
  rt_method :: string
  rt_path :: "segment list"
  rt_guards :: "guard list"
  rt_handler :: string

fun seg_matches :: "segment \<Rightarrow> string \<Rightarrow> bool" where
  "seg_matches (Lit s) p \<longleftrightarrow> p = s"
| "seg_matches Param p \<longleftrightarrow> p \<noteq> []"

definition path_matches :: "segment list \<Rightarrow> string list \<Rightarrow> bool" where
  "path_matches pat ps \<longleftrightarrow> list_all2 seg_matches pat ps"

text \<open>A group of routes under one prefix with common guards; With adds a guard of the route's own.\<close>

definition under :: "string \<Rightarrow> guard list \<Rightarrow> (string \<times> segment list \<times> guard list \<times> string) list \<Rightarrow> route list" where
  "under prefix gs rs = List.map (\<lambda>(m, pat, own, h).
     \<lparr>rt_method = m, rt_path = Lit prefix # pat, rt_guards = gs @ own, rt_handler = h\<rparr>) rs"

definition auth_routes :: "route list" where
  "auth_routes = under ''auth'' []
     [(''POST'', [Lit ''login''], [], ''Auth.Login''), (''POST'', [Lit ''refresh''], [], ''Auth.Refresh''),
      (''POST'', [Lit ''logout''], [], ''Auth.Logout''), (''POST'', [Lit ''change-password''], [], ''Auth.ChangePassword''),
      (''POST'', [Lit ''totp'', Lit ''setup''], [MustAuth], ''Auth.SetupTOTP''),
      (''POST'', [Lit ''totp'', Lit ''verify''], [MustAuth], ''Auth.VerifyTOTP'')]"

definition node_routes :: "route list" where
  "node_routes = under ''nodes'' [MustAuth]
     [(''GET'', [], [MustScope ''node:read''], ''Node.List''), (''POST'', [], [MustScope ''node:write''], ''Node.Create''),
      (''GET'', [Param], [MustScope ''node:read''], ''Node.Get''), (''PATCH'', [Param], [MustScope ''node:write''], ''Node.Update''),
      (''DELETE'', [Param], [MustScope ''node:write''], ''Node.Delete''),
      (''GET'', [Param, Lit ''stats''], [MustScope ''node:read''], ''Node.GetStats'')]"

definition user_routes :: "route list" where
  "user_routes = under ''users'' [MustAuth]
     [(''GET'', [], [MustScope ''user:read''], ''User.List''), (''POST'', [], [MustScope ''user:write''], ''User.Create''),
      (''POST'', [Lit ''trial''], [MustScope ''user:write''], ''User.CreateTrial''),
      (''POST'', [Lit ''upsert-lead''], [MustScope ''user:write''], ''User.UpsertTelegramLead''),
      (''POST'', [Lit ''link-email''], [MustScope ''user:write''], ''User.LinkTelegramEmail''),
      (''POST'', [Lit ''restore-account''], [MustScope ''user:write''], ''User.RestoreTelegramAccount''),
      (''POST'', [Lit ''request-email-otp''], [MustScope ''user:read''], ''User.RequestEmailOTP''),
      (''POST'', [Lit ''verify-email-otp''], [MustScope ''user:read''], ''User.VerifyEmailOTP''),
      (''GET'', [Lit ''by-telegram'', Param], [MustScope ''user:read''], ''User.GetByTelegramID''),
      (''GET'', [Lit ''by-telegram'', Param, Lit ''referrals''], [MustScope ''user:read''], ''User.GetReferralsByTelegramID''),
      (''GET'', [Param], [MustScope ''user:read''], ''User.Get''), (''PATCH'', [Param], [MustScope ''user:write''], ''User.Update''),
      (''DELETE'', [Param], [MustScope ''user:write''], ''User.Delete''),
      (''POST'', [Param, Lit ''reset-traffic''], [MustScope ''user:write''], ''User.ResetTraffic''),
      (''GET'', [Param, Lit ''subscription''], [MustScope ''user:read''], ''User.GetSubscription''),
      (''POST'', [Param, Lit ''subscription'', Lit ''rotate''], [MustScope ''user:write''], ''User.RotateSubscription''),
      (''POST'', [Param, Lit ''rotate-keys''], [MustScope ''user:write''], ''User.RotateKeys''),
      (''POST'', [Param, Lit ''rotate''], [MustScope ''user:write''], ''User.RotateKeys'')]"

definition plan_routes :: "route list" where
  "plan_routes = under ''plans'' [MustAuth]
     [(''GET'', [], [MustScope ''billing:read''], ''Plan.List''), (''GET'', [Lit ''trial''], [MustScope ''billing:read''], ''Plan.GetTrial''),
      (''POST'', [], [MustScope ''billing:write''], ''Plan.Create''), (''GET'', [Param], [MustScope ''billing:read''], ''Plan.Get''),
      (''PATCH'', [Param], [MustScope ''billing:write''], ''Plan.Update''),
      (''DELETE'', [Param], [MustScope ''billing:write''], ''Plan.Delete'')]"

definition billing_routes :: "route list" where
  "billing_routes = under ''billing'' []
     [(''POST'', [Lit ''webhooks'', Param], [], ''Billing.ProcessWebhook''),
      (''POST'', [Lit ''invoices''], [MustAuth, MustScope ''billing:write''], ''Billing.CreateInvoice''),
      (''POST'', [Lit ''stars'', Lit ''confirm''], [MustAuth, MustScope ''billing:write''], ''Billing.ConfirmStarsPayment''),
      (''POST'', [Lit ''promos'', Lit ''validate''], [MustAuth, MustScope ''billing:read''], ''Billing.ValidatePromo''),
      (''GET'', [Lit ''gateways''], [MustAuth, MustScope ''billing:read''], ''Billing.ListGateways''),
      (''PUT'', [Lit ''gateways''], [MustAuth, MustScope ''billing:write''], ''Billing.UpsertGateway''),
      (''GET'', [Lit ''settings''], [MustAuth, MustScope ''billing:read''], ''Billing.GetSettings''),
      (''PUT'', [Lit ''settings''], [MustAuth, MustScope ''billing:write''], ''Billing.UpdateSettings''),
      (''GET'', [Lit ''bot-replies''], [MustAuth, MustScope ''billing:read''], ''Billing.GetBotReplies''),
      (''GET'', [Lit ''broadcasts''], [MustAuth, MustScope ''billing:read''], ''Billing.ListBroadcasts''),
      (''POST'', [Lit ''broadcasts''], [MustAuth, MustScope ''billing:write''], ''Billing.CreateBroadcast''),
      (''GET'', [Lit ''broadcasts'', Param], [MustAuth, MustScope ''billing:read''], ''Billing.GetBroadcast'')]"

definition credential_routes :: "route list" where
  "credential_routes = under ''credentials'' [MustAuth]
     [(''GET'', [], [MustScope ''user:read''], ''Credential.List''), (''POST'', [], [MustScope ''user:write''], ''Credential.Create''),
      (''GET'', [Param], [MustScope ''user:read''], ''Credential.Get''), (''DELETE'', [Param], [MustScope ''user:write''], ''Credential.Delete''),
      (''POST'', [Param, Lit ''rotate''], [MustScope ''user:write''], ''Credential.Rotate'')]"

definition analytics_routes :: "route list" where
  "analytics_routes = under ''analytics'' [MustAuth]
     [(''GET'', [Lit ''overview''], [MustScope ''user:read''], ''Analytics.Overview''),
      (''GET'', [Lit ''nodes''], [MustScope ''user:read''], ''Analytics.GetByNode''),
      (''GET'', [Lit ''users'', Param], [MustScope ''user:read''], ''Analytics.GetByUser'')]"

definition system_routes :: "route list" where
  "system_routes = under ''system'' [MustAuth] [(''GET'', [Lit ''telemetry''], [], ''System.GetTelemetry'')]"

definition admin_routes :: "route list" where
  "admin_routes =
     under ''admins'' [MustAuth, MustRole [''superadmin''], MustScope ''admin'']
       [(''GET'', [], [], ''Admin.ListAdmins''), (''POST'', [], [], ''Admin.CreateAdmin'')] @
     under ''api-keys'' [MustAuth, MustScope ''admin'']
       [(''GET'', [], [], ''Admin.ListAPIKeys''), (''POST'', [], [], ''Admin.CreateAPIKey''), (''DELETE'', [Param], [], ''Admin.DeleteAPIKey'')]"

definition ai_routes :: "route list" where
  "ai_routes = under ''ai'' [MustAuth, MustScope ''ai'']
     [(''POST'', [Lit ''chat''], [], ''AI.Chat''), (''POST'', [Lit ''actions'', Lit ''execute''], [], ''AI.ExecuteAction''),
      (''POST'', [Lit ''actions'', Param, Lit ''execute''], [], ''AI.ExecuteAction''), (''GET'', [Lit ''settings''], [], ''AI.GetSettings''),
      (''POST'', [Lit ''settings''], [], ''AI.UpdateSettings''), (''POST'', [Lit ''test''], [], ''AI.TestConnection'')]"

definition api_routes :: "route list" where
  "api_routes = auth_routes @ node_routes @ user_routes @ plan_routes @ billing_routes @ credential_routes @
     analytics_routes @ system_routes @ admin_routes @ ai_routes"

section \<open>Requests\<close>

definition find_route :: "string \<Rightarrow> string list \<Rightarrow> route option" where
  "find_route method ps = List.find (\<lambda>r. rt_method r = method \<and> path_matches (rt_path r) ps) api_routes"

datatype verdict = Refused http_error | Reached string | NoRoute

definition routed :: "string \<Rightarrow> string list \<Rightarrow> auth_ctx option \<Rightarrow> verdict" where
  "routed method ps ctx =
     (case find_route method ps of None \<Rightarrow> NoRoute
      | Some r \<Rightarrow> (case run_guards (rt_guards r) ctx of Some e \<Rightarrow> Refused e | None \<Rightarrow> Reached (rt_handler r)))"

definition serve_api ::
    "env \<Rightarrow> blacklist option \<Rightarrow> string \<Rightarrow> time \<Rightarrow> auth_request \<Rightarrow> string \<Rightarrow> string list \<Rightarrow> 'a adb_scheme \<Rightarrow> verdict" where
  "serve_api ev bl internal now req method ps d =
     (case Authenticate ev bl internal now req d of Inl e \<Rightarrow> Refused e | Inr ctx \<Rightarrow> routed method ps ctx)"

section \<open>What a caller reaches\<close>

lemmas route_tables = auth_routes_def node_routes_def user_routes_def plan_routes_def billing_routes_def
  credential_routes_def analytics_routes_def system_routes_def admin_routes_def ai_routes_def

lemma run_guards_iff: "run_guards gs ctx = None \<longleftrightarrow> list_all (\<lambda>g. refusal g ctx = None) gs"
  by (induction gs) (auto split: option.splits)

lemma routed_Reached:
  assumes "routed method ps ctx = Reached h"
  obtains r where "r \<in> set api_routes" "rt_method r = method" "rt_handler r = h" "list_all (\<lambda>g. refusal g ctx = None) (rt_guards r)"
  using assms by (auto simp: routed_def find_route_def run_guards_iff split: option.splits dest: find_Some_in)

text \<open>A scope guard lets a key through exactly when it is one of its plain scopes.\<close>

definition plain_scope :: "string \<Rightarrow> bool" where
  "plain_scope s \<longleftrightarrow> s \<in> {''user:read'', ''user:write'', ''node:read'', ''node:write'', ''billing:read'', ''billing:write'', ''ai''}"

definition scoped_key :: "auth_ctx \<Rightarrow> bool" where
  "scoped_key ac \<longleftrightarrow> ac_type ac = ''apikey'' \<and> ac_role ac = ''api_client'' \<and> ac_scopes ac \<noteq> [] \<and> list_all plain_scope (ac_scopes ac)"

definition guard_of_key :: "string list \<Rightarrow> guard \<Rightarrow> bool" where
  "guard_of_key scopes g = (case g of MustAuth \<Rightarrow> True | MustScope s \<Rightarrow> s \<in> set scopes | MustRole _ \<Rightarrow> False)"

definition opens :: "string list \<Rightarrow> string set" where
  "opens scopes = set (List.map rt_handler (List.filter (\<lambda>r. list_all (guard_of_key scopes) (rt_guards r)) api_routes))"

lemma plain_matches:
  assumes "plain_scope s" "trim_space r = r"
  shows "ScopeMatches s r \<longleftrightarrow> s = r"
  using assms by (auto simp: ScopeMatches_def plain_scope_def Let_def trim_space_def is_space_def)

text \<open>The guards of the table name trimmed scopes and the role superadmin only.\<close>

definition tabled :: "guard \<Rightarrow> bool" where
  "tabled g = (case g of MustAuth \<Rightarrow> True | MustScope s \<Rightarrow> trim_space s = s | MustRole rs \<Rightarrow> rs = [''superadmin''])"

lemma tabled_guards: "list_all (\<lambda>r. list_all tabled (rt_guards r)) api_routes"
  by code_simp

lemma key_guard:
  assumes key: "scoped_key ac" and g: "tabled g"
  shows "refusal g (Some ac) = None \<longleftrightarrow> guard_of_key (ac_scopes ac) g"
proof -
  have ps: "list_all plain_scope (ac_scopes ac)" and ne: "ac_scopes ac \<noteq> []" and r: "ac_role ac = ''api_client''"
    using key by (simp_all add: scoped_key_def)
  have has: "HasScope ac s \<longleftrightarrow> s \<in> set (ac_scopes ac)" if s: "trim_space s = s" for s
  proof -
    have "list_ex (\<lambda>t. ScopeMatches t s) (ac_scopes ac) \<longleftrightarrow> (\<exists>t\<in>set (ac_scopes ac). t = s)"
      using ps plain_matches[OF _ s] unfolding list_all_iff list_ex_iff by blast
    then show ?thesis using ne by (simp add: HasScope_def)
  qed
  have "trim_space ''admin'' = ''admin''" "trim_space ''*'' = ''*''" by (simp_all add: trim_space_def is_space_def)
  moreover have "\<not> plain_scope ''admin''" "\<not> plain_scope ''*''" by (simp_all add: plain_scope_def)
  ultimately have no: "\<not> HasScope ac ''admin''" "\<not> HasScope ac ''*''" using ps by (auto simp: has list_all_iff)
  show ?thesis
  proof (cases g)
    case (MustScope s)
    then show ?thesis using g has[of s] by (simp add: RequireScope_def guard_of_key_def tabled_def)
  next
    case (MustRole rs)
    then show ?thesis using g no r by (simp add: RequireRole_def guard_of_key_def tabled_def)
  qed (simp add: RequireAuth_def guard_of_key_def)
qed

definition sample :: "segment \<Rightarrow> string" where
  "sample s = (case s of Lit t \<Rightarrow> t | Param \<Rightarrow> ''x'')"

text \<open>No route of the table is hidden by another one.\<close>

lemma routes_found: "list_all (\<lambda>r. find_route (rt_method r) (List.map sample (rt_path r)) = Some r) api_routes"
  by code_simp

lemma reach_of:
  "{h. \<exists>m ps. routed m ps ctx = Reached h} =
     set (List.map rt_handler (List.filter (\<lambda>r. list_all (\<lambda>g. refusal g ctx = None) (rt_guards r)) api_routes))"
proof (intro set_eqI iffI)
  fix h assume "h \<in> {h. \<exists>m ps. routed m ps ctx = Reached h}"
  then obtain m ps where "routed m ps ctx = Reached h" by blast
  then show "h \<in> set (List.map rt_handler (List.filter (\<lambda>r. list_all (\<lambda>g. refusal g ctx = None) (rt_guards r)) api_routes))"
    by (rule routed_Reached) auto
next
  fix h assume "h \<in> set (List.map rt_handler (List.filter (\<lambda>r. list_all (\<lambda>g. refusal g ctx = None) (rt_guards r)) api_routes))"
  then obtain r where r: "r \<in> set api_routes" "h = rt_handler r" "list_all (\<lambda>g. refusal g ctx = None) (rt_guards r)" by auto
  have "find_route (rt_method r) (List.map sample (rt_path r)) = Some r" using routes_found r(1) by (simp add: list_all_iff)
  moreover have "run_guards (rt_guards r) ctx = None" using r(3) by (simp add: run_guards_iff)
  ultimately have "routed (rt_method r) (List.map sample (rt_path r)) ctx = Reached h" by (simp add: routed_def r(2))
  then show "h \<in> {h. \<exists>m ps. routed m ps ctx = Reached h}" by blast
qed

definition public_handlers :: "string set" where
  "public_handlers = {''Auth.Login'', ''Auth.Refresh'', ''Auth.Logout'', ''Auth.ChangePassword'', ''Billing.ProcessWebhook''}"

lemma stranger_guard: "refusal g None = None \<longleftrightarrow> False"
  by (cases g) (simp_all add: RequireAuth_def RequireRole_def RequireScope_def)

lemma unguarded: "set (List.map rt_handler (List.filter (\<lambda>r. rt_guards r = []) api_routes)) = public_handlers"
  unfolding public_handlers_def by code_simp

lemma ai_opens: "opens [''ai''] = public_handlers \<union>
    {''AI.Chat'', ''AI.ExecuteAction'', ''AI.GetSettings'', ''AI.UpdateSettings'', ''AI.TestConnection''} \<union>
    {''System.GetTelemetry'', ''Auth.SetupTOTP'', ''Auth.VerifyTOTP''}"
  unfolding public_handlers_def opens_def by code_simp

section \<open>Properties\<close>



text \<open>
  The permissions of an administrator bind the console only. Whatever its role and permissions, the session
  of an administrator that the console refuses to delete subscribers reaches the API's deletion of the same
  subscriber, which succeeds: the session carries every scope, and the handler asks for no permission.
\<close>

theorem api_ignores_permissions:
  assumes denied: "\<not> p_delete (getCallerPermissions (Some w) (desk_db st))" and same: "cl_admin c = wc_admin w"
    and session: "bearer req \<noteq> []" "ValidateAccessToken ev bl now (bearer req) = Inr c" "\<not> cl_must c"
    and u: "GetUserByID uid (desk_db st) = Inr u" "uid \<noteq> []"
    and up: "db_down (desk_db st) \<inter> {''ListCredentialsByUser'', ''DeleteCredentialsByUser'', ''DeleteUser''} = {}"
  shows "WebDeleteUser (Some w) (Some uid) st =
      (Failed ''Forbidden: permission to delete subscribers is required. Use suspend instead.'', st) \<and>
    serve_api ev bl internal now req ''DELETE'' [''users'', uid] (desk_db st) = Reached ''User.Delete'' \<and>
    (case HandleDeleteUser (Some (jwt_ctx c)) (Some uid) (ds_crm st) of
       (e, cr) \<Rightarrow> e = None \<and> uid \<notin> u_id ` set (db_users (cm_db cr)))"
proof -
  have auth: "Authenticate ev bl internal now req (desk_db st) = Inr (Some (jwt_ctx c))"
    using session by (simp add: Authenticate_def)
  have found: "find_route ''DELETE'' [''users'', uid] =
      Some \<lparr>rt_method = ''DELETE'', rt_path = [Lit ''users'', Param], rt_guards = [MustAuth, MustScope ''user:write''], rt_handler = ''User.Delete''\<rparr>"
    using u(2) by (simp add: find_route_def api_routes_def route_tables under_def path_matches_def)
  have "HasScope (jwt_ctx c) s" for s by (simp add: HasScope_def jwt_ctx_def ScopeMatches_def Let_def trim_space_def is_space_def)
  then have "serve_api ev bl internal now req ''DELETE'' [''users'', uid] (desk_db st) = Reached ''User.Delete''"
    by (simp add: serve_api_def auth routed_def found RequireAuth_def RequireScope_def)
  moreover have "WebDeleteUser (Some w) (Some uid) st =
      (Failed ''Forbidden: permission to delete subscribers is required. Use suspend instead.'', st)"
    using denied by (simp add: WebDeleteUser_def)
  moreover have "case HandleDeleteUser (Some (jwt_ctx c)) (Some uid) (ds_crm st) of
      (e, cr) \<Rightarrow> e = None \<and> uid \<notin> u_id ` set (db_users (cm_db cr))"
  proof -
    obtain st1 where r: "revoke uid (ds_crm st) = (None, st1)" "db_down (cm_db st1) = db_down (desk_db st)"
      using up by (simp add: revoke_def RevokeUser_def ListCredentialsByUser_def DeleteCredentialsByUser_def)
    obtain d where d: "delete_user uid (cm_db st1) = Inr d" using up r(2) by (simp add: delete_user_def DeleteUser_def)
    have "db_users d = List.map (\<lambda>u. if u_referrer u = Some uid then u\<lparr>u_referrer := None\<rparr> else u)
        (List.filter (\<lambda>u. u_id u \<noteq> uid) (db_users (cm_db st1)))"
      using d by (auto simp: delete_user_def DeleteUser_def split: if_splits)
    then have "uid \<notin> u_id ` set (db_users d)" by (auto simp: image_iff split: if_splits)
    then show ?thesis using u(1) r(1) d by (simp add: HandleDeleteUser_def audited_def)
  qed
  ultimately show ?thesis by blast
qed

definition demo_session :: claims where
  "demo_session = \<lparr>cl_admin = ''a2'', cl_email = ''b'', cl_role = ''admin'', cl_typ = ''access'', cl_must = False, cl_id = ''i'',
     cl_subject = ''a2'', cl_expires = 900, cl_issued = Some 0\<rparr>"

definition demo_request :: auth_request where
  "demo_request = \<lparr>aq_path = ''/api/v1/users/u1'', aq_authorization = ''Bearer t'', aq_cookie = None, aq_api_key = []\<rparr>"

lemma api_ignores_permissions_witness:
  "serve_api (demo_auth_env\<lparr>ev_parse := \<lambda>_ _. Inr demo_session\<rparr>) None [] 5 demo_request ''DELETE'' [''users'', ''u1''] (desk_db demo_desk) =
      Reached ''User.Delete'' \<and>
   ''u1'' \<notin> u_id ` set (db_users (cm_db (snd (HandleDeleteUser (Some (jwt_ctx demo_session)) (Some ''u1'') (ds_crm demo_desk)))))"
proof -
  let ?w = "\<lparr>wc_admin = ''a2'', wc_name = ''b'', wc_role = ''admin'', wc_must = False\<rparr>"
  have d: "\<not> p_delete (getCallerPermissions (Some ?w) (desk_db demo_desk))"
    by (simp add: getCallerPermissions_def GetAdminByID_def DefaultAdminPermissions_def demo_desk_def demo_crm_def demo_bdb_def demo_admin_def)
  have s: "bearer demo_request \<noteq> []" by (simp add: bearer_def demo_request_def has_prefix_def)
  have v: "ValidateAccessToken (demo_auth_env\<lparr>ev_parse := \<lambda>_ _. Inr demo_session\<rparr>) None 5 (bearer demo_request) = Inr demo_session"
    by (simp add: ValidateAccessToken_def validate_typed_def ValidateToken_def demo_session_def)
  have u: "GetUserByID ''u1'' (desk_db demo_desk) = Inr demo_user"
    by (simp add: GetUserByID_def demo_desk_def demo_crm_def demo_bdb_def demo_user_def)
  have e: "cl_admin demo_session = wc_admin ?w" "\<not> cl_must demo_session" "''u1'' \<noteq> []" by (simp_all add: demo_session_def)
  have "db_down (desk_db demo_desk) \<inter> {''ListCredentialsByUser'', ''DeleteCredentialsByUser'', ''DeleteUser''} = {}"
    by (simp add: demo_desk_def demo_crm_def demo_bdb_def)
  note t = api_ignores_permissions[OF d e(1) s v e(2) u e(3) this, of "[]"]
  then show ?thesis by (simp only: case_prod_beta simp_thms)
qed

end
