(* ===== verification/Copilot_Safety.thy ===== *)
theory Copilot_Safety
  imports Admin_Console
begin

text \<open>
  The confirmations of the operator assistant (src/internal/controlplane/ai/tools/safety.go). A token is a
  signature, an expiry, the hash of the action's payload and the administrator it is bound to, joined by dots;
  it is valid for five minutes and burnt by its use. HMAC-SHA256 and SHA-256, each cut to sixteen bytes in
  hexadecimal, are arguments. A call reads the clock once.
\<close>

section \<open>The safety manager\<close>

datatype confirm_error = TokenInvalid | TokenOutdated | TokenReplayed

type_synonym used_tokens = "(string \<times> int) list"

definition token_data :: "string \<Rightarrow> string \<Rightarrow> string \<Rightarrow> int \<Rightarrow> string" where
  "token_data action adm hash exp = action @ CHR '':'' # adm @ CHR '':'' # hash @ CHR '':'' # int_str exp"

definition GenerateConfirmationTokenFor ::
    "(string \<Rightarrow> string \<Rightarrow> string) \<Rightarrow> string \<Rightarrow> string \<Rightarrow> string \<Rightarrow> string \<Rightarrow> time \<Rightarrow> string" where
  "GenerateConfirmationTokenFor mac key action hash adm now =
     (let exp = unix (now + 5 * minute)
      in mac key (token_data action adm hash exp) @ CHR ''.'' # int_str exp @ CHR ''.'' # hash @ CHR ''.'' # adm)"

text \<open>Signatures that expired are forgotten on the way; a failure before the signature is compared leaves the table.\<close>

definition unexpired :: "int \<Rightarrow> used_tokens \<Rightarrow> used_tokens" where
  "unexpired now used = List.filter (\<lambda>(_, exp). \<not> exp < now) used"

definition ValidateAndConsume ::
    "(string \<Rightarrow> string \<Rightarrow> string) \<Rightarrow> string \<Rightarrow> time \<Rightarrow> string \<Rightarrow> string \<Rightarrow> string \<Rightarrow> string \<Rightarrow> used_tokens \<Rightarrow>
     confirm_error option \<times> used_tokens" where
  "ValidateAndConsume mac key now tok action hash adm used =
     (case split_on (CHR ''.'') tok of
        [sig, e, h, bound] \<Rightarrow>
          (case ParseInt e of None \<Rightarrow> (Some TokenInvalid, used)
           | Some exp \<Rightarrow>
               if h \<noteq> hash then (Some TokenInvalid, used)
               else if adm \<noteq> [] \<and> bound \<noteq> adm then (Some TokenInvalid, used)
               else if unix now > exp then (Some TokenOutdated, used)
               else if sig \<noteq> mac key (token_data action bound h exp) then (Some TokenInvalid, used)
               else (let live = unexpired (unix now) used in
                     if sig \<in> fst ` set live then (Some TokenReplayed, live) else (None, (sig, exp) # live)))
      | _ \<Rightarrow> (Some TokenInvalid, used))"

section \<open>What a confirmation shows\<close>

text \<open>The signature and the expiry that a token carries.\<close>

definition stamp :: "string \<Rightarrow> (string \<times> int) option" where
  "stamp tok =
     (case split_on (CHR ''.'') tok of [sig, e, h, bound] \<Rightarrow> map_option (Pair sig) (ParseInt e) | _ \<Rightarrow> None)"

text \<open>A token is issued for an action, a payload and an administrator when it is signed for them and not outdated.\<close>

definition signed_for ::
    "(string \<Rightarrow> string \<Rightarrow> string) \<Rightarrow> string \<Rightarrow> time \<Rightarrow> string \<Rightarrow> string \<Rightarrow> string \<Rightarrow> string \<Rightarrow> bool" where
  "signed_for mac key now action hash adm tok \<longleftrightarrow>
     (\<exists>e exp bound. split_on (CHR ''.'') tok = [mac key (token_data action bound hash exp), e, hash, bound] \<and>
        ParseInt e = Some exp \<and> unix now \<le> exp \<and> (adm = [] \<or> bound = adm))"

lemma consume_split:
  assumes "split_on (CHR ''.'') tok = [sig, e, h, bound]" "ParseInt e = Some exp"
  shows "ValidateAndConsume mac key now tok action hash adm used =
     (if h \<noteq> hash \<or> adm \<noteq> [] \<and> bound \<noteq> adm then (Some TokenInvalid, used)
      else if unix now > exp then (Some TokenOutdated, used)
      else if sig \<noteq> mac key (token_data action bound h exp) then (Some TokenInvalid, used)
      else if sig \<in> fst ` set (unexpired (unix now) used) then (Some TokenReplayed, unexpired (unix now) used)
      else (None, (sig, exp) # unexpired (unix now) used))" "stamp tok = Some (sig, exp)"
  using assms by (simp_all add: ValidateAndConsume_def stamp_def Let_def)

lemma consume_malformed:
  assumes "stamp tok = None"
  shows "ValidateAndConsume mac key now tok action hash adm used = (Some TokenInvalid, used)"
  using assms unfolding stamp_def ValidateAndConsume_def by (simp split: list.splits option.splits)

lemma stamp_cases:
  obtains (malformed) "stamp tok = None"
  | (token) sig e h bound exp where "split_on (CHR ''.'') tok = [sig, e, h, bound]" "ParseInt e = Some exp"
proof (cases "stamp tok")
  case None
  then show ?thesis by (rule malformed)
next
  case (Some s)
  then show ?thesis using token unfolding stamp_def by (simp split: list.splits) blast
qed

lemma consume_iff:
  "ValidateAndConsume mac key now tok action hash adm used = (None, used') \<longleftrightarrow>
     signed_for mac key now action hash adm tok \<and>
     (\<exists>s. stamp tok = Some s \<and> fst s \<notin> fst ` set (unexpired (unix now) used) \<and> used' = s # unexpired (unix now) used)"
proof (cases tok rule: stamp_cases)
  case malformed
  then show ?thesis by (simp add: consume_malformed)
next
  case (token sig e h bound exp)
  then have "signed_for mac key now action hash adm tok \<longleftrightarrow>
      sig = mac key (token_data action bound hash exp) \<and> h = hash \<and> unix now \<le> exp \<and> (adm = [] \<or> bound = adm)"
    by (auto simp: signed_for_def)
  then show ?thesis unfolding consume_split[OF token] by auto
qed

lemma unexpired_set: "s \<in> set (unexpired now used) \<longleftrightarrow> s \<in> set used \<and> now \<le> snd s"
  by (cases s) (auto simp: unexpired_def)

lemma consume_used:
  assumes "ValidateAndConsume mac key now tok action hash adm used = (r, used')"
  shows "set (unexpired (unix now) used) \<subseteq> set used'"
    and "r = None \<Longrightarrow> \<exists>s. stamp tok = Some s \<and> s \<in> set used' \<and> unix now \<le> snd s \<and> s \<notin> set used"
proof -
  show "set (unexpired (unix now) used) \<subseteq> set used'"
    using assms
    by (cases tok rule: stamp_cases) (auto simp: consume_malformed consume_split(1) unexpired_set split: if_splits)
  assume "r = None"
  then obtain s where s: "signed_for mac key now action hash adm tok" "stamp tok = Some s"
      "fst s \<notin> fst ` set (unexpired (unix now) used)" "used' = s # unexpired (unix now) used"
    using assms consume_iff by blast
  then have le: "unix now \<le> snd s" by (auto simp: signed_for_def stamp_def)
  with s(3) have "s \<notin> set used" using unexpired_set[of s "unix now" used] by blast
  then show "\<exists>s. stamp tok = Some s \<and> s \<in> set used' \<and> unix now \<le> snd s \<and> s \<notin> set used" using s le by auto
qed

lemma unix_mono: "s \<le> t \<Longrightarrow> unix s \<le> unix t"
  by (simp add: unix_def zdiv_mono1 second_def)

section \<open>Round trip\<close>

lemma dot_not_in_int_str [simp]: "CHR ''.'' \<notin> set (int_str i)"
  by (simp add: int_str_def)

lemma split_token:
  assumes "CHR ''.'' \<notin> set s" "CHR ''.'' \<notin> set e" "CHR ''.'' \<notin> set h" "CHR ''.'' \<notin> set a"
  shows "split_on (CHR ''.'') (s @ CHR ''.'' # e @ CHR ''.'' # h @ CHR ''.'' # a) = [s, e, h, a]"
  using assms by (simp add: split_on_append split_on_plain)

lemma generated_token:
  assumes "\<And>k d. CHR ''.'' \<notin> set (mac k d)" "CHR ''.'' \<notin> set hash" "CHR ''.'' \<notin> set adm" "int8_fits (unix (t + 5 * minute))"
  shows "split_on (CHR ''.'') (GenerateConfirmationTokenFor mac key action hash adm t) =
      [mac key (token_data action adm hash (unix (t + 5 * minute))), int_str (unix (t + 5 * minute)), hash, adm]"
    and "stamp (GenerateConfirmationTokenFor mac key action hash adm t) =
      Some (mac key (token_data action adm hash (unix (t + 5 * minute))), unix (t + 5 * minute))"
    and "signed_for mac key now action hash' adm' (GenerateConfirmationTokenFor mac key action hash adm t) \<longleftrightarrow>
      hash' = hash \<and> (adm' = [] \<or> adm' = adm) \<and> unix now \<le> unix (t + 5 * minute)"
proof -
  show split: "split_on (CHR ''.'') (GenerateConfirmationTokenFor mac key action hash adm t) =
      [mac key (token_data action adm hash (unix (t + 5 * minute))), int_str (unix (t + 5 * minute)), hash, adm]"
    unfolding GenerateConfirmationTokenFor_def Let_def by (rule split_token) (use assms in simp_all)
  note parse = ParseInt_int_str[OF assms(4)]
  show "stamp (GenerateConfirmationTokenFor mac key action hash adm t) =
      Some (mac key (token_data action adm hash (unix (t + 5 * minute))), unix (t + 5 * minute))"
    by (simp add: stamp_def split parse)
  show "signed_for mac key now action hash' adm' (GenerateConfirmationTokenFor mac key action hash adm t) \<longleftrightarrow>
      hash' = hash \<and> (adm' = [] \<or> adm' = adm) \<and> unix now \<le> unix (t + 5 * minute)"
    unfolding signed_for_def split using parse by auto
qed

text \<open>
  A generated token confirms its action for its payload and its administrator exactly until five minutes
  after its issue and unless its signature was used; another payload or another administrator it never confirms.
\<close>

theorem confirmation_round_trip:
  assumes "\<And>k d. CHR ''.'' \<notin> set (mac k d)" "CHR ''.'' \<notin> set hash" "CHR ''.'' \<notin> set adm" "int8_fits (unix (t + 5 * minute))"
  shows "fst (ValidateAndConsume mac key now (GenerateConfirmationTokenFor mac key action hash adm t) action hash' adm' used) = None \<longleftrightarrow>
    hash' = hash \<and> (adm' = [] \<or> adm' = adm) \<and> unix now \<le> unix (t + 5 * minute) \<and>
    mac key (token_data action adm hash (unix (t + 5 * minute))) \<notin> fst ` set (unexpired (unix now) used)"
proof -
  let ?tok = "GenerateConfirmationTokenFor mac key action hash adm t"
  have "fst (ValidateAndConsume mac key now ?tok action hash' adm' used) = None \<longleftrightarrow>
      (\<exists>used'. ValidateAndConsume mac key now ?tok action hash' adm' used = (None, used'))" by (metis fst_conv prod.collapse)
  then show ?thesis unfolding consume_iff generated_token[OF assms] by auto
qed

end
