(* ===== verification/Copilot.thy ===== *)
theory Copilot
  imports Copilot_Safety Broadcast Inventory Sessions
begin

text \<open>
  The operator assistant (src/internal/controlplane/ai and api/handler/ai.go): the registry of its tools with
  the permissions they ask for, the tools that change something, each in two phases (a proposal with a token,
  then the confirmed action), the calls of the language model in a conversation, the confirmation by the
  operator, and the settings. The tools that only read are one reply without contents. The language model, the
  agent that answers a command, the delivery of a broadcast, uuid.Parse and the effect of a round trip through
  float64 on a JSON number are arguments; the texts of a proposal are not modelled.
\<close>

section \<open>Arguments of a call\<close>

datatype member = MStr string | MNum int | MBool bool | MNull | MOther

type_synonym members = "(string \<times> member) list"

text \<open>The arguments are text that json.Unmarshal reads: not an object, null, or an object.\<close>

datatype raw = NotAnObject | NullJson | Object members

text \<open>A field takes the members whose names match without regard to case, in their order; null leaves it.\<close>

definition named :: "string \<Rightarrow> members \<Rightarrow> member list" where
  "named name ms = List.map snd (List.filter (\<lambda>(k, _). to_lower k = name) ms)"

fun read_text :: "string option \<Rightarrow> member \<Rightarrow> string option" where
  "read_text (Some _) (MStr s) = Some s"
| "read_text acc MNull = acc"
| "read_text _ _ = None"

fun read_int :: "int \<Rightarrow> int \<Rightarrow> int option \<Rightarrow> member \<Rightarrow> int option" where
  "read_int lo hi (Some _) (MNum i) = (if lo \<le> i \<and> i \<le> hi then Some i else None)"
| "read_int lo hi acc MNull = acc"
| "read_int lo hi _ _ = None"

fun read_flag :: "bool option option \<Rightarrow> member \<Rightarrow> bool option option" where
  "read_flag (Some _) (MBool b) = Some (Some b)"
| "read_flag (Some _) MNull = Some None"
| "read_flag _ _ = None"

definition text_field :: "string \<Rightarrow> members \<Rightarrow> string option" where
  "text_field name ms = foldl read_text (Some []) (named name ms)"

definition int_field :: "int \<Rightarrow> int \<Rightarrow> string \<Rightarrow> members \<Rightarrow> int option" where
  "int_field lo hi name ms = foldl (read_int lo hi) (Some 0) (named name ms)"

definition flag_field :: "string \<Rightarrow> members \<Rightarrow> bool option option" where
  "flag_field name ms = foldl read_flag (Some None) (named name ms)"

definition members_of :: "raw \<Rightarrow> members option" where
  "members_of r = (case r of NotAnObject \<Rightarrow> None | NullJson \<Rightarrow> Some [] | Object ms \<Rightarrow> Some ms)"

section \<open>State\<close>

record restart = command +
  rs_service :: string

record ai_settings =
  as_url :: string
  as_key :: string
  as_model :: string
  as_enabled :: bool

record copilot =
  ai_crm :: crm
  ai_campaigns :: "campaign list"
  ai_delivered :: "(int \<times> string \<times> (string \<times> string) list) list"
  ai_used :: used_tokens
  ai_commands :: "(uuid \<times> restart) list"
  ai_settings :: ai_settings

abbreviation ai_db :: "copilot \<Rightarrow> bdb" where
  "ai_db st \<equiv> cm_db (ai_crm st)"

definition with_db :: "bdb \<Rightarrow> copilot \<Rightarrow> copilot" where
  "with_db d st = st\<lparr>ai_crm := (ai_crm st)\<lparr>cm_db := d\<rparr>\<rparr>"

text \<open>The services and libraries: no agent service or broadcast service is None.\<close>

record toolkit =
  tk_mac :: "string \<Rightarrow> string \<Rightarrow> string"
  tk_sha :: "string \<Rightarrow> string"
  tk_key :: string
  tk_uuid :: "string \<Rightarrow> uuid option"
  tk_float :: "int \<Rightarrow> member"
  tk_agent :: "(uuid \<Rightarrow> restart \<Rightarrow> command_result option) option"
  tk_sender :: "sender option option"
  tk_due :: "nat option"

record card =
  cd_action :: string
  cd_token :: string
  cd_seconds :: int
  cd_affected :: int
  cd_args :: raw

datatype tool_error =
    UnknownTool | NotPermitted | BadArguments | BadTarget | TargetMissing db_error | TargetsUnlisted db_error
  | Unconfirmed confirm_error | Refusal db_error | NoService | AgentFailed | Panicked

datatype tool_answer = Report string | Proposal card | Applied uuid | Restarted command_result

section \<open>Audit\<close>

definition admin_of :: "auth_ctx option \<Rightarrow> string" where
  "admin_of ctx = (case ctx of None \<Rightarrow> [] | Some ac \<Rightarrow> ac_user ac)"

definition auditMutation :: "auth_ctx option \<Rightarrow> string \<Rightarrow> string \<Rightarrow> uuid \<Rightarrow> diff \<Rightarrow> bdb \<Rightarrow> bdb" where
  "auditMutation ctx action typ rid df d =
     (case CreateAuditLog \<lparr>au_admin = map_option ac_user ctx, au_key = None, au_action = action, au_type = typ,
             au_resource = (if rid = nil_uuid then None else Some rid), au_diff = df\<rparr> d of
        Inl _ \<Rightarrow> d | Inr d' \<Rightarrow> d')"

section \<open>Tools that change something\<close>

text \<open>
  What a tool has worked out before it looks at dry_run: the payload that the token is bound to, the number of
  credentials or recipients shown, and the action.
\<close>

record prepared =
  pn_payload :: string
  pn_affected :: int
  pn_apply :: "copilot \<Rightarrow> (tool_error + tool_answer) \<times> copilot"

definition counted :: "db_error + 'a list \<Rightarrow> int" where
  "counted r = (case r of Inl _ \<Rightarrow> 0 | Inr xs \<Rightarrow> int (length xs))"

definition mutate ::
    "auth_ctx option \<Rightarrow> string \<Rightarrow> string \<Rightarrow> uuid \<Rightarrow> diff \<Rightarrow> (bdb \<Rightarrow> db_error + bdb) \<Rightarrow> copilot \<Rightarrow>
     (tool_error + tool_answer) \<times> copilot" where
  "mutate ctx action typ rid df stmt st =
     (case stmt (ai_db st) of Inl e \<Rightarrow> (Inl (Refusal e), st)
      | Inr d \<Rightarrow> (Inr (Applied rid), with_db (auditMutation ctx action typ rid df d) st))"

definition user_target :: "toolkit \<Rightarrow> string \<Rightarrow> copilot \<Rightarrow> tool_error + user" where
  "user_target tk target st =
     (case tk_uuid tk target of None \<Rightarrow> Inl BadTarget
      | Some uid \<Rightarrow> (case GetUserByID uid (ai_db st) of Inl e \<Rightarrow> Inl (TargetMissing e) | Inr u \<Rightarrow> Inr u))"

definition node_target :: "toolkit \<Rightarrow> string \<Rightarrow> copilot \<Rightarrow> tool_error + node" where
  "node_target tk target st =
     (case tk_uuid tk target of None \<Rightarrow> Inl BadTarget
      | Some nid \<Rightarrow> (case GetNodeByID nid (ai_db st) of Inl e \<Rightarrow> Inl (TargetMissing e) | Inr n \<Rightarrow> Inr n))"

definition user_ban :: "toolkit \<Rightarrow> auth_ctx option \<Rightarrow> members \<Rightarrow> copilot \<Rightarrow> tool_error + prepared" where
  "user_ban tk ctx ms st =
     (case (text_field ''user_id'' ms, text_field ''reason'' ms) of
        (Some target, Some reason) \<Rightarrow> (case user_target tk target st of Inl e \<Rightarrow> Inl e
          | Inr u \<Rightarrow> Inr \<lparr>pn_payload = ''user_ban:'' @ u_id u @ '':'' @ reason,
              pn_affected = counted (ListCredentialsByUser (u_id u) (ai_db st)),
              pn_apply = mutate ctx ''UserBannedByCopilot'' ''user'' (u_id u) (JsonDiff [(''reason'', reason)])
                (SetUserBanStatus (u_id u) True (nonempty reason))\<rparr>)
      | _ \<Rightarrow> Inl BadArguments)"

definition user_unban :: "toolkit \<Rightarrow> auth_ctx option \<Rightarrow> members \<Rightarrow> copilot \<Rightarrow> tool_error + prepared" where
  "user_unban tk ctx ms st =
     (case text_field ''user_id'' ms of None \<Rightarrow> Inl BadArguments
      | Some target \<Rightarrow> (case user_target tk target st of Inl e \<Rightarrow> Inl e
          | Inr u \<Rightarrow> Inr \<lparr>pn_payload = ''user_unban:'' @ u_id u, pn_affected = 0,
              pn_apply = mutate ctx ''UserUnbannedByCopilot'' ''user'' (u_id u) NoDiff
                (SetUserBanStatus (u_id u) False None)\<rparr>))"

text \<open>The statement adds to the limit that is there: a NULL one stays NULL.\<close>

definition ExtendUserSubscription :: "uuid \<Rightarrow> time \<Rightarrow> int \<Rightarrow> bdb \<Rightarrow> db_error + bdb" where
  "ExtendUserSubscription uid expires extra d =
     (if ''ExtendUserSubscription'' \<in> db_down d then Inl StatementFailed
      else case List.find (\<lambda>u. u_id u = uid) (db_users d) of None \<Rightarrow> Inl NoRows
      | Some u \<Rightarrow>
          if \<not> (case u_limit u of None \<Rightarrow> True | Some l \<Rightarrow> int8_fits (l + extra)) then Inl NumericRange
          else Inr (update_users (\<lambda>u. u_id u = uid)
            (\<lambda>u. u\<lparr>u_expires := Some expires, u_limit := map_option (\<lambda>l. l + extra) (u_limit u)\<rparr>) d))"

definition extended_until :: "int \<Rightarrow> time \<Rightarrow> user \<Rightarrow> time" where
  "extended_until days now u =
     (case u_expires u of None \<Rightarrow> now | Some e \<Rightarrow> if now < e then e else now) + wrap64 (days * 24 * hour)"

definition subscription_extend :: "toolkit \<Rightarrow> auth_ctx option \<Rightarrow> time \<Rightarrow> members \<Rightarrow> copilot \<Rightarrow> tool_error + prepared" where
  "subscription_extend tk ctx now ms st =
     (case (text_field ''user_id'' ms, int_field int64_min int64_max ''days'' ms,
            int_field int64_min int64_max ''extra_traffic_gb'' ms, text_field ''reason'' ms) of
        (Some target, Some days, Some gb, Some reason) \<Rightarrow> (case user_target tk target st of Inl e \<Rightarrow> Inl e
          | Inr u \<Rightarrow> Inr \<lparr>pn_payload = ''subscription_extend:'' @ u_id u @ '':'' @ int_str days @ '':'' @ int_str gb, pn_affected = 0,
              pn_apply = mutate ctx ''SubscriptionExtendedByCopilot'' ''user'' (u_id u)
                (JsonDiff [(''days'', int_str days), (''extra_traffic_gb'', int_str gb), (''reason'', reason)])
                (ExtendUserSubscription (u_id u) (extended_until days now u) (wrap64 (gb * gib)))\<rparr>)
      | _ \<Rightarrow> Inl BadArguments)"

definition user_reset_traffic :: "toolkit \<Rightarrow> auth_ctx option \<Rightarrow> members \<Rightarrow> copilot \<Rightarrow> tool_error + prepared" where
  "user_reset_traffic tk ctx ms st =
     (case text_field ''user_id'' ms of None \<Rightarrow> Inl BadArguments
      | Some target \<Rightarrow> (case user_target tk target st of Inl e \<Rightarrow> Inl e
          | Inr u \<Rightarrow> Inr \<lparr>pn_payload = ''user_reset_traffic:'' @ u_id u, pn_affected = 0,
              pn_apply = mutate ctx ''UserTrafficResetByCopilot'' ''user'' (u_id u) NoDiff (ResetUserTraffic (u_id u))\<rparr>))"

definition ai_node :: "uuid \<Rightarrow> string \<Rightarrow> string \<Rightarrow> string \<Rightarrow> string \<Rightarrow> int \<Rightarrow> node" where
  "ai_node nid name endpoint grpc region gbps = \<lparr>n_id = nid, n_name = name, n_endpoint = endpoint, n_grpc = grpc,
     n_region = nonempty region, n_capacity = Some gbps, n_status = Some ''active'',
     n_tags = Some (Some [''copilot-provisioned'']), n_public_key = [], n_sni = None, n_pbk = None, n_sid = None,
     n_heartbeat = None, n_version = 1\<rparr>"

definition node_add :: "auth_ctx option \<Rightarrow> uuid \<Rightarrow> members \<Rightarrow> tool_error + prepared" where
  "node_add ctx fresh ms =
     (case (text_field ''name'' ms, text_field ''endpoint'' ms, text_field ''grpc_endpoint'' ms, text_field ''region'' ms,
            int_field int32_min int32_max ''capacity_gbps'' ms) of
        (Some name, Some endpoint, Some grpc, Some region, Some asked) \<Rightarrow>
          (let gbps = (if asked \<le> 0 then 1 else asked) in
           Inr \<lparr>pn_payload = ''node_add:'' @ name @ '':'' @ endpoint @ '':'' @ grpc @ '':'' @ region @ '':'' @ int_str gbps,
             pn_affected = 0,
             pn_apply = mutate ctx ''NodeAddedByCopilot'' ''node'' fresh
               (JsonDiff [(''name'', name), (''endpoint'', endpoint), (''region'', region), (''capacity_gbps'', int_str gbps)])
               (\<lambda>d. case CreateNode (ai_node fresh name endpoint grpc region gbps) d of Inl e \<Rightarrow> Inl e | Inr (n, d') \<Rightarrow> Inr d')\<rparr>)
      | _ \<Rightarrow> Inl BadArguments)"

text \<open>The update names no column of Reality, so it writes NULL to them.\<close>

definition node_drain :: "toolkit \<Rightarrow> auth_ctx option \<Rightarrow> time \<Rightarrow> members \<Rightarrow> copilot \<Rightarrow> tool_error + prepared" where
  "node_drain tk ctx now ms st =
     (case (text_field ''node_id'' ms, text_field ''reason'' ms) of
        (Some target, Some reason) \<Rightarrow> (case node_target tk target st of Inl e \<Rightarrow> Inl e
          | Inr n \<Rightarrow> Inr \<lparr>pn_payload = ''node_drain:'' @ n_id n @ '':'' @ reason,
              pn_affected = counted (ListActiveCredentialsByNode (n_id n) now (ai_db st)),
              pn_apply = mutate ctx ''NodeDrainedByCopilot'' ''node'' (n_id n) (JsonDiff [(''reason'', reason)])
                (\<lambda>d. case UpdateNode (n\<lparr>n_status := Some ''draining'', n_sni := None, n_pbk := None, n_sid := None\<rparr>) d of
                   Inl e \<Rightarrow> Inl e | Inr (_, d') \<Rightarrow> Inr d')\<rparr>)
      | _ \<Rightarrow> Inl BadArguments)"

definition restart_service ::
    "toolkit \<Rightarrow> auth_ctx option \<Rightarrow> uuid \<Rightarrow> uuid \<Rightarrow> string \<Rightarrow> copilot \<Rightarrow> (tool_error + tool_answer) \<times> copilot" where
  "restart_service tk ctx fresh nid service st =
     (case tk_agent tk of None \<Rightarrow> (Inl NoService, st)
      | Some send \<Rightarrow>
          (let cmd = \<lparr>cmd_id = fresh, cmd_kind = ''restart_protocol'', cmd_timeout = 15, rs_service = service\<rparr>;
               st1 = st\<lparr>ai_commands := ai_commands st @ [(nid, cmd)]\<rparr>
           in case send nid cmd of None \<Rightarrow> (Inl AgentFailed, st1)
              | Some res \<Rightarrow> (Inr (Restarted res), with_db (auditMutation ctx ''ServiceRestartedByCopilot'' ''node'' nid
                  (JsonDiff [(''service'', service)]) (ai_db st1)) st1)))"

definition service_restart :: "toolkit \<Rightarrow> auth_ctx option \<Rightarrow> uuid \<Rightarrow> members \<Rightarrow> copilot \<Rightarrow> tool_error + prepared" where
  "service_restart tk ctx fresh ms st =
     (case (text_field ''node_id'' ms, text_field ''service_name'' ms) of
        (Some target, Some service) \<Rightarrow> (case node_target tk target st of Inl e \<Rightarrow> Inl e
          | Inr n \<Rightarrow> Inr \<lparr>pn_payload = ''service_restart:'' @ n_id n @ '':'' @ service, pn_affected = 0,
              pn_apply = restart_service tk ctx fresh (n_id n) service\<rparr>)
      | _ \<Rightarrow> Inl BadArguments)"

definition announce ::
    "toolkit \<Rightarrow> auth_ctx option \<Rightarrow> time \<Rightarrow> uuid \<Rightarrow> string \<Rightarrow> string \<Rightarrow> string \<Rightarrow> copilot \<Rightarrow> (tool_error + tool_answer) \<times> copilot" where
  "announce tk ctx now fresh seg ttl msg st =
     (case tk_sender tk of None \<Rightarrow> (Inl NoService, st)
      | Some sender \<Rightarrow>
         (case CreateAndDispatch sender (tk_due tk) now fresh ttl seg msg []
                 \<lparr>ob_db = ai_db st, ob_campaigns = ai_campaigns st, ob_sent = ai_delivered st\<rparr> of
            (r, box) \<Rightarrow>
              (let st1 = (with_db (ob_db box) st)\<lparr>ai_campaigns := ob_campaigns box, ai_delivered := ob_sent box\<rparr>
               in case r of Inl e \<Rightarrow> (Inl (Refusal e), st1)
                  | Inr c \<Rightarrow> (Inr (Applied (ca_id c)), with_db (auditMutation ctx ''BroadcastSentByCopilot'' ''broadcast'' (ca_id c)
                      (JsonDiff [(''segment'', seg), (''title'', ttl)]) (ai_db st1)) st1))))"

definition broadcast_payload :: "string \<Rightarrow> string \<Rightarrow> string \<Rightarrow> string" where
  "broadcast_payload seg ttl msg = ''broadcast:'' @ seg @ '':'' @ ttl @ '':'' @ msg"

definition broadcast_announcement ::
    "toolkit \<Rightarrow> auth_ctx option \<Rightarrow> time \<Rightarrow> uuid \<Rightarrow> members \<Rightarrow> copilot \<Rightarrow> tool_error + prepared" where
  "broadcast_announcement tk ctx now fresh ms st =
     (case (text_field ''target_segment'' ms, text_field ''title'' ms, text_field ''message'' ms) of
        (Some seg, Some ttl, Some msg) \<Rightarrow> (case ListTelegramIDsForBroadcast seg now (ai_db st) of
            Inl e \<Rightarrow> Inl (TargetsUnlisted e)
          | Inr chats \<Rightarrow> Inr \<lparr>pn_payload = broadcast_payload seg ttl msg, pn_affected = int (length chats),
              pn_apply = announce tk ctx now fresh seg ttl msg\<rparr>)
      | _ \<Rightarrow> Inl BadArguments)"

section \<open>The registry\<close>

definition read_only_tools :: "string list" where
  "read_only_tools = [''node_list_health'', ''doctor_run_diagnostics'', ''user_find_bandwidth_hogs'', ''cluster_telemetry'',
     ''billing_revenue_breakdown'', ''gateway_health_check'', ''bot_status_check'']"

text \<open>The permission a tool asks for: none of a tool that only reads.\<close>

definition required_perm :: "string \<Rightarrow> string option" where
  "required_perm name =
     (if name \<in> set read_only_tools then Some []
      else if name \<in> {''user_ban'', ''user_unban'', ''subscription_extend'', ''user_reset_traffic''} then Some ''CanManageUsers''
      else if name \<in> {''node_add'', ''node_drain'', ''service_restart''} then Some ''CanManageNodes''
      else if name = ''broadcast_announcement'' then Some ''CanBroadcast'' else None)"

definition Permitted :: "string \<Rightarrow> string list \<Rightarrow> bool" where
  "Permitted name granted =
     (case required_perm name of None \<Rightarrow> False | Some p \<Rightarrow> p = [] \<or> p \<in> set granted)"

definition prepare :: "toolkit \<Rightarrow> auth_ctx option \<Rightarrow> time \<Rightarrow> uuid \<Rightarrow> string \<Rightarrow> members \<Rightarrow> copilot \<Rightarrow> tool_error + prepared" where
  "prepare tk ctx now fresh name ms st =
     (if name = ''user_ban'' then user_ban tk ctx ms st
      else if name = ''user_unban'' then user_unban tk ctx ms st
      else if name = ''subscription_extend'' then subscription_extend tk ctx now ms st
      else if name = ''user_reset_traffic'' then user_reset_traffic tk ctx ms st
      else if name = ''node_add'' then node_add ctx fresh ms
      else if name = ''node_drain'' then node_drain tk ctx now ms st
      else if name = ''service_restart'' then service_restart tk ctx fresh ms st
      else if name = ''broadcast_announcement'' then broadcast_announcement tk ctx now fresh ms st
      else Inl UnknownTool)"

text \<open>The common second half of these tools; dry_run is true unless it is given.\<close>

definition two_phase ::
    "toolkit \<Rightarrow> auth_ctx option \<Rightarrow> time \<Rightarrow> string \<Rightarrow> raw \<Rightarrow> bool option \<Rightarrow> string \<Rightarrow> prepared \<Rightarrow> copilot \<Rightarrow>
     (tool_error + tool_answer) \<times> copilot" where
  "two_phase tk ctx now name args dry tok pn st =
     (let hash = tk_sha tk (pn_payload pn); adm = admin_of ctx in
      if bool_or True dry
      then (Inr (Proposal \<lparr>cd_action = name,
              cd_token = GenerateConfirmationTokenFor (tk_mac tk) (tk_key tk) name hash adm now,
              cd_seconds = 300, cd_affected = pn_affected pn, cd_args = args\<rparr>), st)
      else case ValidateAndConsume (tk_mac tk) (tk_key tk) now tok name hash adm (ai_used st) of
          (Some e, used) \<Rightarrow> (Inl (Unconfirmed e), st\<lparr>ai_used := used\<rparr>)
        | (None, used) \<Rightarrow> pn_apply pn (st\<lparr>ai_used := used\<rparr>))"

definition ExecuteChecked ::
    "toolkit \<Rightarrow> auth_ctx option \<Rightarrow> time \<Rightarrow> uuid \<Rightarrow> string \<Rightarrow> raw \<Rightarrow> string list \<Rightarrow> copilot \<Rightarrow>
     (tool_error + tool_answer) \<times> copilot" where
  "ExecuteChecked tk ctx now fresh name args granted st =
     (if required_perm name = None then (Inl UnknownTool, st)
      else if \<not> Permitted name granted then (Inl NotPermitted, st)
      else if name \<in> set read_only_tools then (Inr (Report name), st)
      else case members_of args of None \<Rightarrow> (Inl BadArguments, st)
      | Some ms \<Rightarrow>
         (case (flag_field ''dry_run'' ms, text_field ''confirmation_token'' ms) of
            (Some dry, Some tok) \<Rightarrow> (case prepare tk ctx now fresh name ms st of
                Inl e \<Rightarrow> (Inl e, st) | Inr pn \<Rightarrow> two_phase tk ctx now name args dry tok pn st)
          | _ \<Rightarrow> (Inl BadArguments, st)))"

section \<open>Callers\<close>

definition callerPerms :: "auth_ctx option \<Rightarrow> bdb \<Rightarrow> string list" where
  "callerPerms ctx d =
     (case ctx of None \<Rightarrow> []
      | Some ac \<Rightarrow>
          if ac_role ac = ''owner''
          then [''CanManageNodes'', ''CanManageUsers'', ''CanBroadcast'', ''CanDeleteUsers'', ''CanViewAudit'', ''CanEditBotReplies'']
          else if ac_type ac = ''apikey''
          then (if HasScope ac ''ai'' \<or> HasScope ac ''*'' then [''CanManageNodes'', ''CanManageUsers'', ''CanBroadcast''] else [])
          else case GetAdminByID (ac_user ac) d of Inl _ \<Rightarrow> []
          | Inr a \<Rightarrow>
             (let p = ParsedPermissions a in
              List.map snd (List.filter fst
                [(p_nodes p, ''CanManageNodes''), (p_users p, ''CanManageUsers''), (p_broadcast p, ''CanBroadcast''),
                 (p_delete p, ''CanDeleteUsers''), (p_audit p, ''CanViewAudit''), (p_replies p, ''CanEditBotReplies'')])))"

text \<open>The API authenticates no console session, so its branch of the check is out of reach.\<close>

definition canAccessCopilot :: "auth_ctx option \<Rightarrow> bdb \<Rightarrow> bool" where
  "canAccessCopilot ctx d =
     (case ctx of None \<Rightarrow> False
      | Some ac \<Rightarrow>
          if ac_role ac = ''owner'' then True
          else if ac_type ac = ''jwt''
          then (case GetAdminByID (ac_user ac) d of Inl _ \<Rightarrow> False | Inr a \<Rightarrow> p_copilot (ParsedPermissions a))
          else ac_type ac = ''apikey'' \<and> (HasScope ac ''ai'' \<or> HasScope ac ''*''))"

section \<open>The operator's confirmation\<close>

text \<open>
  The parameters pass through a map: of equal names the last value stays, numbers become float64, and the
  members are written back in the order of their names. A JSON null leaves the map nil, and writing to it panics.
\<close>

definition confirmed_args :: "toolkit \<Rightarrow> string \<Rightarrow> members \<Rightarrow> members" where
  "confirmed_args tk tok ms =
     (let m = (map_of (rev ms))(''dry_run'' \<mapsto> MBool False, ''confirmation_token'' \<mapsto> MStr tok);
          ks = sort (remdups (''dry_run'' # ''confirmation_token'' # List.map fst ms))
      in List.map (\<lambda>k. (k, case m k of Some (MNum i) \<Rightarrow> tk_float tk i | Some v \<Rightarrow> v | None \<Rightarrow> MNull)) ks)"

definition ExecuteConfirmationAction ::
    "toolkit \<Rightarrow> auth_ctx option \<Rightarrow> time \<Rightarrow> uuid \<Rightarrow> string \<Rightarrow> string \<Rightarrow> raw \<Rightarrow> copilot \<Rightarrow> (tool_error + tool_answer) \<times> copilot" where
  "ExecuteConfirmationAction tk ctx now fresh name tok params st =
     (if params = NullJson then (Inl Panicked, st)
      else ExecuteChecked tk ctx now fresh name (Object (confirmed_args tk tok (case params of Object ms \<Rightarrow> ms | _ \<Rightarrow> [])))
             (callerPerms ctx (ai_db st)) st)"

record action_request =
  ax_name :: string
  ax_params :: raw
  ax_token :: string

text \<open>The token is the path's, or else the body's. Whatever the tool refuses is a bad request.\<close>

definition HandleExecuteAction ::
    "toolkit \<Rightarrow> auth_ctx option \<Rightarrow> time \<Rightarrow> uuid \<Rightarrow> string \<Rightarrow> action_request option \<Rightarrow> copilot \<Rightarrow> (http_error + tool_answer) \<times> copilot" where
  "HandleExecuteAction tk ctx now fresh path_token body st =
     (if \<not> canAccessCopilot ctx (ai_db st) then (Inl Access.Forbidden, st)
      else case body of None \<Rightarrow> (Inl BadRequest, st)
      | Some req \<Rightarrow>
          (let tok = (if path_token = [] then ax_token req else path_token) in
           if tok = [] then (Inl BadRequest, st)
           else case ExecuteConfirmationAction tk ctx now fresh (ax_name req) tok (ax_params req) st of
               (Inl Panicked, st1) \<Rightarrow> (Inl InternalError, st1)
             | (Inl _, st1) \<Rightarrow> (Inl BadRequest, st1)
             | (Inr a, st1) \<Rightarrow> (Inr a, st1)))"

section \<open>The conversation\<close>

record call =
  tc_id :: string
  tc_name :: string
  tc_args :: raw

record facts =
  fa_online :: int
  fa_draining :: int
  fa_offline :: int
  fa_active :: int
  fa_users :: int

text \<open>What the model is told: the prompt with the facts, the screen, the messages of the request, and its calls with their results.\<close>

datatype chat = SystemPrompt facts | Screen string string | Given string string | Asked string "call list"
  | Told string string "tool_error + tool_answer"

datatype chat_event = Token string | ToolStart string raw | ToolResult string "tool_error + tool_answer" | Proposed card
  | ChatError string | Finished

type_synonym model = "chat list \<Rightarrow> string list \<Rightarrow> (string \<times> call list) option"

definition cluster_facts :: "time \<Rightarrow> bdb \<Rightarrow> facts" where
  "cluster_facts now d =
     (let ns = (case list_nodes [] [] 100 0 d of Inl _ \<Rightarrow> [] | Inr (ns, _) \<Rightarrow> ns);
          us = (case list_users [] None 500 0 d of Inl _ \<Rightarrow> [] | Inr (us, _) \<Rightarrow> us);
          with_status = (\<lambda>s. int (length (List.filter (\<lambda>n. text_or [] (n_status n) = s) ns)))
      in \<lparr>fa_online = with_status ''active'', fa_draining = with_status ''draining'',
          fa_offline = int (length ns) - with_status ''active'' - with_status ''draining'',
          fa_active = int (length (List.filter (\<lambda>u. CRMStatus u now \<in> {''active'', ''trial''}) us)),
          fa_users = int (length us)\<rparr>)"

definition GetSpecsFor :: "string list \<Rightarrow> string list" where
  "GetSpecsFor granted = List.filter (\<lambda>n. Permitted n granted)
     (read_only_tools @ [''user_ban'', ''user_unban'', ''subscription_extend'', ''user_reset_traffic'', ''node_add'', ''node_drain'',
        ''service_restart'', ''broadcast_announcement''])"

text \<open>The calls of one reply, in order; each reads the clock and draws identifiers of its own.\<close>

primrec run_calls ::
    "toolkit \<Rightarrow> auth_ctx option \<Rightarrow> string list \<Rightarrow> (nat \<Rightarrow> time \<times> uuid) \<Rightarrow> nat \<Rightarrow> call list \<Rightarrow> copilot \<Rightarrow>
     chat_event list \<times> chat list \<times> copilot" where
  "run_calls tk ctx granted draw k [] st = ([], [], st)"
| "run_calls tk ctx granted draw k (c # cs) st =
     (let (r, st1) = ExecuteChecked tk ctx (fst (draw k)) (snd (draw k)) (tc_name c) (tc_args c) granted st;
          (evs, told, st2) = run_calls tk ctx granted draw (Suc k) cs st1
      in (ToolStart (tc_name c) (tc_args c) # (case r of Inr (Proposal cd) \<Rightarrow> Proposed cd | _ \<Rightarrow> ToolResult (tc_name c) r) # evs,
          Told (tc_id c) (tc_name c) r # told, st2))"

primrec chat_loop ::
    "toolkit \<Rightarrow> model \<Rightarrow> auth_ctx option \<Rightarrow> string list \<Rightarrow> (nat \<Rightarrow> time \<times> uuid) \<Rightarrow> nat \<Rightarrow> nat \<Rightarrow> chat list \<Rightarrow> copilot \<Rightarrow>
     chat_event list \<times> copilot" where
  "chat_loop tk llm ctx granted draw 0 k msgs st = ([Finished], st)"
| "chat_loop tk llm ctx granted draw (Suc n) k msgs st =
     (case llm msgs (GetSpecsFor granted) of None \<Rightarrow> ([ChatError ''LLM request failed'', Finished], st)
      | Some (content, calls) \<Rightarrow>
          if calls = []
          then ([Token (if trim_space content = [] then ''Model completed request without generating output.'' else content), Finished], st)
          else (let (evs, told, st1) = run_calls tk ctx granted draw k calls st;
                    (evs', st2) = chat_loop tk llm ctx granted draw n (k + length calls) (msgs @ Asked content calls # told) st1
                in (evs @ evs', st2)))"

record chat_request =
  cr_messages :: "(string \<times> string) list"
  cr_route :: string
  cr_selected :: string

definition chat_opening :: "chat_request \<Rightarrow> time \<Rightarrow> bdb \<Rightarrow> chat list" where
  "chat_opening req now d =
     SystemPrompt (cluster_facts now d) #
       (if cr_route req \<noteq> [] \<or> cr_selected req \<noteq> [] then [Screen (cr_route req) (cr_selected req)] else []) @
       List.map (\<lambda>(role, content). Given role content) (cr_messages req)"

text \<open>At most six replies of the model are followed.\<close>

definition ProcessChat ::
    "toolkit \<Rightarrow> model \<Rightarrow> auth_ctx option \<Rightarrow> time \<Rightarrow> (nat \<Rightarrow> time \<times> uuid) \<Rightarrow> chat_request \<Rightarrow> copilot \<Rightarrow> chat_event list \<times> copilot" where
  "ProcessChat tk llm ctx now draw req st =
     (if \<not> as_enabled (ai_settings st) then ([ChatError ''AI Infra Copilot is disabled.'', Finished], st)
      else chat_loop tk llm ctx (callerPerms ctx (ai_db st)) draw 6 0 (chat_opening req now (ai_db st)) st)"

definition HandleChat ::
    "toolkit \<Rightarrow> model \<Rightarrow> auth_ctx option \<Rightarrow> time \<Rightarrow> (nat \<Rightarrow> time \<times> uuid) \<Rightarrow> chat_request option \<Rightarrow> copilot \<Rightarrow>
     (http_error + chat_event list) \<times> copilot" where
  "HandleChat tk llm ctx now draw body st =
     (if \<not> canAccessCopilot ctx (ai_db st) then (Inl Access.Forbidden, st)
      else case body of None \<Rightarrow> (Inl BadRequest, st)
      | Some req \<Rightarrow> (case ProcessChat tk llm ctx now draw req st of (evs, st1) \<Rightarrow> (Inr evs, st1)))"

section \<open>Settings\<close>

definition trim_slashes :: "string \<Rightarrow> string" where
  "trim_slashes s = rev (dropWhile (\<lambda>c. c = CHR ''/'') (rev s))"

definition trim_suffix :: "string \<Rightarrow> string \<Rightarrow> string" where
  "trim_suffix s suf = (if has_suffix s suf then take (length s - length suf) s else s)"

definition NormalizeBaseURL :: "string \<Rightarrow> string" where
  "NormalizeBaseURL s =
     trim_slashes (trim_suffix (trim_suffix (trim_slashes (trim_space s)) ''/chat/completions'') ''/completions'')"

definition default_url :: string where "default_url = ''https://api.openai.com/v1''"
definition default_model :: string where "default_model = ''gpt-4o''"

definition GetSettings :: "copilot \<Rightarrow> ai_settings" where
  "GetSettings st =
     (let s = ai_settings st; k = as_key s in
      s\<lparr>as_key := (if length k > 8 then take 4 k @ ''...'' @ drop (length k - 4) k else if k \<noteq> [] then ''***'' else [])\<rparr>)"

definition masked :: "string \<Rightarrow> bool" where
  "masked k \<longleftrightarrow> k = [] \<or> k = ''***'' \<or> length k > 8 \<and> take 3 (drop 4 k) = ''...''"

definition normal_settings :: "ai_settings \<Rightarrow> ai_settings \<Rightarrow> ai_settings" where
  "normal_settings old s =
     \<lparr>as_url = or_text default_url (NormalizeBaseURL (as_url s)),
      as_key = (if masked (as_key s) then as_key old else trim_space (as_key s)),
      as_model = or_text default_model (trim_space (as_model s)), as_enabled = as_enabled s\<rparr>"

definition UpdateSettings :: "ai_settings \<Rightarrow> copilot \<Rightarrow> copilot" where
  "UpdateSettings s st =
     (let n = normal_settings (ai_settings st) s in
      st\<lparr>ai_settings := n, ai_crm := UpsertBotReply ''ai_enabled'' (bool_str (as_enabled n))
        (UpsertBotReply ''ai_model'' (as_model n) (UpsertBotReply ''ai_api_key'' (as_key n)
          (UpsertBotReply ''ai_base_url'' (as_url n) (ai_crm st))))\<rparr>)"

definition HandleUpdateSettings :: "auth_ctx option \<Rightarrow> ai_settings option \<Rightarrow> copilot \<Rightarrow> (http_error + ai_settings) \<times> copilot" where
  "HandleUpdateSettings ctx body st =
     (if \<not> canAccessCopilot ctx (ai_db st) then (Inl Access.Forbidden, st)
      else case body of None \<Rightarrow> (Inl BadRequest, st)
      | Some s \<Rightarrow> (let st1 = UpdateSettings s st in (Inr (GetSettings st1), st1)))"

definition HandleGetSettings :: "auth_ctx option \<Rightarrow> copilot \<Rightarrow> http_error + ai_settings" where
  "HandleGetSettings ctx st = (if \<not> canAccessCopilot ctx (ai_db st) then Inl Access.Forbidden else Inr (GetSettings st))"

text \<open>The settings a start of the control plane loads; what is not stored has its default.\<close>

definition load_settings :: "crm \<Rightarrow> ai_settings" where
  "load_settings c =
     (let r = (\<lambda>k. text_or [] (GetBotReplies c k)) in
      \<lparr>as_url = (if r ''ai_base_url'' \<noteq> [] then NormalizeBaseURL (r ''ai_base_url'') else default_url),
       as_key = r ''ai_api_key'', as_model = (if r ''ai_model'' \<noteq> [] then trim_space (r ''ai_model'') else default_model),
       as_enabled = (r ''ai_enabled'' = ''true'')\<rparr>)"

section \<open>Confirmations over a history\<close>

text \<open>One call of a tool, from the conversation or by a confirmation, with the permissions of its caller.\<close>

record tool_step =
  tl_ctx :: "auth_ctx option"
  tl_now :: time
  tl_fresh :: uuid
  tl_name :: string
  tl_args :: raw

definition tool_step :: "toolkit \<Rightarrow> tool_step \<Rightarrow> copilot \<Rightarrow> copilot" where
  "tool_step tk c st =
     snd (ExecuteChecked tk (tl_ctx c) (tl_now c) (tl_fresh c) (tl_name c) (tl_args c) (callerPerms (tl_ctx c) (ai_db st)) st)"

primrec tool_history :: "toolkit \<Rightarrow> tool_step list \<Rightarrow> copilot \<Rightarrow> (tool_step \<times> copilot \<times> copilot) list" where
  "tool_history tk [] st = []"
| "tool_history tk (c # cs) st = (c, st, tool_step tk c st) # tool_history tk cs (tool_step tk c st)"

definition mutates :: "tool_step \<times> copilot \<times> copilot \<Rightarrow> bool" where
  "mutates x = (case x of (_, st, st') \<Rightarrow> st'\<lparr>ai_used := []\<rparr> \<noteq> st\<lparr>ai_used := []\<rparr>)"

text \<open>The token of a call, and that it is signed for this tool, this payload and this caller.\<close>

definition shown_token :: "tool_step \<Rightarrow> string" where
  "shown_token c = (case members_of (tl_args c) of None \<Rightarrow> [] | Some ms \<Rightarrow> text_or [] (text_field ''confirmation_token'' ms))"

definition confirmed :: "toolkit \<Rightarrow> tool_step \<Rightarrow> copilot \<Rightarrow> bool" where
  "confirmed tk c st =
     (case members_of (tl_args c) of None \<Rightarrow> False
      | Some ms \<Rightarrow> flag_field ''dry_run'' ms = Some (Some False) \<and>
         (case prepare tk (tl_ctx c) (tl_now c) (tl_fresh c) (tl_name c) ms st of Inl _ \<Rightarrow> False
          | Inr pn \<Rightarrow> signed_for (tk_mac tk) (tk_key tk) (tl_now c) (tl_name c) (tk_sha tk (pn_payload pn))
              (admin_of (tl_ctx c)) (shown_token c)))"

definition keeps_used :: "prepared \<Rightarrow> bool" where
  "keeps_used pn \<longleftrightarrow> (\<forall>st. ai_used (snd (pn_apply pn st)) = ai_used st)"

lemma mutate_used: "ai_used (snd (mutate ctx action typ rid df stmt st)) = ai_used st"
  by (simp add: mutate_def with_db_def split: sum.splits)

lemma restart_used: "ai_used (snd (restart_service tk ctx fresh nid service st)) = ai_used st"
  by (simp add: restart_service_def with_db_def Let_def split: option.splits)

lemma announce_used: "ai_used (snd (announce tk ctx now fresh seg ttl msg st)) = ai_used st"
  by (simp add: announce_def with_db_def Let_def split: option.splits prod.splits sum.splits)

lemmas prepared_used = mutate_used restart_used announce_used

lemma prepare_keeps_used:
  assumes "prepare tk ctx now fresh name ms st = Inr pn"
  shows "keeps_used pn"
proof -
  have "user_ban tk ctx ms st = Inr pn \<Longrightarrow> keeps_used pn" "user_unban tk ctx ms st = Inr pn \<Longrightarrow> keeps_used pn"
    "subscription_extend tk ctx now ms st = Inr pn \<Longrightarrow> keeps_used pn" "user_reset_traffic tk ctx ms st = Inr pn \<Longrightarrow> keeps_used pn"
    by (auto simp: user_ban_def user_unban_def subscription_extend_def user_reset_traffic_def keeps_used_def prepared_used
        split: option.splits sum.splits)
  moreover have "node_add ctx fresh ms = Inr pn \<Longrightarrow> keeps_used pn" "node_drain tk ctx now ms st = Inr pn \<Longrightarrow> keeps_used pn"
    "service_restart tk ctx fresh ms st = Inr pn \<Longrightarrow> keeps_used pn" "broadcast_announcement tk ctx now fresh ms st = Inr pn \<Longrightarrow> keeps_used pn"
    by (auto simp: node_add_def node_drain_def service_restart_def broadcast_announcement_def keeps_used_def prepared_used Let_def
        split: option.splits sum.splits)
  ultimately show ?thesis using assms by (simp add: prepare_def split: if_splits)
qed

text \<open>A call that is not a confirmed mutation changes at most the table of used tokens.\<close>

lemma execute_cases:
  obtains (idle) u where "snd (ExecuteChecked tk ctx now fresh name args granted st) = st\<lparr>ai_used := u\<rparr>"
      "set (unexpired (unix now) (ai_used st)) \<subseteq> set u"
  | (act) ms pn tok u where "members_of args = Some ms" "flag_field ''dry_run'' ms = Some (Some False)"
      "text_field ''confirmation_token'' ms = Some tok" "prepare tk ctx now fresh name ms st = Inr pn" "Permitted name granted"
      "required_perm name \<noteq> Some []"
      "ValidateAndConsume (tk_mac tk) (tk_key tk) now tok name (tk_sha tk (pn_payload pn)) (admin_of ctx) (ai_used st) = (None, u)"
      "snd (ExecuteChecked tk ctx now fresh name args granted st) = snd (pn_apply pn (st\<lparr>ai_used := u\<rparr>))"
proof -
  let ?r = "ExecuteChecked tk ctx now fresh name args granted st"
  have same: thesis if "snd ?r = st"
    using idle[of "ai_used st"] that by (simp add: unexpired_def)
  show thesis
  proof (cases "required_perm name = None \<or> \<not> Permitted name granted \<or> name \<in> set read_only_tools \<or> members_of args = None")
    case True
    then have "snd ?r = st" by (auto simp: ExecuteChecked_def)
    then show ?thesis by (rule same)
  next
    case False
    then obtain ms where ms: "members_of args = Some ms" by blast
    show ?thesis
    proof (cases "\<exists>dry tok pn. flag_field ''dry_run'' ms = Some dry \<and> text_field ''confirmation_token'' ms = Some tok \<and>
        prepare tk ctx now fresh name ms st = Inr pn")
      case no: False
      have "snd ?r = st" using False ms no
        by (auto simp: ExecuteChecked_def split: option.splits sum.splits)
      then show ?thesis by (rule same)
    next
      case yes: True
      then obtain dry tok pn where p: "flag_field ''dry_run'' ms = Some dry" "text_field ''confirmation_token'' ms = Some tok"
        "prepare tk ctx now fresh name ms st = Inr pn" by blast
      then have r: "?r = two_phase tk ctx now name args dry tok pn st" using False ms by (auto simp: ExecuteChecked_def)
      show ?thesis
      proof (cases "bool_or True dry")
        case True
        then show ?thesis using r by (intro same) (simp add: two_phase_def Let_def)
      next
        case wet: False
        then have dry: "dry = Some False" by (cases dry) auto
        obtain e u where v: "ValidateAndConsume (tk_mac tk) (tk_key tk) now tok name (tk_sha tk (pn_payload pn)) (admin_of ctx)
            (ai_used st) = (e, u)" by fastforce
        show ?thesis
        proof (cases e)
          case None
          have "required_perm name \<noteq> Some []" using False by (auto simp: required_perm_def)
          then show ?thesis using act ms p dry v None False r by (simp add: two_phase_def)
        next
          case (Some x)
          then have "snd ?r = st\<lparr>ai_used := u\<rparr>" using r dry v by (simp add: two_phase_def)
          then show ?thesis using idle consume_used(1)[OF v] by blast
        qed
      qed
    qed
  qed
qed

lemma step_confirmed:
  assumes "mutates (c, st, tool_step tk c st)"
  shows "Permitted (tl_name c) (callerPerms (tl_ctx c) (ai_db st)) \<and> required_perm (tl_name c) \<noteq> Some [] \<and> confirmed tk c st"
    and "\<exists>s. stamp (shown_token c) = Some s \<and> s \<in> set (ai_used (tool_step tk c st)) \<and> unix (tl_now c) \<le> snd s \<and> s \<notin> set (ai_used st)"
proof -
  let ?thesis1 = "Permitted (tl_name c) (callerPerms (tl_ctx c) (ai_db st)) \<and> required_perm (tl_name c) \<noteq> Some [] \<and> confirmed tk c st"
  let ?thesis2 = "\<exists>s. stamp (shown_token c) = Some s \<and> s \<in> set (ai_used (tool_step tk c st)) \<and> unix (tl_now c) \<le> snd s \<and> s \<notin> set (ai_used st)"
  have "?thesis1 \<and> ?thesis2"
  proof (cases rule: execute_cases[of tk "tl_ctx c" "tl_now c" "tl_fresh c" "tl_name c" "tl_args c" "callerPerms (tl_ctx c) (ai_db st)" st])
    case (idle u)
    then show ?thesis using assms by (simp add: mutates_def tool_step_def)
  next
    case (act ms pn tok u)
    have tok: "shown_token c = tok" using act(1,3) by (simp add: shown_token_def)
    have "confirmed tk c st"
      using act(1,2,4) act(7)[unfolded consume_iff] by (simp add: confirmed_def tok)
    moreover have "ai_used (tool_step tk c st) = u"
      using act(8) prepare_keeps_used[OF act(4)] by (simp add: tool_step_def keeps_used_def)
    ultimately show ?thesis using act(5,6) consume_used(2)[OF act(7) refl] by (simp add: tok)
  qed
  then show ?thesis1 ?thesis2 by blast+
qed

lemma step_keeps_used: "set (unexpired (unix (tl_now c)) (ai_used st)) \<subseteq> set (ai_used (tool_step tk c st))"
proof (cases rule: execute_cases[of tk "tl_ctx c" "tl_now c" "tl_fresh c" "tl_name c" "tl_args c" "callerPerms (tl_ctx c) (ai_db st)" st])
  case (idle u)
  then show ?thesis by (simp add: tool_step_def)
next
  case (act ms pn tok u)
  then show ?thesis
    using prepare_keeps_used[OF act(4)] consume_used(1)[OF act(7)] by (simp add: tool_step_def keeps_used_def)
qed

definition stamps :: "toolkit \<Rightarrow> tool_step list \<Rightarrow> copilot \<Rightarrow> (string \<times> int) option list" where
  "stamps tk cs st = List.map (\<lambda>(c, _). stamp (shown_token c)) (List.filter mutates (tool_history tk cs st))"

text \<open>A stamp that is in the table, or that is too old, confirms nothing afterwards.\<close>

lemma burnt_stays:
  assumes "sorted (List.map tl_now cs)" "\<forall>c\<in>set cs. t \<le> tl_now c" "s \<in> set (ai_used st) \<or> snd s < unix t"
  shows "Some s \<notin> set (stamps tk cs st)"
  using assms
proof (induction cs arbitrary: st t)
  case Nil
  then show ?case by (simp add: stamps_def)
next
  case (Cons c cs)
  let ?st = "tool_step tk c st"
  have t: "unix t \<le> unix (tl_now c)" using Cons.prems(2) by (simp add: unix_mono)
  have "s \<in> set (ai_used ?st) \<or> snd s < unix (tl_now c)"
    using Cons.prems(3) t step_keeps_used[of c st tk] by (cases s) (auto simp: unexpired_set subset_iff)
  then have rest: "Some s \<notin> set (stamps tk cs ?st)" using Cons.IH[of "tl_now c" ?st] Cons.prems(1) by auto
  have "stamp (shown_token c) \<noteq> Some s" if "mutates (c, st, ?st)"
    using step_confirmed(2)[OF that] Cons.prems(3) t by auto
  then show ?case using rest by (auto simp: stamps_def)
qed

text \<open>
  C19. Nothing without a confirmation. Over any history of tool calls, from conversations and confirmations of
  any callers, whatever a call changes it changes with the caller's permission and a confirmation token that is
  signed for exactly this tool, this payload and this caller and not outdated; and no token confirms twice.
\<close>

theorem copilot_mutations_confirmed:
  assumes "sorted (List.map tl_now cs)"
  shows "list_all (\<lambda>(c, before, _). Permitted (tl_name c) (callerPerms (tl_ctx c) (ai_db before)) \<and>
      required_perm (tl_name c) \<noteq> Some [] \<and> confirmed tk c before) (List.filter mutates (tool_history tk cs st)) \<and>
    distinct (stamps tk cs st) \<and> None \<notin> set (stamps tk cs st)"
  using assms
proof (induction cs arbitrary: st)
  case Nil
  then show ?case by (simp add: stamps_def)
next
  case (Cons c cs)
  let ?st = "tool_step tk c st"
  have IH: "list_all (\<lambda>(c, before, _). Permitted (tl_name c) (callerPerms (tl_ctx c) (ai_db before)) \<and>
      required_perm (tl_name c) \<noteq> Some [] \<and> confirmed tk c before) (List.filter mutates (tool_history tk cs ?st))"
    "distinct (stamps tk cs ?st)" "None \<notin> set (stamps tk cs ?st)" using Cons by auto
  show ?case
  proof (cases "mutates (c, st, ?st)")
    case False
    then show ?thesis using IH by (simp add: stamps_def)
  next
    case True
    obtain s where s: "stamp (shown_token c) = Some s" "s \<in> set (ai_used ?st)" using step_confirmed(2)[OF True] by blast
    have "Some s \<notin> set (stamps tk cs ?st)" by (rule burnt_stays[of cs "tl_now c"]) (use Cons.prems s in auto)
    then show ?thesis using IH True s step_confirmed(1)[OF True] by (auto simp: stamps_def)
  qed
qed

definition demo_toolkit :: toolkit where
  "demo_toolkit = \<lparr>tk_mac = \<lambda>k d. ''ab'', tk_sha = \<lambda>x. ''cd'', tk_key = ''k'', tk_uuid = Some, tk_float = MNum,
     tk_agent = None, tk_sender = None, tk_due = None\<rparr>"

definition demo_chief :: auth_ctx where
  "demo_chief = \<lparr>ac_user = ''a1'', ac_email = ''root'', ac_role = ''owner'', ac_scopes = [''*''], ac_type = ''jwt''\<rparr>"

definition demo_copilot :: copilot where
  "demo_copilot = \<lparr>ai_crm = demo_crm\<lparr>cm_db := demo_bdb\<lparr>db_users := [demo_user\<lparr>u_used := Some 5\<rparr>]\<rparr>\<rparr>, ai_campaigns = [], ai_delivered = [], ai_used = [],
     ai_commands = [], ai_settings = \<lparr>as_url = default_url, as_key = [], as_model = default_model, as_enabled = True\<rparr>\<rparr>"

definition demo_reset :: "time \<Rightarrow> tool_step" where
  "demo_reset now = \<lparr>tl_ctx = Some demo_chief, tl_now = now, tl_fresh = ''f1'', tl_name = ''user_reset_traffic'',
     tl_args = Object [(''user_id'', MStr (u_id demo_user)), (''dry_run'', MBool False), (''confirmation_token'', MStr ''ab.300.cd.a1'')]\<rparr>"

text \<open>The second use of the same token changes nothing.\<close>

lemma copilot_mutations_confirmed_witness:
  "list_all (\<lambda>(c, before, _). Permitted (tl_name c) (callerPerms (tl_ctx c) (ai_db before)) \<and>
      required_perm (tl_name c) \<noteq> Some [] \<and> confirmed demo_toolkit c before)
     (List.filter mutates (tool_history demo_toolkit [demo_reset 0, demo_reset second] demo_copilot)) \<and>
   stamps demo_toolkit [demo_reset 0, demo_reset second] demo_copilot = [Some (''ab'', 300)]"
proof -
  have "stamps demo_toolkit [demo_reset 0, demo_reset second] demo_copilot = [Some (''ab'', 300)]" by code_simp
  moreover have "sorted (List.map tl_now [demo_reset 0, demo_reset second])" by (simp add: demo_reset_def second_def)
  ultimately show ?thesis using copilot_mutations_confirmed[of "[demo_reset 0, demo_reset second]" demo_toolkit demo_copilot] by blast
qed

end
