(* ===== verification/Copilot_Laws.thy ===== *)
theory Copilot_Laws
  imports Copilot Agent_Service
begin

text \<open>
  Laws of the operator assistant: what the operator approved is what is executed, and where the protection of
  the two phases ends (the language model sees the tokens, payloads of different messages coincide, a drain
  erases columns, calls with keys leave no audit row).
\<close>

section \<open>Arguments through the confirmation\<close>

text \<open>Arguments written once each, in lower case, whose numbers survive the round trip.\<close>

definition neat :: "toolkit \<Rightarrow> members \<Rightarrow> bool" where
  "neat tk ms \<longleftrightarrow> distinct (List.map fst ms) \<and> list_all (\<lambda>k. to_lower k = k) (List.map fst ms) \<and>
     list_all (\<lambda>v. case v of MNum i \<Rightarrow> tk_float tk i = v | _ \<Rightarrow> True) (List.map snd ms)"

lemma map_of_rev_keys:
  assumes "distinct (List.map fst ms)"
  shows "map_of (rev ms) = map_of ms"
proof
  fix k
  have "distinct (List.map fst (rev ms))" using assms by (simp add: rev_map[symmetric])
  then have "map_of (rev ms) k = Some v \<longleftrightarrow> map_of ms k = Some v" for v using assms by simp
  then show "map_of (rev ms) k = map_of ms k" by (metis not_Some_eq)
qed

lemma named_distinct:
  assumes "distinct (List.map fst ms)" "\<forall>(k, v)\<in>set ms. to_lower k = k"
  shows "named name ms = (case map_of ms name of None \<Rightarrow> [] | Some v \<Rightarrow> [v])"
  using assms
proof (induction ms)
  case Nil
  then show ?case by (simp add: named_def)
next
  case (Cons m ms)
  obtain k v where m: "m = (k, v)" by fastforce
  have IH: "named name ms = (case map_of ms name of None \<Rightarrow> [] | Some v \<Rightarrow> [v])" using Cons by simp
  show ?case
  proof (cases "k = name")
    case True
    have "map_of ms name = None" using Cons.prems(1) m True by (simp add: map_of_eq_None_iff)
    then show ?thesis using IH Cons.prems(2) m True by (auto simp: named_def)
  next
    case False
    then show ?thesis using IH Cons.prems(2) m by (auto simp: named_def)
  qed
qed

lemma map_of_tagged: "map_of (List.map (\<lambda>k. (k, f k)) ks) name = (if name \<in> set ks then Some (f name) else None)"
  by (induction ks) auto

lemma neat_value:
  assumes "neat tk ms" "map_of ms name = Some v"
  shows "(case v of MNum i \<Rightarrow> tk_float tk i | _ \<Rightarrow> v) = v"
proof -
  have "v \<in> set (List.map snd ms)" using map_of_SomeD[OF assms(2)] by force
  then show ?thesis using assms(1) unfolding neat_def list_all_iff by (auto split: member.splits)
qed

lemma named_confirmed:
  assumes "neat tk ms"
  shows "named name (confirmed_args tk tok ms) =
     (if name = ''dry_run'' then [MBool False] else if name = ''confirmation_token'' then [MStr tok] else named name ms)"
proof -
  let ?m = "(map_of (rev ms))(''dry_run'' \<mapsto> MBool False, ''confirmation_token'' \<mapsto> MStr tok)"
  let ?f = "\<lambda>k. case ?m k of Some (MNum i) \<Rightarrow> tk_float tk i | Some v \<Rightarrow> v | None \<Rightarrow> MNull"
  let ?ks = "sort (remdups (''dry_run'' # ''confirmation_token'' # List.map fst ms))"
  have c: "confirmed_args tk tok ms = List.map (\<lambda>k. (k, ?f k)) ?ks" by (simp add: confirmed_args_def Let_def)
  have d: "distinct (List.map fst ms)" and low: "\<forall>(k, v)\<in>set ms. to_lower k = k"
    using assms by (auto simp: neat_def list_all_iff)
  have rev: "map_of (rev ms) = map_of ms" by (rule map_of_rev_keys[OF d])
  have fst_id: "List.map fst (List.map (\<lambda>k. (k, ?f k)) ?ks) = ?ks" by (simp add: comp_def)
  have lows: "\<forall>k\<in>set ?ks. to_lower k = k"
    using low by (auto simp: to_lower_def)
  have "named name (confirmed_args tk tok ms) = (case map_of (confirmed_args tk tok ms) name of None \<Rightarrow> [] | Some v \<Rightarrow> [v])"
    unfolding c by (rule named_distinct) (use fst_id lows in \<open>simp_all add: distinct_sort\<close>)
  also have "\<dots> = (if name = ''dry_run'' then [MBool False] else if name = ''confirmation_token'' then [MStr tok] else named name ms)"
  proof (cases "map_of ms name")
    case None
    then have "name \<notin> fst ` set ms" by (simp add: map_of_eq_None_iff)
    then show ?thesis using None named_distinct[OF d low, of name] unfolding c map_of_tagged by (simp add: rev)
  next
    case (Some v)
    then have "name \<in> fst ` set ms" by (metis map_of_SomeD fst_conv image_eqI)
    moreover have "(case Some v of Some (MNum i) \<Rightarrow> tk_float tk i | Some v \<Rightarrow> v | None \<Rightarrow> MNull) = v"
      using neat_value[OF assms Some] by (cases v) simp_all
    ultimately show ?thesis using Some named_distinct[OF d low, of name] unfolding c map_of_tagged by (simp add: rev)
  qed
  finally show ?thesis .
qed

lemma fields_confirmed:
  assumes "neat tk ms"
  shows "flag_field ''dry_run'' (confirmed_args tk tok ms) = Some (Some False)"
    "text_field ''confirmation_token'' (confirmed_args tk tok ms) = Some tok"
    "name \<notin> {''dry_run'', ''confirmation_token''} \<Longrightarrow> text_field name (confirmed_args tk tok ms) = text_field name ms"
    "name \<notin> {''dry_run'', ''confirmation_token''} \<Longrightarrow> int_field lo hi name (confirmed_args tk tok ms) = int_field lo hi name ms"
  using named_confirmed[OF assms] by (simp_all add: flag_field_def text_field_def int_field_def)

text \<open>So a tool prepares the same action from the confirmed arguments.\<close>

lemma prepare_confirmed:
  assumes "neat tk ms"
  shows "prepare tk ctx now fresh name (confirmed_args tk tok ms) st = prepare tk ctx now fresh name ms st"
proof -
  note f = fields_confirmed(3,4)[OF assms]
  show ?thesis
    unfolding prepare_def user_ban_def user_unban_def subscription_extend_def user_reset_traffic_def node_add_def
      node_drain_def service_restart_def broadcast_announcement_def
    by (simp add: f)
qed

lemma user_target_same:
  assumes "user_target tk t st = Inr u" "user_target tk t st' = Inr u'"
  shows "u_id u = u_id u'"
  using assms by (auto simp: user_target_def GetUserByID_def split: option.splits if_splits dest!: find_Some_in)

lemma node_target_same:
  assumes "node_target tk t st = Inr n" "node_target tk t st' = Inr n'"
  shows "n_id n = n_id n'"
  using assms by (auto simp: node_target_def GetNodeByID_def split: option.splits if_splits dest!: find_Some_in)

text \<open>The payload depends on the arguments only, not on the time or the state.\<close>

lemma payload_stable:
  assumes "prepare tk ctx t f name ms st = Inr pn" "prepare tk ctx' t' f' name ms st' = Inr pn'"
  shows "pn_payload pn = pn_payload pn'"
proof -
  note same = user_target_same node_target_same
  have "user_ban tk ctx ms st = Inr pn \<Longrightarrow> user_ban tk ctx' ms st' = Inr pn' \<Longrightarrow> ?thesis"
    by (auto simp: user_ban_def split: option.splits sum.splits dest: user_target_same)
  moreover have "user_unban tk ctx ms st = Inr pn \<Longrightarrow> user_unban tk ctx' ms st' = Inr pn' \<Longrightarrow> ?thesis"
    by (auto simp: user_unban_def split: option.splits sum.splits dest: user_target_same)
  moreover have "subscription_extend tk ctx t ms st = Inr pn \<Longrightarrow> subscription_extend tk ctx' t' ms st' = Inr pn' \<Longrightarrow> ?thesis"
    by (auto simp: subscription_extend_def split: option.splits sum.splits dest: user_target_same)
  moreover have "user_reset_traffic tk ctx ms st = Inr pn \<Longrightarrow> user_reset_traffic tk ctx' ms st' = Inr pn' \<Longrightarrow> ?thesis"
    by (auto simp: user_reset_traffic_def split: option.splits sum.splits dest: user_target_same)
  moreover have "node_add ctx f ms = Inr pn \<Longrightarrow> node_add ctx' f' ms = Inr pn' \<Longrightarrow> ?thesis"
    by (auto simp: node_add_def Let_def split: option.splits)
  moreover have "node_drain tk ctx t ms st = Inr pn \<Longrightarrow> node_drain tk ctx' t' ms st' = Inr pn' \<Longrightarrow> ?thesis"
    by (auto simp: node_drain_def split: option.splits sum.splits dest: node_target_same)
  moreover have "service_restart tk ctx f ms st = Inr pn \<Longrightarrow> service_restart tk ctx' f' ms st' = Inr pn' \<Longrightarrow> ?thesis"
    by (auto simp: service_restart_def split: option.splits sum.splits dest: node_target_same)
  moreover have "broadcast_announcement tk ctx t f ms st = Inr pn \<Longrightarrow> broadcast_announcement tk ctx' t' f' ms st' = Inr pn' \<Longrightarrow> ?thesis"
    by (auto simp: broadcast_announcement_def split: option.splits sum.splits)
  ultimately show ?thesis using assms by (simp add: prepare_def split: if_splits)
qed

lemma dry_run_answer:
  assumes "ExecuteChecked tk ctx t fresh name (Object ms) granted st = (Inr (Proposal cd), st')"
    "flag_field ''dry_run'' ms \<in> {Some None, Some (Some True)}"
  shows "\<exists>pn. prepare tk ctx t fresh name ms st = Inr pn \<and> cd_args cd = Object ms \<and>
    required_perm name \<noteq> None \<and> name \<notin> set read_only_tools \<and>
    cd_token cd = GenerateConfirmationTokenFor (tk_mac tk) (tk_key tk) name (tk_sha tk (pn_payload pn)) (admin_of ctx) t"
  using assms by (auto simp: ExecuteChecked_def members_of_def two_phase_def Let_def split: if_splits option.splits sum.splits)

text \<open>
  C20. What was approved is what is executed. When a tool proposed an action, and the same caller, still permitted,
  confirms the proposal with its token and its parameters within five minutes and for the first time, then exactly
  the proposed tool runs with the proposed parameters: the action it prepares from them then is applied, and its
  payload is the one that was proposed.
\<close>

theorem confirmed_proposal_applies:
  assumes dry: "ExecuteChecked tk ctx t f name (Object ms) granted st0 = (Inr (Proposal cd), st0')"
      "flag_field ''dry_run'' ms \<in> {Some None, Some (Some True)}" "neat tk ms"
    and plain: "\<And>k d. CHR ''.'' \<notin> set (tk_mac tk k d)" "\<And>x. CHR ''.'' \<notin> set (tk_sha tk x)" "CHR ''.'' \<notin> set (admin_of ctx)"
      "int8_fits (unix (t + 5 * minute))"
    and later: "unix now \<le> unix (t + 5 * minute)" "\<And>s. stamp (cd_token cd) = Some s \<Longrightarrow> fst s \<notin> fst ` set (ai_used st)"
    and ready: "Permitted name (callerPerms ctx (ai_db st))" "prepare tk ctx now f' name ms st = Inr pn"
  shows "(\<exists>s. stamp (cd_token cd) = Some s \<and>
      ExecuteConfirmationAction tk ctx now f' name (cd_token cd) (cd_args cd) st =
        pn_apply pn (st\<lparr>ai_used := s # unexpired (unix now) (ai_used st)\<rparr>)) \<and>
    map_option pn_payload (case prepare tk ctx t f name ms st0 of Inl _ \<Rightarrow> None | Inr p \<Rightarrow> Some p) = Some (pn_payload pn)"
proof -
  obtain p0 where p0: "prepare tk ctx t f name ms st0 = Inr p0" "cd_args cd = Object ms" "required_perm name \<noteq> None"
      "name \<notin> set read_only_tools"
      "cd_token cd = GenerateConfirmationTokenFor (tk_mac tk) (tk_key tk) name (tk_sha tk (pn_payload p0)) (admin_of ctx) t"
    using dry_run_answer[OF dry(1,2)] by blast
  note pay = payload_stable[OF p0(1) ready(2)]
  let ?exp = "unix (t + 5 * minute)" and ?hash = "tk_sha tk (pn_payload pn)" and ?adm = "admin_of ctx"
  let ?s = "(tk_mac tk (tk_key tk) (token_data name ?adm ?hash ?exp), ?exp)"
  note token = generated_token[where mac = "tk_mac tk" and hash = ?hash and adm = ?adm and t = t and key = "tk_key tk" and action = name, OF plain(1,2,3,4), folded p0(5)[unfolded pay]]
  note stamp = token(2)
  have "fst ?s \<notin> fst ` set (ai_used st)" by (rule later(2)[OF stamp])
  then have new: "fst ?s \<notin> fst ` set (unexpired (unix now) (ai_used st))" by (auto simp: unexpired_set)
  have v: "ValidateAndConsume (tk_mac tk) (tk_key tk) now (cd_token cd) name ?hash ?adm (ai_used st) =
      (None, ?s # unexpired (unix now) (ai_used st))"
    unfolding consume_iff token(3) using stamp new later(1) by blast
  have "ExecuteConfirmationAction tk ctx now f' name (cd_token cd) (cd_args cd) st =
      pn_apply pn (st\<lparr>ai_used := ?s # unexpired (unix now) (ai_used st)\<rparr>)"
    using p0(2-4) ready v
    by (auto simp: ExecuteConfirmationAction_def ExecuteChecked_def members_of_def two_phase_def fields_confirmed(1,2)[OF dry(3)]
        prepare_confirmed[OF dry(3)])
  then show ?thesis using stamp p0(1) pay by auto
qed

definition demo_args :: members where
  "demo_args = [(''user_id'', MStr (u_id demo_user)), (''days'', MNum 3)]"

definition demo_card :: card where
  "demo_card = \<lparr>cd_action = ''subscription_extend'', cd_token = ''ab.300.cd.a1'', cd_seconds = 300, cd_affected = 0, cd_args = Object demo_args\<rparr>"

text \<open>Three days approved at time 0 and confirmed a minute later.\<close>

lemma confirmed_proposal_applies_witness:
  "(\<exists>pn s. prepare demo_toolkit (Some demo_chief) minute ''f'' ''subscription_extend'' demo_args demo_copilot = Inr pn \<and>
     ExecuteConfirmationAction demo_toolkit (Some demo_chief) minute ''f'' ''subscription_extend'' (cd_token demo_card) (cd_args demo_card)
       demo_copilot = pn_apply pn (demo_copilot\<lparr>ai_used := [s]\<rparr>)) \<and>
   List.map u_expires (db_users (ai_db (snd (ExecuteConfirmationAction demo_toolkit (Some demo_chief) minute ''f'' ''subscription_extend''
       (cd_token demo_card) (cd_args demo_card) demo_copilot)))) = [Some (minute + 3 * day)]"
proof
  let ?ctx = "Some demo_chief" and ?n = "''subscription_extend''"
  have dry: "ExecuteChecked demo_toolkit ?ctx 0 ''e'' ?n (Object demo_args) (callerPerms ?ctx (ai_db demo_copilot)) demo_copilot =
      (Inr (Proposal demo_card), demo_copilot)" by code_simp
  have flag: "flag_field ''dry_run'' demo_args \<in> {Some None, Some (Some True)}" "neat demo_toolkit demo_args"
    by (simp_all add: demo_args_def flag_field_def named_def to_lower_def neat_def demo_toolkit_def)
  have may: "Permitted ?n (callerPerms ?ctx (ai_db demo_copilot))"
    by (simp add: Permitted_def required_perm_def read_only_tools_def callerPerms_def demo_chief_def)
  have "is_ok (prepare demo_toolkit ?ctx minute ''f'' ?n demo_args demo_copilot)" by code_simp
  then obtain pn where pn: "prepare demo_toolkit ?ctx minute ''f'' ?n demo_args demo_copilot = Inr pn" unfolding is_ok_iff by blast
  have none: "ai_used demo_copilot = []" by (simp add: demo_copilot_def)
  note apply_card = confirmed_proposal_applies[OF dry flag _ _ _ _ _ _ may pn]
  have "\<exists>s. ExecuteConfirmationAction demo_toolkit ?ctx minute ''f'' ?n (cd_token demo_card) (cd_args demo_card) demo_copilot =
      pn_apply pn (demo_copilot\<lparr>ai_used := s # unexpired (unix minute) (ai_used demo_copilot)\<rparr>)"
    using apply_card by (auto simp: none demo_toolkit_def demo_chief_def admin_of_def int8_fits_def unix_def time_units)
  then show "\<exists>pn s. prepare demo_toolkit ?ctx minute ''f'' ?n demo_args demo_copilot = Inr pn \<and>
     ExecuteConfirmationAction demo_toolkit ?ctx minute ''f'' ?n (cd_token demo_card) (cd_args demo_card)
       demo_copilot = pn_apply pn (demo_copilot\<lparr>ai_used := [s]\<rparr>)"
    using pn by (auto simp: none unexpired_def)
  show "List.map u_expires (db_users (ai_db (snd (ExecuteConfirmationAction demo_toolkit ?ctx minute ''f'' ?n
       (cd_token demo_card) (cd_args demo_card) demo_copilot)))) = [Some (minute + 3 * day)]" by code_simp
qed

section \<open>Conversations are histories of calls\<close>

text \<open>No tool touches the administrators, so the permissions of a conversation's start are those of each call.\<close>

definition same_rights :: "copilot \<Rightarrow> copilot \<Rightarrow> bool" where
  "same_rights st st' \<longleftrightarrow> db_admins (ai_db st') = db_admins (ai_db st) \<and> db_down (ai_db st') = db_down (ai_db st)"

lemma same_rights_perms:
  assumes "same_rights st st'"
  shows "callerPerms ctx (ai_db st') = callerPerms ctx (ai_db st)"
proof -
  have "GetAdminByID a (ai_db st') = GetAdminByID a (ai_db st)" for a using assms by (simp add: same_rights_def GetAdminByID_def)
  then show ?thesis by (simp only: callerPerms_def)
qed

lemma auditMutation_admins [simp]:
  "db_admins (auditMutation ctx action typ rid df d) = db_admins d" "db_down (auditMutation ctx action typ rid df d) = db_down d"
  by (auto simp: auditMutation_def CreateAuditLog_def split: sum.splits)

definition keeps_rights :: "prepared \<Rightarrow> bool" where
  "keeps_rights pn \<longleftrightarrow> (\<forall>st. same_rights st (snd (pn_apply pn st)))"

lemma mutate_rights:
  assumes "\<And>d d'. stmt d = Inr d' \<Longrightarrow> db_admins d' = db_admins d \<and> db_down d' = db_down d"
  shows "same_rights st (snd (mutate ctx action typ rid df stmt st))"
  using assms by (auto simp: mutate_def with_db_def same_rights_def split: sum.splits)

lemma restart_rights: "same_rights st (snd (restart_service tk ctx fresh nid service st))"
  by (simp add: restart_service_def with_db_def same_rights_def Let_def split: option.splits)

lemma dispatch_db: "ob_db (dispatch sender due now cid chats msg buttons box) = ob_db box"
  by (simp add: dispatch_def UpdateBroadcastCampaignStats_def Let_def split: prod.splits)

lemma create_dispatch_db: "ob_db (snd (CreateAndDispatch sender due now cid ttl seg msg buttons box)) = ob_db box"
  by (auto simp: CreateAndDispatch_def CreateBroadcastCampaign_def dispatch_db Let_def split: sum.splits if_splits)

lemma announce_rights: "same_rights st (snd (announce tk ctx now fresh seg ttl msg st))"
proof (cases "tk_sender tk")
  case None
  then show ?thesis by (simp add: announce_def same_rights_def)
next
  case (Some sender)
  obtain r box where b: "CreateAndDispatch sender (tk_due tk) now fresh ttl seg msg []
      \<lparr>ob_db = ai_db st, ob_campaigns = ai_campaigns st, ob_sent = ai_delivered st\<rparr> = (r, box)" by fastforce
  then have "ob_db box = ai_db st" using create_dispatch_db by (metis outbox.select_convs(1) snd_conv)
  then show ?thesis using Some b by (cases r) (simp_all add: announce_def with_db_def same_rights_def Let_def)
qed

lemma statements_rights:
  "SetUserBanStatus uid b reason d = Inr d' \<Longrightarrow> db_admins d' = db_admins d \<and> db_down d' = db_down d"
  "ExtendUserSubscription uid e x d = Inr d' \<Longrightarrow> db_admins d' = db_admins d \<and> db_down d' = db_down d"
  "ResetUserTraffic uid d = Inr d' \<Longrightarrow> db_admins d' = db_admins d \<and> db_down d' = db_down d"
  "CreateNode n d = Inr (m, d') \<Longrightarrow> db_admins d' = db_admins d \<and> db_down d' = db_down d"
  "UpdateNode n d = Inr (m, d') \<Longrightarrow> db_admins d' = db_admins d \<and> db_down d' = db_down d"
  by (auto simp: SetUserBanStatus_def ExtendUserSubscription_def ResetUserTraffic_def CreateNode_def UpdateNode_def
      update_users_def update_nodes_def Let_def split: if_splits option.splits)

lemma node_statements_rights:
  "(case CreateNode n (d :: bdb) of Inl e \<Rightarrow> Inl e | Inr (m, d'') \<Rightarrow> Inr d'') = Inr d' \<Longrightarrow> db_admins d' = db_admins d \<and> db_down d' = db_down d"
  "(case UpdateNode n d of Inl e \<Rightarrow> Inl e | Inr (m, d'') \<Rightarrow> Inr d'') = Inr d' \<Longrightarrow> db_admins d' = db_admins d \<and> db_down d' = db_down d"
  using statements_rights(4,5) by (simp_all split: sum.splits prod.splits)

lemma prepare_keeps_rights:
  assumes "prepare tk ctx now fresh name ms st = Inr pn"
  shows "keeps_rights pn"
proof -
  have m: "(\<And>d d'. stmt d = Inr d' \<Longrightarrow> db_admins d' = db_admins d \<and> db_down d' = db_down d) \<Longrightarrow>
      keeps_rights \<lparr>pn_payload = pay, pn_affected = k, pn_apply = mutate ctx action t rid df stmt\<rparr>" for stmt action t rid df pay k
    by (simp add: keeps_rights_def mutate_rights)
  note steps = statements_rights
  have "user_ban tk ctx ms st = Inr pn \<Longrightarrow> keeps_rights pn" "user_unban tk ctx ms st = Inr pn \<Longrightarrow> keeps_rights pn"
    "subscription_extend tk ctx now ms st = Inr pn \<Longrightarrow> keeps_rights pn" "user_reset_traffic tk ctx ms st = Inr pn \<Longrightarrow> keeps_rights pn"
    by (auto simp: user_ban_def user_unban_def subscription_extend_def user_reset_traffic_def
        split: option.splits sum.splits intro!: m dest: steps)
  moreover have "node_add ctx fresh ms = Inr pn \<Longrightarrow> keeps_rights pn" "node_drain tk ctx now ms st = Inr pn \<Longrightarrow> keeps_rights pn"
    unfolding node_add_def node_drain_def Let_def
    by (auto split: option.splits sum.split_asm intro!: m elim!: node_statements_rights[THEN conjunct1] node_statements_rights[THEN conjunct2])
  moreover have "service_restart tk ctx fresh ms st = Inr pn \<Longrightarrow> keeps_rights pn"
    "broadcast_announcement tk ctx now fresh ms st = Inr pn \<Longrightarrow> keeps_rights pn"
    by (auto simp: service_restart_def broadcast_announcement_def keeps_rights_def restart_rights announce_rights
        split: option.splits sum.splits)
  ultimately show ?thesis using assms by (simp add: prepare_def split: if_splits)
qed

lemma execute_rights: "same_rights st (snd (ExecuteChecked tk ctx now fresh name args granted st))"
proof (cases rule: execute_cases[of tk ctx now fresh name args granted st])
  case (idle u)
  then show ?thesis by (simp add: same_rights_def)
next
  case (act ms pn tok u)
  have "same_rights (st\<lparr>ai_used := u\<rparr>) (snd (pn_apply pn (st\<lparr>ai_used := u\<rparr>)))"
    using prepare_keeps_rights[OF act(4)] by (simp add: keeps_rights_def)
  then show ?thesis using act(8) by (simp add: same_rights_def)
qed

definition step_of_call :: "auth_ctx option \<Rightarrow> time \<times> uuid \<Rightarrow> call \<Rightarrow> tool_step" where
  "step_of_call ctx d c = \<lparr>tl_ctx = ctx, tl_now = fst d, tl_fresh = snd d, tl_name = tc_name c, tl_args = tc_args c\<rparr>"

definition drawn :: "(nat \<Rightarrow> time \<times> uuid) \<Rightarrow> nat \<Rightarrow> auth_ctx option \<Rightarrow> tool_step list \<Rightarrow> bool" where
  "drawn draw k ctx cs \<longleftrightarrow> (\<forall>i<length cs. tl_now (cs ! i) = fst (draw (k + i)) \<and> tl_ctx (cs ! i) = ctx)"

lemma drawn_Cons: "drawn draw k ctx (step_of_call ctx (draw k) c # cs) \<longleftrightarrow> drawn draw (Suc k) ctx cs"
  by (auto simp: drawn_def step_of_call_def nth_Cons split: nat.splits)

lemma drawn_append:
  "drawn draw k ctx as \<Longrightarrow> drawn draw (k + length as) ctx bs \<Longrightarrow> drawn draw k ctx (as @ bs)"
  by (auto simp: drawn_def nth_append)

lemma run_calls_history:
  assumes "g = callerPerms ctx (ai_db st)"
  shows "\<exists>cs. snd (snd (run_calls tk ctx g draw k calls st)) = fold (tool_step tk) cs st \<and> length cs = length calls \<and>
    drawn draw k ctx cs \<and> same_rights st (fold (tool_step tk) cs st)"
  using assms
proof (induction calls arbitrary: k st)
  case Nil
  then show ?case by (auto simp: drawn_def same_rights_def intro!: exI[of _ "[]"])
next
  case (Cons c calls)
  let ?s = "step_of_call ctx (draw k) c"
  let ?st = "tool_step tk ?s st"
  have st: "?st = snd (ExecuteChecked tk ctx (fst (draw k)) (snd (draw k)) (tc_name c) (tc_args c) g st)"
    by (simp add: tool_step_def step_of_call_def Cons.prems)
  have r: "same_rights st ?st" unfolding st by (rule execute_rights)
  obtain cs where cs: "snd (snd (run_calls tk ctx g draw (Suc k) calls ?st)) = fold (tool_step tk) cs ?st" "length cs = length calls"
      "drawn draw (Suc k) ctx cs" "same_rights ?st (fold (tool_step tk) cs ?st)"
    using Cons.IH[of ?st "Suc k"] Cons.prems same_rights_perms[OF r] by auto
  have "snd (snd (run_calls tk ctx g draw k (c # calls) st)) = fold (tool_step tk) (?s # cs) st"
    using cs(1) by (simp add: split_def Let_def st)
  moreover have "same_rights st (fold (tool_step tk) (?s # cs) st)" using r cs(4) by (simp add: same_rights_def)
  ultimately show ?case using cs(2,3) by (intro exI[of _ "?s # cs"]) (simp add: drawn_Cons)
qed

text \<open>So the law on histories covers every conversation: each of its calls is a step at the time that the call read.\<close>

theorem conversation_is_history:
  "\<exists>cs. snd (ProcessChat tk llm ctx now draw req st) = fold (tool_step tk) cs st \<and> drawn draw 0 ctx cs"
proof -
  have loop: "\<exists>cs. snd (chat_loop tk llm ctx g draw n k msgs st) = fold (tool_step tk) cs st \<and> drawn draw k ctx cs"
    if "g = callerPerms ctx (ai_db st)" for g n k msgs st
    using that
  proof (induction n arbitrary: k msgs st)
    case 0
    then show ?case by (auto simp: drawn_def intro!: exI[of _ "[]"])
  next
    case (Suc n)
    have idle: ?case if "snd (chat_loop tk llm ctx g draw (Suc n) k msgs st) = st"
      using that by (auto simp: drawn_def intro!: exI[of _ "[]"])
    show ?case
    proof (cases "llm msgs (GetSpecsFor g)")
      case None
      then show ?thesis by (intro idle) simp
    next
      case (Some reply)
      obtain content calls where l: "llm msgs (GetSpecsFor g) = Some (content, calls)" using Some by (cases reply) simp
      show ?thesis
      proof (cases "calls = []")
        case True
        then show ?thesis using l by (intro idle) simp
      next
        case False
        obtain evs told st1 where run: "run_calls tk ctx g draw k calls st = (evs, told, st1)" by (metis prod_cases3)
        obtain cs where cs: "st1 = fold (tool_step tk) cs st" "length cs = length calls" "drawn draw k ctx cs" "same_rights st st1"
          using run_calls_history[OF Suc.prems, of tk draw k calls] run by auto
        obtain cs' where cs': "snd (chat_loop tk llm ctx g draw n (k + length calls) (msgs @ Asked content calls # told) st1) =
            fold (tool_step tk) cs' st1" "drawn draw (k + length calls) ctx cs'"
          using Suc.IH[of st1 "k + length calls" "msgs @ Asked content calls # told"] Suc.prems same_rights_perms[OF cs(4)] by auto
        have "snd (chat_loop tk llm ctx g draw (Suc n) k msgs st) = fold (tool_step tk) (cs @ cs') st"
          using False l run cs'(1) cs(1) by (simp add: split_def Let_def)
        then show ?thesis using drawn_append[OF cs(3)] cs(2) cs'(2) by metis
      qed
    qed
  qed
  show ?thesis
  proof (cases "as_enabled (ai_settings st)")
    case True
    then show ?thesis using loop[OF refl, of st 6 0] by (simp add: ProcessChat_def del: chat_loop.simps)
  next
    case False
    then show ?thesis by (auto simp: ProcessChat_def drawn_def intro!: exI[of _ "[]"])
  qed
qed

section \<open>Settings\<close>

text \<open>Saving the settings as they were shown keeps the secret key, which is shown with its middle left out.\<close>

theorem shown_settings_keep_key: "as_key (ai_settings (UpdateSettings (GetSettings st) st)) = as_key (ai_settings st)"
  by (simp add: UpdateSettings_def normal_settings_def GetSettings_def masked_def Let_def)

section \<open>Where the protection ends\<close>

text \<open>
  The language model reads the token of a proposal with the result of its call, so it can confirm the proposal
  itself: there is a model that bans any subscriber in one conversation, with no confirmation by the operator.
\<close>

definition ban_call :: "string \<Rightarrow> (string \<times> member) list \<Rightarrow> call" where
  "ban_call target extra = \<lparr>tc_id = ''1'', tc_name = ''user_ban'', tc_args = Object ((''user_id'', MStr target) # extra)\<rparr>"

definition eager_model :: "string \<Rightarrow> model" where
  "eager_model target msgs specs =
     (case last msgs of
        Told _ _ (Inr (Proposal cd)) \<Rightarrow>
          Some ([], [ban_call target [(''dry_run'', MBool False), (''confirmation_token'', MStr (cd_token cd))]])
      | Told _ _ _ \<Rightarrow> Some (''done'', [])
      | _ \<Rightarrow> Some ([], [ban_call target []]))"

lemma ban_fields [simp]:
  "text_field ''user_id'' ((''user_id'', MStr x) # ms) = foldl read_text (Some x) (named ''user_id'' ms)"
  "text_field ''reason'' ((''user_id'', MStr x) # ms) = text_field ''reason'' ms"
  "text_field ''confirmation_token'' ((''user_id'', MStr x) # ms) = text_field ''confirmation_token'' ms"
  "flag_field ''dry_run'' ((''user_id'', MStr x) # ms) = flag_field ''dry_run'' ms"
  by (simp_all add: text_field_def flag_field_def named_def to_lower_def)

lemma ban_prepared:
  assumes "tk_uuid tk target = Some uid" "GetUserByID uid (ai_db st) = Inr u"
    "extra = [] \<or> extra = [(''dry_run'', MBool False), (''confirmation_token'', MStr tok)]"
  shows "prepare tk ctx now fresh ''user_ban'' ((''user_id'', MStr target) # extra) st =
    Inr \<lparr>pn_payload = ''user_ban:'' @ u_id u @ '':'', pn_affected = counted (ListCredentialsByUser (u_id u) (ai_db st)),
      pn_apply = mutate ctx ''UserBannedByCopilot'' ''user'' (u_id u) (JsonDiff [(''reason'', [])]) (SetUserBanStatus (u_id u) True None)\<rparr>"
  using assms(3)
  by (auto simp: prepare_def user_ban_def user_target_def assms(1,2) text_field_def named_def to_lower_def nonempty_def)

lemma eager_first: "eager_model target (chat_opening req now d) specs = Some ([], [ban_call target []])"
proof -
  have "last (chat_opening req now d) \<noteq> Told a b r" for a b r
    by (auto simp: chat_opening_def last_map split_def)
  then show ?thesis by (cases "last (chat_opening req now d)") (auto simp: eager_model_def)
qed

lemma chat_loop_call:
  assumes "llm msgs (GetSpecsFor g) = Some (content, [c])"
    "ExecuteChecked tk ctx (fst (draw k)) (snd (draw k)) (tc_name c) (tc_args c) g st = (r, st1)"
  shows "snd (chat_loop tk llm ctx g draw (Suc n) k msgs st) =
    snd (chat_loop tk llm ctx g draw n (Suc k) (msgs @ [Asked content [c], Told (tc_id c) (tc_name c) r]) st1)"
  using assms by (simp add: split_def Let_def)

lemma chat_loop_done:
  "llm msgs (GetSpecsFor g) = Some (content, []) \<Longrightarrow> snd (chat_loop tk llm ctx g draw n k msgs st) = st"
  by (cases n) simp_all

theorem model_confirms_itself:
  assumes on: "as_enabled (ai_settings st)" and may: "Permitted ''user_ban'' (callerPerms ctx (ai_db st))"
    and user: "tk_uuid tk target = Some uid" "GetUserByID uid (ai_db st) = Inr u" and up: "''SetUserBanStatus'' \<notin> db_down (ai_db st)"
    and plain: "\<And>k d. CHR ''.'' \<notin> set (tk_mac tk k d)" "\<And>x. CHR ''.'' \<notin> set (tk_sha tk x)" "CHR ''.'' \<notin> set (admin_of ctx)"
      "int8_fits (unix (fst (draw 0) + 5 * minute))"
    and clock: "unix (fst (draw 1)) \<le> unix (fst (draw 0) + 5 * minute)" and none: "ai_used st = []"
  shows "\<exists>v. List.find (\<lambda>v. u_id v = uid) (db_users (ai_db (snd (ProcessChat tk (eager_model target) ctx now draw req st)))) = Some v \<and>
    u_banned v = Some True \<and> u_status v = Some ''banned''"
proof -
  let ?g = "callerPerms ctx (ai_db st)" and ?llm = "eager_model target"
  let ?msgs = "chat_opening req now (ai_db st)"
  let ?pay = "''user_ban:'' @ u_id u @ '':''"
  let ?tok = "GenerateConfirmationTokenFor (tk_mac tk) (tk_key tk) ''user_ban'' (tk_sha tk ?pay) (admin_of ctx) (fst (draw 0))"
  let ?c1 = "ban_call target []" and ?c2 = "ban_call target [(''dry_run'', MBool False), (''confirmation_token'', MStr ?tok)]"
  have start: "?llm ?msgs specs = Some ([], [?c1])" for specs by (rule eager_first)
  have e1: "ExecuteChecked tk ctx (fst (draw 0)) (snd (draw 0)) ''user_ban'' (tc_args ?c1) ?g st =
      (Inr (Proposal \<lparr>cd_action = ''user_ban'', cd_token = ?tok, cd_seconds = 300,
         cd_affected = counted (ListCredentialsByUser (u_id u) (ai_db st)), cd_args = tc_args ?c1\<rparr>), st)"
    using may ban_prepared[OF user, of "[]"]
    by (auto simp: ExecuteChecked_def two_phase_def Let_def members_of_def ban_call_def required_perm_def read_only_tools_def
        flag_field_def text_field_def named_def to_lower_def)
  note token = generated_token[where mac = "tk_mac tk" and hash = "tk_sha tk ?pay" and adm = "admin_of ctx" and t = "fst (draw 0)"
      and key = "tk_key tk" and action = "''user_ban''", OF plain(1,2,3,4)]
  obtain used where v: "ValidateAndConsume (tk_mac tk) (tk_key tk) (fst (draw 1)) ?tok ''user_ban'' (tk_sha tk ?pay) (admin_of ctx) []
      = (None, used)"
    using token(2) clock unfolding consume_iff token(3) unexpired_def by auto
  have uid: "u_id u = uid" and row: "List.find (\<lambda>u. u_id u = uid) (db_users (ai_db st)) = Some u"
    using user(2) by (auto simp: GetUserByID_def split: if_splits option.splits dest: find_Some_in)
  let ?ban = "\<lambda>v. v\<lparr>u_banned := Some True, u_ban_reason := None, u_status := Some ''banned''\<rparr>"
  let ?d = "auditMutation ctx ''UserBannedByCopilot'' ''user'' uid (JsonDiff [(''reason'', [])]) (update_users (\<lambda>v. u_id v = uid) ?ban (ai_db st))"
  let ?st = "with_db ?d (st\<lparr>ai_used := used\<rparr>)"
  have e2: "ExecuteChecked tk ctx (fst (draw 1)) (snd (draw 1)) ''user_ban'' (tc_args ?c2) ?g st = (Inr (Applied uid), ?st)"
    using may ban_prepared[OF user, of "[(''dry_run'', MBool False), (''confirmation_token'', MStr ?tok)]" ?tok] v up
    by (auto simp: ExecuteChecked_def two_phase_def Let_def members_of_def ban_call_def required_perm_def read_only_tools_def
        flag_field_def text_field_def named_def to_lower_def none uid mutate_def SetUserBanStatus_def with_db_def)
  let ?r1 = "Inr (Proposal \<lparr>cd_action = ''user_ban'', cd_token = ?tok, cd_seconds = 300,
         cd_affected = counted (ListCredentialsByUser (u_id u) (ai_db st)), cd_args = tc_args ?c1\<rparr>)"
  let ?m1 = "?msgs @ [Asked [] [?c1], Told ''1'' ''user_ban'' ?r1]"
  let ?m2 = "?m1 @ [Asked [] [?c2], Told ''1'' ''user_ban'' (Inr (Applied uid))]"
  have call: "tc_name (ban_call target e) = ''user_ban''" "tc_id (ban_call target e) = ''1''" for e by (simp_all add: ban_call_def)
  have "snd (ProcessChat tk ?llm ctx now draw req st) = snd (chat_loop tk ?llm ctx ?g draw (Suc (Suc 4)) 0 ?msgs st)"
    using on by (simp add: ProcessChat_def del: chat_loop.simps)
  also have "\<dots> = snd (chat_loop tk ?llm ctx ?g draw (Suc 4) (Suc 0) ?m1 st)"
    using chat_loop_call[where llm = ?llm and k = 0 and n = "Suc 4" and msgs = ?msgs and content = "[]" and c = ?c1 and st = st
        and r = ?r1 and ?st1.0 = st and g = ?g and tk = tk and ctx = ctx and draw = draw, OF start] e1
    by (simp only: call)
  also have "\<dots> = snd (chat_loop tk ?llm ctx ?g draw 4 (Suc (Suc 0)) ?m2 ?st)"
    using chat_loop_call[where llm = ?llm and k = "Suc 0" and n = 4 and msgs = ?m1 and content = "[]" and c = ?c2 and st = st
        and r = "Inr (Applied uid)" and ?st1.0 = ?st and g = ?g and tk = tk and ctx = ctx and draw = draw] e2
    by (simp add: eager_model_def call del: chat_loop.simps)
  also have "\<dots> = ?st" by (rule chat_loop_done[where content = "''done''"]) (simp add: eager_model_def)
  finally have "snd (ProcessChat tk ?llm ctx now draw req st) = ?st" .
  moreover have "db_users ?d = List.map (\<lambda>v. if u_id v = uid then ?ban v else v) (db_users (ai_db st))"
    by (simp add: auditMutation_def CreateAuditLog_def update_users_def split: sum.splits)
  then have "List.find (\<lambda>v. u_id v = uid) (db_users ?d) = Some (?ban u)"
    using find_map_same[of "\<lambda>v. u_id v = uid" ?ban "\<lambda>v. u_id v = uid" "db_users (ai_db st)"] row uid by simp
  ultimately show ?thesis by (simp add: with_db_def)
qed

text \<open>
  The colons of a payload separate nothing when its members contain colons: the token of one broadcast
  confirms another title and another text.
\<close>

theorem broadcast_token_ambiguous:
  "signed_for mac key now ''broadcast_announcement'' (sha (broadcast_payload seg (a @ '':'' @ b) c)) adm tok \<longleftrightarrow>
   signed_for mac key now ''broadcast_announcement'' (sha (broadcast_payload seg a (b @ '':'' @ c))) adm tok"
  by (simp add: broadcast_payload_def)

text \<open>A drain by the assistant leaves the node without its Reality parameters.\<close>

theorem drain_erases_reality:
  assumes "node_drain tk ctx now ms st = Inr pn" "pn_apply pn st1 = (Inr (Applied nid), st2)" "n \<in> set (db_nodes (ai_db st2))" "n_id n = nid"
  shows "n_sni n = None \<and> n_pbk n = None \<and> n_sid n = None \<and> n_status n = Some ''draining''"
proof -
  obtain m reason where pn: "pn_apply pn = mutate ctx ''NodeDrainedByCopilot'' ''node'' (n_id m) (JsonDiff [(''reason'', reason)])
      (\<lambda>d. case UpdateNode (m\<lparr>n_status := Some ''draining'', n_sni := None, n_pbk := None, n_sid := None\<rparr>) d of
         Inl e \<Rightarrow> Inl e | Inr (_, d') \<Rightarrow> Inr d')"
    using assms(1) by (auto simp: node_drain_def split: option.splits sum.splits)
  show ?thesis using assms(2-4)
    by (auto simp: pn mutate_def UpdateNode_def update_nodes_def with_db_def auditMutation_def CreateAuditLog_def Let_def
        split: sum.splits if_splits option.splits prod.splits)
qed

text \<open>A call with an API key, whose identifier is no administrator's, leaves no audit row.\<close>

theorem key_mutations_unaudited:
  assumes "ac_user ac \<notin> a_id ` set (db_admins d)"
  shows "auditMutation (Some ac) action typ rid df d = d"
  using assms by (simp add: auditMutation_def CreateAuditLog_def opt_in_def split: diff.splits)

end
