(* ===== verification/Console_Pages.thy ===== *)
theory Console_Pages
  imports Inventory Users_Console
begin

text \<open>
  The console's pages about plans, nodes, credentials, payment gateways and partners
  (src/internal/controlplane/web/handler_plans.go, handler_nodes.go, handler_credentials.go, handler_billing.go
  and handler_partners.go, with store/whitelabel.go), and the masks of secrets that its settings show
  (handler_v2.go). A target is the parsed identifier of the path. The scanner of prices, new identifiers and
  keys are arguments. Most of these pages drop the errors of their statements and report success.
\<close>

section \<open>Plans\<close>

text \<open>
  The protocols of the form: the values of the field, cut to the known ones. When the field is absent its value
  is empty too, so the branch that splits one text is never taken.
\<close>

definition form_protocols :: "string list \<Rightarrow> string list \<Rightarrow> string list" where
  "form_protocols picked fallback =
     (let clean = List.filter (List.member allowed_protocols) (List.map clean_protocol picked)
      in if clean = [] then fallback else clean)"

definition first_positive :: "int list \<Rightarrow> int \<Rightarrow> int" where
  "first_positive xs d = (case List.find (\<lambda>n. n > 0) xs of None \<Rightarrow> d | Some n \<Rightarrow> n)"

definition form_devices :: "form \<Rightarrow> int \<Rightarrow> int" where
  "form_devices f d = first_positive [parsed_int (fv f ''max_devices''), parsed_int (fv f ''device_limit'')] d"

definition if_positive :: "int \<Rightarrow> int option" where
  "if_positive n = (if n > 0 then Some (wrap32 n) else None)"

definition first_text :: "string list \<Rightarrow> string" where
  "first_text ss = (case List.find (\<lambda>s. s \<noteq> []) ss of None \<Rightarrow> [] | Some s \<Rightarrow> s)"

definition form_plan :: "(string \<Rightarrow> int option) \<Rightarrow> uuid \<Rightarrow> string list \<Rightarrow> form \<Rightarrow> plan" where
  "form_plan scan pid picked f =
     (let gb = parsed_int (fv f ''traffic_limit_gb''); dev = wrap32 (form_devices f 3); trial = ticked f ''is_trial'';
          price = (if trial then ''0'' else first_text [fv f ''price_1m'', fv f ''price'', ''0'']);
          later = (\<lambda>k. if trial \<or> fv f k = [] then None else scan (fv f k))
      in \<lparr>pl_id = pid, pl_name = trim_space (fv f ''name''), pl_monthly = scan price, pl_traffic = Some (wrap64 (gb * gib)),
          pl_stars = (if trial then None else if_positive (parsed_int (fv f ''price_stars''))), pl_1m = scan price,
          pl_3m = later ''price_3m'', pl_6m = later ''price_6m'', pl_12m = later ''price_12m'',
          pl_devices = Some dev, pl_max_devices = Some dev, pl_gb = Some (wrap32 gb),
          pl_protocols = form_protocols picked allowed_protocols, pl_active = Some True, pl_trial = Some trial,
          pl_trial_hours = if_positive (parsed_int (fv f ''trial_duration_hours''))\<rparr>)"

text \<open>A refused insertion is reported and recorded as a creation, of the plan without identifier.\<close>

definition WebCreatePlan ::
    "(string \<Rightarrow> int option) \<Rightarrow> web_ctx option \<Rightarrow> uuid \<Rightarrow> string list \<Rightarrow> form option \<Rightarrow> desk \<Rightarrow> outcome \<times> desk" where
  "WebCreatePlan scan ctx pid picked body st =
     (if \<not> p_plans (getCallerPermissions ctx (desk_db st))
      then (Failed ''Forbidden: permission to manage plans is required'', st)
      else case body of None \<Rightarrow> (Failed [], st)
      | Some f \<Rightarrow>
          if trim_space (fv f ''name'') = [] then (Failed ''name_required'', st)
          else
            (let (made, st1) = (case CreatePlan (normalize_new (form_plan scan pid picked f)) (desk_db st) of
                   Inl _ \<Rightarrow> (nil_uuid, st) | Inr (p, d) \<Rightarrow> (pl_id p, st\<lparr>ds_crm := (ds_crm st)\<lparr>cm_db := d\<rparr>\<rparr>))
             in (Success ''Plan created successfully'', recordAudit ctx ''CreatePlan'' ''plan'' (Some made)
                   (PlainText (''Service plan '' @ trim_space (fv f ''name'') @ '' created'')) st1)))"

text \<open>A price that does not scan keeps the stored one; a trial drops them all.\<close>

definition form_changes :: "(string \<Rightarrow> int option) \<Rightarrow> string list \<Rightarrow> form \<Rightarrow> plan \<Rightarrow> plan" where
  "form_changes scan picked f p =
     (let gb = parsed_int (fv f ''traffic_limit_gb''); trial = ticked f ''is_trial'';
          old = (if positive (pl_max_devices p) then int_or 0 (pl_max_devices p) else int_or 0 (pl_devices p));
          dev = wrap32 (form_devices f old);
          rescan = (\<lambda>s d. if s = [] then d else case scan s of None \<Rightarrow> d | Some c \<Rightarrow> Some c);
          price = first_text [fv f ''price_1m'', fv f ''price''];
          later = (\<lambda>k d. if trial then None else rescan (fv f k) d)
      in p\<lparr>pl_name := (if trim_space (fv f ''name'') = [] then pl_name p else trim_space (fv f ''name'')),
           pl_monthly := (if trial then scan ''0'' else rescan price (pl_monthly p)), pl_traffic := Some (wrap64 (gb * gib)),
           pl_stars := (if trial then None else if_positive (parsed_int (fv f ''price_stars''))),
           pl_1m := (if trial then scan ''0'' else rescan price (pl_1m p)),
           pl_3m := later ''price_3m'' (pl_3m p), pl_6m := later ''price_6m'' (pl_6m p), pl_12m := later ''price_12m'' (pl_12m p),
           pl_devices := Some dev, pl_max_devices := Some dev, pl_gb := Some (wrap32 gb),
           pl_protocols := form_protocols picked (pl_protocols p), pl_trial := Some trial,
           pl_trial_hours := if_positive (parsed_int (fv f ''trial_duration_hours''))\<rparr>)"

definition WebUpdatePlan ::
    "(string \<Rightarrow> int option) \<Rightarrow> web_ctx option \<Rightarrow> uuid option \<Rightarrow> string list \<Rightarrow> form option \<Rightarrow> desk \<Rightarrow> outcome \<times> desk" where
  "WebUpdatePlan scan ctx target picked body st =
     (if \<not> p_plans (getCallerPermissions ctx (desk_db st))
      then (Failed ''Forbidden: permission to manage plans is required'', st)
      else case (body, target) of
        (Some f, Some pid) \<Rightarrow> (case GetPlanByID pid (desk_db st) of Inl _ \<Rightarrow> (Failed [], st)
          | Inr p \<Rightarrow> (Success [], case UpdatePlan (normalize_changed (form_changes scan picked f p)) (desk_db st) of
                Inl _ \<Rightarrow> st | Inr (_, d) \<Rightarrow> st\<lparr>ds_crm := (ds_crm st)\<lparr>cm_db := d\<rparr>\<rparr>))
      | _ \<Rightarrow> (Failed [], st))"

definition WebDeletePlan :: "web_ctx option \<Rightarrow> uuid option \<Rightarrow> desk \<Rightarrow> outcome \<times> desk" where
  "WebDeletePlan ctx target st =
     (if \<not> p_plans (getCallerPermissions ctx (desk_db st))
      then (Failed ''Forbidden: permission to manage plans is required'', st)
      else (Success ''Plan deleted successfully'', case target of None \<Rightarrow> st
      | Some pid \<Rightarrow>
         (let name = (case GetPlanByID pid (desk_db st) of Inl _ \<Rightarrow> [] | Inr p \<Rightarrow> pl_name p);
              st1 = (case on_db (DeletePlan pid) st of Inl _ \<Rightarrow> st | Inr st1 \<Rightarrow> st1)
          in recordAudit ctx ''DeletePlan'' ''plan'' (Some pid) (PlainText (''Service plan '' @ name @ '' deleted'')) st1)))"

section \<open>Nodes\<close>

definition web_node :: "uuid \<Rightarrow> form \<Rightarrow> node" where
  "web_node nid f = \<lparr>n_id = nid, n_name = fv f ''name'',
     n_endpoint = fv f ''host'' @ '':'' @ or_text ''443'' (fv f ''port''), n_grpc = fv f ''host'' @ '':9090'',
     n_region = Some (fv f ''region''), n_capacity = None, n_status = Some ''offline'', n_tags = None,
     n_public_key = fv f ''public_key'', n_sni = None, n_pbk = None, n_sid = None, n_heartbeat = None, n_version = 1\<rparr>"

definition WebCreateNode :: "web_ctx option \<Rightarrow> uuid \<Rightarrow> form option \<Rightarrow> desk \<Rightarrow> outcome \<times> desk" where
  "WebCreateNode ctx nid body st =
     (if \<not> p_nodes (getCallerPermissions ctx (desk_db st))
      then (Failed ''Forbidden: permission to manage nodes is required'', st)
      else case body of None \<Rightarrow> (Failed [], st)
      | Some f \<Rightarrow> (Success [], case CreateNode (web_node nid f) (desk_db st) of
            Inl _ \<Rightarrow> st | Inr (_, d) \<Rightarrow> st\<lparr>ds_crm := (ds_crm st)\<lparr>cm_db := d\<rparr>\<rparr>))"

text \<open>The status is written by the statement of the heartbeats, so the node counts as heard of.\<close>

definition UpdateNodeStatus :: "web_ctx option \<Rightarrow> uuid option \<Rightarrow> form \<Rightarrow> time \<Rightarrow> desk \<Rightarrow> outcome \<times> desk" where
  "UpdateNodeStatus ctx target f now st =
     (if \<not> p_nodes (getCallerPermissions ctx (desk_db st))
      then (Failed ''Forbidden: permission to manage nodes is required'', st)
      else (Success [], case target of None \<Rightarrow> st
      | Some nid \<Rightarrow> (case on_db (UpdateHeartbeat nid (fv f ''status'') now) st of Inl _ \<Rightarrow> st | Inr st1 \<Rightarrow> st1)))"

definition WebDeleteNode :: "web_ctx option \<Rightarrow> uuid option \<Rightarrow> desk \<Rightarrow> outcome \<times> desk" where
  "WebDeleteNode ctx target st =
     (if \<not> p_nodes (getCallerPermissions ctx (desk_db st))
      then (Failed ''Forbidden: permission to manage nodes is required'', st)
      else case target of None \<Rightarrow> (Failed ''Invalid node ID'', st)
      | Some nid \<Rightarrow>
         (let name = or_text ''unknown'' (case GetNodeByID nid (desk_db st) of Inl _ \<Rightarrow> [] | Inr n \<Rightarrow> n_name n)
          in case on_db (DeleteNode nid) st of Inl _ \<Rightarrow> (Failed ''Failed to delete node'', st)
             | Inr st1 \<Rightarrow>
                (let st2 = recordAudit ctx ''DeleteNode'' ''node'' (Some nid)
                       (PlainText (''Node '' @ name @ '' ('' @ take 8 nid @ '') deleted'')) st1
                 in (Success ''Node deleted successfully'', st2\<lparr>ds_alerts := ds_alerts st2 @
                       [(name, ''deleted'', ''infra'', PlainText (''Deleted by '' @ (case ctx of None \<Rightarrow> [] | Some c \<Rightarrow> wc_name c)))]\<rparr>))))"

section \<open>Credentials\<close>

text \<open>The update that a rotation passes: all columns but the new key are absent.\<close>

definition rotation_row :: "credential \<Rightarrow> string \<times> string \<Rightarrow> uuid \<Rightarrow> credential" where
  "rotation_row c key fresh =
     \<lparr>c_id = c_id c, c_user = c_user c, c_node = c_node c, c_protocol = c_protocol c,
      c_private = (if c_protocol c = ''wireguard'' \<or> c_protocol c = ''amneziawg'' then Some (fst key) else None),
      c_public = (if c_protocol c = ''wireguard'' \<or> c_protocol c = ''amneziawg'' then Some (snd key) else None),
      c_psk = None, c_uuid = (if c_protocol c = ''vless'' then Some fresh else None), c_flow = None, c_ipv4 = None, c_ipv6 = None,
      c_dns = None, c_mtu = None, c_status = Some ''active'', c_expires = None, c_jc = None, c_jmin = None, c_jmax = None,
      c_s1 = None, c_s2 = None, c_h1 = None, c_h2 = None, c_h3 = None, c_h4 = None\<rparr>"

definition WebRotateCredential ::
    "web_ctx option \<Rightarrow> uuid option \<Rightarrow> (string \<times> string) option \<Rightarrow> uuid \<Rightarrow> desk \<Rightarrow> outcome \<times> desk" where
  "WebRotateCredential ctx target key fresh st =
     (if \<not> p_users (getCallerPermissions ctx (desk_db st))
      then (Failed ''Forbidden: permission to manage credentials is required'', st)
      else case target of None \<Rightarrow> (Failed [], st)
      | Some cid \<Rightarrow> (case GetCredentialByID cid (desk_db st) of Inl _ \<Rightarrow> (Failed [], st)
        | Inr c \<Rightarrow>
            if (c_protocol c = ''wireguard'' \<or> c_protocol c = ''amneziawg'') \<and> key = None then (Failed [], st)
            else (Success [], case UpdateCredential (rotation_row c (case key of None \<Rightarrow> ([], []) | Some k \<Rightarrow> k) fresh) (desk_db st) of
                Inl _ \<Rightarrow> st
              | Inr (_, d) \<Rightarrow> desk_push [c_node c] (st\<lparr>ds_crm := (ds_crm st)\<lparr>cm_db := d\<rparr>\<rparr>))))"

definition WebDeleteCredential :: "web_ctx option \<Rightarrow> uuid option \<Rightarrow> desk \<Rightarrow> outcome \<times> desk" where
  "WebDeleteCredential ctx target st =
     (if \<not> p_users (getCallerPermissions ctx (desk_db st))
      then (Failed ''Forbidden: permission to manage credentials is required'', st)
      else (Success [], case target of None \<Rightarrow> st
      | Some cid \<Rightarrow> (case RevokeCredential cid (desk_db st) of
          (_, d, ps) \<Rightarrow> desk_push ps (st\<lparr>ds_crm := (ds_crm st)\<lparr>cm_db := d\<rparr>\<rparr>))))"

section \<open>Payment gateways\<close>

definition enabled_field :: "form \<Rightarrow> string \<Rightarrow> bool" where
  "enabled_field f k \<longleftrightarrow> ticked f k \<or> fv f k = ''1''"

text \<open>The identifier: 2 to 32 of a-z, 0-9, underscore and hyphen.\<close>

definition slug_char :: "char \<Rightarrow> bool" where
  "slug_char c \<longleftrightarrow> 97 \<le> (of_char c :: nat) \<and> (of_char c :: nat) \<le> 122 \<or> is_digit c \<or> c = CHR ''_'' \<or> c = CHR ''-''"

definition valid_identifier :: "string \<Rightarrow> bool" where
  "valid_identifier s \<longleftrightarrow> 2 \<le> length s \<and> length s \<le> 32 \<and> list_all slug_char s"

definition form_gateway :: "string option \<Rightarrow> form \<Rightarrow> gateway" where
  "form_gateway random f =
     (let name = to_lower (trim_space (fv f ''identifier'')); typ = or_text ''webhook'' (to_lower (trim_space (fv f ''type'')));
          secret = trim_space (fv f ''secret_key'');
          token = (if secret = [] \<and> typ = ''webhook'' then text_or [] random else secret)
      in \<lparr>gw_name = name, gw_enabled = Some (enabled_field f ''is_enabled''),
          gw_config = Config [(''title'', or_text name (trim_space (fv f ''title''))), (''type'', typ), (''token'', token),
            (''instructions'', trim_space (fv f ''instructions''))]\<rparr>)"

definition CreatePaymentGateway :: "string option \<Rightarrow> web_ctx option \<Rightarrow> form option \<Rightarrow> desk \<Rightarrow> outcome \<times> desk" where
  "CreatePaymentGateway random ctx body st =
     (case ctx of None \<Rightarrow> (LoginPage, st)
      | Some c \<Rightarrow>
         if \<not> may_edit p_billing c st then (Failed ''Forbidden: only owner can manage payment gateways'', st)
         else case body of None \<Rightarrow> (Failed ''invalid_form'', st)
         | Some f \<Rightarrow>
            (let g = form_gateway random f in
             if \<not> valid_identifier (gw_name g) then (Failed ''Invalid gateway identifier'', st)
             else case on_db (UpsertPaymentGateway g) st of Inl _ \<Rightarrow> (Failed ''Failed to save payment gateway'', st)
             | Inr st1 \<Rightarrow> (Success ''saved'', recordAudit ctx ''CreatePaymentGateway'' ''billing'' None
                 (PlainText (''Created payment gateway '' @ text_or [] (config_text g ''title'') @ '' ('' @ gw_name g @ '')'')) st1)))"

definition TogglePaymentGateway :: "web_ctx option \<Rightarrow> string \<Rightarrow> desk \<Rightarrow> outcome \<times> desk" where
  "TogglePaymentGateway ctx name st =
     (case ctx of None \<Rightarrow> (LoginPage, st)
      | Some c \<Rightarrow>
         if \<not> may_edit p_billing c st then (Failed ''Forbidden: only owner can modify payment gateways'', st)
         else if name = [] then (Failed ''invalid_gateway'', st)
         else case GetPaymentGatewayByName name (desk_db st) of None \<Rightarrow> (Failed ''gateway_not_found'', st)
         | Some g \<Rightarrow>
            (let on = \<not> bool_or False (gw_enabled g);
                 st1 = (case on_db (UpsertPaymentGateway (g\<lparr>gw_enabled := Some on\<rparr>)) st of Inl _ \<Rightarrow> st | Inr st1 \<Rightarrow> st1)
             in (Success ''saved'', recordAudit ctx ''TogglePaymentGateway'' ''billing'' None
                   (PlainText (''Toggled payment gateway '' @ name @ '' to '' @ bool_str on)) st1)))"

definition DeletePaymentGateway :: "string \<Rightarrow> bdb \<Rightarrow> db_error + bdb" where
  "DeletePaymentGateway name d =
     (if ''DeletePaymentGateway'' \<in> db_down d then Inl StatementFailed
      else Inr (d\<lparr>db_gateways := List.filter (\<lambda>g. gw_name g \<noteq> name) (db_gateways d)\<rparr>))"

definition WebDeleteGateway :: "web_ctx option \<Rightarrow> string \<Rightarrow> desk \<Rightarrow> outcome \<times> desk" where
  "WebDeleteGateway ctx name st =
     (case ctx of None \<Rightarrow> (LoginPage, st)
      | Some c \<Rightarrow>
         if \<not> may_edit p_billing c st then (Failed ''Forbidden: only owner can delete payment gateways'', st)
         else if name = [] then (Failed ''invalid_gateway'', st)
         else (Success ''saved'', recordAudit ctx ''DeletePaymentGateway'' ''billing'' None (PlainText (''Deleted payment gateway '' @ name))
           (case on_db (DeletePaymentGateway name) st of Inl _ \<Rightarrow> st | Inr st1 \<Rightarrow> st1)))"

text \<open>The page writes the token alone: what else the configuration held is gone.\<close>

definition UpdatePaymentGateway :: "web_ctx option \<Rightarrow> form option \<Rightarrow> desk \<Rightarrow> outcome \<times> desk" where
  "UpdatePaymentGateway ctx body st =
     (case ctx of None \<Rightarrow> (LoginPage, st)
      | Some c \<Rightarrow>
         if \<not> may_edit p_billing c st then (Failed ''Forbidden: only owner can modify payment gateways'', st)
         else case body of None \<Rightarrow> (Failed [], st)
         | Some f \<Rightarrow>
            (let name = fv f ''name''; given = trim_space (fv f ''token'');
                 token = (case GetPaymentGatewayByName name (desk_db st) of
                     Some g \<Rightarrow> (case gw_config g of Config kvs \<Rightarrow> keepSecret given (text_or [] (map_of kvs ''token'')) | _ \<Rightarrow> given)
                   | None \<Rightarrow> given);
                 g = \<lparr>gw_name = name, gw_enabled = Some (ticked f ''is_enabled''),
                      gw_config = (if token = [] then NoConfig else Config [(''token'', token)])\<rparr>
             in (Success ''saved'', case on_db (UpsertPaymentGateway g) st of Inl _ \<Rightarrow> st | Inr st1 \<Rightarrow> st1)))"

section \<open>Partners\<close>

record tenant =
  tn_id :: uuid
  tn_admin :: "uuid option"
  tn_name :: string
  tn_slug :: string
  tn_token :: string
  tn_bot :: string
  tn_channel :: string
  tn_must_join :: bool
  tn_support :: string
  tn_domain :: string
  tn_app :: string
  tn_banner :: string
  tn_welcome :: string
  tn_active :: bool

text \<open>The partners have a table of their own; the slug is UNIQUE and the administrator a reference.\<close>

definition InsertTenant :: "tenant \<Rightarrow> bdb \<Rightarrow> tenant list \<Rightarrow> db_error + tenant list" where
  "InsertTenant t d ts =
     (if ''CreateTenant'' \<in> db_down d then Inl StatementFailed
      else if \<exists>u\<in>set ts. tn_id u = tn_id t \<or> tn_slug u = tn_slug t then Inl UniqueViolation
      else if \<not> opt_in (tn_admin t) (a_id ` set (db_admins d)) then Inl ForeignKeyViolation
      else Inr (t # ts))"

definition DeleteTenant :: "uuid \<Rightarrow> bdb \<Rightarrow> tenant list \<Rightarrow> tenant list" where
  "DeleteTenant tid d ts = (if ''DeleteTenant'' \<in> db_down d then ts else List.filter (\<lambda>t. tn_id t \<noteq> tid) ts)"

definition form_tenant :: "uuid \<Rightarrow> uuid \<Rightarrow> form \<Rightarrow> tenant" where
  "form_tenant tid adm f =
     (let v = (\<lambda>k. trim_space (fv f k)) in
      \<lparr>tn_id = tid, tn_admin = Some adm, tn_name = v ''name'', tn_slug = to_lower (v ''slug''), tn_token = v ''bot_token'',
       tn_bot = trim_at (v ''bot_username''), tn_channel = v ''channel_link'', tn_must_join = ticked f ''require_channel_sub'',
       tn_support = v ''support_link'', tn_domain = v ''custom_domain'', tn_app = v ''miniapp_url'', tn_banner = v ''banner_url'',
       tn_welcome = v ''welcome_text'', tn_active = True\<rparr>)"

definition may_partner :: "web_ctx \<Rightarrow> desk \<Rightarrow> bool" where
  "may_partner c st \<longleftrightarrow> is_chief c st \<or> p_partners (getCallerPermissions (Some c) (desk_db st))"

definition CreatePartnerTenant ::
    "web_ctx option \<Rightarrow> uuid \<Rightarrow> form option \<Rightarrow> desk \<times> tenant list \<Rightarrow> outcome \<times> desk \<times> tenant list" where
  "CreatePartnerTenant ctx tid body s =
     (case (ctx, s) of
        (None, _) \<Rightarrow> (LoginPage, s)
      | (Some c, st, ts) \<Rightarrow>
         if \<not> may_partner c st then (Failed ''Forbidden: permission required'', s)
         else case body of None \<Rightarrow> (Failed ''invalid_form'', s)
         | Some f \<Rightarrow>
            (let t = form_tenant tid (wc_admin c) f in
             if tn_name t = [] \<or> tn_slug t = [] \<or> tn_token t = [] then (Failed ''Name, Slug, and Bot Token are required'', s)
             else case InsertTenant t (desk_db st) ts of Inl _ \<Rightarrow> (Failed ''statement failed'', s)
             | Inr ts' \<Rightarrow> (Success ''Partner bot and brand created successfully'',
                 recordAudit ctx ''CreatePartnerTenant'' ''tenant'' (Some tid)
                   (PlainText (''Created partner brand '' @ tn_name t @ '' ('' @ tn_slug t @ '')'')) st, ts')))"

definition DeletePartnerTenant ::
    "web_ctx option \<Rightarrow> uuid option \<Rightarrow> desk \<times> tenant list \<Rightarrow> outcome \<times> desk \<times> tenant list" where
  "DeletePartnerTenant ctx target s =
     (case (ctx, s) of
        (None, _) \<Rightarrow> (LoginPage, s)
      | (Some c, st, ts) \<Rightarrow>
         if \<not> may_partner c st then (Failed ''Forbidden: permission required'', s)
         else case target of None \<Rightarrow> (Failed ''Invalid tenant ID'', s)
         | Some tid \<Rightarrow> (Success ''Partner brand removed successfully'',
             recordAudit ctx ''DeletePartnerTenant'' ''tenant'' (Some tid) (PlainText ''Deleted partner brand'') st,
             DeleteTenant tid (desk_db st) ts))"

section \<open>Masked secrets\<close>

definition maskSecret :: "string \<Rightarrow> string" where
  "maskSecret s =
     (if s = [] then [] else if length s \<le> 8 then ''***'' else take 4 s @ ''...'' @ drop (length s - 4) s)"

definition secret_member :: "string \<Rightarrow> bool" where
  "secret_member k \<longleftrightarrow> k \<in> {''token'', ''bot_token'', ''secret''} \<or> contains (to_lower k) ''password'' \<or> contains (to_lower k) ''api_key''"

text \<open>A secret member is shown masked, beside a flag whether it is set.\<close>

definition maskConfigValues :: "(string \<times> string) list \<Rightarrow> (string \<times> string) list \<times> (string \<times> bool) list" where
  "maskConfigValues kvs =
     (List.map (\<lambda>(k, v). (k, if secret_member k then maskSecret v else v)) kvs,
      List.map (\<lambda>(k, v). (k @ ''_set'', v \<noteq> [])) (List.filter (\<lambda>(k, _). secret_member k) kvs))"

lemma has_prefix_same: "has_prefix (p @ s) p"
  by (simp add: has_prefix_def)

lemma contains_prefix: "has_prefix s p \<Longrightarrow> contains s p"
  by (cases s) (simp_all add: has_prefix_def)

lemma contains_append: "contains (a @ p @ b) p"
proof (induction a)
  case Nil
  show ?case using contains_prefix[OF has_prefix_same] by simp
next
  case (Cons c a)
  then show ?case by simp
qed

text \<open>Saving a secret as it was shown keeps it.\<close>

theorem shown_secret_kept: "keepSecret (maskSecret s) s = s"
proof (cases "length s \<le> 8")
  case True
  then show ?thesis by (simp add: keepSecret_def maskSecret_def)
next
  case False
  then have "maskSecret s = take 4 s @ ''...'' @ drop (length s - 4) s" by (auto simp: maskSecret_def)
  then show ?thesis using contains_append[of "take 4 s" "''...''" "drop (length s - 4) s"] by (simp add: keepSecret_def)
qed

section \<open>The pages and their permissions\<close>

text \<open>One request to a page that edits through the desk, with the permission that the page asks for.\<close>

definition with_perm :: "(perms \<Rightarrow> bool) \<Rightarrow> web_ctx option \<Rightarrow> desk \<Rightarrow> bool" where
  "with_perm P ctx st \<longleftrightarrow> P (getCallerPermissions ctx (desk_db st))"

definition with_session :: "(web_ctx \<Rightarrow> desk \<Rightarrow> bool) \<Rightarrow> web_ctx option \<Rightarrow> desk \<Rightarrow> bool" where
  "with_session P ctx st \<longleftrightarrow> (case ctx of None \<Rightarrow> False | Some c \<Rightarrow> P c st)"

inductive page :: "web_ctx option \<Rightarrow> (web_ctx option \<Rightarrow> desk \<Rightarrow> bool) \<Rightarrow> desk \<Rightarrow> outcome \<times> desk \<Rightarrow> bool" for ctx where
  create_user: "page ctx (with_perm p_users) st (WebCreateUser de dr ctx uid tok body now st)"
| reset_user: "page ctx (with_perm p_reset) st (WebResetTraffic ctx target st)"
| delete_user: "page ctx (with_perm p_delete) st (WebDeleteUser ctx target st)"
| message_user: "page ctx (with_perm p_broadcast) st (DirectMessageUser de ctx target body st)"
| assign_plan: "page ctx (with_perm p_users) st (AssignUserPlan de dr ctx target body now st)"
| user_email: "page ctx (with_perm p_users) st (WebUpdateUserEmail ctx target body st)"
| ban_user: "page ctx (with_perm p_users) st (ToggleUserBan de dr ctx target now st)"
| create_plan: "page ctx (with_perm p_plans) st (WebCreatePlan scan ctx pid picked body st)"
| update_plan: "page ctx (with_perm p_plans) st (WebUpdatePlan scan ctx target picked body st)"
| delete_plan: "page ctx (with_perm p_plans) st (WebDeletePlan ctx target st)"
| create_node: "page ctx (with_perm p_nodes) st (WebCreateNode ctx nid body st)"
| node_status: "page ctx (with_perm p_nodes) st (UpdateNodeStatus ctx target f now st)"
| delete_node: "page ctx (with_perm p_nodes) st (WebDeleteNode ctx target st)"
| rotate_cred: "page ctx (with_perm p_users) st (WebRotateCredential ctx target key fresh st)"
| delete_cred: "page ctx (with_perm p_users) st (WebDeleteCredential ctx target st)"
| create_gateway: "page ctx (with_session (may_edit p_billing)) st (CreatePaymentGateway random ctx body st)"
| toggle_gateway: "page ctx (with_session (may_edit p_billing)) st (TogglePaymentGateway ctx name st)"
| delete_gateway: "page ctx (with_session (may_edit p_billing)) st (WebDeleteGateway ctx name st)"
| update_gateway: "page ctx (with_session (may_edit p_billing)) st (UpdatePaymentGateway ctx body st)"
| referral: "page ctx (with_session (may_edit (\<lambda>p. p_replies p \<or> p_plans p))) st (UpdateReferralSettings ctx body st)"
| retention: "page ctx (with_session is_chief) st (UpdateLogRetentionSettings ctx body st)"
| email_policy: "page ctx (with_session is_chief) st (UpdateEmailPolicySettings ctx body st)"
| purge: "page ctx (with_session is_chief) st (PurgeOldAuditLogs ctx f delete_older cutoff st)"
| bot_texts: "page ctx (with_session (may_edit p_replies)) st (UpdateBotReplies ctx body uploads revision st)"

lemmas user_pages = WebCreateUser_def WebResetTraffic_def WebDeleteUser_def DirectMessageUser_def AssignUserPlan_def
  WebUpdateUserEmail_def ToggleUserBan_def
lemmas inventory_pages = WebCreatePlan_def WebUpdatePlan_def WebDeletePlan_def WebCreateNode_def UpdateNodeStatus_def
  WebDeleteNode_def WebRotateCredential_def WebDeleteCredential_def
lemmas setting_pages = CreatePaymentGateway_def TogglePaymentGateway_def WebDeleteGateway_def UpdatePaymentGateway_def
  UpdateReferralSettings_def UpdateLogRetentionSettings_def UpdateEmailPolicySettings_def PurgeOldAuditLogs_def UpdateBotReplies_def


definition demo_helper :: web_ctx where
  "demo_helper = \<lparr>wc_admin = ''a9'', wc_name = ''eve'', wc_role = ''admin'', wc_must = False\<rparr>"


section \<open>Rotation by the console\<close>

text \<open>
  A rotation by the console gives a WireGuard credential its new key and erases the rest of the row: the
  addresses, the preshared key, the expiry and the obfuscation parameters are gone, and the node is pushed.
\<close>

theorem console_rotation_erases:
  assumes may: "p_users (getCallerPermissions ctx (desk_db st))"
    and c: "GetCredentialByID cid (desk_db st) = Inr c" "c_protocol c = ''wireguard'' \<or> c_protocol c = ''amneziawg''"
    and up: "''UpdateCredential'' \<notin> db_down (desk_db st)"
  shows "\<exists>st' e. WebRotateCredential ctx (Some cid) (Some (priv, pub)) fresh st = (Success [], st') \<and>
    GetCredentialByID cid (desk_db st') = Inr e \<and> c_public e = Some pub \<and> c_private e = Some priv \<and>
    c_ipv4 e = None \<and> c_ipv6 e = None \<and> c_psk e = None \<and> c_dns e = None \<and> c_mtu e = None \<and> c_expires e = None \<and> c_jc e = None \<and>
    c_status e = Some ''active'' \<and> cm_pushed (ds_crm st') = cm_pushed (ds_crm st) @ [c_node c]"
proof -
  let ?row = "rotation_row c (priv, pub) fresh"
  let ?f = "\<lambda>e. ?row\<lparr>c_user := c_user e, c_node := c_node e, c_protocol := c_protocol e\<rparr>"
  let ?d = "(desk_db st)\<lparr>db_creds := List.map (\<lambda>e. if c_id e = cid then ?f e else e) (db_creds (desk_db st))\<rparr>"
  have f: "List.find (\<lambda>e. c_id e = cid) (db_creds (desk_db st)) = Some c" "''GetCredentialByID'' \<notin> db_down (desk_db st)"
    using c(1) by (auto simp: GetCredentialByID_def split: if_splits option.splits)
  then have i: "c_id c = cid" using find_Some_in by fastforce
  have u: "UpdateCredential ?row (desk_db st) = Inr (?f c, ?d)"
    using f up by (simp add: UpdateCredential_def rotation_row_def i)
  let ?st = "desk_push [c_node c] (st\<lparr>ds_crm := (ds_crm st)\<lparr>cm_db := ?d\<rparr>\<rparr>)"
  have "WebRotateCredential ctx (Some cid) (Some (priv, pub)) fresh st = (Success [], ?st)"
    using may c(1) u by (simp add: WebRotateCredential_def)
  moreover have "List.find (\<lambda>e. c_id e = cid) (List.map (\<lambda>e. if c_id e = cid then ?f e else e) xs) =
      map_option ?f (List.find (\<lambda>e. c_id e = cid) xs)" for xs
    by (induction xs) (simp_all add: rotation_row_def i)
  then have "GetCredentialByID cid (desk_db ?st) = Inr (?f c)"
    using f by (simp add: GetCredentialByID_def desk_push_def)
  ultimately show ?thesis
    using c(2) by (intro exI[of _ ?st] exI[of _ "?f c"]) (auto simp: rotation_row_def desk_push_def)
qed

end
