(* ===== verification/Bot_Client.thy ===== *)
theory Bot_Client
  imports Router Subscription "HOL-Library.State_Monad"
begin

text \<open>
  What the Telegram bot asks of the control plane (src/internal/bot/client/client.go) and the readings of
  internal/bot/i18n/i18n.go that do not depend on a language. The control plane behind the HTTP client is
  an argument, a record of one function per request over an arbitrary world: it answers with a status, the
  text of the body and the decoded body, or not at all. A request's line is its method and path.
\<close>

section \<open>Requests\<close>

record invoice_ask =
  ia_user :: uuid
  ia_plan :: uuid
  ia_gateway :: string
  ia_months :: int
  ia_promo :: string

record lead_ask =
  la_tg :: int
  la_username :: string
  la_first :: string
  la_last :: string
  la_lang :: string
  la_ref :: string

datatype request =
  AskTrialPlan
| AskPlans
| AskUser int
| AskTrial int string string
| AskRotate uuid
| AskInvoice invoice_ask
| AskStars uuid int
| AskNodes
| AskPromo string
| AskConfig string string
| AskSettings
| AskReferrals int
| AskLead lead_ask
| AskReplies
| AskLink int string
| AskRestore string int string string string
| AskCode int string string
| AskVerify int string string string string string string

fun request_line :: "request \<Rightarrow> string \<times> string" where
  "request_line AskTrialPlan = (''GET'', ''/api/v1/plans/trial'')"
| "request_line AskPlans = (''GET'', ''/api/v1/plans'')"
| "request_line (AskUser tg) = (''GET'', ''/api/v1/users/by-telegram/'' @ int_str tg)"
| "request_line (AskTrial _ _ _) = (''POST'', ''/api/v1/users/trial'')"
| "request_line (AskRotate uid) = (''POST'', ''/api/v1/users/'' @ uid @ ''/rotate'')"
| "request_line (AskInvoice _) = (''POST'', ''/api/v1/billing/invoices'')"
| "request_line (AskStars _ _) = (''POST'', ''/api/v1/billing/stars/confirm'')"
| "request_line AskNodes = (''GET'', ''/api/v1/nodes'')"
| "request_line (AskPromo _) = (''POST'', ''/api/v1/billing/promos/validate'')"
| "request_line (AskConfig token fmt) =
     (''GET'', ''/sub/'' @ token @ (if fmt = [] then [] else ''?format='' @ fmt))"
| "request_line AskSettings = (''GET'', ''/api/v1/billing/settings'')"
| "request_line (AskReferrals tg) = (''GET'', ''/api/v1/users/by-telegram/'' @ int_str tg @ ''/referrals'')"
| "request_line (AskLead _) = (''POST'', ''/api/v1/users/upsert-lead'')"
| "request_line AskReplies = (''GET'', ''/api/v1/billing/bot-replies'')"
| "request_line (AskLink _ _) = (''POST'', ''/api/v1/users/link-email'')"
| "request_line (AskRestore _ _ _ _ _) = (''POST'', ''/api/v1/users/restore-account'')"
| "request_line (AskCode _ _ _) = (''POST'', ''/api/v1/users/request-email-otp'')"
| "request_line (AskVerify _ _ _ _ _ _ _) = (''POST'', ''/api/v1/users/verify-email-otp'')"

section \<open>Answers\<close>

datatype 'a answer = Unreachable string | Answered int string "string + 'a"

record subscribed =
  sb_user :: user
  sb_token :: string
  sb_url :: string

record trial_granted =
  tg_token :: string
  tg_url :: string
  tg_hours :: int
  tg_bytes :: int

record rotated =
  ro_token :: string
  ro_url :: string

record invoice_made =
  im_order :: uuid
  im_external :: string
  im_amount :: string
  im_currency :: string
  im_gateway :: string
  im_months :: int
  im_checkout :: string

record pay_settings =
  ps_crypto_token :: string
  ps_crypto :: bool
  ps_stars :: bool

record referral_stats =
  rs_code :: string
  rs_count :: int
  rs_bonus :: int

record code_sent =
  cs_simulated :: bool
  cs_code :: string

record code_verified =
  cv_token :: string
  cv_url :: string

datatype lang = EN | RU

record 'w plane =
  pn_trial_plan :: "'w \<Rightarrow> plan answer \<times> 'w"
  pn_plans :: "'w \<Rightarrow> plan list answer \<times> 'w"
  pn_user :: "int \<Rightarrow> 'w \<Rightarrow> subscribed answer \<times> 'w"
  pn_trial :: "int \<Rightarrow> string \<Rightarrow> string \<Rightarrow> 'w \<Rightarrow> trial_granted answer \<times> 'w"
  pn_rotate :: "uuid \<Rightarrow> 'w \<Rightarrow> rotated answer \<times> 'w"
  pn_invoice :: "invoice_ask \<Rightarrow> 'w \<Rightarrow> invoice_made answer \<times> 'w"
  pn_stars :: "uuid \<Rightarrow> int \<Rightarrow> 'w \<Rightarrow> unit answer \<times> 'w"
  pn_nodes :: "'w \<Rightarrow> (node list answer \<times> node list answer) \<times> 'w"
  pn_promo :: "string \<Rightarrow> 'w \<Rightarrow> promo answer \<times> 'w"
  pn_config :: "string \<Rightarrow> string \<Rightarrow> 'w \<Rightarrow> unit answer \<times> 'w"
  pn_settings :: "'w \<Rightarrow> pay_settings answer \<times> 'w"
  pn_referrals :: "int \<Rightarrow> 'w \<Rightarrow> referral_stats answer \<times> 'w"
  pn_lead :: "lead_ask \<Rightarrow> 'w \<Rightarrow> unit answer \<times> 'w"
  pn_replies :: "'w \<Rightarrow> (string \<rightharpoonup> string) answer \<times> 'w"
  pn_link :: "int \<Rightarrow> string \<Rightarrow> 'w \<Rightarrow> unit answer \<times> 'w"
  pn_restore :: "string \<Rightarrow> int \<Rightarrow> string \<Rightarrow> string \<Rightarrow> string \<Rightarrow> 'w \<Rightarrow> code_verified answer \<times> 'w"
  pn_code :: "int \<Rightarrow> string \<Rightarrow> string \<Rightarrow> 'w \<Rightarrow> code_sent answer \<times> 'w"
  pn_verify :: "int \<Rightarrow> string \<Rightarrow> string \<Rightarrow> string \<Rightarrow> string \<Rightarrow> string \<Rightarrow> string \<Rightarrow> 'w \<Rightarrow> code_verified answer \<times> 'w"
  pn_member :: "string \<Rightarrow> int \<Rightarrow> 'w \<Rightarrow> (string + string) \<times> 'w"
  pn_stars_invoice :: "int \<Rightarrow> string \<Rightarrow> string \<Rightarrow> int \<Rightarrow> 'w \<Rightarrow> string option \<times> 'w"
  pn_crypto :: "string \<Rightarrow> string \<times> string \<times> string \<Rightarrow> 'w \<Rightarrow> (string + string) \<times> 'w"
  pn_env :: "string \<Rightarrow> string"
  pn_base :: string
  pn_self :: string
  pn_bundle :: "lang \<Rightarrow> string \<Rightarrow> string"
  pn_clock :: "time \<Rightarrow> string"
  pn_uuid :: "string \<Rightarrow> uuid option"
  pn_default :: "string \<Rightarrow> string"
  pn_guide :: "string \<Rightarrow> string"
  pn_draws :: "string \<Rightarrow> bool"

text \<open>A status other than the expected ones is an error that quotes the body.\<close>

definition checked :: "int list \<Rightarrow> (int \<Rightarrow> string \<Rightarrow> string) \<Rightarrow> 'a answer \<Rightarrow> string + 'a" where
  "checked good complain a =
     (case a of Unreachable e \<Rightarrow> Inl e
      | Answered code body v \<Rightarrow> if code \<in> set good then v else Inl (complain code body))"

definition returned :: "int \<Rightarrow> string \<Rightarrow> string" where
  "returned code body = ''control plane returned '' @ int_str code @ '': '' @ body"

definition failed_to :: "string \<Rightarrow> int \<Rightarrow> string \<Rightarrow> string" where
  "failed_to what code body = ''failed to '' @ what @ '': '' @ body"

definition status_only :: "string \<Rightarrow> int \<Rightarrow> string \<Rightarrow> string" where
  "status_only what code body = ''failed to '' @ what @ '': status '' @ int_str code"

text \<open>A 404 for a Telegram account means that there is no subscriber yet.\<close>

definition user_answer :: "subscribed answer \<Rightarrow> string + subscribed option" where
  "user_answer a =
     (case a of Answered code body v \<Rightarrow>
         if code = 404 then Inr None else map_sum id Some (checked [200] returned a)
      | _ \<Rightarrow> map_sum id Some (checked [200] returned a))"

text \<open>
  The list of nodes is decoded as an envelope of a page and, where that fails, as a plain list; the error is
  that of the envelope.
\<close>

definition nodes_answer :: "node list answer \<times> node list answer \<Rightarrow> string + node list" where
  "nodes_answer a =
     (case checked [200] returned (fst a) of Inr ns \<Rightarrow> Inr ns
      | Inl e \<Rightarrow> (case (fst a, snd a) of
            (Answered code _ _, Answered _ _ (Inr ns)) \<Rightarrow> if code = 200 then Inr ns else Inl e
          | _ \<Rightarrow> Inl e))"

definition promo_refused :: "int \<Rightarrow> string \<Rightarrow> string" where
  "promo_refused code body = ''promo code invalid or expired: '' @ body"

definition only_status :: "int list \<Rightarrow> (int \<Rightarrow> string \<Rightarrow> string) \<Rightarrow> unit answer \<Rightarrow> string + unit" where
  "only_status good complain a =
     (case a of Unreachable e \<Rightarrow> Inl e | Answered code body _ \<Rightarrow> if code \<in> set good then Inr () else Inl (complain code body))"

definition body_answer :: "unit answer \<Rightarrow> string + string" where
  "body_answer a =
     (case a of Unreachable e \<Rightarrow> Inl e | Answered code body _ \<Rightarrow> if code = 200 then Inr body else Inl (returned code body))"

section \<open>The engine and its calls\<close>

text \<open>
  A text before its placeholders and tags are filled in, a button by what it does (its callback data or its
  link), and what the bot does, in order. The engine holds the dialog step of a chat with the time it was set,
  the address a code was asked for and the promo code that the next invoice takes.
\<close>

datatype wording = Plain string | Format string "string list" | Plus wording wording

datatype button = Press string | Link string

type_synonym keyboard = "button list list"

datatype bot_event =
  Asked request
| Sent int string wording keyboard
| Document int string string
| Picture int string string
| Acknowledged string
| Approved string
| StarsInvoice int string string int
| CryptoInvoice string "string \<times> string \<times> string"
| MemberCheck string int

record 'w engine =
  bt_states :: "int \<rightharpoonup> string"
  bt_state_at :: "int \<rightharpoonup> time"
  bt_email :: "int \<rightharpoonup> string"
  bt_promo :: "int \<rightharpoonup> string"
  bt_lang :: lang
  bt_token :: string
  bt_log :: "bot_event list"
  bt_world :: 'w

definition act :: "bot_event \<Rightarrow> ('w \<Rightarrow> 'a \<times> 'w) \<Rightarrow> ('w engine, 'a) state" where
  "act ev f = State (\<lambda>e. case f (bt_world e) of (a, w) \<Rightarrow> (a, e\<lparr>bt_world := w, bt_log := bt_log e @ [ev]\<rparr>))"

definition ask :: "request \<Rightarrow> ('x \<Rightarrow> string + 'a) \<Rightarrow> ('w \<Rightarrow> 'x \<times> 'w) \<Rightarrow> ('w engine, string + 'a) state" where
  "ask r read f = act (Asked r) (\<lambda>w. apfst read (f w))"

definition CPGetTrialPlan :: "'w plane \<Rightarrow> ('w engine, string + plan) state" where
  "CPGetTrialPlan pl = ask AskTrialPlan (checked [200] returned) (pn_trial_plan pl)"

definition CPListPlans :: "'w plane \<Rightarrow> ('w engine, string + plan list) state" where
  "CPListPlans pl = ask AskPlans (checked [200] returned) (pn_plans pl)"

definition CPGetUserByTelegramID :: "'w plane \<Rightarrow> int \<Rightarrow> ('w engine, string + subscribed option) state" where
  "CPGetUserByTelegramID pl tg = ask (AskUser tg) user_answer (pn_user pl tg)"

definition CPCreateTrial :: "'w plane \<Rightarrow> int \<Rightarrow> string \<Rightarrow> string \<Rightarrow> ('w engine, string + trial_granted) state" where
  "CPCreateTrial pl tg name ref = ask (AskTrial tg name ref) (checked [201, 200] returned) (pn_trial pl tg name ref)"

definition CPRotateKeys :: "'w plane \<Rightarrow> uuid \<Rightarrow> ('w engine, string + rotated) state" where
  "CPRotateKeys pl uid = ask (AskRotate uid) (checked [200] returned) (pn_rotate pl uid)"

definition CPCreateInvoice :: "'w plane \<Rightarrow> invoice_ask \<Rightarrow> ('w engine, string + invoice_made) state" where
  "CPCreateInvoice pl q = ask (AskInvoice q) (checked [201, 200] returned) (pn_invoice pl q)"

definition CPConfirmStars :: "'w plane \<Rightarrow> uuid \<Rightarrow> int \<Rightarrow> ('w engine, string + unit) state" where
  "CPConfirmStars pl oid tg = ask (AskStars oid tg) (only_status [200, 201] returned) (pn_stars pl oid tg)"

definition CPListActiveNodes :: "'w plane \<Rightarrow> ('w engine, string + node list) state" where
  "CPListActiveNodes pl = ask AskNodes nodes_answer (pn_nodes pl)"

definition CPValidatePromo :: "'w plane \<Rightarrow> string \<Rightarrow> ('w engine, string + promo) state" where
  "CPValidatePromo pl code = ask (AskPromo code) (checked [200] promo_refused) (pn_promo pl code)"

definition CPGetConfig :: "'w plane \<Rightarrow> string \<Rightarrow> string \<Rightarrow> ('w engine, string + string) state" where
  "CPGetConfig pl token fmt = ask (AskConfig token fmt) body_answer (pn_config pl token fmt)"

definition CPGetBillingSettings :: "'w plane \<Rightarrow> ('w engine, string + pay_settings) state" where
  "CPGetBillingSettings pl = ask AskSettings (checked [200] returned) (pn_settings pl)"

definition CPGetReferralStats :: "'w plane \<Rightarrow> int \<Rightarrow> ('w engine, string + referral_stats) state" where
  "CPGetReferralStats pl tg = ask (AskReferrals tg) (checked [200] returned) (pn_referrals pl tg)"

definition CPUpsertLead :: "'w plane \<Rightarrow> lead_ask \<Rightarrow> ('w engine, string + unit) state" where
  "CPUpsertLead pl q = ask (AskLead q) (only_status [200, 201] (status_only ''upsert lead'')) (pn_lead pl q)"

definition CPGetBotReplies :: "'w plane \<Rightarrow> ('w engine, string + (string \<rightharpoonup> string)) state" where
  "CPGetBotReplies pl = ask AskReplies (checked [200] (status_only ''get bot replies'')) (pn_replies pl)"

definition CPLinkEmail :: "'w plane \<Rightarrow> int \<Rightarrow> string \<Rightarrow> ('w engine, string + unit) state" where
  "CPLinkEmail pl tg em = ask (AskLink tg em) (checked [200] (failed_to ''link email'')) (pn_link pl tg em)"

definition CPRestoreAccount ::
    "'w plane \<Rightarrow> string \<Rightarrow> int \<Rightarrow> string \<Rightarrow> string \<Rightarrow> string \<Rightarrow> ('w engine, string + code_verified) state" where
  "CPRestoreAccount pl em tg name fst_name lst_name = ask (AskRestore em tg name fst_name lst_name)
     (checked [200] (failed_to ''restore account'')) (pn_restore pl em tg name fst_name lst_name)"

definition CPRequestEmailOTP :: "'w plane \<Rightarrow> int \<Rightarrow> string \<Rightarrow> string \<Rightarrow> ('w engine, string + code_sent) state" where
  "CPRequestEmailOTP pl tg em purpose =
     ask (AskCode tg em purpose) (checked [200] (failed_to ''request otp'')) (pn_code pl tg em purpose)"

definition CPVerifyEmailOTP ::
    "'w plane \<Rightarrow> int \<Rightarrow> string \<Rightarrow> string \<Rightarrow> string \<Rightarrow> string \<Rightarrow> string \<Rightarrow> string \<Rightarrow> ('w engine, string + code_verified) state"
  where
  "CPVerifyEmailOTP pl tg em otp purpose name fst_name lst_name = ask (AskVerify tg em otp purpose name fst_name lst_name)
     (checked [200] (failed_to ''verify otp'')) (pn_verify pl tg em otp purpose name fst_name lst_name)"

section \<open>Sizes\<close>

text \<open>FormatBytes: the quotient by a power of 1024, exact in float64, with two decimals.\<close>

fun size_power :: "nat \<Rightarrow> int \<Rightarrow> nat" where
  "size_power fuel n = (if fuel = 0 \<or> n < 1024 then 0 else Suc (size_power (fuel - 1) (n div 1024)))"

declare size_power.simps [simp del]

definition FormatBytes :: "int \<Rightarrow> string" where
  "FormatBytes b =
     (if b < 1024 then int_str b @ '' B''
      else (let e = size_power 6 (b div 1024); (m, p) = f64_of_int b
            in cents_str (fmt2 (m, p - 10 * (int e + 1))) @ '' '' @ [''KMGTPE'' ! e] @ ''B''))"

end
