(* ===== verification/Bot.thy ===== *)
theory Bot
  imports Bot_Client
begin

text \<open>
  The Telegram bot (src/internal/bot/engine): the dialog steps with their expiry, the dispatch of messages
  and buttons, and every handler, in the state monad over the engine of Bot_Client. A text is kept before its
  placeholders and tags are filled in, a button by what it does; the retries of a message that Telegram
  refuses and the search for an uploaded image are left out. The Russian wordings, which are data, are looked
  up by the field of the bundle or by the English wording of the same line. A nil pointer ends the handling
  of an update, because the engine recovers from the panic.
\<close>

section \<open>Dialog steps\<close>

definition dialogTTL :: time where "dialogTTL = 15 * minute"

definition setUserState :: "int \<Rightarrow> string \<Rightarrow> time \<Rightarrow> ('w engine, unit) state" where
  "setUserState chat step now = State_Monad.update (\<lambda>e.
     e\<lparr>bt_states := (bt_states e)(chat \<mapsto> step), bt_state_at := (bt_state_at e)(chat \<mapsto> now)\<rparr>)"

definition drop_step :: "int \<Rightarrow> ('w engine, unit) state" where
  "drop_step chat = State_Monad.update (\<lambda>e.
     e\<lparr>bt_states := (bt_states e)(chat := None), bt_state_at := (bt_state_at e)(chat := None)\<rparr>)"

definition drop_email :: "int \<Rightarrow> ('w engine, unit) state" where
  "drop_email chat = State_Monad.update (\<lambda>e. e\<lparr>bt_email := (bt_email e)(chat := None)\<rparr>)"

definition drop_promo :: "int \<Rightarrow> ('w engine, unit) state" where
  "drop_promo chat = State_Monad.update (\<lambda>e. e\<lparr>bt_promo := (bt_promo e)(chat := None)\<rparr>)"

definition clearUserState :: "int \<Rightarrow> ('w engine, unit) state" where
  "clearUserState chat = do { drop_step chat; drop_email chat; drop_promo chat }"

definition stale :: "time \<Rightarrow> 'w engine \<Rightarrow> int \<Rightarrow> bool" where
  "stale now e chat \<longleftrightarrow> (case bt_state_at e chat of None \<Rightarrow> False | Some since \<Rightarrow> now - since > dialogTTL)"

definition sweep :: "time \<Rightarrow> 'w engine \<Rightarrow> 'w engine" where
  "sweep now e = (let keep = (\<lambda>chat. \<not> stale now e chat) in
     e\<lparr>bt_states := (\<lambda>c. if keep c then bt_states e c else None), bt_state_at := (\<lambda>c. if keep c then bt_state_at e c else None),
       bt_email := (\<lambda>c. if keep c then bt_email e c else None), bt_promo := (\<lambda>c. if keep c then bt_promo e c else None)\<rparr>)"

definition sweepExpiredStates :: "time \<Rightarrow> ('w engine, unit) state" where
  "sweepExpiredStates now = State_Monad.update (sweep now)"

definition setLangFromCode :: "string \<Rightarrow> ('w engine, unit) state" where
  "setLangFromCode code = State_Monad.update (\<lambda>e.
     e\<lparr>bt_lang := (if has_prefix (to_lower (trim_space code)) ''ru'' then RU else EN)\<rparr>)"

section \<open>Updates\<close>

record sender =
  sd_username :: string
  sd_first :: string
  sd_last :: string
  sd_lang :: string

record message =
  ms_chat :: int
  ms_from :: "sender option"
  ms_text :: string
  ms_payment :: "string option"

record callback =
  cb_id :: string
  cb_from :: "sender option"
  cb_message :: "message option"
  cb_data :: string

record bot_update =
  up_precheckout :: "(string \<times> string) option"
  up_message :: "message option"
  up_callback :: "callback option"

section \<open>Texts\<close>

abbreviation skip :: "('w engine, unit) state" where
  "skip \<equiv> State_Monad.return ()"

text \<open>The texts of the administrator: a failed request leaves no map, which is fetched again when a message is sent.\<close>

definition get_replies :: "'w plane \<Rightarrow> ('w engine, (string \<rightharpoonup> string) option) state" where
  "get_replies pl = do {
     r \<leftarrow> CPGetBotReplies pl;
     State_Monad.return (case r of Inl _ \<Rightarrow> None | Inr m \<Rightarrow> Some m) }"

definition reply_of :: "(string \<rightharpoonup> string) option \<Rightarrow> string \<Rightarrow> string" where
  "reply_of rs k = (case rs of None \<Rightarrow> [] | Some m \<Rightarrow> text_or [] (m k))"

definition own_or :: "(string \<rightharpoonup> string) option \<Rightarrow> string \<Rightarrow> string \<Rightarrow> string" where
  "own_or rs k d = or_text d (reply_of rs k)"

definition say_with :: "string \<Rightarrow> int \<Rightarrow> wording \<Rightarrow> keyboard \<Rightarrow> ('w engine, unit) state" where
  "say_with media chat t kb = act (Sent chat media t kb) (\<lambda>w. ((), w))"

definition sendMessage :: "int \<Rightarrow> wording \<Rightarrow> keyboard \<Rightarrow> ('w engine, unit) state" where
  "sendMessage chat t kb = say_with [] chat t kb"

definition media_of :: "(string \<rightharpoonup> string) option \<Rightarrow> string \<Rightarrow> string" where
  "media_of rs key =
     (let v = (\<lambda>k. trim_space (reply_of rs k)); m = v (key @ ''_media'') in
      if m = [] \<and> key \<in> {''welcome_new_user'', ''welcome_referral'', ''welcome_active_user''}
      then or_text (v ''bot_welcome_banner'') (v ''welcome_banner_url'') else m)"

definition sendTemplatedMessage ::
    "'w plane \<Rightarrow> int \<Rightarrow> string \<Rightarrow> wording \<Rightarrow> keyboard \<Rightarrow> (string \<rightharpoonup> string) option \<Rightarrow> ('w engine, unit) state" where
  "sendTemplatedMessage pl chat key t kb rs = do {
     rs' \<leftarrow> (if rs = None then get_replies pl else State_Monad.return rs);
     say_with (media_of rs' key) chat t kb }"

definition html_char :: "char \<Rightarrow> string" where
  "html_char c =
     (if c = CHR ''&'' then ''&amp;'' else if c = CHR 0x27 then ''&#39;'' else if c = CHR ''<'' then ''&lt;''
      else if c = CHR ''>'' then ''&gt;'' else if c = CHR 0x22 then ''&#34;'' else [c])"

definition EscapeString :: "string \<Rightarrow> string" where
  "EscapeString s = concat (List.map html_char s)"

text \<open>strings.Count of a nonempty pattern and strings.ReplaceAll.\<close>

function count_sub :: "string \<Rightarrow> string \<Rightarrow> nat" where
  "count_sub p s =
     (if s = [] \<or> p = [] then 0
      else if has_prefix s p then Suc (count_sub p (drop (length p) s)) else count_sub p (tl s))"
  by auto
termination by (relation "measure (\<lambda>(p, s). length s)") auto

function replace_all :: "string \<Rightarrow> string \<Rightarrow> string \<Rightarrow> string" where
  "replace_all p new s =
     (if s = [] \<or> p = [] then s
      else if has_prefix s p then new @ replace_all p new (drop (length p) s) else hd s # replace_all p new (tl s))"
  by auto
termination by (relation "measure (\<lambda>(p, new, s). length s)") auto

declare count_sub.simps [simp del] replace_all.simps [simp del]

text \<open>A line that the code words in both languages.\<close>

definition worded :: "'w plane \<Rightarrow> 'w engine \<Rightarrow> string \<Rightarrow> string" where
  "worded pl e english = (case bt_lang e of EN \<Rightarrow> english | RU \<Rightarrow> pn_bundle pl RU english)"

definition resolveBannedMessage :: "(string \<rightharpoonup> string) option \<Rightarrow> string \<Rightarrow> string \<Rightarrow> wording" where
  "resolveBannedMessage rs dflt reason =
     (let own = reply_of rs ''banned_message''; tpl = (if trim_space own \<noteq> [] then own else dflt) in
      if contains tpl ''%s'' then Format tpl [EscapeString reason]
      else Plain (replace_all ''{ban_reason}'' (EscapeString reason) tpl))"

definition getPublicBaseURL :: "'w plane \<Rightarrow> string" where
  "getPublicBaseURL pl =
     (let cut = (\<lambda>s. rev (dropWhile (\<lambda>c. c = CHR ''/'') (rev s))) in
      case List.find (\<lambda>s. s \<noteq> []) (List.map (\<lambda>k. trim_space (pn_env pl k)) [''PUBLIC_URL'', ''EXTERNAL_URL'', ''APP_URL'']) of
        Some s \<Rightarrow> cut s
      | None \<Rightarrow> if pn_base pl = [] \<or> contains (pn_base pl) ''control-plane'' then ''http://127.0.0.1:8110'' else cut (pn_base pl))"

definition full_url :: "string \<Rightarrow> string \<Rightarrow> string" where
  "full_url base u = (if has_prefix u ''/'' then base @ u else u)"

definition no_email :: "user \<Rightarrow> bool" where
  "no_email u \<longleftrightarrow> text_or [] (u_email u) = [] \<or> has_suffix (text_or [] (u_email u)) ''@t.me''"

text \<open>An expiry is shown unless it is absent or the zero time of Go.\<close>

definition zero_time :: time where "zero_time = - 62135596800 * second"

definition shown_expiry :: "'w plane \<Rightarrow> string \<Rightarrow> user \<Rightarrow> string" where
  "shown_expiry pl never u =
     (case u_expires u of None \<Rightarrow> never | Some t \<Rightarrow> if t = zero_time then never else pn_clock pl t)"

section \<open>Start, status and help\<close>

text \<open>The lead is recorded by a request of its own; here it comes first. Its sender is that of the given message.\<close>

definition lead_of :: "int \<Rightarrow> sender option \<Rightarrow> string \<Rightarrow> lead_ask" where
  "lead_of chat from ref =
     \<lparr>la_tg = chat, la_username = (case from of None \<Rightarrow> [] | Some u \<Rightarrow> sd_username u),
      la_first = (case from of None \<Rightarrow> [] | Some u \<Rightarrow> sd_first u), la_last = (case from of None \<Rightarrow> [] | Some u \<Rightarrow> sd_last u),
      la_lang = (case from of None \<Rightarrow> ''en'' | Some u \<Rightarrow> or_text ''en'' (sd_lang u)), la_ref = ref\<rparr>"

definition banned :: "subscribed \<Rightarrow> bool" where
  "banned s \<longleftrightarrow> bool_or False (u_banned (sb_user s))"

definition ban_reason :: "string \<Rightarrow> subscribed \<Rightarrow> string" where
  "ban_reason dflt s = or_text dflt (text_or [] (u_ban_reason (sb_user s)))"

definition start_keyboard :: "bool \<Rightarrow> user \<Rightarrow> keyboard" where
  "start_keyboard referrals u =
     [[Press ''action:devices'', Press ''action:buy''], [Press ''action:status'', Press ''action:reset''],
      [Press ''action:nodes'', Press ''action:help''],
      Press ''action:promo'' # (if referrals then [Press ''action:referral''] else [])] @
     (if no_email u then [[Press ''action:email'']] else [])"

definition start_known :: "'w plane \<Rightarrow> int \<Rightarrow> subscribed \<Rightarrow> (string \<rightharpoonup> string) option \<Rightarrow> ('w engine, unit) state" where
  "start_known pl chat s rs = do {
     e \<leftarrow> State_Monad.get;
     let l = bt_lang e;
     if banned s then sendMessage chat (resolveBannedMessage rs (pn_bundle pl l ''BannedMessage'') (ban_reason ''Banned by admin'' s)) []
     else do {
       let tpl = own_or rs ''welcome_active_user'' (pn_bundle pl l ''WelcomeActiveUser'');
       let t = (if contains tpl ''%s''
         then Format tpl [FormatBytes (int_or 0 (u_used (sb_user s))), FormatBytes (int_or 0 (u_limit (sb_user s))),
                shown_expiry pl ''Unlimited'' (sb_user s), full_url (getPublicBaseURL pl) (sb_url s)]
         else Plain tpl);
       sendTemplatedMessage pl chat ''welcome_new_user'' t
         (start_keyboard (reply_of rs ''referral_enabled'' \<noteq> ''false'') (sb_user s)) rs } }"

definition start_new :: "'w plane \<Rightarrow> int \<Rightarrow> string \<Rightarrow> (string \<rightharpoonup> string) option \<Rightarrow> ('w engine, unit) state" where
  "start_new pl chat ref rs = do {
     e \<leftarrow> State_Monad.get;
     let std = pn_bundle pl (bt_lang e) ''WelcomeNewUser'';
     let invited = (if ref \<noteq> [] then own_or rs ''welcome_referral'' std else std);
     let welcome = (if invited = std then own_or rs ''welcome_new_user'' std else invited);
     trial \<leftarrow> CPGetTrialPlan pl;
     if (case trial of Inl _ \<Rightarrow> False | Inr p \<Rightarrow> bool_or False (pl_active p))
     then sendTemplatedMessage pl chat ''welcome_new_user'' (Plain welcome)
       [[Press (''action:claim_trial:'' @ ref)], [Press ''action:buy'', Press ''action:help''], [Press ''action:restore'']] rs
     else sendTemplatedMessage pl chat ''welcome_new_user''
       (Plain (welcome @ newline @ newline @
          own_or rs ''trial_no_active_tier'' (pn_bundle pl (bt_lang e) ''NoTrialAvailable'')))
       [[Press ''action:buy'', Press ''action:help'', Press ''action:restore'']] rs }"

definition handleStart :: "'w plane \<Rightarrow> message \<Rightarrow> string \<Rightarrow> ('w engine, unit) state" where
  "handleStart pl msg ref = do {
     let chat = ms_chat msg;
     CPUpsertLead pl (lead_of chat (ms_from msg) ref);
     r \<leftarrow> CPGetUserByTelegramID pl chat;
     (case r of
       Inl _ \<Rightarrow> sendMessage chat (Plain ''Error communicating with control plane. Please try again later.'') []
     | Inr u \<Rightarrow> do {
         rs \<leftarrow> get_replies pl;
         (case u of Some s \<Rightarrow> start_known pl chat s rs | None \<Rightarrow> start_new pl chat ref rs) }) }"

definition status_keyboard :: "string \<Rightarrow> bool \<Rightarrow> subscribed \<Rightarrow> keyboard" where
  "status_keyboard portal referrals s =
     [[Link portal], [Press ''action:devices'', Press (''action:qr:'' @ sb_token s)],
      [Press ''action:reset_keys'', Press ''action:buy''],
      Press ''action:nodes'' # (if referrals then [Press ''action:referral''] else [])] @
     (if no_email (sb_user s) then [[Press ''action:email'']] else [])"

definition handleStatus :: "'w plane \<Rightarrow> int \<Rightarrow> ('w engine, unit) state" where
  "handleStatus pl chat = do {
     e \<leftarrow> State_Monad.get;
     r \<leftarrow> CPGetUserByTelegramID pl chat;
     (case r of
       Inr (Some s) \<Rightarrow> do {
         rs \<leftarrow> get_replies pl;
         let u = sb_user s;
         let base = getPublicBaseURL pl;
         sendMessage chat
           (Format (pn_bundle pl (bt_lang e) ''SubscriptionInfo'')
             [take 8 (u_id u), EscapeString (or_text (int_str chat) (u_username u)), ''Custom Tier'',
              FormatBytes (int_or 0 (u_used u)), FormatBytes (int_or 0 (u_limit u)),
              shown_expiry pl (worded pl e ''Unlimited'') u, full_url base (sb_url s)])
           (status_keyboard (base @ ''/client/'' @ sb_token s) (reply_of rs ''referral_enabled'' \<noteq> ''false'') s) }
     | _ \<Rightarrow> sendMessage chat (Plain ''No active subscription found. Tap /start to activate your account.'') []) }"

definition handleHelp :: "'w plane \<Rightarrow> int \<Rightarrow> ('w engine, unit) state" where
  "handleHelp pl chat = do {
     e \<leftarrow> State_Monad.get;
     rs \<leftarrow> get_replies pl;
     sendTemplatedMessage pl chat ''help_text'' (Plain (own_or rs ''help_text'' (pn_bundle pl (bt_lang e) ''HelpText'')))
       [[Press ''action:devices'', Press ''action:support''], [Press ''action:status'']] rs }"

definition handleSupport :: "'w plane \<Rightarrow> int \<Rightarrow> ('w engine, unit) state" where
  "handleSupport pl chat = do {
     rs \<leftarrow> get_replies pl;
     sendTemplatedMessage pl chat ''support_text''
       (Plain (own_or rs ''support_text'' (''Need help or experiencing connection issues?'' @ newline @ newline @
          ''Contact network administration or support team via the link below.''))) [] rs }"

definition node_line :: "node \<Rightarrow> string" where
  "node_line n = ''- '' @ EscapeString (n_name n) @ '' ['' @ EscapeString (text_or ''Global'' (n_region n)) @ ''] - '' @
     EscapeString (case n_status n of None \<Rightarrow> ''Online'' | Some st \<Rightarrow> to_upper st) @
     '' (Capacity: '' @ int_str (int_or 0 (n_capacity n)) @ '' Gbps)'' @ newline"

definition handleServerList :: "'w plane \<Rightarrow> int \<Rightarrow> ('w engine, unit) state" where
  "handleServerList pl chat = do {
     e \<leftarrow> State_Monad.get;
     r \<leftarrow> CPListActiveNodes pl;
     (case r of
       Inr (n # ns) \<Rightarrow> sendMessage chat
         (Format (pn_bundle pl (bt_lang e) ''NodeListHeader'') [concat (List.map node_line (n # ns))]) []
     | _ \<Rightarrow> sendMessage chat (Plain ''Edge network nodes are currently undergoing maintenance.'') []) }"

section \<open>Trial, referrals and purchase\<close>

definition email_missing :: "(string \<rightharpoonup> string) option \<Rightarrow> 'w plane \<Rightarrow> int \<Rightarrow> ('w engine, bool) state" where
  "email_missing rs pl chat =
     (if reply_of rs ''email_policy'' \<noteq> ''required'' then State_Monad.return False
      else do {
        r \<leftarrow> CPGetUserByTelegramID pl chat;
        State_Monad.return (case r of Inr (Some s) \<Rightarrow> no_email (sb_user s) | _ \<Rightarrow> True) })"

definition ask_email :: "'w plane \<Rightarrow> int \<Rightarrow> time \<Rightarrow> ('w engine, unit) state" where
  "ask_email pl chat now = do {
     setUserState chat ''awaiting_email'' now;
     e \<leftarrow> State_Monad.get;
     sendMessage chat (Plain (pn_bundle pl (bt_lang e) ''EmailRequiredNotice'')) [] }"

text \<open>The channel that must be joined, when one is required and its link names one.\<close>

definition channel_name :: "string \<Rightarrow> string" where
  "channel_name link = trim_prefix (trim_prefix (trim_prefix link ''https://t.me/'') ''t.me/'') ''@''"

definition required_channel :: "(string \<rightharpoonup> string) option \<Rightarrow> string option" where
  "required_channel rs =
     (let link = trim_space (reply_of rs ''channel_link''); name = channel_name link in
      if reply_of rs ''require_channel_sub'' = ''true'' \<and> link \<noteq> [] \<and> CHR ''/'' \<notin> set name \<and> name \<noteq> []
      then Some name else None)"

definition outside_channel :: "(string \<rightharpoonup> string) option \<Rightarrow> 'w plane \<Rightarrow> int \<Rightarrow> ('w engine, bool) state" where
  "outside_channel rs pl chat =
     (case required_channel rs of None \<Rightarrow> State_Monad.return False
      | Some name \<Rightarrow> do {
          m \<leftarrow> act (MemberCheck (''@'' @ name) chat) (pn_member pl (''@'' @ name) chat);
          State_Monad.return (case m of Inl _ \<Rightarrow> False | Inr st \<Rightarrow> st \<in> {''left'', ''kicked''}) })"

definition isTrialAlreadyClaimed :: "string \<Rightarrow> bool" where
  "isTrialAlreadyClaimed err \<longleftrightarrow> contains (to_lower err) ''409'' \<or> contains (to_lower err) ''already claimed''"

definition claim_trial :: "'w plane \<Rightarrow> int \<Rightarrow> string \<Rightarrow> string \<Rightarrow> ('w engine, unit) state" where
  "claim_trial pl chat name ref = do {
     r \<leftarrow> CPCreateTrial pl chat name ref;
     (case r of
       Inl err \<Rightarrow>
         if isTrialAlreadyClaimed err then do {
           rs \<leftarrow> get_replies pl;
           sendTemplatedMessage pl chat ''trial_expired'' (Plain (own_or rs ''trial_expired'' (pn_default pl ''trial_expired''))) [] rs }
         else sendMessage chat (Plain (''Failed to activate free trial: '' @ err)) []
     | Inr g \<Rightarrow> do {
         e \<leftarrow> State_Monad.get;
         rs \<leftarrow> get_replies pl;
         let tpl = own_or rs ''trial_activated'' (pn_bundle pl (bt_lang e) ''TrialActivated'');
         sendTemplatedMessage pl chat ''trial_activated''
           (if CHR ''%'' \<in> set tpl then Format tpl [FormatBytes (tg_bytes g), int_str (tg_hours g), tg_url g] else Plain tpl)
           [[Press (''action:qr:'' @ tg_token g), Press ''action:status''], [Press ''action:help'']] rs }) }"

definition handleClaimTrial :: "'w plane \<Rightarrow> int \<Rightarrow> string \<Rightarrow> string \<Rightarrow> time \<Rightarrow> ('w engine, unit) state" where
  "handleClaimTrial pl chat name ref now = do {
     rs \<leftarrow> get_replies pl;
     missing \<leftarrow> email_missing rs pl chat;
     if missing then ask_email pl chat now
     else do {
       outside \<leftarrow> outside_channel rs pl chat;
       if outside then do {
         e \<leftarrow> State_Monad.get;
         sendMessage chat (Plain (worded pl e
             ''To activate your complimentary trial access, please subscribe to our official community channel first:''))
           [[Link (trim_space (reply_of rs ''channel_link''))], [Press ''action:trial'']] }
       else claim_trial pl chat name ref } }"

definition referral_text :: "'w plane \<Rightarrow> lang \<Rightarrow> (string \<rightharpoonup> string) option \<Rightarrow> referral_stats option \<Rightarrow> string \<Rightarrow> wording" where
  "referral_text pl l rs stats link =
     (let count = (case stats of None \<Rightarrow> 0 | Some st \<Rightarrow> rs_count st); num = int_str count;
          std = Format (pn_bundle pl l ''ReferralInfo'') [link, num];
          bonus = (case stats of None \<Rightarrow> 7 | Some st \<Rightarrow> if rs_bonus st > 0 then rs_bonus st * count else 7);
          own = replace_all ''{refprocent}'' ''15'' (reply_of rs ''referral_overview'')
      in if reply_of rs ''referral_overview'' = [] then std
         else if count_sub ''%'' own = 3 then Format own [link, num, int_str bonus]
         else if count_sub ''%'' own = 2 then Format own [link, num]
         else if count_sub ''%'' own = 1 then Format own [link]
         else if count_sub ''%'' own = 0 then Plain (own @ newline @ newline @ link) else std)"

definition handleReferral :: "'w plane \<Rightarrow> int \<Rightarrow> ('w engine, unit) state" where
  "handleReferral pl chat = do {
     rs \<leftarrow> get_replies pl;
     e \<leftarrow> State_Monad.get;
     if reply_of rs ''referral_enabled'' = ''false''
     then sendMessage chat (Plain (worded pl e ''The referral program is currently paused.'')) []
     else do {
       r \<leftarrow> CPGetReferralStats pl chat;
       let stats = (case r of Inl _ \<Rightarrow> None | Inr st \<Rightarrow> Some st);
       let code = or_text (''ref_'' @ int_str chat) (case stats of None \<Rightarrow> [] | Some st \<Rightarrow> rs_code st);
       let link = ''https://t.me/'' @ or_text ''SimpleVPNBot'' (pn_self pl) @ ''?start='' @ code;
       sendTemplatedMessage pl chat ''referral_overview'' (referral_text pl (bt_lang e) rs stats link)
         [[Link (''https://t.me/share/url?url='' @ QueryEscape link @ ''&text='' @
             QueryEscape ''Connect to high-speed uncapped VPN access:'')],
          [Press ''action:status'', Press ''action:buy'']] rs } }"

definition handleBuy :: "'w plane \<Rightarrow> int \<Rightarrow> time \<Rightarrow> ('w engine, unit) state" where
  "handleBuy pl chat now = do {
     rs \<leftarrow> get_replies pl;
     missing \<leftarrow> email_missing rs pl chat;
     if missing then ask_email pl chat now
     else do {
       r \<leftarrow> CPListPlans pl;
       (case r of
         Inr (p # ps) \<Rightarrow> do {
           e \<leftarrow> State_Monad.get;
           own \<leftarrow> get_replies pl;
           sendTemplatedMessage pl chat ''catalog_header''
             (Plain (own_or own ''catalog_header'' (pn_bundle pl (bt_lang e) ''SelectPlan'')))
             ([[Press ''action:trial'']] @
              List.map (\<lambda>q. [Press (''plan:'' @ pl_id q)]) (List.filter (\<lambda>q. \<not> bool_or False (pl_trial q)) (p # ps)) @
              [[Press ''action:start'']]) own }
       | _ \<Rightarrow> sendMessage chat (Plain ''No commercial plans are currently configured. Please check back soon.'') []) } }"

definition duration_data :: "string \<Rightarrow> string \<Rightarrow> string" where
  "duration_data plan_id months = ''dur:'' @ plan_id @ '':'' @ months"

definition payment_data :: "string \<Rightarrow> int \<Rightarrow> string \<Rightarrow> string" where
  "payment_data plan_id months gateway = ''pay:'' @ plan_id @ '':'' @ int_str months @ '':'' @ gateway"

definition handleSelectDuration :: "'w plane \<Rightarrow> int \<Rightarrow> string \<Rightarrow> ('w engine, unit) state" where
  "handleSelectDuration pl chat plan_id = do {
     e \<leftarrow> State_Monad.get;
     r \<leftarrow> CPListPlans pl;
     let name = (case r of Inl _ \<Rightarrow> ''Plan''
       | Inr ps \<Rightarrow> (case List.find (\<lambda>p. pl_id p = plan_id) ps of None \<Rightarrow> ''Plan'' | Some p \<Rightarrow> pl_name p));
     sendMessage chat (Format (pn_bundle pl (bt_lang e) ''SelectDuration'') [name])
       [[Press (duration_data plan_id ''1''), Press (duration_data plan_id ''3'')],
        [Press (duration_data plan_id ''6''), Press (duration_data plan_id ''12'')], [Press ''action:buy'']] }"

definition keep_token :: "string \<Rightarrow> ('w engine, unit) state" where
  "keep_token t = (if t = [] then skip else State_Monad.update (\<lambda>e. e\<lparr>bt_token := t\<rparr>))"

definition handleSelectPayment :: "'w plane \<Rightarrow> int \<Rightarrow> string \<Rightarrow> int \<Rightarrow> ('w engine, unit) state" where
  "handleSelectPayment pl chat plan_id months = do {
     r \<leftarrow> CPGetBillingSettings pl;
     keep_token (case r of Inl _ \<Rightarrow> [] | Inr st \<Rightarrow> ps_crypto_token st);
     let stars = (case r of Inl _ \<Rightarrow> True | Inr st \<Rightarrow> ps_stars st);
     let crypto = (case r of Inl _ \<Rightarrow> True | Inr st \<Rightarrow> ps_crypto st);
     if \<not> stars \<and> \<not> crypto
     then sendMessage chat (Plain ''Payment gateways are temporarily disabled. Please check back later.'') []
     else do {
       e \<leftarrow> State_Monad.get;
       rs \<leftarrow> get_replies pl;
       sendTemplatedMessage pl chat ''payment_method_prompt''
         (Plain (own_or rs ''payment_method_prompt'' (pn_bundle pl (bt_lang e) ''SelectPayment'')))
         ((if stars then [[Press (payment_data plan_id months ''stars'')]] else []) @
          (if crypto then [[Press (payment_data plan_id months ''cryptobot'')]] else []) @
          [[Press (''plan:'' @ plan_id)]]) rs } }"

text \<open>The payment services: an invoice in Stars, and an invoice of CryptoBot, whose link needs no service without a token.\<close>

definition crypto_link :: "'w plane \<Rightarrow> invoice_made \<Rightarrow> int \<Rightarrow> ('w engine, string) state" where
  "crypto_link pl made months = do {
     e \<leftarrow> State_Monad.get;
     if bt_token e = [] then State_Monad.return (''https://t.me/CryptoBot?start='' @ im_order made)
     else do {
       let params = (im_amount made, ''VPN '' @ int_str months @ '' months (order '' @ take 8 (im_order made) @ '')'', im_order made);
       r \<leftarrow> act (CryptoInvoice (bt_token e) params) (pn_crypto pl (bt_token e) params);
       State_Monad.return (case r of Inl _ \<Rightarrow> im_checkout made | Inr u \<Rightarrow> or_text (im_checkout made) u) } }"

definition send_stars :: "'w plane \<Rightarrow> int \<Rightarrow> invoice_made \<Rightarrow> int \<Rightarrow> ('w engine, unit) state" where
  "send_stars pl chat made months =
     (let amount = parsed_int (im_amount made); title = ''VPN Access ('' @ int_str months @ '' months)'' in
      if amount \<le> 0
      then sendMessage chat (Plain (''Payment with Telegram Stars is not configured for this plan. '' @
        ''Please select CryptoBot or choose another plan.'')) []
      else do {
        r \<leftarrow> act (StarsInvoice chat title (im_order made) amount) (pn_stars_invoice pl chat title (im_order made) amount);
        (case r of None \<Rightarrow> skip | Some err \<Rightarrow> sendMessage chat (Plain (''Failed to create Stars invoice: '' @ err)) []) })"

definition send_link :: "'w plane \<Rightarrow> int \<Rightarrow> string \<Rightarrow> invoice_made \<Rightarrow> int \<Rightarrow> ('w engine, unit) state" where
  "send_link pl chat gateway made months = do {
     u \<leftarrow> (if gateway = ''cryptobot'' then crypto_link pl made months else State_Monad.return (im_checkout made));
     let pay = or_text (''https://t.me/CryptoBot?start='' @ im_external made) u;
     let short = take 8 (im_order made);
     let all = [short, im_amount made, im_currency made, to_upper gateway];
     e \<leftarrow> State_Monad.get;
     rs \<leftarrow> get_replies pl;
     let own = reply_of rs ''invoice_created'';
     sendTemplatedMessage pl chat ''invoice_created''
       (if own = [] then Format (pn_bundle pl (bt_lang e) ''InvoiceCreated'') all
        else if count_sub ''%s'' own = 4 then Format own all
        else if count_sub ''%s'' own \<ge> 1 then Format own [short] else Plain own)
       [[Link pay], [Press ''action:status'']] rs }"

definition checkout_refusal :: "string \<Rightarrow> pay_settings option \<Rightarrow> string option" where
  "checkout_refusal gateway st =
     (case st of None \<Rightarrow> None
      | Some s \<Rightarrow>
          if gateway = ''cryptobot'' \<and> \<not> ps_crypto s
          then Some ''CryptoBot payment gateway is currently disabled. Please choose another payment method.''
          else if gateway = ''stars'' \<and> \<not> ps_stars s
          then Some ''Telegram Stars payment gateway is currently disabled. Please choose another payment method.''
          else None)"

definition order_invoice :: "'w plane \<Rightarrow> int \<Rightarrow> subscribed \<Rightarrow> uuid \<Rightarrow> int \<Rightarrow> string \<Rightarrow> ('w engine, unit) state" where
  "order_invoice pl chat s plan_id months gateway = do {
     e \<leftarrow> State_Monad.get;
     r \<leftarrow> CPCreateInvoice pl \<lparr>ia_user = u_id (sb_user s), ia_plan = plan_id, ia_gateway = gateway, ia_months = months,
       ia_promo = trim_space (text_or [] (bt_promo e chat))\<rparr>;
     (case r of
       Inl err \<Rightarrow> sendMessage chat (Plain (''Failed to generate invoice: '' @ err)) []
     | Inr made \<Rightarrow> do {
         drop_promo chat;
         if gateway = ''stars'' then send_stars pl chat made months else send_link pl chat gateway made months }) }"

definition handleCheckout :: "'w plane \<Rightarrow> int \<Rightarrow> string \<Rightarrow> int \<Rightarrow> string \<Rightarrow> ('w engine, unit) state" where
  "handleCheckout pl chat plan_text months gateway = do {
     r \<leftarrow> CPGetBillingSettings pl;
     let st = (case r of Inl _ \<Rightarrow> None | Inr st \<Rightarrow> Some st);
     (case checkout_refusal gateway st of
       Some why \<Rightarrow> sendMessage chat (Plain why) []
     | None \<Rightarrow> do {
         keep_token (if gateway = ''cryptobot'' then (case st of None \<Rightarrow> [] | Some s \<Rightarrow> ps_crypto_token s) else []);
         u \<leftarrow> CPGetUserByTelegramID pl chat;
         (case u of
           Inr (Some s) \<Rightarrow> (case pn_uuid pl plan_text of
               None \<Rightarrow> sendMessage chat (Plain ''Invalid plan selected.'') []
             | Some pid \<Rightarrow> order_invoice pl chat s pid months gateway)
         | _ \<Rightarrow> sendMessage chat (Plain ''Please initialize your account with /start first.'') []) }) }"

definition processPromoCode :: "'w plane \<Rightarrow> int \<Rightarrow> string \<Rightarrow> ('w engine, unit) state" where
  "processPromoCode pl chat code = do {
     e \<leftarrow> State_Monad.get;
     r \<leftarrow> CPValidatePromo pl code;
     (case r of
       Inl _ \<Rightarrow> sendMessage chat (Plain (pn_bundle pl (bt_lang e) ''PromoInvalid'')) []
     | Inr p \<Rightarrow> do {
         State_Monad.update (\<lambda>e. e\<lparr>bt_promo := (bt_promo e)(chat \<mapsto> trim_space code)\<rparr>);
         sendMessage chat (Format (pn_bundle pl (bt_lang e) ''PromoSuccess'') [pr_code p]) [] }) }"

section \<open>Keys and devices\<close>

definition handleResetPrompt :: "'w plane \<Rightarrow> int \<Rightarrow> ('w engine, unit) state" where
  "handleResetPrompt pl chat = do {
     e \<leftarrow> State_Monad.get;
     r \<leftarrow> CPGetUserByTelegramID pl chat;
     (case r of
       Inr (Some s) \<Rightarrow> do {
         rs \<leftarrow> get_replies pl;
         sendTemplatedMessage pl chat ''keys_reset_prompt''
           (Plain (own_or rs ''keys_reset_prompt'' (pn_bundle pl (bt_lang e) ''ResetConfirmPrompt'')))
           [[Press ''action:confirm_reset_keys'', Press ''action:cancel_reset'']] rs }
     | _ \<Rightarrow> sendMessage chat (Plain ''No active subscription found. Tap /start to begin.'') []) }"

text \<open>The configuration file of a token, amneziawg before wireguard; an empty one counts as none.\<close>

definition config_file :: "'w plane \<Rightarrow> string \<Rightarrow> ('w engine, string \<times> string) state" where
  "config_file pl token = do {
     a \<leftarrow> CPGetConfig pl token ''amneziawg'';
     (case a of
       Inr (c # cs) \<Rightarrow> State_Monad.return (''amneziawg.conf'', c # cs)
     | _ \<Rightarrow> do {
         b \<leftarrow> CPGetConfig pl token ''wireguard'';
         State_Monad.return (''wireguard.conf'', case b of Inl _ \<Rightarrow> [] | Inr f \<Rightarrow> f) }) }"

definition send_file :: "int \<Rightarrow> string \<times> string \<Rightarrow> ('w engine, unit) state" where
  "send_file chat file = (if snd file = [] then skip else act (Document chat (fst file) (snd file)) (\<lambda>w. ((), w)))"

definition handleConfirmResetKeys :: "'w plane \<Rightarrow> int \<Rightarrow> ('w engine, unit) state" where
  "handleConfirmResetKeys pl chat = do {
     e \<leftarrow> State_Monad.get;
     r \<leftarrow> CPGetUserByTelegramID pl chat;
     (case r of
       Inr (Some s) \<Rightarrow> do {
         k \<leftarrow> CPRotateKeys pl (u_id (sb_user s));
         (case k of
           Inl err \<Rightarrow> sendMessage chat (Plain (''Failed to rotate keys: '' @ err)) []
         | Inr ro \<Rightarrow> do {
             let base = getPublicBaseURL pl;
             let url = full_url base (ro_url ro);
             file \<leftarrow> config_file pl (ro_token ro);
             send_file chat file;
             rs \<leftarrow> get_replies pl;
             let tpl = own_or rs ''keys_reset_success'' (pn_bundle pl (bt_lang e) ''KeysResetSuccess'');
             sendTemplatedMessage pl chat ''keys_reset_success''
               (Plus (if contains tpl ''%s'' then Format tpl [url] else Plain (tpl @ newline @ newline @ url))
                 (Plain (newline @ newline @ ''Web Portal:'' @ newline @ base @ ''/client/'' @ ro_token ro)))
               [[Press ''action:devices'', Press (''action:qr:'' @ ro_token ro)], [Press ''action:status'']] rs }) }
     | _ \<Rightarrow> sendMessage chat (Plain ''No active subscription found. Tap /start to begin.'') []) }"

definition handleDeviceWizard :: "'w plane \<Rightarrow> int \<Rightarrow> ('w engine, unit) state" where
  "handleDeviceWizard pl chat = do {
     e \<leftarrow> State_Monad.get;
     sendMessage chat (Plain (pn_bundle pl (bt_lang e) ''DeviceWizardTitle''))
       [[Press ''device:ios'', Press ''device:android''], [Press ''device:windows'', Press ''device:macos''],
        [Press ''device:linux''], [Press ''action:status'']] }"

text \<open>The download of a platform and whether its guide names the link twice.\<close>

definition platform_guide :: "string \<Rightarrow> (string \<times> bool) option" where
  "platform_guide p = map_of
     [(''ios'', ''https://apps.apple.com/app/happ-proxy-utility/id6504287215'', True),
      (''android'', ''https://play.google.com/store/apps/details?id=com.v2ray.ang'', True),
      (''windows'', ''https://github.com/clash-verge-rev/clash-verge-rev/releases'', False),
      (''macos'', ''https://apps.apple.com/app/streisand/id6450534064'', False),
      (''linux'', ''https://github.com/SagerNet/sing-box/releases'', False)] p"

definition guide_text :: "string \<Rightarrow> string \<Rightarrow> string \<Rightarrow> bool \<Rightarrow> string \<Rightarrow> wording" where
  "guide_text own std connect twice link =
     (let std_text = Format std (if twice then [connect, link, link] else [connect, link]) in
      if own = [] then std_text
      else if count_sub ''%s'' own = 3 then Format own [connect, link, link]
      else if count_sub ''%s'' own = 2 then Format own [connect, link]
      else if count_sub ''%s'' own = 1 then Format own [link]
      else if count_sub ''%s'' own = 0 then Plain own else std_text)"

text \<open>The link is built on the address of the control plane itself, not on the public one.\<close>

definition handlePlatformGuide :: "'w plane \<Rightarrow> int \<Rightarrow> string \<Rightarrow> ('w engine, unit) state" where
  "handlePlatformGuide pl chat platform = do {
     e \<leftarrow> State_Monad.get;
     r \<leftarrow> CPGetUserByTelegramID pl chat;
     (case r of
       Inr (Some s) \<Rightarrow>
         (let p = to_lower platform; link = QueryEscape (full_url (or_text ''http://localhost:8110'' (pn_base pl)) (sb_url s)) in
          case platform_guide p of None \<Rightarrow> handleDeviceWizard pl chat
          | Some (app, twice) \<Rightarrow> do {
              rs \<leftarrow> get_replies pl;
              let channel = reply_of rs ''channel_link'';
              sendTemplatedMessage pl chat (''setup_guide_'' @ p)
                (guide_text (reply_of rs (''setup_guide_'' @ p)) (pn_guide pl p)
                   (pn_bundle pl (bt_lang e) ''BtnConnectOneClick'') twice link)
                ([[Press (''action:qr:'' @ sb_token s), Link app]] @ (if channel = [] then [] else [[Link channel]]) @
                 [[Press ''action:devices'', Press ''action:status'']]) rs;
              if p \<in> {''windows'', ''macos'', ''linux''} then do { file \<leftarrow> config_file pl (sb_token s); send_file chat file } else skip })
     | _ \<Rightarrow> sendMessage chat (Plain ''No active subscription found. Tap /start to activate your account.'') []) }"

definition shortToken :: "string \<Rightarrow> string" where
  "shortToken t = take 8 t"

text \<open>The check that the token is the chat's own, which the button makes before the picture makes it again.\<close>

definition own_token :: "'w plane \<Rightarrow> int \<Rightarrow> string \<Rightarrow> ('w engine, unit) state \<Rightarrow> ('w engine, unit) state" where
  "own_token pl chat token go = do {
     r \<leftarrow> CPGetUserByTelegramID pl chat;
     (case r of
       Inr (Some s) \<Rightarrow>
         if sb_token s \<noteq> token then sendMessage chat (Plain ''QR code unavailable for this subscription.'') [] else go
     | _ \<Rightarrow> sendMessage chat (Plain ''QR code unavailable: subscription not found.'') []) }"

definition sendQRCode :: "'w plane \<Rightarrow> int \<Rightarrow> string \<Rightarrow> ('w engine, unit) state" where
  "sendQRCode pl chat token =
     (if length token < 8 then sendMessage chat (Plain ''QR code unavailable: invalid subscription reference.'') []
      else own_token pl chat token
        (let url = getPublicBaseURL pl @ ''/sub/'' @ token in
         if \<not> pn_draws pl url then sendMessage chat (Plain ''Failed to render QR code.'') []
         else act (Picture chat token url) (\<lambda>w. ((), w))))"

section \<open>Recovery addresses\<close>

definition plausible_email :: "string \<Rightarrow> bool" where
  "plausible_email em \<longleftrightarrow> CHR ''@'' \<in> set em \<and> CHR ''.'' \<in> set em \<and> 5 \<le> length em"

definition bundled :: "'w plane \<Rightarrow> int \<Rightarrow> string \<Rightarrow> string list option \<Rightarrow> ('w engine, unit) state" where
  "bundled pl chat field args = do {
     e \<leftarrow> State_Monad.get;
     let t = pn_bundle pl (bt_lang e) field;
     sendMessage chat (case args of None \<Rightarrow> Plain t | Some xs \<Rightarrow> Format t xs) [] }"

definition sender_names :: "sender option \<Rightarrow> string \<times> string \<times> string" where
  "sender_names from = (case from of None \<Rightarrow> ([], [], []) | Some u \<Rightarrow> (sd_username u, sd_first u, sd_last u))"

text \<open>A code is asked for, and the address is kept for the answer. A simulated code is shown in the chat.\<close>

definition request_code ::
    "'w plane \<Rightarrow> int \<Rightarrow> string \<Rightarrow> string \<Rightarrow> string \<Rightarrow> (string \<Rightarrow> ('w engine, unit) state) \<Rightarrow> time \<Rightarrow> ('w engine, unit) state" where
  "request_code pl chat em purpose step refused now = do {
     r \<leftarrow> CPRequestEmailOTP pl chat em purpose;
     (case r of
       Inl err \<Rightarrow> refused err
     | Inr sent \<Rightarrow> do {
         setUserState chat step now;
         State_Monad.update (\<lambda>e. e\<lparr>bt_email := (bt_email e)(chat \<mapsto> em)\<rparr>);
         e \<leftarrow> State_Monad.get;
         let prompt = Format (pn_bundle pl (bt_lang e) ''OTPPrompt'') [EscapeString em];
         sendMessage chat
           (if cs_simulated sent \<and> cs_code sent \<noteq> []
            then Plus prompt (Plain (newline @ newline @ ''[Dev Mode Code: '' @ cs_code sent @ '']'')) else prompt) [] }) }"

definition link_refused :: "'w plane \<Rightarrow> int \<Rightarrow> string \<Rightarrow> string \<Rightarrow> ('w engine, unit) state" where
  "link_refused pl chat what err =
     (if contains err ''already linked'' \<or> contains err ''conflict'' then bundled pl chat ''EmailAlreadyLinked'' None
      else sendMessage chat (Plain (what @ err)) [])"

definition restore_refused :: "'w plane \<Rightarrow> int \<Rightarrow> string \<Rightarrow> string \<Rightarrow> ('w engine, unit) state" where
  "restore_refused pl chat what err =
     (if contains err ''not found'' \<or> contains err ''404'' then bundled pl chat ''RestoreNotFound'' None
      else sendMessage chat (Plain (what @ err)) [])"

definition processLinkEmail :: "'w plane \<Rightarrow> int \<Rightarrow> string \<Rightarrow> time \<Rightarrow> ('w engine, unit) state" where
  "processLinkEmail pl chat given now =
     (let em = trim_space (to_lower given) in
      if \<not> plausible_email em then bundled pl chat ''EmailInvalid'' None
      else do {
        rs \<leftarrow> get_replies pl;
        if reply_of rs ''email_policy'' = ''disabled'' then bundled pl chat ''EmailPolicyDisabled'' None
        else if reply_of rs ''email_otp_enabled'' = ''true''
        then request_code pl chat em ''link_email'' ''awaiting_email_otp''
          (link_refused pl chat ''Failed to request verification code: '') now
        else do {
          r \<leftarrow> CPLinkEmail pl chat em;
          (case r of
            Inl err \<Rightarrow> link_refused pl chat ''Failed to link email: '' err
          | Inr _ \<Rightarrow> bundled pl chat ''EmailLinkedSuccess'' (Some [EscapeString em])) } })"

definition restored :: "'w plane \<Rightarrow> int \<Rightarrow> code_verified \<Rightarrow> ('w engine, unit) state" where
  "restored pl chat v = do {
     e \<leftarrow> State_Monad.get;
     sendMessage chat (Format (pn_bundle pl (bt_lang e) ''RestoreSuccess'') [full_url (getPublicBaseURL pl) (cv_url v)])
       [[Press ''action:status'', Press ''action:devices'']] }"

definition processRestoreAccount ::
    "'w plane \<Rightarrow> int \<Rightarrow> sender option \<Rightarrow> string \<Rightarrow> time \<Rightarrow> ('w engine, unit) state" where
  "processRestoreAccount pl chat from given now =
     (let em = trim_space (to_lower given) in
      if \<not> plausible_email em then bundled pl chat ''EmailInvalid'' None
      else do {
        rs \<leftarrow> get_replies pl;
        if reply_of rs ''email_otp_enabled'' = ''true''
        then request_code pl chat em ''restore_account'' ''awaiting_restore_otp''
          (restore_refused pl chat ''Failed to request verification code: '') now
        else (case sender_names from of (name, first_name, last_name) \<Rightarrow> do {
          r \<leftarrow> CPRestoreAccount pl em chat name first_name last_name;
          (case r of
            Inl err \<Rightarrow> restore_refused pl chat ''Failed to restore account: '' err
          | Inr v \<Rightarrow> restored pl chat v) }) })"

text \<open>What the text of a refusal means to the bot: the code is gone, the guess was wrong, or something else.\<close>

datatype refusal_kind = CodeGone | WrongCode | OtherRefusal

definition refusal_of :: "string \<Rightarrow> refusal_kind" where
  "refusal_of err =
     (if contains err ''expired'' \<or> contains err ''exhausted'' \<or> contains err ''not found'' then CodeGone
      else if contains err ''invalid'' then WrongCode else OtherRefusal)"

definition verify_code ::
    "'w plane \<Rightarrow> int \<Rightarrow> string \<Rightarrow> sender option \<Rightarrow> string \<Rightarrow> (string \<Rightarrow> code_verified \<Rightarrow> ('w engine, unit) state) \<Rightarrow>
      ('w engine, unit) state" where
  "verify_code pl chat given from purpose succeed = do {
     e \<leftarrow> State_Monad.get;
     let otp = trim_space given;
     let em = text_or [] (bt_email e chat);
     if em = [] then do { drop_step chat; bundled pl chat ''OTPExpired'' None }
     else (case sender_names from of (name, first_name, last_name) \<Rightarrow> do {
       r \<leftarrow> CPVerifyEmailOTP pl chat em otp purpose name first_name last_name;
       (case r of
         Inl err \<Rightarrow> (case refusal_of err of
             CodeGone \<Rightarrow> do { drop_step chat; drop_email chat; bundled pl chat ''OTPExpired'' None }
           | WrongCode \<Rightarrow> bundled pl chat ''OTPInvalid'' (Some [int_str 3])
           | OtherRefusal \<Rightarrow> sendMessage chat (Plain (''Verification failed: '' @ err)) [])
       | Inr v \<Rightarrow> do { drop_step chat; drop_email chat; succeed em v }) }) }"

definition processVerifyEmailOTP :: "'w plane \<Rightarrow> int \<Rightarrow> string \<Rightarrow> sender option \<Rightarrow> ('w engine, unit) state" where
  "processVerifyEmailOTP pl chat given from = verify_code pl chat given from ''link_email''
     (\<lambda>em _. bundled pl chat ''EmailLinkedSuccess'' (Some [EscapeString em]))"

definition processVerifyRestoreOTP :: "'w plane \<Rightarrow> int \<Rightarrow> string \<Rightarrow> sender option \<Rightarrow> ('w engine, unit) state" where
  "processVerifyRestoreOTP pl chat given from = verify_code pl chat given from ''restore_account''
     (\<lambda>_ v. restored pl chat v)"

section \<open>Payments\<close>

definition handlePreCheckoutQuery :: "string \<Rightarrow> ('w engine, unit) state" where
  "handlePreCheckoutQuery q = act (Approved q) (\<lambda>w. ((), w))"

definition shortOrderID :: "string \<Rightarrow> string" where
  "shortOrderID t = take 8 t"

definition handleSuccessfulPayment :: "'w plane \<Rightarrow> int \<Rightarrow> string \<Rightarrow> ('w engine, unit) state" where
  "handleSuccessfulPayment pl chat payload =
     (case pn_uuid pl (trim_space payload) of
       None \<Rightarrow> sendMessage chat (Plain ''Payment received, but the order reference is invalid. Support will reconcile it shortly.'') []
     | Some oid \<Rightarrow> do {
         r \<leftarrow> CPConfirmStars pl oid chat;
         (case r of
           Inl err \<Rightarrow> sendMessage chat (Plain (''Payment received for order '' @ shortOrderID payload @
             '', but confirmation failed: '' @ err @ ''. Support will reconcile it shortly.'')) []
         | Inr _ \<Rightarrow> do {
             rs \<leftarrow> get_replies pl;
             let own = reply_of rs ''payment_success'';
             sendTemplatedMessage pl chat ''payment_success''
               (if own = []
                then Plain (''Payment confirmed for order '' @ shortOrderID payload @ ''! Your subscription has been renewed.'')
                else if contains own ''%s'' then Format own [shortOrderID payload] else Plain own) [] rs;
             handleStatus pl chat }) })"

section \<open>Messages\<close>

definition ban_guard :: "'w plane \<Rightarrow> int \<Rightarrow> ('w engine, unit) state \<Rightarrow> ('w engine, unit) state" where
  "ban_guard pl chat go = do {
     r \<leftarrow> CPGetUserByTelegramID pl chat;
     (case r of
       Inr (Some s) \<Rightarrow>
         if banned s then do {
           rs \<leftarrow> get_replies pl;
           e \<leftarrow> State_Monad.get;
           sendMessage chat (resolveBannedMessage rs (pn_bundle pl (bt_lang e) ''BannedMessage'') (ban_reason ''Suspended by admin'' s)) [] }
         else go
     | _ \<Rightarrow> go) }"

definition prompt_for :: "'w plane \<Rightarrow> int \<Rightarrow> string \<Rightarrow> string \<Rightarrow> time \<Rightarrow> ('w engine, unit) state" where
  "prompt_for pl chat step field now = do { setUserState chat step now; bundled pl chat field None }"

definition Fields :: "string \<Rightarrow> string list" where
  "Fields s = List.filter (\<lambda>w. w \<noteq> []) (split_on CHR '' '' (List.map (\<lambda>c. if is_space c then CHR '' '' else c) s))"

text \<open>The commands and the words of the buttons under the text field, in both languages.\<close>

definition commands :: "'w plane \<Rightarrow> lang \<Rightarrow> (string \<times> string list) list" where
  "commands pl l =
     (let b = pn_bundle pl l; ru = pn_bundle pl RU in
      [(''status'', [''/status'', b ''BtnStatus'']),
       (''buy'', [''/buy'', ''/plans'', ''/tariffs'', b ''BtnRenew'', b ''BtnPlans'', ru ''Plans'', ''Plans'']),
       (''trial'', [''/trial'', ''/test'', b ''BtnGetTrial'', ru ''Get Free Trial'', ''Get Free Trial'']),
       (''reset'', [''/reset'', b ''BtnResetKeys'', ru ''Reset Keys'', ''Reset Keys'', ru ''Rotate Keys / Reset Connection'',
          ''Rotate Keys / Reset Connection'']),
       (''devices'', [''/devices'', ''/apps'', ''/connect'', ''/config'', ''/sub'', b ''BtnDeviceWizard'', ru ''Device Setup Wizard'',
          ''Device Setup Wizard'']),
       (''servers'', [''/servers'', ''/nodes'', b ''BtnNodes'', ru ''Server List'', ''Server List'']),
       (''promo'', [''/promo'', b ''BtnEnterPromo'']),
       (''email'', [b ''BtnLinkEmail'', ru ''Link Recovery Email'', ''Link Recovery Email'']),
       (''restore'', [b ''BtnRestore'', ru ''Restore Account'', ''Restore Account'']),
       (''referral'', [''/ref'', ''/referral'', ''/invite'', b ''BtnReferral'', ru ''Referral Program'', ''Referral Program'']),
       (''support'', [''/support'', ''/admin'', b ''BtnSupport'', ru ''Support'', ''Support'']),
       (''help'', [''/help'', ''/commands'', b ''BtnHelp'', ru ''Setup Guide'', ''Setup Guide'', ru ''Help'', ''Help''])])"

definition command_of :: "'w plane \<Rightarrow> lang \<Rightarrow> string \<Rightarrow> string" where
  "command_of pl l t = (case List.find (\<lambda>(_, ws). t \<in> set ws) (commands pl l) of None \<Rightarrow> ''start'' | Some (c, _) \<Rightarrow> c)"

definition run_command :: "'w plane \<Rightarrow> message \<Rightarrow> time \<Rightarrow> string \<Rightarrow> ('w engine, unit) state" where
  "run_command pl msg now c =
     (let chat = ms_chat msg in
      if c = ''status'' then handleStatus pl chat
      else if c = ''buy'' then handleBuy pl chat now
      else if c = ''trial'' then (case ms_from msg of None \<Rightarrow> skip | Some u \<Rightarrow> handleClaimTrial pl chat (sd_username u) [] now)
      else if c = ''reset'' then handleResetPrompt pl chat
      else if c = ''devices'' then handleDeviceWizard pl chat
      else if c = ''servers'' then handleServerList pl chat
      else if c = ''promo'' then prompt_for pl chat ''awaiting_promo'' ''PromoPrompt'' now
      else if c = ''email'' then prompt_for pl chat ''awaiting_email'' ''EmailPrompt'' now
      else if c = ''restore'' then prompt_for pl chat ''awaiting_restore'' ''RestorePrompt'' now
      else if c = ''referral'' then handleReferral pl chat
      else if c = ''support'' then handleSupport pl chat
      else if c = ''help'' then handleHelp pl chat
      else handleStart pl msg [])"

definition plain_message :: "'w plane \<Rightarrow> message \<Rightarrow> time \<Rightarrow> string \<Rightarrow> ('w engine, unit) state" where
  "plain_message pl msg now t =
     (let chat = ms_chat msg in
      if has_prefix t ''/start''
      then do { clearUserState chat; handleStart pl msg (case split_on CHR '' '' t of _ # ref # _ \<Rightarrow> ref | _ \<Rightarrow> []) }
      else if has_prefix t ''/email''
      then (case Fields t of _ # em # _ \<Rightarrow> processLinkEmail pl chat em now | _ \<Rightarrow> prompt_for pl chat ''awaiting_email'' ''EmailPrompt'' now)
      else if has_prefix t ''/restore''
      then (case Fields t of _ # em # _ \<Rightarrow> processRestoreAccount pl chat (ms_from msg) em now
            | _ \<Rightarrow> prompt_for pl chat ''awaiting_restore'' ''RestorePrompt'' now)
      else do { e \<leftarrow> State_Monad.get; run_command pl msg now (command_of pl (bt_lang e) t) })"

definition dialog_message :: "'w plane \<Rightarrow> message \<Rightarrow> time \<Rightarrow> string \<Rightarrow> string option \<Rightarrow> ('w engine, unit) state" where
  "dialog_message pl msg now t step =
     (let chat = ms_chat msg in
      if step = Some ''awaiting_promo'' then do { drop_step chat; processPromoCode pl chat t }
      else if step = Some ''awaiting_email'' then do { drop_step chat; processLinkEmail pl chat t now }
      else if step = Some ''awaiting_email_otp'' then processVerifyEmailOTP pl chat t (ms_from msg)
      else if step = Some ''awaiting_restore'' then do { drop_step chat; processRestoreAccount pl chat (ms_from msg) t now }
      else if step = Some ''awaiting_restore_otp'' then processVerifyRestoreOTP pl chat t (ms_from msg)
      else plain_message pl msg now t)"

definition handleMessage :: "'w plane \<Rightarrow> message \<Rightarrow> time \<Rightarrow> ('w engine, unit) state" where
  "handleMessage pl msg now = ban_guard pl (ms_chat msg) (do {
     e \<leftarrow> State_Monad.get;
     dialog_message pl msg now (trim_space (ms_text msg)) (bt_states e (ms_chat msg)) })"

section \<open>Buttons\<close>

definition claim_button :: "'w plane \<Rightarrow> int \<Rightarrow> sender option \<Rightarrow> string \<Rightarrow> time \<Rightarrow> ('w engine, unit) state" where
  "claim_button pl chat from data now =
     (case from of None \<Rightarrow> skip
      | Some u \<Rightarrow> handleClaimTrial pl chat (sd_username u) (case split_on CHR '':'' data of _ # _ # ref # _ \<Rightarrow> ref | _ \<Rightarrow> []) now)"

definition qr_button :: "'w plane \<Rightarrow> int \<Rightarrow> string \<Rightarrow> ('w engine, unit) state" where
  "qr_button pl chat token =
     (if token = [] then sendMessage chat (Plain ''QR code unavailable: empty subscription reference.'') []
      else own_token pl chat token (sendQRCode pl chat token))"

definition months_of :: "string \<Rightarrow> int" where
  "months_of s = wrap32 (parsed_int s)"

definition press :: "'w plane \<Rightarrow> message \<Rightarrow> sender option \<Rightarrow> string \<Rightarrow> time \<Rightarrow> ('w engine, unit) state" where
  "press pl msg from data now =
     (let chat = ms_chat msg in
      if data \<in> {''action:trial'', ''trial''} \<or> has_prefix data ''action:claim_trial'' then claim_button pl chat from data now
      else if data \<in> {''action:start'', ''start'', ''action:back_main'', ''back_main''} then handleStart pl msg []
      else if data \<in> {''action:status'', ''status''} then handleStatus pl chat
      else if data \<in> {''action:buy'', ''action:plans'', ''plans'', ''buy''} then handleBuy pl chat now
      else if data = ''action:reset_keys'' then handleResetPrompt pl chat
      else if data = ''action:confirm_reset_keys'' then handleConfirmResetKeys pl chat
      else if data = ''action:cancel_reset'' then handleStatus pl chat
      else if data \<in> {''action:devices'', ''devices''} then handleDeviceWizard pl chat
      else if has_prefix data ''action:device:'' then handlePlatformGuide pl chat (drop 14 data)
      else if has_prefix data ''device:'' then handlePlatformGuide pl chat (drop 7 data)
      else if data \<in> {''action:nodes'', ''action:servers'', ''servers''} then handleServerList pl chat
      else if data = ''action:promo'' then prompt_for pl chat ''awaiting_promo'' ''PromoPrompt'' now
      else if data \<in> {''action:email'', ''action:link_email''} then prompt_for pl chat ''awaiting_email'' ''EmailPrompt'' now
      else if data \<in> {''action:restore'', ''action:restore_account''} then prompt_for pl chat ''awaiting_restore'' ''RestorePrompt'' now
      else if data \<in> {''action:referral'', ''referral''} then handleReferral pl chat
      else if data \<in> {''action:help'', ''help''} then handleHelp pl chat
      else if data \<in> {''action:support'', ''support''} then handleSupport pl chat
      else if has_prefix data ''plan:'' then handleSelectDuration pl chat (drop 5 data)
      else if has_prefix data ''dur:'' then
        (case split_on CHR '':'' data of [_, plan_id, m] \<Rightarrow> handleSelectPayment pl chat plan_id (months_of m) | _ \<Rightarrow> skip)
      else if has_prefix data ''pay:'' then
        (case split_on CHR '':'' data of [_, plan_id, m, gateway] \<Rightarrow> handleCheckout pl chat plan_id (months_of m) gateway | _ \<Rightarrow> skip)
      else if has_prefix data ''action:qr:'' then qr_button pl chat (trim_space (drop 10 data))
      else skip)"

definition handleCallbackQuery :: "'w plane \<Rightarrow> callback \<Rightarrow> time \<Rightarrow> ('w engine, unit) state" where
  "handleCallbackQuery pl cb now =
     (case cb_message cb of None \<Rightarrow> skip
      | Some msg \<Rightarrow> do {
          act (Acknowledged (cb_id cb)) (\<lambda>w. ((), w));
          ban_guard pl (ms_chat msg) (press pl msg (cb_from cb) (cb_data cb) now) })"

definition update_language :: "bot_update \<Rightarrow> ('w engine, unit) state" where
  "update_language up =
     (case map_option ms_from (up_message up) of Some (Some u) \<Rightarrow> setLangFromCode (sd_lang u)
      | _ \<Rightarrow> (case map_option cb_from (up_callback up) of Some (Some u) \<Rightarrow> setLangFromCode (sd_lang u)
        | _ \<Rightarrow> (case up_precheckout up of Some (_, code) \<Rightarrow> setLangFromCode code | None \<Rightarrow> skip)))"

definition handleUpdate :: "'w plane \<Rightarrow> bot_update \<Rightarrow> time \<Rightarrow> ('w engine, unit) state" where
  "handleUpdate pl up now = do {
     sweepExpiredStates now;
     update_language up;
     (case up_precheckout up of
       Some (q, _) \<Rightarrow> handlePreCheckoutQuery q
     | None \<Rightarrow> (case up_message up of
         Some msg \<Rightarrow> (case ms_payment msg of
             Some payload \<Rightarrow> handleSuccessfulPayment pl (ms_chat msg) payload
           | None \<Rightarrow> (case up_callback up of Some cb \<Rightarrow> handleCallbackQuery pl cb now | None \<Rightarrow> handleMessage pl msg now))
       | None \<Rightarrow> (case up_callback up of Some cb \<Rightarrow> handleCallbackQuery pl cb now | None \<Rightarrow> skip))) }"

end
