(* ===== verification/Bot_Laws.thy ===== *)
theory Bot_Laws
  imports Bot
begin

text \<open>
  What the bot's histories keep: dialog steps expire, a code is answered for the address and the purpose it
  was asked for, a subscription's picture goes to its own chat, a banned chat is told so and nothing else, and
  the buttons of a purchase lead to the invoice they name. The rules of keeps carry an invariant of the engine
  through a handler.
\<close>

section \<open>Invariants of handlers\<close>

definition keeps_inv :: "('w engine \<Rightarrow> bool) \<Rightarrow> ('w engine, 'a) state \<Rightarrow> bool" where
  "keeps_inv P m \<longleftrightarrow> state_io_rel (\<lambda>e e'. P e \<longrightarrow> P e') m"

named_theorems carry \<open>handlers and steps that keep an invariant\<close>

lemma keeps_invI: "(\<And>e. P e \<Longrightarrow> P (snd (run_state m e))) \<Longrightarrow> keeps_inv P m"
  by (simp add: keeps_inv_def state_io_rel_def)

lemma keeps_invD: "keeps_inv P m \<Longrightarrow> P e \<Longrightarrow> P (snd (run_state m e))"
  by (simp add: keeps_inv_def state_io_rel_def)

lemma run_bind: "snd (run_state (State_Monad.bind m f) e) = snd (run_state (f (fst (run_state m e))) (snd (run_state m e)))"
  by (simp add: case_prod_beta)

lemma keeps_bind [carry]:
  assumes "keeps_inv P m" "\<And>x. keeps_inv P (f x)"
  shows "keeps_inv P (State_Monad.bind m f)"
proof (rule keeps_invI)
  fix e assume "P e"
  then have "P (snd (run_state m e))" by (rule keeps_invD[OF assms(1)])
  then show "P (snd (run_state (State_Monad.bind m f) e))"
    unfolding run_bind by (rule keeps_invD[OF assms(2)])
qed

lemma keeps_return [carry]: "keeps_inv P (State_Monad.return x)"
  by (rule keeps_invI) simp

lemma keeps_get [carry]: "keeps_inv P State_Monad.get"
  by (rule keeps_invI) simp

lemma run_update [simp]: "run_state (State_Monad.update g) e = ((), g e)"
  by (simp add: State_Monad.update_def)

lemma keeps_update: "(\<And>e. P e \<Longrightarrow> P (g e)) \<Longrightarrow> keeps_inv P (State_Monad.update g)"
  by (rule keeps_invI) simp

lemma keeps_if [carry]: "(b \<Longrightarrow> keeps_inv P m) \<Longrightarrow> (\<not> b \<Longrightarrow> keeps_inv P n) \<Longrightarrow> keeps_inv P (if b then m else n)"
  by simp

lemma keeps_option [carry]:
  "(x = None \<Longrightarrow> keeps_inv P m) \<Longrightarrow> (\<And>y. x = Some y \<Longrightarrow> keeps_inv P (f y)) \<Longrightarrow> keeps_inv P (case x of None \<Rightarrow> m | Some y \<Rightarrow> f y)"
  by (cases x) simp_all

lemma keeps_sum [carry]:
  "(\<And>y. x = Inl y \<Longrightarrow> keeps_inv P (f y)) \<Longrightarrow> (\<And>y. x = Inr y \<Longrightarrow> keeps_inv P (g y)) \<Longrightarrow>
    keeps_inv P (case x of Inl y \<Rightarrow> f y | Inr y \<Rightarrow> g y)"
  by (cases x) simp_all

lemma keeps_list [carry]:
  "(x = [] \<Longrightarrow> keeps_inv P m) \<Longrightarrow> (\<And>y ys. x = y # ys \<Longrightarrow> keeps_inv P (f y ys)) \<Longrightarrow>
    keeps_inv P (case x of [] \<Rightarrow> m | y # ys \<Rightarrow> f y ys)"
  by (cases x) simp_all

lemma keeps_prod [carry]: "(\<And>a b. x = (a, b) \<Longrightarrow> keeps_inv P (f a b)) \<Longrightarrow> keeps_inv P (case x of (a, b) \<Rightarrow> f a b)"
  by (cases x) simp

lemma keeps_let [carry]: "keeps_inv P (f a) \<Longrightarrow> keeps_inv P (Let a f)"
  by (simp add: Let_def)

lemma keeps_kind [carry]:
  "keeps_inv P a \<Longrightarrow> keeps_inv P b \<Longrightarrow> keeps_inv P c \<Longrightarrow>
    keeps_inv P (case k of CodeGone \<Rightarrow> a | WrongCode \<Rightarrow> b | OtherRefusal \<Rightarrow> c)"
  by (cases k) simp_all

lemma keeps_read: "(\<And>e. P e \<Longrightarrow> P (snd (run_state (f e) e))) \<Longrightarrow> keeps_inv P (State_Monad.bind State_Monad.get f)"
  by (rule keeps_invI) simp

text \<open>The events that no law restricts.\<close>

fun plain_event :: "bot_event \<Rightarrow> bool" where
  "plain_event (Asked (AskVerify _ _ _ _ _ _ _)) = False"
| "plain_event (Asked (AskInvoice _)) = False"
| "plain_event (Picture _ _ _) = False"
| "plain_event _ = True"

lemma run_act: "snd (run_state (act ev f) e) = e\<lparr>bt_world := snd (f (bt_world e)), bt_log := bt_log e @ [ev]\<rparr>"
  by (simp add: act_def case_prod_beta)

text \<open>An invariant that plain events and a change of the payment token leave alone.\<close>

locale bot_invariant =
  fixes P :: "'w engine \<Rightarrow> bool"
  assumes plain_act: "P e \<Longrightarrow> plain_event ev \<Longrightarrow> P (e\<lparr>bt_world := w, bt_log := bt_log e @ [ev]\<rparr>)"
    and token_kept: "P e \<Longrightarrow> P (e\<lparr>bt_token := t\<rparr>)"
begin

lemma keeps_act [carry]: "plain_event ev \<Longrightarrow> keeps_inv P (act ev f)"
  by (rule keeps_invI) (simp add: run_act plain_act)

lemma keeps_ask [carry]: "plain_event (Asked r) \<Longrightarrow> keeps_inv P (ask r g f)"
  unfolding ask_def by (rule keeps_act)

lemma keeps_calls [carry]:
  "keeps_inv P (CPGetTrialPlan pl)" "keeps_inv P (CPListPlans pl)" "keeps_inv P (CPGetUserByTelegramID pl tg)"
  "keeps_inv P (CPCreateTrial pl tg name ref)" "keeps_inv P (CPRotateKeys pl uid)" "keeps_inv P (CPConfirmStars pl oid tg)"
  "keeps_inv P (CPListActiveNodes pl)" "keeps_inv P (CPValidatePromo pl code)" "keeps_inv P (CPGetConfig pl token fmt)"
  "keeps_inv P (CPGetBillingSettings pl)" "keeps_inv P (CPGetReferralStats pl tg)" "keeps_inv P (CPUpsertLead pl q)"
  "keeps_inv P (CPGetBotReplies pl)" "keeps_inv P (CPLinkEmail pl tg em)" "keeps_inv P (CPRequestEmailOTP pl tg em purpose)"
  "keeps_inv P (CPRestoreAccount pl em tg name f l)"
  by (simp_all add: keeps_ask CPGetTrialPlan_def CPListPlans_def CPGetUserByTelegramID_def CPCreateTrial_def CPRotateKeys_def
      CPConfirmStars_def CPListActiveNodes_def CPValidatePromo_def CPGetConfig_def CPGetBillingSettings_def
      CPGetReferralStats_def CPUpsertLead_def CPGetBotReplies_def CPLinkEmail_def CPRequestEmailOTP_def CPRestoreAccount_def)

lemma keeps_messages [carry]:
  "keeps_inv P (say_with media chat t kb)" "keeps_inv P (sendMessage chat t kb)"
  by (simp_all add: say_with_def sendMessage_def keeps_act)

lemma keeps_replies [carry]: "keeps_inv P (get_replies pl)"
  unfolding get_replies_def by (intro carry)

lemma keeps_templated [carry]: "keeps_inv P (sendTemplatedMessage pl chat key t kb rs)"
  unfolding sendTemplatedMessage_def by (intro carry)

lemma keeps_bundled [carry]: "keeps_inv P (bundled pl chat field args)"
  unfolding bundled_def by (intro carry)

lemma keeps_starts [carry]: "keeps_inv P (start_known pl chat s rs)" "keeps_inv P (start_new pl chat ref rs)"
  unfolding start_known_def start_new_def by (intro carry)+

lemma keeps_handleStart [carry]: "keeps_inv P (handleStart pl msg ref)"
  unfolding handleStart_def by (intro carry)

lemma keeps_views [carry]:
  "keeps_inv P (handleStatus pl chat)" "keeps_inv P (handleHelp pl chat)" "keeps_inv P (handleSupport pl chat)"
  "keeps_inv P (handleServerList pl chat)" "keeps_inv P (handleReferral pl chat)" "keeps_inv P (handleDeviceWizard pl chat)"
  "keeps_inv P (handleSelectDuration pl chat plan)" "keeps_inv P (handleResetPrompt pl chat)"
  unfolding handleStatus_def handleHelp_def handleSupport_def handleServerList_def handleReferral_def handleDeviceWizard_def
    handleSelectDuration_def handleResetPrompt_def
  by (intro carry)+

lemma keeps_files [carry]: "keeps_inv P (config_file pl token)" "keeps_inv P (send_file chat file)"
  unfolding config_file_def send_file_def by (intro carry; simp)+

lemma keeps_reset [carry]: "keeps_inv P (handleConfirmResetKeys pl chat)"
  unfolding handleConfirmResetKeys_def by (intro carry)

lemma keeps_guide [carry]: "keeps_inv P (handlePlatformGuide pl chat platform)"
  unfolding handlePlatformGuide_def by (intro carry)

lemma keeps_token [carry]: "keeps_inv P (keep_token t)"
  unfolding keep_token_def by (intro carry keeps_update token_kept)

lemma keeps_payment [carry]: "keeps_inv P (handleSelectPayment pl chat plan m)"
  unfolding handleSelectPayment_def by (intro carry)

lemma keeps_paid [carry]: "keeps_inv P (handleSuccessfulPayment pl chat payload)"
  unfolding handleSuccessfulPayment_def by (intro carry)

lemma keeps_claim [carry]: "keeps_inv P (claim_trial pl chat name ref)" "keeps_inv P (outside_channel rs pl chat)"
    "keeps_inv P (email_missing rs pl chat)"
  unfolding claim_trial_def outside_channel_def email_missing_def by (intro carry; simp)+

lemma keeps_links [carry]:
  "keeps_inv P (crypto_link pl im n)" "keeps_inv P (send_stars pl chat im n)" "keeps_inv P (send_link pl chat gw im n)"
proof -
  show 1: "keeps_inv P (crypto_link pl im n)" for im n
    unfolding crypto_link_def by (intro carry; simp)
  show "keeps_inv P (send_stars pl chat im n)" unfolding send_stars_def by (intro carry; simp)
  show "keeps_inv P (send_link pl chat gw im n)" unfolding send_link_def by (intro carry 1)
qed

end

text \<open>One that the promo codes in store leave alone, too.\<close>

locale bot_dialog_invariant = bot_invariant P for P :: "'w engine \<Rightarrow> bool" +
  assumes promo_kept: "P e \<Longrightarrow> P (e\<lparr>bt_promo := m\<rparr>)"
begin

lemma keeps_promo [carry]: "keeps_inv P (processPromoCode pl chat code)" "keeps_inv P (drop_promo chat)"
  unfolding processPromoCode_def drop_promo_def by (intro carry keeps_update promo_kept | assumption)+

end

section \<open>Histories\<close>

definition NewBotEngine :: "string \<Rightarrow> 'w \<Rightarrow> 'w engine" where
  "NewBotEngine token w = \<lparr>bt_states = Map.empty, bt_state_at = Map.empty, bt_email = Map.empty, bt_promo = Map.empty,
     bt_lang = EN, bt_token = token, bt_log = [], bt_world = w\<rparr>"

definition bot_step :: "'w plane \<Rightarrow> time \<times> bot_update \<Rightarrow> 'w engine \<Rightarrow> 'w engine" where
  "bot_step pl x e = snd (run_state (handleUpdate pl (snd x) (fst x)) e)"

definition bot_run :: "'w plane \<Rightarrow> (time \<times> bot_update) list \<Rightarrow> 'w engine \<Rightarrow> 'w engine" where
  "bot_run pl xs e = fold (bot_step pl) xs e"

text \<open>An answer repeats an address and a purpose that its chat asked a code for; a picture shows its chat's token.\<close>

fun vetted :: "'w plane \<Rightarrow> bot_event list \<Rightarrow> bot_event \<Rightarrow> bool" where
  "vetted pl past (Asked (AskVerify chat em otp purpose n f l)) \<longleftrightarrow> Asked (AskCode chat em purpose) \<in> set past"
| "vetted pl past (Picture chat token url) \<longleftrightarrow>
     (\<exists>w s. user_answer (fst (pn_user pl chat w)) = Inr (Some s) \<and> sb_token s = token)"
| "vetted pl past _ \<longleftrightarrow> True"

primrec sound_log :: "'w plane \<Rightarrow> bot_event list \<Rightarrow> bot_event list \<Rightarrow> bool" where
  "sound_log pl past [] \<longleftrightarrow> True"
| "sound_log pl past (ev # evs) \<longleftrightarrow> vetted pl past ev \<and> sound_log pl (past @ [ev]) evs"

lemma sound_log_append: "sound_log pl past (xs @ ys) \<longleftrightarrow> sound_log pl past xs \<and> sound_log pl (past @ xs) ys"
  by (induction xs arbitrary: past) auto

text \<open>The step of a chat is young, and where it waits for a code it knows the address.\<close>

definition code_known :: "'w engine \<Rightarrow> int \<Rightarrow> string \<Rightarrow> bool" where
  "code_known e chat purpose \<longleftrightarrow>
     (\<exists>em. em \<noteq> [] \<and> bt_email e chat = Some em \<and> Asked (AskCode chat em purpose) \<in> set (bt_log e))"

definition step_ok :: "time \<Rightarrow> 'w engine \<Rightarrow> int \<Rightarrow> string \<Rightarrow> bool" where
  "step_ok now e chat step \<longleftrightarrow>
     (case bt_state_at e chat of None \<Rightarrow> False | Some since \<Rightarrow> now - since \<le> dialogTTL) \<and>
     (step = ''awaiting_email_otp'' \<longrightarrow> code_known e chat ''link_email'') \<and>
     (step = ''awaiting_restore_otp'' \<longrightarrow> code_known e chat ''restore_account'')"

definition dialogs_ok :: "time \<Rightarrow> 'w engine \<Rightarrow> bool" where
  "dialogs_ok now e \<longleftrightarrow> (\<forall>chat step. bt_states e chat = Some step \<longrightarrow> step_ok now e chat step)"

definition bot_ok :: "'w plane \<Rightarrow> time \<Rightarrow> 'w engine \<Rightarrow> bool" where
  "bot_ok pl now e \<longleftrightarrow> sound_log pl [] (bt_log e) \<and> dialogs_ok now e"

lemmas bot_ok_defs = bot_ok_def dialogs_ok_def step_ok_def code_known_def

lemma ok_event:
  assumes "bot_ok pl now e" "vetted pl (bt_log e) ev"
  shows "bot_ok pl now (e\<lparr>bt_world := w, bt_log := bt_log e @ [ev]\<rparr>)"
proof -
  have "sound_log pl [] (bt_log e @ [ev])" using assms by (simp add: bot_ok_def sound_log_append)
  moreover have "step_ok now (e\<lparr>bt_world := w, bt_log := bt_log e @ [ev]\<rparr>) chat step" if "step_ok now e chat step" for chat step
    using that unfolding step_ok_def code_known_def by (auto split: option.splits)
  ultimately show ?thesis using assms(1) by (simp add: bot_ok_def dialogs_ok_def)
qed

lemma plain_vetted: "plain_event ev \<Longrightarrow> vetted pl past ev"
  by (cases "(pl, past, ev)" rule: vetted.cases) simp_all

lemma ok_frame:
  assumes "bot_ok pl now e" "bt_states e' = bt_states e" "bt_state_at e' = bt_state_at e" "bt_email e' = bt_email e" "bt_log e' = bt_log e"
  shows "bot_ok pl now e'"
  using assms by (simp add: bot_ok_defs)

interpretation dialogs: bot_dialog_invariant "bot_ok pl now" for pl :: "'w plane" and now
  by unfold_locales (auto intro: ok_event plain_vetted elim: ok_frame)

lemma ok_act: "(\<And>past. vetted pl past ev) \<Longrightarrow> keeps_inv (bot_ok pl now) (act ev f)"
  by (rule keeps_invI) (simp add: run_act ok_event)

lemma ok_invoice [carry]: "keeps_inv (bot_ok pl now) (CPCreateInvoice pl' q)"
  unfolding CPCreateInvoice_def ask_def by (rule ok_act) simp

lemma ok_checkout [carry]: "keeps_inv (bot_ok pl now) (handleCheckout pl' chat p m g)"
  unfolding handleCheckout_def order_invoice_def by (intro carry)

text \<open>Setting a step that waits for no code, and dropping a step with what it waits for.\<close>

lemma ok_step [carry]:
  assumes "step \<notin> {''awaiting_email_otp'', ''awaiting_restore_otp''}"
  shows "keeps_inv (bot_ok pl now) (setUserState chat step now)"
  unfolding setUserState_def
  by (rule keeps_update) (use assms in \<open>auto simp: bot_ok_defs dialogTTL_def time_units split: if_splits\<close>)

lemma ok_drop [carry]: "keeps_inv (bot_ok pl now) (drop_step chat)"
  unfolding drop_step_def by (rule keeps_update) (auto simp: bot_ok_defs split: if_splits)

lemma ok_forget:
  assumes "keeps_inv (bot_ok pl now) m"
  shows "keeps_inv (bot_ok pl now) (do { drop_step chat; drop_email chat; m })"
proof (rule keeps_invI)
  fix e :: "'a engine" assume e: "bot_ok pl now e"
  let ?e = "e\<lparr>bt_states := (bt_states e)(chat := None), bt_state_at := (bt_state_at e)(chat := None),
    bt_email := (bt_email e)(chat := None)\<rparr>"
  have "bot_ok pl now ?e" using e by (auto simp: bot_ok_defs split: if_splits)
  then show "bot_ok pl now (snd (run_state (do { drop_step chat; drop_email chat; m }) e))"
    using keeps_invD[OF assms] by (simp add: drop_step_def drop_email_def)
qed

lemma ok_clear [carry]: "keeps_inv (bot_ok pl now) (clearUserState chat)"
  unfolding clearUserState_def by (intro ok_forget carry)

lemma ok_request [carry]:
  assumes "\<And>err. keeps_inv (bot_ok pl now) (refused err)" "em \<noteq> []"
    and "(step, purpose) \<in> {(''awaiting_email_otp'', ''link_email''), (''awaiting_restore_otp'', ''restore_account'')}"
  shows "keeps_inv (bot_ok pl now) (request_code pl' chat em purpose step refused now)"
proof (rule keeps_invI)
  fix e :: "'a engine" assume e: "bot_ok pl now e"
  define r where "r = run_state (CPRequestEmailOTP pl' chat em purpose) e"
  have r: "bot_ok pl now (snd r)" "Asked (AskCode chat em purpose) \<in> set (bt_log (snd r))"
    using keeps_invD[OF dialogs.keeps_calls(15) e] by (simp_all add: r_def CPRequestEmailOTP_def ask_def run_act)
  show "bot_ok pl now (snd (run_state (request_code pl' chat em purpose step refused now) e))"
  proof (cases "fst r")
    case (Inl err)
    then show ?thesis using keeps_invD[OF assms(1) r(1)] by (simp add: request_code_def r_def case_prod_beta)
  next
    case (Inr sent)
    let ?e = "snd r\<lparr>bt_states := (bt_states (snd r))(chat \<mapsto> step), bt_state_at := (bt_state_at (snd r))(chat \<mapsto> now),
        bt_email := (bt_email (snd r))(chat \<mapsto> em)\<rparr>"
    have "bot_ok pl now ?e"
      using r assms(2,3) by (auto simp: bot_ok_defs dialogTTL_def time_units split: if_splits)
    then have "bot_ok pl now (snd (run_state (sendMessage chat t []) ?e))" for t
      by (rule keeps_invD[OF dialogs.keeps_messages(2)])
    then show ?thesis using Inr
      by (simp add: request_code_def setUserState_def r_def case_prod_beta Let_def)
  qed
qed

lemma plausible_ne: "plausible_email em \<Longrightarrow> em \<noteq> []"
  by (auto simp: plausible_email_def)

lemma ok_addresses [carry]:
  "keeps_inv (bot_ok pl now) (processLinkEmail pl' chat given now)"
  "keeps_inv (bot_ok pl now) (processRestoreAccount pl' chat from given now)"
  unfolding processLinkEmail_def processRestoreAccount_def restored_def link_refused_def restore_refused_def Let_def
  by (intro carry; simp add: plausible_ne)+

text \<open>The answer to a code, where the step of the chat waits for one.\<close>

lemma ok_verify:
  assumes e: "bot_ok pl now e" and at: "bt_states e chat = Some step"
    and p: "(step, purpose) \<in> {(''awaiting_email_otp'', ''link_email''), (''awaiting_restore_otp'', ''restore_account'')}"
    and go: "\<And>em v. keeps_inv (bot_ok pl now) (succeed em v)"
  shows "bot_ok pl now (snd (run_state (verify_code pl' chat given from purpose succeed) e))"
proof -
  have "code_known e chat purpose" using e at p by (auto simp: bot_ok_def dialogs_ok_def step_ok_def)
  then obtain em where em: "em \<noteq> []" "bt_email e chat = Some em" "Asked (AskCode chat em purpose) \<in> set (bt_log e)"
    by (auto simp: code_known_def)
  obtain n f l where names: "sender_names from = (n, f, l)" by (cases "sender_names from")
  define m where "m = CPVerifyEmailOTP pl' chat em (trim_space given) purpose n f l"
  have 1: "bot_ok pl now (snd (run_state m e))"
    unfolding m_def CPVerifyEmailOTP_def ask_def run_act by (rule ok_event[OF e]) (simp add: em(3))
  define k where "k = (\<lambda>r. case r of
         Inl err \<Rightarrow> (case refusal_of err of
             CodeGone \<Rightarrow> do { drop_step chat; drop_email chat; bundled pl' chat ''OTPExpired'' None }
           | WrongCode \<Rightarrow> bundled pl' chat ''OTPInvalid'' (Some [int_str 3])
           | OtherRefusal \<Rightarrow> sendMessage chat (Plain (''Verification failed: '' @ err)) [])
       | Inr v \<Rightarrow> do { drop_step chat; drop_email chat; succeed em v })"
  have "keeps_inv (bot_ok pl now) (k r)" for r
    unfolding k_def by (intro carry ok_forget go)
  from keeps_invD[OF this 1] have "bot_ok pl now (snd (run_state (State_Monad.bind m k) e))"
    by (simp add: case_prod_beta)
  then show ?thesis unfolding m_def k_def by (simp add: verify_code_def em(1,2) names Let_def)
qed

lemma ok_own_token:
  assumes "(\<exists>w s. user_answer (fst (pn_user pl chat w)) = Inr (Some s) \<and> sb_token s = token) \<Longrightarrow> keeps_inv (bot_ok pl now) go"
  shows "keeps_inv (bot_ok pl now) (own_token pl chat token go)"
proof (rule keeps_invI)
  fix e :: "'a engine" assume e: "bot_ok pl now e"
  define r where "r = run_state (CPGetUserByTelegramID pl chat) e"
  have 1: "bot_ok pl now (snd r)" unfolding r_def by (rule keeps_invD[OF dialogs.keeps_calls(3) e])
  have ans: "fst r = user_answer (fst (pn_user pl chat (bt_world e)))"
    by (simp add: r_def CPGetUserByTelegramID_def ask_def act_def case_prod_beta)
  have say: "bot_ok pl now (snd (run_state (sendMessage chat t []) (snd r)))" for t
    by (rule keeps_invD[OF dialogs.keeps_messages(2) 1])
  show "bot_ok pl now (snd (run_state (own_token pl chat token go) e))"
  proof (cases "\<exists>s. fst r = Inr (Some s) \<and> sb_token s = token")
    case True
    then have "keeps_inv (bot_ok pl now) go" using ans assms by metis
    from keeps_invD[OF this 1] show ?thesis
      using True by (auto simp: own_token_def r_def case_prod_beta)
  next
    case False
    then show ?thesis using say
      by (auto simp: own_token_def r_def[symmetric] case_prod_beta split: sum.splits option.splits)
  qed
qed

lemma ok_pictures [carry]: "keeps_inv (bot_ok pl now) (sendQRCode pl chat token)" "keeps_inv (bot_ok pl now) (qr_button pl chat token)"
proof -
  show 1: "keeps_inv (bot_ok pl now) (sendQRCode pl chat token)"
    unfolding sendQRCode_def Let_def by (intro carry ok_own_token ok_act; simp)
  show "keeps_inv (bot_ok pl now) (qr_button pl chat token)"
    unfolding qr_button_def by (intro carry ok_own_token 1)
qed

lemma ok_asks [carry]:
  "keeps_inv (bot_ok pl now) (prompt_for pl' chat ''awaiting_promo'' field now)"
  "keeps_inv (bot_ok pl now) (prompt_for pl' chat ''awaiting_email'' field now)"
  "keeps_inv (bot_ok pl now) (prompt_for pl' chat ''awaiting_restore'' field now)"
  "keeps_inv (bot_ok pl now) (ask_email pl' chat now)"
  unfolding prompt_for_def ask_email_def by (intro carry; simp)+

lemma ok_sales [carry]:
  "keeps_inv (bot_ok pl now) (handleClaimTrial pl' chat name ref now)" "keeps_inv (bot_ok pl now) (handleBuy pl' chat now)"
  unfolding handleClaimTrial_def handleBuy_def by (intro carry)+

lemma ok_claim_button [carry]: "keeps_inv (bot_ok pl now) (claim_button pl' chat from data now)"
  unfolding claim_button_def by (intro carry)

lemma ok_press [carry]: "keeps_inv (bot_ok pl now) (press pl msg from data now)"
  unfolding press_def Let_def by (intro carry)

lemma ok_plain_message [carry]: "keeps_inv (bot_ok pl now) (plain_message pl msg now t)"
  unfolding plain_message_def run_command_def Let_def by (intro carry)

lemma ok_dialog_message:
  assumes "bot_ok pl now e"
  shows "bot_ok pl now (snd (run_state (dialog_message pl msg now t (bt_states e (ms_chat msg))) e))"
proof -
  let ?chat = "ms_chat msg" and ?step = "bt_states e (ms_chat msg)"
  have "keeps_inv (bot_ok pl now) (dialog_message pl msg now t ?step)"
    if "?step \<noteq> Some ''awaiting_email_otp''" "?step \<noteq> Some ''awaiting_restore_otp''"
    using that unfolding dialog_message_def Let_def by (simp only: if_False) (intro carry)
  moreover have "bot_ok pl now (snd (run_state (dialog_message pl msg now t ?step) e))" if "?step = Some ''awaiting_email_otp''"
    unfolding that dialog_message_def processVerifyEmailOTP_def Let_def
    by simp (rule ok_verify[OF assms that], simp, rule dialogs.keeps_bundled)
  moreover have "bot_ok pl now (snd (run_state (dialog_message pl msg now t ?step) e))" if "?step = Some ''awaiting_restore_otp''"
    unfolding that dialog_message_def processVerifyRestoreOTP_def restored_def Let_def
    by simp (rule ok_verify[OF assms that], simp, intro carry)
  ultimately show ?thesis using keeps_invD assms by blast
qed

lemma ok_guard [carry]:
  assumes "keeps_inv (bot_ok pl now) go"
  shows "keeps_inv (bot_ok pl now) (ban_guard pl' chat go)"
  unfolding ban_guard_def by (intro carry assms)

lemma ok_handleMessage [carry]: "keeps_inv (bot_ok pl now) (handleMessage pl msg now)"
  unfolding handleMessage_def by (intro ok_guard keeps_read ok_dialog_message)

lemma ok_callback [carry]: "keeps_inv (bot_ok pl now) (handleCallbackQuery pl cb now)"
  unfolding handleCallbackQuery_def by (intro carry; simp)

lemma ok_language [carry]: "keeps_inv (bot_ok pl now) (update_language up)"
proof -
  have "keeps_inv (bot_ok pl now) (setLangFromCode code)" for code
    unfolding setLangFromCode_def by (rule keeps_update) (auto elim: ok_frame)
  then show ?thesis unfolding update_language_def by (intro carry)
qed

lemma ok_sweep:
  assumes "bot_ok pl before e"
  shows "bot_ok pl now (sweep now e)"
proof -
  have "step_ok now (sweep now e) chat step" if "bt_states (sweep now e) chat = Some step" for chat step
  proof -
    have fresh: "\<not> stale now e chat" "bt_states e chat = Some step"
      using that by (auto simp: sweep_def Let_def split: if_splits)
    then have "step_ok before e chat step" using assms by (simp add: bot_ok_def dialogs_ok_def)
    then show ?thesis using fresh(1)
      by (auto simp: step_ok_def code_known_def stale_def sweep_def Let_def split: option.splits)
  qed
  then show ?thesis using assms by (simp add: bot_ok_def dialogs_ok_def) (simp add: sweep_def Let_def)
qed

lemma ok_update:
  assumes "bot_ok pl before e"
  shows "bot_ok pl now (bot_step pl (now, up) e)"
proof -
  define body where "body = (case up_precheckout up of
       Some (q, _) \<Rightarrow> handlePreCheckoutQuery q
     | None \<Rightarrow> (case up_message up of
         Some msg \<Rightarrow> (case ms_payment msg of
             Some payload \<Rightarrow> handleSuccessfulPayment pl (ms_chat msg) payload
           | None \<Rightarrow> (case up_callback up of Some cb \<Rightarrow> handleCallbackQuery pl cb now | None \<Rightarrow> handleMessage pl msg now))
       | None \<Rightarrow> (case up_callback up of Some cb \<Rightarrow> handleCallbackQuery pl cb now | None \<Rightarrow> skip)))"
  have "keeps_inv (bot_ok pl now) (do { update_language up; body })"
    unfolding body_def handlePreCheckoutQuery_def by (intro carry; simp)
  from keeps_invD[OF this ok_sweep[OF assms]] show ?thesis
    unfolding body_def by (simp add: bot_step_def handleUpdate_def sweepExpiredStates_def)
qed

lemma ok_run: "bot_ok pl before e \<Longrightarrow> \<exists>now. bot_ok pl now (bot_run pl ups e)"
proof (induction ups arbitrary: e before)
  case (Cons x ups)
  have "bot_ok pl (fst x) (bot_step pl x e)" using ok_update[OF Cons.prems, of "fst x" "snd x"] by simp
  from Cons.IH[OF this] show ?case by (simp add: bot_run_def)
qed (auto simp: bot_run_def)

lemma ok_new: "bot_ok pl now (NewBotEngine token w)"
  by (simp add: bot_ok_defs NewBotEngine_def)

text \<open>
  C21. Dialogs of the bot. After any history of updates, whatever the control plane and Telegram answer: no
  dialog step is older than fifteen minutes, a step that waits for a code knows the address a code was asked
  for, every answer to a code that the bot ever sent repeats an address and a purpose for which the same chat
  had asked a code before, and every picture it ever sent shows a token that the control plane named as the
  chat's own.
\<close>

theorem bot_dialogs_sound:
  "let e = bot_run pl (ups @ [(now, up)]) (NewBotEngine token w)
   in sound_log pl [] (bt_log e) \<and> dialogs_ok now e"
proof -
  obtain before where "bot_ok pl before (bot_run pl ups (NewBotEngine token w))" using ok_run[OF ok_new[of pl now token w], of ups] by blast
  from ok_update[OF this, of now up] show ?thesis by (simp add: bot_run_def bot_ok_def Let_def)
qed

section \<open>Banned chats\<close>

text \<open>The chat of a message or of a pressed button; a payment or its approval is not a dialog.\<close>

definition addressed :: "bot_update \<Rightarrow> int option" where
  "addressed up =
     (if up_precheckout up \<noteq> None then None
      else case up_message up of
        Some msg \<Rightarrow> (if ms_payment msg \<noteq> None then None
          else case up_callback up of Some cb \<Rightarrow> map_option ms_chat (cb_message cb) | None \<Rightarrow> Some (ms_chat msg))
      | None \<Rightarrow> (case up_callback up of Some cb \<Rightarrow> map_option ms_chat (cb_message cb) | None \<Rightarrow> None))"

lemma language_frame:
  "\<exists>l. snd (run_state (update_language up) e) = e\<lparr>bt_lang := l\<rparr>"
proof -
  have "\<exists>l. e = e\<lparr>bt_lang := l\<rparr>" by (rule exI[of _ "bt_lang e"]) simp
  then show ?thesis
    by (auto simp: update_language_def setLangFromCode_def split: option.splits)
qed

lemma guard_stops:
  assumes "user_answer (fst (pn_user pl chat (bt_world e))) = Inr (Some s)" "banned s"
  shows "\<exists>rs dflt w. snd (run_state (ban_guard pl chat go) e) =
    e\<lparr>bt_world := w, bt_log := bt_log e @ [Asked (AskUser chat), Asked AskReplies,
       Sent chat [] (resolveBannedMessage rs dflt (ban_reason ''Suspended by admin'' s)) []]\<rparr>"
  using assms by (auto simp: ban_guard_def CPGetUserByTelegramID_def get_replies_def CPGetBotReplies_def ask_def act_def
      sendMessage_def say_with_def case_prod_beta)

text \<open>
  C23. Banned subscribers. A message or a pressed button of a chat whose subscriber the control plane reports
  as banned is answered with the ban notice and its reason and with nothing else: apart from the lookup of the
  subscriber and of the texts the bot asks nothing of the control plane, and no dialog step, address or promo
  code changes beyond their expiry.
\<close>

theorem banned_chat_inert:
  assumes "addressed up = Some chat" "user_answer (fst (pn_user pl chat (bt_world e))) = Inr (Some s)" "banned s"
  shows "\<exists>ack rs dflt. bt_log (bot_step pl (now, up) e) = bt_log e @ ack @ [Asked (AskUser chat), Asked AskReplies,
       Sent chat [] (resolveBannedMessage rs dflt (ban_reason ''Suspended by admin'' s)) []] \<and>
     set ack \<subseteq> range Acknowledged \<and> bt_states (bot_step pl (now, up) e) = bt_states (sweep now e) \<and>
     bt_email (bot_step pl (now, up) e) = bt_email (sweep now e) \<and> bt_promo (bot_step pl (now, up) e) = bt_promo (sweep now e)"
proof -
  obtain l where l: "snd (run_state (update_language up) (sweep now e)) = (sweep now e)\<lparr>bt_lang := l\<rparr>"
    using language_frame by blast
  let ?e = "(sweep now e)\<lparr>bt_lang := l\<rparr>"
  have w: "bt_world (sweep now e) = bt_world e" "bt_log (sweep now e) = bt_log e" by (simp_all add: sweep_def Let_def)
  have none: "up_precheckout up = None" using assms(1) by (cases "up_precheckout up") (simp_all add: addressed_def)
  consider (msg) msg where "up_message up = Some msg" "ms_payment msg = None" "up_callback up = None" "ms_chat msg = chat"
    | (cb) cb msg where "up_callback up = Some cb" "cb_message cb = Some msg" "ms_chat msg = chat"
        "up_message up = None \<or> (\<exists>m. up_message up = Some m \<and> ms_payment m = None)"
    using assms(1) by (auto simp: addressed_def split: if_splits option.splits)
  then show ?thesis
  proof cases
    case msg
    have "user_answer (fst (pn_user pl chat (bt_world ?e))) = Inr (Some s)" using assms(2) w by simp
    note guard_stops[OF this assms(3)]
    then obtain rs dflt w' where g: "snd (run_state (handleMessage pl msg now) ?e) = ?e\<lparr>bt_world := w', bt_log := bt_log ?e @
        [Asked (AskUser chat), Asked AskReplies, Sent chat [] (resolveBannedMessage rs dflt (ban_reason ''Suspended by admin'' s)) []]\<rparr>"
      unfolding handleMessage_def msg(4) by blast
    have "bot_step pl (now, up) e = snd (run_state (handleMessage pl msg now) ?e)"
      using none msg l by (simp add: bot_step_def handleUpdate_def sweepExpiredStates_def case_prod_beta)
    then show ?thesis unfolding g by (intro exI[of _ "[]"] exI[of _ rs] exI[of _ dflt]) (simp add: w)
  next
    case cb
    let ?f = "?e\<lparr>bt_log := bt_log e @ [Acknowledged (cb_id cb)]\<rparr>"
    have "user_answer (fst (pn_user pl chat (bt_world ?f))) = Inr (Some s)" using assms(2) w by simp
    note guard_stops[OF this assms(3)]
    then obtain rs dflt w' where g: "snd (run_state (ban_guard pl chat (press pl msg (cb_from cb) (cb_data cb) now)) ?f) =
        ?f\<lparr>bt_world := w', bt_log := bt_log ?f @ [Asked (AskUser chat), Asked AskReplies,
          Sent chat [] (resolveBannedMessage rs dflt (ban_reason ''Suspended by admin'' s)) []]\<rparr>"
      by blast
    have "bot_step pl (now, up) e = snd (run_state (handleCallbackQuery pl cb now) ?e)"
      using none cb(1,4) l by (auto simp: bot_step_def handleUpdate_def sweepExpiredStates_def case_prod_beta)
    also have "\<dots> = snd (run_state (ban_guard pl chat (press pl msg (cb_from cb) (cb_data cb) now)) ?f)"
      using cb(2,3) by (simp add: handleCallbackQuery_def act_def case_prod_beta w)
    finally show ?thesis unfolding g
      by (intro exI[of _ "[Acknowledged (cb_id cb)]"] exI[of _ rs] exI[of _ dflt]) (simp add: w)
  qed
qed

section \<open>Purchase\<close>

primrec invoices :: "bot_event list \<Rightarrow> invoice_ask list" where
  "invoices [] = []"
| "invoices (ev # evs) = (case ev of Asked (AskInvoice q) \<Rightarrow> q # invoices evs | _ \<Rightarrow> invoices evs)"

lemma invoices_append [simp]: "invoices (xs @ ys) = invoices xs @ invoices ys"
  by (induction xs) (auto split: bot_event.splits request.splits)

lemma plain_no_invoice: "plain_event ev \<Longrightarrow> invoices [ev] = []"
  by (cases ev rule: plain_event.cases) simp_all

interpretation orders: bot_dialog_invariant "\<lambda>e :: 'w engine. invoices (bt_log e) = qs" for qs
  by unfold_locales (simp_all add: plain_no_invoice del: invoices.simps)

interpretation purse: bot_invariant "\<lambda>e :: 'w engine. bt_promo e = m" for m
  by unfold_locales auto

lemma keeps_conj: "keeps_inv P m \<Longrightarrow> keeps_inv Q m \<Longrightarrow> keeps_inv (\<lambda>e. P e \<and> Q e) m"
  by (simp add: keeps_inv_def state_io_rel_def)

lemma press_buttons:
  "press pl msg from (''plan:'' @ p) now = handleSelectDuration pl (ms_chat msg) p"
  "CHR '':'' \<notin> set p \<Longrightarrow> CHR '':'' \<notin> set k \<Longrightarrow>
    press pl msg from (duration_data p k) now = handleSelectPayment pl (ms_chat msg) p (months_of k)"
  "CHR '':'' \<notin> set p \<Longrightarrow> CHR '':'' \<notin> set g \<Longrightarrow>
    press pl msg from (payment_data p m g) now = handleCheckout pl (ms_chat msg) p (months_of (int_str m)) g"
proof -
  have s: "split_on CHR '':'' (a @ CHR '':'' # b) = a # split_on CHR '':'' b" if "CHR '':'' \<notin> set a" for a b
    using that by (rule split_on_append)
  show "press pl msg from (''plan:'' @ p) now = handleSelectDuration pl (ms_chat msg) p"
    by (simp add: press_def has_prefix_def)
  show "press pl msg from (duration_data p k) now = handleSelectPayment pl (ms_chat msg) p (months_of k)"
    if "CHR '':'' \<notin> set p" "CHR '':'' \<notin> set k"
    using that by (simp add: press_def has_prefix_def duration_data_def s split_on_plain)
  have "CHR '':'' \<notin> set (int_str m)" by simp
  then show "press pl msg from (payment_data p m g) now = handleCheckout pl (ms_chat msg) p (months_of (int_str m)) g"
    if "CHR '':'' \<notin> set p" "CHR '':'' \<notin> set g"
    using that by (simp add: press_def has_prefix_def payment_data_def s split_on_plain)
qed

lemma run_ask: "run_state (ask r g f) e =
    (g (fst (f (bt_world e))), e\<lparr>bt_world := snd (f (bt_world e)), bt_log := bt_log e @ [Asked r]\<rparr>)"
  by (simp add: ask_def act_def case_prod_beta)

lemma months_shown: "- 2147483648 \<le> m \<Longrightarrow> m < 2147483648 \<Longrightarrow> months_of (int_str m) = m"
  by (simp add: months_of_def parsed_int_def ParseInt_int_str int8_fits_def)

text \<open>What the control plane answers when a payment button is pressed: settings, subscriber, invoice.\<close>

definition shop_settings :: "'w plane \<Rightarrow> 'w engine \<Rightarrow> pay_settings option" where
  "shop_settings pl e = (case checked [200] returned (fst (pn_settings pl (bt_world e))) of Inl _ \<Rightarrow> None | Inr st \<Rightarrow> Some st)"

definition after_settings :: "'w plane \<Rightarrow> 'w engine \<Rightarrow> 'w" where
  "after_settings pl e = snd (pn_settings pl (bt_world e))"

definition after_user :: "'w plane \<Rightarrow> int \<Rightarrow> 'w engine \<Rightarrow> 'w" where
  "after_user pl chat e = snd (pn_user pl chat (after_settings pl e))"

lemma order_invoice_effect:
  fixes e :: "'w engine" and s :: subscribed and chat m :: int and g :: string and pid :: uuid and pl :: "'w plane"
  defines "q \<equiv> \<lparr>ia_user = u_id (sb_user s), ia_plan = pid, ia_gateway = g, ia_months = m,
       ia_promo = trim_space (text_or [] (bt_promo e chat))\<rparr>"
  defines "ans \<equiv> checked [201, 200] returned (fst (pn_invoice pl q (bt_world e)))"
  defines "e' \<equiv> snd (run_state (order_invoice pl chat s pid m g) e)"
  shows "invoices (bt_log e') = invoices (bt_log e) @ [q]"
    and "bt_promo e' = (if is_ok ans then (bt_promo e)(chat := None) else bt_promo e)"
proof -
  define e1 where "e1 = e\<lparr>bt_world := snd (pn_invoice pl q (bt_world e)), bt_log := bt_log e @ [Asked (AskInvoice q)]\<rparr>"
  have r: "run_state (CPCreateInvoice pl q) e = (ans, e1)" by (simp add: CPCreateInvoice_def run_ask ans_def e1_def)
  have log: "invoices (bt_log e1) = invoices (bt_log e) @ [q]" and pr: "bt_promo e1 = bt_promo e" by (simp_all add: e1_def)
  have "invoices (bt_log e') = invoices (bt_log e) @ [q] \<and>
      bt_promo e' = (if is_ok ans then (bt_promo e)(chat := None) else bt_promo e)"
  proof (cases ans)
    case (Inl err)
    then have "e' = snd (run_state (sendMessage chat (Plain (''Failed to generate invoice: '' @ err)) []) e1)"
      unfolding e'_def order_invoice_def q_def[symmetric] by (simp add: r q_def[symmetric])
    moreover note keeps_invD[OF orders.keeps_messages(2) log] keeps_invD[OF purse.keeps_messages(2) pr]
    ultimately show ?thesis using Inl by simp
  next
    case (Inr im)
    define e2 where "e2 = e1\<lparr>bt_promo := (bt_promo e1)(chat := None)\<rparr>"
    define m' :: "('w engine, unit) state" where
      "m' = (if g = ''stars'' then send_stars pl chat im m else send_link pl chat g im m)"
    have k: "keeps_inv (\<lambda>e. invoices (bt_log e) = qs) m'" "keeps_inv (\<lambda>e. bt_promo e = v) m'" for qs v
      unfolding m'_def by (intro carry)+
    have "e' = snd (run_state m' e2)"
      unfolding e'_def order_invoice_def q_def[symmetric] using Inr
      by (simp add: r q_def[symmetric] drop_promo_def e2_def m'_def)
    moreover have "invoices (bt_log e2) = invoices (bt_log e) @ [q]" "bt_promo e2 = (bt_promo e)(chat := None)"
      by (simp_all add: e2_def log pr)
    ultimately show ?thesis using keeps_invD[OF k(1)] keeps_invD[OF k(2)] Inr by simp
  qed
  then show "invoices (bt_log e') = invoices (bt_log e) @ [q]"
    "bt_promo e' = (if is_ok ans then (bt_promo e)(chat := None) else bt_promo e)" by blast+
qed

text \<open>
  C22. Purchase. The buttons of the shop carry what was chosen from one step to the next: a plan's button opens
  the durations of this plan, a duration's button the payments of this plan and duration. A pressed payment
  button of a subscriber, for a gateway that is not switched off, asks the control plane for exactly one
  invoice: for this subscriber, plan, duration and gateway, with the promo code the chat has in store; the
  code is spent when the invoice is made and kept when it is refused.
\<close>

theorem purchase_round_trip:
  assumes "CHR '':'' \<notin> set p" "CHR '':'' \<notin> set g" "- 2147483648 \<le> m" "m < 2147483648" "pn_uuid pl p = Some p"
    and "checkout_refusal g (shop_settings pl e) = None"
    and "user_answer (fst (pn_user pl (ms_chat msg) (after_settings pl e))) = Inr (Some s)"
    and "q = \<lparr>ia_user = u_id (sb_user s), ia_plan = p, ia_gateway = g, ia_months = m,
       ia_promo = trim_space (text_or [] (bt_promo e (ms_chat msg)))\<rparr>"
    and "e' = snd (run_state (press pl msg from (payment_data p m g) now) e)"
  shows "press pl msg from (''plan:'' @ p) now = handleSelectDuration pl (ms_chat msg) p \<and>
    press pl msg from (duration_data p (int_str m)) now = handleSelectPayment pl (ms_chat msg) p m \<and>
    invoices (bt_log e') = invoices (bt_log e) @ [q] \<and>
    bt_promo e' = (if is_ok (checked [201, 200] returned (fst (pn_invoice pl q (after_user pl (ms_chat msg) e))))
      then (bt_promo e)(ms_chat msg := None) else bt_promo e)"
proof -
  let ?chat = "ms_chat msg"
  have digits: "CHR '':'' \<notin> set (int_str m)" by simp
  note buttons = press_buttons(1) press_buttons(2)[OF assms(1) digits] press_buttons(3)[OF assms(1,2)]
  define e1 where "e1 = e\<lparr>bt_world := after_settings pl e, bt_log := bt_log e @ [Asked AskSettings]\<rparr>"
  define t where "t = (if g = ''cryptobot'' then (case shop_settings pl e of None \<Rightarrow> [] | Some st \<Rightarrow> ps_crypto_token st) else [])"
  define e2 where "e2 = snd (run_state (keep_token t) e1)"
  define e3 where "e3 = e2\<lparr>bt_world := after_user pl ?chat e, bt_log := bt_log e2 @ [Asked (AskUser ?chat)]\<rparr>"
  have e2: "bt_world e2 = after_settings pl e" "bt_log e2 = bt_log e @ [Asked AskSettings]" "bt_promo e2 = bt_promo e"
    by (simp_all add: e2_def keep_token_def e1_def)
  have e3: "bt_promo e3 = bt_promo e" "bt_world e3 = after_user pl ?chat e" "invoices (bt_log e3) = invoices (bt_log e)"
    by (simp_all add: e3_def e2)
  have 1: "run_state (CPGetBillingSettings pl) e = (checked [200] returned (fst (pn_settings pl (bt_world e))), e1)"
    by (simp add: CPGetBillingSettings_def run_ask e1_def after_settings_def)
  have 2: "run_state (CPGetUserByTelegramID pl ?chat) e2 = (Inr (Some s), e3)"
    by (simp add: CPGetUserByTelegramID_def run_ask e2(1) assms(7) e3_def after_user_def)
  have tok: "run_state (keep_token t) e1 = ((), e2)"
    unfolding e2_def by (rule prod_eqI) simp_all
  have "e' = snd (run_state (order_invoice pl ?chat s p m g) e3)"
    unfolding assms(9) buttons(3) months_shown[OF assms(3,4)] handleCheckout_def
    using assms(6) 2 tok by (simp add: 1 shop_settings_def[symmetric] t_def[symmetric] assms(5))
  note order_invoice_effect[where e = e3 and pl = pl and chat = ?chat and s = s and pid = p and m = m and g = g,
      folded this, unfolded e3 assms(8)[symmetric]]
  then show ?thesis by (intro conjI press_buttons(1)) (simp_all add: buttons(2) months_shown[OF assms(3,4)])
qed

section \<open>Routes of the requests\<close>

text \<open>The segments after /api/v1, the handler that a request is meant for and the scope it takes.\<close>

definition api_segments :: "string \<Rightarrow> string list" where
  "api_segments path = drop 3 (split_on CHR ''/'' path)"

fun wanted_handler :: "request \<Rightarrow> string \<times> string" where
  "wanted_handler AskTrialPlan = (''Plan.GetTrial'', ''billing:read'')"
| "wanted_handler AskPlans = (''Plan.List'', ''billing:read'')"
| "wanted_handler (AskUser _) = (''User.GetByTelegramID'', ''user:read'')"
| "wanted_handler (AskTrial _ _ _) = (''User.CreateTrial'', ''user:write'')"
| "wanted_handler (AskRotate _) = (''User.RotateKeys'', ''user:write'')"
| "wanted_handler (AskInvoice _) = (''Billing.CreateInvoice'', ''billing:write'')"
| "wanted_handler (AskStars _ _) = (''Billing.ConfirmStarsPayment'', ''billing:write'')"
| "wanted_handler AskNodes = (''Node.List'', ''node:read'')"
| "wanted_handler (AskPromo _) = (''Billing.ValidatePromo'', ''billing:read'')"
| "wanted_handler (AskConfig _ _) = ([], [])"
| "wanted_handler AskSettings = (''Billing.GetSettings'', ''billing:read'')"
| "wanted_handler (AskReferrals _) = (''User.GetReferralsByTelegramID'', ''user:read'')"
| "wanted_handler (AskLead _) = (''User.UpsertTelegramLead'', ''user:write'')"
| "wanted_handler AskReplies = (''Billing.GetBotReplies'', ''billing:read'')"
| "wanted_handler (AskLink _ _) = (''User.LinkTelegramEmail'', ''user:write'')"
| "wanted_handler (AskRestore _ _ _ _ _) = (''User.RestoreTelegramAccount'', ''user:write'')"
| "wanted_handler (AskCode _ _ _) = (''User.RequestEmailOTP'', ''user:read'')"
| "wanted_handler (AskVerify _ _ _ _ _ _ _) = (''User.VerifyEmailOTP'', ''user:read'')"

lemma slash_not_in_int_str [simp]: "CHR ''/'' \<notin> set (int_str i)"
proof -
  have "CHR ''/'' \<notin> set (nat_str n)" for n using nat_str_chars[of "CHR ''/''" n] by auto
  then show ?thesis by (simp add: int_str_def)
qed

lemma int_str_ne [simp]: "int_str i \<noteq> []"
  by (simp add: int_str_def)

lemma slash_split: "CHR ''/'' \<notin> set a \<Longrightarrow> split_on CHR ''/'' (a @ CHR ''/'' # b) = a # split_on CHR ''/'' b"
  by (rule split_on_append)

lemma find_route_int:
  assumes "x \<noteq> []"
  shows "find_route ''GET'' [''users'', ''by-telegram'', x] = Some \<lparr>rt_method = ''GET'', rt_path = [Lit ''users'', Lit ''by-telegram'', Param],
      rt_guards = [MustAuth, MustScope ''user:read''], rt_handler = ''User.GetByTelegramID''\<rparr>"
    and "find_route ''GET'' [''users'', ''by-telegram'', x, ''referrals''] = Some \<lparr>rt_method = ''GET'',
      rt_path = [Lit ''users'', Lit ''by-telegram'', Param, Lit ''referrals''],
      rt_guards = [MustAuth, MustScope ''user:read''], rt_handler = ''User.GetReferralsByTelegramID''\<rparr>"
    and "find_route ''POST'' [''users'', x, ''rotate''] = Some \<lparr>rt_method = ''POST'', rt_path = [Lit ''users'', Param, Lit ''rotate''],
      rt_guards = [MustAuth, MustScope ''user:write''], rt_handler = ''User.RotateKeys''\<rparr>"
  using assms by (simp_all add: find_route_def api_routes_def route_tables under_def path_matches_def)

lemma segments_of:
  "api_segments (''/api/v1/users/by-telegram/'' @ int_str tg) = [''users'', ''by-telegram'', int_str tg]"
  "api_segments (''/api/v1/users/by-telegram/'' @ int_str tg @ ''/referrals'') = [''users'', ''by-telegram'', int_str tg, ''referrals'']"
  "CHR ''/'' \<notin> set uid \<Longrightarrow> api_segments (''/api/v1/users/'' @ uid @ ''/rotate'') = [''users'', uid, ''rotate'']"
  by (simp_all add: api_segments_def slash_split split_on_plain)

lemma key_reaches:
  assumes "scoped_key ac" "find_route m ps = Some r" "rt_guards r = [MustAuth, MustScope scope]" "tabled (MustScope scope)"
  shows "routed m ps (Some ac) = (if scope \<in> set (ac_scopes ac) then Reached (rt_handler r) else Refused Forbidden)"
proof -
  have "refusal (MustScope scope) (Some ac) = None \<longleftrightarrow> guard_of_key (ac_scopes ac) (MustScope scope)"
    using key_guard[OF assms(1,4)] .
  moreover have "refusal (MustScope scope) (Some ac) \<in> {None, Some Forbidden}" by (auto simp: RequireScope_def)
  ultimately show ?thesis using assms(2,3)
    by (auto simp: routed_def RequireAuth_def guard_of_key_def)
qed

text \<open>
  Every request of the bot to the API has a route of the table, and the bot's key, unless it is an
  administrator's, reaches its handler exactly with the scope the route asks for: reading and writing
  subscribers and billing and reading nodes is all the bot needs.
\<close>

theorem bot_requests_routed:
  assumes "scoped_key ac" "\<And>uid. r = AskRotate uid \<Longrightarrow> uid \<noteq> [] \<and> CHR ''/'' \<notin> set uid"
    and "\<And>token format. r \<noteq> AskConfig token format"
  shows "routed (fst (request_line r)) (api_segments (snd (request_line r))) (Some ac) =
    (if snd (wanted_handler r) \<in> set (ac_scopes ac) then Reached (fst (wanted_handler r)) else Refused Forbidden)"
proof -
  note find = find_route_def api_routes_def route_tables under_def path_matches_def api_segments_def
  have "\<exists>rt. find_route (fst (request_line r)) (api_segments (snd (request_line r))) = Some rt \<and>
      rt_handler rt = fst (wanted_handler r) \<and> rt_guards rt = [MustAuth, MustScope (snd (wanted_handler r))]"
  proof (cases r)
    case (AskUser tg)
    then show ?thesis
      using find_route_int(1)[of "int_str tg"] segments_of(1)[of tg] by (simp only: request_line.simps wanted_handler.simps fst_conv snd_conv) simp
  next
    case (AskReferrals tg)
    then show ?thesis
      using find_route_int(2)[of "int_str tg"] segments_of(2)[of tg] by (simp only: request_line.simps wanted_handler.simps fst_conv snd_conv) simp
  next
    case (AskRotate uid)
    then have "uid \<noteq> []" "CHR ''/'' \<notin> set uid" using assms(2) by blast+
    then show ?thesis using AskRotate find_route_int(3)[of uid] segments_of(3)[of uid]
      by (simp only: request_line.simps wanted_handler.simps fst_conv snd_conv) simp
  next
    case (AskConfig t f)
    then show ?thesis using assms(3) by blast
  qed (simp_all add: find)
  moreover have "tabled (MustScope (snd (wanted_handler r)))"
    by (cases r) (simp_all add: tabled_def trim_space_def is_space_def)
  ultimately show ?thesis using key_reaches[OF assms(1)] by metis
qed

section \<open>Where the bot and the control plane disagree\<close>

text \<open>
  The button back to the start handles the message it hangs on, whose sender is the bot itself: the lead of
  the chat is recorded under the bot's own names.
\<close>

interpretation said: bot_dialog_invariant "\<lambda>e :: 'w engine. ev \<in> set (bt_log e)" for ev
  by unfold_locales auto

theorem start_button_names_the_bot:
  assumes "ms_from msg = Some self"
  shows "Asked (AskLead (lead_of (ms_chat msg) (Some self) [])) \<in> set (bt_log (snd (run_state (press pl msg from ''action:start'' now) e)))"
proof -
  let ?chat = "ms_chat msg" and ?ev = "Asked (AskLead (lead_of (ms_chat msg) (Some self) []))"
  define k where "k = do {
     r \<leftarrow> CPGetUserByTelegramID pl ?chat;
     (case r of
       Inl _ \<Rightarrow> sendMessage ?chat (Plain ''Error communicating with control plane. Please try again later.'') []
     | Inr u \<Rightarrow> do {
         rs \<leftarrow> get_replies pl;
         (case u of Some s \<Rightarrow> start_known pl ?chat s rs | None \<Rightarrow> start_new pl ?chat [] rs) }) }"
  have "keeps_inv (\<lambda>e. ?ev \<in> set (bt_log e)) k" unfolding k_def by (intro carry)
  from keeps_invD[OF this] have "?ev \<in> set (bt_log (snd (run_state (handleStart pl msg []) e)))"
    unfolding handleStart_def Let_def k_def[symmetric] by (simp add: CPUpsertLead_def run_ask assms)
  then show ?thesis by (simp add: press_def has_prefix_def)
qed

text \<open>The first keyboard offers a button for new keys whose data no branch knows: pressing it does nothing.\<close>

theorem reset_button_dead:
  "Press ''action:reset'' \<in> set (concat (start_keyboard referrals u)) \<and> press pl msg from ''action:reset'' now = skip"
  by (simp add: start_keyboard_def press_def has_prefix_def)

text \<open>
  The refusal of a wrong code, as the API words it, is not recognized: the bot looks for a word in lower
  case. The refusal of an expired code is.
\<close>

definition problem_body :: "string \<Rightarrow> string" where
  "problem_body detail = [CHR ''{'', CHR 0x22] @ ''type'' @ [CHR 0x22, CHR '':'', CHR 0x22] @ ''https://httpstatuses.com/400'' @
     [CHR 0x22, CHR '','', CHR 0x22] @ ''title'' @ [CHR 0x22, CHR '':'', CHR 0x22] @ ''Bad Request'' @
     [CHR 0x22, CHR '','', CHR 0x22] @ ''status'' @ [CHR 0x22] @ '':400,'' @ [CHR 0x22] @ ''detail'' @ [CHR 0x22, CHR '':'', CHR 0x22] @
     detail @ [CHR 0x22, CHR '','', CHR 0x22] @ ''instance'' @ [CHR 0x22, CHR '':'', CHR 0x22] @
     ''/api/v1/users/verify-email-otp'' @ [CHR 0x22, CHR ''}'', CHR 0x0A]"

theorem wrong_code_unrecognized:
  "refusal_of (failed_to ''verify otp'' 400 (problem_body ''Invalid verification code. 2 attempts remaining.'')) = OtherRefusal"
  "refusal_of (failed_to ''verify otp'' 400 (problem_body ''Verification code expired or not found. Please request a new code.'')) = CodeGone"
  by code_simp+

section \<open>An example\<close>

definition demo_answer :: "'a \<Rightarrow> 'a answer" where
  "demo_answer x = Answered 200 [] (Inr x)"

definition demo_plane :: "user \<Rightarrow> unit plane" where
  "demo_plane u = \<lparr>pn_trial_plan = Pair (Unreachable ''down''), pn_plans = Pair (demo_answer []),
     pn_user = (\<lambda>_. Pair (demo_answer \<lparr>sb_user = u, sb_token = ''token-of-chat'', sb_url = ''/sub/token-of-chat''\<rparr>)),
     pn_trial = (\<lambda>_ _ _. Pair (Unreachable ''down'')), pn_rotate = (\<lambda>_. Pair (Unreachable ''down'')),
     pn_invoice = (\<lambda>_. Pair (Answered 201 [] (Inr \<lparr>im_order = ''order-1'', im_external = ''x'', im_amount = ''100'',
        im_currency = ''XTR'', im_gateway = ''stars'', im_months = 3, im_checkout = []\<rparr>))),
     pn_stars = (\<lambda>_ _. Pair (demo_answer ())), pn_nodes = Pair (demo_answer [], demo_answer []),
     pn_promo = (\<lambda>_. Pair (Unreachable ''down'')), pn_config = (\<lambda>_ _. Pair (demo_answer ())),
     pn_settings = Pair (demo_answer \<lparr>ps_crypto_token = [], ps_crypto = False, ps_stars = True\<rparr>),
     pn_referrals = (\<lambda>_. Pair (Unreachable ''down'')), pn_lead = (\<lambda>_. Pair (demo_answer ())),
     pn_replies = Pair (demo_answer Map.empty), pn_link = (\<lambda>_ _. Pair (demo_answer ())),
     pn_restore = (\<lambda>_ _ _ _ _. Pair (Unreachable ''down'')),
     pn_code = (\<lambda>_ _ _. Pair (demo_answer \<lparr>cs_simulated = False, cs_code = []\<rparr>)),
     pn_verify = (\<lambda>_ _ _ _ _ _ _. Pair (Unreachable ''down'')), pn_member = (\<lambda>_ _. Pair (Inl ''down'')),
     pn_stars_invoice = (\<lambda>_ _ _ _. Pair None), pn_crypto = (\<lambda>_ _. Pair (Inl ''down'')), pn_env = (\<lambda>_. []),
     pn_base = ''http://control-plane:8110'', pn_self = ''SimpleVPNBot'', pn_bundle = (\<lambda>_ field. field), pn_clock = (\<lambda>_. ''soon''),
     pn_uuid = Some, pn_default = id, pn_guide = id, pn_draws = (\<lambda>_. True)\<rparr>"

definition demo_message :: "string \<Rightarrow> message" where
  "demo_message t = \<lparr>ms_chat = 7, ms_from = Some \<lparr>sd_username = ''ann'', sd_first = ''Ann'', sd_last = [], sd_lang = ''en''\<rparr>,
     ms_text = t, ms_payment = None\<rparr>"

lemma banned_chat_inert_witness:
  "\<exists>ack t. bt_log (bot_step (demo_plane (demo_user\<lparr>u_banned := Some True, u_ban_reason := Some ''abuse''\<rparr>))
       (0, \<lparr>up_precheckout = None, up_message = Some (demo_message ''/buy''), up_callback = None\<rparr>) (NewBotEngine [] ())) =
     ack @ [Asked (AskUser 7), Asked AskReplies, Sent 7 [] t []] \<and> set ack \<subseteq> range Acknowledged"
proof -
  let ?u = "demo_user\<lparr>u_banned := Some True, u_ban_reason := Some ''abuse''\<rparr>" and ?e = "NewBotEngine [] ()"
  let ?up = "\<lparr>up_precheckout = None, up_message = Some (demo_message ''/buy''), up_callback = None\<rparr>"
  let ?s = "\<lparr>sb_user = ?u, sb_token = ''token-of-chat'', sb_url = ''/sub/token-of-chat''\<rparr>"
  have "addressed ?up = Some 7" by (simp add: addressed_def demo_message_def)
  moreover have "user_answer (fst (pn_user (demo_plane ?u) 7 (bt_world ?e))) = Inr (Some ?s)"
    by (simp add: demo_plane_def user_answer_def demo_answer_def checked_def)
  moreover have "banned ?s" by (simp add: banned_def)
  ultimately have "\<exists>ack rs dflt. bt_log (bot_step (demo_plane ?u) (0, ?up) ?e) = bt_log ?e @ ack @ [Asked (AskUser 7), Asked AskReplies,
       Sent 7 [] (resolveBannedMessage rs dflt (ban_reason ''Suspended by admin'' ?s)) []] \<and> set ack \<subseteq> range Acknowledged"
    using banned_chat_inert[of ?up 7 "demo_plane ?u" ?e ?s 0] by blast
  then show ?thesis by (auto simp: NewBotEngine_def)
qed

lemma purchase_round_trip_witness:
  "invoices (bt_log (snd (run_state (press (demo_plane demo_user) (demo_message []) None (payment_data ''p1'' 3 ''stars'') 0)
       ((NewBotEngine [] ())\<lparr>bt_promo := [7 \<mapsto> ''SALE'']\<rparr>)))) =
     [\<lparr>ia_user = ''u1'', ia_plan = ''p1'', ia_gateway = ''stars'', ia_months = 3, ia_promo = ''SALE''\<rparr>]"
proof -
  let ?pl = "demo_plane demo_user" and ?e = "(NewBotEngine [] ())\<lparr>bt_promo := [7 \<mapsto> ''SALE'']\<rparr>"
  let ?s = "\<lparr>sb_user = demo_user, sb_token = ''token-of-chat'', sb_url = ''/sub/token-of-chat''\<rparr>"
  let ?q = "\<lparr>ia_user = u_id (sb_user ?s), ia_plan = ''p1'', ia_gateway = ''stars'', ia_months = 3,
       ia_promo = trim_space (text_or [] (bt_promo ?e (ms_chat (demo_message []))))\<rparr>"
  have 1: "pn_uuid ?pl ''p1'' = Some ''p1''" by (simp add: demo_plane_def)
  have 2: "checkout_refusal ''stars'' (shop_settings ?pl ?e) = None"
    by (simp add: shop_settings_def demo_plane_def demo_answer_def checked_def checkout_refusal_def)
  have 3: "user_answer (fst (pn_user ?pl (ms_chat (demo_message [])) (after_settings ?pl ?e))) = Inr (Some ?s)"
    by (simp add: demo_plane_def user_answer_def demo_answer_def checked_def)
  have 0: "CHR '':'' \<notin> set ''p1''" "CHR '':'' \<notin> set ''stars''" "- 2147483648 \<le> (3::int)" "(3::int) < 2147483648" by simp_all
  have "invoices (bt_log (snd (run_state (press ?pl (demo_message []) None (payment_data ''p1'' 3 ''stars'') 0) ?e))) =
      invoices (bt_log ?e) @ [?q]"
    using purchase_round_trip[OF 0 1 2 3 refl refl, of None 0] by (elim conjE)
  moreover have "bt_log ?e = []" "trim_space ''SALE'' = ''SALE''" by (simp_all add: NewBotEngine_def trim_space_def is_space_def)
  ultimately show ?thesis by (simp only: append.simps invoices.simps) (simp add: demo_user_def demo_message_def)
qed

end
