(* ===== verification/Reminder.thy ===== *)
theory Reminder
  imports Bot
begin

text \<open>
  The reminders of the bot (src/internal/bot/worker/reminder.go): one check over the active subscribers, the
  two warnings with their cooldowns, and the rendering of their templates. The share of a used quota is the
  float64 quotient. Telegram is an argument that accepts a message or not. Nothing starts the worker.
\<close>

section \<open>The worker\<close>

datatype warning = Quota | Expiry

record 'w reminder =
  rw_last :: "warning \<Rightarrow> int \<Rightarrow> time option"
  rw_replies :: "string \<rightharpoonup> string"
  rw_sent :: "(warning \<times> int \<times> time) list"
  rw_world :: 'w

definition NewReminderWorker :: "'w \<Rightarrow> 'w reminder" where
  "NewReminderWorker w = \<lparr>rw_last = (\<lambda>_. Map.empty), rw_replies = Map.empty, rw_sent = [], rw_world = w\<rparr>"

definition reminder_interval :: "time \<Rightarrow> time" where
  "reminder_interval given = (if given \<le> 0 then hour else given)"

definition replyText :: "'w reminder \<Rightarrow> string \<Rightarrow> string \<Rightarrow> string" where
  "replyText st key fallback =
     (case rw_replies st key of Some v \<Rightarrow> if trim_space v \<noteq> [] then v else fallback | None \<Rightarrow> fallback)"

text \<open>The tags of a template come in the order of a Go map; their values hold no tag, so any order will do.\<close>

definition renderReminderTemplate :: "string \<Rightarrow> (string \<times> string) list \<Rightarrow> string list \<Rightarrow> wording" where
  "renderReminderTemplate tpl named positional =
     (if contains tpl ''%s'' \<and> positional \<noteq> [] then Format tpl positional
      else Plain (fold (\<lambda>(tag, v) s. replace_all tag v s) named tpl))"

text \<open>A quotient of nonnegative numbers to the nearest float64, and the order of float64 values.\<close>

definition f64_div :: "f64 \<Rightarrow> f64 \<Rightarrow> f64" where
  "f64_div x y = (let n = fst x * 2 ^ 120; q = n div fst y; s = (if n mod fst y = 0 then 0 else 1)
     in round64 (2 * q + s) (snd x - snd y - 121))"

definition f64_le :: "f64 \<Rightarrow> f64 \<Rightarrow> bool" where
  "f64_le x y \<longleftrightarrow> fst x * 2 ^ nat (snd x - min (snd x) (snd y)) \<le> fst y * 2 ^ nat (snd y - min (snd x) (snd y))"

definition f095 :: f64 where "f095 = (8556839292003942, - 53)"

definition quota_due :: "user \<Rightarrow> bool" where
  "quota_due u =
     (case u_limit u of None \<Rightarrow> False
      | Some n \<Rightarrow> n > 0 \<and> (let share = f64_div (f64_of_int (int_or 0 (u_used u))) (f64_of_int n)
           in f64_le f080 share \<and> \<not> f64_le f095 share))"

definition expiry_due :: "time \<Rightarrow> user \<Rightarrow> bool" where
  "expiry_due now u = (case u_expires u of None \<Rightarrow> False | Some t \<Rightarrow> t - now > 0 \<and> t - now \<le> day)"

definition cooled :: "time \<Rightarrow> time option \<Rightarrow> bool" where
  "cooled now last_time = (case last_time of None \<Rightarrow> True | Some t \<Rightarrow> now - t \<ge> day)"

definition quota_text :: "(string \<Rightarrow> string) \<Rightarrow> 'w reminder \<Rightarrow> user \<Rightarrow> wording" where
  "quota_text bundle st u =
     (let used = FormatBytes (int_or 0 (u_used u)); total = FormatBytes (int_or 0 (u_limit u)) in
      renderReminderTemplate (replyText st ''quota_warning_80'' (bundle ''QuotaWarning80''))
        [(''{traffic_used}'', used), (''{traffic_total}'', total)] [used, total])"

definition expiry_text :: "(string \<Rightarrow> string) \<Rightarrow> (time \<Rightarrow> string) \<Rightarrow> 'w reminder \<Rightarrow> user \<Rightarrow> wording" where
  "expiry_text bundle clock st u =
     (let t = clock (int_or 0 (u_expires u)) in
      renderReminderTemplate (replyText st ''expiry_warning_24h'' (bundle ''ExpiryWarning24h'')) [(''{expires_at}'', t)] [t])"

text \<open>A warning counts as sent, and starts its cooldown, when Telegram accepts it.\<close>

definition send_warning ::
    "(int \<Rightarrow> wording \<Rightarrow> 'w \<Rightarrow> bool \<times> 'w) \<Rightarrow> warning \<Rightarrow> int \<Rightarrow> time \<Rightarrow> wording \<Rightarrow> 'w reminder \<Rightarrow> 'w reminder" where
  "send_warning tg k chat now t st =
     (case tg chat t (rw_world st) of (took, w) \<Rightarrow>
       (if took
        then st\<lparr>rw_world := w, rw_last := (rw_last st)(k := (rw_last st k)(chat \<mapsto> now)), rw_sent := rw_sent st @ [(k, chat, now)]\<rparr>
        else st\<lparr>rw_world := w\<rparr>))"

text \<open>Both cooldowns are read before the first warning is sent.\<close>

definition remind ::
    "(int \<Rightarrow> wording \<Rightarrow> 'w \<Rightarrow> bool \<times> 'w) \<Rightarrow> (string \<Rightarrow> string) \<Rightarrow> (time \<Rightarrow> string) \<Rightarrow> time \<Rightarrow> user \<Rightarrow> 'w reminder \<Rightarrow> 'w reminder" where
  "remind tg bundle clock now u st =
     (case u_tg u of None \<Rightarrow> st
      | Some chat \<Rightarrow>
          if chat \<le> 0 then st
          else
            (let old = rw_last st;
                 st1 = (if quota_due u \<and> cooled now (old Quota chat) then send_warning tg Quota chat now (quota_text bundle st u) st else st)
             in if expiry_due now u \<and> cooled now (old Expiry chat)
                then send_warning tg Expiry chat now (expiry_text bundle clock st u) st1 else st1))"

definition runCheck ::
    "(int \<Rightarrow> wording \<Rightarrow> 'w \<Rightarrow> bool \<times> 'w) \<Rightarrow> (string \<Rightarrow> string) \<Rightarrow> (time \<Rightarrow> string) \<Rightarrow> time \<Rightarrow> bdb \<Rightarrow> 'w reminder \<Rightarrow> 'w reminder" where
  "runCheck tg bundle clock now d st =
     (case list_users ''active'' None 1000 0 d of Inl _ \<Rightarrow> st | Inr (us, _) \<Rightarrow> fold (remind tg bundle clock now) us st)"

section \<open>Cooldown\<close>

text \<open>The times of one warning to one chat, in order, lie a day apart, and the last is remembered.\<close>

definition times_of :: "warning \<Rightarrow> int \<Rightarrow> (warning \<times> int \<times> time) list \<Rightarrow> time list" where
  "times_of k chat xs = List.map (snd \<circ> snd) (List.filter (\<lambda>(k', c, _). k' = k \<and> c = chat) xs)"

fun day_apart :: "time list \<Rightarrow> bool" where
  "day_apart (a # b # ts) \<longleftrightarrow> b - a \<ge> day \<and> day_apart (b # ts)"
| "day_apart _ \<longleftrightarrow> True"

lemma day_apart_snoc: "day_apart (ts @ [t]) \<longleftrightarrow> day_apart ts \<and> (ts \<noteq> [] \<longrightarrow> t - last ts \<ge> day)"
  by (induction ts rule: day_apart.induct) auto

definition reminders_ok :: "'w reminder \<Rightarrow> bool" where
  "reminders_ok st \<longleftrightarrow> (\<forall>k chat. let ts = times_of k chat (rw_sent st) in
     day_apart ts \<and> rw_last st k chat = (if ts = [] then None else Some (last ts)))"

lemma times_snoc: "times_of k chat (xs @ [(k', c, t)]) = times_of k chat xs @ (if k' = k \<and> c = chat then [t] else [])"
  by (simp add: times_of_def)

lemma warning_ok:
  assumes "reminders_ok st" "cooled now (rw_last st k chat)"
  shows "reminders_ok (send_warning tg k chat now t st)"
proof -
  obtain a w where a: "tg chat t (rw_world st) = (a, w)" by fastforce
  have "day_apart (times_of k chat (rw_sent st) @ [now])"
    using assms by (auto simp: reminders_ok_def Let_def day_apart_snoc cooled_def split: option.splits if_splits)
  then show ?thesis using assms(1)
    by (auto simp: send_warning_def a reminders_ok_def Let_def times_snoc)
qed

lemma warning_other: "k \<noteq> k' \<Longrightarrow> rw_last (send_warning tg k chat now t st) k' = rw_last st k'"
  by (simp add: send_warning_def split: prod.splits)

lemma remind_ok: "reminders_ok st \<Longrightarrow> reminders_ok (remind tg bundle clock now u st)"
  by (auto simp: remind_def Let_def warning_other split: option.splits intro!: warning_ok)

lemma check_ok: "reminders_ok st \<Longrightarrow> reminders_ok (runCheck tg bundle clock now d st)"
proof -
  have "reminders_ok (fold (remind tg bundle clock now) us st)" if "reminders_ok st" for us
    using that by (induction us arbitrary: st) (simp_all add: remind_ok)
  then show "reminders_ok st \<Longrightarrow> ?thesis" by (simp add: runCheck_def split: sum.splits)
qed

text \<open>
  Whatever checks run, at whatever times and over whatever subscribers, the accepted warnings of one kind to
  one chat lie at least a day apart.
\<close>

theorem reminders_a_day_apart:
  "day_apart (times_of k chat (rw_sent (fold (\<lambda>(now, d). runCheck tg bundle clock now d) checks (NewReminderWorker w))))"
proof -
  have "reminders_ok (fold (\<lambda>(now, d). runCheck tg bundle clock now d) checks st)" if "reminders_ok st" for st
    using that by (induction checks arbitrary: st) (auto simp: check_ok)
  moreover have "reminders_ok (NewReminderWorker w)" by (simp add: reminders_ok_def NewReminderWorker_def times_of_def Let_def)
  ultimately show ?thesis unfolding reminders_ok_def by metis
qed

text \<open>The quota is announced between four fifths and nineteen twentieths of it, both bounds exactly as in float64.\<close>

lemma quota_bounds:
  "quota_due (demo_user\<lparr>u_limit := Some 1000, u_used := Some 800\<rparr>)" "\<not> quota_due (demo_user\<lparr>u_limit := Some 1000, u_used := Some 799\<rparr>)"
  "quota_due (demo_user\<lparr>u_limit := Some 1000, u_used := Some 949\<rparr>)" "\<not> quota_due (demo_user\<lparr>u_limit := Some 1000, u_used := Some 950\<rparr>)"
  by code_simp+

end
