(* ===== verification/Alerting.thy ===== *)
theory Alerting
  imports Bot "HOL-Library.Sublist"
begin

text \<open>
  The alerts of the control plane (src/internal/controlplane/alerting/alerting.go): the texts of the alerts, the
  bounded queue that never blocks its callers, and the worker that posts one alert after the other to the
  topic of its kind. An operation of the dispatcher is a step; the formatted time of an alert is an argument,
  and a post is the request that the worker makes, whatever Telegram answers.
\<close>

section \<open>Alerts and their texts\<close>

datatype topic = TopicInfra | TopicAudit | TopicBilling

record alert_config =
  ac_token :: string
  ac_chat :: int
  ac_infra :: int
  ac_audit :: int
  ac_billing :: int
  ac_enabled :: bool

record alert_event =
  ae_topic :: topic
  ae_title :: string
  ae_message :: string

definition infra_badge :: "string \<Rightarrow> string" where
  "infra_badge status =
     (if status = ''online'' then ''[RECOVERY]'' else if status = ''degraded'' then ''[WARNING]'' else ''[ALERT]'')"

definition infra_alert :: "string \<Rightarrow> string \<Rightarrow> string \<Rightarrow> string \<Rightarrow> alert_event" where
  "infra_alert stamp name status details =
     \<lparr>ae_topic = TopicInfra, ae_title = infra_badge status @ '' Node '' @ name @ '' '' @ status,
      ae_message = infra_badge status @ '' Node: '' @ name @ newline @ ''Status: '' @ status @ newline @ ''Details: '' @ details @ newline @
        ''Timestamp: '' @ stamp\<rparr>"

definition audit_alert :: "string \<Rightarrow> string \<Rightarrow> string \<Rightarrow> string \<Rightarrow> string \<Rightarrow> alert_event" where
  "audit_alert stamp actor action target details =
     \<lparr>ae_topic = TopicAudit, ae_title = ''[AUDIT] '' @ action @ '' by '' @ actor,
      ae_message = ''[AUDIT] Action: '' @ action @ newline @ ''Actor: '' @ actor @ newline @ ''Target: '' @ target @ newline @
        ''Details: '' @ details @ newline @ ''Timestamp: '' @ stamp\<rparr>"

definition billing_alert :: "string \<Rightarrow> string \<Rightarrow> string \<Rightarrow> string \<Rightarrow> string \<Rightarrow> alert_event" where
  "billing_alert stamp gateway amount user invoice =
     \<lparr>ae_topic = TopicBilling, ae_title = ''[BILLING] Payment '' @ amount @ '' via '' @ gateway,
      ae_message = ''[BILLING] Payment Received'' @ newline @ ''Gateway: '' @ gateway @ newline @ ''User: '' @ user @ newline @
        ''Amount: '' @ amount @ newline @ ''Invoice: '' @ invoice @ newline @ ''Timestamp: '' @ stamp\<rparr>"

definition rbac_badge :: "string \<Rightarrow> string" where
  "rbac_badge status =
     (if status = ''DENIED'' then ''[SECURITY ALERT - PERMISSION ESCALATION DENIED]'' else ''[RBAC PERMISSION CHANGED]'')"

definition rbac_head :: "string \<Rightarrow> string \<Rightarrow> string" where
  "rbac_head label s = ''<b>'' @ label @ ''</b> '' @ s @ newline"

definition rbac_who :: "string \<Rightarrow> string \<Rightarrow> string" where
  "rbac_who who role = ''<code>'' @ EscapeString who @ ''</code> ('' @ EscapeString role @ '')''"

text \<open>The changed permissions are named by the code; everything else in the text is escaped.\<close>

definition rbac_deltas :: "(string \<times> bool) list \<Rightarrow> string" where
  "rbac_deltas cs =
     (if cs = [] then []
      else newline @ ''<b>Permission Deltas:</b>'' @ newline @ ''<pre><code class='' @ [CHR 0x22] @ ''language-diff'' @ [CHR 0x22] @ ''>'' @
        concat (List.map (\<lambda>(field, granted). (if granted then ''+ [GRANTED] '' else ''- [REVOKED] '') @ field @ newline) cs) @
        ''</code></pre>'')"

definition rbac_alert ::
    "string \<Rightarrow> string \<times> string \<Rightarrow> string \<times> string \<Rightarrow> string \<Rightarrow> string \<Rightarrow> (string \<times> bool) list \<Rightarrow> string \<Rightarrow> alert_event" where
  "rbac_alert stamp actor target ip status changes reason =
     \<lparr>ae_topic = TopicAudit, ae_title = rbac_badge status @ '' Target: '' @ fst target,
      ae_message = ''<b>'' @ EscapeString (rbac_badge status) @ ''</b>'' @ newline @
        rbac_head ''Status:'' (EscapeString status) @ rbac_head ''Actor:'' (rbac_who (fst actor) (snd actor)) @
        rbac_head ''Target:'' (rbac_who (fst target) (snd target)) @
        (if ip = [] then [] else rbac_head ''IP Address:'' (''<code>'' @ EscapeString ip @ ''</code>'')) @
        rbac_head ''Timestamp:'' stamp @
        (if reason = [] then [] else rbac_head ''Details:'' (EscapeString reason)) @ rbac_deltas changes\<rparr>"

section \<open>The dispatcher\<close>

record alert_post =
  ap_url :: string
  ap_chat :: int
  ap_text :: string
  ap_thread :: "int option"

record dispatcher =
  dp_config :: alert_config
  dp_queue :: "alert_event list"
  dp_stopped :: bool
  dp_taken :: "alert_event list"
  dp_posts :: "alert_post list"

definition queue_limit :: nat where "queue_limit = 256"

definition NewAlertDispatcher :: "alert_config \<Rightarrow> dispatcher" where
  "NewAlertDispatcher cfg = \<lparr>dp_config = cfg, dp_queue = [], dp_stopped = False, dp_taken = [], dp_posts = []\<rparr>"

definition configured :: "alert_config \<Rightarrow> bool" where
  "configured cfg \<longleftrightarrow> ac_enabled cfg \<and> ac_token cfg \<noteq> [] \<and> ac_chat cfg \<noteq> 0"

definition accepts :: "dispatcher \<Rightarrow> bool" where
  "accepts d \<longleftrightarrow> configured (dp_config d) \<and> length (dp_queue d) < queue_limit"

definition DispatchAlert :: "alert_event \<Rightarrow> dispatcher \<Rightarrow> dispatcher" where
  "DispatchAlert ev d = (if accepts d then d\<lparr>dp_queue := dp_queue d @ [ev]\<rparr> else d)"

definition thread_of :: "alert_config \<Rightarrow> topic \<Rightarrow> int" where
  "thread_of cfg t = (case t of TopicInfra \<Rightarrow> ac_infra cfg | TopicAudit \<Rightarrow> ac_audit cfg | TopicBilling \<Rightarrow> ac_billing cfg)"

definition sendTelegram :: "string \<Rightarrow> alert_event \<Rightarrow> dispatcher \<Rightarrow> dispatcher" where
  "sendTelegram base ev d =
     (let cfg = dp_config d; th = thread_of cfg (ae_topic ev) in
      if \<not> configured cfg then d
      else d\<lparr>dp_posts := dp_posts d @ [\<lparr>ap_url = base @ ''/bot'' @ ac_token cfg @ ''/sendMessage'', ap_chat = ac_chat cfg,
          ap_text = ae_message ev, ap_thread = (if th > 0 then Some th else None)\<rparr>]\<rparr>)"

text \<open>One turn of the worker; once stopped it takes nothing more.\<close>

definition work :: "string \<Rightarrow> dispatcher \<Rightarrow> dispatcher" where
  "work base d =
     (if dp_stopped d then d
      else case dp_queue d of [] \<Rightarrow> d
      | ev # q \<Rightarrow> sendTelegram base ev (d\<lparr>dp_queue := q, dp_taken := dp_taken d @ [ev]\<rparr>))"

datatype alert_op = Dispatch alert_event | UpdateConfig alert_config | Work | Stop

fun alert_step :: "string \<Rightarrow> alert_op \<Rightarrow> dispatcher \<Rightarrow> dispatcher" where
  "alert_step base (Dispatch ev) d = DispatchAlert ev d"
| "alert_step base (UpdateConfig cfg) d = d\<lparr>dp_config := cfg\<rparr>"
| "alert_step base Work d = work base d"
| "alert_step base Stop d = d\<lparr>dp_stopped := True\<rparr>"

text \<open>The alerts of a history that the dispatcher took in.\<close>

fun admitted :: "string \<Rightarrow> alert_op list \<Rightarrow> dispatcher \<Rightarrow> alert_event list" where
  "admitted base [] d = []"
| "admitted base (x # xs) d =
     (case x of Dispatch ev \<Rightarrow> (if accepts d then [ev] else []) | _ \<Rightarrow> []) @ admitted base xs (alert_step base x d)"

section \<open>Properties\<close>

lemma work_taken: "dp_taken (work base d) @ dp_queue (work base d) = dp_taken d @ dp_queue d"
  by (auto simp: work_def sendTelegram_def Let_def split: list.splits)

lemma step_taken: "dp_taken (alert_step base x d) @ dp_queue (alert_step base x d) =
    dp_taken d @ dp_queue d @ (case x of Dispatch ev \<Rightarrow> (if accepts d then [ev] else []) | _ \<Rightarrow> [])"
  using work_taken[of base d] by (cases x) (simp_all add: DispatchAlert_def)

lemma step_bound: "length (dp_queue d) \<le> queue_limit \<Longrightarrow> length (dp_queue (alert_step base x d)) \<le> queue_limit"
  by (cases x) (auto simp: DispatchAlert_def accepts_def work_def sendTelegram_def Let_def split: list.splits)

lemma step_posts:
  assumes "subseq (List.map ap_text (dp_posts d)) (List.map ae_message (dp_taken d))"
  shows "subseq (List.map ap_text (dp_posts (alert_step base x d))) (List.map ae_message (dp_taken (alert_step base x d)))"
  using assms by (cases x) (auto simp: DispatchAlert_def work_def sendTelegram_def Let_def split: list.splits
      intro: list_emb_append_mono subseq_order.trans[OF _ subseq_rev_drop_many])

theorem alerts_in_order:
  "let d = fold (alert_step base) xs (NewAlertDispatcher cfg)
   in dp_taken d @ dp_queue d = admitted base xs (NewAlertDispatcher cfg) \<and> length (dp_queue d) \<le> queue_limit \<and>
      subseq (List.map ap_text (dp_posts d)) (List.map ae_message (dp_taken d))"
proof -
  have 1: "dp_taken (fold (alert_step base) xs d) @ dp_queue (fold (alert_step base) xs d) = dp_taken d @ dp_queue d @ admitted base xs d" for d
  proof (induction xs arbitrary: d)
    case (Cons x xs)
    show ?case using Cons.IH[of "alert_step base x d"] step_taken[of base x d] by simp
  qed simp
  have 2: "length (dp_queue (fold (alert_step base) xs d)) \<le> queue_limit" if "length (dp_queue d) \<le> queue_limit" for d
    using that by (induction xs arbitrary: d) (simp_all add: step_bound)
  have 3: "subseq (List.map ap_text (dp_posts (fold (alert_step base) xs d))) (List.map ae_message (dp_taken (fold (alert_step base) xs d)))"
    if "subseq (List.map ap_text (dp_posts d)) (List.map ae_message (dp_taken d))" for d
    using that by (induction xs arbitrary: d) (simp_all add: step_posts)
  show ?thesis using 1[of "NewAlertDispatcher cfg"] 2[of "NewAlertDispatcher cfg"] 3[of "NewAlertDispatcher cfg"]
    by (simp add: NewAlertDispatcher_def Let_def)
qed

text \<open>Escaped text holds no markup; the details of a plain alert are posted as they are.\<close>

theorem escaped_has_no_markup: "CHR ''<'' \<notin> set (EscapeString s) \<and> CHR ''>'' \<notin> set (EscapeString s)"
proof -
  have "CHR ''<'' \<notin> set (html_char c)" "CHR ''>'' \<notin> set (html_char c)" for c by (auto simp: html_char_def)
  then show ?thesis by (auto simp: EscapeString_def)
qed

end
