(* ===== verification/Web_Login.thy ===== *)
theory Web_Login
  imports Users_Console
begin

text \<open>
  The console's sessions (Login, Logout and ChangePassword of src/internal/controlplane/web/handler.go): the
  two limits on logins, the password and the second factor, the session cookie, and the rotation of the
  password that ends every session of its administrator. The cookie is the token it carries; signing, hashing
  and the codes of the second factor are the arguments of Access. Nobody is logged in on the login page, so
  its audit rows name no administrator.
\<close>

section \<open>State\<close>

record web_state =
  ws_desk :: desk
  ws_bl :: "blacklist option"
  ws_limiter :: "limiter option"

abbreviation ws_db :: "web_state \<Rightarrow> bdb" where
  "ws_db st \<equiv> cm_db (ds_crm (ws_desk st))"

definition web_audit :: "web_ctx option \<Rightarrow> string \<Rightarrow> uuid option \<Rightarrow> string \<Rightarrow> web_state \<Rightarrow> web_state" where
  "web_audit ctx action res details st = st\<lparr>ws_desk := recordAudit ctx action ''auth'' res (PlainText details) (ws_desk st)\<rparr>"

definition remote_host :: "string \<Rightarrow> string" where
  "remote_host remote = (case SplitHost remote of Some h \<Rightarrow> h | None \<Rightarrow> remote)"

text \<open>The limit of the address, then that of the account; a refusal is recorded.\<close>

definition web_limit :: "string \<Rightarrow> string \<Rightarrow> time \<Rightarrow> web_state \<Rightarrow> string option \<times> web_state" where
  "web_limit host account now st =
     (case ws_limiter st of None \<Rightarrow> (None, st)
      | Some rl \<Rightarrow>
         (case allow_key (''login:ip:'' @ host) now rl of
            (Some retry, rl1) \<Rightarrow> (Some (''Too many login attempts. Please wait '' @ int_str retry @ '' seconds''),
              web_audit None ''LoginRateLimited'' None
                (''IP '' @ host @ '' temporarily blocked due to excessive login attempts'') (st\<lparr>ws_limiter := Some rl1\<rparr>))
          | (None, rl1) \<Rightarrow>
              if account = [] then (None, st\<lparr>ws_limiter := Some rl1\<rparr>)
              else (case allow_key (''login:user:'' @ to_lower account) now rl1 of
                 (Some retry, rl2) \<Rightarrow> (Some (''Account temporarily rate-limited. Please wait '' @ int_str retry @ '' seconds''),
                   web_audit None ''LoginAccountRateLimited'' None
                     (''Account '' @ account @ '' temporarily blocked due to repeated failures'') (st\<lparr>ws_limiter := Some rl2\<rparr>))
               | (None, rl2) \<Rightarrow> (None, st\<lparr>ws_limiter := Some rl2\<rparr>))))"

section \<open>Login\<close>

definition find_login :: "string \<Rightarrow> 'a adb_scheme \<Rightarrow> admin option" where
  "find_login given d =
     (case GetAdminByEmail given d of Inr a \<Rightarrow> Some a
      | Inl _ \<Rightarrow>
          if CHR ''@'' \<in> set given then None
          else (case GetAdminByEmail (given @ ''@vpnbuilder.local'') d of Inr a \<Rightarrow> Some a | Inl _ \<Rightarrow> None))"

definition session_ttl :: time where "session_ttl = 24 * hour"

definition open_session :: "env \<Rightarrow> uuid \<Rightarrow> string \<Rightarrow> admin \<Rightarrow> time \<Rightarrow> web_state \<Rightarrow> (outcome \<times> string option) \<times> web_state" where
  "open_session ev jti host a now st =
     (case GenerateAccessTokenForAdmin ev jti (a_id a) (a_email a) (text_or ''admin'' (a_role a)) (a_must_change a) session_ttl now of
        None \<Rightarrow> ((Failed ''Token generation failed'', None), st)
      | Some tok \<Rightarrow>
          if a_must_change a
          then ((Success ''must_change'', Some tok), web_audit None ''LoginMustChangePassword'' (Some (a_id a))
            (''Login with default credentials from IP '' @ host) st)
          else ((Success [], Some tok), st))"

text \<open>The name is trimmed and so is the code; the password is taken as it is.\<close>

definition WebLogin ::
    "env \<Rightarrow> uuid \<Rightarrow> string \<Rightarrow> form option \<Rightarrow> time \<Rightarrow> web_state \<Rightarrow> (outcome \<times> string option) \<times> web_state" where
  "WebLogin ev jti remote body now st =
     (case body of None \<Rightarrow> ((Failed ''Invalid form data'', None), st)
      | Some f \<Rightarrow>
         (let name = trim_space (fv f ''username''); pw = fv f ''password''; code = trim_space (fv f ''totp_code'');
              host = remote_host remote in
          case web_limit host name now st of
            (Some why, st1) \<Rightarrow> ((Failed why, None), st1)
          | (None, st1) \<Rightarrow>
             (case find_login name (ws_db st1) of
                None \<Rightarrow> ((Failed ''Invalid credentials'', None), web_audit None ''LoginFailed'' None
                  (''Failed login attempt for unknown user: '' @ name @ '' from IP '' @ host) st1)
              | Some a \<Rightarrow>
                  if \<not> ev_verify ev pw (a_hash a)
                  then ((Failed ''Invalid credentials'', None), web_audit None ''LoginFailed'' (Some (a_id a))
                    (''Invalid password attempt for '' @ a_email a @ '' from IP '' @ host) st1)
                  else if \<not> totp_passes ev now a code
                  then ((Failed ''Invalid 2FA code'', None), web_audit None ''LoginFailed2FA'' (Some (a_id a))
                    (''Invalid 2FA code attempt for '' @ a_email a @ '' from IP '' @ host) st1)
                  else open_session ev jti host a now st1)))"

section \<open>Logout and the password\<close>

text \<open>The token is revoked for a day; the cookie is cleared in any case.\<close>

definition WebLogout :: "env \<Rightarrow> string option \<Rightarrow> time \<Rightarrow> web_state \<Rightarrow> outcome \<times> web_state" where
  "WebLogout ev cookie now st =
     (LoginPage,
      case cookie of None \<Rightarrow> st
      | Some tok \<Rightarrow>
          if tok = [] then st
          else (case ValidateAccessToken ev (ws_bl st) now tok of Inl _ \<Rightarrow> st
            | Inr c \<Rightarrow> if cl_id c = [] then st else st\<lparr>ws_bl := map_option (Revoke (cl_id c) (24 * hour) now) (ws_bl st)\<rparr>))"

definition WebChangePassword :: "env \<Rightarrow> web_ctx option \<Rightarrow> form option \<Rightarrow> time \<Rightarrow> web_state \<Rightarrow> outcome \<times> web_state" where
  "WebChangePassword ev ctx body now st =
     (case ctx of None \<Rightarrow> (LoginPage, st)
      | Some c \<Rightarrow> (case body of None \<Rightarrow> (Failed ''invalid_form'', st)
        | Some f \<Rightarrow>
           (let old = fv f ''old_password''; new = fv f ''new_password'' in
            if old = [] \<or> length new < 12 then (Failed ''Password must be 12 characters or longer'', st)
            else case GetAdminByID (wc_admin c) (ws_db st) of Inl _ \<Rightarrow> (LoginPage, st)
            | Inr a \<Rightarrow>
                if \<not> ev_verify ev old (a_hash a)
                then (Failed ''Current password is incorrect'',
                  web_audit ctx ''ChangePasswordFailed'' (Some (a_id a)) ''Wrong current password'' st)
                else case ev_hash ev new of None \<Rightarrow> (Failed ''Hashing failed'', st)
                | Some h \<Rightarrow> (case UpdatePassword (a_id a) h (ws_db st) of Inl _ \<Rightarrow> (Failed ''Password update failed'', st)
                  | Inr d \<Rightarrow> (Success ''Password changed. Please log in again'',
                      web_audit ctx ''ChangePassword'' (Some (a_id a)) ''Password rotated''
                        (st\<lparr>ws_bl := map_option (RevokeAdmin (a_id a) now) (ws_bl st),
                            ws_desk := (ws_desk st)\<lparr>ds_crm := (ds_crm (ws_desk st))\<lparr>cm_db := DeleteAPIKeysByAdminID (a_id a) d\<rparr>\<rparr>\<rparr>))))))"

section \<open>What a session proves\<close>

lemma web_audit_frame [simp]:
  "db_admins (ws_db (web_audit ctx action res details st)) = db_admins (ws_db st)"
  "ws_bl (web_audit ctx action res details st) = ws_bl st"
  by (auto simp: web_audit_def recordAudit_def Let_def CreateAuditLog_def split: sum.splits)

lemma limit_passes: "web_limit host account now st = (None, st1) \<Longrightarrow> ws_desk st1 = ws_desk st \<and> ws_bl st1 = ws_bl st"
  by (auto simp: web_limit_def split: option.splits prod.splits if_splits)

definition session_claims :: "uuid \<Rightarrow> admin \<Rightarrow> time \<Rightarrow> claims" where
  "session_claims jti a now = \<lparr>cl_admin = a_id a, cl_email = a_email a, cl_role = text_or ''admin'' (a_role a), cl_typ = ''access'',
     cl_must = a_must_change a, cl_id = jti, cl_subject = [], cl_expires = numeric_date (now + session_ttl),
     cl_issued = Some (numeric_date now)\<rparr>"

text \<open>
  C15. Console sessions. A login that sets a session cookie was made under the name of an administrator, with a
  password that matches its stored hash and, where it has a second factor, with a valid code. While the cookie
  parses and is not revoked it enters as this administrator; where the password must be changed it enters the
  pages of the password change only. Once the administrator changes the password, no cookie issued up to then
  enters any page, the new hash is stored, and the forced rotation is over.
\<close>

theorem console_login_gate:
  assumes "WebLogin ev jti remote (Some f) now st = ((r, Some tok), st')"
  shows "\<exists>a. find_login (trim_space (fv f ''username'')) (ws_db st) = Some a \<and> ev_verify ev (fv f ''password'') (a_hash a) \<and>
    totp_passes ev now a (trim_space (fv f ''totp_code'')) \<and> ev_sign ev (session_claims jti a now) = Some tok \<and>
    (\<forall>bl t path. ev_parse ev t tok = Inr (session_claims jti a now) \<and> trim_space tok \<noteq> [] \<and>
        (\<forall>b. bl = Some b \<longrightarrow> \<not> revoked_claims b t (session_claims jti a now)) \<longrightarrow>
      RequireWebAuth ev bl t (Some tok) path =
        (if a_must_change a \<and> \<not> isMustChangeAllowed path then ToPasswordPage
         else Enter \<lparr>wc_admin = a_id a, wc_name = a_email a, wc_role = text_or ''admin'' (a_role a), wc_must = a_must_change a\<rparr>)) \<and>
    (\<forall>c g later r2 st2 t path cl iat. WebChangePassword ev (Some c) (Some g) later st' = (Success r2, st2) \<and>
        wc_admin c = a_id a \<and> a_id a \<notin> {[], nil_uuid} \<and> ws_bl st' \<noteq> None \<and>
        ev_parse ev t tok = Inr cl \<and> cl_admin cl = a_id a \<and> cl_issued cl = Some iat \<and> iat \<le> later \<longrightarrow>
      RequireWebAuth ev (ws_bl st2) t (Some tok) path = ToLoginPage \<and>
      (\<forall>b\<in>set (db_admins (ws_db st2)). a_id b = a_id a \<longrightarrow>
         Some (a_hash b) = ev_hash ev (fv g ''new_password'') \<and> \<not> a_must_change b))"
proof -
  let ?name = "trim_space (fv f ''username'')" and ?code = "trim_space (fv f ''totp_code'')"
  obtain st1 where l: "web_limit (remote_host remote) ?name now st = (None, st1)"
    using assms by (auto simp: WebLogin_def Let_def split: prod.splits option.splits)
  then have db: "ws_db st1 = ws_db st" using limit_passes by metis
  obtain a where a: "find_login ?name (ws_db st1) = Some a" "ev_verify ev (fv f ''password'') (a_hash a)" "totp_passes ev now a ?code"
    "open_session ev jti (remote_host remote) a now st1 = ((r, Some tok), st')"
    using assms l by (auto simp: WebLogin_def Let_def split: option.splits if_splits)
  have sign: "ev_sign ev (session_claims jti a now) = Some tok"
    using a(4) by (auto simp: open_session_def GenerateAccessTokenForAdmin_def session_claims_def split: option.splits if_splits)
  have enter: "RequireWebAuth ev bl t (Some tok) path =
        (if a_must_change a \<and> \<not> isMustChangeAllowed path then ToPasswordPage
         else Enter \<lparr>wc_admin = a_id a, wc_name = a_email a, wc_role = text_or ''admin'' (a_role a), wc_must = a_must_change a\<rparr>)"
    if "ev_parse ev t tok = Inr (session_claims jti a now)" "trim_space tok \<noteq> []"
      "\<forall>b. bl = Some b \<longrightarrow> \<not> revoked_claims b t (session_claims jti a now)" for bl t path
  proof -
    have "ValidateAccessToken ev bl t tok = Inr (session_claims jti a now)"
      using that(1,3) by (cases bl) (simp_all add: ValidateAccessToken_def validate_typed_def ValidateToken_def session_claims_def)
    then show ?thesis using that(2) by (simp add: RequireWebAuth_def session_claims_def)
  qed
  have ends: "RequireWebAuth ev (ws_bl st2) t (Some tok) path = ToLoginPage \<and>
      (\<forall>b\<in>set (db_admins (ws_db st2)). a_id b = a_id a \<longrightarrow>
         Some (a_hash b) = ev_hash ev (fv g ''new_password'') \<and> \<not> a_must_change b)"
    if ch: "WebChangePassword ev (Some c) (Some g) later st' = (Success r2, st2)" and id: "wc_admin c = a_id a" "a_id a \<notin> {[], nil_uuid}"
      and bl: "ws_bl st' \<noteq> None" and cl: "ev_parse ev t tok = Inr cl" "cl_admin cl = a_id a" "cl_issued cl = Some iat" "iat \<le> later"
    for c g later r2 st2 t path cl iat
  proof -
    obtain a0 h d where p: "GetAdminByID (wc_admin c) (ws_db st') = Inr a0" "ev_hash ev (fv g ''new_password'') = Some h"
      "UpdatePassword (a_id a0) h (ws_db st') = Inr d"
      "st2 = web_audit (Some c) ''ChangePassword'' (Some (a_id a0)) ''Password rotated''
        (st'\<lparr>ws_bl := map_option (RevokeAdmin (a_id a0) later) (ws_bl st'),
            ws_desk := (ws_desk st')\<lparr>ds_crm := (ds_crm (ws_desk st'))\<lparr>cm_db := DeleteAPIKeysByAdminID (a_id a0) d\<rparr>\<rparr>\<rparr>)"
      using ch by (auto simp: WebChangePassword_def Let_def split: if_splits sum.splits option.splits)
    have a0: "a_id a0 = a_id a" using p(1) id(1) by (auto simp: GetAdminByID_def split: if_splits option.splits dest: find_Some_in)
    obtain b where b: "ws_bl st' = Some b" using bl by blast
    have "ws_bl st2 = Some (RevokeAdmin (a_id a) later b)" by (simp add: p(4) a0 b)
    then have "ValidateToken ev (ws_bl st2) t tok = Inl ErrTokenRevoked"
      using cl id(2) by (simp add: ValidateToken_def revoked_claims_def AdminRevokedAt_def RevokeAdmin_def)
    then have "RequireWebAuth ev (ws_bl st2) t (Some tok) path = ToLoginPage"
      by (simp add: RequireWebAuth_def ValidateAccessToken_def validate_typed_def)
    moreover have "db_admins (ws_db st2) = db_admins d"
      by (simp add: p(4) DeleteAPIKeysByAdminID_def)
    ultimately show ?thesis using p(2,3) a0 by (auto simp: UpdatePassword_def update_admins_def split: if_splits)
  qed
  note found = a(1)[unfolded db]
  show ?thesis
    by (intro exI[of _ a] conjI allI impI; (elim conjE)?)
      (use found a(2,3) sign in \<open>simp; fail\<close> | rule enter; assumption | rule ends[THEN conjunct1]; assumption
        | rule ends[THEN conjunct2]; assumption)+
qed

definition demo_cookie :: claims where
  "demo_cookie = session_claims ''j1'' demo_admin 0"

definition demo_web_env :: env where
  "demo_web_env = demo_auth_env\<lparr>ev_sign := (\<lambda>c. if c = demo_cookie then Some ''w'' else None),
     ev_parse := (\<lambda>t tok. if tok = ''w'' \<and> t < 24 * hour then Inr demo_cookie else Inl ParseInvalid)\<rparr>"

definition demo_web_state :: web_state where
  "demo_web_state = \<lparr>ws_desk = demo_desk, ws_bl = Some \<lparr>bl_tokens = Map.empty, bl_admins = Map.empty\<rparr>, ws_limiter = None\<rparr>"

definition demo_login_form :: form where "demo_login_form = [''username'' \<mapsto> ''a'', ''password'' \<mapsto> ''pw'']"

definition demo_rotation :: form where
  "demo_rotation = [''old_password'' \<mapsto> ''pw'', ''new_password'' \<mapsto> ''twelve-chars'']"

definition demo_entered :: web_ctx where
  "demo_entered = \<lparr>wc_admin = ''a1'', wc_name = ''a'', wc_role = ''owner'', wc_must = False\<rparr>"

definition demo_logged :: web_state where
  "demo_logged = snd (WebLogin demo_web_env ''j1'' ''10.0.0.1:99'' (Some demo_login_form) 0 demo_web_state)"

definition demo_rotated :: web_state where
  "demo_rotated = snd (WebChangePassword demo_web_env (Some demo_entered) (Some demo_rotation) (5 * second) demo_logged)"

lemma demo_login: "fst (WebLogin demo_web_env ''j1'' ''10.0.0.1:99'' (Some demo_login_form) 0 demo_web_state) = (Success [], Some ''w'')"
  by code_simp

lemma demo_change: "fst (WebChangePassword demo_web_env (Some demo_entered) (Some demo_rotation) (5 * second) demo_logged) =
    Success ''Password changed. Please log in again''"
  by code_simp

lemma demo_blacklists: "\<not> Option.is_none (ws_bl demo_logged)"
  "case ws_bl demo_logged of None \<Rightarrow> False | Some b \<Rightarrow> \<not> revoked_claims b 7 demo_cookie"
  by code_simp+

lemma demo_found: "case find_login (trim_space (fv demo_login_form ''username'')) (ws_db demo_web_state) of
    None \<Rightarrow> False | Some a \<Rightarrow> a = demo_admin"
  by code_simp

lemma console_login_gate_witness:
  "RequireWebAuth demo_web_env (ws_bl demo_logged) 7 (Some ''w'') ''/admin'' = Enter demo_entered \<and>
   RequireWebAuth demo_web_env (ws_bl demo_rotated) 7 (Some ''w'') ''/admin'' = ToLoginPage"
proof -
  let ?ev = demo_web_env and ?f = demo_login_form
  have "WebLogin ?ev ''j1'' ''10.0.0.1:99'' (Some ?f) 0 demo_web_state = ((Success [], Some ''w''), demo_logged)"
    using demo_login by (simp add: demo_logged_def prod_eq_iff)
  from console_login_gate[OF this] show ?thesis
  proof (elim exE conjE, goal_cases)
    case (1 a)
    note enters = 1(5)[THEN spec, THEN spec, THEN spec, THEN mp]
      and ends = 1(6)[THEN spec, THEN spec, THEN spec, THEN spec, THEN spec, THEN spec, THEN spec, THEN spec, THEN spec, THEN mp, THEN conjunct1]
    have a: "a = demo_admin" using demo_found 1(1) by simp
    have parse: "ev_parse ?ev 7 ''w'' = Inr (session_claims ''j1'' a 0)"
      by (simp add: a demo_web_env_def demo_cookie_def hour_def minute_def second_def)
    have kept: "\<forall>b. ws_bl demo_logged = Some b \<longrightarrow> \<not> revoked_claims b 7 (session_claims ''j1'' a 0)"
      using demo_blacklists(2) by (simp add: a demo_cookie_def split: option.splits)
    have changed: "WebChangePassword ?ev (Some demo_entered) (Some demo_rotation) (5 * second) demo_logged =
        (Success ''Password changed. Please log in again'', demo_rotated)"
      using demo_change by (simp add: demo_rotated_def prod_eq_iff)
    have "RequireWebAuth ?ev (ws_bl demo_rotated) 7 (Some ''w'') ''/admin'' = ToLoginPage"
      by (rule ends[OF conjI[OF changed conjI[OF _ conjI[OF _ conjI[OF _ conjI[OF parse]]]]]])
        (use demo_blacklists(1) in \<open>auto simp: a demo_entered_def demo_admin_def nil_uuid_def session_claims_def numeric_date_def second_def Option.is_none_def split: option.splits\<close>)
    moreover have "RequireWebAuth ?ev (ws_bl demo_logged) 7 (Some ''w'') ''/admin'' = Enter demo_entered"
      by (subst enters, intro conjI parse kept) (simp_all add: a demo_entered_def demo_admin_def trim_space_def is_space_def)
    ultimately show ?thesis by blast
  qed
qed

end
