(* ===== verification/Spec2Isabelle.thy ===== *)
theory Spec2Isabelle
  imports Provisioner Syncer Push_Race Admin_Console Plans Email_Codes Broadcast Subscription Inventory Router Copilot_Laws Console_Pages Bot_Laws Reminder Alerting Web_Login
begin

text \<open>Root theory of the development.\<close>

section \<open>From the database to the node\<close>

text \<open>
  C1. Delivery. When the agent successfully handles a newer full configuration that the
  control plane built for a serving node, the kernel's peers are exactly those of the node's
  eligible WireGuard credentials (active, unexpired, of an owner that is not excluded) and the
  engine's users exactly those of its eligible VLESS credentials, each under its own identifier;
  the configuration's version becomes the agent's. The hypotheses are the documented effects of
  the device and of the engine, and that the manager's table agrees with the engine.
\<close>
theorem full_update_delivers:
  assumes "db_ok d" "GetNodeByID nid d = Inr n" "serving_status n" "BuildConfig nid v True now d = Inr cu"
    and "en_has_wg en" "en_has_xray en" "en_api en = Some api" "iterates (en_order en)"
    and "peer_device (cl_device (en_client en)) (cl_configure (en_client en))"
    and "xray_engine (xa_add api) (xa_remove api) users"
    and "cl_device (en_client en) ''wg0'' (ag_kernel ag) = Some dev"
    and "users (ag_engine ag) = view (ag_active ag)" "finite (dom (ag_active ag))" "ag_version ag < v"
    and "HandleConfigUpdate en (Some cu) ag = (None, ag')"
  shows "ag_version ag' = v \<and>
    (\<exists>dev'. cl_device (en_client en) ''wg0'' (ag_kernel ag') = Some dev' \<and>
       p_key ` set dev' = {key. \<exists>c\<in>wg_served nid now d. ps_key (en_parsers en) (text_or [] (c_public c)) = Some key}) \<and>
    dom (users (ag_engine ag')) = (\<lambda>c. text_or [] (c_uuid c)) ` vless_served nid now d \<and>
    (\<forall>em i f. users (ag_engine ag') em = Some (i, f) \<longrightarrow> i = em)"
proof -
  have cu: "cu_version cu = v" "cu_full cu" "cu_iface cu = Some ''wg0''"
    using build_exact[OF assms(1,4,2)] by auto
  note ds = built_desired[OF built_creds[OF assms(1,4,2,3)]]
  obtain ag1 where ap: "applyConfig en cu ag = (None, ag1)"
    "ag_version ag' = v" "ag_kernel ag' = ag_kernel ag1" "ag_engine ag' = ag_engine ag1"
    using handle_cases[OF assms(15)] assms(14) cu(1) by auto
  have i: "iface_of en cu = ''wg0''" by (simp add: iface_of_def cu(3))
  note applied[OF ap(1) assms(5,6), of dev, unfolded i cu(2)[THEN eqTrueI] assms(7), OF assms(11)]
  then obtain m where s: "SyncPeers (en_client en) (en_parsers en) ''wg0'' (desired_peers cu) True
        (set_iface ''wg0'' dev (ag_wg ag)) (ag_kernel ag) = (None, m, ag_kernel ag1)"
    and x: "SyncClients (Some api) (en_order en) (desired_vless cu) True (ag_active ag) (ag_engine ag) =
       (None, ag_active ag1, ag_engine ag1)" by blast
  have "map_of (wg_ifaces (set_iface ''wg0'' dev (ag_wg ag))) ''wg0'' = Some dev" by (simp add: set_iface_def)
  from peer_device.sync_keys[OF assms(9) refl refl this assms(11) s]
  obtain dev' where k: "cl_device (en_client en) ''wg0'' (ag_kernel ag1) = Some dev'"
    "p_key ` set dev' = wanted_keys (en_parsers en) (desired_peers cu)" by auto
  have "wanted_keys (en_parsers en) (desired_peers cu) =
      {key. \<exists>c\<in>wg_served nid now d. ps_key (en_parsers en) (text_or [] (c_public c)) = Some key}"
    by (simp add: wanted_keys_def ds(1)) (simp add: served_peer_def)
  then have 1: "\<exists>dev'. cl_device (en_client en) ''wg0'' (ag_kernel ag') = Some dev' \<and>
      p_key ` set dev' = {key. \<exists>c\<in>wg_served nid now d. ps_key (en_parsers en) (text_or [] (c_public c)) = Some key}"
    using k ap(3) by simp
  have u: "users (ag_engine ag') = view (desired_map (desired_vless cu))"
    using xray_engine.sync_users[OF assms(10,8) refl refl assms(12,13) x] ap(4) by auto
  have "dom (users (ag_engine ag')) = dom (desired_map (desired_vless cu))"
    by (auto simp: u view_def domIff)
  also have "\<dots> = (\<lambda>c. text_or [] (c_uuid c)) ` vless_served nid now d"
    unfolding dom_desired ds(2) image_image
    by (rule image_cong) (auto simp: normalize_served vless_served_def)
  finally have 2: "dom (users (ag_engine ag')) = (\<lambda>c. text_or [] (c_uuid c)) ` vless_served nid now d" .
  have "i = em" if e: "users (ag_engine ag') em = Some (i, f)" for em i f
  proof -
    obtain c where c: "desired_map (desired_vless cu) em = Some c" "i = vc_uuid c"
      using e by (auto simp: u view_def)
    then obtain c0 where c0: "c0 \<in> vless_served nid now d" "c = normalize_client (served_client c0)"
      using ran_desired[OF c(1)] ds(2) by auto
    have "vc_email c = em" using desired_keyed c(1) by (simp add: keyed_def)
    then show ?thesis using c(2) c0 by (simp add: normalize_served vless_served_def)
  qed
  then show ?thesis using 1 2 ap(2) by blast
qed

definition built_update :: config_update where
  "built_update = \<lparr>cu_version = 7, cu_full = True,
    cu_users = [\<lparr>uc_user = ''u1'', uc_creds = [cred_config_of demo_cred]\<rparr>], cu_iface = Some ''wg0''\<rparr>"

lemma built_lists:
  "desired_peers built_update = [served_peer demo_cred]" "desired_vless built_update = []"
  by (simp_all add: desired_peers_def desired_vless_def update_creds_def built_update_def
      decode_served_peer decode_served_client) (simp_all add: demo_cred_def)

lemma sync_no_clients: "SyncClients api sorted_order [] full Map.empty x = (None, Map.empty, x)"
  using sync_again[OF sorted_order_iterates, of Map.empty "[]" api full x] by (simp add: desired_Nil)

lemma mock_sync: "fst (SyncPeers mock_client ps name ds full (set_iface name dev m) k) = None"
  by (simp add: SyncPeers_def set_iface_def configure_and_refresh_def mock_client_def mock_configure_def
      mock_device_def Let_def)

lemma demo_delivery: "fst (HandleConfigUpdate demo_env (Some built_update) demo_agent) = None"
proof -
  have e: "EnsureInterface mock_client None ''wg0'' demo_wg [] = (None, set_iface ''wg0'' [] demo_wg, [])"
    by (simp add: EnsureInterface_def mock_client_def mock_device_def)
  have i: "iface_of demo_env built_update = ''wg0''" by (simp add: iface_of_def built_update_def)
  let ?ag1 = "demo_agent\<lparr>ag_wg := set_iface ''wg0'' [] demo_wg, ag_kernel := []\<rparr>"
  have a: "apply_wg_ensure demo_env built_update demo_agent = (None, ?ag1)"
    unfolding apply_wg_ensure_def i by (simp add: demo_env_def demo_agent_def e)
  have "fst (apply_wg_sync demo_env built_update ?ag1) = None"
    unfolding apply_wg_sync_def i
    by (simp add: demo_env_def demo_agent_def mock_sync split: prod.splits) (metis fst_conv mock_sync)
  then obtain ag2 where b: "apply_wg_sync demo_env built_update ?ag1 = (None, ag2)" by (metis prod.collapse)
  then have "ag_active ag2 = Map.empty" by (auto simp: apply_wg_sync_def demo_agent_def split: if_splits prod.splits)
  then have "fst (apply_xray_sync demo_env built_update ag2) = None"
    by (simp add: apply_xray_sync_def demo_env_def built_lists sync_no_clients)
  then obtain ag3 where c: "apply_xray_sync demo_env built_update ag2 = (None, ag3)" by (metis prod.collapse)
  have "\<not> cu_version built_update \<le> ag_version demo_agent" by (simp add: built_update_def demo_agent_def)
  then show ?thesis by (simp add: HandleConfigUpdate_def applyConfig_def a b c)
qed

lemma full_update_delivers_witness:
  "p_key ` set (ag_kernel (snd (HandleConfigUpdate demo_env (Some built_update) demo_agent))) = {''pk''}"
proof -
  obtain ag' where h: "HandleConfigUpdate demo_env (Some built_update) demo_agent = (None, ag')"
    using demo_delivery by (metis prod.collapse)
  have n: "GetNodeByID ''n1'' demo_db2 = Inr demo_node" "serving_status demo_node"
    by (simp_all add: GetNodeByID_def demo_db2_def demo_node_def serving_status_def)
  have w: "wg_served ''n1'' 5 demo_db2 = {demo_cred}"
    by (auto simp: wg_served_def eligible_def demo_db2_def demo_cred_def demo_user_def cred_active_def user_excluded_def)
  have env: "en_has_wg demo_env" "en_has_xray demo_env" "en_api demo_env = Some table_api" "iterates (en_order demo_env)"
    "peer_device (cl_device (en_client demo_env)) (cl_configure (en_client demo_env))"
    "xray_engine (xa_add table_api) (xa_remove table_api) map_of"
    "cl_device (en_client demo_env) ''wg0'' (ag_kernel demo_agent) = Some []"
    "map_of (ag_engine demo_agent) = view (ag_active demo_agent)" "finite (dom (ag_active demo_agent))"
    "ag_version demo_agent < 7"
    by (simp_all add: demo_env_def demo_agent_def sorted_order_iterates mock_client_def test_device.peer_device_axioms
        table_api_def table_engine.xray_engine_axioms mock_device_def) (simp add: view_def fun_eq_iff)
  have "\<exists>dev'. cl_device (en_client demo_env) ''wg0'' (ag_kernel ag') = Some dev' \<and>
      p_key ` set dev' = {key. \<exists>c\<in>wg_served ''n1'' 5 demo_db2. ps_key (en_parsers demo_env) (text_or [] (c_public c)) = Some key}"
    using full_update_delivers[OF demo_db2_ok n demo_build env h[unfolded built_update_def]] by blast
  then have "p_key ` set (ag_kernel ag') = {''pk''}"
    by (simp add: w demo_env_def mock_client_def mock_device_def demo_parsers_def demo_cred_def)
  then show ?thesis by (simp add: h)
qed

text \<open>
  Changes while a node is offline. A push to a node without a session leaves the stored
  version; when the agent, still at that version, registers again, the initial configuration is
  built under it, so the agent ignores it, whatever the configuration holds.
\<close>
theorem offline_change_ignored:
  assumes "sm_get (sv_mgr sv) nid = None" "GetConfigVersion nid (sv_db sv) = Inr v" "0 < v" "ag_version ag = v"
    and "PushNodeConfig nid now sv = (r, sv')"
    and "BuildConfig nid (currentConfigVersion nid (sv_db sv')) True later (sv_db sv') = Inr cu"
  shows "r = Some (PushSession ErrSessionNotFound) \<and> HandleConfigUpdate en (Some cu) ag = (None, ag)"
proof -
  have p: "r = Some (PushSession ErrSessionNotFound)" "sv' = sv"
    using assms(1,5) by (auto simp: PushNodeConfig_def)
  have "cu_version cu = v" using build_version[OF assms(6)] assms(2,3) by (simp add: p(2) currentConfigVersion_def)
  then show ?thesis using p(1) assms(4) by (simp add: HandleConfigUpdate_def)
qed

lemma offline_change_ignored_witness:
  "\<exists>cu. BuildConfig ''n1'' 1 True 9 demo_sdb = Inr cu \<and> served cu \<noteq> {} \<and>
     HandleConfigUpdate demo_env (Some cu) (demo_agent\<lparr>ag_version := 1\<rparr>) = (None, demo_agent\<lparr>ag_version := 1\<rparr>)"
proof -
  let ?sv = "demo_service\<lparr>sv_mgr := empty_manager\<rparr>"
  have g: "sm_get (sv_mgr ?sv) ''n1'' = None" "GetConfigVersion ''n1'' (sv_db ?sv) = Inr 1"
    by (simp_all add: sm_get_def empty_manager_def GetConfigVersion_def demo_service_simps demo_sdb_def demo_node_def)
  have p: "PushNodeConfig ''n1'' 5 ?sv = (Some (PushSession ErrSessionNotFound), ?sv)"
    unfolding PushNodeConfig_def g(1) by simp
  have "BuildConfig ''n1'' 1 True 9 demo_sdb = Inr (built_update\<lparr>cu_version := 1\<rparr>)"
    by (simp add: BuildConfig_def GetNodeByID_def demo_sdb_def demo_node_def ListActiveCredentialsByNode_def
        cred_active_def demo_cred_def demo_user_def GetUsersByIDs_def user_excluded_def built_update_def)
  then obtain cu where cu: "BuildConfig ''n1'' 1 True 9 demo_sdb = Inr cu" "served cu \<noteq> {}"
    by (auto simp: served_def built_update_def)
  then have "BuildConfig ''n1'' (currentConfigVersion ''n1'' (sv_db ?sv)) True 9 (sv_db ?sv) = Inr cu"
    using g(2) by (simp add: currentConfigVersion_def demo_service_simps)
  from offline_change_ignored[OF g _ _ p this, of "demo_agent\<lparr>ag_version := 1\<rparr>" demo_env] cu
  show ?thesis by simp
qed

end
